(* ===== verification/Prelude.thy ===== *)
theory Prelude
  imports Main "HOL-Library.Word"
begin

text \<open>
  Shared ground of the development: the theorem collections the component theories feed, the
  names of the model's basic types, and the list operations that SQL statements come down to
  (select, update and delete where a predicate holds) with the facts every table needs.
\<close>

section \<open>Collections\<close>

named_theorems io_elim \<comment> \<open>elimination rules of the statement monad, for successful runs\<close>
named_theorems io_err \<comment> \<open>elimination rules of the statement monad, for failed runs\<close>
named_theorems atomic_intro \<comment> \<open>rules that show an operation leaves the tables alone on error\<close>
named_theorems readonly_intro \<comment> \<open>rules that show an operation never writes\<close>

section \<open>Basic types\<close>

type_synonym byte = "8 word"
type_synonym gotime = int \<comment> \<open>a \<open>time.Time\<close>: nanoseconds since the Unix epoch\<close>
type_synonym unix = int \<comment> \<open>\<open>Time.Unix()\<close>: whole seconds since the epoch\<close>

abbreviation ns_per_s :: int where "ns_per_s \<equiv> 1000000000"

definition unix_of :: "gotime \<Rightarrow> unix" where
  "unix_of t = t div ns_per_s"

definition time_of_unix :: "unix \<Rightarrow> gotime" where
  "time_of_unix s = s * ns_per_s"

definition seconds :: "int \<Rightarrow> int" where
  "seconds n = n * ns_per_s"

definition minutes :: "int \<Rightarrow> int" where
  "minutes n = n * 60 * ns_per_s"

definition hours :: "int \<Rightarrow> int" where
  "hours n = n * 3600 * ns_per_s"

lemma unix_of_time_of_unix [simp]: "unix_of (time_of_unix s) = s"
  by (simp add: unix_of_def time_of_unix_def)

lemma unix_of_mono: "a \<le> b \<Longrightarrow> unix_of a \<le> unix_of b"
  by (simp add: unix_of_def zdiv_mono1)

lemma unix_of_add_hours [simp]: "unix_of (t + hours n) = unix_of t + n * 3600"
proof -
  have "t + hours n = t + (n * 3600) * ns_per_s"
    by (simp add: hours_def)
  then show ?thesis
    by (simp add: unix_of_def)
qed

section \<open>Rows\<close>

text \<open>
  A table is the list of its rows in the order they were inserted. \<open>UPDATE\<close> and \<open>DELETE\<close>
  with a \<open>WHERE\<close> clause are the two operations below; \<open>SELECT\<close> is \<open>filter\<close> or
  \<open>List.find\<close>.
\<close>

definition upd_where :: "('r \<Rightarrow> bool) \<Rightarrow> ('r \<Rightarrow> 'r) \<Rightarrow> 'r list \<Rightarrow> 'r list" where
  "upd_where p f rs = map (\<lambda>r. if p r then f r else r) rs"

definition del_where :: "('r \<Rightarrow> bool) \<Rightarrow> 'r list \<Rightarrow> 'r list" where
  "del_where p rs = filter (\<lambda>r. \<not> p r) rs"

definition count_where :: "('r \<Rightarrow> bool) \<Rightarrow> 'r list \<Rightarrow> nat" where
  "count_where p rs = length (filter p rs)"

definition exists_where :: "('r \<Rightarrow> bool) \<Rightarrow> 'r list \<Rightarrow> bool" where
  "exists_where p rs = list_ex p rs"

lemma upd_where_Nil [simp]: "upd_where p f [] = []"
  by (simp add: upd_where_def)

lemma upd_where_Cons [simp]:
  "upd_where p f (r # rs) = (if p r then f r else r) # upd_where p f rs"
  by (simp add: upd_where_def)

lemma upd_where_append [simp]: "upd_where p f (xs @ ys) = upd_where p f xs @ upd_where p f ys"
  by (simp add: upd_where_def)

lemma length_upd_where [simp]: "length (upd_where p f rs) = length rs"
  by (simp add: upd_where_def)

lemma set_upd_where: "set (upd_where p f rs) = (\<lambda>r. if p r then f r else r) ` set rs"
  by (simp add: upd_where_def)

lemma in_upd_whereE:
  assumes "r \<in> set (upd_where p f rs)"
  obtains r0 where "r0 \<in> set rs" "p r0" "r = f r0" | "r \<in> set rs" "\<not> p r"
  using assms by (auto simp: set_upd_where split: if_splits)

lemma map_upd_where_same: "(\<And>r. g (f r) = g r) \<Longrightarrow> map g (upd_where p f rs) = map g rs"
  by (simp add: upd_where_def)

lemma map_upd_where_same_on:
  "(\<And>r. r \<in> set rs \<Longrightarrow> p r \<Longrightarrow> g (f r) = g r) \<Longrightarrow> map g (upd_where p f rs) = map g rs"
  by (simp add: upd_where_def)

lemma upd_where_None: "\<not> exists_where p rs \<Longrightarrow> upd_where p f rs = rs"
  by (auto simp: upd_where_def exists_where_def list_ex_iff intro!: map_idI)

lemma del_where_Nil [simp]: "del_where p [] = []"
  by (simp add: del_where_def)

lemma del_where_Cons [simp]:
  "del_where p (r # rs) = (if p r then del_where p rs else r # del_where p rs)"
  by (simp add: del_where_def)

lemma del_where_append [simp]: "del_where p (xs @ ys) = del_where p xs @ del_where p ys"
  by (simp add: del_where_def)

lemma set_del_where [simp]: "set (del_where p rs) = {r \<in> set rs. \<not> p r}"
  by (auto simp: del_where_def)

lemma distinct_map_del_where [simp]:
  "distinct (map g rs) \<Longrightarrow> distinct (map g (del_where p rs))"
  by (simp add: del_where_def distinct_map_filter)

lemma del_where_None: "\<not> exists_where p rs \<Longrightarrow> del_where p rs = rs"
  by (auto simp: del_where_def exists_where_def list_ex_iff filter_id_conv)

lemma exists_where_iff [simp]: "exists_where p rs \<longleftrightarrow> (\<exists>r \<in> set rs. p r)"
  by (simp add: exists_where_def list_ex_iff)

lemma count_where_Nil [simp]: "count_where p [] = 0"
  by (simp add: count_where_def)

lemma count_where_Cons [simp]:
  "count_where p (r # rs) = (if p r then Suc (count_where p rs) else count_where p rs)"
  by (simp add: count_where_def)

lemma count_where_0_iff [simp]: "count_where p rs = 0 \<longleftrightarrow> (\<forall>r \<in> set rs. \<not> p r)"
  by (auto simp: count_where_def filter_empty_conv)

lemma count_where_pos_iff: "0 < count_where p rs \<longleftrightarrow> (\<exists>r \<in> set rs. p r)"
  by (auto simp: count_where_def filter_empty_conv)

lemma count_where_append [simp]: "count_where p (xs @ ys) = count_where p xs + count_where p ys"
  by (simp add: count_where_def)

lemma count_where_upd_where:
  "(\<And>r. r \<in> set rs \<Longrightarrow> q r \<Longrightarrow> p (f r) = p r) \<Longrightarrow>
    count_where p (upd_where q f rs) = count_where p rs"
  by (induction rs) auto

lemma filter_upd_where_other: "(\<And>r. p r \<Longrightarrow> \<not> q r \<and> \<not> q (f r)) \<Longrightarrow> filter q (upd_where p f rs) = filter q rs"
  by (induction rs) auto

lemma filter_del_where_other: "(\<And>r. r \<in> set rs \<Longrightarrow> p r \<Longrightarrow> \<not> q r) \<Longrightarrow> filter q (del_where p rs) = filter q rs"
  by (induction rs) auto

subsection \<open>Looking a row up\<close>

lemma find_SomeD: "List.find p rs = Some r \<Longrightarrow> r \<in> set rs \<and> p r"
  by (metis find_Some_iff nth_mem)

lemma find_NoneD: "List.find p rs = None \<Longrightarrow> r \<in> set rs \<Longrightarrow> \<not> p r"
  by (auto simp: find_None_iff)

lemma find_append_Some: "List.find p xs = Some r \<Longrightarrow> List.find p (xs @ ys) = Some r"
  by (induction xs) auto

lemma find_append_None: "List.find p xs = None \<Longrightarrow> List.find p (xs @ ys) = List.find p ys"
  by (induction xs) auto

text \<open>With a unique key, looking a key up finds exactly the row that carries it.\<close>

lemma find_by_key:
  assumes "distinct (map k rs)" and "r \<in> set rs"
  shows "List.find (\<lambda>x. k x = k r) rs = Some r"
  using assms by (induction rs) (auto simp: image_iff)

lemma distinct_key_inj: "distinct (map k rs) \<Longrightarrow> a \<in> set rs \<Longrightarrow> b \<in> set rs \<Longrightarrow> k a = k b \<Longrightarrow> a = b"
  by (auto simp: distinct_map inj_on_def)

lemma map_option_find_upd_where:
  assumes "\<And>r. r \<in> set rs \<Longrightarrow> p r \<Longrightarrow> q (f r) = q r"
  shows "List.find q (upd_where p f rs) =
    map_option (\<lambda>r. if p r then f r else r) (List.find q rs)"
  using assms by (induction rs) auto

lemma find_del_where_disjoint:
  "(\<And>r. q r \<Longrightarrow> \<not> p r) \<Longrightarrow> List.find q (del_where p rs) = List.find q rs"
  by (induction rs) auto

lemma find_del_where_same: "List.find p (del_where p rs) = None"
  by (induction rs) auto

subsection \<open>Sorting by a key\<close>

lemma set_sort_key_take: "set (take n (sort_key k xs)) \<subseteq> set xs"
  using set_take_subset [of n "sort_key k xs"] by simp

lemma sorted_map_filter_take: "sorted (map k xs) \<Longrightarrow> sorted (map k (take n xs))"
  by (simp add: take_map [symmetric] sorted_wrt_take)

end
