(* ===== verification/GoStrings.thy ===== *)
theory GoStrings
  imports Prelude
begin

text \<open>
  The part of Go's \<open>strings\<close>, \<open>unicode/utf8\<close>, \<open>strconv\<close> and \<open>encoding/base64\<close> packages that
  the program uses. A Go string is its bytes, so \<open>string\<close> here is a list of bytes and
  \<open>length\<close> is Go's \<open>len\<close>. Runes are decoded the way \<open>utf8.DecodeRune\<close> does, with
  \<open>U+FFFD\<close> and width 1 for an invalid byte. \<open>unicode.ToLower\<close> on runes above ASCII is the
  parameter \<open>low\<close> of the functions that use it.
\<close>

section \<open>UTF-8\<close>

abbreviation byte_at :: "string \<Rightarrow> nat \<Rightarrow> nat" where
  "byte_at s i \<equiv> of_char (s ! i)"

definition rune_error :: nat where
  "rune_error = 0xFFFD"

text \<open>Size announced by the first byte (0: no valid first byte) and range of the second byte.\<close>

definition rune_size :: "nat \<Rightarrow> nat" where
  "rune_size b =
    (if b < 0x80 then 1
     else if b < 0xC2 then 0
     else if b < 0xE0 then 2
     else if b < 0xF0 then 3
     else if b < 0xF5 then 4
     else 0)"

definition accept_lo :: "nat \<Rightarrow> nat" where
  "accept_lo b = (if b = 0xE0 then 0xA0 else if b = 0xF0 then 0x90 else 0x80)"

definition accept_hi :: "nat \<Rightarrow> nat" where
  "accept_hi b = (if b = 0xED then 0x9F else if b = 0xF4 then 0x8F else 0xBF)"

definition cont_byte :: "nat \<Rightarrow> bool" where
  "cont_byte b \<longleftrightarrow> 0x80 \<le> b \<and> b \<le> 0xBF"

definition decode_rune :: "string \<Rightarrow> nat \<times> nat" where
  "decode_rune s =
    (if s = [] then (rune_error, 0)
     else let b0 = byte_at s 0; n = rune_size b0 in
       if n = 1 then (b0, 1)
       else if n = 0 \<or> length s < n then (rune_error, 1)
       else if byte_at s 1 < accept_lo b0 \<or> accept_hi b0 < byte_at s 1 then (rune_error, 1)
       else if n = 2 then ((b0 - 0xC0) * 64 + (byte_at s 1 - 0x80), 2)
       else if \<not> cont_byte (byte_at s 2) then (rune_error, 1)
       else if n = 3 then
         ((b0 - 0xE0) * 4096 + (byte_at s 1 - 0x80) * 64 + (byte_at s 2 - 0x80), 3)
       else if \<not> cont_byte (byte_at s 3) then (rune_error, 1)
       else ((b0 - 0xF0) * 262144 + (byte_at s 1 - 0x80) * 4096
              + (byte_at s 2 - 0x80) * 64 + (byte_at s 3 - 0x80), 4))"

definition encode_rune :: "nat \<Rightarrow> string" where
  "encode_rune r =
    (if r < 0x80 then [char_of r]
     else if r < 0x800 then [char_of (0xC0 + r div 64), char_of (0x80 + r mod 64)]
     else if r > 0x10FFFF \<or> (0xD800 \<le> r \<and> r \<le> 0xDFFF) then
       [char_of (0xEF::nat), char_of (0xBF::nat), char_of (0xBD::nat)]
     else if r < 0x10000 then
       [char_of (0xE0 + r div 4096), char_of (0x80 + r div 64 mod 64), char_of (0x80 + r mod 64)]
     else [char_of (0xF0 + r div 262144), char_of (0x80 + r div 4096 mod 64),
           char_of (0x80 + r div 64 mod 64), char_of (0x80 + r mod 64)])"

lemma rune_size_cases: "rune_size b \<in> {0, 1, 2, 3, 4}"
  by (simp add: rune_size_def)

text \<open>Either the whole announced sequence decodes, or one byte is skipped as an error.\<close>

lemma decode_rune_width_cases:
  assumes "s \<noteq> []"
  shows "(snd (decode_rune s) = rune_size (byte_at s 0) \<and> 1 \<le> rune_size (byte_at s 0)
      \<and> rune_size (byte_at s 0) \<le> length s) \<or> decode_rune s = (rune_error, 1)"
proof -
  have "1 \<le> length s" using assms by (cases s) auto
  then show ?thesis
    using assms rune_size_cases [of "byte_at s 0"] by (auto simp: decode_rune_def Let_def)
qed

lemma decode_rune_width: "s \<noteq> [] \<Longrightarrow> 1 \<le> snd (decode_rune s) \<and> snd (decode_rune s) \<le> length s"
  using decode_rune_width_cases [of s] by (cases s) auto

text \<open>
  \<open>for i, r := range s\<close>: the runes of a string, each with the bytes it was decoded from. The
  loop ends because every rune takes at least one byte.
\<close>

function segs :: "string \<Rightarrow> (nat \<times> string) list" where
  "segs [] = []"
| "segs (c # cs) =
    (let (r, w) = decode_rune (c # cs) in (r, take w (c # cs)) # segs (drop w (c # cs)))"
  by pat_completeness auto
termination
proof (relation "measure length")
  show "wf (measure length)" by simp
next
  fix c cs x r w
  assume "x = decode_rune (c # cs)" and "(r, w) = x"
  then have "1 \<le> w" using decode_rune_width [of "c # cs"] by (metis list.distinct(1) snd_conv)
  then show "(drop w (c # cs), c # cs) \<in> measure length" by simp
qed

declare segs.simps(2) [simp del]

definition runes :: "string \<Rightarrow> nat list" where
  "runes s = map fst (segs s)"

definition rune_count :: "string \<Rightarrow> nat" where
  "rune_count s = length (segs s)"

definition seg_bytes :: "(nat \<times> string) list \<Rightarrow> string" where
  "seg_bytes xs = concat (map snd xs)"

lemma seg_bytes_simps [simp]:
  "seg_bytes [] = []" "seg_bytes (x # xs) = snd x @ seg_bytes xs"
  "seg_bytes (xs @ ys) = seg_bytes xs @ seg_bytes ys"
  by (simp_all add: seg_bytes_def)

lemma seg_bytes_segs [simp]: "seg_bytes (segs s) = s"
  by (induction s rule: segs.induct) (auto simp: segs.simps(2) split: prod.splits)

lemma segs_unfold:
  "s \<noteq> [] \<Longrightarrow> segs s = (fst (decode_rune s), take (snd (decode_rune s)) s) #
    segs (drop (snd (decode_rune s)) s)"
  by (cases s) (simp_all add: segs.simps(2) split: prod.splits)

lemma decode_rune_prefix:
  assumes p: "p \<noteq> []" and w: "snd (decode_rune (p @ q)) \<le> length p"
  shows "decode_rune p = decode_rune (p @ q)"
proof -
  have b0: "(p @ q) ! 0 = p ! 0" using p by (simp add: nth_append)
  let ?n = "rune_size (byte_at p 0)"
  show ?thesis
  proof (cases "length p < ?n")
    case True
    then have "decode_rune (p @ q) = (rune_error, 1)"
      using decode_rune_width_cases [of "p @ q"] p w b0 by auto
    moreover have "decode_rune p = (rune_error, 1)"
      using True decode_rune_width_cases [OF p] by auto
    ultimately show ?thesis by simp
  next
    case False
    then have "i < ?n \<Longrightarrow> (p @ q) ! i = p ! i" for i by (simp add: nth_append)
    then show ?thesis
      using False p b0 rune_size_cases [of "byte_at p 0"]
      by (auto simp: decode_rune_def Let_def)
  qed
qed

text \<open>Cutting a string between two of its runes does not change how it decodes.\<close>

lemma segs_split:
  "segs s = xs @ ys \<Longrightarrow> segs (seg_bytes xs) = xs \<and> segs (seg_bytes ys) = ys"
proof (induction xs arbitrary: s)
  case Nil
  then show ?case by (metis append_Nil seg_bytes_segs seg_bytes_simps(1) segs.simps(1))
next
  case (Cons x xs)
  then have ne: "s \<noteq> []" by auto
  let ?w = "snd (decode_rune s)"
  have w: "1 \<le> ?w" "?w \<le> length s" using decode_rune_width [OF ne] by auto
  from Cons.prems have x: "x = (fst (decode_rune s), take ?w s)"
    and rest: "segs (drop ?w s) = xs @ ys" by (simp_all add: segs_unfold [OF ne])
  from Cons.IH [OF rest] have IH: "segs (seg_bytes xs) = xs" "segs (seg_bytes ys) = ys" by auto
  have "drop ?w s = seg_bytes xs @ seg_bytes ys"
    by (metis rest seg_bytes_segs seg_bytes_simps(3))
  then have s: "s = (take ?w s @ seg_bytes xs) @ seg_bytes ys"
    by (metis append.assoc append_take_drop_id)
  let ?p = "take ?w s @ seg_bytes xs"
  have p: "?p \<noteq> []" "snd (decode_rune (?p @ seg_bytes ys)) \<le> length ?p"
    using w ne s by auto
  have dec: "decode_rune ?p = decode_rune s"
    using decode_rune_prefix [OF p] s by simp
  have "segs ?p = (fst (decode_rune s), take ?w ?p) # segs (drop ?w ?p)"
    using segs_unfold [OF p(1)] dec by simp
  moreover have "take ?w ?p = take ?w s" "drop ?w ?p = seg_bytes xs" using w by simp_all
  ultimately show ?case using IH x by simp
qed

section \<open>Trimming and splitting\<close>

text \<open>\<open>unicode.IsSpace\<close>: the Latin-1 spaces and the code points of \<open>White_Space\<close> above.\<close>

definition is_space :: "nat \<Rightarrow> bool" where
  "is_space r \<longleftrightarrow> (9 \<le> r \<and> r \<le> 13) \<or> r = 32 \<or> r = 0x85 \<or> r = 0xA0 \<or> r = 0x1680
     \<or> (0x2000 \<le> r \<and> r \<le> 0x200A) \<or> r = 0x2028 \<or> r = 0x2029 \<or> r = 0x202F \<or> r = 0x205F
     \<or> r = 0x3000"

definition trim_segs :: "(nat \<Rightarrow> bool) \<Rightarrow> (nat \<times> string) list \<Rightarrow> (nat \<times> string) list" where
  "trim_segs p xs =
    rev (dropWhile (\<lambda>x. p (fst x)) (rev (dropWhile (\<lambda>x. p (fst x)) xs)))"

definition trim_space :: "string \<Rightarrow> string" where
  "trim_space s = seg_bytes (trim_segs is_space (segs s))"

lemma trim_segs_split: "\<exists>as bs. xs = as @ trim_segs p xs @ bs"
proof -
  let ?q = "\<lambda>x. p (fst x)"
  let ?d = "dropWhile ?q xs"
  have "xs = takeWhile ?q xs @ ?d" by simp
  moreover have "?d = trim_segs p xs @ rev (takeWhile ?q (rev ?d))"
    unfolding trim_segs_def by (metis rev_append rev_rev_ident takeWhile_dropWhile_id)
  ultimately show ?thesis by metis
qed

lemma trim_segs_ends:
  "trim_segs p xs \<noteq> [] \<Longrightarrow> \<not> p (fst (hd (trim_segs p xs))) \<and> \<not> p (fst (last (trim_segs p xs)))"
proof -
  let ?q = "\<lambda>x. p (fst x)"
  let ?d = "dropWhile ?q xs" and ?e = "dropWhile ?q (rev (dropWhile ?q xs))"
  assume ne: "trim_segs p xs \<noteq> []"
  then have e: "?e \<noteq> []" by (simp add: trim_segs_def)
  then have last: "\<not> ?q (hd ?e)" by (rule hd_dropWhile)
  obtain zs where "rev ?d = zs @ ?e" by (metis takeWhile_dropWhile_id)
  then have d: "?d = rev ?e @ rev zs" by (metis rev_append rev_rev_ident)
  have "hd ?d = hd (rev ?e @ rev zs)" by (rule arg_cong [OF d])
  also have "\<dots> = hd (rev ?e)" using e by (metis Nil_is_rev_conv hd_append2)
  finally have "hd ?d = hd (rev ?e)" .
  moreover have "?d \<noteq> []" using e by (metis dropWhile.simps(1) rev.simps(1))
  then have "\<not> ?q (hd ?d)" by (rule hd_dropWhile)
  ultimately show ?thesis using e last by (simp add: trim_segs_def last_rev)
qed

lemma segs_trim_space: "segs (trim_space s) = trim_segs is_space (segs s)"
proof -
  obtain as bs where "segs s = as @ trim_segs is_space (segs s) @ bs"
    using trim_segs_split by blast
  then show ?thesis
    unfolding trim_space_def using segs_split by metis
qed

lemma trim_segs_id:
  assumes "xs = [] \<or> (\<not> p (fst (hd xs)) \<and> \<not> p (fst (last xs)))"
  shows "trim_segs p xs = xs"
proof (cases "xs = []")
  case False
  have drop_id: "ys \<noteq> [] \<Longrightarrow> \<not> p (fst (hd ys)) \<Longrightarrow> dropWhile (\<lambda>x. p (fst x)) ys = ys" for ys
    by (cases ys) auto
  have "dropWhile (\<lambda>x. p (fst x)) xs = xs" using assms False by (auto intro: drop_id)
  moreover have "dropWhile (\<lambda>x. p (fst x)) (rev xs) = rev xs"
    using assms False by (intro drop_id) (auto simp: hd_rev)
  ultimately show ?thesis by (simp add: trim_segs_def)
qed (simp add: trim_segs_def)

lemma trim_space_idem [simp]: "trim_space (trim_space s) = trim_space s"
proof -
  have "trim_segs is_space (trim_segs is_space (segs s)) = trim_segs is_space (segs s)"
    using trim_segs_ends [of is_space "segs s"] by (intro trim_segs_id) auto
  then show ?thesis
    unfolding trim_space_def [of "trim_space s"] segs_trim_space by (simp add: trim_space_def)
qed

lemma length_trim_space: "length (trim_space s) \<le> length s"
proof -
  obtain as bs where "segs s = as @ trim_segs is_space (segs s) @ bs"
    using trim_segs_split by blast
  then have "s = seg_bytes as @ trim_space s @ seg_bytes bs"
    unfolding trim_space_def by (metis seg_bytes_segs seg_bytes_simps(3))
  then show ?thesis by (metis le_add1 le_add2 length_append order_trans)
qed

section \<open>Case\<close>

definition ascii_lower :: "nat \<Rightarrow> nat" where
  "ascii_lower b = (if 65 \<le> b \<and> b \<le> 90 then b + 32 else b)"

text \<open>\<open>unicode.ToLower\<close>: ASCII here, the rest of the table is \<open>low\<close>.\<close>

definition lower_rune :: "(nat \<Rightarrow> nat) \<Rightarrow> nat \<Rightarrow> nat" where
  "lower_rune low r = (if r < 0x80 then ascii_lower r else low r)"

definition to_lower :: "(nat \<Rightarrow> nat) \<Rightarrow> string \<Rightarrow> string" where
  "to_lower low s = concat (map (\<lambda>r. encode_rune (lower_rune low r)) (runes s))"

text \<open>SQLite's \<open>NOCASE\<close> folds the 26 ASCII letters, byte by byte.\<close>

definition nocase_byte :: "char \<Rightarrow> char" where
  "nocase_byte c = char_of (ascii_lower (of_char c))"

definition nocase :: "string \<Rightarrow> string" where
  "nocase s = map nocase_byte s"

definition eq_nocase :: "string \<Rightarrow> string \<Rightarrow> bool" where
  "eq_nocase a b \<longleftrightarrow> nocase a = nocase b"

lemma of_char_less: "(of_char c :: nat) < 256"
  by (rule nat_of_char_less_256)

lemma of_char_nocase_byte: "(of_char (nocase_byte c) :: nat) = ascii_lower (of_char c)"
  using of_char_less [of c] by (simp add: nocase_byte_def ascii_lower_def)

lemma length_nocase [simp]: "length (nocase s) = length s"
  by (simp add: nocase_def)

lemma nocase_append [simp]: "nocase (a @ b) = nocase a @ nocase b"
  by (simp add: nocase_def)

lemma nocase_idem [simp]: "nocase (nocase s) = nocase s"
proof -
  have "nocase_byte (nocase_byte c) = nocase_byte c" for c
  proof -
    have "ascii_lower (ascii_lower (of_char c)) = ascii_lower (of_char c)"
      by (simp add: ascii_lower_def)
    then show ?thesis by (metis nocase_byte_def of_char_nocase_byte)
  qed
  then show ?thesis by (simp add: nocase_def)
qed

lemma eq_nocase_refl [simp]: "eq_nocase a a"
  by (simp add: eq_nocase_def)

lemma eq_nocase_sym: "eq_nocase a b = eq_nocase b a"
  by (auto simp: eq_nocase_def)

lemma eq_nocase_trans: "eq_nocase a b \<Longrightarrow> eq_nocase b c \<Longrightarrow> eq_nocase a c"
  by (simp add: eq_nocase_def)

text \<open>
  Folding ASCII letters commutes with decoding, so strings that are equal under \<open>NOCASE\<close> have
  the same \<open>strings.ToLower\<close> whatever the Unicode table says.
\<close>

lemma rune_size_lower [simp]: "rune_size (ascii_lower b) = rune_size b"
  by (simp add: rune_size_def ascii_lower_def)

lemma high_byte_lower: "0x80 \<le> b \<Longrightarrow> ascii_lower b = b"
  by (simp add: ascii_lower_def)

lemma byte_at_nocase: "i < length s \<Longrightarrow> byte_at (nocase s) i = ascii_lower (byte_at s i)"
  by (simp add: nocase_def of_char_nocase_byte)

lemma accept_lower [simp]:
  "accept_lo (ascii_lower b) = accept_lo b" "accept_hi (ascii_lower b) = accept_hi b"
  by (simp_all add: accept_lo_def accept_hi_def ascii_lower_def)

lemma accept_range_lower [simp]:
  "ascii_lower b < accept_lo x \<longleftrightarrow> b < accept_lo x"
  "accept_hi x < ascii_lower b \<longleftrightarrow> accept_hi x < b"
  by (auto simp: accept_lo_def accept_hi_def ascii_lower_def)

lemma cont_byte_lower [simp]: "cont_byte (ascii_lower b) = cont_byte b"
  by (auto simp: cont_byte_def ascii_lower_def)

lemma lower_accepted: "\<not> b < accept_lo x \<Longrightarrow> ascii_lower b = b"
  by (auto simp: accept_lo_def ascii_lower_def split: if_splits)

lemma lower_cont: "cont_byte b \<Longrightarrow> ascii_lower b = b"
  by (simp add: cont_byte_def ascii_lower_def)

lemma rune_size_bounds:
  "rune_size b = 2 \<Longrightarrow> 0xC2 \<le> b"
  "rune_size b = 3 \<Longrightarrow> 0xE0 \<le> b"
  "rune_size b = 4 \<Longrightarrow> 0xF0 \<le> b"
  by (simp_all add: rune_size_def split: if_splits)

lemma accept_lo_bounds: "0x80 \<le> accept_lo b" "accept_lo 0xE0 = 0xA0" "accept_lo 0xF0 = 0x90"
  by (simp_all add: accept_lo_def)

lemma decode_rune_high:
  assumes ne: "s \<noteq> []" and n1: "rune_size (byte_at s 0) \<noteq> 1"
  shows "0x80 \<le> fst (decode_rune s)"
proof (cases "decode_rune s = (rune_error, 1)")
  case False
  let ?b0 = "byte_at s 0" and ?b1 = "byte_at s 1" and ?n = "rune_size (byte_at s 0)"
  have ok: "?n \<noteq> 0" "accept_lo ?b0 \<le> ?b1"
    using False ne n1 by (auto simp: decode_rune_def Let_def split: if_splits)
  then have "?n = 2 \<or> ?n = 3 \<or> ?n = 4" using n1 rune_size_cases [of ?b0] by auto
  then show ?thesis
  proof (elim disjE)
    assume n: "?n = 2"
    then have "fst (decode_rune s) = (?b0 - 0xC0) * 64 + (?b1 - 0x80)"
      using False ne by (auto simp: decode_rune_def Let_def split: if_splits)
    then show ?thesis using rune_size_bounds(1) [OF n] by linarith
  next
    assume n: "?n = 3"
    then have eq: "fst (decode_rune s) =
        (?b0 - 0xE0) * 4096 + (?b1 - 0x80) * 64 + (byte_at s 2 - 0x80)"
      using False ne by (auto simp: decode_rune_def Let_def split: if_splits)
    show ?thesis
      using eq rune_size_bounds(2) [OF n] ok(2)
      by (cases "?b0 = 0xE0") (simp_all add: accept_lo_bounds)
  next
    assume n: "?n = 4"
    then have eq: "fst (decode_rune s) = (?b0 - 0xF0) * 262144 + (?b1 - 0x80) * 4096
        + (byte_at s 2 - 0x80) * 64 + (byte_at s 3 - 0x80)"
      using False ne by (auto simp: decode_rune_def Let_def split: if_splits)
    show ?thesis
      using eq rune_size_bounds(3) [OF n] ok(2)
      by (cases "?b0 = 0xF0") (simp_all add: accept_lo_bounds)
  qed
qed (simp add: rune_error_def)

lemma decode_rune_nocase_high:
  assumes ne: "s \<noteq> []" and n1: "rune_size (byte_at s 0) \<noteq> 1"
  shows "decode_rune (nocase s) = decode_rune s"
proof -
  let ?b0 = "byte_at s 0" and ?n = "rune_size (byte_at s 0)"
  have ne': "nocase s \<noteq> []" using ne by (simp add: nocase_def)
  have b0: "byte_at (nocase s) 0 = ascii_lower ?b0" using ne by (simp add: byte_at_nocase)
  have low: "ascii_lower ?b0 = ?b0"
    using n1 by (auto simp: rune_size_def ascii_lower_def split: if_splits)
  show ?thesis
  proof (cases "?n = 0 \<or> length s < ?n")
    case True
    then show ?thesis using n1 ne ne' b0 low by (auto simp: decode_rune_def Let_def)
  next
    case False
    then have at: "i < ?n \<Longrightarrow> byte_at (nocase s) i = ascii_lower (byte_at s i)" for i
      by (simp add: byte_at_nocase)
    from False have "?n = 2 \<or> ?n = 3 \<or> ?n = 4" using n1 rune_size_cases [of ?b0] by auto
    then show ?thesis
    proof (elim disjE)
      assume n: "?n = 2"
      then show ?thesis using False ne ne' b0 low at [of 1]
        by (simp add: decode_rune_def Let_def lower_accepted [of "byte_at s 1" ?b0, simplified])
    next
      assume n: "?n = 3"
      then show ?thesis using False ne ne' b0 low at [of 1] at [of 2]
        by (simp add: decode_rune_def Let_def lower_accepted [of "byte_at s 1" ?b0, simplified] lower_cont)
    next
      assume n: "?n = 4"
      then show ?thesis using False ne ne' b0 low at [of 1] at [of 2] at [of 3]
        by (simp add: decode_rune_def Let_def lower_accepted [of "byte_at s 1" ?b0, simplified] lower_cont)
    qed
  qed
qed

lemma decode_rune_ascii:
  "s \<noteq> [] \<Longrightarrow> rune_size (byte_at s 0) = 1 \<Longrightarrow> decode_rune s = (byte_at s 0, 1)"
  by (simp add: decode_rune_def Let_def)

lemma lower_decode_nocase:
  assumes ne: "s \<noteq> []"
  shows "lower_rune low (fst (decode_rune (nocase s))) = lower_rune low (fst (decode_rune s))
    \<and> snd (decode_rune (nocase s)) = snd (decode_rune s)"
proof (cases "rune_size (byte_at s 0) = 1")
  case True
  then have b: "byte_at s 0 < 0x80" by (simp add: rune_size_def split: if_splits)
  have ne': "nocase s \<noteq> []" using ne by (simp add: nocase_def)
  have b0: "byte_at (nocase s) 0 = ascii_lower (byte_at s 0)" using ne by (simp add: byte_at_nocase)
  then have "decode_rune (nocase s) = (ascii_lower (byte_at s 0), 1)"
    using decode_rune_ascii [OF ne'] True by simp
  moreover have "decode_rune s = (byte_at s 0, 1)" by (rule decode_rune_ascii [OF ne True])
  ultimately show ?thesis using b by (simp add: lower_rune_def ascii_lower_def)
qed (simp add: ne decode_rune_nocase_high)

lemma lower_runes_nocase: "map (lower_rune low) (runes (nocase s)) = map (lower_rune low) (runes s)"
proof (induction s rule: segs.induct)
  case (2 c cs)
  let ?s = "c # cs"
  let ?d = "decode_rune ?s" and ?e = "decode_rune (nocase ?s)"
  have ne: "?s \<noteq> []" "nocase ?s \<noteq> []" by (simp_all add: nocase_def)
  have d: "lower_rune low (fst ?e) = lower_rune low (fst ?d)" "snd ?e = snd ?d"
    using lower_decode_nocase [OF ne(1)] by auto
  have "map (lower_rune low) (runes (drop (snd ?d) (nocase ?s)))
      = map (lower_rune low) (runes (drop (snd ?d) ?s))"
    using "2.IH" [OF refl prod.collapse] by (simp only: nocase_def drop_map)
  then show ?case
    using d segs_unfold [OF ne(1)] segs_unfold [OF ne(2)] by (simp add: runes_def)
qed (simp add: nocase_def)

lemma to_lower_nocase: "to_lower low (nocase s) = to_lower low s"
proof -
  have "map (\<lambda>r. encode_rune (lower_rune low r)) xs = map encode_rune (map (lower_rune low) xs)" for xs
    by simp
  then show ?thesis unfolding to_lower_def by (simp only: lower_runes_nocase)
qed

lemma eq_nocase_to_lower: "eq_nocase a b \<Longrightarrow> to_lower low a = to_lower low b"
  by (metis eq_nocase_def to_lower_nocase)

section \<open>Pieces and tests\<close>

definition has_prefix :: "string \<Rightarrow> string \<Rightarrow> bool" where
  "has_prefix s p \<longleftrightarrow> take (length p) s = p"

definition has_suffix :: "string \<Rightarrow> string \<Rightarrow> bool" where
  "has_suffix s p \<longleftrightarrow> length p \<le> length s \<and> drop (length s - length p) s = p"

definition trim_prefix :: "string \<Rightarrow> string \<Rightarrow> string" where
  "trim_prefix s p = (if has_prefix s p then drop (length p) s else s)"

definition trim_suffix :: "string \<Rightarrow> string \<Rightarrow> string" where
  "trim_suffix s p = (if has_suffix s p then take (length s - length p) s else s)"

fun contains :: "string \<Rightarrow> string \<Rightarrow> bool" where
  "contains [] p = (p = [])"
| "contains (c # cs) p = (has_prefix (c # cs) p \<or> contains cs p)"

text \<open>\<open>strings.ContainsAny\<close> for a set of ASCII characters.\<close>

definition contains_any :: "string \<Rightarrow> string \<Rightarrow> bool" where
  "contains_any s cs = list_ex (\<lambda>c. c \<in> set cs) s"

text \<open>\<open>strings.Split\<close> at a one-character separator; the result is never empty.\<close>

fun split_char :: "char \<Rightarrow> string \<Rightarrow> string list" where
  "split_char d [] = [[]]"
| "split_char d (c # cs) =
    (if c = d then [] # split_char d cs
     else (case split_char d cs of [] \<Rightarrow> [[c]] | p # ps \<Rightarrow> (c # p) # ps))"

text \<open>\<open>strings.SplitN(s, d, 2)\<close>: the part before the first separator and the rest, if any.\<close>

fun cut_char :: "char \<Rightarrow> string \<Rightarrow> string \<times> string option" where
  "cut_char d [] = ([], None)"
| "cut_char d (c # cs) =
    (if c = d then ([], Some cs) else (case cut_char d cs of (a, b) \<Rightarrow> (c # a, b)))"

fun join :: "string \<Rightarrow> string list \<Rightarrow> string" where
  "join sep [] = []"
| "join sep [x] = x"
| "join sep (x # y # xs) = x @ sep @ join sep (y # xs)"

text \<open>\<open>strings.FieldsFunc\<close> and \<open>strings.Fields\<close>: maximal runs of runes that do not satisfy \<open>p\<close>.\<close>

function pieces :: "('a \<Rightarrow> bool) \<Rightarrow> 'a list \<Rightarrow> 'a list list" where
  "pieces p [] = []"
| "pieces p (x # xs) =
    (if p x then pieces p xs
     else (x # takeWhile (\<lambda>y. \<not> p y) xs) # pieces p (dropWhile (\<lambda>y. \<not> p y) xs))"
  by pat_completeness auto
termination
  by (relation "measure (length \<circ> snd)") (auto simp: le_imp_less_Suc length_dropWhile_le)

definition fields_func :: "(nat \<Rightarrow> bool) \<Rightarrow> string \<Rightarrow> string list" where
  "fields_func p s = map seg_bytes (pieces (\<lambda>x. p (fst x)) (segs s))"

definition str_fields :: "string \<Rightarrow> string list" where
  "str_fields s = fields_func is_space s"

lemma split_char_ne [simp]: "split_char d s \<noteq> []"
  by (induction s) (auto split: list.splits)

lemma split_char_append:
  "d \<notin> set a \<Longrightarrow> split_char d (a @ d # b) = a # split_char d b"
  by (induction a) auto

lemma split_char_none: "d \<notin> set a \<Longrightarrow> split_char d a = [a]"
  by (induction a) auto

lemma has_prefix_append [simp]: "has_prefix (p @ s) p"
  by (simp add: has_prefix_def)

section \<open>Integers\<close>

definition digit_val :: "char \<Rightarrow> nat option" where
  "digit_val c = (let b = of_char c :: nat in if 48 \<le> b \<and> b \<le> 57 then Some (b - 48) else None)"

fun digits_val :: "nat \<Rightarrow> string \<Rightarrow> nat option" where
  "digits_val acc [] = Some acc"
| "digits_val acc (c # cs) =
    (case digit_val c of None \<Rightarrow> None | Some d \<Rightarrow> digits_val (acc * 10 + d) cs)"

text \<open>\<open>strconv.Atoi\<close> on a 64-bit platform; \<open>None\<close> for a syntax or range error.\<close>

definition atoi :: "string \<Rightarrow> int option" where
  "atoi s =
    (let neg = has_prefix s ''-'';
         ds = (if neg \<or> has_prefix s ''+'' then drop 1 s else s)
     in if ds = [] then None
        else case digits_val 0 ds of
          None \<Rightarrow> None
        | Some n \<Rightarrow>
            let v = (if neg then - int n else int n)
            in if v < - (2 ^ 63) \<or> 2 ^ 63 \<le> v then None else Some v)"

text \<open>\<open>%d\<close> and \<open>strconv.Itoa\<close>.\<close>

fun show_nat :: "nat \<Rightarrow> string" where
  "show_nat n =
    (if n < 10 then [char_of (48 + n)] else show_nat (n div 10) @ [char_of (48 + n mod 10)])"

declare show_nat.simps [simp del]

definition show_int :: "int \<Rightarrow> string" where
  "show_int i = (if i < 0 then ''-'' @ show_nat (nat (- i)) else show_nat (nat i))"

lemma digits_val_append:
  "digits_val acc (xs @ ys) = (case digits_val acc xs of None \<Rightarrow> None | Some v \<Rightarrow> digits_val v ys)"
  by (induction xs arbitrary: acc) (auto split: option.splits)

lemma digit_val_char: "d < 10 \<Longrightarrow> digit_val (char_of (48 + d)) = Some d"
  by (simp add: digit_val_def)

lemma digits_val_show_nat: "digits_val 0 (show_nat n) = Some n"
proof (induction n rule: show_nat.induct)
  case (1 n)
  show ?case
  proof (cases "n < 10")
    case True
    then show ?thesis by (simp add: show_nat.simps [of n] digit_val_char)
  next
    case False
    with 1 show ?thesis
      by (simp add: show_nat.simps [of n] digits_val_append digit_val_char)
  qed
qed

lemma show_nat_chars: "c \<in> set (show_nat n) \<Longrightarrow> 48 \<le> (of_char c :: nat) \<and> (of_char c :: nat) \<le> 57"
proof (induction n rule: show_nat.induct)
  case (1 n)
  show ?case
  proof (cases "n < 10")
    case True
    then show ?thesis using "1.prems" by (auto simp: show_nat.simps [of n])
  next
    case False
    then have "c \<in> set (show_nat (n div 10)) \<or> c = char_of (48 + n mod 10)"
      using "1.prems" by (auto simp: show_nat.simps [of n])
    moreover have "n mod 10 < 10" by simp
    ultimately show ?thesis using False 1 by auto
  qed
qed

lemma show_nat_ne [simp]: "show_nat n \<noteq> []"
  by (simp add: show_nat.simps [of n])

section \<open>ASCII strings\<close>

text \<open>On ASCII strings the runes are the bytes; these equations evaluate the string functions there.\<close>

definition ascii :: "string \<Rightarrow> bool" where
  "ascii s = list_all (\<lambda>c. of_char c < (128::nat)) s"

definition trim_ascii :: "string \<Rightarrow> string" where
  "trim_ascii s = rev (dropWhile (\<lambda>c. is_space (of_char c)) (rev (dropWhile (\<lambda>c. is_space (of_char c)) s)))"

lemma ascii_simps [simp]: "ascii []" "ascii (c # cs) \<longleftrightarrow> of_char c < (128::nat) \<and> ascii cs"
  by (simp_all add: ascii_def)

lemma segs_ascii: "ascii s \<Longrightarrow> segs s = map (\<lambda>c. (of_char c, [c])) s"
proof (induction s)
  case (Cons c cs)
  then have "decode_rune (c # cs) = (of_char c, 1)" by (simp add: decode_rune_def rune_size_def)
  with Cons show ?case by (simp add: segs.simps(2))
qed simp

lemma seg_bytes_map: "seg_bytes (map (\<lambda>c. (f c, [c])) s) = s"
  by (induction s) simp_all

lemma dropWhile_map_fst: "dropWhile (\<lambda>x. p (fst x)) (map (\<lambda>c. (f c, [c])) s) =
    map (\<lambda>c. (f c, [c])) (dropWhile (\<lambda>c. p (f c)) s)"
  by (induction s) simp_all

lemma trim_space_ascii: "ascii s \<Longrightarrow> trim_space s = trim_ascii s"
  by (simp add: trim_space_def segs_ascii trim_segs_def trim_ascii_def dropWhile_map_fst
      rev_map seg_bytes_map)

lemma rune_count_ascii: "ascii s \<Longrightarrow> rune_count s = length s"
  by (simp add: rune_count_def segs_ascii)

lemma to_lower_ascii: "ascii s \<Longrightarrow> to_lower lo s = nocase s"
proof -
  have e: "of_char c < (128::nat) \<Longrightarrow> encode_rune (lower_rune lo (of_char c)) = [nocase_byte c]" for c
    by (auto simp: encode_rune_def lower_rune_def nocase_byte_def ascii_lower_def)
  show "ascii s \<Longrightarrow> to_lower lo s = nocase s"
    by (induction s) (simp_all add: to_lower_def runes_def segs_ascii nocase_def e)
qed

lemma pieces_map: "pieces (\<lambda>x. p (fst x)) (map (\<lambda>c. (f c, [c])) s) =
    map (map (\<lambda>c. (f c, [c]))) (pieces (\<lambda>c. p (f c)) s)"
  by (induction "\<lambda>c. p (f c)" s rule: pieces.induct)
    (simp_all add: takeWhile_map dropWhile_map comp_def)

lemma fields_func_ascii: "ascii s \<Longrightarrow> fields_func p s = pieces (\<lambda>c. p (of_char c)) s"
  by (simp add: fields_func_def segs_ascii pieces_map comp_def seg_bytes_map)

lemma nocase_byte_eval: "nocase_byte c =
    (if 65 \<le> (of_char c :: nat) \<and> (of_char c :: nat) \<le> 90 then char_of (of_char c + (32::nat)) else c)"
  by (auto simp: nocase_byte_def ascii_lower_def)

lemmas ascii_eval = trim_space_ascii rune_count_ascii to_lower_ascii str_fields_def fields_func_ascii
  trim_ascii_def is_space_def nocase_def nocase_byte_eval char_of_def bit_0 eq_nocase_def

end
