(* ===== verification/Io.thy ===== *)
theory Io
  imports GoStrings
begin

text \<open>
  How the store talks to SQLite: errors are values, every statement (\<open>Begin\<close>, a query, an
  \<open>Exec\<close>, \<open>Commit\<close>) may fail, a transaction that does not commit leaves the tables as they
  were, and random bytes come from a reader that can run dry. The faults are read off a schedule,
  one entry per statement, so that a theorem quantified over the connection covers every pattern of
  failures. \<open>RowsAffected\<close> never fails in the SQLite driver and has no entry.
\<close>

section \<open>Errors\<close>

text \<open>The sentinels of \<open>auth/auth.go\<close>, an error with a text of its own, a wrapped error
  (\<open>fmt.Errorf\<close> with \<open>%w\<close>) and what \<open>database/sql\<close> reports.\<close>

datatype err =
    ErrInvalidCredentials | ErrEmailExists | ErrInactive | ErrInvalidRole | ErrLastAdmin
  | ErrIdentityConflict | ErrAPITokenNotFound | ErrAPITokenNameExists | ErrBookListNotFound
  | ErrBookListNameExists | ErrReadingItemNotFound | ErrCopyrightClaimNotFound
  | ErrSystemAlertNotFound
  | ErrText string
  | ErrWrap string err
  | SqlNoRows
  | SqlConstraint string
  | IoFault

text \<open>\<open>errors.Is\<close>: the error itself or one it wraps.\<close>

fun is_err :: "err \<Rightarrow> err \<Rightarrow> bool" where
  "is_err (ErrWrap s e) t = (ErrWrap s e = t \<or> is_err e t)"
| "is_err e t = (e = t)"

lemma is_err_refl [simp]: "is_err e e"
  by (cases e) simp_all

text \<open>\<open>err.Error()\<close>; the driver's own texts are not modelled beyond the constraint's name.\<close>

fun error_text :: "err \<Rightarrow> string" where
  "error_text ErrInvalidCredentials = ''invalid email or password''"
| "error_text ErrEmailExists = ''an account with that email already exists''"
| "error_text ErrInactive = ''account is disabled''"
| "error_text ErrInvalidRole = ''invalid role''"
| "error_text ErrLastAdmin = ''the last active administrator cannot be demoted or disabled''"
| "error_text ErrIdentityConflict = ''the Google identity belongs to another account''"
| "error_text ErrAPITokenNotFound = ''API token not found''"
| "error_text ErrAPITokenNameExists = ''an API token with that name already exists''"
| "error_text ErrBookListNotFound = ''book list not found''"
| "error_text ErrBookListNameExists = ''a book list with that name already exists''"
| "error_text ErrReadingItemNotFound = ''bookmark or note not found''"
| "error_text ErrCopyrightClaimNotFound = ''copyright claim not found''"
| "error_text ErrSystemAlertNotFound = ''system alert not found''"
| "error_text (ErrText s) = s"
| "error_text (ErrWrap s e) = s @ '': '' @ error_text e"
| "error_text SqlNoRows = ''sql: no rows in result set''"
| "error_text (SqlConstraint s) = s"
| "error_text IoFault = ''disk I/O error''"

section \<open>The connection and its statements\<close>

record 'd conn =
  tables :: 'd
  entropy :: "byte list"
  faults :: "bool list"

type_synonym ('d, 'a) io = "'d conn \<Rightarrow> (err + 'a) \<times> 'd conn"

definition ret :: "'a \<Rightarrow> ('d, 'a) io" where
  "ret x = (\<lambda>c. (Inr x, c))"

definition throw :: "err \<Rightarrow> ('d, 'a) io" where
  "throw e = (\<lambda>c. (Inl e, c))"

definition bnd :: "('d, 'a) io \<Rightarrow> ('a \<Rightarrow> ('d, 'b) io) \<Rightarrow> ('d, 'b) io" where
  "bnd m f = (\<lambda>c. case m c of (Inl e, c') \<Rightarrow> (Inl e, c') | (Inr x, c') \<Rightarrow> f x c')"

text \<open>\<open>if cond { return err }\<close>\<close>

definition fail_if :: "bool \<Rightarrow> err \<Rightarrow> ('d, unit) io" where
  "fail_if b e = (if b then throw e else ret ())"

definition when_io :: "bool \<Rightarrow> ('d, unit) io \<Rightarrow> ('d, unit) io" where
  "when_io b m = (if b then m else ret ())"

definition of_result :: "err + 'a \<Rightarrow> ('d, 'a) io" where
  "of_result r = (\<lambda>c. (r, c))"

definition handle :: "('d, 'a) io \<Rightarrow> (err \<Rightarrow> ('d, 'a) io) \<Rightarrow> ('d, 'a) io" where
  "handle m h = (\<lambda>c. case m c of (Inl e, c') \<Rightarrow> h e c' | (Inr x, c') \<Rightarrow> (Inr x, c'))"

definition wrap_err :: "string \<Rightarrow> ('d, 'a) io \<Rightarrow> ('d, 'a) io" where
  "wrap_err s m = handle m (\<lambda>e. throw (ErrWrap s e))"

definition tick :: "('d, unit) io" where
  "tick = (\<lambda>c. case faults c of
      [] \<Rightarrow> (Inr (), c)
    | b # bs \<Rightarrow> (if b then Inl IoFault else Inr (), c\<lparr>faults := bs\<rparr>))"

definition query :: "('d \<Rightarrow> err + 'a) \<Rightarrow> ('d, 'a) io" where
  "query q = bnd tick (\<lambda>_ c. (q (tables c), c))"

text \<open>An \<open>Exec\<close> either violates a constraint and changes nothing, or gives the new tables and the
  number of rows affected.\<close>

definition exec :: "('d \<Rightarrow> err + 'd \<times> nat) \<Rightarrow> ('d, nat) io" where
  "exec st = bnd tick (\<lambda>_ c. case st (tables c) of
      Inl e \<Rightarrow> (Inl e, c)
    | Inr (d, n) \<Rightarrow> (Inr n, c\<lparr>tables := d\<rparr>))"

definition read_full :: "nat \<Rightarrow> ('d, byte list) io" where
  "read_full n = (\<lambda>c. if n \<le> length (entropy c)
      then (Inr (take n (entropy c)), c\<lparr>entropy := drop n (entropy c)\<rparr>)
      else (Inl (ErrText ''unexpected EOF''), c\<lparr>entropy := []\<rparr>))"

text \<open>
  A function that begins a transaction, defers \<open>Rollback\<close> and either commits or returns early.
  The body ends in \<open>Committed x\<close> where the code reaches \<open>tx.Commit()\<close> and in \<open>Abandoned x\<close> where it
  returns a value before that, which rolls back.
\<close>

datatype 'a outcome = Committed 'a | Abandoned 'a

definition commit :: "'a \<Rightarrow> ('d, 'a) io" where
  "commit x = (\<lambda>c. case tick c of (Inl e, c') \<Rightarrow> (Inl e, c') | (Inr _, c') \<Rightarrow> (Inr x, c'))"

definition settle :: "'d \<Rightarrow> (err + 'a outcome) \<times> 'd conn \<Rightarrow> (err + 'a) \<times> 'd conn" where
  "settle d0 r = (case r of
      (Inl e, c') \<Rightarrow> (Inl e, c'\<lparr>tables := d0\<rparr>)
    | (Inr (Abandoned x), c') \<Rightarrow> (Inr x, c'\<lparr>tables := d0\<rparr>)
    | (Inr (Committed x), c') \<Rightarrow> (case commit x c' of
        (Inl e, c'') \<Rightarrow> (Inl e, c''\<lparr>tables := d0\<rparr>)
      | (Inr y, c'') \<Rightarrow> (Inr y, c'')))"

definition tx_with :: "('d, 'a outcome) io \<Rightarrow> ('d, 'a) io" where
  "tx_with body = bnd tick (\<lambda>_ c. settle (tables c) (body c))"

definition tx :: "('d, 'a) io \<Rightarrow> ('d, 'a) io" where
  "tx body = tx_with (bnd body (\<lambda>x. ret (Committed x)))"

fun each :: "('b \<Rightarrow> ('d, unit) io) \<Rightarrow> 'b list \<Rightarrow> ('d, unit) io" where
  "each f [] = ret ()"
| "each f (x # xs) = bnd (f x) (\<lambda>_. each f xs)"

lemma bnd_ret [simp]: "bnd (ret x) f = f x"
  by (simp add: bnd_def ret_def)

lemma bnd_throw [simp]: "bnd (throw e) f = throw e"
  by (simp add: bnd_def throw_def)

lemma bnd_assoc: "bnd (bnd m f) g = bnd m (\<lambda>x. bnd (f x) g)"
  by (auto simp: bnd_def fun_eq_iff split: prod.splits sum.splits)

section \<open>Successful runs\<close>

lemma ret_InrE [io_elim]: "ret x c = (Inr y, c') \<Longrightarrow> (x = y \<Longrightarrow> c' = c \<Longrightarrow> P) \<Longrightarrow> P"
  by (simp add: ret_def)

lemma throw_InrE [io_elim]: "throw e c = (Inr y, c') \<Longrightarrow> P"
  by (simp add: throw_def)

lemma bnd_InrE [io_elim]:
  "bnd m f c = (Inr y, c') \<Longrightarrow> (\<And>x c1. m c = (Inr x, c1) \<Longrightarrow> f x c1 = (Inr y, c') \<Longrightarrow> P) \<Longrightarrow> P"
  by (auto simp: bnd_def split: prod.splits sum.splits)

lemma fail_if_InrE [io_elim]: "fail_if b e c = (Inr y, c') \<Longrightarrow> (\<not> b \<Longrightarrow> c' = c \<Longrightarrow> P) \<Longrightarrow> P"
  by (auto simp: fail_if_def throw_def ret_def split: if_splits)

lemma when_io_InrE [io_elim]:
  "when_io b m c = (Inr y, c') \<Longrightarrow> (b \<Longrightarrow> m c = (Inr y, c') \<Longrightarrow> P) \<Longrightarrow> (\<not> b \<Longrightarrow> c' = c \<Longrightarrow> P) \<Longrightarrow> P"
  by (auto simp: when_io_def ret_def split: if_splits)

lemma case_option_InrE [io_elim]:
  "(case x of None \<Rightarrow> m | Some z \<Rightarrow> f z) c = (Inr y, c') \<Longrightarrow> (x = None \<Longrightarrow> m c = (Inr y, c') \<Longrightarrow> P) \<Longrightarrow>
    (\<And>z. x = Some z \<Longrightarrow> f z c = (Inr y, c') \<Longrightarrow> P) \<Longrightarrow> P"
  by (cases x) simp_all

lemma of_result_InrE [io_elim]:
  "of_result r c = (Inr y, c') \<Longrightarrow> (r = Inr y \<Longrightarrow> c' = c \<Longrightarrow> P) \<Longrightarrow> P"
  by (simp add: of_result_def)

lemma wrap_err_InrE [io_elim]:
  "wrap_err s m c = (Inr y, c') \<Longrightarrow> (m c = (Inr y, c') \<Longrightarrow> P) \<Longrightarrow> P"
  by (auto simp: wrap_err_def handle_def throw_def split: prod.splits sum.splits)

lemma tick_InrE [io_elim]:
  "tick c = (Inr y, c') \<Longrightarrow> (\<And>fs. c' = c\<lparr>faults := fs\<rparr> \<Longrightarrow> P) \<Longrightarrow> P"
  by (auto simp: tick_def split: list.splits if_splits) (metis conn.surjective conn.update_convs(3))

lemma query_InrE [io_elim]:
  "query q c = (Inr y, c') \<Longrightarrow> (\<And>fs. q (tables c) = Inr y \<Longrightarrow> c' = c\<lparr>faults := fs\<rparr> \<Longrightarrow> P) \<Longrightarrow> P"
  unfolding query_def by (auto elim!: bnd_InrE tick_InrE)

lemma exec_InrE [io_elim]:
  "exec st c = (Inr n, c') \<Longrightarrow>
    (\<And>d fs. st (tables c) = Inr (d, n) \<Longrightarrow> c' = c\<lparr>faults := fs, tables := d\<rparr> \<Longrightarrow> P) \<Longrightarrow> P"
  unfolding exec_def by (auto elim!: bnd_InrE tick_InrE split: sum.splits)

lemma read_full_InrE [io_elim]:
  assumes "read_full n c = (Inr bs, c')"
  obtains rest where "length bs = n" "entropy c = bs @ rest" "c' = c\<lparr>entropy := rest\<rparr>"
  using assms by (auto simp: read_full_def split: if_splits intro!: that [of "entropy c'"])

lemma commit_InrE:
  "commit x c = (Inr y, c') \<Longrightarrow> (\<And>fs. y = x \<Longrightarrow> c' = c\<lparr>faults := fs\<rparr> \<Longrightarrow> P) \<Longrightarrow> P"
  by (auto simp: commit_def split: prod.splits sum.splits elim!: tick_InrE)

lemma settle_InrE:
  assumes "settle d0 (r, c1) = (Inr x, c')"
  obtains (committed) fs where "r = Inr (Committed x)" "c' = c1\<lparr>faults := fs\<rparr>"
  | (abandoned) "r = Inr (Abandoned x)" "c' = c1\<lparr>tables := d0\<rparr>"
proof (cases r)
  case (Inl e)
  then show ?thesis using assms by (simp add: settle_def)
next
  case (Inr y)
  show ?thesis
  proof (cases y)
    case (Abandoned z)
    with Inr show ?thesis using assms abandoned by (simp add: settle_def)
  next
    case (Committed z)
    then have "commit z c1 = (Inr x, c')"
      using assms Inr by (auto simp: settle_def split: prod.splits sum.splits)
    then show ?thesis by (rule commit_InrE) (use Inr Committed committed in blast)
  qed
qed

lemma tx_with_InrE:
  assumes "tx_with body c = (Inr x, c')"
  obtains (committed) fs c1 fs' where "body (c\<lparr>faults := fs\<rparr>) = (Inr (Committed x), c1)"
      "c' = c1\<lparr>faults := fs'\<rparr>"
  | (abandoned) fs c1 where "body (c\<lparr>faults := fs\<rparr>) = (Inr (Abandoned x), c1)"
      "c' = c1\<lparr>tables := tables c\<rparr>"
proof -
  obtain fs where *: "settle (tables c) (body (c\<lparr>faults := fs\<rparr>)) = (Inr x, c')"
    using assms unfolding tx_with_def by (elim bnd_InrE tick_InrE) simp
  obtain r c1 where b: "body (c\<lparr>faults := fs\<rparr>) = (r, c1)" by fastforce
  from *[unfolded b] show ?thesis
  proof (cases rule: settle_InrE)
    case (committed fs')
    then show ?thesis using b that(1) by blast
  next
    case abandoned
    then show ?thesis using b that(2) by blast
  qed
qed

lemma tx_InrE [io_elim]:
  "tx body c = (Inr x, c') \<Longrightarrow>
    (\<And>fs c1 fs'. body (c\<lparr>faults := fs\<rparr>) = (Inr x, c1) \<Longrightarrow> c' = c1\<lparr>faults := fs'\<rparr> \<Longrightarrow> P) \<Longrightarrow> P"
  unfolding tx_def by (erule tx_with_InrE; elim bnd_InrE ret_InrE; simp)

lemma handle_InrE:
  assumes "handle m h c = (Inr y, c')"
  obtains (plain) "m c = (Inr y, c')" | (handled) e c1 where "m c = (Inl e, c1)" "h e c1 = (Inr y, c')"
  using assms by (auto simp: handle_def split: prod.splits sum.splits)

lemma tick_InlE: "tick c = (Inl e, c') \<Longrightarrow> (\<And>fs. e = IoFault \<Longrightarrow> c' = c\<lparr>faults := fs\<rparr> \<Longrightarrow> P) \<Longrightarrow> P"
  by (auto simp: tick_def split: list.splits if_splits)

lemma query_InlE [io_err]:
  assumes "query q c = (Inl e, c')"
  obtains (fault) fs where "e = IoFault" "c' = c\<lparr>faults := fs\<rparr>"
  | (result) fs where "q (tables c) = Inl e" "c' = c\<lparr>faults := fs\<rparr>"
proof -
  obtain r c1 where t: "tick c = (r, c1)" by fastforce
  show ?thesis
  proof (cases r)
    case (Inl e')
    with t assms have "tick c = (Inl e, c')" by (simp add: query_def bnd_def)
    then show ?thesis by (rule tick_InlE) (rule fault)
  next
    case (Inr u)
    with t obtain fs where "c1 = c\<lparr>faults := fs\<rparr>" by (auto elim: tick_InrE)
    moreover have "q (tables c1) = Inl e" "c' = c1"
      using t Inr assms by (auto simp: query_def bnd_def)
    ultimately show ?thesis using result [of fs] by simp
  qed
qed

lemma ret_InlE [io_err]: "ret x c = (Inl e, c') \<Longrightarrow> P"
  by (simp add: ret_def)

lemma throw_InlE [io_err]: "throw x c = (Inl e, c') \<Longrightarrow> (e = x \<Longrightarrow> c' = c \<Longrightarrow> P) \<Longrightarrow> P"
  by (simp add: throw_def)

lemma bnd_InlE [io_err]:
  "bnd m f c = (Inl e, c') \<Longrightarrow> (m c = (Inl e, c') \<Longrightarrow> P) \<Longrightarrow>
    (\<And>x c1. m c = (Inr x, c1) \<Longrightarrow> f x c1 = (Inl e, c') \<Longrightarrow> P) \<Longrightarrow> P"
  by (auto simp: bnd_def split: prod.splits sum.splits)

lemma fail_if_InlE [io_err]:
  "fail_if b x c = (Inl e, c') \<Longrightarrow> (b \<Longrightarrow> e = x \<Longrightarrow> c' = c \<Longrightarrow> P) \<Longrightarrow> P"
  by (auto simp: fail_if_def throw_def ret_def split: if_splits)

lemma of_result_InlE [io_err]:
  "of_result r c = (Inl e, c') \<Longrightarrow> (r = Inl e \<Longrightarrow> c' = c \<Longrightarrow> P) \<Longrightarrow> P"
  by (simp add: of_result_def)

lemma exec_InlE [io_err]:
  assumes "exec st c = (Inl e, c')"
  obtains (fault) "e = IoFault" | (result) "st (tables c) = Inl e"
  using assms unfolding exec_def
  by (elim bnd_InlE tick_InlE tick_InrE) (auto split: sum.splits)

section \<open>Runs without faults\<close>

lemma tick_ok [simp]: "faults c = [] \<Longrightarrow> tick c = (Inr (), c)"
  by (simp add: tick_def)

lemma query_ok [simp]: "faults c = [] \<Longrightarrow> query q c = (q (tables c), c)"
  by (simp add: query_def bnd_def)

lemma exec_ok [simp]: "faults c = [] \<Longrightarrow> exec st c =
    (case st (tables c) of Inl e \<Rightarrow> (Inl e, c) | Inr (d, n) \<Rightarrow> (Inr n, c\<lparr>tables := d\<rparr>))"
  by (simp add: exec_def bnd_def)

lemmas run_defs = when_io_def bnd_def ret_def throw_def fail_if_def of_result_def handle_def wrap_err_def
  tx_def tx_with_def settle_def commit_def

section \<open>Atomic and read-only operations\<close>

definition atomic :: "('d, 'a) io \<Rightarrow> bool" where
  "atomic m \<longleftrightarrow> (\<forall>c e c'. m c = (Inl e, c') \<longrightarrow> tables c' = tables c)"

definition readonly :: "('d, 'a) io \<Rightarrow> bool" where
  "readonly m \<longleftrightarrow> (\<forall>c. tables (snd (m c)) = tables c)"

lemma readonlyD: "readonly m \<Longrightarrow> m c = (r, c') \<Longrightarrow> tables c' = tables c"
  by (metis readonly_def snd_conv)

lemma atomicD: "atomic m \<Longrightarrow> m c = (Inl e, c') \<Longrightarrow> tables c' = tables c"
  by (simp add: atomic_def)

lemma tick_tables [simp]: "tables (snd (tick c)) = tables c"
  by (simp add: tick_def split: list.splits)

lemma readonly_ret [readonly_intro]: "readonly (ret x)"
  by (simp add: readonly_def ret_def)

lemma readonly_throw [readonly_intro]: "readonly (throw e)"
  by (simp add: readonly_def throw_def)

lemma readonly_fail_if [readonly_intro]: "readonly (fail_if b e)"
  by (simp add: fail_if_def readonly_intro)

lemma readonly_when_io [readonly_intro]: "readonly m \<Longrightarrow> readonly (when_io b m)"
  by (simp add: when_io_def readonly_ret)

lemma readonly_of_result [readonly_intro]: "readonly (of_result r)"
  by (simp add: readonly_def of_result_def)

lemma readonly_tick [readonly_intro]: "readonly tick"
  by (simp add: readonly_def)

lemma readonly_bnd [readonly_intro]:
  assumes "readonly m" and "\<And>x. readonly (f x)"
  shows "readonly (bnd m f)"
proof (unfold readonly_def, rule allI)
  fix c
  obtain r c1 where m: "m c = (r, c1)" by fastforce
  with assms(1) have "tables c1 = tables c" by (auto dest: readonlyD)
  with m assms(2) show "tables (snd (bnd m f c)) = tables c"
    by (cases r) (simp_all add: bnd_def readonly_def)
qed

lemma readonly_query [readonly_intro]: "readonly (query q)"
  unfolding query_def by (intro readonly_bnd readonly_tick) (simp add: readonly_def)

lemma readonly_read_full [readonly_intro]: "readonly (read_full n)"
  by (simp add: readonly_def read_full_def)

lemma readonly_handle [readonly_intro]:
  assumes "readonly m" and "\<And>e. readonly (h e)"
  shows "readonly (handle m h)"
proof (unfold readonly_def, rule allI)
  fix c
  obtain r c1 where m: "m c = (r, c1)" by fastforce
  with assms(1) have "tables c1 = tables c" by (auto dest: readonlyD)
  with m assms(2) show "tables (snd (handle m h c)) = tables c"
    by (cases r) (simp_all add: handle_def readonly_def)
qed

lemma readonly_wrap_err [readonly_intro]: "readonly m \<Longrightarrow> readonly (wrap_err s m)"
  unfolding wrap_err_def by (intro readonly_handle readonly_throw)

lemma atomic_readonly [atomic_intro]: "readonly m \<Longrightarrow> atomic m"
  by (auto simp: atomic_def dest: readonlyD)

lemma atomic_bnd [atomic_intro]:
  assumes "readonly m" and "\<And>x. atomic (f x)"
  shows "atomic (bnd m f)"
  using assms unfolding atomic_def bnd_def
  by (auto split: prod.splits sum.splits dest: readonlyD)

lemma atomic_exec [atomic_intro]: "atomic (exec st)"
  unfolding exec_def
  by (intro atomic_bnd readonly_tick) (auto simp: atomic_def split: sum.splits)

lemma settle_Inl_tables: "settle d0 r = (Inl e, c') \<Longrightarrow> tables c' = d0"
  by (auto simp: settle_def split: prod.splits sum.splits outcome.splits)

lemma atomic_tx_with [atomic_intro]: "atomic (tx_with body)"
  unfolding tx_with_def
  by (intro atomic_bnd readonly_tick) (auto simp: atomic_def dest: settle_Inl_tables)

lemma atomic_tx [atomic_intro]: "atomic (tx body)"
  unfolding tx_def by (rule atomic_tx_with)

text \<open>A statement followed by a step that cannot fail, and one followed by the check of the number
  of rows it affected, where no row affected means nothing changed.\<close>

lemma atomic_bnd_ret [atomic_intro]: "atomic m \<Longrightarrow> atomic (bnd m (\<lambda>x. ret (g x)))"
  unfolding atomic_def bnd_def ret_def by (auto split: prod.splits sum.splits)

lemma atomic_exec_affected:
  assumes "\<And>d d'. st d = Inr (d', 0) \<Longrightarrow> d' = d"
  shows "atomic (bnd (exec st) (\<lambda>n. fail_if (n = 0) e))"
proof (unfold atomic_def, intro allI impI)
  fix c c' :: "'a conn" and e'
  assume *: "bnd (exec st) (\<lambda>n. fail_if (n = 0) e) c = (Inl e', c')"
  then consider "exec st c = (Inl e', c')" | "exec st c = (Inr 0, c')"
    by (auto simp: bnd_def fail_if_def throw_def ret_def split: prod.splits sum.splits if_splits)
  then show "tables c' = tables c"
  proof cases
    case 1
    then show ?thesis using atomicD [OF atomic_exec] by blast
  next
    case 2
    then show ?thesis using assms by (auto elim!: exec_InrE)
  qed
qed

text \<open>An atomic operation keeps an invariant of the tables when its successful runs do.\<close>

definition preserves :: "('d \<Rightarrow> bool) \<Rightarrow> ('d, 'a) io \<Rightarrow> bool" where
  "preserves I m \<longleftrightarrow> (\<forall>c. I (tables c) \<longrightarrow> I (tables (snd (m c))))"

lemma preserves_atomic:
  fixes m :: "('d, 'a) io"
  assumes "atomic m" and "\<And>c x c'. I (tables c) \<Longrightarrow> m c = (Inr x, c') \<Longrightarrow> I (tables c')"
  shows "preserves I m"
proof (unfold preserves_def, intro allI impI)
  fix c :: "'d conn"
  assume "I (tables c)"
  moreover obtain r c' where "m c = (r, c')" by fastforce
  ultimately show "I (tables (snd (m c)))"
    using assms by (cases r) (auto dest: atomicD)
qed

lemma preserves_readonly: "readonly m \<Longrightarrow> preserves I m"
  by (simp add: preserves_def readonly_def)

lemma preservesD: "preserves I m \<Longrightarrow> I (tables c) \<Longrightarrow> m c = (r, c') \<Longrightarrow> I (tables c')"
  by (metis preserves_def snd_conv)

lemma preserves_bnd: "preserves I m \<Longrightarrow> (\<And>x. preserves I (f x)) \<Longrightarrow> preserves I (bnd m f)"
  unfolding preserves_def bnd_def by (auto split: prod.splits sum.splits)

lemma preserves_exec: "(\<And>d d' n. I d \<Longrightarrow> st d = Inr (d', n) \<Longrightarrow> I d') \<Longrightarrow> preserves I (exec st)"
  by (rule preserves_atomic [OF atomic_exec]) (auto elim!: exec_InrE)

lemma preserves_wrap_err: "preserves I m \<Longrightarrow> preserves I (wrap_err s m)"
  unfolding preserves_def wrap_err_def handle_def throw_def by (auto split: prod.splits sum.splits)

lemma preserves_each: "(\<And>x. x \<in> set xs \<Longrightarrow> preserves I (f x)) \<Longrightarrow> preserves I (each f xs)"
  by (induction xs) (auto intro!: preserves_bnd preserves_readonly [OF readonly_ret])

end
