(* ===== verification/Tables.thy ===== *)
theory Tables
  imports Io "HOL-Library.List_Lexorder"
begin

text \<open>
  The SQLite database of \<open>auth/sqlite.go\<close> at schema version 11: one record per row of each table,
  the columns in the order of the migrations, a nullable column an option, a 0/1 column a bool,
  instants in whole Unix seconds. A table is the list of its rows in insertion order. Each table
  comes with the constraints its \<open>CREATE TABLE\<close> declares; a statement that would break one fails
  and changes nothing. Rows are written through table descriptors, whose laws are the locale
  \<open>table\<close>, interpreted once for every table.
\<close>

section \<open>Rows\<close>

record user_row =
  u_id :: string
  u_email :: string
  u_name :: string
  u_role :: string
  u_active :: bool
  u_password_hash :: string
  u_google_subject :: "string option"
  u_created_at :: unix
  u_updated_at :: unix
  u_last_login_at :: "unix option"
  u_last_ip :: string
  u_allow_share :: bool
  u_language :: string
  u_display_name :: string
  u_bio :: string
  u_location :: string

record session_row =
  s_token_hash :: string
  s_user_id :: string
  s_created_at :: unix
  s_expires_at :: unix

record settings_row =
  g_site_name :: string
  g_pwa_name :: string
  g_registration_open :: bool
  g_anonymous_book_links :: bool

record token_row =
  t_token_hash :: string
  t_user_id :: string
  t_name :: string
  t_created_at :: unix
  t_last_used_at :: "unix option"
  t_expires_at :: "unix option"

record activity_row =
  a_user_id :: string
  a_book_id :: string
  a_last_read_at :: unix

record list_row =
  l_id :: string
  l_user_id :: string
  l_name :: string
  l_created_at :: unix
  l_updated_at :: unix

record list_item_row =
  i_list_id :: string
  i_book_id :: string
  i_added_at :: unix

record tag_row =
  b_user_id :: string
  b_book_id :: string
  b_tag :: string
  b_created_at :: unix

record reading_row =
  r_id :: string
  r_user_id :: string
  r_book_id :: string
  r_kind :: string
  r_locator :: string
  r_locator_label :: string
  r_title :: string
  r_body :: string
  r_excerpt :: string
  r_created_at :: unix
  r_updated_at :: unix

record reading_tag_row =
  rt_item_id :: string
  rt_tag :: string
  rt_created_at :: unix

record request_row =
  q_id :: string
  q_user_id :: string
  q_title :: string
  q_author :: string
  q_notes :: string
  q_status :: string
  q_book_id :: string
  q_message :: string
  q_created_at :: unix
  q_updated_at :: unix

record claim_row =
  c_id :: string
  c_user_id :: "string option"
  c_claimant_name :: string
  c_claimant_email :: string
  c_book_id :: string
  c_book_title :: string
  c_source_url :: string
  c_details :: string
  c_status :: string
  c_resolution :: string
  c_created_at :: unix
  c_updated_at :: unix

record alert_row =
  m_id :: string
  m_key :: string
  m_source :: string
  m_title :: string
  m_details :: string
  m_status :: string
  m_resolution :: string
  m_occurrences :: int
  m_first_seen_at :: unix
  m_last_seen_at :: unix
  m_resolved_at :: "unix option"
  m_acknowledged_at :: "unix option"
  m_acknowledged_by :: "string option"

record db =
  users :: "user_row list"
  sessions :: "session_row list"
  settings_tab :: "settings_row list"
  api_tokens :: "token_row list"
  activity :: "activity_row list"
  book_lists :: "list_row list"
  list_items :: "list_item_row list"
  book_tags :: "tag_row list"
  reading_items :: "reading_row list"
  reading_tags :: "reading_tag_row list"
  book_requests :: "request_row list"
  claims :: "claim_row list"
  alerts :: "alert_row list"

type_synonym 'a db_io = "(db, 'a) io"

section \<open>Constraints\<close>

definition unique :: "('r \<Rightarrow> 'k) \<Rightarrow> 'r list \<Rightarrow> bool" where
  "unique k rs = distinct (map k rs)"

definition user_ids :: "db \<Rightarrow> string list" where
  "user_ids d = map u_id (users d)"

text \<open>The first declared constraint the rows would break, by the text SQLite reports.\<close>

fun first_broken :: "(bool \<times> string) list \<Rightarrow> string option" where
  "first_broken [] = None"
| "first_broken ((ok, msg) # cs) = (if ok then first_broken cs else Some msg)"

lemma first_broken_None [simp]: "first_broken ((ok, msg) # cs) = None \<longleftrightarrow> ok \<and> first_broken cs = None"
  by simp

lemma first_broken_eval [simp]: "first_broken ((True, msg) # cs) = first_broken cs"
  "first_broken ((False, msg) # cs) = Some msg"
  by simp_all

declare first_broken.simps(2) [simp del]

definition users_broken :: "db \<Rightarrow> user_row list \<Rightarrow> string option" where
  "users_broken d rs = first_broken [
    (list_all (\<lambda>r. u_role r \<in> {''reader'', ''manager'', ''admin''}) rs, ''CHECK constraint failed: users.role''),
    (unique u_id rs, ''UNIQUE constraint failed: users.id''),
    (unique (\<lambda>r. nocase (u_email r)) rs, ''UNIQUE constraint failed: users.email''),
    (distinct (List.map_filter u_google_subject rs), ''UNIQUE constraint failed: users.google_subject'')]"

definition sessions_broken :: "db \<Rightarrow> session_row list \<Rightarrow> string option" where
  "sessions_broken d rs = first_broken [
    (unique s_token_hash rs, ''UNIQUE constraint failed: sessions.token_hash''),
    (list_all (\<lambda>r. s_user_id r \<in> set (user_ids d)) rs, ''FOREIGN KEY constraint failed'')]"

definition settings_broken :: "db \<Rightarrow> settings_row list \<Rightarrow> string option" where
  "settings_broken d rs = first_broken [(length rs \<le> 1, ''UNIQUE constraint failed: settings.id'')]"

definition tokens_broken :: "db \<Rightarrow> token_row list \<Rightarrow> string option" where
  "tokens_broken d rs = first_broken [
    (unique t_token_hash rs, ''UNIQUE constraint failed: api_tokens.token_hash''),
    (unique (\<lambda>r. (t_user_id r, nocase (t_name r))) rs,
      ''UNIQUE constraint failed: api_tokens.user_id, api_tokens.name''),
    (list_all (\<lambda>r. t_user_id r \<in> set (user_ids d)) rs, ''FOREIGN KEY constraint failed'')]"

definition activity_broken :: "db \<Rightarrow> activity_row list \<Rightarrow> string option" where
  "activity_broken d rs = first_broken [
    (unique (\<lambda>r. (a_user_id r, a_book_id r)) rs,
      ''UNIQUE constraint failed: user_book_activity.user_id, user_book_activity.book_id''),
    (list_all (\<lambda>r. a_user_id r \<in> set (user_ids d)) rs, ''FOREIGN KEY constraint failed'')]"

definition lists_broken :: "db \<Rightarrow> list_row list \<Rightarrow> string option" where
  "lists_broken d rs = first_broken [
    (unique l_id rs, ''UNIQUE constraint failed: user_book_lists.id''),
    (unique (\<lambda>r. (l_user_id r, nocase (l_name r))) rs,
      ''UNIQUE constraint failed: user_book_lists.user_id, user_book_lists.name''),
    (list_all (\<lambda>r. l_user_id r \<in> set (user_ids d)) rs, ''FOREIGN KEY constraint failed'')]"

definition list_items_broken :: "db \<Rightarrow> list_item_row list \<Rightarrow> string option" where
  "list_items_broken d rs = first_broken [
    (unique (\<lambda>r. (i_list_id r, i_book_id r)) rs,
      ''UNIQUE constraint failed: user_book_list_items.list_id, user_book_list_items.book_id''),
    (list_all (\<lambda>r. i_list_id r \<in> set (map l_id (book_lists d))) rs, ''FOREIGN KEY constraint failed'')]"

definition tags_broken :: "db \<Rightarrow> tag_row list \<Rightarrow> string option" where
  "tags_broken d rs = first_broken [
    (unique (\<lambda>r. (b_user_id r, b_book_id r, nocase (b_tag r))) rs,
      ''UNIQUE constraint failed: user_book_tags.user_id, user_book_tags.book_id, user_book_tags.tag''),
    (list_all (\<lambda>r. b_user_id r \<in> set (user_ids d)) rs, ''FOREIGN KEY constraint failed'')]"

definition reading_broken :: "db \<Rightarrow> reading_row list \<Rightarrow> string option" where
  "reading_broken d rs = first_broken [
    (list_all (\<lambda>r. r_kind r \<in> {''bookmark'', ''note''}) rs, ''CHECK constraint failed: kind''),
    (unique r_id rs, ''UNIQUE constraint failed: user_reading_items.id''),
    (list_all (\<lambda>r. r_user_id r \<in> set (user_ids d)) rs, ''FOREIGN KEY constraint failed'')]"

definition reading_tags_broken :: "db \<Rightarrow> reading_tag_row list \<Rightarrow> string option" where
  "reading_tags_broken d rs = first_broken [
    (unique (\<lambda>r. (rt_item_id r, nocase (rt_tag r))) rs,
      ''UNIQUE constraint failed: user_reading_item_tags.item_id, user_reading_item_tags.tag''),
    (list_all (\<lambda>r. rt_item_id r \<in> set (map r_id (reading_items d))) rs,
      ''FOREIGN KEY constraint failed'')]"

definition requests_broken :: "db \<Rightarrow> request_row list \<Rightarrow> string option" where
  "requests_broken d rs = first_broken [
    (list_all (\<lambda>r. q_status r \<in> {''pending'', ''added'', ''unavailable''}) rs,
      ''CHECK constraint failed: status''),
    (unique q_id rs, ''UNIQUE constraint failed: book_requests.id''),
    (list_all (\<lambda>r. q_user_id r \<in> set (user_ids d)) rs, ''FOREIGN KEY constraint failed'')]"

definition claims_broken :: "db \<Rightarrow> claim_row list \<Rightarrow> string option" where
  "claims_broken d rs = first_broken [
    (list_all (\<lambda>r. c_status r \<in> {''pending'', ''removed'', ''resolved''}) rs,
      ''CHECK constraint failed: status''),
    (unique c_id rs, ''UNIQUE constraint failed: copyright_claims.id''),
    (list_all (\<lambda>r. set_option (c_user_id r) \<subseteq> set (user_ids d)) rs, ''FOREIGN KEY constraint failed'')]"

definition alerts_broken :: "db \<Rightarrow> alert_row list \<Rightarrow> string option" where
  "alerts_broken d rs = first_broken [
    (list_all (\<lambda>r. m_status r \<in> {''open'', ''resolved''}) rs, ''CHECK constraint failed: status''),
    (unique m_id rs, ''UNIQUE constraint failed: system_alerts.id''),
    (unique m_key (filter (\<lambda>r. m_status r = ''open'') rs),
      ''UNIQUE constraint failed: system_alerts.alert_key''),
    (list_all (\<lambda>r. set_option (m_acknowledged_by r) \<subseteq> set (user_ids d)) rs,
      ''FOREIGN KEY constraint failed'')]"

lemmas broken_defs = users_broken_def sessions_broken_def settings_broken_def tokens_broken_def
  activity_broken_def lists_broken_def list_items_broken_def tags_broken_def reading_broken_def
  reading_tags_broken_def requests_broken_def claims_broken_def alerts_broken_def

section \<open>Statements\<close>

record 'r tbl =
  tab_rows :: "db \<Rightarrow> 'r list"
  tab_put :: "'r list \<Rightarrow> db \<Rightarrow> db"
  tab_broken :: "db \<Rightarrow> 'r list \<Rightarrow> string option"

definition write_rows :: "'r tbl \<Rightarrow> 'r list \<Rightarrow> nat \<Rightarrow> db \<Rightarrow> err + db \<times> nat" where
  "write_rows t rs n d = (case tab_broken t d rs of
      Some msg \<Rightarrow> Inl (SqlConstraint msg)
    | None \<Rightarrow> Inr (tab_put t rs d, n))"

definition insert_into :: "'r tbl \<Rightarrow> 'r \<Rightarrow> db \<Rightarrow> err + db \<times> nat" where
  "insert_into t r d = write_rows t (tab_rows t d @ [r]) 1 d"

definition update_tab :: "'r tbl \<Rightarrow> ('r \<Rightarrow> bool) \<Rightarrow> ('r \<Rightarrow> 'r) \<Rightarrow> db \<Rightarrow> err + db \<times> nat" where
  "update_tab t p f d = write_rows t (upd_where p f (tab_rows t d)) (count_where p (tab_rows t d)) d"

definition delete_from :: "'r tbl \<Rightarrow> ('r \<Rightarrow> bool) \<Rightarrow> db \<Rightarrow> err + db \<times> nat" where
  "delete_from t p d = Inr (tab_put t (del_where p (tab_rows t d)) d, count_where p (tab_rows t d))"

text \<open>\<open>INSERT OR IGNORE\<close>: a conflict on the key skips the row; a foreign key still fails.\<close>

definition insert_or_ignore :: "'r tbl \<Rightarrow> ('r \<Rightarrow> 'k) \<Rightarrow> 'r \<Rightarrow> db \<Rightarrow> err + db \<times> nat" where
  "insert_or_ignore t k r d =
    (if exists_where (\<lambda>x. k x = k r) (tab_rows t d) then Inr (d, 0) else insert_into t r d)"

text \<open>\<open>INSERT ... ON CONFLICT(key) DO UPDATE\<close>\<close>

definition upsert :: "'r tbl \<Rightarrow> ('r \<Rightarrow> 'k) \<Rightarrow> 'r \<Rightarrow> ('r \<Rightarrow> 'r) \<Rightarrow> db \<Rightarrow> err + db \<times> nat" where
  "upsert t k r f d =
    (if exists_where (\<lambda>x. k x = k r) (tab_rows t d) then update_tab t (\<lambda>x. k x = k r) f d
     else insert_into t r d)"

text \<open>\<open>QueryRow(...).Scan\<close>\<close>

definition one_row :: "'r option \<Rightarrow> err + 'r" where
  "one_row r = (case r of None \<Rightarrow> Inl SqlNoRows | Some x \<Rightarrow> Inr x)"

lemma one_row_Inr_iff [simp]: "one_row r = Inr x \<longleftrightarrow> r = Some x"
  by (simp add: one_row_def split: option.splits)

lemma one_row_Inl_iff [simp]: "one_row r = Inl e \<longleftrightarrow> r = None \<and> e = SqlNoRows"
  by (auto simp: one_row_def split: option.splits)

section \<open>Table descriptors\<close>

definition users_t :: "user_row tbl" where
  "users_t = \<lparr>tab_rows = users, tab_put = (\<lambda>rs d. d\<lparr>users := rs\<rparr>), tab_broken = users_broken\<rparr>"

definition sessions_t :: "session_row tbl" where
  "sessions_t = \<lparr>tab_rows = sessions, tab_put = (\<lambda>rs d. d\<lparr>sessions := rs\<rparr>), tab_broken = sessions_broken\<rparr>"

definition settings_t :: "settings_row tbl" where
  "settings_t = \<lparr>tab_rows = settings_tab, tab_put = (\<lambda>rs d. d\<lparr>settings_tab := rs\<rparr>),
    tab_broken = settings_broken\<rparr>"

definition tokens_t :: "token_row tbl" where
  "tokens_t = \<lparr>tab_rows = api_tokens, tab_put = (\<lambda>rs d. d\<lparr>api_tokens := rs\<rparr>), tab_broken = tokens_broken\<rparr>"

definition activity_t :: "activity_row tbl" where
  "activity_t = \<lparr>tab_rows = activity, tab_put = (\<lambda>rs d. d\<lparr>activity := rs\<rparr>), tab_broken = activity_broken\<rparr>"

definition lists_t :: "list_row tbl" where
  "lists_t = \<lparr>tab_rows = book_lists, tab_put = (\<lambda>rs d. d\<lparr>book_lists := rs\<rparr>), tab_broken = lists_broken\<rparr>"

definition list_items_t :: "list_item_row tbl" where
  "list_items_t = \<lparr>tab_rows = list_items, tab_put = (\<lambda>rs d. d\<lparr>list_items := rs\<rparr>),
    tab_broken = list_items_broken\<rparr>"

definition tags_t :: "tag_row tbl" where
  "tags_t = \<lparr>tab_rows = book_tags, tab_put = (\<lambda>rs d. d\<lparr>book_tags := rs\<rparr>), tab_broken = tags_broken\<rparr>"

definition reading_t :: "reading_row tbl" where
  "reading_t = \<lparr>tab_rows = reading_items, tab_put = (\<lambda>rs d. d\<lparr>reading_items := rs\<rparr>),
    tab_broken = reading_broken\<rparr>"

definition reading_tags_t :: "reading_tag_row tbl" where
  "reading_tags_t = \<lparr>tab_rows = reading_tags, tab_put = (\<lambda>rs d. d\<lparr>reading_tags := rs\<rparr>),
    tab_broken = reading_tags_broken\<rparr>"

definition requests_t :: "request_row tbl" where
  "requests_t = \<lparr>tab_rows = book_requests, tab_put = (\<lambda>rs d. d\<lparr>book_requests := rs\<rparr>),
    tab_broken = requests_broken\<rparr>"

definition claims_t :: "claim_row tbl" where
  "claims_t = \<lparr>tab_rows = claims, tab_put = (\<lambda>rs d. d\<lparr>claims := rs\<rparr>), tab_broken = claims_broken\<rparr>"

definition alerts_t :: "alert_row tbl" where
  "alerts_t = \<lparr>tab_rows = alerts, tab_put = (\<lambda>rs d. d\<lparr>alerts := rs\<rparr>), tab_broken = alerts_broken\<rparr>"

lemmas tbl_defs = users_t_def sessions_t_def settings_t_def tokens_t_def activity_t_def lists_t_def
  list_items_t_def tags_t_def reading_t_def reading_tags_t_def requests_t_def claims_t_def alerts_t_def

lemma tbl_simps [simp]:
  "tab_rows users_t = users" "tab_put users_t rs d = d\<lparr>users := rs\<rparr>" "tab_broken users_t = users_broken"
  "tab_rows sessions_t = sessions" "tab_put sessions_t ss d = d\<lparr>sessions := ss\<rparr>"
  "tab_broken sessions_t = sessions_broken"
  "tab_rows settings_t = settings_tab" "tab_put settings_t gs d = d\<lparr>settings_tab := gs\<rparr>"
  "tab_broken settings_t = settings_broken"
  "tab_rows tokens_t = api_tokens" "tab_put tokens_t ts d = d\<lparr>api_tokens := ts\<rparr>"
  "tab_broken tokens_t = tokens_broken"
  "tab_rows activity_t = activity" "tab_put activity_t as d = d\<lparr>activity := as\<rparr>"
  "tab_broken activity_t = activity_broken"
  "tab_rows lists_t = book_lists" "tab_put lists_t ls d = d\<lparr>book_lists := ls\<rparr>"
  "tab_broken lists_t = lists_broken"
  "tab_rows list_items_t = list_items" "tab_put list_items_t is d = d\<lparr>list_items := is\<rparr>"
  "tab_broken list_items_t = list_items_broken"
  "tab_rows tags_t = book_tags" "tab_put tags_t bs d = d\<lparr>book_tags := bs\<rparr>"
  "tab_broken tags_t = tags_broken"
  "tab_rows reading_t = reading_items" "tab_put reading_t xs d = d\<lparr>reading_items := xs\<rparr>"
  "tab_broken reading_t = reading_broken"
  "tab_rows reading_tags_t = reading_tags" "tab_put reading_tags_t ys d = d\<lparr>reading_tags := ys\<rparr>"
  "tab_broken reading_tags_t = reading_tags_broken"
  "tab_rows requests_t = book_requests" "tab_put requests_t qs d = d\<lparr>book_requests := qs\<rparr>"
  "tab_broken requests_t = requests_broken"
  "tab_rows claims_t = claims" "tab_put claims_t cs d = d\<lparr>claims := cs\<rparr>"
  "tab_broken claims_t = claims_broken"
  "tab_rows alerts_t = alerts" "tab_put alerts_t ms d = d\<lparr>alerts := ms\<rparr>"
  "tab_broken alerts_t = alerts_broken"
  by (simp_all add: tbl_defs)

section \<open>What a statement does\<close>

lemma write_rows_Inr_iff:
  "write_rows t rs n d = Inr (d', k) \<longleftrightarrow> tab_broken t d rs = None \<and> d' = tab_put t rs d \<and> k = n"
  by (auto simp: write_rows_def split: option.splits)

lemma write_rows_Inl_iff:
  "write_rows t rs n d = Inl e \<longleftrightarrow> (\<exists>m. tab_broken t d rs = Some m \<and> e = SqlConstraint m)"
  by (auto simp: write_rows_def split: option.splits)

lemma insert_into_Inr_iff [simp]:
  "insert_into t r d = Inr (d', k) \<longleftrightarrow>
    tab_broken t d (tab_rows t d @ [r]) = None \<and> d' = tab_put t (tab_rows t d @ [r]) d \<and> k = 1"
  by (simp add: insert_into_def write_rows_Inr_iff)

lemma delete_from_Inr_iff [simp]:
  "delete_from t p d = Inr (d', k) \<longleftrightarrow>
    d' = tab_put t (del_where p (tab_rows t d)) d \<and> k = count_where p (tab_rows t d)"
  by (auto simp: delete_from_def)

lemma update_tab_Inr_iff [simp]:
  "update_tab t p f d = Inr (d', k) \<longleftrightarrow>
    tab_broken t d (upd_where p f (tab_rows t d)) = None \<and>
    d' = tab_put t (upd_where p f (tab_rows t d)) d \<and> k = count_where p (tab_rows t d)"
  by (simp add: update_tab_def write_rows_Inr_iff)

locale table =
  fixes t :: "'r tbl"
  assumes put_put: "tab_put t b (tab_put t a d) = tab_put t b d"
    and put_rows: "tab_put t (tab_rows t d) d = d"
    and rows_put: "tab_rows t (tab_put t a d) = a"
begin

lemma update_zero: "update_tab t p f d = Inr (d', 0) \<Longrightarrow> d' = d"
proof -
  assume *: "update_tab t p f d = Inr (d', 0)"
  then have "count_where p (tab_rows t d) = 0" by (simp del: count_where_0_iff)
  then have "upd_where p f (tab_rows t d) = tab_rows t d" by (intro upd_where_None) simp
  with * show ?thesis by (simp add: put_rows)
qed

lemma delete_zero: "delete_from t p d = Inr (d', 0) \<Longrightarrow> d' = d"
proof -
  assume *: "delete_from t p d = Inr (d', 0)"
  then have "count_where p (tab_rows t d) = 0" by (simp del: count_where_0_iff)
  then have "del_where p (tab_rows t d) = tab_rows t d" by (intro del_where_None) simp
  with * show ?thesis by (simp add: put_rows)
qed

lemma insert_rows: "insert_into t r d = Inr (d', k) \<Longrightarrow> tab_rows t d' = tab_rows t d @ [r]"
  by (simp add: rows_put)

lemma update_rows: "update_tab t p f d = Inr (d', k) \<Longrightarrow> tab_rows t d' = upd_where p f (tab_rows t d)"
  by (simp add: rows_put)

lemma delete_rows: "delete_from t p d = Inr (d', k) \<Longrightarrow> tab_rows t d' = del_where p (tab_rows t d)"
  by (simp add: rows_put)

lemma atomic_update: "atomic (bnd (exec (update_tab t p f)) (\<lambda>n. fail_if (n = 0) e))"
  by (rule atomic_exec_affected) (rule update_zero)

lemma atomic_delete: "atomic (bnd (exec (delete_from t p)) (\<lambda>n. fail_if (n = 0) e))"
  by (rule atomic_exec_affected) (rule delete_zero)

end

interpretation users_t: table users_t by unfold_locales simp_all
interpretation sessions_t: table sessions_t by unfold_locales simp_all
interpretation settings_t: table settings_t by unfold_locales simp_all
interpretation tokens_t: table tokens_t by unfold_locales simp_all
interpretation activity_t: table activity_t by unfold_locales simp_all
interpretation lists_t: table lists_t by unfold_locales simp_all
interpretation list_items_t: table list_items_t by unfold_locales simp_all
interpretation tags_t: table tags_t by unfold_locales simp_all
interpretation reading_t: table reading_t by unfold_locales simp_all
interpretation reading_tags_t: table reading_tags_t by unfold_locales simp_all
interpretation requests_t: table requests_t by unfold_locales simp_all
interpretation claims_t: table claims_t by unfold_locales simp_all
interpretation alerts_t: table alerts_t by unfold_locales simp_all

lemmas atomic_affected [atomic_intro] = users_t.atomic_update tokens_t.atomic_delete
  requests_t.atomic_update claims_t.atomic_update alerts_t.atomic_update lists_t.atomic_delete
  reading_t.atomic_delete

section \<open>A well-formed database\<close>

text \<open>Every declared constraint holds of the rows that are there.\<close>

definition db_ok :: "db \<Rightarrow> bool" where
  "db_ok d \<longleftrightarrow>
    users_broken d (users d) = None \<and> sessions_broken d (sessions d) = None \<and>
    settings_broken d (settings_tab d) = None \<and> tokens_broken d (api_tokens d) = None \<and>
    activity_broken d (activity d) = None \<and> lists_broken d (book_lists d) = None \<and>
    list_items_broken d (list_items d) = None \<and> tags_broken d (book_tags d) = None \<and>
    reading_broken d (reading_items d) = None \<and> reading_tags_broken d (reading_tags d) = None \<and>
    requests_broken d (book_requests d) = None \<and> claims_broken d (claims d) = None \<and>
    alerts_broken d (alerts d) = None"

text \<open>Writing rows that pass their own constraints keeps the database well formed. The foreign keys
  only look at the ids of users, lists and reading items.\<close>

lemma fk_mono: "list_all (\<lambda>r. g r \<in> A) rs \<Longrightarrow> A \<subseteq> B \<Longrightarrow> list_all (\<lambda>r. g r \<in> B) rs"
  by (auto simp: list_all_iff)

lemma fk_null_mono:
  "list_all (\<lambda>r. set_option (g r) \<subseteq> A) rs \<Longrightarrow> A \<subseteq> B \<Longrightarrow> list_all (\<lambda>r. set_option (g r) \<subseteq> B) rs"
  by (auto simp: list_all_iff)

lemma db_ok_users:
  assumes ok: "db_ok d" and us: "users_broken d us = None" and sub: "set (user_ids d) \<subseteq> set (map u_id us)"
  shows "db_ok (d\<lparr>users := us\<rparr>)"
proof -
  have ids: "user_ids (d\<lparr>users := us\<rparr>) = map u_id us" by (simp add: user_ids_def)
  show ?thesis
    using ok us unfolding db_ok_def broken_defs ids
    by (simp del: set_map) (intro conjI; (elim conjE)?; (rule fk_mono [OF _ sub] fk_null_mono [OF _ sub])?; assumption)
qed

lemma db_ok_sessions: "db_ok d \<Longrightarrow> sessions_broken d rs = None \<Longrightarrow> db_ok (d\<lparr>sessions := rs\<rparr>)"
  by (simp add: db_ok_def broken_defs user_ids_def)

lemma db_ok_settings: "db_ok d \<Longrightarrow> settings_broken d rs = None \<Longrightarrow> db_ok (d\<lparr>settings_tab := rs\<rparr>)"
  by (simp add: db_ok_def broken_defs user_ids_def)

lemma db_ok_tokens: "db_ok d \<Longrightarrow> tokens_broken d rs = None \<Longrightarrow> db_ok (d\<lparr>api_tokens := rs\<rparr>)"
  by (simp add: db_ok_def broken_defs user_ids_def)

lemma db_ok_activity: "db_ok d \<Longrightarrow> activity_broken d rs = None \<Longrightarrow> db_ok (d\<lparr>activity := rs\<rparr>)"
  by (simp add: db_ok_def broken_defs user_ids_def)

lemma db_ok_list_items: "db_ok d \<Longrightarrow> list_items_broken d rs = None \<Longrightarrow> db_ok (d\<lparr>list_items := rs\<rparr>)"
  by (simp add: db_ok_def broken_defs user_ids_def)

lemma db_ok_tags: "db_ok d \<Longrightarrow> tags_broken d rs = None \<Longrightarrow> db_ok (d\<lparr>book_tags := rs\<rparr>)"
  by (simp add: db_ok_def broken_defs user_ids_def)

lemma db_ok_reading_tags: "db_ok d \<Longrightarrow> reading_tags_broken d rs = None \<Longrightarrow> db_ok (d\<lparr>reading_tags := rs\<rparr>)"
  by (simp add: db_ok_def broken_defs user_ids_def)

lemma db_ok_requests: "db_ok d \<Longrightarrow> requests_broken d rs = None \<Longrightarrow> db_ok (d\<lparr>book_requests := rs\<rparr>)"
  by (simp add: db_ok_def broken_defs user_ids_def)

lemma db_ok_claims: "db_ok d \<Longrightarrow> claims_broken d rs = None \<Longrightarrow> db_ok (d\<lparr>claims := rs\<rparr>)"
  by (simp add: db_ok_def broken_defs user_ids_def)

lemma db_ok_alerts: "db_ok d \<Longrightarrow> alerts_broken d rs = None \<Longrightarrow> db_ok (d\<lparr>alerts := rs\<rparr>)"
  by (simp add: db_ok_def broken_defs user_ids_def)

lemma db_ok_lists:
  assumes "db_ok d" and "lists_broken d rs = None" and "set (map l_id (book_lists d)) \<subseteq> set (map l_id rs)"
  shows "db_ok (d\<lparr>book_lists := rs\<rparr>)"
  using assms unfolding db_ok_def broken_defs user_ids_def by (auto simp: list_all_iff)

lemma db_ok_reading:
  assumes "db_ok d" and "reading_broken d rs = None" and "set (map r_id (reading_items d)) \<subseteq> set (map r_id rs)"
  shows "db_ok (d\<lparr>reading_items := rs\<rparr>)"
  using assms unfolding db_ok_def broken_defs user_ids_def by (auto simp: list_all_iff)

text \<open>Deleting rows cannot break a constraint.\<close>

lemma unique_del_where: "unique k rs \<Longrightarrow> unique k (del_where p rs)"
  by (simp add: unique_def)

lemma list_all_del_where: "list_all q rs \<Longrightarrow> list_all q (del_where p rs)"
  by (simp add: list_all_iff)

lemma broken_del_where:
  "sessions_broken d ss = None \<Longrightarrow> sessions_broken d (del_where ps ss) = None"
  "tokens_broken d ts = None \<Longrightarrow> tokens_broken d (del_where pt ts) = None"
  "list_items_broken d is = None \<Longrightarrow> list_items_broken d (del_where pi is) = None"
  "tags_broken d bs = None \<Longrightarrow> tags_broken d (del_where pb bs) = None"
  "reading_tags_broken d rs = None \<Longrightarrow> reading_tags_broken d (del_where pr rs) = None"
  by (simp_all add: broken_defs unique_del_where list_all_del_where)

lemma alerts_broken_del_where: "alerts_broken d ms = None \<Longrightarrow> alerts_broken d (del_where p ms) = None"
proof -
  have "filter (\<lambda>r. m_status r = ''open'') (del_where p ms) = del_where p (filter (\<lambda>r. m_status r = ''open'') ms)"
    by (simp add: del_where_def conj_commute)
  then show "alerts_broken d ms = None \<Longrightarrow> ?thesis"
    by (simp add: broken_defs unique_del_where list_all_del_where)
qed

lemma db_ok_del_sessions: "db_ok d \<Longrightarrow> db_ok (d\<lparr>sessions := del_where p (sessions d)\<rparr>)"
  by (intro db_ok_sessions broken_del_where) (simp_all add: db_ok_def)

lemma db_ok_del_tokens: "db_ok d \<Longrightarrow> db_ok (d\<lparr>api_tokens := del_where p (api_tokens d)\<rparr>)"
  by (intro db_ok_tokens broken_del_where) (simp_all add: db_ok_def)

lemma user_ids_upd_where: "(\<And>r. u_id (f r) = u_id r) \<Longrightarrow> set (user_ids d) \<subseteq> set (map u_id (upd_where p f (users d)))"
  by (simp add: user_ids_def map_upd_where_same del: set_map)

lemma db_ok_upd_users:
  "db_ok d \<Longrightarrow> users_broken d (upd_where p f (users d)) = None \<Longrightarrow> (\<And>r. u_id (f r) = u_id r) \<Longrightarrow>
    db_ok (d\<lparr>users := upd_where p f (users d)\<rparr>)"
  by (intro db_ok_users user_ids_upd_where)

lemma db_ok_ins_users:
  "db_ok d \<Longrightarrow> users_broken d (users d @ [r]) = None \<Longrightarrow> db_ok (d\<lparr>users := users d @ [r]\<rparr>)"
  by (intro db_ok_users) (auto simp: user_ids_def)

lemma db_ok_unique:
  assumes "db_ok d"
  shows "distinct (map u_id (users d))" "distinct (map (\<lambda>r. nocase (u_email r)) (users d))"
    "distinct (map s_token_hash (sessions d))" "distinct (map t_token_hash (api_tokens d))"
    "distinct (map l_id (book_lists d))" "distinct (map r_id (reading_items d))"
    "distinct (map q_id (book_requests d))" "distinct (map c_id (claims d))" "distinct (map m_id (alerts d))"
  using assms by (simp_all add: db_ok_def broken_defs unique_def)

text \<open>The tables as the migrations leave them: no rows but the settings.\<close>

definition initial_db :: db where
  "initial_db = \<lparr>users = [], sessions = [],
    settings_tab = [\<lparr>g_site_name = ''MicsBook'', g_pwa_name = ''MicsBook'',
      g_registration_open = True, g_anonymous_book_links = True\<rparr>],
    api_tokens = [], activity = [], book_lists = [], list_items = [], book_tags = [], reading_items = [],
    reading_tags = [], book_requests = [], claims = [], alerts = []\<rparr>"

lemma initial_db_simps [simp]:
  "users initial_db = []" "sessions initial_db = []" "api_tokens initial_db = []"
  "settings_tab initial_db = [\<lparr>g_site_name = ''MicsBook'', g_pwa_name = ''MicsBook'',
      g_registration_open = True, g_anonymous_book_links = True\<rparr>]"
  "activity initial_db = []" "book_lists initial_db = []" "list_items initial_db = []"
  "book_tags initial_db = []" "reading_items initial_db = []" "reading_tags initial_db = []"
  "book_requests initial_db = []" "claims initial_db = []" "alerts initial_db = []"
  by (simp_all add: initial_db_def)

lemma db_ok_initial: "db_ok initial_db"
  by (simp add: db_ok_def broken_defs unique_def List.map_filter_simps)

definition key_order :: "string \<Rightarrow> nat list" where
  "key_order s = map of_char (nocase s)"

end
