(* ===== verification/Encoding.thy ===== *)
theory Encoding
  imports GoStrings
begin

unbundle bit_operations_syntax

text \<open>
  \<open>encoding/base64\<close> without padding (both alphabets), \<open>crypto/sha256\<close> and \<open>crypto/hmac\<close> as the
  program uses them: byte slices are lists of 8-bit words, strings are converted byte by byte.
\<close>

section \<open>Bytes and strings\<close>

definition bytes_of :: "string \<Rightarrow> byte list" where
  "bytes_of s = map of_char s"

definition string_of :: "byte list \<Rightarrow> string" where
  "string_of bs = map (\<lambda>b. char_of (unat b)) bs"

section \<open>Base64\<close>

definition std_alphabet :: string where
  "std_alphabet = ''ABCDEFGHIJKLMNOPQRSTUVWXYZabcdefghijklmnopqrstuvwxyz0123456789+/''"

definition url_alphabet :: string where
  "url_alphabet = ''ABCDEFGHIJKLMNOPQRSTUVWXYZabcdefghijklmnopqrstuvwxyz0123456789-_''"

fun sextets :: "byte list \<Rightarrow> nat list" where
  "sextets [] = []"
| "sextets [a] = (let v = unat a * 65536 in [v div 262144, v div 4096 mod 64])"
| "sextets [a, b] =
    (let v = unat a * 65536 + unat b * 256 in [v div 262144, v div 4096 mod 64, v div 64 mod 64])"
| "sextets (a # b # c # bs) =
    (let v = unat a * 65536 + unat b * 256 + unat c
     in v div 262144 # v div 4096 mod 64 # v div 64 mod 64 # v mod 64 # sextets bs)"

fun octets :: "nat list \<Rightarrow> byte list option" where
  "octets [] = Some []"
| "octets [x] = None"
| "octets [x, y] = (let v = x * 262144 + y * 4096 in Some [of_nat (v div 65536)])"
| "octets [x, y, z] =
    (let v = x * 262144 + y * 4096 + z * 64
     in Some [of_nat (v div 65536), of_nat (v div 256 mod 256)])"
| "octets (x # y # z # w # xs) =
    (let v = x * 262144 + y * 4096 + z * 64 + w
     in map_option (\<lambda>bs. of_nat (v div 65536) # of_nat (v div 256 mod 256) # of_nat (v mod 256) # bs)
          (octets xs))"

definition b64_encode :: "string \<Rightarrow> byte list \<Rightarrow> string" where
  "b64_encode alph bs = map (\<lambda>i. alph ! i) (sextets bs)"

text \<open>Carriage returns and line feeds are skipped; any other foreign character is an error.\<close>

definition b64_decode :: "string \<Rightarrow> string \<Rightarrow> byte list option" where
  "b64_decode alph s =
    (case those (map (map_of (zip alph [0..<64]))
        (filter (\<lambda>c. of_char c \<noteq> (10::nat) \<and> of_char c \<noteq> (13::nat)) s)) of
      None \<Rightarrow> None
    | Some xs \<Rightarrow> octets xs)"

lemma unat_byte [simp]: "unat (b :: byte) < 256"
  using unsigned_less [of b] by simp

text \<open>The three bytes of a group and its four sextets are the digits of one number.\<close>

definition group24 :: "byte \<Rightarrow> byte \<Rightarrow> byte \<Rightarrow> nat" where
  "group24 a b c = unat a * 65536 + unat b * 256 + unat c"

lemma group24_less: "group24 a b c < 16777216"
  using unat_byte [of a] unat_byte [of b] unat_byte [of c] unfolding group24_def by linarith

lemma sextets_recombine:
  fixes v :: nat
  shows "v div 262144 * 262144 + v div 4096 mod 64 * 4096 + v div 64 mod 64 * 64 + v mod 64 = v"
proof -
  have "v div 64 div 64 = v div 4096" "v div 4096 div 64 = v div 262144"
    by (simp_all add: div_mult2_eq [symmetric])
  moreover have "v = v div 64 * 64 + v mod 64"
    "v div 64 = v div 64 div 64 * 64 + v div 64 mod 64"
    "v div 4096 = v div 4096 div 64 * 64 + v div 4096 mod 64"
    by (simp_all only: div_mult_mod_eq)
  ultimately show ?thesis by linarith
qed

lemma group24_bytes:
  "(of_nat (group24 a b c div 65536) :: byte) = a"
  "(of_nat (group24 a b c div 256 mod 256) :: byte) = b"
  "(of_nat (group24 a b c mod 256) :: byte) = c"
proof -
  have lt: "unat b * 256 + unat c < 65536" "unat c < 256" "unat b < 256"
    using unat_byte [of b] unat_byte [of c] by linarith+
  have "group24 a b c = unat a * 65536 + (unat b * 256 + unat c)" by (simp add: group24_def)
  then have "group24 a b c div 65536 = unat a" using lt(1) by simp
  then show "(of_nat (group24 a b c div 65536) :: byte) = a" by simp
  have e: "group24 a b c = (unat a * 256 + unat b) * 256 + unat c"
    by (simp add: group24_def algebra_simps)
  have "((unat a * 256 + unat b) * 256 + unat c) div 256 = (unat a * 256 + unat b) + unat c div 256"
    by (rule div_mult_self3) simp
  then have "group24 a b c div 256 = unat a * 256 + unat b" using lt(2) e by simp
  then have "group24 a b c div 256 mod 256 = unat b" using lt(3) by simp
  then show "(of_nat (group24 a b c div 256 mod 256) :: byte) = b" by simp
  have "group24 a b c mod 256 = unat c" unfolding e using lt(2) by (simp only: mod_mult_self3 mod_less)
  then show "(of_nat (group24 a b c mod 256) :: byte) = c" by simp
qed

lemma group24_mod_64 [simp]: "(unat a * 65536) mod 64 = (0::nat)"
  "(unat a * 65536 + unat b * 256) mod 64 = (0::nat)" "unat a * 65536 div 64 mod 64 = (0::nat)"
proof -
  have d: "(64::nat) dvd 65536" "(64::nat) dvd 256"
    using dvd_triv_left [of "64::nat" 1024] dvd_triv_left [of "64::nat" 4] by simp_all
  show "(unat a * 65536) mod 64 = (0::nat)" "(unat a * 65536 + unat b * 256) mod 64 = (0::nat)"
    using d by (auto simp del: dvd_numeral_simp intro!: dvd_imp_mod_0 dvd_add dvd_mult)
  have "unat a * 65536 = (unat a * 1024) * 64" by simp
  then have e: "unat a * 65536 div 64 = unat a * 1024" by (metis nonzero_mult_div_cancel_right zero_neq_numeral)
  have "unat a * 1024 = (unat a * 16) * 64" by simp
  then show "unat a * 65536 div 64 mod 64 = (0::nat)" unfolding e by (metis mod_mult_self2_is_0)
qed

lemma octets_sextets: "octets (sextets bs) = Some bs"
proof (induction bs rule: sextets.induct)
  case (2 a)
  have "unat a * 65536 = group24 a 0 0" by (simp add: group24_def)
  then show ?case
    using group24_bytes(1) [of a 0 0] sextets_recombine [of "unat a * 65536"] group24_mod_64(1,3) [of a]
    by (simp add: Let_def)
next
  case (3 a b)
  have "unat a * 65536 + unat b * 256 = group24 a b 0" by (simp add: group24_def)
  then show ?case
    using group24_bytes(1,2) [of a b 0] sextets_recombine [of "group24 a b 0"]
      group24_mod_64(2) [of a b] by (simp add: Let_def)
next
  case (4 a b c bs)
  then show ?case
    using group24_bytes [of a b c] sextets_recombine [of "group24 a b c"]
    by (simp add: Let_def group24_def [symmetric])
qed simp

lemma sextets_bound: "x \<in> set (sextets bs) \<Longrightarrow> x < 64"
proof (induction bs rule: sextets.induct)
  case (2 a)
  have "group24 a 0 0 div 262144 < 64" using group24_less [of a 0 0] by (simp add: div_less_iff_less_mult)
  with 2 show ?case by (auto simp: Let_def group24_def)
next
  case (3 a b)
  have "group24 a b 0 div 262144 < 64" using group24_less [of a b 0] by (simp add: div_less_iff_less_mult)
  with 3 show ?case by (auto simp: Let_def group24_def)
next
  case (4 a b c bs)
  have "group24 a b c div 262144 < 64" using group24_less [of a b c] by (simp add: div_less_iff_less_mult)
  with 4 show ?case by (auto simp: Let_def group24_def)
qed simp

definition alphabet_ok :: "string \<Rightarrow> bool" where
  "alphabet_ok alph \<longleftrightarrow> length alph = 64 \<and> distinct alph
    \<and> list_all (\<lambda>c. of_char c \<noteq> (10::nat) \<and> of_char c \<noteq> (13::nat) \<and> c \<noteq> CHR ''$'') alph"

lemma std_alphabet_ok: "alphabet_ok std_alphabet"
  by (simp add: alphabet_ok_def std_alphabet_def)

lemma url_alphabet_ok: "alphabet_ok url_alphabet"
  by (simp add: alphabet_ok_def url_alphabet_def)

lemma alphabet_nth:
  assumes "alphabet_ok alph" and "i < 64"
  shows "map_of (zip alph [0..<64]) (alph ! i) = Some i"
  using assms map_of_zip_nth [of alph "[0..<64]" i] by (simp add: alphabet_ok_def)

lemma b64_encode_chars:
  assumes "alphabet_ok alph" and "c \<in> set (b64_encode alph bs)"
  shows "c \<in> set alph"
  using assms sextets_bound [of _ bs] by (auto simp: b64_encode_def alphabet_ok_def)

lemma those_map_Some: "(\<And>x. x \<in> set xs \<Longrightarrow> f x = Some (g x)) \<Longrightarrow> those (map f xs) = Some (map g xs)"
  by (induction xs) auto

theorem b64_decode_encode:
  assumes ok: "alphabet_ok alph"
  shows "b64_decode alph (b64_encode alph bs) = Some bs"
proof -
  let ?keep = "\<lambda>c. of_char c \<noteq> (10::nat) \<and> of_char c \<noteq> (13::nat)"
  have "filter ?keep (b64_encode alph bs) = b64_encode alph bs"
    using ok b64_encode_chars [OF ok] by (auto simp: filter_id_conv alphabet_ok_def list_all_iff)
  moreover have "those (map (map_of (zip alph [0..<64])) (b64_encode alph bs)) = Some (sextets bs)"
    unfolding b64_encode_def
    using those_map_Some [of "sextets bs" "\<lambda>i. map_of (zip alph [0..<64]) (alph ! i)" id]
      alphabet_nth [OF ok] sextets_bound by (simp add: comp_def)
  ultimately show ?thesis by (simp add: b64_decode_def octets_sextets)
qed

section \<open>SHA-256 and HMAC\<close>

type_synonym w32 = "32 word"

definition sha_k :: "w32 list" where
  "sha_k = [
    1116352408, 1899447441, 3049323471, 3921009573, 961987163, 1508970993, 2453635748, 2870763221,
    3624381080, 310598401, 607225278, 1426881987, 1925078388, 2162078206, 2614888103, 3248222580,
    3835390401, 4022224774, 264347078, 604807628, 770255983, 1249150122, 1555081692, 1996064986,
    2554220882, 2821834349, 2952996808, 3210313671, 3336571891, 3584528711, 113926993, 338241895,
    666307205, 773529912, 1294757372, 1396182291, 1695183700, 1986661051, 2177026350, 2456956037,
    2730485921, 2820302411, 3259730800, 3345764771, 3516065817, 3600352804, 4094571909, 275423344,
    430227734, 506948616, 659060556, 883997877, 958139571, 1322822218, 1537002063, 1747873779,
    1955562222, 2024104815, 2227730452, 2361852424, 2428436474, 2756734187, 3204031479, 3329325298]"

definition sha_init :: "w32 list" where
  "sha_init = [1779033703, 3144134277, 1013904242, 2773480762,
    1359893119, 2600822924, 528734635, 1541459225]"

definition rotr :: "nat \<Rightarrow> w32 \<Rightarrow> w32" where
  "rotr n x = drop_bit n x OR push_bit (32 - n) x"

text \<open>The message schedule holds the last sixteen words, the newest last.\<close>

definition sha_next_w :: "w32 list \<Rightarrow> w32" where
  "sha_next_w w =
    (let a = w ! 1; b = w ! 14
     in (rotr 17 b XOR rotr 19 b XOR drop_bit 10 b) + w ! 9
        + (rotr 7 a XOR rotr 18 a XOR drop_bit 3 a) + w ! 0)"

definition sha_round :: "w32 list \<Rightarrow> w32 \<Rightarrow> w32 \<Rightarrow> w32 list" where
  "sha_round h k w =
    (let a = h ! 0; b = h ! 1; c = h ! 2; d = h ! 3; e = h ! 4; f = h ! 5; g = h ! 6; hh = h ! 7;
         t1 = hh + (rotr 6 e XOR rotr 11 e XOR rotr 25 e) + ((e AND f) XOR (NOT e AND g)) + k + w;
         t2 = (rotr 2 a XOR rotr 13 a XOR rotr 22 a) + ((a AND b) XOR (a AND c) XOR (b AND c))
     in [t1 + t2, a, b, c, d + t1, e, f, g])"

fun sha_rounds :: "w32 list \<Rightarrow> w32 list \<Rightarrow> w32 list \<Rightarrow> w32 list" where
  "sha_rounds h w [] = h"
| "sha_rounds h w (k # ks) =
    sha_rounds (sha_round h k (w ! 0)) (drop 1 w @ [sha_next_w w]) ks"

fun words_of :: "byte list \<Rightarrow> w32 list" where
  "words_of (a # b # c # d # bs) =
    (push_bit 24 (ucast a) OR push_bit 16 (ucast b) OR push_bit 8 (ucast c) OR ucast d) # words_of bs"
| "words_of _ = []"

definition word_bytes :: "w32 \<Rightarrow> byte list" where
  "word_bytes x = [ucast (drop_bit 24 x), ucast (drop_bit 16 x), ucast (drop_bit 8 x), ucast x]"

definition sha_block :: "w32 list \<Rightarrow> byte list \<Rightarrow> w32 list" where
  "sha_block h blk = map2 (+) h (sha_rounds h (words_of blk) sha_k)"

function sha_blocks :: "w32 list \<Rightarrow> byte list \<Rightarrow> w32 list" where
  "sha_blocks h bs = (if bs = [] then h else sha_blocks (sha_block h (take 64 bs)) (drop 64 bs))"
  by pat_completeness auto
termination
  by (relation "measure (length \<circ> snd)") auto

declare sha_blocks.simps [simp del]

definition sha_pad :: "byte list \<Rightarrow> byte list" where
  "sha_pad m =
    (let n = length m; z = (if n mod 64 < 56 then 55 - n mod 64 else 119 - n mod 64); bits = n * 8
     in m @ [0x80] @ replicate z 0
        @ map (\<lambda>i. of_nat (bits div 256 ^ i)) (rev [0..<8]))"

definition sha256 :: "byte list \<Rightarrow> byte list" where
  "sha256 m = concat (map word_bytes (sha_blocks sha_init (sha_pad m)))"

definition hmac_sha256 :: "byte list \<Rightarrow> byte list \<Rightarrow> byte list" where
  "hmac_sha256 key m =
    (let k0 = (if length key > 64 then sha256 key else key);
         k = k0 @ replicate (64 - length k0) 0
     in sha256 (map (\<lambda>b. b XOR 0x5c) k @ sha256 (map (\<lambda>b. b XOR 0x36) k @ m)))"

lemma length_sha_rounds: "length h = 8 \<Longrightarrow> length (sha_rounds h w ks) = 8"
  by (induction h w ks rule: sha_rounds.induct) (simp_all add: sha_round_def Let_def)

lemma length_sha_blocks: "length h = 8 \<Longrightarrow> length (sha_blocks h bs) = 8"
proof (induction h bs rule: sha_blocks.induct)
  case (1 h bs)
  then show ?case
    by (simp add: sha_blocks.simps [of h bs] sha_block_def length_sha_rounds)
qed

lemma length_concat_const: "(\<And>x. x \<in> set xs \<Longrightarrow> length (f x) = n) \<Longrightarrow> length (concat (map f xs)) = n * length xs"
  by (induction xs) auto

lemma length_sha256 [simp]: "length (sha256 m) = 32"
proof -
  have "length (sha_blocks sha_init (sha_pad m)) = 8"
    by (rule length_sha_blocks) (simp add: sha_init_def)
  then show ?thesis
    unfolding sha256_def by (subst length_concat_const [of _ _ 4]) (simp_all add: word_bytes_def)
qed

lemma length_hmac_sha256 [simp]: "length (hmac_sha256 k m) = 32"
  by (simp add: hmac_sha256_def Let_def)

end
