(* ===== verification/AuthCore.thy ===== *)
theory AuthCore
  imports Tables Encoding
begin

text \<open>
  \<open>auth/auth.go\<close>: roles and status values, the account record handed to callers, normalisation of
  emails and names, random tokens, password hashing and its verification. Go's string types stay
  strings, so that an unknown role is a value here too; the three valid roles are also given as an
  ordered datatype, and \<open>Role.Allows\<close> is shown to be its order.
\<close>

section \<open>The environment of a call\<close>

record crypto =
  sha :: "byte list \<Rightarrow> byte list"
  hmac :: "byte list \<Rightarrow> byte list \<Rightarrow> byte list"

definition go_crypto :: crypto where
  "go_crypto = \<lparr>sha = sha256, hmac = hmac_sha256\<rparr>"

text \<open>The clock, the digests and \<open>unicode.ToLower\<close> above ASCII.\<close>

record env =
  now :: gotime
  crypto :: crypto
  low :: "nat \<Rightarrow> nat"

definition crypto_ok :: "crypto \<Rightarrow> bool" where
  "crypto_ok k \<longleftrightarrow> (\<forall>m. length (sha k m) = 32) \<and> (\<forall>p m. length (hmac k p m) = 32)"

locale digest =
  fixes k :: crypto
  assumes length_sha: "length (sha k m) = 32"
    and length_hmac: "length (hmac k p m) = 32"
begin

lemma is_ok: "crypto_ok k"
  by (simp add: crypto_ok_def length_sha length_hmac)

end

interpretation go: digest go_crypto
  by unfold_locales (simp_all add: go_crypto_def)

text \<open>A concrete environment and connection, for the examples of the component theories.\<close>

definition ex_env :: env where
  "ex_env = \<lparr>now = 0, crypto = go_crypto, low = id\<rparr>"

definition ex_conn :: "'d \<Rightarrow> 'd conn" where
  "ex_conn d = \<lparr>tables = d, entropy = replicate 64 7, faults = []\<rparr>"

lemma ex_simps [simp]: "now ex_env = 0" "crypto ex_env = go_crypto" "low ex_env = id"
  "tables (ex_conn d) = d" "entropy (ex_conn d) = replicate 64 7" "faults (ex_conn d) = []"
  by (simp_all add: ex_env_def ex_conn_def)

section \<open>Roles and status values\<close>

definition RoleReader :: string where "RoleReader = ''reader''"
definition RoleManager :: string where "RoleManager = ''manager''"
definition RoleAdmin :: string where "RoleAdmin = ''admin''"

lemmas role_defs [simp] = RoleReader_def RoleManager_def RoleAdmin_def

definition roleRank :: "string \<Rightarrow> nat" where
  "roleRank role =
    (if role = RoleAdmin then 3 else if role = RoleManager then 2 else if role = RoleReader then 1 else 0)"

definition role_valid :: "string \<Rightarrow> bool" where
  "role_valid r \<longleftrightarrow> r = RoleReader \<or> r = RoleManager \<or> r = RoleAdmin"

definition role_allows :: "string \<Rightarrow> string \<Rightarrow> bool" where
  "role_allows r required \<longleftrightarrow> roleRank r \<ge> roleRank required"

definition request_status_valid :: "string \<Rightarrow> bool" where
  "request_status_valid s \<longleftrightarrow> s = ''pending'' \<or> s = ''added'' \<or> s = ''unavailable''"

definition claim_status_valid :: "string \<Rightarrow> bool" where
  "claim_status_valid s \<longleftrightarrow> s = ''pending'' \<or> s = ''removed'' \<or> s = ''resolved''"

definition reading_kind_valid :: "string \<Rightarrow> bool" where
  "reading_kind_valid k \<longleftrightarrow> k = ''bookmark'' \<or> k = ''note''"

datatype level = Unknown | Reader | Manager | Admin

fun level_rank :: "level \<Rightarrow> nat" where
  "level_rank Unknown = 0" | "level_rank Reader = 1" | "level_rank Manager = 2" | "level_rank Admin = 3"

lemma level_rank_inj: "level_rank a = level_rank b \<Longrightarrow> a = b"
  by (cases a; cases b) simp_all

instantiation level :: linorder
begin

definition less_eq_level :: "level \<Rightarrow> level \<Rightarrow> bool" where
  "a \<le> b \<longleftrightarrow> level_rank a \<le> level_rank b"

definition less_level :: "level \<Rightarrow> level \<Rightarrow> bool" where
  "a < b \<longleftrightarrow> level_rank a < level_rank b"

instance
  by standard (auto simp: less_eq_level_def less_level_def intro: level_rank_inj)

end

definition level_of :: "string \<Rightarrow> level" where
  "level_of r =
    (if r = RoleReader then Reader else if r = RoleManager then Manager
     else if r = RoleAdmin then Admin else Unknown)"

lemma roleRank_level: "roleRank r = level_rank (level_of r)"
  by (simp add: roleRank_def level_of_def)

lemma role_allows_level: "role_allows r q \<longleftrightarrow> level_of q \<le> level_of r"
  by (simp add: role_allows_def roleRank_level less_eq_level_def)

lemma role_valid_level: "role_valid r \<longleftrightarrow> level_of r \<noteq> Unknown"
  by (auto simp: role_valid_def level_of_def)

section \<open>Records handed to callers\<close>

record User =
  user_ID :: string
  user_Email :: string
  user_Name :: string
  user_DisplayName :: string
  user_Bio :: string
  user_Location :: string
  user_Role :: string
  user_Active :: bool
  user_PasswordHash :: string
  user_GoogleSubject :: string
  user_AllowShare :: bool
  user_LastIP :: string
  user_CreatedAt :: gotime
  user_UpdatedAt :: gotime
  user_LastLoginAt :: "gotime option"

record Settings =
  set_SiteName :: string
  set_PWAName :: string
  set_RegistrationOpen :: bool
  set_AnonymousBookLinks :: bool

definition DefaultSettings :: Settings where
  "DefaultSettings = \<lparr>set_SiteName = ''MicsBook'', set_PWAName = ''MicsBook'',
    set_RegistrationOpen = True, set_AnonymousBookLinks = True\<rparr>"

section \<open>Emails and names\<close>

definition email_forbidden :: string where
  "email_forbidden = '' '' @ [CHR 0x09, CHR 0x0D, CHR 0x0A] @ ''<>,;:'' @ [CHR 0x5C] @ ''()[]'' @ [CHR 0x22]"

definition normalizeEmail :: "(nat \<Rightarrow> nat) \<Rightarrow> string \<Rightarrow> err + string" where
  "normalizeEmail lo value =
    (let email = to_lower lo (trim_space value);
         parts = split_char CHR ''@'' email;
         p0 = parts ! 0; p1 = parts ! 1
     in if length parts \<noteq> 2 \<or> p0 = [] \<or> p1 = [] \<or> length email > 254 \<or>
           contains_any email email_forbidden \<or>
           has_prefix p0 ''.'' \<or> has_suffix p0 ''.'' \<or> has_prefix p1 ''.'' \<or> has_suffix p1 ''.'' \<or>
           \<not> contains p1 ''.''
        then Inl (ErrText ''enter a valid email address'')
        else Inr email)"

definition normalizeName :: "string \<Rightarrow> string \<Rightarrow> string" where
  "normalizeName name email =
    (let n = trim_space name;
         n' = (if n = [] then fst (cut_char CHR ''@'' email) else n)
     in take 100 n')"

lemma normalizeEmail_Inr:
  assumes "normalizeEmail lo value = Inr email"
  shows "email = to_lower lo (trim_space value)" "email \<noteq> []" "length email \<le> 254"
    "length (split_char CHR ''@'' email) = 2"
  using assms by (auto simp: normalizeEmail_def Let_def split: if_splits)

lemma normalizeEmail_eval:
  assumes "to_lower lo (trim_space value) = email" and "split_char CHR ''@'' email = [p0, p1]"
    and "p0 \<noteq> []" "p1 \<noteq> []" "length email \<le> 254" "\<not> contains_any email email_forbidden"
    and "\<not> has_prefix p0 ''.''" "\<not> has_suffix p0 ''.''" "\<not> has_prefix p1 ''.''" "\<not> has_suffix p1 ''.''"
    and "contains p1 ''.''"
  shows "normalizeEmail lo value = Inr email"
  using assms by (simp add: normalizeEmail_def)

lemma length_normalizeName: "length (normalizeName name email) \<le> 100"
  by (simp add: normalizeName_def Let_def)

section \<open>Random tokens and their hashes\<close>

definition randomToken :: "nat \<Rightarrow> ('d, string) io" where
  "randomToken n =
    bnd (wrap_err ''generate secure random token'' (read_full n))
      (\<lambda>buf. ret (b64_encode url_alphabet buf))"

definition tokenHash :: "crypto \<Rightarrow> string \<Rightarrow> string" where
  "tokenHash k token = b64_encode url_alphabet (sha k (bytes_of token))"

lemma randomToken_InrE [io_elim]:
  assumes "randomToken n c = (Inr t, c')"
  obtains bs rest where "length bs = n" "t = b64_encode url_alphabet bs" "entropy c = bs @ rest"
    "c' = c\<lparr>entropy := rest\<rparr>"
  using assms unfolding randomToken_def
  by (elim bnd_InrE wrap_err_InrE read_full_InrE ret_InrE) (auto intro: that)

lemma readonly_randomToken [readonly_intro]: "readonly (randomToken n)"
  unfolding randomToken_def by (intro readonly_intro)

lemma randomToken_ok: "n \<le> length (entropy c) \<Longrightarrow> randomToken n c =
    (Inr (b64_encode url_alphabet (take n (entropy c))), c\<lparr>entropy := drop n (entropy c)\<rparr>)"
  by (simp add: randomToken_def run_defs read_full_def)

text \<open>Two tokens are the same only when the bytes read were.\<close>

lemma b64_encode_inj: "alphabet_ok a \<Longrightarrow> b64_encode a x = b64_encode a y \<Longrightarrow> x = y"
  by (metis b64_decode_encode option.inject)

lemma length_sextets: "length (sextets bs) = (4 * length bs + 2) div 3"
proof (induction bs rule: sextets.induct)
  case (4 a b c bs)
  then show ?case by (simp add: Let_def)
qed (simp_all add: Let_def)

lemma length_b64_encode: "length (b64_encode a bs) = (4 * length bs + 2) div 3"
  by (simp add: b64_encode_def length_sextets)

lemma randomToken_length: "randomToken n c = (Inr t, c') \<Longrightarrow> length t = (4 * n + 2) div 3"
  by (elim randomToken_InrE) (simp add: length_b64_encode)

section \<open>PBKDF2\<close>

definition xor_bytes :: "byte list \<Rightarrow> byte list \<Rightarrow> byte list" where
  "xor_bytes t u = map2 (XOR) t u"

text \<open>The inner loop: \<open>n\<close> more rounds from the last block \<open>u\<close> and the running xor \<open>t\<close>.\<close>

fun pbkdf2_rounds :: "crypto \<Rightarrow> byte list \<Rightarrow> nat \<Rightarrow> byte list \<Rightarrow> byte list \<Rightarrow> byte list" where
  "pbkdf2_rounds k pw 0 u t = t"
| "pbkdf2_rounds k pw (Suc n) u t = (let u' = hmac k pw u in pbkdf2_rounds k pw n u' (xor_bytes t u'))"

definition pbkdf2_block :: "crypto \<Rightarrow> byte list \<Rightarrow> byte list \<Rightarrow> nat \<Rightarrow> nat \<Rightarrow> byte list" where
  "pbkdf2_block k pw salt iterations block =
    (let u = hmac k pw (salt @ word_bytes (of_nat block)) in pbkdf2_rounds k pw (iterations - 1) u u)"

definition pbkdf2SHA256 :: "crypto \<Rightarrow> byte list \<Rightarrow> byte list \<Rightarrow> nat \<Rightarrow> nat \<Rightarrow> byte list" where
  "pbkdf2SHA256 k pw salt iterations keyLength =
    (let blocks = (keyLength + 32 - 1) div 32
     in take keyLength (concat (map (pbkdf2_block k pw salt iterations) [1..<Suc blocks])))"

text \<open>RFC 8018, section 5.2: \<open>F (P, S, c, i) = U_1 xor ... xor U_c\<close>, and the key is a prefix of
  \<open>F (P, S, c, 1) || F (P, S, c, 2) || ...\<close>.\<close>

fun rfc_U :: "crypto \<Rightarrow> byte list \<Rightarrow> byte list \<Rightarrow> nat \<Rightarrow> nat \<Rightarrow> byte list" where
  "rfc_U k pw salt i 0 = hmac k pw (salt @ word_bytes (of_nat i))"
| "rfc_U k pw salt i (Suc j) = hmac k pw (rfc_U k pw salt i j)"

definition rfc_F :: "crypto \<Rightarrow> byte list \<Rightarrow> byte list \<Rightarrow> nat \<Rightarrow> nat \<Rightarrow> byte list" where
  "rfc_F k pw salt c i =
    foldl xor_bytes (rfc_U k pw salt i 0) (map (rfc_U k pw salt i) [1..<c])"

definition rfc_pbkdf2 :: "crypto \<Rightarrow> byte list \<Rightarrow> byte list \<Rightarrow> nat \<Rightarrow> nat \<Rightarrow> byte list" where
  "rfc_pbkdf2 k pw salt c dkLen =
    (let l = (if dkLen mod 32 = 0 then dkLen div 32 else dkLen div 32 + 1)
     in take dkLen (concat (map (\<lambda>i. rfc_F k pw salt c (Suc i)) [0..<l])))"

lemma pbkdf2_rounds_spec:
  "pbkdf2_rounds k pw n (rfc_U k pw salt i j) t =
    foldl xor_bytes t (map (rfc_U k pw salt i) [Suc j..<Suc j + n])"
proof (induction n arbitrary: j t)
  case (Suc n)
  have "[Suc j..<Suc j + Suc n] = Suc j # [Suc (Suc j)..<Suc (Suc j) + n]"
    by (simp add: upt_conv_Cons)
  then show ?case using Suc.IH [of "Suc j"] by (simp add: Let_def)
qed simp

lemma pbkdf2_block_spec: "0 < c \<Longrightarrow> pbkdf2_block k pw salt c i = rfc_F k pw salt c i"
  using pbkdf2_rounds_spec [of k pw "c - 1" salt i 0]
  by (simp add: pbkdf2_block_def rfc_F_def Let_def)

lemma blocks_ceiling: "(if n mod 32 = 0 then n div 32 else n div 32 + 1) = (n + 32 - 1) div (32::nat)"
proof -
  define q r where "q = n div 32" and "r = n mod 32"
  have n: "n = 32 * q + r" and r: "r < 32" by (simp_all add: q_def r_def)
  have "(n + 32 - 1) div 32 = (if r = 0 then q else q + 1)"
    using r by (intro div_nat_eqI) (auto simp: n)
  then show ?thesis by (simp add: q_def r_def)
qed

lemma blocks_cover: "n \<le> 32 * ((n + 32 - 1) div (32::nat))"
proof -
  have "(n + 32 - 1) div 32 * 32 + (n + 32 - 1) mod 32 = n + 32 - 1" by (rule div_mult_mod_eq)
  moreover have "(n + 32 - 1) mod 32 < 32" by simp
  ultimately show ?thesis by linarith
qed

lemma length_xor_bytes [simp]: "length (xor_bytes a b) = min (length a) (length b)"
  by (simp add: xor_bytes_def)

lemma length_pbkdf2_rounds:
  "crypto_ok k \<Longrightarrow> length t = 32 \<Longrightarrow> length (pbkdf2_rounds k pw n u t) = 32"
  by (induction n arbitrary: u t) (simp_all add: Let_def crypto_ok_def)

lemma length_pbkdf2_block: "crypto_ok k \<Longrightarrow> length (pbkdf2_block k pw salt c i) = 32"
  by (simp add: pbkdf2_block_def Let_def length_pbkdf2_rounds) (simp add: crypto_ok_def length_pbkdf2_rounds)

lemma length_pbkdf2:
  assumes "crypto_ok k"
  shows "length (pbkdf2SHA256 k pw salt c n) = n"
proof -
  have "length (concat (map (pbkdf2_block k pw salt c) [1..<Suc b])) = 32 * b" for b
    by (subst length_concat_const [of _ _ 32]) (simp_all add: length_pbkdf2_block [OF assms])
  with blocks_cover [of n] show ?thesis by (simp add: pbkdf2SHA256_def Let_def del: upt_Suc)
qed

section \<open>Password hashes\<close>

definition passwordIterations :: nat where "passwordIterations = 210000"
definition passwordKeyBytes :: nat where "passwordKeyBytes = 32"
definition passwordSaltBytes :: nat where "passwordSaltBytes = 16"

definition encode_password :: "crypto \<Rightarrow> string \<Rightarrow> byte list \<Rightarrow> string" where
  "encode_password k password salt =
    (let key = pbkdf2SHA256 k (bytes_of password) salt passwordIterations passwordKeyBytes
     in ''pbkdf2-sha256'' @ ''$'' @ show_nat passwordIterations @ ''$'' @ b64_encode std_alphabet salt
        @ ''$'' @ b64_encode std_alphabet key)"

definition hashPassword :: "crypto \<Rightarrow> string \<Rightarrow> ('d, string) io" where
  "hashPassword k password =
    bnd (wrap_err ''generate password salt'' (read_full passwordSaltBytes))
      (\<lambda>salt. ret (encode_password k password salt))"

definition verifyPassword :: "crypto \<Rightarrow> string \<Rightarrow> string \<Rightarrow> bool" where
  "verifyPassword k encoded password =
    (let parts = split_char CHR ''$'' encoded
     in if length parts \<noteq> 4 \<or> parts ! 0 \<noteq> ''pbkdf2-sha256'' then False
        else (case atoi (parts ! 1) of
          None \<Rightarrow> False
        | Some iterations \<Rightarrow>
            if iterations < 1 \<or> iterations > 2000000 then False
            else (case b64_decode std_alphabet (parts ! 2) of
              None \<Rightarrow> False
            | Some salt \<Rightarrow>
                if length salt < 8 then False
                else (case b64_decode std_alphabet (parts ! 3) of
                  None \<Rightarrow> False
                | Some expected \<Rightarrow>
                    if length expected < 16 then False
                    else pbkdf2SHA256 k (bytes_of password) salt (nat iterations) (length expected)
                         = expected))))"

lemma hashPassword_InrE [io_elim]:
  assumes "hashPassword k pw c = (Inr h, c')"
  obtains salt rest where "length salt = 16" "h = encode_password k pw salt" "entropy c = salt @ rest"
    "c' = c\<lparr>entropy := rest\<rparr>"
  using assms unfolding hashPassword_def passwordSaltBytes_def
  by (elim bnd_InrE wrap_err_InrE read_full_InrE ret_InrE) (auto intro: that)

lemma readonly_hashPassword [readonly_intro]: "readonly (hashPassword k pw)"
  unfolding hashPassword_def by (intro readonly_intro)

lemma hashPassword_ok: "16 \<le> length (entropy c) \<Longrightarrow> hashPassword k pw c =
    (Inr (encode_password k pw (take 16 (entropy c))), c\<lparr>entropy := drop 16 (entropy c)\<rparr>)"
  by (simp add: hashPassword_def run_defs read_full_def passwordSaltBytes_def)

lemma dollar_free_b64: "CHR ''$'' \<notin> set (b64_encode std_alphabet bs)"
  using b64_encode_chars [OF std_alphabet_ok] std_alphabet_ok
  by (auto simp: alphabet_ok_def list_all_iff)

lemma dollar_free_show_nat: "CHR ''$'' \<notin> set (show_nat n)"
  using show_nat_chars [of "CHR ''$''" n] by auto

lemma show_nat_no_sign: "(of_char ch :: nat) < 48 \<Longrightarrow> \<not> has_prefix (show_nat n) [ch]"
  using show_nat_chars [of ch n] show_nat_ne [of n] by (cases "show_nat n") (auto simp: has_prefix_def)

lemma atoi_show_nat:
  assumes "int n < 9223372036854775808"
  shows "atoi (show_nat n) = Some (int n)"
proof -
  have "\<not> has_prefix (show_nat n) ''-''" "\<not> has_prefix (show_nat n) ''+''"
    by (rule show_nat_no_sign, simp)+
  with assms show ?thesis by (simp add: atoi_def digits_val_show_nat Let_def)
qed

lemma split_encode_password:
  "split_char CHR ''$'' (encode_password k pw salt) =
    [''pbkdf2-sha256'', show_nat passwordIterations, b64_encode std_alphabet salt,
     b64_encode std_alphabet (pbkdf2SHA256 k (bytes_of pw) salt passwordIterations passwordKeyBytes)]"
proof -
  let ?k = "b64_encode std_alphabet (pbkdf2SHA256 k (bytes_of pw) salt passwordIterations passwordKeyBytes)"
  have "split_char CHR ''$'' (''pbkdf2-sha256'' @ CHR ''$'' # show_nat passwordIterations @ CHR ''$'' #
      b64_encode std_alphabet salt @ CHR ''$'' # ?k) =
    [''pbkdf2-sha256'', show_nat passwordIterations, b64_encode std_alphabet salt, ?k]"
    by (subst split_char_append, simp, subst split_char_append, rule dollar_free_show_nat,
        subst split_char_append, rule dollar_free_b64, subst split_char_none, rule dollar_free_b64, rule refl)
  then show ?thesis by (simp add: encode_password_def Let_def)
qed

text \<open>What is hashed verifies, and nothing verifies but a password with the same derived key.\<close>

lemma verify_encode_password:
  assumes "crypto_ok k" and "length salt = 16"
  shows "verifyPassword k (encode_password k pw salt) pw' \<longleftrightarrow>
    pbkdf2SHA256 k (bytes_of pw') salt passwordIterations passwordKeyBytes =
    pbkdf2SHA256 k (bytes_of pw) salt passwordIterations passwordKeyBytes"
proof -
  have "atoi (show_nat passwordIterations) = Some 210000"
    using atoi_show_nat [of 210000] by (simp add: passwordIterations_def)
  then show ?thesis
    using assms by (simp add: verifyPassword_def split_encode_password Let_def
      b64_decode_encode [OF std_alphabet_ok] length_pbkdf2 passwordKeyBytes_def passwordIterations_def)
qed

end
