(* ===== verification/Accounts.thy ===== *)
theory Accounts
  imports AuthCore
begin

text \<open>
  The account half of \<open>auth/sqlite.go\<close>: site settings, registration and login by email, the Google
  upsert, reading and updating accounts. Each operation is the Go function, statement by statement,
  in the monad of \<open>Io\<close>; \<open>env\<close> carries the clock. After each operation stands what its successful
  runs did to the tables.
\<close>

section \<open>Reading a row\<close>

definition scanUser :: "user_row \<Rightarrow> User" where
  "scanUser r = \<lparr>user_ID = u_id r, user_Email = u_email r, user_Name = u_name r,
    user_DisplayName = u_display_name r, user_Bio = u_bio r, user_Location = u_location r,
    user_Role = u_role r, user_Active = u_active r, user_PasswordHash = u_password_hash r,
    user_GoogleSubject = (case u_google_subject r of None \<Rightarrow> '''' | Some g \<Rightarrow> g),
    user_AllowShare = u_allow_share r, user_LastIP = u_last_ip r,
    user_CreatedAt = time_of_unix (u_created_at r), user_UpdatedAt = time_of_unix (u_updated_at r),
    user_LastLoginAt = map_option time_of_unix (u_last_login_at r)\<rparr>"

definition scan_user_row :: "user_row option \<Rightarrow> err + User" where
  "scan_user_row r = (case r of None \<Rightarrow> Inl SqlNoRows | Some x \<Rightarrow> Inr (scanUser x))"

definition queryUserWith :: "(user_row \<Rightarrow> bool) \<Rightarrow> User db_io" where
  "queryUserWith p = query (\<lambda>d. scan_user_row (List.find p (users d)))"

text \<open>\<open>errors.Is(err, sql.ErrNoRows)\<close> turned into another error, or into a nil result.\<close>

definition no_rows_as :: "err \<Rightarrow> ('d, 'a) io \<Rightarrow> ('d, 'a) io" where
  "no_rows_as e m = handle m (\<lambda>x. throw (if is_err x SqlNoRows then e else x))"

definition no_rows_nil :: "('d, 'a) io \<Rightarrow> ('d, 'a option) io" where
  "no_rows_nil m = handle (bnd m (\<lambda>x. ret (Some x)))
    (\<lambda>x. if is_err x SqlNoRows then ret None else throw x)"

lemma scan_user_row_Inr_iff [simp]:
  "scan_user_row r = Inr u \<longleftrightarrow> (\<exists>x. r = Some x \<and> u = scanUser x)"
  by (auto simp: scan_user_row_def split: option.splits)

lemma scan_user_row_Inl_iff [simp]: "scan_user_row r = Inl e \<longleftrightarrow> r = None \<and> e = SqlNoRows"
  by (auto simp: scan_user_row_def split: option.splits)

lemma scan_user_row_Some [simp]: "scan_user_row (Some r) = Inr (scanUser r)"
  by simp

lemma scan_user_row_None [simp]: "scan_user_row None = Inl SqlNoRows"
  by simp

lemma no_rows_as_InrE [io_elim]:
  "no_rows_as e m c = (Inr x, c') \<Longrightarrow> (m c = (Inr x, c') \<Longrightarrow> P) \<Longrightarrow> P"
  by (auto simp: no_rows_as_def handle_def throw_def split: prod.splits sum.splits)

lemma no_rows_as_InlE [io_err]:
  "no_rows_as e m c = (Inl x, c') \<Longrightarrow> (\<And>y. m c = (Inl y, c') \<Longrightarrow> x = (if is_err y SqlNoRows then e else y) \<Longrightarrow> P) \<Longrightarrow> P"
  by (auto simp: no_rows_as_def handle_def throw_def split: prod.splits sum.splits)

lemma readonly_no_rows_as [readonly_intro]: "readonly m \<Longrightarrow> readonly (no_rows_as e m)"
  unfolding no_rows_as_def by (intro readonly_intro)

lemma readonly_no_rows_nil [readonly_intro]: "readonly m \<Longrightarrow> readonly (no_rows_nil m)"
  unfolding no_rows_nil_def by (auto intro!: readonly_intro)

lemma no_rows_nil_query_InrE [io_elim]:
  assumes "no_rows_nil (query q) c = (Inr r, c')"
  obtains fs where "c' = c\<lparr>faults := fs\<rparr>" "r = None \<longrightarrow> (\<exists>e. q (tables c) = Inl e \<and> is_err e SqlNoRows)"
    "\<And>x. r = Some x \<Longrightarrow> q (tables c) = Inr x"
proof -
  have "(\<exists>x. r = Some x \<and> query q c = (Inr x, c'))
      \<or> (\<exists>e. r = None \<and> query q c = (Inl e, c') \<and> is_err e SqlNoRows)"
    using assms by (auto simp: no_rows_nil_def handle_def bnd_def ret_def throw_def
      split: prod.splits sum.splits if_splits)
  then show ?thesis
  proof (elim disjE exE conjE)
    fix x assume "r = Some x" "query q c = (Inr x, c')"
    then show ?thesis by (auto elim!: query_InrE intro: that)
  next
    fix e assume "r = None" "query q c = (Inl e, c')" "is_err e SqlNoRows"
    then show ?thesis by (auto elim!: query_InlE intro: that)
  qed
qed

lemma queryUserWith_InrE [io_elim]:
  assumes "queryUserWith p c = (Inr u, c')"
  obtains r fs where "List.find p (users (tables c)) = Some r" "r \<in> set (users (tables c))" "p r"
    "u = scanUser r" "c' = c\<lparr>faults := fs\<rparr>"
proof -
  obtain r fs where "List.find p (users (tables c)) = Some r" "u = scanUser r" "c' = c\<lparr>faults := fs\<rparr>"
    using assms unfolding queryUserWith_def by (auto elim!: query_InrE)
  with that find_SomeD show ?thesis by fast
qed

lemma queryUserWith_InlE [io_err]:
  assumes "queryUserWith p c = (Inl e, c')"
  obtains (fault) "e = IoFault" | (none) "e = SqlNoRows" "List.find p (users (tables c)) = None"
  using assms unfolding queryUserWith_def by (elim query_InlE) (auto intro: that)

lemma no_rows_nil_queryUser_InrE [io_elim]:
  assumes "no_rows_nil (queryUserWith p) c = (Inr r, c')"
  obtains fs where "c' = c\<lparr>faults := fs\<rparr>" "map_option scanUser (List.find p (users (tables c))) = r"
proof -
  obtain fs where *: "c' = c\<lparr>faults := fs\<rparr>"
    "r = None \<longrightarrow> (\<exists>e. scan_user_row (List.find p (users (tables c))) = Inl e \<and> is_err e SqlNoRows)"
    "\<And>x. r = Some x \<Longrightarrow> scan_user_row (List.find p (users (tables c))) = Inr x"
    using assms unfolding queryUserWith_def by (rule no_rows_nil_query_InrE) blast
  then show ?thesis by (intro that [of fs]) (cases r; auto)+
qed

lemma readonly_queryUserWith [readonly_intro]: "readonly (queryUserWith p)"
  unfolding queryUserWith_def by (rule readonly_query)

section \<open>Settings\<close>

definition settings_of :: "settings_row \<Rightarrow> Settings" where
  "settings_of g = \<lparr>set_SiteName = g_site_name g, set_PWAName = g_pwa_name g,
    set_RegistrationOpen = g_registration_open g, set_AnonymousBookLinks = g_anonymous_book_links g\<rparr>"

definition settings_query :: "(settings_row \<Rightarrow> 'a) \<Rightarrow> db \<Rightarrow> err + 'a" where
  "settings_query f d = (case settings_tab d of [] \<Rightarrow> Inl SqlNoRows | g # _ \<Rightarrow> Inr (f g))"

definition CountUsers :: "nat db_io" where
  "CountUsers = query (\<lambda>d. Inr (length (users d)))"

definition CanRegister :: "bool db_io" where
  "CanRegister = bnd (query (\<lambda>d. settings_query (\<lambda>g. (length (users d), g_registration_open g)) d))
    (\<lambda>(count, open). ret (count = 0 \<or> open))"

definition GetSettings :: "Settings db_io" where
  "GetSettings = query (settings_query settings_of)"

definition UpdateSettings :: "Settings \<Rightarrow> unit db_io" where
  "UpdateSettings s =
    (let site0 = trim_space (set_SiteName s);
         site = (if site0 = '''' then set_SiteName DefaultSettings else site0);
         pwa0 = trim_space (set_PWAName s);
         pwa = (if pwa0 = '''' then set_PWAName DefaultSettings else pwa0)
     in bnd (fail_if (length site > 80) (ErrText ''site name must not exceed 80 characters'')) (\<lambda>_.
        bnd (fail_if (length pwa > 80) (ErrText ''PWA app name must not exceed 80 characters'')) (\<lambda>_.
        bnd (exec (update_tab settings_t (\<lambda>_. True)
          (\<lambda>g. g\<lparr>g_site_name := site, g_pwa_name := pwa,
                 g_registration_open := set_RegistrationOpen s,
                 g_anonymous_book_links := set_AnonymousBookLinks s\<rparr>)))
        (\<lambda>_. ret ()))))"

section \<open>Registration and login by email\<close>

text \<open>A row as the \<open>INSERT\<close> of the account functions leaves it, later columns at their defaults.\<close>

definition new_user_row :: "string \<Rightarrow> string \<Rightarrow> string \<Rightarrow> string \<Rightarrow> string \<Rightarrow> string option \<Rightarrow> unix \<Rightarrow>
    unix option \<Rightarrow> user_row" where
  "new_user_row uid email name role hash sub at login = \<lparr>u_id = uid, u_email = email, u_name = name,
    u_role = role, u_active = True, u_password_hash = hash, u_google_subject = sub,
    u_created_at = at, u_updated_at = at, u_last_login_at = login, u_last_ip = '''',
    u_allow_share = True, u_language = '''', u_display_name = '''', u_bio = '''', u_location = ''''\<rparr>"

definition new_user :: "string \<Rightarrow> string \<Rightarrow> string \<Rightarrow> string \<Rightarrow> string \<Rightarrow> string \<Rightarrow> gotime \<Rightarrow>
    gotime option \<Rightarrow> User" where
  "new_user uid email name role hash sub at login = \<lparr>user_ID = uid, user_Email = email, user_Name = name,
    user_DisplayName = '''', user_Bio = '''', user_Location = '''', user_Role = role,
    user_Active = True, user_PasswordHash = hash, user_GoogleSubject = sub, user_AllowShare = True,
    user_LastIP = '''', user_CreatedAt = at, user_UpdatedAt = at, user_LastLoginAt = login\<rparr>"

definition first_role :: "nat \<Rightarrow> string" where
  "first_role count = (if count = 0 then RoleAdmin else RoleReader)"

definition RegisterEmail :: "env \<Rightarrow> string \<Rightarrow> string \<Rightarrow> string \<Rightarrow> User db_io" where
  "RegisterEmail e email0 name0 password =
    bnd (of_result (normalizeEmail (low e) email0)) (\<lambda>email.
    let name = normalizeName name0 email in
    bnd (fail_if (length password < 10) (ErrText ''password must contain at least 10 characters'')) (\<lambda>_.
    bnd (hashPassword (crypto e) password) (\<lambda>hash.
    bnd (randomToken 16) (\<lambda>id.
    tx (
      bnd (query (\<lambda>d. settings_query (\<lambda>g. (length (users d), g_registration_open g,
          exists_where (\<lambda>r. eq_nocase (u_email r) email) (users d))) d)) (\<lambda>(count, open, duplicate).
      bnd (fail_if duplicate ErrEmailExists) (\<lambda>_.
      bnd (fail_if (count \<noteq> 0 \<and> \<not> open) (ErrText ''registration is closed'')) (\<lambda>_.
      let role = first_role count; at = unix_of (now e) in
      bnd (exec (insert_into users_t (new_user_row id email name role hash None at None))) (\<lambda>_.
      ret (new_user id email name role hash '''' (now e) None))))))))))"

definition AuthenticateEmail :: "env \<Rightarrow> string \<Rightarrow> string \<Rightarrow> User db_io" where
  "AuthenticateEmail e email password =
    bnd (no_rows_as ErrInvalidCredentials
      (queryUserWith (\<lambda>r. eq_nocase (u_email r) (trim_space email)))) (\<lambda>user.
    bnd (fail_if (user_PasswordHash user = '''') ErrInvalidCredentials) (\<lambda>_.
    bnd (fail_if (\<not> verifyPassword (crypto e) (user_PasswordHash user) password) ErrInvalidCredentials) (\<lambda>_.
    bnd (fail_if (\<not> user_Active user) ErrInactive) (\<lambda>_.
    let at = unix_of (now e) in
    bnd (exec (update_tab users_t (\<lambda>r. u_id r = user_ID user)
      (\<lambda>r. r\<lparr>u_last_login_at := Some at, u_updated_at := at\<rparr>))) (\<lambda>_.
    ret (user\<lparr>user_LastLoginAt := Some (now e), user_UpdatedAt := now e\<rparr>))))))"

section \<open>Google sign-in\<close>

text \<open>The \<open>UPDATE\<close> of both Google branches: a missing name is filled in, the login is recorded.\<close>

definition google_touch :: "string \<Rightarrow> unix \<Rightarrow> user_row \<Rightarrow> user_row" where
  "google_touch name at r = r\<lparr>u_name := (if u_name r = '''' then name else u_name r),
    u_last_login_at := Some at, u_updated_at := at\<rparr>"

definition google_known :: "env \<Rightarrow> string \<Rightarrow> User \<Rightarrow> User db_io" where
  "google_known e name user =
    (let at = unix_of (now e) in
    bnd (fail_if (\<not> user_Active user) ErrInactive) (\<lambda>_.
    bnd (exec (update_tab users_t (\<lambda>r. u_id r = user_ID user) (google_touch name at))) (\<lambda>_.
    ret (user\<lparr>user_LastLoginAt := Some (now e), user_UpdatedAt := now e\<rparr>))))"

definition google_link :: "env \<Rightarrow> string \<Rightarrow> string \<Rightarrow> bool \<Rightarrow> User \<Rightarrow> User db_io" where
  "google_link e name subject authoritative user =
    (let at = unix_of (now e) in
    bnd (fail_if (\<not> user_Active user) ErrInactive) (\<lambda>_.
    bnd (fail_if (user_GoogleSubject user \<noteq> '''' \<and> user_GoogleSubject user \<noteq> subject)
      ErrIdentityConflict) (\<lambda>_.
    bnd (fail_if (\<not> authoritative) ErrIdentityConflict) (\<lambda>_.
    bnd (exec (update_tab users_t (\<lambda>r. u_id r = user_ID user)
      (\<lambda>r. google_touch name at (r\<lparr>u_google_subject := Some subject\<rparr>)))) (\<lambda>_.
    ret (user\<lparr>user_GoogleSubject := subject, user_LastLoginAt := Some (now e),
      user_UpdatedAt := now e\<rparr>))))))"

definition google_new :: "env \<Rightarrow> string \<Rightarrow> string \<Rightarrow> string \<Rightarrow> User db_io" where
  "google_new e email name subject =
    bnd (query (\<lambda>d. settings_query (\<lambda>g. (length (users d), g_registration_open g)) d)) (\<lambda>(count, open).
    bnd (fail_if (count \<noteq> 0 \<and> \<not> open) (ErrText ''registration is closed'')) (\<lambda>_.
    bnd (randomToken 16) (\<lambda>id.
    let role = first_role count; at = unix_of (now e) in
    bnd (exec (insert_into users_t (new_user_row id email name role '''' (Some subject) at (Some at)))) (\<lambda>_.
    ret (new_user id email name role '''' subject (now e) (Some (now e)))))))"

definition UpsertGoogle :: "env \<Rightarrow> string \<Rightarrow> string \<Rightarrow> string \<Rightarrow> bool \<Rightarrow> User db_io" where
  "UpsertGoogle e email0 name0 subject0 authoritative =
    bnd (of_result (normalizeEmail (low e) email0)) (\<lambda>email.
    let name = normalizeName name0 email; subject = trim_space subject0 in
    bnd (fail_if (subject = '''') (ErrText ''Google subject is required'')) (\<lambda>_.
    tx (
      bnd (no_rows_nil (queryUserWith (\<lambda>r. u_google_subject r = Some subject))) (\<lambda>known.
      case known of
        Some user \<Rightarrow> google_known e name user
      | None \<Rightarrow>
          bnd (no_rows_nil (queryUserWith (\<lambda>r. eq_nocase (u_email r) email))) (\<lambda>same.
          case same of
            Some user \<Rightarrow> google_link e name subject authoritative user
          | None \<Rightarrow> google_new e email name subject)))))"

section \<open>Reading and changing accounts\<close>

definition Users :: "User list db_io" where
  "Users = query (\<lambda>d. Inr (sort_key user_CreatedAt (map scanUser (sort_key u_created_at (users d)))))"

definition UserByID :: "string \<Rightarrow> User option db_io" where
  "UserByID uid = no_rows_nil (queryUserWith (\<lambda>r. u_id r = uid))"

definition UserByEmail :: "string \<Rightarrow> User option db_io" where
  "UserByEmail email = no_rows_nil (queryUserWith (\<lambda>r. eq_nocase (u_email r) (trim_space email)))"

definition active_admin :: "user_row \<Rightarrow> bool" where
  "active_admin r \<longleftrightarrow> u_active r \<and> u_role r = RoleAdmin"

definition user_not_found :: err where
  "user_not_found = ErrText ''user not found''"

text \<open>Refuses to demote or disable the last active administrator.\<close>

definition guard_last_admin :: "User \<Rightarrow> string \<Rightarrow> bool \<Rightarrow> unit db_io" where
  "guard_last_admin user role active =
    when_io (user_Active user \<and> user_Role user = RoleAdmin \<and> (\<not> active \<or> role \<noteq> RoleAdmin))
      (bnd (query (\<lambda>d. Inr (count_where active_admin (users d)))) (\<lambda>activeAdmins.
       fail_if (activeAdmins \<le> 1) ErrLastAdmin))"

definition drop_credentials :: "string \<Rightarrow> unit db_io" where
  "drop_credentials uid =
    bnd (exec (delete_from sessions_t (\<lambda>s. s_user_id s = uid))) (\<lambda>_.
    bnd (exec (delete_from tokens_t (\<lambda>t. t_user_id t = uid))) (\<lambda>_. ret ()))"

definition UpdateUser :: "env \<Rightarrow> string \<Rightarrow> string \<Rightarrow> bool \<Rightarrow> User db_io" where
  "UpdateUser e uid role active =
    bnd (fail_if (\<not> role_valid role) ErrInvalidRole) (\<lambda>_.
    tx (
      bnd (no_rows_as user_not_found (queryUserWith (\<lambda>r. u_id r = uid))) (\<lambda>user.
      bnd (guard_last_admin user role active) (\<lambda>_.
      bnd (exec (update_tab users_t (\<lambda>r. u_id r = uid)
        (\<lambda>r. r\<lparr>u_role := role, u_active := active, u_updated_at := unix_of (now e)\<rparr>))) (\<lambda>_.
      bnd (when_io (\<not> active) (drop_credentials uid)) (\<lambda>_.
      ret (user\<lparr>user_Role := role, user_Active := active, user_UpdatedAt := now e\<rparr>)))))))"

definition SetPassword :: "env \<Rightarrow> string \<Rightarrow> string \<Rightarrow> unit db_io" where
  "SetPassword e userID password =
    bnd (fail_if (length password < 10) (ErrText ''password must contain at least 10 characters'')) (\<lambda>_.
    bnd (hashPassword (crypto e) password) (\<lambda>hash.
    tx (
      bnd (exec (update_tab users_t (\<lambda>r. u_id r = userID)
        (\<lambda>r. r\<lparr>u_password_hash := hash, u_updated_at := unix_of (now e)\<rparr>))) (\<lambda>affected.
      bnd (fail_if (affected = 0) user_not_found) (\<lambda>_.
      drop_credentials userID)))))"

text \<open>An \<open>UPDATE users ... WHERE id = ?\<close> that must touch a row.\<close>

definition update_account :: "string \<Rightarrow> (user_row \<Rightarrow> user_row) \<Rightarrow> unit db_io" where
  "update_account userID f = bnd (exec (update_tab users_t (\<lambda>r. u_id r = userID) f))
    (\<lambda>affected. fail_if (affected = 0) user_not_found)"

definition SetShareLinks :: "string \<Rightarrow> bool \<Rightarrow> unit db_io" where
  "SetShareLinks userID allow = update_account userID (\<lambda>r. r\<lparr>u_allow_share := allow\<rparr>)"

definition RecordLastIP :: "string \<Rightarrow> string \<Rightarrow> unit db_io" where
  "RecordLastIP userID ip = bnd (exec (update_tab users_t (\<lambda>r. u_id r = userID \<and> u_last_ip r \<noteq> ip)
    (\<lambda>r. r\<lparr>u_last_ip := ip\<rparr>))) (\<lambda>_. ret ())"

definition LanguageForUser :: "string \<Rightarrow> string db_io" where
  "LanguageForUser userID =
    bnd (no_rows_nil (query (\<lambda>d. one_row (map_option u_language (List.find (\<lambda>r. u_id r = userID) (users d))))))
      (\<lambda>l. ret (case l of None \<Rightarrow> '''' | Some s \<Rightarrow> trim_space s))"

definition SetLanguage :: "string \<Rightarrow> string \<Rightarrow> unit db_io" where
  "SetLanguage userID language = update_account userID (\<lambda>r. r\<lparr>u_language := trim_space language\<rparr>)"

definition too_long :: "string \<Rightarrow> nat \<Rightarrow> err" where
  "too_long what n = ErrText (''the '' @ what @ '' must not exceed '' @ show_nat n @ '' characters'')"

definition UpdateProfile :: "env \<Rightarrow> string \<Rightarrow> string \<Rightarrow> string \<Rightarrow> string \<Rightarrow> unit db_io" where
  "UpdateProfile e userID displayName0 bio0 location0 =
    (let displayName = trim_space displayName0; bio = trim_space bio0; location = trim_space location0 in
    bnd (fail_if (length displayName > 100) (too_long ''display name'' 100)) (\<lambda>_.
    bnd (fail_if (length bio > 1000) (too_long ''about text'' 1000)) (\<lambda>_.
    bnd (fail_if (length location > 200) (too_long ''location'' 200)) (\<lambda>_.
    update_account userID (\<lambda>r. r\<lparr>u_display_name := displayName, u_bio := bio, u_location := location,
      u_updated_at := unix_of (now e)\<rparr>)))))"

section \<open>What successful runs do\<close>

lemma RegisterEmail_InrE:
  assumes run: "RegisterEmail e email0 name0 password c = (Inr u, c')"
  obtains email salt idb hash rest where
    "normalizeEmail (low e) email0 = Inr email" "10 \<le> length password" "length salt = 16" "length idb = 16"
    "entropy c = salt @ idb @ rest" "hash = encode_password (crypto e) password salt"
    "\<forall>r \<in> set (users (tables c)). \<not> eq_nocase (u_email r) email"
    "users (tables c) = [] \<or> (\<exists>g gs. settings_tab (tables c) = g # gs \<and> g_registration_open g)"
    "users_broken (tables c) (users (tables c')) = None"
    "tables c' = (tables c)\<lparr>users := users (tables c) @ [new_user_row (b64_encode url_alphabet idb) email
      (normalizeName name0 email) (first_role (length (users (tables c)))) hash None (unix_of (now e)) None]\<rparr>"
    "u = new_user (b64_encode url_alphabet idb) email (normalizeName name0 email)
      (first_role (length (users (tables c)))) hash '''' (now e) None"
proof -
  show ?thesis
    using run unfolding RegisterEmail_def Let_def case_prod_beta
    by (elim io_elim) (clarsimp simp: settings_query_def split: list.splits, rule that, (assumption | rule refl | simp)+)
qed 

lemma AuthenticateEmail_InrE:
  assumes run: "AuthenticateEmail e email password c = (Inr u, c')"
  obtains r where
    "List.find (\<lambda>r. eq_nocase (u_email r) (trim_space email)) (users (tables c)) = Some r"
    "r \<in> set (users (tables c))" "u_password_hash r \<noteq> ''''" "u_active r"
    "verifyPassword (crypto e) (u_password_hash r) password"
    "u = (scanUser r)\<lparr>user_LastLoginAt := Some (now e), user_UpdatedAt := now e\<rparr>"
    "tables c' = (tables c)\<lparr>users := upd_where (\<lambda>x. u_id x = u_id r)
      (\<lambda>x. x\<lparr>u_last_login_at := Some (unix_of (now e)), u_updated_at := unix_of (now e)\<rparr>) (users (tables c))\<rparr>"
    "users_broken (tables c) (users (tables c')) = None"
proof -
  show ?thesis
    using run unfolding AuthenticateEmail_def Let_def
    by (elim io_elim) (clarsimp, rule that, (assumption | rule refl | simp add: scanUser_def)+)
qed

lemma google_known_InrE [io_elim]:
  assumes run: "google_known e name user c = (Inr u, c')"
  obtains "user_Active user" "u = user\<lparr>user_LastLoginAt := Some (now e), user_UpdatedAt := now e\<rparr>"
    "tables c' = (tables c)\<lparr>users := upd_where (\<lambda>x. u_id x = user_ID user)
      (google_touch name (unix_of (now e))) (users (tables c))\<rparr>"
    "users_broken (tables c) (users (tables c')) = None"
proof -
  show ?thesis
    using run unfolding google_known_def Let_def
    by (elim io_elim) (clarsimp, rule that, (assumption | rule refl | simp)+)
qed

lemma google_link_InrE [io_elim]:
  assumes run: "google_link e name subject auth user c = (Inr u, c')"
  obtains "user_Active user" "user_GoogleSubject user \<in> {'''', subject}" "auth"
    "u = user\<lparr>user_GoogleSubject := subject, user_LastLoginAt := Some (now e), user_UpdatedAt := now e\<rparr>"
    "tables c' = (tables c)\<lparr>users := upd_where (\<lambda>x. u_id x = user_ID user)
      (\<lambda>r. google_touch name (unix_of (now e)) (r\<lparr>u_google_subject := Some subject\<rparr>)) (users (tables c))\<rparr>"
    "users_broken (tables c) (users (tables c')) = None"
proof -
  show ?thesis
    using run unfolding google_link_def Let_def
    by (elim io_elim) (clarsimp, rule that,
      (assumption | rule refl | simp)+)
qed

lemma google_new_InrE [io_elim]:
  assumes run: "google_new e email name subject c = (Inr u, c')"
  obtains idb rest where "length idb = 16" "entropy c = idb @ rest"
    "users (tables c) = [] \<or> (\<exists>g gs. settings_tab (tables c) = g # gs \<and> g_registration_open g)"
    "users_broken (tables c) (users (tables c')) = None"
    "tables c' = (tables c)\<lparr>users := users (tables c) @ [new_user_row (b64_encode url_alphabet idb) email name
      (first_role (length (users (tables c)))) '''' (Some subject) (unix_of (now e)) (Some (unix_of (now e)))]\<rparr>"
    "u = new_user (b64_encode url_alphabet idb) email name (first_role (length (users (tables c)))) ''''
      subject (now e) (Some (now e))"
proof -
  show ?thesis
    using run unfolding google_new_def Let_def case_prod_beta
    by (elim io_elim) (clarsimp simp: settings_query_def split: list.splits, rule that,
      (assumption | rule refl | simp)+)
qed

text \<open>The three ways a Google identity signs in.\<close>

lemma UpsertGoogle_InrE:
  assumes run: "UpsertGoogle e email0 name0 subject0 auth c = (Inr u, c')"
  obtains
    (known) email r c1 fs fs' where "normalizeEmail (low e) email0 = Inr email" "trim_space subject0 \<noteq> ''''"
      "List.find (\<lambda>r. u_google_subject r = Some (trim_space subject0)) (users (tables c)) = Some r"
      "google_known e (normalizeName name0 email) (scanUser r) (c\<lparr>faults := fs\<rparr>) = (Inr u, c1)"
      "c' = c1\<lparr>faults := fs'\<rparr>"
  | (linked) email r c1 fs fs' where "normalizeEmail (low e) email0 = Inr email" "trim_space subject0 \<noteq> ''''"
      "List.find (\<lambda>r. u_google_subject r = Some (trim_space subject0)) (users (tables c)) = None"
      "List.find (\<lambda>r. eq_nocase (u_email r) email) (users (tables c)) = Some r"
      "google_link e (normalizeName name0 email) (trim_space subject0) auth (scanUser r)
        (c\<lparr>faults := fs\<rparr>) = (Inr u, c1)"
      "c' = c1\<lparr>faults := fs'\<rparr>"
  | (new) email c1 fs fs' where "normalizeEmail (low e) email0 = Inr email" "trim_space subject0 \<noteq> ''''"
      "List.find (\<lambda>r. u_google_subject r = Some (trim_space subject0)) (users (tables c)) = None"
      "List.find (\<lambda>r. eq_nocase (u_email r) email) (users (tables c)) = None"
      "google_new e email (normalizeName name0 email) (trim_space subject0) (c\<lparr>faults := fs\<rparr>) = (Inr u, c1)"
      "c' = c1\<lparr>faults := fs'\<rparr>"
proof -
  show ?thesis
    using run unfolding UpsertGoogle_def Let_def
    apply (elim bnd_InrE of_result_InrE fail_if_InrE tx_InrE no_rows_nil_queryUser_InrE case_option_InrE)
      apply (clarsimp simp: map_option_case split: option.splits, rule new, (assumption | rule refl | simp)+)[1]
     apply (clarsimp, rule linked, (assumption | rule refl | simp)+)[1]
    apply (clarsimp, rule known, (assumption | rule refl | simp)+)[1]
    done
qed

lemma guard_last_admin_InrE [io_elim]:
  assumes run: "guard_last_admin user role active c = (Inr x, c')"
  obtains fs where "c' = c\<lparr>faults := fs\<rparr>"
    "user_Active user \<and> user_Role user = RoleAdmin \<Longrightarrow> active \<and> role = RoleAdmin \<or>
      1 < count_where active_admin (users (tables c))"
proof -
  have e: "c\<lparr>faults := faults c\<rparr> = c" by simp
  show ?thesis
    using run unfolding guard_last_admin_def
    apply (elim io_elim)
     apply (rule that, simp, force)
    apply (rule that [of "faults c"]) apply auto
    done
qed

lemma drop_credentials_InrE [io_elim]:
  assumes run: "drop_credentials uid c = (Inr x, c')"
  obtains fs where "c' = c\<lparr>faults := fs, tables := (tables c)\<lparr>
      sessions := del_where (\<lambda>s. s_user_id s = uid) (sessions (tables c)),
      api_tokens := del_where (\<lambda>t. t_user_id t = uid) (api_tokens (tables c))\<rparr>\<rparr>"
proof -
  show ?thesis
    using run unfolding drop_credentials_def
    by (elim io_elim) (clarsimp, rule that, simp)
qed

lemma UpdateUser_InrE:
  assumes run: "UpdateUser e uid role active c = (Inr u, c')"
  obtains r where "role_valid role"
    "List.find (\<lambda>r. u_id r = uid) (users (tables c)) = Some r"
    "r \<in> set (users (tables c))" "u_id r = uid"
    "active_admin r \<longrightarrow> active \<and> role = RoleAdmin \<or> 1 < count_where active_admin (users (tables c))"
    "u = (scanUser r)\<lparr>user_Role := role, user_Active := active, user_UpdatedAt := now e\<rparr>"
    "users_broken (tables c) (users (tables c')) = None"
    "tables c' = (tables c)\<lparr>users := upd_where (\<lambda>x. u_id x = uid)
      (\<lambda>x. x\<lparr>u_role := role, u_active := active, u_updated_at := unix_of (now e)\<rparr>) (users (tables c)),
      sessions := (if active then sessions (tables c) else del_where (\<lambda>s. s_user_id s = uid) (sessions (tables c))),
      api_tokens := (if active then api_tokens (tables c) else del_where (\<lambda>t. t_user_id t = uid) (api_tokens (tables c)))\<rparr>"
proof -
  show ?thesis
    using run unfolding UpdateUser_def Let_def
    apply (elim io_elim) 
    by (clarsimp; rule that; (assumption | rule refl | simp add: scanUser_def active_admin_def)+)+
qed

lemma SetPassword_InrE:
  assumes run: "SetPassword e uid password c = (Inr x, c')"
  obtains salt rest where "10 \<le> length password" "length salt = 16" "entropy c = salt @ rest"
    "uid \<in> set (user_ids (tables c))" "users_broken (tables c) (users (tables c')) = None"
    "tables c' = (tables c)\<lparr>users := upd_where (\<lambda>r. u_id r = uid)
        (\<lambda>r. r\<lparr>u_password_hash := encode_password (crypto e) password salt, u_updated_at := unix_of (now e)\<rparr>)
        (users (tables c)),
      sessions := del_where (\<lambda>s. s_user_id s = uid) (sessions (tables c)),
      api_tokens := del_where (\<lambda>t. t_user_id t = uid) (api_tokens (tables c))\<rparr>"
proof -
  show ?thesis
    using run unfolding SetPassword_def
    by (elim io_elim) (clarsimp, rule that, (assumption | rule refl | force simp: user_ids_def)+)
qed

lemma update_account_InrE [io_elim]:
  assumes run: "update_account uid f c = (Inr x, c')"
  obtains "uid \<in> set (user_ids (tables c))" "users_broken (tables c) (users (tables c')) = None"
    "tables c' = (tables c)\<lparr>users := upd_where (\<lambda>r. u_id r = uid) f (users (tables c))\<rparr>"
proof -
  show ?thesis
    using run unfolding update_account_def
    by (elim io_elim) (clarsimp, rule that, (assumption | rule refl | force simp: user_ids_def)+)
qed

lemma UpdateProfile_InrE [io_elim]:
  assumes run: "UpdateProfile e uid name0 bio0 loc0 c = (Inr x, c')"
  obtains "length (trim_space name0) \<le> 100" "length (trim_space bio0) \<le> 1000" "length (trim_space loc0) \<le> 200"
    "update_account uid (\<lambda>r. r\<lparr>u_display_name := trim_space name0, u_bio := trim_space bio0,
      u_location := trim_space loc0, u_updated_at := unix_of (now e)\<rparr>) c = (Inr x, c')"
proof -
  show ?thesis
    using run unfolding UpdateProfile_def Let_def
    by (elim bnd_InrE fail_if_InrE) (clarsimp, rule that, (assumption | rule refl | simp)+)
qed

lemma UpdateSettings_InrE:
  assumes run: "UpdateSettings s c = (Inr x, c')"
  obtains site pwa where "length site \<le> 80" "length pwa \<le> 80" "site \<noteq> ''''" "pwa \<noteq> ''''"
    "tables c' = (tables c)\<lparr>settings_tab := map (\<lambda>g. g\<lparr>g_site_name := site, g_pwa_name := pwa,
      g_registration_open := set_RegistrationOpen s,
      g_anonymous_book_links := set_AnonymousBookLinks s\<rparr>) (settings_tab (tables c))\<rparr>"
proof -
  define site pwa where
    "site = (if trim_space (set_SiteName s) = '''' then set_SiteName DefaultSettings else trim_space (set_SiteName s))"
    and "pwa = (if trim_space (set_PWAName s) = '''' then set_PWAName DefaultSettings else trim_space (set_PWAName s))"
  have ne: "site \<noteq> ''''" "pwa \<noteq> ''''" by (simp_all add: site_def pwa_def DefaultSettings_def)
  show ?thesis
    using run unfolding UpdateSettings_def Let_def site_def [symmetric] pwa_def [symmetric]
    by (elim io_elim) (clarsimp, rule that [of site pwa], (assumption | rule refl | simp add: ne upd_where_def)+)
qed

section \<open>Atomicity\<close>

lemma atomic_RegisterEmail: "atomic (RegisterEmail e email name pw)"
  unfolding RegisterEmail_def Let_def by (intro atomic_intro readonly_intro)

lemma atomic_UpsertGoogle: "atomic (UpsertGoogle e email name subject auth)"
  unfolding UpsertGoogle_def Let_def by (intro atomic_intro readonly_intro)

lemma atomic_AuthenticateEmail: "atomic (AuthenticateEmail e email pw)"
  unfolding AuthenticateEmail_def Let_def by (intro atomic_intro readonly_intro)

lemma atomic_UpdateUser: "atomic (UpdateUser e uid role active)"
  unfolding UpdateUser_def by (intro atomic_intro readonly_intro)

lemma atomic_SetPassword: "atomic (SetPassword e uid pw)"
  unfolding SetPassword_def by (intro atomic_intro readonly_intro)

lemma atomic_update_account [atomic_intro]: "atomic (update_account uid f)"
  unfolding update_account_def by (rule users_t.atomic_update)

lemma atomic_UpdateProfile: "atomic (UpdateProfile e uid a b l)"
  unfolding UpdateProfile_def Let_def by (intro atomic_intro readonly_intro)

lemma atomic_UpdateSettings: "atomic (UpdateSettings s)"
  unfolding UpdateSettings_def Let_def by (intro atomic_intro readonly_intro)

lemma atomic_RecordLastIP: "atomic (RecordLastIP uid ip)"
  unfolding RecordLastIP_def by (intro atomic_intro)

section \<open>The account invariant\<close>

text \<open>Once there is an account there is an active administrator, and every constraint holds.\<close>

definition admin_ok :: "db \<Rightarrow> bool" where
  "admin_ok d \<longleftrightarrow> users d = [] \<or> list_ex active_admin (users d)"

definition store_ok :: "db \<Rightarrow> bool" where
  "store_ok d \<longleftrightarrow> db_ok d \<and> admin_ok d"

lemma admin_ok_same_users: "users d' = users d \<Longrightarrow> admin_ok d' = admin_ok d"
  by (simp add: admin_ok_def)

lemma admin_ok_append: "admin_ok d \<Longrightarrow> u_active r \<Longrightarrow> u_role r = first_role (length (users d)) \<Longrightarrow>
    admin_ok (d\<lparr>users := users d @ [r]\<rparr>)"
  by (auto simp: admin_ok_def first_role_def active_admin_def)

lemma admin_ok_upd:
  assumes "admin_ok d" and "\<And>r. r \<in> set (users d) \<Longrightarrow> active_admin r \<Longrightarrow> p r \<Longrightarrow> active_admin (f r)"
  shows "admin_ok (d\<lparr>users := upd_where p f (users d)\<rparr>)"
  using assms unfolding admin_ok_def list_ex_iff
  by (auto simp: set_upd_where upd_where_def) blast

lemma admin_survives:
  assumes d: "distinct (map u_id us)" and n: "1 < count_where P us"
  shows "\<exists>r \<in> set us. P r \<and> u_id r \<noteq> uid"
proof (rule ccontr)
  assume "\<not> ?thesis"
  then have "set (map u_id (filter P us)) \<subseteq> {uid}" by auto
  moreover have "distinct (map u_id (filter P us))" using d by (simp add: distinct_map_filter)
  ultimately have "length (filter P us) \<le> 1"
    by (metis card.empty card_insert_disjoint card_mono distinct_card empty_iff finite.emptyI
        finite.insertI length_map One_nat_def)
  with n show False by (simp add: count_where_def)
qed

lemma admin_ok_update_user:
  assumes ok: "store_ok d" and r: "List.find (\<lambda>r. u_id r = uid) (users d) = Some r"
    and g: "active_admin r \<longrightarrow> active \<and> role = RoleAdmin \<or> 1 < count_where active_admin (users d)"
  shows "admin_ok (d\<lparr>users := upd_where (\<lambda>x. u_id x = uid)
      (\<lambda>x. x\<lparr>u_role := role, u_active := active, u_updated_at := t\<rparr>) (users d)\<rparr>)" (is "admin_ok ?d")
proof -
  have dist: "distinct (map u_id (users d))" using ok by (simp add: store_ok_def db_ok_unique)
  have ru: "r \<in> set (users d)" "u_id r = uid" using find_SomeD [OF r] by auto
  have "\<exists>a \<in> set (users d). active_admin a \<and> (u_id a \<noteq> uid \<or> active \<and> role = RoleAdmin)"
  proof (cases "1 < count_where active_admin (users d)")
    case True
    then show ?thesis using admin_survives [OF dist True, of uid] by blast
  next
    case False
    have "users d \<noteq> []" using ru by auto
    then obtain a where a: "a \<in> set (users d)" "active_admin a"
      using ok by (auto simp: store_ok_def admin_ok_def list_ex_iff)
    then show ?thesis using g False ru distinct_key_inj [OF dist, of a r] by blast
  qed
  then obtain a where a: "a \<in> set (users d)" "active_admin a" "u_id a \<noteq> uid \<or> active \<and> role = RoleAdmin"
    by blast
  have "(if u_id a = uid then a\<lparr>u_role := role, u_active := active, u_updated_at := t\<rparr> else a) \<in> set (users ?d)"
    using a(1) by (simp add: set_upd_where image_iff) blast
  moreover have "active_admin (if u_id a = uid then a\<lparr>u_role := role, u_active := active, u_updated_at := t\<rparr> else a)"
    using a(2,3) by (auto simp: active_admin_def)
  ultimately show ?thesis unfolding admin_ok_def list_ex_iff by blast
qed

lemma store_ok_upd_users:
  assumes "store_ok d" and "users_broken d (upd_where p f (users d)) = None"
    and "\<And>r. u_id (f r) = u_id r" and "\<And>r. u_role (f r) = u_role r" and "\<And>r. u_active (f r) = u_active r"
  shows "store_ok (d\<lparr>users := upd_where p f (users d)\<rparr>)"
  using assms by (auto simp: store_ok_def active_admin_def intro!: db_ok_upd_users admin_ok_upd)

lemma store_ok_credentials:
  "store_ok d \<Longrightarrow> store_ok (d\<lparr>sessions := del_where p (sessions d)\<rparr>)"
  "store_ok d \<Longrightarrow> store_ok (d\<lparr>api_tokens := del_where q (api_tokens d)\<rparr>)"
  by (auto simp: store_ok_def db_ok_del_sessions db_ok_del_tokens admin_ok_def)

lemma preserves_RegisterEmail: "preserves store_ok (RegisterEmail e email name pw)"
proof (rule preserves_atomic [OF atomic_RegisterEmail])
  fix c c' :: "db conn" and u
  assume "store_ok (tables c)" and "RegisterEmail e email name pw c = (Inr u, c')"
  then show "store_ok (tables c')"
    by (elim RegisterEmail_InrE)
      (auto simp: store_ok_def new_user_row_def intro!: db_ok_ins_users admin_ok_append)
qed

lemma preserves_AuthenticateEmail: "preserves store_ok (AuthenticateEmail e email pw)"
proof (rule preserves_atomic [OF atomic_AuthenticateEmail])
  fix c c' :: "db conn" and u
  assume "store_ok (tables c)" and "AuthenticateEmail e email pw c = (Inr u, c')"
  then show "store_ok (tables c')"
    by (elim AuthenticateEmail_InrE) (auto intro!: store_ok_upd_users)
qed

lemma google_touch_simps [simp]:
  "u_id (google_touch n t r) = u_id r" "u_role (google_touch n t r) = u_role r"
  "u_active (google_touch n t r) = u_active r"
  by (simp_all add: google_touch_def)

lemma preserves_UpsertGoogle: "preserves store_ok (UpsertGoogle e email name subject auth)"
proof (rule preserves_atomic [OF atomic_UpsertGoogle])
  fix c c' :: "db conn" and u
  assume ok: "store_ok (tables c)" and "UpsertGoogle e email name subject auth c = (Inr u, c')"
  from this(2) show "store_ok (tables c')"
  proof (cases rule: UpsertGoogle_InrE)
    case (known email' r c1 fs fs')
    from known(4,5) ok show ?thesis by (elim google_known_InrE) (auto intro!: store_ok_upd_users)
  next
    case (linked email' r c1 fs fs')
    from linked(5,6) ok show ?thesis by (elim google_link_InrE) (auto intro!: store_ok_upd_users)
  next
    case (new email' c1 fs fs')
    from new(5,6) ok show ?thesis
      by (elim google_new_InrE)
        (auto simp: store_ok_def new_user_row_def intro!: db_ok_ins_users admin_ok_append)
  qed
qed

lemma preserves_UpdateUser: "preserves store_ok (UpdateUser e uid role active)"
proof (rule preserves_atomic [OF atomic_UpdateUser])
  fix c c' :: "db conn" and u
  assume ok: "store_ok (tables c)" and run: "UpdateUser e uid role active c = (Inr u, c')"
  let ?us = "upd_where (\<lambda>x. u_id x = uid)
    (\<lambda>x. x\<lparr>u_role := role, u_active := active, u_updated_at := unix_of (now e)\<rparr>) (users (tables c))"
  let ?d = "(tables c)\<lparr>users := ?us\<rparr>"
  from run obtain r where r: "List.find (\<lambda>r. u_id r = uid) (users (tables c)) = Some r"
      "active_admin r \<longrightarrow> active \<and> role = RoleAdmin \<or> 1 < count_where active_admin (users (tables c))"
      "users_broken (tables c) (users (tables c')) = None"
    and t: "tables c' = (tables c)\<lparr>users := ?us,
      sessions := (if active then sessions (tables c) else del_where (\<lambda>s. s_user_id s = uid) (sessions (tables c))),
      api_tokens := (if active then api_tokens (tables c) else del_where (\<lambda>t. t_user_id t = uid) (api_tokens (tables c)))\<rparr>"
    by (rule UpdateUser_InrE)
  have "admin_ok ?d" by (rule admin_ok_update_user [OF ok r(1,2)])
  moreover have "db_ok ?d" using ok r(3) t by (auto simp: store_ok_def intro!: db_ok_upd_users)
  ultimately have d: "store_ok ?d" by (simp add: store_ok_def)
  show "store_ok (tables c')"
    using d store_ok_credentials(2) [OF store_ok_credentials(1) [OF d]] by (cases active) (simp_all add: t)
qed

lemma preserves_SetPassword: "preserves store_ok (SetPassword e uid pw)"
proof (rule preserves_atomic [OF atomic_SetPassword])
  fix c c' :: "db conn" and u
  assume ok: "store_ok (tables c)" and run: "SetPassword e uid pw c = (Inr u, c')"
  then obtain f where t: "tables c' = (tables c)\<lparr>users := upd_where (\<lambda>r. u_id r = uid) f (users (tables c)),
      sessions := del_where (\<lambda>s. s_user_id s = uid) (sessions (tables c)),
      api_tokens := del_where (\<lambda>t. t_user_id t = uid) (api_tokens (tables c))\<rparr>"
    and f: "\<And>r. u_id (f r) = u_id r \<and> u_role (f r) = u_role r \<and> u_active (f r) = u_active r"
    and b: "users_broken (tables c) (users (tables c')) = None"
    by (elim SetPassword_InrE) (rule that, assumption, simp_all)
  have d: "store_ok ((tables c)\<lparr>users := upd_where (\<lambda>r. u_id r = uid) f (users (tables c))\<rparr>)"
    using ok f b t by (auto intro!: store_ok_upd_users)
  show "store_ok (tables c')"
    using store_ok_credentials(2) [OF store_ok_credentials(1) [OF d]] by (simp add: t)
qed

lemma preserves_update_account:
  assumes "\<And>r. u_id (f r) = u_id r" "\<And>r. u_role (f r) = u_role r" "\<And>r. u_active (f r) = u_active r"
  shows "preserves store_ok (update_account uid f)"
  using assms by (intro preserves_atomic atomic_update_account)
    (elim update_account_InrE, auto intro!: store_ok_upd_users)

lemma preserves_fail_if_bnd: "preserves I m \<Longrightarrow> preserves I (bnd (fail_if b e) (\<lambda>_. m))"
  by (simp add: preserves_def bnd_def fail_if_def throw_def ret_def)

lemma preserves_small_updates:
  "preserves store_ok (SetShareLinks uid allow)" "preserves store_ok (SetLanguage uid l)"
  "preserves store_ok (UpdateProfile e uid a b loc)"
  unfolding SetShareLinks_def SetLanguage_def UpdateProfile_def Let_def
  by (intro preserves_update_account preserves_fail_if_bnd; simp)+

lemma preserves_RecordLastIP: "preserves store_ok (RecordLastIP uid ip)"
proof (rule preserves_atomic [OF atomic_RecordLastIP])
  fix c c' :: "db conn" and u
  assume "store_ok (tables c)" and "RecordLastIP uid ip c = (Inr u, c')"
  then show "store_ok (tables c')"
    unfolding RecordLastIP_def by (elim io_elim) (auto intro!: store_ok_upd_users)
qed

lemma store_ok_settings:
  assumes "store_ok d" and "length gs = length (settings_tab d)"
  shows "store_ok (d\<lparr>settings_tab := gs\<rparr>)"
proof -
  have "settings_broken d gs = None" using assms by (simp add: store_ok_def db_ok_def settings_broken_def)
  with assms show ?thesis by (auto simp: store_ok_def admin_ok_def intro: db_ok_settings)
qed

lemma preserves_UpdateSettings: "preserves store_ok (UpdateSettings s)"
proof (rule preserves_atomic [OF atomic_UpdateSettings])
  fix c c' :: "db conn" and u
  assume "store_ok (tables c)" and "UpdateSettings s c = (Inr u, c')"
  then show "store_ok (tables c')"
    by (elim UpdateSettings_InrE) (simp add: store_ok_settings)
qed

section \<open>Runs that succeed\<close>

lemma users_broken_upd:
  assumes "\<And>r. u_id (f r) = u_id r" "\<And>r. u_email (f r) = u_email r" "\<And>r. u_role (f r) = u_role r"
    "\<And>r. u_google_subject (f r) = u_google_subject r"
  shows "users_broken d (upd_where p f us) = users_broken d us"
proof -
  have "map g (upd_where p f us) = map g us" if "\<And>r. g (f r) = g r" for g :: "user_row \<Rightarrow> 'z"
    using that by (rule map_upd_where_same)
  note m = this
  have r: "list_all (\<lambda>x. P (u_role x)) (upd_where p f us) = list_all (\<lambda>x. P (u_role x)) us" for P
    by (induction us) (simp_all add: assms)
  have g: "List.map_filter u_google_subject (upd_where p f us) = List.map_filter u_google_subject us"
    by (induction us) (auto simp: List.map_filter_simps assms split: option.splits)
  show ?thesis
    unfolding users_broken_def unique_def g r [of "\<lambda>q. q \<in> {''reader'', ''manager'', ''admin''}"] m [of u_id, OF assms(1)]
      m [of "\<lambda>r. nocase (u_email r)", unfolded assms(2), OF refl] by (rule refl)
qed

lemma store_ok_users_broken: "store_ok d \<Longrightarrow> users_broken d (users d) = None"
  by (simp add: store_ok_def db_ok_def)

lemma AuthenticateEmail_ok:
  assumes "faults c = []"
    and "List.find (\<lambda>r. eq_nocase (u_email r) (trim_space email)) (users (tables c)) = Some r"
    and "u_password_hash r \<noteq> ''''" "verifyPassword (crypto e) (u_password_hash r) password" "u_active r"
    and b: "users_broken (tables c) (users (tables c)) = None"
  shows "\<exists>c'. AuthenticateEmail e email password c =
    (Inr ((scanUser r)\<lparr>user_LastLoginAt := Some (now e), user_UpdatedAt := now e\<rparr>), c')"
proof -
  let ?f = "\<lambda>r. r\<lparr>u_last_login_at := Some (unix_of (now e)), u_updated_at := unix_of (now e)\<rparr>"
  have "users_broken (tables c) (upd_where (\<lambda>x. u_id x = u_id r) ?f (users (tables c))) = None"
    using b by (subst users_broken_upd) simp_all
  moreover have "queryUserWith (\<lambda>r. eq_nocase (u_email r) (trim_space email)) c = (Inr (scanUser r), c)"
    using assms(1,2) by (simp add: queryUserWith_def)
  ultimately show ?thesis
    using assms by (simp add: AuthenticateEmail_def no_rows_as_def run_defs Let_def
      scanUser_def update_tab_def write_rows_def)
qed

lemma RegisterEmail_ok:
  assumes c: "faults c = []" "32 \<le> length (entropy c)" and st: "settings_tab (tables c) = g # gs"
    and em: "normalizeEmail (low e) email0 = Inr email" and pw: "10 \<le> length password"
    and fresh: "\<forall>r \<in> set (users (tables c)). \<not> eq_nocase (u_email r) email"
    and op: "users (tables c) = [] \<or> g_registration_open g"
    and id: "\<forall>r \<in> set (users (tables c)). u_id r \<noteq> b64_encode url_alphabet (take 16 (drop 16 (entropy c)))"
    and b: "users_broken (tables c) (users (tables c)) = None"
  shows "\<exists>u c'. RegisterEmail e email0 name password c = (Inr u, c')"
proof -
  let ?id = "b64_encode url_alphabet (take 16 (drop 16 (entropy c)))"
  let ?h = "encode_password (crypto e) password (take 16 (entropy c))"
  let ?r = "new_user_row ?id email (normalizeName name email) (first_role (length (users (tables c)))) ?h
    None (unix_of (now e)) None"
  have "\<forall>r \<in> set (users (tables c)). nocase (u_email r) \<noteq> nocase email" using fresh by (simp add: eq_nocase_def)
  then have b': "users_broken (tables c) (users (tables c) @ [?r]) = None"
    using b id by (auto simp: users_broken_def unique_def new_user_row_def first_role_def List.map_filter_def)
  have dup: "(\<exists>r\<in>set (users (tables c)). eq_nocase (u_email r) email) = False" using fresh by blast
  show ?thesis
    using c st em pw op b'
    by (auto simp: RegisterEmail_def run_defs hashPassword_ok randomToken_ok Let_def settings_query_def
      dup insert_into_def write_rows_def)
qed

lemma store_ok_initial: "store_ok initial_db"
  by (simp add: store_ok_def db_ok_initial admin_ok_def)

lemma ex_email: "normalizeEmail id ''Ann@example.org'' = Inr ''ann@example.org''"
proof (rule normalizeEmail_eval)
  show "to_lower id (trim_space ''Ann@example.org'') = ''ann@example.org''" by (simp add: ascii_eval)
  show "split_char CHR ''@'' ''ann@example.org'' = [''ann'', ''example.org'']" by simp
  show "\<not> contains_any ''ann@example.org'' email_forbidden"
    by (simp add: contains_any_def email_forbidden_def)
qed (simp_all add: has_prefix_def has_suffix_def)

lemma ex_register:
  "\<exists>u c'. RegisterEmail ex_env ''Ann@example.org'' ''Ann'' ''correct horse'' (ex_conn initial_db) = (Inr u, c')"
  using store_ok_users_broken [OF store_ok_initial] by (intro RegisterEmail_ok) (simp_all add: ex_email)

end
