(* ===== verification/PersonalLibrary.thy ===== *)
theory PersonalLibrary
  imports Accounts "HOL-Library.Product_Lexorder"
begin

text \<open>
  \<open>auth/library.go\<close>: what a reader keeps about books. Recently read books, named book lists with
  their items, and tags. Every operation takes the id of the signed-in user; book ids are opaque
  strings, since the books themselves live in the indexer.
\<close>

section \<open>Normalisation\<close>

definition normalizeBookID :: "string \<Rightarrow> err + string" where
  "normalizeBookID bookID0 =
    (let bookID = trim_space bookID0
     in if bookID = '''' \<or> length bookID > 200 then Inl (ErrText ''invalid book ID'') else Inr bookID)"

definition normalizeListName :: "string \<Rightarrow> err + string" where
  "normalizeListName name0 =
    (let name = join '' '' (str_fields name0)
     in if name = '''' then Inl (ErrText ''enter a list name'')
        else if rune_count name > 80 then Inl (ErrText ''list name must not exceed 80 characters'')
        else Inr name)"

definition normalizeTag :: "string \<Rightarrow> err + string" where
  "normalizeTag tag0 =
    (let tag = join '' '' (str_fields tag0)
     in if tag = '''' then Inl (ErrText ''enter a tag'')
        else if rune_count tag > 40 then Inl (ErrText ''tag must not exceed 40 characters'')
        else Inr tag)"

lemma normalizeBookID_Inr: "normalizeBookID b = Inr x \<Longrightarrow> x = trim_space b \<and> x \<noteq> '''' \<and> length x \<le> 200"
  by (auto simp: normalizeBookID_def Let_def split: if_splits)

section \<open>Recently read\<close>

record BookActivity =
  act_BookID :: string
  act_BookTitle :: string
  act_LastReadAt :: gotime

definition RecordBookRead :: "env \<Rightarrow> string \<Rightarrow> string \<Rightarrow> unit db_io" where
  "RecordBookRead e userID bookID0 =
    bnd (of_result (normalizeBookID bookID0)) (\<lambda>bookID.
    bnd (exec (upsert activity_t (\<lambda>r. (a_user_id r, a_book_id r))
      \<lparr>a_user_id = userID, a_book_id = bookID, a_last_read_at = unix_of (now e)\<rparr>
      (\<lambda>r. r\<lparr>a_last_read_at := unix_of (now e)\<rparr>))) (\<lambda>_. ret ()))"

definition recent_limit :: "int \<Rightarrow> nat" where
  "recent_limit limit = nat (let l = (if limit < 1 then 12 else limit) in if l > 100 then 100 else l)"

definition recent_rows :: "string \<Rightarrow> nat \<Rightarrow> db \<Rightarrow> activity_row list" where
  "recent_rows userID n d =
    take n (sort_key (\<lambda>r. - a_last_read_at r) (filter (\<lambda>r. a_user_id r = userID) (activity d)))"

definition RecentBookIDs :: "string \<Rightarrow> int \<Rightarrow> string list db_io" where
  "RecentBookIDs userID limit =
    query (\<lambda>d. Inr (map a_book_id (recent_rows userID (recent_limit limit) d)))"

definition RecentBooks :: "string \<Rightarrow> int \<Rightarrow> BookActivity list db_io" where
  "RecentBooks userID limit =
    query (\<lambda>d. Inr (map (\<lambda>r. \<lparr>act_BookID = a_book_id r, act_BookTitle = '''',
      act_LastReadAt = time_of_unix (a_last_read_at r)\<rparr>) (recent_rows userID (recent_limit limit) d)))"

section \<open>Book lists\<close>

record BookList =
  lst_ID :: string
  lst_UserID :: string
  lst_Name :: string
  lst_BookCount :: nat
  lst_ContainsBook :: bool
  lst_CreatedAt :: gotime
  lst_UpdatedAt :: gotime

text \<open>A row of the \<open>LEFT JOIN ... GROUP BY\<close>: the list with the number of its items.\<close>

definition scan_list :: "db \<Rightarrow> bool \<Rightarrow> list_row \<Rightarrow> BookList" where
  "scan_list d has l = \<lparr>lst_ID = l_id l, lst_UserID = l_user_id l, lst_Name = l_name l,
    lst_BookCount = count_where (\<lambda>i. i_list_id i = l_id l) (list_items d), lst_ContainsBook = has,
    lst_CreatedAt = time_of_unix (l_created_at l), lst_UpdatedAt = time_of_unix (l_updated_at l)\<rparr>"

definition BookListsForUser :: "string \<Rightarrow> BookList list db_io" where
  "BookListsForUser userID = query (\<lambda>d. Inr (map (scan_list d False)
    (sort_key (\<lambda>l. (- l_updated_at l, key_order (l_name l)))
      (filter (\<lambda>l. l_user_id l = userID) (book_lists d)))))"

definition BookListsForBook :: "string \<Rightarrow> string \<Rightarrow> BookList list db_io" where
  "BookListsForBook userID bookID0 =
    bnd (of_result (normalizeBookID bookID0)) (\<lambda>bookID.
    query (\<lambda>d. Inr (map
      (\<lambda>l. scan_list d (exists_where (\<lambda>i. i_list_id i = l_id l \<and> i_book_id i = bookID) (list_items d)) l)
      (sort_key (\<lambda>l. key_order (l_name l)) (filter (\<lambda>l. l_user_id l = userID) (book_lists d))))))"

definition own_list :: "string \<Rightarrow> string \<Rightarrow> list_row \<Rightarrow> bool" where
  "own_list userID listID l \<longleftrightarrow> l_user_id l = userID \<and> l_id l = trim_space listID"

definition BookListForUser :: "string \<Rightarrow> string \<Rightarrow> BookList db_io" where
  "BookListForUser userID listID =
    no_rows_as ErrBookListNotFound (query (\<lambda>d.
      case List.find (own_list userID listID) (book_lists d) of
        None \<Rightarrow> Inl SqlNoRows
      | Some l \<Rightarrow> Inr (scan_list d False l)))"

definition BookIDsForList :: "string \<Rightarrow> string \<Rightarrow> string list db_io" where
  "BookIDsForList userID listID =
    bnd (BookListForUser userID listID) (\<lambda>_.
    query (\<lambda>d. Inr (map i_book_id (sort_key (\<lambda>i. - i_added_at i)
      (filter (\<lambda>i. exists_where (\<lambda>l. own_list userID listID l \<and> l_id l = i_list_id i) (book_lists d))
        (list_items d))))))"

definition CreateBookList :: "env \<Rightarrow> string \<Rightarrow> string \<Rightarrow> BookList db_io" where
  "CreateBookList e userID name0 =
    bnd (of_result (normalizeListName name0)) (\<lambda>name.
    bnd (randomToken 16) (\<lambda>uid.
    bnd (query (\<lambda>d. Inr (exists_where (\<lambda>l. l_user_id l = userID \<and> eq_nocase (l_name l) name) (book_lists d))))
      (\<lambda>duplicate.
    bnd (fail_if duplicate ErrBookListNameExists) (\<lambda>_.
    bnd (handle (exec (insert_into lists_t \<lparr>l_id = uid, l_user_id = userID, l_name = name,
          l_created_at = unix_of (now e), l_updated_at = unix_of (now e)\<rparr>))
        (\<lambda>x. throw (if contains (to_lower (low e) (error_text x)) ''unique constraint''
                    then ErrBookListNameExists else x))) (\<lambda>_.
    ret \<lparr>lst_ID = uid, lst_UserID = userID, lst_Name = name, lst_BookCount = 0, lst_ContainsBook = False,
      lst_CreatedAt = now e, lst_UpdatedAt = now e\<rparr>)))))"

text \<open>\<open>ON DELETE CASCADE\<close> takes the items of the deleted lists along.\<close>

definition delete_lists :: "(list_row \<Rightarrow> bool) \<Rightarrow> db \<Rightarrow> err + db \<times> nat" where
  "delete_lists p d =
    (let gone = map l_id (filter p (book_lists d))
     in Inr (d\<lparr>book_lists := del_where p (book_lists d),
               list_items := del_where (\<lambda>i. i_list_id i \<in> set gone) (list_items d)\<rparr>,
             count_where p (book_lists d)))"

definition DeleteBookList :: "string \<Rightarrow> string \<Rightarrow> unit db_io" where
  "DeleteBookList userID listID =
    bnd (exec (delete_lists (\<lambda>l. l_id l = trim_space listID \<and> l_user_id l = userID)))
      (\<lambda>affected. fail_if (affected = 0) ErrBookListNotFound)"

definition touch_list :: "string \<Rightarrow> string \<Rightarrow> unix \<Rightarrow> nat db_io" where
  "touch_list userID listID t =
    exec (update_tab lists_t (\<lambda>l. l_id l = trim_space listID \<and> l_user_id l = userID)
      (\<lambda>l. l\<lparr>l_updated_at := t\<rparr>))"

definition AddBookToList :: "env \<Rightarrow> string \<Rightarrow> string \<Rightarrow> string \<Rightarrow> unit db_io" where
  "AddBookToList e userID listID bookID0 =
    bnd (of_result (normalizeBookID bookID0)) (\<lambda>bookID.
    bnd (BookListForUser userID listID) (\<lambda>_.
    tx (
      bnd (exec (insert_or_ignore list_items_t (\<lambda>i. (i_list_id i, i_book_id i))
        \<lparr>i_list_id = trim_space listID, i_book_id = bookID, i_added_at = unix_of (now e)\<rparr>)) (\<lambda>_.
      bnd (touch_list userID listID (unix_of (now e))) (\<lambda>_. ret ())))))"

definition RemoveBookFromList :: "env \<Rightarrow> string \<Rightarrow> string \<Rightarrow> string \<Rightarrow> unit db_io" where
  "RemoveBookFromList e userID listID bookID0 =
    bnd (of_result (normalizeBookID bookID0)) (\<lambda>bookID.
    bnd (BookListForUser userID listID) (\<lambda>_.
    tx (
      bnd (exec (delete_from list_items_t (\<lambda>i. i_list_id i = trim_space listID \<and> i_book_id i = bookID))) (\<lambda>_.
      bnd (touch_list userID listID (unix_of (now e))) (\<lambda>_. ret ())))))"

section \<open>Tags\<close>

record BookTag =
  tag_Name :: string
  tag_BookCount :: nat

text \<open>\<open>GROUP BY tag COLLATE NOCASE\<close>; within a group all spellings are equal to \<open>MIN\<close>, which keeps
  the first it meets.\<close>

definition tag_groups :: "tag_row list \<Rightarrow> string list" where
  "tag_groups rs = sort_key key_order (remdups (map (\<lambda>r. nocase (b_tag r)) rs))"

definition tag_group :: "tag_row list \<Rightarrow> string \<Rightarrow> BookTag" where
  "tag_group rs g =
    (let mine = filter (\<lambda>r. nocase (b_tag r) = g) rs
     in \<lparr>tag_Name = (case mine of [] \<Rightarrow> '''' | r # _ \<Rightarrow> b_tag r),
         tag_BookCount = length (remdups (map b_book_id mine))\<rparr>)"

definition TagsForUser :: "string \<Rightarrow> BookTag list db_io" where
  "TagsForUser userID = query (\<lambda>d.
    let rs = filter (\<lambda>r. b_user_id r = userID) (book_tags d) in Inr (map (tag_group rs) (tag_groups rs)))"

definition TagsForBook :: "string \<Rightarrow> string \<Rightarrow> string list db_io" where
  "TagsForBook userID bookID0 =
    bnd (of_result (normalizeBookID bookID0)) (\<lambda>bookID.
    query (\<lambda>d. Inr (map b_tag (sort_key (\<lambda>r. key_order (b_tag r))
      (filter (\<lambda>r. b_user_id r = userID \<and> b_book_id r = bookID) (book_tags d))))))"

definition BookIDsForTag :: "string \<Rightarrow> string \<Rightarrow> string list db_io" where
  "BookIDsForTag userID tag0 =
    bnd (of_result (normalizeTag tag0)) (\<lambda>tag.
    query (\<lambda>d. Inr (map b_book_id (sort_key (\<lambda>r. - b_created_at r)
      (filter (\<lambda>r. b_user_id r = userID \<and> eq_nocase (b_tag r) tag) (book_tags d))))))"

definition AddBookTag :: "env \<Rightarrow> string \<Rightarrow> string \<Rightarrow> string \<Rightarrow> unit db_io" where
  "AddBookTag e userID bookID0 tag0 =
    bnd (of_result (normalizeBookID bookID0)) (\<lambda>bookID.
    bnd (of_result (normalizeTag tag0)) (\<lambda>tag.
    bnd (exec (insert_or_ignore tags_t (\<lambda>r. (b_user_id r, b_book_id r, nocase (b_tag r)))
      \<lparr>b_user_id = userID, b_book_id = bookID, b_tag = tag, b_created_at = unix_of (now e)\<rparr>)) (\<lambda>_. ret ())))"

definition RemoveBookTag :: "string \<Rightarrow> string \<Rightarrow> string \<Rightarrow> unit db_io" where
  "RemoveBookTag userID bookID0 tag0 =
    bnd (of_result (normalizeBookID bookID0)) (\<lambda>bookID.
    bnd (of_result (normalizeTag tag0)) (\<lambda>tag.
    bnd (exec (delete_from tags_t
      (\<lambda>r. b_user_id r = userID \<and> b_book_id r = bookID \<and> eq_nocase (b_tag r) tag))) (\<lambda>_. ret ())))"

section \<open>What successful runs do\<close>

lemma handle_throw_InrE [io_elim]:
  "handle m (\<lambda>x. throw (f x)) c = (Inr y, c') \<Longrightarrow> (m c = (Inr y, c') \<Longrightarrow> P) \<Longrightarrow> P"
  by (auto simp: handle_def throw_def split: prod.splits sum.splits)

lemma atomic_handle_throw [atomic_intro]: "atomic m \<Longrightarrow> atomic (handle m (\<lambda>x. throw (f x)))"
  unfolding atomic_def handle_def throw_def by (auto split: prod.splits sum.splits)

lemma upsert_Inr_iff [simp]:
  "upsert t k r f d = Inr (d', n) \<longleftrightarrow>
    (if exists_where (\<lambda>x. k x = k r) (tab_rows t d) then update_tab t (\<lambda>x. k x = k r) f d = Inr (d', n)
     else insert_into t r d = Inr (d', n))"
  by (simp add: upsert_def)

lemma insert_or_ignore_Inr_iff [simp]:
  "insert_or_ignore t k r d = Inr (d', n) \<longleftrightarrow>
    (if exists_where (\<lambda>x. k x = k r) (tab_rows t d) then d' = d \<and> n = 0 else insert_into t r d = Inr (d', n))"
  by (auto simp: insert_or_ignore_def)

definition with_read :: "string \<Rightarrow> string \<Rightarrow> unix \<Rightarrow> activity_row list \<Rightarrow> activity_row list" where
  "with_read uid b t rs =
    (if exists_where (\<lambda>r. a_user_id r = uid \<and> a_book_id r = b) rs
     then upd_where (\<lambda>r. a_user_id r = uid \<and> a_book_id r = b) (\<lambda>r. r\<lparr>a_last_read_at := t\<rparr>) rs
     else rs @ [\<lparr>a_user_id = uid, a_book_id = b, a_last_read_at = t\<rparr>])"

lemma RecordBookRead_InrE:
  assumes run: "RecordBookRead e uid b0 c = (Inr x, c')"
  obtains b where "normalizeBookID b0 = Inr b" "activity_broken (tables c) (activity (tables c')) = None"
    "tables c' = (tables c)\<lparr>activity := with_read uid b (unix_of (now e)) (activity (tables c))\<rparr>"
proof -
  show ?thesis
    using run unfolding RecordBookRead_def
    by (elim io_elim)
      (clarsimp split: if_splits simp del: exists_where_iff, (rule that, (assumption | rule refl | simp add: with_read_def del: exists_where_iff)+)+)
qed

lemma BookListForUser_InrE [io_elim]:
  assumes run: "BookListForUser uid lid c = (Inr b, c')"
  obtains l fs where "List.find (own_list uid lid) (book_lists (tables c)) = Some l"
    "b = scan_list (tables c) False l" "c' = c\<lparr>faults := fs\<rparr>"
  using run unfolding BookListForUser_def
  by (elim io_elim) (auto split: option.splits intro: that)

lemma CreateBookList_InrE:
  assumes run: "CreateBookList e uid name0 c = (Inr b, c')"
  obtains name idb rest where "normalizeListName name0 = Inr name" "length idb = 16" "entropy c = idb @ rest"
    "\<forall>l \<in> set (book_lists (tables c)). l_user_id l = uid \<longrightarrow> \<not> eq_nocase (l_name l) name"
    "lists_broken (tables c) (book_lists (tables c')) = None"
    "tables c' = (tables c)\<lparr>book_lists := book_lists (tables c) @ [\<lparr>l_id = b64_encode url_alphabet idb,
      l_user_id = uid, l_name = name, l_created_at = unix_of (now e), l_updated_at = unix_of (now e)\<rparr>]\<rparr>"
    "b = \<lparr>lst_ID = b64_encode url_alphabet idb, lst_UserID = uid, lst_Name = name, lst_BookCount = 0,
      lst_ContainsBook = False, lst_CreatedAt = now e, lst_UpdatedAt = now e\<rparr>"
proof -
  show ?thesis
    using run unfolding CreateBookList_def
    by (elim io_elim) (clarsimp, rule that, (assumption | rule refl | force)+)
qed

lemma delete_lists_Inr_iff [simp]:
  "delete_lists p d = Inr (d', n) \<longleftrightarrow> n = count_where p (book_lists d) \<and>
    d' = d\<lparr>book_lists := del_where p (book_lists d),
      list_items := del_where (\<lambda>i. \<exists>l \<in> set (book_lists d). p l \<and> l_id l = i_list_id i) (list_items d)\<rparr>"
proof -
  have eq: "(\<lambda>i. i_list_id i \<in> set (map l_id (filter p (book_lists d)))) =
      (\<lambda>i. \<exists>l \<in> set (book_lists d). p l \<and> l_id l = i_list_id i)"
    by (force simp: fun_eq_iff)
  show ?thesis unfolding delete_lists_def Let_def eq by auto
qed

definition without_list :: "string \<Rightarrow> string \<Rightarrow> db \<Rightarrow> db" where
  "without_list uid lid d = (let p = (\<lambda>l. l_id l = trim_space lid \<and> l_user_id l = uid)
    in d\<lparr>book_lists := del_where p (book_lists d),
      list_items := del_where (\<lambda>i. \<exists>l \<in> set (book_lists d). p l \<and> l_id l = i_list_id i) (list_items d)\<rparr>)"

lemma DeleteBookList_InrE:
  assumes run: "DeleteBookList uid lid c = (Inr x, c')"
  obtains "\<exists>l \<in> set (book_lists (tables c)). l_id l = trim_space lid \<and> l_user_id l = uid"
    "tables c' = without_list uid lid (tables c)"
proof -
  show ?thesis
    using run unfolding DeleteBookList_def
    by (elim io_elim) (clarsimp, rule that, auto simp: without_list_def)
qed

definition touched :: "string \<Rightarrow> string \<Rightarrow> unix \<Rightarrow> list_row list \<Rightarrow> list_row list" where
  "touched uid lid t ls = upd_where (\<lambda>l. l_id l = trim_space lid \<and> l_user_id l = uid) (\<lambda>l. l\<lparr>l_updated_at := t\<rparr>) ls"

lemma touch_list_InrE [io_elim]:
  assumes run: "touch_list uid lid t c = (Inr n, c')"
  obtains fs where "lists_broken (tables c) (touched uid lid t (book_lists (tables c))) = None"
    "c' = c\<lparr>faults := fs, tables := (tables c)\<lparr>book_lists := touched uid lid t (book_lists (tables c))\<rparr>\<rparr>"
  using run unfolding touch_list_def by (elim io_elim) (auto simp: touched_def intro: that)

definition with_item :: "string \<Rightarrow> string \<Rightarrow> unix \<Rightarrow> list_item_row list \<Rightarrow> list_item_row list" where
  "with_item l b t is = (if exists_where (\<lambda>i. i_list_id i = l \<and> i_book_id i = b) is then is
     else is @ [\<lparr>i_list_id = l, i_book_id = b, i_added_at = t\<rparr>])"

lemma lists_broken_items [simp]: "lists_broken (d\<lparr>list_items := is\<rparr>) ls = lists_broken d ls"
  by (simp add: lists_broken_def user_ids_def)

lemma AddBookToList_InrE:
  assumes run: "AddBookToList e uid lid b0 c = (Inr x, c')"
  obtains b l where "normalizeBookID b0 = Inr b"
    "List.find (own_list uid lid) (book_lists (tables c)) = Some l"
    "list_items (tables c') \<noteq> list_items (tables c) \<longrightarrow> list_items_broken (tables c) (list_items (tables c')) = None"
    "lists_broken (tables c) (book_lists (tables c')) = None"
    "tables c' = (tables c)\<lparr>list_items := with_item (trim_space lid) b (unix_of (now e)) (list_items (tables c)),
      book_lists := touched uid lid (unix_of (now e)) (book_lists (tables c))\<rparr>"
proof -
  show ?thesis
    using run unfolding AddBookToList_def
    by (elim io_elim)
      (clarsimp split: if_splits simp del: exists_where_iff, (rule that, (assumption | rule refl
        | simp add: with_item_def del: exists_where_iff)+)+)
qed

lemma RemoveBookFromList_InrE:
  assumes run: "RemoveBookFromList e uid lid b0 c = (Inr x, c')"
  obtains b l where "normalizeBookID b0 = Inr b"
    "List.find (own_list uid lid) (book_lists (tables c)) = Some l"
    "lists_broken (tables c) (book_lists (tables c')) = None"
    "tables c' = (tables c)\<lparr>list_items := del_where (\<lambda>i. i_list_id i = trim_space lid \<and> i_book_id i = b)
        (list_items (tables c)),
      book_lists := touched uid lid (unix_of (now e)) (book_lists (tables c))\<rparr>"
proof -
  show ?thesis
    using run unfolding RemoveBookFromList_def
    by (elim io_elim) (clarsimp, rule that, (assumption | rule refl | simp)+)
qed

definition with_tag :: "string \<Rightarrow> string \<Rightarrow> string \<Rightarrow> unix \<Rightarrow> tag_row list \<Rightarrow> tag_row list" where
  "with_tag uid b g t rs =
    (if exists_where (\<lambda>r. b_user_id r = uid \<and> b_book_id r = b \<and> nocase (b_tag r) = nocase g) rs then rs
     else rs @ [\<lparr>b_user_id = uid, b_book_id = b, b_tag = g, b_created_at = t\<rparr>])"

lemma AddBookTag_InrE:
  assumes run: "AddBookTag e uid b0 g0 c = (Inr x, c')"
  obtains b g where "normalizeBookID b0 = Inr b" "normalizeTag g0 = Inr g"
    "book_tags (tables c') \<noteq> book_tags (tables c) \<longrightarrow> tags_broken (tables c) (book_tags (tables c')) = None"
    "tables c' = (tables c)\<lparr>book_tags := with_tag uid b g (unix_of (now e)) (book_tags (tables c))\<rparr>"
proof -
  show ?thesis
    using run unfolding AddBookTag_def
    by (elim io_elim)
      (clarsimp split: if_splits simp del: exists_where_iff, (rule that, (assumption | rule refl
        | simp add: with_tag_def del: exists_where_iff)+)+)
qed

lemma RemoveBookTag_InrE:
  assumes run: "RemoveBookTag uid b0 g0 c = (Inr x, c')"
  obtains b g where "normalizeBookID b0 = Inr b" "normalizeTag g0 = Inr g"
    "tables c' = (tables c)\<lparr>book_tags := del_where (\<lambda>r. b_user_id r = uid \<and> b_book_id r = b \<and> eq_nocase (b_tag r) g)
      (book_tags (tables c))\<rparr>"
proof -
  show ?thesis
    using run unfolding RemoveBookTag_def
    by (elim io_elim) (clarsimp, rule that, (assumption | rule refl | simp)+)
qed

section \<open>Invariants\<close>

lemma atomic_library:
  "atomic (RecordBookRead e uid b)" "atomic (CreateBookList e uid name)" "atomic (DeleteBookList uid lid)"
  "atomic (AddBookToList e uid lid b)" "atomic (RemoveBookFromList e uid lid b)"
  "atomic (AddBookTag e uid b g)" "atomic (RemoveBookTag uid b g)"
proof -
  have r: "readonly (BookListForUser uid lid)"
    unfolding BookListForUser_def by (intro readonly_intro)
  show "atomic (AddBookToList e uid lid b)" "atomic (RemoveBookFromList e uid lid b)"
    unfolding AddBookToList_def RemoveBookFromList_def by (intro atomic_intro readonly_intro r)+
  show "atomic (DeleteBookList uid lid)"
    unfolding DeleteBookList_def
    by (rule atomic_exec_affected)
      (auto simp: count_where_def filter_empty_conv del_where_def filter_id_conv intro!: db.equality)
qed (unfold RecordBookRead_def CreateBookList_def AddBookTag_def RemoveBookTag_def,
  (intro atomic_intro readonly_intro)+)

text \<open>What one reader keeps, and what nobody else may touch.\<close>

definition library_view :: "string \<Rightarrow> db \<Rightarrow> activity_row list \<times> list_row list \<times> list_item_row list \<times> tag_row list" where
  "library_view v d =
    (filter (\<lambda>r. a_user_id r = v) (activity d),
     filter (\<lambda>l. l_user_id l = v) (book_lists d),
     filter (\<lambda>i. \<exists>l \<in> set (book_lists d). l_user_id l = v \<and> l_id l = i_list_id i) (list_items d),
     filter (\<lambda>r. b_user_id r = v) (book_tags d))"

lemma touched_ids [simp]: "map l_id (touched uid lid t ls) = map l_id ls"
  by (simp add: touched_def map_upd_where_same)

lemma touched_owner:
  "(\<exists>l \<in> set (touched uid lid t ls). l_user_id l = v \<and> l_id l = x) \<longleftrightarrow> (\<exists>l \<in> set ls. l_user_id l = v \<and> l_id l = x)"
  unfolding touched_def by (induction ls) auto

lemma view_RecordBookRead:
  "v \<noteq> uid \<Longrightarrow> library_view v (d\<lparr>activity := with_read uid b t (activity d)\<rparr>) = library_view v d"
  by (auto simp: library_view_def with_read_def intro!: filter_upd_where_other)

lemma view_with_item:
  assumes d: "distinct (map l_id (book_lists d))" and l: "List.find (own_list uid lid) (book_lists d) = Some l"
    and v: "v \<noteq> uid"
  shows "library_view v (d\<lparr>list_items := with_item (trim_space lid) b t (list_items d),
      book_lists := touched uid lid t (book_lists d)\<rparr>) = library_view v d"
    "library_view v (d\<lparr>list_items := del_where (\<lambda>i. i_list_id i = trim_space lid \<and> i_book_id i = b) (list_items d),
      book_lists := touched uid lid t (book_lists d)\<rparr>) = library_view v d"
proof -
  have "l \<in> set (book_lists d)" "l_user_id l = uid" "l_id l = trim_space lid"
    using find_SomeD [OF l] by (auto simp: own_list_def)
  then have o: "\<not> (\<exists>l \<in> set (book_lists d). l_user_id l = v \<and> l_id l = trim_space lid)"
    using v distinct_key_inj [OF d] by metis
  have t: "filter (\<lambda>l. l_user_id l = v) (touched uid lid t (book_lists d)) = filter (\<lambda>l. l_user_id l = v) (book_lists d)"
    unfolding touched_def using v by (intro filter_upd_where_other) auto
  show "library_view v (d\<lparr>list_items := with_item (trim_space lid) b t (list_items d),
      book_lists := touched uid lid t (book_lists d)\<rparr>) = library_view v d"
    using o by (auto simp: library_view_def touched_owner t with_item_def)
  show "library_view v (d\<lparr>list_items := del_where (\<lambda>i. i_list_id i = trim_space lid \<and> i_book_id i = b) (list_items d),
      book_lists := touched uid lid t (book_lists d)\<rparr>) = library_view v d"
    using o by (auto simp: library_view_def touched_owner t intro!: filter_del_where_other)
qed

lemma library_view_put: "library_view v (d\<lparr>book_lists := ls, list_items := is\<rparr>) =
    (filter (\<lambda>r. a_user_id r = v) (activity d), filter (\<lambda>l. l_user_id l = v) ls,
     filter (\<lambda>i. \<exists>l \<in> set ls. l_user_id l = v \<and> l_id l = i_list_id i) is,
     filter (\<lambda>r. b_user_id r = v) (book_tags d))"
  by (simp add: library_view_def)

lemma view_without_list:
  assumes d: "distinct (map l_id (book_lists d))" and v: "v \<noteq> uid"
  shows "library_view v (without_list uid lid d) = library_view v d"
proof -
  let ?p = "\<lambda>l. l_id l = trim_space lid \<and> l_user_id l = uid"
  have ls: "filter (\<lambda>l. l_user_id l = v) (del_where ?p (book_lists d)) = filter (\<lambda>l. l_user_id l = v) (book_lists d)"
    using v by (intro filter_del_where_other) auto
  have own: "(\<exists>l \<in> set (del_where ?p (book_lists d)). l_user_id l = v \<and> l_id l = x) \<longleftrightarrow>
      (\<exists>l \<in> set (book_lists d). l_user_id l = v \<and> l_id l = x)" for x
    using v by auto
  have its: "filter (\<lambda>i. \<exists>l \<in> set (book_lists d). l_user_id l = v \<and> l_id l = i_list_id i)
      (del_where (\<lambda>i. \<exists>l \<in> set (book_lists d). ?p l \<and> l_id l = i_list_id i) (list_items d)) =
    filter (\<lambda>i. \<exists>l \<in> set (book_lists d). l_user_id l = v \<and> l_id l = i_list_id i) (list_items d)"
    using v distinct_key_inj [OF d] by (intro filter_del_where_other) metis
  show ?thesis
    unfolding without_list_def Let_def library_view_put own ls its by (simp add: library_view_def)
qed

lemma view_CreateBookList:
  assumes ok: "db_ok d" and new: "lists_broken d (book_lists d @ [l]) = None" and v: "v \<noteq> l_user_id l"
  shows "library_view v (d\<lparr>book_lists := book_lists d @ [l]\<rparr>) = library_view v d"
  using v by (simp add: library_view_def)

lemma view_tags:
  assumes "v \<noteq> uid"
  shows "library_view v (d\<lparr>book_tags := with_tag uid b g t (book_tags d)\<rparr>) = library_view v d"
    "library_view v (d\<lparr>book_tags := del_where (\<lambda>r. b_user_id r = uid \<and> b_book_id r = b \<and> P r) (book_tags d)\<rparr>) = library_view v d"
  using assms by (auto simp: library_view_def with_tag_def intro!: filter_del_where_other)

text \<open>Operations of one user that leave the others' view of the tables alone.\<close>

locale private_action =
  fixes view :: "string \<Rightarrow> db \<Rightarrow> 'v" and act :: "string \<Rightarrow> 'a db_io"
  assumes others: "v \<noteq> uid \<Longrightarrow> preserves (\<lambda>d. db_ok d \<and> view v d = x) (act uid)"
begin

text \<open>So do any number of them, by any users but the one who looks.\<close>

lemma many_others:
  assumes "\<And>uid. uid \<in> set us \<Longrightarrow> uid \<noteq> v" and "db_ok (tables c)"
  shows "view v (tables (foldl (\<lambda>c uid. snd (act uid c)) c us)) = view v (tables c)"
  using assms
proof (induction us arbitrary: c)
  case (Cons uid us)
  have "db_ok (tables (snd (act uid c))) \<and> view v (tables (snd (act uid c))) = view v (tables c)"
    using others [of v uid "view v (tables c)"] Cons.prems by (auto simp: preserves_def)
  with Cons show ?case by simp
qed simp

end

lemma private_atomic:
  assumes "atomic (m :: 'a db_io)"
    and "\<And>c x c'. db_ok (tables c) \<Longrightarrow> m c = (Inr x, c') \<Longrightarrow>
      db_ok (tables c') \<and> view v (tables c') = view v (tables c)"
  shows "preserves (\<lambda>d. db_ok d \<and> view v d = x) m"
  using assms by (intro preserves_atomic) auto

lemma db_ok_drop_lists:
  assumes ok: "db_ok d" and i: "\<forall>i \<in> set (list_items d). \<forall>l \<in> set (book_lists d). p l \<longrightarrow> l_id l \<noteq> i_list_id i"
  shows "db_ok (d\<lparr>book_lists := del_where p (book_lists d)\<rparr>)"
proof -
  have "list_all (\<lambda>i. i_list_id i \<in> set (map l_id (book_lists d))) (list_items d)"
    using ok by (simp add: db_ok_def list_items_broken_def)
  then have fk: "list_all (\<lambda>i. i_list_id i \<in> set (map l_id (del_where p (book_lists d)))) (list_items d)"
    using i by (fastforce simp: list_all_iff)
  show ?thesis
    using ok fk by (simp add: db_ok_def broken_defs user_ids_def unique_del_where list_all_del_where del: set_map)
qed

lemma db_ok_library:
  assumes ok: "db_ok (tables c)"
  shows "RecordBookRead e uid b c = (Inr x, c') \<Longrightarrow> db_ok (tables c')"
    "CreateBookList e uid n c = (Inr y, c') \<Longrightarrow> db_ok (tables c')"
    "DeleteBookList uid lid c = (Inr x, c') \<Longrightarrow> db_ok (tables c')"
    "AddBookToList e uid lid b c = (Inr x, c') \<Longrightarrow> db_ok (tables c')"
    "RemoveBookFromList e uid lid b c = (Inr x, c') \<Longrightarrow> db_ok (tables c')"
    "AddBookTag e uid b g c = (Inr x, c') \<Longrightarrow> db_ok (tables c')"
    "RemoveBookTag uid b g c = (Inr x, c') \<Longrightarrow> db_ok (tables c')"
proof -
  have tb: "tags_broken (tables c) (book_tags (tables c)) = None"
    and li: "list_items_broken (tables c) (list_items (tables c)) = None" using ok by (simp_all add: db_ok_def)
  show "RecordBookRead e uid b c = (Inr x, c') \<Longrightarrow> db_ok (tables c')"
    by (elim RecordBookRead_InrE) (simp add: db_ok_activity ok)
  show "CreateBookList e uid n c = (Inr y, c') \<Longrightarrow> db_ok (tables c')"
    by (elim CreateBookList_InrE) (auto intro!: db_ok_lists ok)
  show "AddBookTag e uid b g c = (Inr x, c') \<Longrightarrow> db_ok (tables c')"
    using ok by (elim AddBookTag_InrE) (cases "book_tags (tables c') = book_tags (tables c)"; simp add: db_ok_tags)
  show "RemoveBookTag uid b g c = (Inr x, c') \<Longrightarrow> db_ok (tables c')"
    by (elim RemoveBookTag_InrE) (use ok in \<open>simp add: db_ok_tags broken_del_where tb\<close>)
  have t: "db_ok ((tables c)\<lparr>list_items := is, book_lists := touched uid lid t (book_lists (tables c))\<rparr>)"
    if "list_items_broken (tables c) is = None"
      "lists_broken (tables c) (touched uid lid t (book_lists (tables c))) = None" for "is" t
  proof (rule db_ok_lists)
    show "db_ok ((tables c)\<lparr>list_items := is\<rparr>)" by (rule db_ok_list_items [OF ok that(1)])
  qed (use that in \<open>simp_all del: set_map\<close>)
  have t0: "db_ok ((tables c)\<lparr>book_lists := touched uid lid t (book_lists (tables c))\<rparr>)"
    if "lists_broken (tables c) (touched uid lid t (book_lists (tables c))) = None" for t
    by (rule db_ok_lists [OF ok that]) (simp del: set_map)
  show "AddBookToList e uid lid b c = (Inr x, c') \<Longrightarrow> db_ok (tables c')"
  proof (elim AddBookToList_InrE)
    fix b'
    let ?is = "with_item (trim_space lid) b' (unix_of (now e)) (list_items (tables c))"
    assume i: "list_items (tables c') \<noteq> list_items (tables c) \<longrightarrow> list_items_broken (tables c) (list_items (tables c')) = None"
      and l: "lists_broken (tables c) (book_lists (tables c')) = None"
      and e: "tables c' = (tables c)\<lparr>list_items := ?is, book_lists := touched uid lid (unix_of (now e)) (book_lists (tables c))\<rparr>"
    have "list_items_broken (tables c) ?is = None" using i li by (cases "?is = list_items (tables c)") (simp_all add: e)
    then show "db_ok (tables c')" unfolding e using l by (intro t) (simp_all add: e)
  qed
  show "RemoveBookFromList e uid lid b c = (Inr x, c') \<Longrightarrow> db_ok (tables c')"
    using li by (elim RemoveBookFromList_InrE) (simp add: t broken_del_where)
  show "DeleteBookList uid lid c = (Inr x, c') \<Longrightarrow> db_ok (tables c')"
  proof (elim DeleteBookList_InrE)
    let ?p = "\<lambda>l. l_id l = trim_space lid \<and> l_user_id l = uid"
    let ?q = "\<lambda>i. \<exists>l \<in> set (book_lists (tables c)). ?p l \<and> l_id l = i_list_id i"
    assume t: "tables c' = without_list uid lid (tables c)"
    let ?d = "(tables c)\<lparr>list_items := del_where ?q (list_items (tables c))\<rparr>"
    have d: "db_ok ?d" by (intro db_ok_list_items ok broken_del_where li)
    have "db_ok (?d\<lparr>book_lists := del_where ?p (book_lists ?d)\<rparr>)"
    proof (rule db_ok_drop_lists [OF d], intro ballI impI notI)
      fix i l assume "i \<in> set (list_items ?d)" "l \<in> set (book_lists ?d)" "?p l" "l_id l = i_list_id i"
      then show False by (simp add: set_del_where)
    qed
    moreover have "tables c' = ?d\<lparr>book_lists := del_where ?p (book_lists ?d)\<rparr>"
      unfolding t without_list_def Let_def by (rule db.equality) simp_all
    ultimately show "db_ok (tables c')" by (simp only:)
  qed
qed


lemma private_ops:
  assumes v: "v \<noteq> uid"
  shows "preserves (\<lambda>d. db_ok d \<and> library_view v d = x) (RecordBookRead e uid b)"
    "preserves (\<lambda>d. db_ok d \<and> library_view v d = x) (CreateBookList e uid n)"
    "preserves (\<lambda>d. db_ok d \<and> library_view v d = x) (DeleteBookList uid lid)"
    "preserves (\<lambda>d. db_ok d \<and> library_view v d = x) (AddBookToList e uid lid b)"
    "preserves (\<lambda>d. db_ok d \<and> library_view v d = x) (RemoveBookFromList e uid lid b)"
    "preserves (\<lambda>d. db_ok d \<and> library_view v d = x) (AddBookTag e uid b g)"
    "preserves (\<lambda>d. db_ok d \<and> library_view v d = x) (RemoveBookTag uid b g)"
proof -
  show "preserves (\<lambda>d. db_ok d \<and> library_view v d = x) (RecordBookRead e uid b)"
    by (rule private_atomic [OF atomic_library(1)], rule conjI, erule (1) db_ok_library(1), elim RecordBookRead_InrE)
      (simp add: view_RecordBookRead [OF v])
  show "preserves (\<lambda>d. db_ok d \<and> library_view v d = x) (CreateBookList e uid n)"
    by (rule private_atomic [OF atomic_library(2)], rule conjI, erule (1) db_ok_library(2), elim CreateBookList_InrE)
      (simp add: view_CreateBookList v)
  show "preserves (\<lambda>d. db_ok d \<and> library_view v d = x) (DeleteBookList uid lid)"
    by (rule private_atomic [OF atomic_library(3)], rule conjI, erule (1) db_ok_library(3), elim DeleteBookList_InrE)
      (simp add: view_without_list [OF _ v] db_ok_unique)
  show "preserves (\<lambda>d. db_ok d \<and> library_view v d = x) (AddBookToList e uid lid b)"
    by (rule private_atomic [OF atomic_library(4)], rule conjI, erule (1) db_ok_library(4), elim AddBookToList_InrE)
      (simp add: view_with_item [OF _ _ v] db_ok_unique)
  show "preserves (\<lambda>d. db_ok d \<and> library_view v d = x) (RemoveBookFromList e uid lid b)"
    by (rule private_atomic [OF atomic_library(5)], rule conjI, erule (1) db_ok_library(5), elim RemoveBookFromList_InrE)
      (simp add: view_with_item [OF _ _ v] db_ok_unique)
  show "preserves (\<lambda>d. db_ok d \<and> library_view v d = x) (AddBookTag e uid b g)"
    by (rule private_atomic [OF atomic_library(6)], rule conjI, erule (1) db_ok_library(6), elim AddBookTag_InrE)
      (simp add: view_tags [OF v])
  show "preserves (\<lambda>d. db_ok d \<and> library_view v d = x) (RemoveBookTag uid b g)"
    by (rule private_atomic [OF atomic_library(7)], rule conjI, erule (1) db_ok_library(7), elim RemoveBookTag_InrE)
      (simp add: view_tags [OF v])
qed

interpretation reads: private_action library_view "\<lambda>uid. RecordBookRead e uid b" for e b
  by unfold_locales (rule private_ops)
interpretation creates: private_action library_view "\<lambda>uid. CreateBookList e uid n" for e n
  by unfold_locales (rule private_ops)
interpretation deletes: private_action library_view "\<lambda>uid. DeleteBookList uid lid" for lid
  by unfold_locales (rule private_ops)
interpretation adds: private_action library_view "\<lambda>uid. AddBookToList e uid lid b" for e lid b
  by unfold_locales (rule private_ops)
interpretation removes: private_action library_view "\<lambda>uid. RemoveBookFromList e uid lid b" for e lid b
  by unfold_locales (rule private_ops)
interpretation tags: private_action library_view "\<lambda>uid. AddBookTag e uid b g" for e b g
  by unfold_locales (rule private_ops)
interpretation untags: private_action library_view "\<lambda>uid. RemoveBookTag uid b g" for b g
  by unfold_locales (rule private_ops)

lemma preserves_library:
  "preserves store_ok (RecordBookRead e uid b)" "preserves store_ok (CreateBookList e uid n)"
  "preserves store_ok (DeleteBookList uid lid)" "preserves store_ok (AddBookToList e uid lid b)"
  "preserves store_ok (RemoveBookFromList e uid lid b)" "preserves store_ok (AddBookTag e uid b g)"
  "preserves store_ok (RemoveBookTag uid b g)"
proof -
  show "preserves store_ok (RecordBookRead e uid b)"
    by (rule preserves_atomic [OF atomic_library(1)], unfold store_ok_def, elim conjE, rule conjI,
        erule (1) db_ok_library(1), elim RecordBookRead_InrE) (simp add: admin_ok_def without_list_def Let_def)
  show "preserves store_ok (CreateBookList e uid n)"
    by (rule preserves_atomic [OF atomic_library(2)], unfold store_ok_def, elim conjE, rule conjI,
        erule (1) db_ok_library(2), elim CreateBookList_InrE) (simp add: admin_ok_def without_list_def Let_def)
  show "preserves store_ok (DeleteBookList uid lid)"
    by (rule preserves_atomic [OF atomic_library(3)], unfold store_ok_def, elim conjE, rule conjI,
        erule (1) db_ok_library(3), elim DeleteBookList_InrE) (simp add: admin_ok_def without_list_def Let_def)
  show "preserves store_ok (AddBookToList e uid lid b)"
    by (rule preserves_atomic [OF atomic_library(4)], unfold store_ok_def, elim conjE, rule conjI,
        erule (1) db_ok_library(4), elim AddBookToList_InrE) (simp add: admin_ok_def without_list_def Let_def)
  show "preserves store_ok (RemoveBookFromList e uid lid b)"
    by (rule preserves_atomic [OF atomic_library(5)], unfold store_ok_def, elim conjE, rule conjI,
        erule (1) db_ok_library(5), elim RemoveBookFromList_InrE) (simp add: admin_ok_def without_list_def Let_def)
  show "preserves store_ok (AddBookTag e uid b g)"
    by (rule preserves_atomic [OF atomic_library(6)], unfold store_ok_def, elim conjE, rule conjI,
        erule (1) db_ok_library(6), elim AddBookTag_InrE) (simp add: admin_ok_def without_list_def Let_def)
  show "preserves store_ok (RemoveBookTag uid b g)"
    by (rule preserves_atomic [OF atomic_library(7)], unfold store_ok_def, elim conjE, rule conjI,
        erule (1) db_ok_library(7), elim RemoveBookTag_InrE) (simp add: admin_ok_def without_list_def Let_def)
qed

end
