(* ===== verification/Sessions.thy ===== *)
theory Sessions
  imports Accounts
begin

text \<open>
  Login sessions and API tokens of \<open>auth/sqlite.go\<close>. Both are bearer credentials: the database holds
  a hash, a call presents the raw token. The locale \<open>credentials\<close> is what the HTTP layer relies on
  when it resolves one, and both kinds are shown to provide it.
\<close>

section \<open>Sessions\<close>

definition sessionDuration :: gotime where
  "sessionDuration = hours (30 * 24)"

text \<open>\<open>ORDER BY created_at DESC LIMIT -1 OFFSET 20\<close>: all but the first 20.\<close>

definition stale_sessions :: "string \<Rightarrow> session_row list \<Rightarrow> string list" where
  "stale_sessions uid ss =
    map s_token_hash (drop 20 (sort_key (\<lambda>s. - s_created_at s) (filter (\<lambda>s. s_user_id s = uid) ss)))"

definition user_active :: "string \<Rightarrow> bool db_io" where
  "user_active uid = query (\<lambda>d. one_row (map_option u_active (List.find (\<lambda>r. u_id r = uid) (users d))))"

definition trim_sessions :: "string \<Rightarrow> nat db_io" where
  "trim_sessions uid = exec (\<lambda>d. delete_from sessions_t
    (\<lambda>s. s_token_hash s \<in> set (stale_sessions uid (sessions d))) d)"

definition NewSession :: "env \<Rightarrow> string \<Rightarrow> string db_io" where
  "NewSession e userID =
    bnd (randomToken 32) (\<lambda>token.
    tx (
      bnd (user_active userID) (\<lambda>active.
      bnd (fail_if (\<not> active) ErrInactive) (\<lambda>_.
      bnd (exec (delete_from sessions_t (\<lambda>s. s_expires_at s \<le> unix_of (now e)))) (\<lambda>_.
      bnd (exec (insert_into sessions_t \<lparr>s_token_hash = tokenHash (crypto e) token, s_user_id = userID,
        s_created_at = unix_of (now e), s_expires_at = unix_of (now e + sessionDuration)\<rparr>)) (\<lambda>_.
      bnd (trim_sessions userID) (\<lambda>_.
      ret token)))))))"

text \<open>The join of \<open>users\<close> and \<open>sessions\<close>; the token hash is unique, and so is the user id.\<close>

definition session_user :: "string \<Rightarrow> unix \<Rightarrow> db \<Rightarrow> user_row option" where
  "session_user h t d =
    (case List.find (\<lambda>s. s_token_hash s = h \<and> s_expires_at s > t) (sessions d) of
      None \<Rightarrow> None
    | Some s \<Rightarrow> List.find (\<lambda>u. u_id u = s_user_id s \<and> u_active u) (users d))"

definition UserForSession :: "env \<Rightarrow> string \<Rightarrow> User option db_io" where
  "UserForSession e token =
    (if token = '''' then ret None
     else no_rows_nil (query (\<lambda>d.
       scan_user_row (session_user (tokenHash (crypto e) token) (unix_of (now e)) d))))"

definition DeleteSession :: "env \<Rightarrow> string \<Rightarrow> unit db_io" where
  "DeleteSession e token =
    bnd (exec (delete_from sessions_t (\<lambda>s. s_token_hash s = tokenHash (crypto e) token))) (\<lambda>_. ret ())"

section \<open>API tokens\<close>

record APIToken =
  tok_Name :: string
  tok_UserID :: string
  tok_CreatedAt :: gotime
  tok_LastUsedAt :: "gotime option"
  tok_ExpiresAt :: "gotime option"

definition token_char :: "char \<Rightarrow> bool" where
  "token_char c =
    (let b = of_char c :: nat
     in 65 \<le> b \<and> b \<le> 90 \<or> 97 \<le> b \<and> b \<le> 122 \<or> 48 \<le> b \<and> b \<le> 57 \<or> c \<in> {CHR ''.'', CHR ''_'', CHR ''-''})"

definition normalizeAPITokenName :: "string \<Rightarrow> err + string" where
  "normalizeAPITokenName name0 =
    (let name = trim_space name0
     in if 1 \<le> length name \<and> length name \<le> 80 \<and> list_all token_char name then Inr name
        else Inl (ErrText ''token name must contain only letters, digits, dot, underscore, or hyphen and be at most 80 characters''))"

definition ValidateAPITokenName :: "string \<Rightarrow> err option" where
  "ValidateAPITokenName name = (case normalizeAPITokenName name of Inl e \<Rightarrow> Some e | Inr _ \<Rightarrow> None)"

definition expiry_passed :: "gotime \<Rightarrow> gotime option \<Rightarrow> bool" where
  "expiry_passed t expiresAt = (case expiresAt of None \<Rightarrow> False | Some x \<Rightarrow> \<not> x > t)"

definition CreateAPIToken :: "env \<Rightarrow> string \<Rightarrow> string \<Rightarrow> gotime option \<Rightarrow> (string \<times> APIToken) db_io" where
  "CreateAPIToken e userID name0 expiresAt =
    bnd (of_result (normalizeAPITokenName name0)) (\<lambda>name.
    bnd (randomToken 32) (\<lambda>random.
    let raw = ''bbk_'' @ random in
    bnd (fail_if (expiry_passed (now e) expiresAt) (ErrText ''token expiry must be in the future'')) (\<lambda>_.
    tx (
      bnd (query (\<lambda>d. one_row (map_option
          (\<lambda>r. (u_active r, exists_where (\<lambda>t. t_user_id t = userID \<and> eq_nocase (t_name t) name) (api_tokens d)))
          (List.find (\<lambda>r. u_id r = userID) (users d))))) (\<lambda>(active, duplicate).
      bnd (fail_if (\<not> active) ErrInactive) (\<lambda>_.
      bnd (fail_if duplicate ErrAPITokenNameExists) (\<lambda>_.
      bnd (exec (insert_into tokens_t \<lparr>t_token_hash = tokenHash (crypto e) raw, t_user_id = userID,
        t_name = name, t_created_at = unix_of (now e), t_last_used_at = None,
        t_expires_at = map_option unix_of expiresAt\<rparr>)) (\<lambda>_.
      ret (raw, \<lparr>tok_Name = name, tok_UserID = userID, tok_CreatedAt = now e, tok_LastUsedAt = None,
        tok_ExpiresAt = expiresAt\<rparr>)))))))))"

definition token_live :: "string \<Rightarrow> unix \<Rightarrow> token_row \<Rightarrow> bool" where
  "token_live h t r \<longleftrightarrow> t_token_hash r = h \<and> (case t_expires_at r of None \<Rightarrow> True | Some x \<Rightarrow> x > t)"

definition scan_token :: "token_row \<Rightarrow> APIToken" where
  "scan_token r = \<lparr>tok_Name = t_name r, tok_UserID = t_user_id r, tok_CreatedAt = time_of_unix (t_created_at r),
    tok_LastUsedAt = map_option time_of_unix (t_last_used_at r),
    tok_ExpiresAt = map_option time_of_unix (t_expires_at r)\<rparr>"

definition UserForAPIToken :: "env \<Rightarrow> string \<Rightarrow> (User \<times> APIToken) option db_io" where
  "UserForAPIToken e token =
    (if \<not> has_prefix token ''bbk_'' \<or> length token < 20 then ret None
     else let h = tokenHash (crypto e) token; t = unix_of (now e) in
       tx_with (
         bnd (no_rows_nil (query (\<lambda>d. one_row (List.find (token_live h t) (api_tokens d))))) (\<lambda>found.
         case found of
           None \<Rightarrow> ret (Abandoned None)
         | Some row \<Rightarrow>
             bnd (no_rows_nil (queryUserWith (\<lambda>u. u_id u = t_user_id row \<and> u_active u))) (\<lambda>owner.
             case owner of
               None \<Rightarrow> ret (Abandoned None)
             | Some user \<Rightarrow>
                 bnd (exec (update_tab tokens_t (\<lambda>r. t_token_hash r = h)
                   (\<lambda>r. r\<lparr>t_last_used_at := Some t\<rparr>))) (\<lambda>_.
                 ret (Committed (Some (user, (scan_token row)\<lparr>tok_LastUsedAt := Some (now e)\<rparr>))))))))"

definition APITokens :: "string \<Rightarrow> APIToken list db_io" where
  "APITokens userID = query (\<lambda>d. Inr (map scan_token
    (sort_key (\<lambda>r. - t_created_at r) (filter (\<lambda>r. t_user_id r = userID) (api_tokens d)))))"

definition RevokeAPIToken :: "string \<Rightarrow> string \<Rightarrow> unit db_io" where
  "RevokeAPIToken userID name0 =
    bnd (of_result (normalizeAPITokenName name0)) (\<lambda>name.
    bnd (exec (delete_from tokens_t (\<lambda>t. t_user_id t = userID \<and> eq_nocase (t_name t) name)))
      (\<lambda>affected. fail_if (affected = 0) ErrAPITokenNotFound))"

definition RevokeCurrentAPIToken :: "env \<Rightarrow> string \<Rightarrow> unit db_io" where
  "RevokeCurrentAPIToken e token =
    bnd (exec (delete_from tokens_t (\<lambda>t. t_token_hash t = tokenHash (crypto e) token)))
      (\<lambda>affected. fail_if (affected = 0) ErrAPITokenNotFound)"

section \<open>What successful runs do\<close>

lemma user_active_InrE [io_elim]:
  assumes "user_active uid c = (Inr a, c')"
  obtains r fs where "List.find (\<lambda>r. u_id r = uid) (users (tables c)) = Some r" "a = u_active r"
    "c' = c\<lparr>faults := fs\<rparr>"
  using assms unfolding user_active_def by (elim query_InrE) (auto intro: that)

definition session_row_for :: "env \<Rightarrow> string \<Rightarrow> string \<Rightarrow> session_row" where
  "session_row_for e userID token = \<lparr>s_token_hash = tokenHash (crypto e) token, s_user_id = userID,
    s_created_at = unix_of (now e), s_expires_at = unix_of (now e + sessionDuration)\<rparr>"

definition sessions_after_login :: "env \<Rightarrow> string \<Rightarrow> string \<Rightarrow> session_row list \<Rightarrow> session_row list" where
  "sessions_after_login e uid token ss =
    (let ss' = del_where (\<lambda>s. s_expires_at s \<le> unix_of (now e)) ss @ [session_row_for e uid token]
     in del_where (\<lambda>s. s_token_hash s \<in> set (stale_sessions uid ss')) ss')"

lemma trim_sessions_InrE [io_elim]:
  assumes "trim_sessions uid c = (Inr n, c')"
  obtains fs where "c' = c\<lparr>faults := fs, tables := (tables c)\<lparr>sessions :=
    del_where (\<lambda>s. s_token_hash s \<in> set (stale_sessions uid (sessions (tables c)))) (sessions (tables c))\<rparr>\<rparr>"
  using assms unfolding trim_sessions_def by (elim exec_InrE) (auto intro: that)

lemma NewSession_InrE:
  assumes run: "NewSession e uid c = (Inr token, c')"
  obtains r bs rest where "List.find (\<lambda>r. u_id r = uid) (users (tables c)) = Some r" "u_active r"
    "length bs = 32" "token = b64_encode url_alphabet bs" "entropy c = bs @ rest"
    "sessions_broken (tables c) (del_where (\<lambda>s. s_expires_at s \<le> unix_of (now e)) (sessions (tables c))
       @ [session_row_for e uid token]) = None"
    "tables c' = (tables c)\<lparr>sessions := sessions_after_login e uid token (sessions (tables c))\<rparr>"
proof -
  have b: "sessions_broken (d\<lparr>sessions := x\<rparr>) rs = sessions_broken d rs" for d x rs
    by (simp add: sessions_broken_def user_ids_def)
  show ?thesis
    using run unfolding NewSession_def
    by (elim io_elim) (clarsimp simp: b, rule that, (assumption | rule refl
      | simp add: sessions_after_login_def session_row_for_def Let_def)+)
qed

lemma UserForSession_InrE:
  assumes run: "UserForSession e token c = (Inr r, c')"
  obtains "tables c' = tables c" "r = (if token = '''' then None else
    map_option scanUser (session_user (tokenHash (crypto e) token) (unix_of (now e)) (tables c)))"
proof (cases "token = ''''")
  case True
  then show ?thesis using run that by (simp add: UserForSession_def ret_def)
next
  case False
  then have "no_rows_nil (query (\<lambda>d.
       scan_user_row (session_user (tokenHash (crypto e) token) (unix_of (now e)) d))) c = (Inr r, c')"
    using run by (simp add: UserForSession_def)
  then obtain fs where *: "c' = c\<lparr>faults := fs\<rparr>"
    "r = None \<longrightarrow> (\<exists>x. scan_user_row (session_user (tokenHash (crypto e) token) (unix_of (now e)) (tables c))
      = Inl x \<and> is_err x SqlNoRows)"
    "\<And>x. r = Some x \<Longrightarrow> scan_user_row (session_user (tokenHash (crypto e) token) (unix_of (now e)) (tables c)) = Inr x"
    by (rule no_rows_nil_query_InrE) blast
  show ?thesis using False * by (intro that) (cases r; auto)+
qed

lemma no_rows_nil_one_row_InrE:
  assumes run: "no_rows_nil (query (\<lambda>d. one_row (g d))) c = (Inr x, c')"
  obtains fs where "c' = c\<lparr>faults := fs\<rparr>" "g (tables c) = x"
  using run by (elim no_rows_nil_query_InrE) (cases x; auto intro: that)

lemma CreateAPIToken_InrE:
  assumes run: "CreateAPIToken e uid name0 expiresAt c = (Inr (raw, tok), c')"
  obtains name bs rest r where "normalizeAPITokenName name0 = Inr name" "length bs = 32"
    "raw = ''bbk_'' @ b64_encode url_alphabet bs" "entropy c = bs @ rest" "\<not> expiry_passed (now e) expiresAt"
    "List.find (\<lambda>r. u_id r = uid) (users (tables c)) = Some r" "u_active r"
    "\<forall>t \<in> set (api_tokens (tables c)). t_user_id t = uid \<longrightarrow> \<not> eq_nocase (t_name t) name"
    "tokens_broken (tables c) (api_tokens (tables c')) = None"
    "tables c' = (tables c)\<lparr>api_tokens := api_tokens (tables c) @ [\<lparr>t_token_hash = tokenHash (crypto e) raw,
      t_user_id = uid, t_name = name, t_created_at = unix_of (now e), t_last_used_at = None,
      t_expires_at = map_option unix_of expiresAt\<rparr>]\<rparr>"
    "tok = \<lparr>tok_Name = name, tok_UserID = uid, tok_CreatedAt = now e, tok_LastUsedAt = None,
      tok_ExpiresAt = expiresAt\<rparr>"
proof -
  show ?thesis
    using run unfolding CreateAPIToken_def Let_def case_prod_beta
    by (elim io_elim) (clarsimp, rule that, (assumption | rule refl | force)+)
qed

definition touch_token :: "string \<Rightarrow> unix \<Rightarrow> db \<Rightarrow> db" where
  "touch_token h t d = d\<lparr>api_tokens := upd_where (\<lambda>r. t_token_hash r = h)
    (\<lambda>r. r\<lparr>t_last_used_at := Some t\<rparr>) (api_tokens d)\<rparr>"

lemma UserForAPIToken_InrE:
  assumes run: "UserForAPIToken e token c = (Inr r, c')"
  obtains (bad) "\<not> has_prefix token ''bbk_'' \<or> length token < 20" "r = None" "c' = c"
  | (unknown) "has_prefix token ''bbk_''" "20 \<le> length token"
      "List.find (token_live (tokenHash (crypto e) token) (unix_of (now e))) (api_tokens (tables c)) = None"
      "r = None" "tables c' = tables c"
  | (orphan) row where "has_prefix token ''bbk_''" "20 \<le> length token"
      "List.find (token_live (tokenHash (crypto e) token) (unix_of (now e))) (api_tokens (tables c)) = Some row"
      "List.find (\<lambda>u. u_id u = t_user_id row \<and> u_active u) (users (tables c)) = None"
      "r = None" "tables c' = tables c"
  | (live) row u where "has_prefix token ''bbk_''" "20 \<le> length token"
      "List.find (token_live (tokenHash (crypto e) token) (unix_of (now e))) (api_tokens (tables c)) = Some row"
      "List.find (\<lambda>u. u_id u = t_user_id row \<and> u_active u) (users (tables c)) = Some u"
      "r = Some (scanUser u, (scan_token row)\<lparr>tok_LastUsedAt := Some (now e)\<rparr>)"
      "tables c' = touch_token (tokenHash (crypto e) token) (unix_of (now e)) (tables c)"
      "tokens_broken (tables c) (api_tokens (tables c')) = None"
proof (cases "\<not> has_prefix token ''bbk_'' \<or> length token < 20")
  case True
  then show ?thesis using run bad by (simp add: UserForAPIToken_def ret_def)
next
  case False
  then have f: "has_prefix token ''bbk_''" "20 \<le> length token" by simp_all
  show ?thesis
    using run False unfolding UserForAPIToken_def Let_def
    apply simp
    apply (erule tx_with_InrE)
     apply (elim bnd_InrE case_option_InrE ret_InrE no_rows_nil_queryUser_InrE no_rows_nil_one_row_InrE exec_InrE;
       clarsimp)
     apply (rule live [OF f], (assumption | rule refl | simp add: touch_token_def)+)[1]
    apply (elim bnd_InrE case_option_InrE ret_InrE no_rows_nil_queryUser_InrE no_rows_nil_one_row_InrE exec_InrE;
       clarsimp)
     apply (rule unknown [OF f], (assumption | rule refl | simp)+)[1]
    apply (rule orphan [OF f], (assumption | rule refl | simp)+)[1]
    done
qed

lemma RevokeAPIToken_InrE:
  assumes run: "RevokeAPIToken uid name0 c = (Inr x, c')"
  obtains name where "normalizeAPITokenName name0 = Inr name"
    "\<exists>t \<in> set (api_tokens (tables c)). t_user_id t = uid \<and> eq_nocase (t_name t) name"
    "tables c' = (tables c)\<lparr>api_tokens := del_where (\<lambda>t. t_user_id t = uid \<and> eq_nocase (t_name t) name)
      (api_tokens (tables c))\<rparr>"
proof -
  show ?thesis
    using run unfolding RevokeAPIToken_def
    by (elim io_elim) (clarsimp, rule that, (assumption | rule refl | force)+)
qed

lemma RevokeCurrentAPIToken_InrE:
  assumes run: "RevokeCurrentAPIToken e token c = (Inr x, c')"
  obtains "tables c' = (tables c)\<lparr>api_tokens := del_where (\<lambda>t. t_token_hash t = tokenHash (crypto e) token)
      (api_tokens (tables c))\<rparr>"
  using run unfolding RevokeCurrentAPIToken_def by (elim io_elim) simp

lemma DeleteSession_InrE:
  assumes run: "DeleteSession e token c = (Inr x, c')"
  obtains "tables c' = (tables c)\<lparr>sessions := del_where (\<lambda>s. s_token_hash s = tokenHash (crypto e) token)
      (sessions (tables c))\<rparr>"
  using run unfolding DeleteSession_def by (elim io_elim) simp

section \<open>Invariants\<close>

lemma atomic_credentials:
  "atomic (NewSession e uid)" "atomic (UserForSession e token)" "atomic (DeleteSession e token)"
  "atomic (CreateAPIToken e uid name x)" "atomic (UserForAPIToken e token)"
  "atomic (RevokeAPIToken uid name)" "atomic (RevokeCurrentAPIToken e token)"
proof -
  show "atomic (UserForSession e token)"
    unfolding UserForSession_def by (auto intro!: atomic_intro readonly_intro)
  show "atomic (UserForAPIToken e token)"
    unfolding UserForAPIToken_def Let_def by (auto intro!: atomic_intro readonly_intro)
qed (unfold NewSession_def DeleteSession_def CreateAPIToken_def RevokeAPIToken_def
  RevokeCurrentAPIToken_def Let_def, (intro atomic_intro readonly_intro)+)

lemma store_ok_sessions: "store_ok d \<Longrightarrow> sessions_broken d ss = None \<Longrightarrow> store_ok (d\<lparr>sessions := ss\<rparr>)"
  by (auto simp: store_ok_def admin_ok_def intro: db_ok_sessions)

lemma store_ok_tokens: "store_ok d \<Longrightarrow> tokens_broken d ts = None \<Longrightarrow> store_ok (d\<lparr>api_tokens := ts\<rparr>)"
  by (auto simp: store_ok_def admin_ok_def intro: db_ok_tokens)

lemma preserves_NewSession: "preserves store_ok (NewSession e uid)"
proof (rule preserves_atomic [OF atomic_credentials(1)])
  fix c c' :: "db conn" and u
  assume ok: "store_ok (tables c)" and "NewSession e uid c = (Inr u, c')"
  from this(2) show "store_ok (tables c')"
    by (elim NewSession_InrE)
      (auto simp: sessions_after_login_def Let_def simp del: del_where_append intro!: store_ok_sessions ok broken_del_where)
qed

lemma preserves_CreateAPIToken: "preserves store_ok (CreateAPIToken e uid name x)"
proof (rule preserves_atomic [OF atomic_credentials(4)])
  fix c c' :: "db conn" and u
  assume ok: "store_ok (tables c)" and run: "CreateAPIToken e uid name x c = (Inr u, c')"
  obtain raw tok where "u = (raw, tok)" by fastforce
  with run have "CreateAPIToken e uid name x c = (Inr (raw, tok), c')" by simp
  then show "store_ok (tables c')"
    by (elim CreateAPIToken_InrE) (auto intro!: store_ok_tokens ok)
qed

lemma preserves_UserForAPIToken: "preserves store_ok (UserForAPIToken e token)"
proof (rule preserves_atomic [OF atomic_credentials(5)])
  fix c c' :: "db conn" and u
  assume ok: "store_ok (tables c)" and "UserForAPIToken e token c = (Inr u, c')"
  from this(2) show "store_ok (tables c')"
    by (cases rule: UserForAPIToken_InrE) (auto simp: ok touch_token_def intro!: store_ok_tokens)
qed

lemma preserves_revocations:
  "preserves store_ok (DeleteSession e token)" "preserves store_ok (RevokeAPIToken uid name)"
  "preserves store_ok (RevokeCurrentAPIToken e token)" "preserves store_ok (UserForSession e token)"
proof -
  show "preserves store_ok (DeleteSession e token)"
    by (rule preserves_atomic [OF atomic_credentials(3)]) (elim DeleteSession_InrE, simp add: store_ok_credentials)
  show "preserves store_ok (RevokeAPIToken uid name)"
    by (rule preserves_atomic [OF atomic_credentials(6)]) (elim RevokeAPIToken_InrE, simp add: store_ok_credentials)
  show "preserves store_ok (RevokeCurrentAPIToken e token)"
    by (rule preserves_atomic [OF atomic_credentials(7)])
      (elim RevokeCurrentAPIToken_InrE, simp add: store_ok_credentials)
  show "preserves store_ok (UserForSession e token)"
    by (rule preserves_atomic [OF atomic_credentials(2)]) (elim UserForSession_InrE, simp)
qed

end
