(* ===== verification/AccountFacts.thy ===== *)
theory AccountFacts
  imports Accounts
begin

text \<open>
  What the account operations guarantee: who can register and sign in, what Google sign-in may do to
  an existing account, and that stored passwords verify.
\<close>

section \<open>Properties\<close>

text \<open>C4: What \<open>RegisterEmail\<close> stores signs in: on the tables it leaves, and as long as no
  statement fails, \<open>AuthenticateEmail\<close> with the same password and the registered address (up to
  ASCII case and surrounding space) returns the account just created.\<close>

theorem register_then_login:
  assumes k: "crypto_ok (crypto e)" and ok: "store_ok (tables c)"
    and run: "RegisterEmail e email0 name0 password c = (Inr u, c')"
    and em: "eq_nocase (user_Email u) (trim_space email)"
    and c2: "tables c2 = tables c'" "faults c2 = []" and e2: "crypto e2 = crypto e"
  shows "\<exists>u' c3. AuthenticateEmail e2 email password c2 = (Inr u', c3) \<and> user_ID u' = user_ID u"
  using run
proof (rule RegisterEmail_InrE)
  fix email' salt idb hash rest
  let ?r = "new_user_row (b64_encode url_alphabet idb) email' (normalizeName name0 email')
    (first_role (length (users (tables c)))) hash None (unix_of (now e)) None"
  assume salt: "length salt = 16" and hash: "hash = encode_password (crypto e) password salt"
    and fresh: "\<forall>r \<in> set (users (tables c)). \<not> eq_nocase (u_email r) email'"
    and b: "users_broken (tables c) (users (tables c')) = None"
    and t: "tables c' = (tables c)\<lparr>users := users (tables c) @ [?r]\<rparr>"
    and u: "u = new_user (b64_encode url_alphabet idb) email' (normalizeName name0 email')
      (first_role (length (users (tables c)))) hash '''' (now e) None"
  let ?us = "users (tables c) @ [?r]"
  have em': "eq_nocase email' (trim_space email)" using em by (simp add: u new_user_def)
  have "List.find (\<lambda>r. eq_nocase (u_email r) (trim_space email)) (users (tables c)) = None"
    using fresh em' by (auto simp: find_None_iff dest: eq_nocase_trans [OF _ em' [unfolded eq_nocase_sym [of email']]])
  then have f: "List.find (\<lambda>r. eq_nocase (u_email r) (trim_space email)) ?us = Some ?r"
    using em' by (simp add: find_append_None new_user_row_def)
  have v: "verifyPassword (crypto e) hash password"
    by (simp add: hash verify_encode_password [OF k salt])
  have ne: "hash \<noteq> ''''" by (simp add: hash encode_password_def Let_def)
  have b2: "users_broken (tables c2) (users (tables c2)) = None"
    using b by (simp add: c2 t users_broken_def)
  obtain c3 where "AuthenticateEmail e2 email password c2 =
      (Inr ((scanUser ?r)\<lparr>user_LastLoginAt := Some (now e2), user_UpdatedAt := now e2\<rparr>), c3)"
    using AuthenticateEmail_ok [OF c2(2), of email ?r e2 password] f v ne b2
    by (auto simp: c2 t e2 new_user_row_def)
  then show ?thesis by (auto simp: u new_user_def scanUser_def new_user_row_def)
qed

theorem register_then_login_witness:
  "\<exists>u c' u' c3. RegisterEmail ex_env ''Ann@example.org'' ''Ann'' ''correct horse'' (ex_conn initial_db) = (Inr u, c')
    \<and> AuthenticateEmail ex_env '' ANN@example.org'' ''correct horse'' (ex_conn (tables c')) = (Inr u', c3)
    \<and> user_ID u' = user_ID u"
proof -
  obtain u c' where r: "RegisterEmail ex_env ''Ann@example.org'' ''Ann'' ''correct horse'' (ex_conn initial_db) = (Inr u, c')"
    using ex_register by blast
  then have "user_Email u = ''ann@example.org''"
    by (elim RegisterEmail_InrE) (simp add: ex_email new_user_def)
  moreover have "eq_nocase ''ann@example.org'' (trim_space '' ANN@example.org'')" by (simp add: ascii_eval)
  ultimately have "\<exists>u' c3. AuthenticateEmail ex_env '' ANN@example.org'' ''correct horse'' (ex_conn (tables c')) = (Inr u', c3)
      \<and> user_ID u' = user_ID u"
    using register_then_login [OF _ _ r, of "'' ANN@example.org''" "ex_conn (tables c')" ex_env]
    by (simp add: go.is_ok store_ok_initial)
  with r show ?thesis by blast
qed

text \<open>C3: Who gets an account, and with which rights: a registration succeeds only for an address no
  account has (NOCASE), with a password of at least ten bytes, while registration is open or there is
  no account yet; the first account is an active administrator, every later one an active reader, and
  no existing account changes.\<close>

theorem registration_policy:
  assumes "RegisterEmail e email0 name0 password c = (Inr u, c')"
  shows "user_Active u \<and> user_Role u = (if users (tables c) = [] then RoleAdmin else RoleReader) \<and>
    10 \<le> length password \<and> length (user_Name u) \<le> 100 \<and>
    (\<forall>r \<in> set (users (tables c)). \<not> eq_nocase (u_email r) (user_Email u)) \<and>
    (users (tables c) = [] \<or> (\<exists>g \<in> set (settings_tab (tables c)). g_registration_open g)) \<and>
    (\<exists>r. tables c' = (tables c)\<lparr>users := users (tables c) @ [r]\<rparr> \<and> scanUser r = u\<lparr>
      user_CreatedAt := time_of_unix (unix_of (now e)), user_UpdatedAt := time_of_unix (unix_of (now e))\<rparr>)"
  using assms
  by (rule RegisterEmail_InrE)
    (auto simp: new_user_def new_user_row_def scanUser_def first_role_def length_normalizeName)

theorem registration_policy_witness:
  "\<exists>u c'. RegisterEmail ex_env ''Ann@example.org'' ''Ann'' ''correct horse'' (ex_conn initial_db) = (Inr u, c')
    \<and> user_Role u = ''admin''"
proof -
  obtain u c' where r: "RegisterEmail ex_env ''Ann@example.org'' ''Ann'' ''correct horse'' (ex_conn initial_db) = (Inr u, c')"
    using ex_register by blast
  from registration_policy [OF r] r show ?thesis by auto
qed

text \<open>C5: A failed login changes no table and says nothing about the account to who does not know its
  password: a wrong password and an unknown address give the same error, and that an account is
  disabled is only reported when the password verifies.\<close>

theorem failed_login_discloses_nothing:
  assumes "AuthenticateEmail e email password c = (Inl x, c')" and "x \<noteq> IoFault"
    and "users_broken (tables c) (users (tables c)) = None"
  shows "tables c' = tables c \<and> (x = ErrInvalidCredentials \<or> x = ErrInactive) \<and>
    (x = ErrInactive \<longrightarrow> (\<exists>r \<in> set (users (tables c)). eq_nocase (u_email r) (trim_space email) \<and>
      \<not> u_active r \<and> verifyPassword (crypto e) (u_password_hash r) password))"
proof -
  have t: "tables c' = tables c" using assms(1) atomic_AuthenticateEmail by (rule atomicD [rotated])
  have b: "\<not> update_tab users_t p (\<lambda>r. r\<lparr>u_last_login_at := l, u_updated_at := m\<rparr>) (tables c) = Inl y" for p l m y
    using assms(3) by (simp add: update_tab_def write_rows_Inl_iff users_broken_upd)
  show ?thesis
    using assms(1,2) t unfolding AuthenticateEmail_def Let_def
    by (elim io_err io_elim) (auto simp: scanUser_def b split: if_splits)
qed

theorem failed_login_discloses_nothing_witness:
  "\<exists>c'. AuthenticateEmail ex_env ''nobody@example.org'' ''correct horse'' (ex_conn initial_db) = (Inl ErrInvalidCredentials, c')
    \<and> tables c' = initial_db"
proof -
  have r: "AuthenticateEmail ex_env ''nobody@example.org'' ''correct horse'' (ex_conn initial_db) =
      (Inl ErrInvalidCredentials, ex_conn initial_db)"
    by (simp add: AuthenticateEmail_def queryUserWith_def no_rows_as_def run_defs)
  from failed_login_discloses_nothing [OF r] r show ?thesis
    using store_ok_users_broken [OF store_ok_initial] by simp
qed

definition same_account :: "user_row \<Rightarrow> user_row \<Rightarrow> bool" where
  "same_account r r' \<longleftrightarrow> u_id r' = u_id r \<and> u_email r' = u_email r \<and> u_role r' = u_role r \<and>
    u_active r' = u_active r \<and> u_password_hash r' = u_password_hash r"

lemma same_account_upd:
  assumes "\<And>r. same_account r (f r)" and "\<And>r. r \<in> set rs \<Longrightarrow> p r \<Longrightarrow> u_google_subject (f r) = u_google_subject r \<or> q r"
  shows "\<forall>r \<in> set rs. \<exists>r' \<in> set (upd_where p f rs). same_account r r' \<and>
    (u_google_subject r' = u_google_subject r \<or> q r)"
proof
  fix r assume r: "r \<in> set rs"
  then have "(if p r then f r else r) \<in> set (upd_where p f rs)" by (auto simp: set_upd_where)
  moreover have "same_account r (if p r then f r else r)" using assms(1) by (simp add: same_account_def)
  ultimately show "\<exists>r' \<in> set (upd_where p f rs). same_account r r' \<and>
      (u_google_subject r' = u_google_subject r \<or> q r)"
    using assms(2) [OF r] by (intro bexI) auto
qed

lemma same_account_touch [simp]:
  "same_account r (google_touch n t r)" "same_account r (google_touch n t (r\<lparr>u_google_subject := g\<rparr>))"
  "u_google_subject (google_touch n t r) = u_google_subject r"
  by (simp_all add: same_account_def google_touch_def)

lemma new_id_fresh:
  "users_broken d (us @ [r]) = None \<Longrightarrow> u_id r \<notin> u_id ` set us"
  by (simp add: users_broken_def unique_def)

text \<open>C2: Google sign-in takes over no account. The account returned is active and carries the subject;
  it had that subject before, or it had none and Google vouched for the address it is registered with,
  or it is new and registration was open. Every account that was there keeps its email, role, state and
  password hash, and only the account returned can have its Google subject changed.\<close>

theorem google_sign_in_is_safe:
  assumes run: "UpsertGoogle e email0 name0 subject0 authoritative c = (Inr u, c')"
  shows "user_Active u \<and> user_GoogleSubject u = trim_space subject0 \<and>
    ((\<exists>r \<in> set (users (tables c)). u_id r = user_ID u \<and> u_google_subject r = Some (trim_space subject0)) \<or>
     (authoritative \<and> (\<exists>r \<in> set (users (tables c)). \<exists>email. normalizeEmail (low e) email0 = Inr email \<and>
        u_id r = user_ID u \<and> eq_nocase (u_email r) email \<and> u_google_subject r \<in> {None, Some ''''})) \<or>
     (user_ID u \<notin> set (user_ids (tables c)) \<and>
        (users (tables c) = [] \<or> (\<exists>g \<in> set (settings_tab (tables c)). g_registration_open g)))) \<and>
    (\<forall>r \<in> set (users (tables c)). \<exists>r' \<in> set (users (tables c')). same_account r r' \<and>
        (u_google_subject r' = u_google_subject r \<or> u_id r = user_ID u))"
  using run
proof (cases rule: UpsertGoogle_InrE)
  case (known email r c1 fs fs')
  have r: "r \<in> set (users (tables c))" "u_google_subject r = Some (trim_space subject0)"
    using find_SomeD [OF known(3)] by auto
  from known(4) show ?thesis
    by (rule google_known_InrE)
      (use r in \<open>auto simp: known(5) scanUser_def intro!: same_account_upd [rule_format]\<close>)
next
  case (linked email r c1 fs fs')
  have r: "r \<in> set (users (tables c))" "eq_nocase (u_email r) email"
    using find_SomeD [OF linked(4)] by auto
  have nr: "u_google_subject r \<noteq> Some (trim_space subject0)" using find_NoneD [OF linked(3) r(1)] .
  from linked(5) show ?thesis
    by (rule google_link_InrE)
      (use r nr linked(1) in \<open>auto simp: linked(6) scanUser_def intro!: same_account_upd [rule_format]
         split: option.splits\<close>)
next
  case (new email c1 fs fs')
  from new(5) show ?thesis
    by (rule google_new_InrE)
      (auto simp: new(6) new_user_def new_user_row_def same_account_def user_ids_def dest!: new_id_fresh)
qed

lemma users_broken_first: "u_role r = RoleAdmin \<Longrightarrow> users_broken d [r] = None"
  by (simp add: users_broken_def unique_def List.map_filter_def)

lemma ex_google:
  "\<exists>u c'. UpsertGoogle ex_env ''Ann@example.org'' ''Ann'' ''sub-1'' True (ex_conn initial_db) = (Inr u, c')
    \<and> user_Active u"
proof -
  have s: "trim_space ''sub-1'' = ''sub-1''" by (simp add: ascii_eval)
  show ?thesis
    by (simp add: UpsertGoogle_def google_new_def queryUserWith_def no_rows_nil_def run_defs ex_email s Let_def
      settings_query_def randomToken_ok insert_into_def write_rows_def users_broken_first new_user_row_def
      first_role_def new_user_def)
qed

theorem google_sign_in_is_safe_witness:
  "\<exists>u c'. UpsertGoogle ex_env ''Ann@example.org'' ''Ann'' ''sub-1'' True (ex_conn initial_db) = (Inr u, c')
    \<and> user_GoogleSubject u = trim_space ''sub-1''"
proof -
  obtain u c' where r: "UpsertGoogle ex_env ''Ann@example.org'' ''Ann'' ''sub-1'' True (ex_conn initial_db) = (Inr u, c')"
    using ex_google by blast
  from google_sign_in_is_safe [OF r] r show ?thesis by blast
qed

text \<open>The password functions agree: what \<open>hashPassword\<close> returns is accepted by \<open>verifyPassword\<close>
  for the same password, whatever salt was read, and for another password exactly when PBKDF2 gives
  the two the same key.\<close>

theorem hash_verifies:
  assumes "crypto_ok k" and "hashPassword k password c = (Inr h, c')"
  shows "verifyPassword k h password \<and>
    (\<exists>salt. length salt = 16 \<and> (\<forall>pw. verifyPassword k h pw \<longleftrightarrow>
      pbkdf2SHA256 k (bytes_of pw) salt passwordIterations passwordKeyBytes =
      pbkdf2SHA256 k (bytes_of password) salt passwordIterations passwordKeyBytes))"
  using assms(2) by (elim hashPassword_InrE) (auto simp: verify_encode_password [OF assms(1)])

theorem hash_verifies_witness:
  "\<exists>h c'. hashPassword go_crypto ''correct horse'' (ex_conn initial_db) = (Inr h, c') \<and>
    verifyPassword go_crypto h ''correct horse''"
proof -
  obtain h c' where r: "hashPassword go_crypto ''correct horse'' (ex_conn initial_db) = (Inr h, c')"
    by (simp add: hashPassword_ok)
  from hash_verifies [OF go.is_ok r] r show ?thesis by blast
qed

text \<open>C9: \<open>pbkdf2SHA256\<close> is the key derivation of RFC 8018, section 5.2, with any number of iterations
  the program accepts, any key length and any HMAC.\<close>

theorem pbkdf2_is_rfc_8018:
  assumes "0 < iterations"
  shows "pbkdf2SHA256 k pw salt iterations keyLength = rfc_pbkdf2 k pw salt iterations keyLength"
proof -
  have "map (pbkdf2_block k pw salt iterations) [1..<Suc b] = map (\<lambda>i. rfc_F k pw salt iterations (Suc i)) [0..<b]" for b
    by (simp add: pbkdf2_block_spec [OF assms] map_Suc_upt [symmetric] comp_def del: upt_Suc)
  then show ?thesis by (simp add: pbkdf2SHA256_def rfc_pbkdf2_def blocks_ceiling Let_def del: upt_Suc)
qed

theorem pbkdf2_is_rfc_8018_witness:
  "pbkdf2SHA256 go_crypto [1, 2] [3] 2 40 = rfc_pbkdf2 go_crypto [1, 2] [3] 2 40"
  by (rule pbkdf2_is_rfc_8018) simp

end
