(* ===== verification/SessionFacts.thy ===== *)
theory SessionFacts
  imports Sessions AccountFacts "HOL-Library.Multiset"
begin

text \<open>
  What bearer credentials guarantee: a session or token resolves exactly while its row is live and its
  owner active, fresh ones resolve, revoked ones do not, and a user keeps at most twenty sessions. The
  locale \<open>credentials\<close> collects what the HTTP layer uses of either kind.
\<close>

section \<open>The contract of a credential\<close>

locale credentials =
  fixes resolve :: "env \<Rightarrow> string \<Rightarrow> 'r option db_io"
    and who :: "'r \<Rightarrow> User"
    and revoke :: "env \<Rightarrow> string \<Rightarrow> unit db_io"
  assumes resolve_sound: "resolve e tok c = (Inr (Some x), c') \<Longrightarrow>
      \<exists>r \<in> set (users (tables c)). u_active r \<and> who x = scanUser r"
    and resolve_users: "resolve e tok c = (Inr y, c') \<Longrightarrow> users (tables c') = users (tables c)"
    and revoked: "revoke e tok c = (Inr u, c') \<Longrightarrow> tables c2 = tables c' \<Longrightarrow> crypto e2 = crypto e \<Longrightarrow>
      resolve e2 tok c2 = (Inr y, c3) \<Longrightarrow> y = None"
begin

lemma resolved_active: "resolve e tok c = (Inr (Some x), c') \<Longrightarrow> user_Active (who x)"
  using resolve_sound by (fastforce simp: scanUser_def)

lemma resolved_role:
  assumes "db_ok (tables c)" and "resolve e tok c = (Inr (Some x), c')"
  shows "role_valid (user_Role (who x))"
proof -
  obtain r where "r \<in> set (users (tables c))" "who x = scanUser r" using resolve_sound [OF assms(2)] by blast
  then show ?thesis
    using assms(1) by (auto simp: db_ok_def users_broken_def list_all_iff scanUser_def role_valid_def)
qed

lemma resolved_id: "resolve e tok c = (Inr (Some x), c') \<Longrightarrow> user_ID (who x) \<in> set (user_ids (tables c'))"
  using resolve_sound resolve_users by (fastforce simp: scanUser_def user_ids_def)

end

lemma session_user_SomeE:
  assumes "session_user h t d = Some r"
  obtains s where "s \<in> set (sessions d)" "s_token_hash s = h" "s_expires_at s > t"
    "r \<in> set (users d)" "u_id r = s_user_id s" "u_active r"
  using assms unfolding session_user_def
  by (auto split: option.splits dest!: find_SomeD intro: that)

interpretation session: credentials UserForSession id DeleteSession
proof
  fix e tok and c c' :: "db conn" and x
  assume "UserForSession e tok c = (Inr (Some x), c')"
  then show "\<exists>r \<in> set (users (tables c)). u_active r \<and> id x = scanUser r"
    by (elim UserForSession_InrE)
      (auto simp: eq_commute [of "Some _" "map_option _ _"] split: if_splits elim: session_user_SomeE)
next
  fix e tok and c c' :: "db conn" and y
  assume "UserForSession e tok c = (Inr y, c')"
  then show "users (tables c') = users (tables c)" by (elim UserForSession_InrE) simp
next
  fix e e2 tok u y and c c' c2 c3 :: "db conn"
  assume "DeleteSession e tok c = (Inr u, c')" "tables c2 = tables c'" "crypto e2 = crypto e"
    "UserForSession e2 tok c2 = (Inr y, c3)"
  then show "y = None"
    by (elim DeleteSession_InrE UserForSession_InrE)
      (auto simp: session_user_def find_None_iff split: option.splits dest: find_SomeD)
qed

interpretation token: credentials UserForAPIToken fst RevokeCurrentAPIToken
proof
  fix e tok and c c' :: "db conn" and x
  assume "UserForAPIToken e tok c = (Inr (Some x), c')"
  then show "\<exists>r \<in> set (users (tables c)). u_active r \<and> fst x = scanUser r"
    by (cases rule: UserForAPIToken_InrE) (auto dest: find_SomeD)
next
  fix e tok and c c' :: "db conn" and y
  assume "UserForAPIToken e tok c = (Inr y, c')"
  then show "users (tables c') = users (tables c)"
    by (cases rule: UserForAPIToken_InrE) (auto simp: touch_token_def)
next
  fix e e2 tok u y and c c' c2 c3 :: "db conn"
  assume rev: "RevokeCurrentAPIToken e tok c = (Inr u, c')" "tables c2 = tables c'" "crypto e2 = crypto e"
    and run: "UserForAPIToken e2 tok c2 = (Inr y, c3)"
  have n: "\<forall>t \<in> set (api_tokens (tables c2)). t_token_hash t \<noteq> tokenHash (crypto e2) tok"
    using rev by (elim RevokeCurrentAPIToken_InrE) auto
  show "y = None"
    by (rule UserForAPIToken_InrE [OF run]) (use n in \<open>auto simp: token_live_def dest: find_SomeD\<close>)
qed

section \<open>Stable order of the newest row\<close>

lemma sort_key_snoc:
  "sort_key k (xs @ [x]) = sort_key k (filter (\<lambda>y. k y \<le> k x) xs) @ x # sort_key k (filter (\<lambda>y. k x < k y) xs)"
proof (rule properties_for_sort_key)
  have "mset (filter (\<lambda>y. k y \<le> k x) xs) + mset (filter (\<lambda>y. k x < k y) xs) = mset xs"
    by (induction xs) auto
  then show "mset (sort_key k (filter (\<lambda>y. k y \<le> k x) xs) @ x # sort_key k (filter (\<lambda>y. k x < k y) xs)) = mset (xs @ [x])"
    by (simp add: ac_simps)
  show "sorted (map k (sort_key k (filter (\<lambda>y. k y \<le> k x) xs) @ x # sort_key k (filter (\<lambda>y. k x < k y) xs)))"
    by (auto simp: sorted_append)
next
  fix y
  have f: "filter (\<lambda>z. k y = k z) (sort_key k zs) = filter (\<lambda>z. k y = k z) zs" for zs
    using sort_key_stable [of k "k y" zs] by (simp add: eq_commute [of "k y"])
  show "filter (\<lambda>z. k y = k z) (sort_key k (filter (\<lambda>y. k y \<le> k x) xs) @ x # sort_key k (filter (\<lambda>y. k x < k y) xs))
      = filter (\<lambda>z. k y = k z) (xs @ [x])"
  proof (cases "k y \<le> k x")
    case True
    have "filter (\<lambda>z. k y = k z \<and> k z \<le> k x) xs = filter (\<lambda>z. k y = k z) xs"
      "filter (\<lambda>z. k y = k z \<and> k x < k z) xs = []"
      using True by (auto intro: filter_cong simp: filter_empty_conv)
    then show ?thesis by (auto simp: f conj_commute filter_empty_conv)
  next
    case False
    have "filter (\<lambda>z. k y = k z \<and> k z \<le> k x) xs = []"
      "filter (\<lambda>z. k y = k z \<and> k x < k z) xs = filter (\<lambda>z. k y = k z) xs"
      using False by (auto intro: filter_cong simp: filter_empty_conv)
    then show ?thesis using False by (auto simp: f conj_commute)
  qed
qed

section \<open>Sessions\<close>

text \<open>The session that was just inserted stays unless twenty of the user's sessions are as new.\<close>

lemma newest_position:
  assumes "length (filter (\<lambda>y. k y \<le> k x) xs) < n"
  shows "x \<in> set (take n (sort_key k (xs @ [x])))"
  using assms by (simp add: sort_key_snoc take_Cons')

lemma newest_dropped:
  assumes "n \<le> length (filter (\<lambda>y. k y \<le> k x) xs)"
  shows "x \<in> set (drop n (sort_key k (xs @ [x])))"
  using assms by (simp add: sort_key_snoc)

lemma take_drop_disjoint:
  assumes "distinct (map h xs)" and "x \<in> set (take n xs)"
  shows "h x \<notin> h ` set (drop n xs)"
proof -
  have "distinct (map h (take n xs) @ map h (drop n xs))"
    using assms(1) by (metis append_take_drop_id map_append)
  then have "set (map h (take n xs)) \<inter> set (map h (drop n xs)) = {}" by (simp only: distinct_append)
  then show ?thesis using assms(2) by auto
qed

definition rivals :: "env \<Rightarrow> string \<Rightarrow> session_row list \<Rightarrow> session_row list" where
  "rivals e uid ss = filter (\<lambda>s. s_user_id s = uid \<and> unix_of (now e) < s_expires_at s \<and>
    unix_of (now e) \<le> s_created_at s) ss"

lemma own_sessions_snoc:
  "filter (\<lambda>s. s_user_id s = uid) (del_where (\<lambda>s. s_expires_at s \<le> unix_of (now e)) ss @ [session_row_for e uid token])
    = filter (\<lambda>s. s_user_id s = uid \<and> unix_of (now e) < s_expires_at s) ss @ [session_row_for e uid token]"
  by (simp add: session_row_for_def del_where_def not_le conj_commute)

lemma rivals_eq:
  "rivals e uid ss = filter (\<lambda>s. - s_created_at s \<le> - s_created_at (session_row_for e uid token))
    (filter (\<lambda>s. s_user_id s = uid \<and> unix_of (now e) < s_expires_at s) ss)"
  by (auto simp: rivals_def session_row_for_def intro: filter_cong)

lemma new_session_kept:
  assumes b: "sessions_broken d (del_where (\<lambda>s. s_expires_at s \<le> unix_of (now e)) ss @ [session_row_for e uid token]) = None"
  shows "session_row_for e uid token \<in> set (sessions_after_login e uid token ss) \<longleftrightarrow> length (rivals e uid ss) < 20"
proof -
  let ?ss = "del_where (\<lambda>s. s_expires_at s \<le> unix_of (now e)) ss @ [session_row_for e uid token]"
  let ?own = "filter (\<lambda>s. s_user_id s = uid \<and> unix_of (now e) < s_expires_at s) ss"
  let ?k = "\<lambda>s. - s_created_at s"
  have d: "distinct (map s_token_hash (sort_key ?k (?own @ [session_row_for e uid token])))"
  proof -
    have "distinct (map s_token_hash (filter (\<lambda>s. s_user_id s = uid) ?ss))"
      using b by (intro distinct_map_filter) (simp add: sessions_broken_def unique_def)
    then have "distinct (map s_token_hash (?own @ [session_row_for e uid token]))" by (simp only: own_sessions_snoc)
    then show ?thesis unfolding distinct_map distinct_sort set_sort .
  qed
  have st: "stale_sessions uid ?ss = map s_token_hash (drop 20 (sort_key ?k (?own @ [session_row_for e uid token])))"
    by (simp only: stale_sessions_def own_sessions_snoc)
  have l: "sessions_after_login e uid token ss = del_where (\<lambda>s. s_token_hash s \<in> set (stale_sessions uid ?ss)) ?ss"
    by (simp only: sessions_after_login_def Let_def)
  have m: "session_row_for e uid token \<in> set (sessions_after_login e uid token ss) \<longleftrightarrow>
      s_token_hash (session_row_for e uid token) \<notin>
        s_token_hash ` set (drop 20 (sort_key ?k (?own @ [session_row_for e uid token])))"
    unfolding l st set_del_where by simp
  show ?thesis
  proof (cases "length (rivals e uid ss) < 20")
    case True
    have "session_row_for e uid token \<in> set (take 20 (sort_key ?k (?own @ [session_row_for e uid token])))"
      using True unfolding rivals_eq [of e uid ss token] by (rule newest_position)
    with take_drop_disjoint [OF d] m True show ?thesis by blast
  next
    case False
    then have "20 \<le> length (rivals e uid ss)" by simp
    then have "session_row_for e uid token \<in> set (drop 20 (sort_key ?k (?own @ [session_row_for e uid token])))"
      unfolding rivals_eq [of e uid ss token] by (rule newest_dropped)
    with m False show ?thesis by blast
  qed
qed

lemma session_user_of_row:
  assumes "distinct (map s_token_hash (sessions d))" "distinct (map u_id (users d))"
    and "s \<in> set (sessions d)" "s_expires_at s > t" "r \<in> set (users d)" "u_id r = s_user_id s" "u_active r"
  shows "session_user (s_token_hash s) t d = Some r"
proof -
  have f: "List.find (\<lambda>x. s_token_hash x = s_token_hash s \<and> s_expires_at x > t) (sessions d) = Some s"
    using assms(1,3,4) distinct_key_inj [OF assms(1)]
    by (cases "List.find (\<lambda>x. s_token_hash x = s_token_hash s \<and> s_expires_at x > t) (sessions d)")
      (auto dest!: find_SomeD simp: find_None_iff)
  have g: "List.find (\<lambda>u. u_id u = s_user_id s \<and> u_active u) (users d) = Some r"
    using assms(2,5-7) distinct_key_inj [OF assms(2)]
    by (cases "List.find (\<lambda>u. u_id u = s_user_id s \<and> u_active u) (users d)")
      (auto dest!: find_SomeD simp: find_None_iff)
  show ?thesis using f g by (simp add: session_user_def)
qed

lemma UserForSession_ok:
  "faults c = [] \<Longrightarrow> UserForSession e token c = (Inr (if token = '''' then None else
     map_option scanUser (session_user (tokenHash (crypto e) token) (unix_of (now e)) (tables c))), c)"
  by (simp add: UserForSession_def no_rows_nil_def run_defs scan_user_row_def split: option.splits)

text \<open>C1: A session token resolves exactly while it should. On a well-formed database, and when no
  statement fails, \<open>UserForSession\<close> returns an account if and only if there is a session row with the
  hash of the token that has not expired and whose owner is that account and is active.\<close>

theorem session_resolves_iff:
  assumes "db_ok (tables c)" and "faults c = []" and "token \<noteq> ''''"
  shows "UserForSession e token c = (Inr (Some u), c) \<longleftrightarrow>
    (\<exists>s \<in> set (sessions (tables c)). \<exists>r \<in> set (users (tables c)). s_token_hash s = tokenHash (crypto e) token \<and>
      unix_of (now e) < s_expires_at s \<and> u_id r = s_user_id s \<and> u_active r \<and> u = scanUser r)"
proof -
  note d = db_ok_unique(3,1) [OF assms(1)]
  show ?thesis
    unfolding UserForSession_ok [OF assms(2)] using assms(3) session_user_of_row [OF d]
    by (auto elim!: session_user_SomeE) force+
qed

text \<open>C6: A fresh session signs its user in. After \<open>NewSession\<close> the token resolves to the account it was
  issued for, for the next thirty days, unless twenty live sessions of that account were created in
  the same second or later.\<close>

theorem new_session_resolves:
  assumes ok: "store_ok (tables c)" and run: "NewSession e uid c = (Inr token, c')"
    and few: "length (rivals e uid (sessions (tables c))) < 20"
    and c2: "tables c2 = tables c'" "faults c2 = []"
    and e2: "crypto e2 = crypto e" "unix_of (now e2) < unix_of (now e + sessionDuration)"
  shows "\<exists>u. UserForSession e2 token c2 = (Inr (Some u), c2) \<and> user_ID u = uid"
  using run
proof (rule NewSession_InrE)
  fix r bs rest
  assume r: "List.find (\<lambda>r. u_id r = uid) (users (tables c)) = Some r" "u_active r"
    and bs: "length bs = 32" "token = b64_encode url_alphabet bs"
    and b: "sessions_broken (tables c) (del_where (\<lambda>s. s_expires_at s \<le> unix_of (now e)) (sessions (tables c))
       @ [session_row_for e uid token]) = None"
    and t: "tables c' = (tables c)\<lparr>sessions := sessions_after_login e uid token (sessions (tables c))\<rparr>"
  let ?s = "session_row_for e uid token"
  have ne: "token \<noteq> ''''" using length_b64_encode [of url_alphabet bs] bs by auto
  have db: "db_ok (tables c2)"
    using preservesD [OF preserves_NewSession ok run] by (simp add: c2 store_ok_def)
  have "?s \<in> set (sessions (tables c2))" using new_session_kept [OF b] few by (simp add: c2 t)
  moreover have "r \<in> set (users (tables c2))" "u_id r = uid" using find_SomeD [OF r(1)] by (simp_all add: c2 t)
  ultimately show ?thesis
    using session_resolves_iff [OF db c2(2) ne, of e2 "scanUser r"] r(2) e2
    by (fastforce simp: session_row_for_def scanUser_def)
qed

text \<open>With twenty such sessions the one just issued is deleted by the statement that trims the list,
  because rows of the same second keep their order: the caller gets a token that does not sign in.\<close>

theorem newest_session_lost:
  assumes run: "NewSession e uid c = (Inr token, c')"
    and many: "20 \<le> length (rivals e uid (sessions (tables c)))"
  shows "session_row_for e uid token \<notin> set (sessions (tables c'))"
  using run by (rule NewSession_InrE) (use many new_session_kept in \<open>fastforce\<close>)

lemma trimmed_count:
  assumes "distinct (map s_token_hash ss)"
  shows "count_where (\<lambda>s. s_user_id s = uid) (del_where (\<lambda>s. s_token_hash s \<in> set (stale_sessions uid ss)) ss) \<le> 20"
proof -
  let ?L = "sort_key (\<lambda>s. - s_created_at s) (filter (\<lambda>s. s_user_id s = uid) ss)"
  let ?q = "\<lambda>s. s_token_hash s \<notin> set (stale_sessions uid ss)"
  have "count_where (\<lambda>s. s_user_id s = uid) (del_where (\<lambda>s. s_token_hash s \<in> set (stale_sessions uid ss)) ss)
      = length (filter ?q (filter (\<lambda>s. s_user_id s = uid) ss))"
    by (simp add: count_where_def del_where_def conj_commute)
  also have "\<dots> = length (filter ?q ?L)"
    by (metis (no_types, lifting) mset_filter mset_sort size_mset)
  also have "\<dots> = length (filter ?q (take 20 ?L)) + length (filter ?q (drop 20 ?L))"
    by (metis append_take_drop_id filter_append length_append)
  also have "filter ?q (drop 20 ?L) = []" by (simp add: stale_sessions_def filter_empty_conv)
  finally show ?thesis using length_filter_le [of ?q "take 20 ?L"] by simp
qed

text \<open>C7: Twenty sessions per account: after \<open>NewSession\<close> the user has at most twenty sessions, all
  sessions in the table are live, and those of other users went away only by expiring.\<close>

theorem session_cap:
  assumes run: "NewSession e uid c = (Inr token, c')"
  shows "count_where (\<lambda>s. s_user_id s = uid) (sessions (tables c')) \<le> 20 \<and>
    (\<forall>s \<in> set (sessions (tables c')). unix_of (now e) < s_expires_at s) \<and>
    (\<forall>s \<in> set (sessions (tables c)). s_user_id s \<noteq> uid \<and> unix_of (now e) < s_expires_at s \<longrightarrow>
       s \<in> set (sessions (tables c')))"
proof (rule NewSession_InrE [OF run])
  assume b: "sessions_broken (tables c) (del_where (\<lambda>s. s_expires_at s \<le> unix_of (now e)) (sessions (tables c))
       @ [session_row_for e uid token]) = None"
    and t: "tables c' = (tables c)\<lparr>sessions := sessions_after_login e uid token (sessions (tables c))\<rparr>"
  define ss where "ss = del_where (\<lambda>s. s_expires_at s \<le> unix_of (now e)) (sessions (tables c)) @ [session_row_for e uid token]"
  have d: "distinct (map s_token_hash ss)"
    using b by (simp only: ss_def [symmetric]) (simp add: sessions_broken_def unique_def)
  have s: "sessions (tables c') = del_where (\<lambda>s. s_token_hash s \<in> set (stale_sessions uid ss)) ss"
    by (simp only: t sessions_after_login_def Let_def ss_def db.select_convs db.update_convs db.surjective) simp
  have live: "\<forall>s \<in> set ss. unix_of (now e) < s_expires_at s"
    by (auto simp: ss_def session_row_for_def sessionDuration_def)
  have other: "s_token_hash s \<notin> set (stale_sessions uid ss)" if "s \<in> set ss" "s_user_id s \<noteq> uid" for s
  proof
    assume "s_token_hash s \<in> set (stale_sessions uid ss)"
    then obtain x where "x \<in> set ss" "s_user_id x = uid" "s_token_hash s = s_token_hash x"
      by (auto simp: stale_sessions_def dest!: in_set_dropD)
    with that distinct_key_inj [OF d] show False by metis
  qed
  show ?thesis
    using trimmed_count [OF d, of uid] live other unfolding s by (auto simp: ss_def)
qed

section \<open>An example\<close>

definition ex_user :: user_row where
  "ex_user = new_user_row ''u1'' ''ann@example.org'' ''Ann'' RoleAdmin '''' None 0 None"

definition ex_reader :: user_row where
  "ex_reader = new_user_row ''u2'' ''bob@example.org'' ''Bob'' RoleReader '''' None 0 None"

definition ex_db :: db where
  "ex_db = initial_db\<lparr>users := [ex_user, ex_reader]\<rparr>"

lemma ex_user_simps [simp]: "u_id ex_user = ''u1''" "u_active ex_user" "u_role ex_user = ''admin''"
  "u_email ex_user = ''ann@example.org''" "u_google_subject ex_user = None" "u_password_hash ex_user = ''''"
  "u_id ex_reader = ''u2''" "u_active ex_reader" "u_role ex_reader = ''reader''"
  "u_email ex_reader = ''bob@example.org''" "u_google_subject ex_reader = None" "u_password_hash ex_reader = ''''"
  by (simp_all add: ex_user_def ex_reader_def new_user_row_def)

lemma ex_db_simps [simp]: "users ex_db = [ex_user, ex_reader]" "sessions ex_db = []" "api_tokens ex_db = []"
  "settings_tab ex_db = settings_tab initial_db" "user_ids ex_db = [''u1'', ''u2'']"
  "activity ex_db = []" "book_lists ex_db = []" "list_items ex_db = []" "book_tags ex_db = []"
  "reading_items ex_db = []" "reading_tags ex_db = []" "book_requests ex_db = []" "claims ex_db = []" "alerts ex_db = []"
  by (simp_all add: ex_db_def user_ids_def)

lemma ex_users_ok: "users_broken d [ex_user, ex_reader] = None"
  by (simp add: users_broken_def unique_def List.map_filter_def nocase_def nocase_byte_eval)

lemma store_ok_ex: "store_ok ex_db"
proof -
  have "db_ok (initial_db\<lparr>users := [ex_user, ex_reader]\<rparr>)"
    by (rule db_ok_users [OF db_ok_initial ex_users_ok]) (simp add: user_ids_def)
  then show ?thesis by (simp add: store_ok_def admin_ok_def active_admin_def ex_db_def)
qed

lemma ex_new_session: "\<exists>t c'. NewSession ex_env ''u1'' (ex_conn ex_db) = (Inr t, c')"
  by (simp add: NewSession_def user_active_def trim_sessions_def run_defs randomToken_ok insert_into_def
    write_rows_def delete_from_def sessions_broken_def unique_def user_ids_def one_row_def)

theorem session_resolves_iff_witness:
  "\<exists>d. d = ex_db\<lparr>sessions := [\<lparr>s_token_hash = tokenHash go_crypto ''t'', s_user_id = ''u1'',
      s_created_at = 0, s_expires_at = 9\<rparr>]\<rparr> \<and>
    UserForSession ex_env ''t'' (ex_conn d) = (Inr (Some (scanUser ex_user)), ex_conn d)"
proof -
  let ?d = "ex_db\<lparr>sessions := [\<lparr>s_token_hash = tokenHash go_crypto ''t'', s_user_id = ''u1'',
      s_created_at = 0, s_expires_at = 9\<rparr>]\<rparr>"
  have "db_ok ?d"
    using store_ok_ex by (intro db_ok_sessions) (simp_all add: store_ok_def sessions_broken_def unique_def)
  then show ?thesis
    using session_resolves_iff [of "ex_conn ?d" "''t''" ex_env "scanUser ex_user"]
    by (simp add: unix_of_def)
qed

theorem new_session_resolves_witness:
  "\<exists>t c' u. NewSession ex_env ''u1'' (ex_conn ex_db) = (Inr t, c') \<and>
    UserForSession ex_env t (ex_conn (tables c')) = (Inr (Some u), ex_conn (tables c')) \<and> user_ID u = ''u1''"
proof -
  obtain t c' where r: "NewSession ex_env ''u1'' (ex_conn ex_db) = (Inr t, c')" using ex_new_session by blast
  have "length (rivals ex_env ''u1'' (sessions (tables (ex_conn ex_db)))) < 20" by (simp add: rivals_def)
  then have "\<exists>u. UserForSession ex_env t (ex_conn (tables c')) = (Inr (Some u), ex_conn (tables c')) \<and> user_ID u = ''u1''"
    by (intro new_session_resolves [OF _ r]) (simp_all add: store_ok_ex sessionDuration_def unix_of_def hours_def)
  with r show ?thesis by blast
qed

theorem session_cap_witness:
  "\<exists>t c'. NewSession ex_env ''u1'' (ex_conn ex_db) = (Inr t, c') \<and>
    count_where (\<lambda>s. s_user_id s = ''u1'') (sessions (tables c')) \<le> 20"
proof -
  obtain t c' where r: "NewSession ex_env ''u1'' (ex_conn ex_db) = (Inr t, c')" using ex_new_session by blast
  from session_cap [OF r] r show ?thesis by blast
qed

section \<open>Revocation\<close>

definition no_credentials :: "string \<Rightarrow> db \<Rightarrow> bool" where
  "no_credentials uid d \<longleftrightarrow> (\<forall>s \<in> set (sessions d). s_user_id s \<noteq> uid) \<and> (\<forall>t \<in> set (api_tokens d). t_user_id t \<noteq> uid)"

lemma no_credentials_resolve:
  assumes "no_credentials uid (tables c)"
  shows "UserForSession e tok c = (Inr (Some u), c') \<Longrightarrow> user_ID u \<noteq> uid"
    and "UserForAPIToken e tok c = (Inr (Some (u, t)), c') \<Longrightarrow> user_ID u \<noteq> uid"
proof -
  assume "UserForSession e tok c = (Inr (Some u), c')"
  then show "user_ID u \<noteq> uid"
    using assms by (elim UserForSession_InrE)
      (auto simp: eq_commute [of "Some _" "map_option _ _"] no_credentials_def scanUser_def
        split: if_splits elim!: session_user_SomeE)
next
  assume "UserForAPIToken e tok c = (Inr (Some (u, t)), c')"
  then show "user_ID u \<noteq> uid"
    by (cases rule: UserForAPIToken_InrE)
      (use assms in \<open>auto simp: no_credentials_def scanUser_def dest!: find_SomeD\<close>)
qed

text \<open>C8: Changing a password logs its owner out everywhere: afterwards no session and no API token
  resolves to the account, whoever presents it and whenever, and the account's stored hash accepts the
  new password.\<close>

theorem password_change_revokes:
  assumes k: "crypto_ok (crypto e)" and run: "SetPassword e uid password c = (Inr x, c')"
    and c2: "tables c2 = tables c'"
  shows "(\<forall>e2 tok u c3. UserForSession e2 tok c2 = (Inr (Some u), c3) \<longrightarrow> user_ID u \<noteq> uid) \<and>
    (\<forall>e2 tok u t c3. UserForAPIToken e2 tok c2 = (Inr (Some (u, t)), c3) \<longrightarrow> user_ID u \<noteq> uid) \<and>
    (\<exists>r \<in> set (users (tables c')). u_id r = uid \<and> verifyPassword (crypto e) (u_password_hash r) password)"
  using run
proof (rule SetPassword_InrE)
  fix salt rest
  assume salt: "length salt = 16" and uid: "uid \<in> set (user_ids (tables c))"
    and t: "tables c' = (tables c)\<lparr>users := upd_where (\<lambda>r. u_id r = uid)
        (\<lambda>r. r\<lparr>u_password_hash := encode_password (crypto e) password salt, u_updated_at := unix_of (now e)\<rparr>)
        (users (tables c)),
      sessions := del_where (\<lambda>s. s_user_id s = uid) (sessions (tables c)),
      api_tokens := del_where (\<lambda>t. t_user_id t = uid) (api_tokens (tables c))\<rparr>"
  have "no_credentials uid (tables c2)" by (simp add: no_credentials_def c2 t)
  note n = no_credentials_resolve [OF this]
  have "\<exists>r \<in> set (users (tables c')). u_id r = uid \<and> verifyPassword (crypto e) (u_password_hash r) password"
  proof -
    obtain r where r: "r \<in> set (users (tables c))" "u_id r = uid" using uid by (auto simp: user_ids_def)
    let ?r = "r\<lparr>u_password_hash := encode_password (crypto e) password salt, u_updated_at := unix_of (now e)\<rparr>"
    have "?r \<in> set (users (tables c'))" using r by (force simp: t set_upd_where)
    moreover have "verifyPassword (crypto e) (u_password_hash ?r) password"
      by (simp add: verify_encode_password [OF k salt])
    ultimately show ?thesis using r(2) by (intro bexI [of _ ?r]) simp_all
  qed
  then show ?thesis using n by blast
qed

text \<open>Disabling an account takes effect at once: the update deletes its sessions and API tokens, and
  no credential resolves to it afterwards.\<close>

theorem deactivation_revokes:
  assumes run: "UpdateUser e uid role False c = (Inr u0, c')" and c2: "tables c2 = tables c'"
  shows "no_credentials uid (tables c') \<and>
    (\<forall>e2 tok u c3. UserForSession e2 tok c2 = (Inr (Some u), c3) \<longrightarrow> user_ID u \<noteq> uid) \<and>
    (\<forall>e2 tok u t c3. UserForAPIToken e2 tok c2 = (Inr (Some (u, t)), c3) \<longrightarrow> user_ID u \<noteq> uid)"
proof -
  have n: "no_credentials uid (tables c')" using run by (rule UpdateUser_InrE) (simp add: no_credentials_def)
  then have "no_credentials uid (tables c2)" by (simp add: c2)
  from no_credentials_resolve [OF this] n show ?thesis by blast
qed


lemma ex_set_password: "\<exists>c'. SetPassword ex_env ''u2'' ''correct horse'' (ex_conn ex_db) = (Inr (), c')"
proof -
  have "users_broken ex_db [ex_user, ex_reader\<lparr>u_password_hash := h, u_updated_at := t\<rparr>] = None" for h t
    by (simp add: users_broken_def unique_def List.map_filter_def nocase_def nocase_byte_eval)
  then show ?thesis
    by (simp add: SetPassword_def drop_credentials_def run_defs hashPassword_ok update_tab_def write_rows_def
      delete_from_def)
qed

theorem password_change_revokes_witness:
  "\<exists>c'. SetPassword ex_env ''u2'' ''correct horse'' (ex_conn ex_db) = (Inr (), c') \<and>
    (\<exists>r \<in> set (users (tables c')). u_id r = ''u2'' \<and> verifyPassword go_crypto (u_password_hash r) ''correct horse'')"
proof -
  obtain c' where r: "SetPassword ex_env ''u2'' ''correct horse'' (ex_conn ex_db) = (Inr (), c')"
    using ex_set_password by blast
  from password_change_revokes [OF _ r refl] r show ?thesis by (simp add: go.is_ok)
qed

lemma ex_disable: "\<exists>u c'. UpdateUser ex_env ''u2'' ''reader'' False (ex_conn ex_db) = (Inr u, c')"
proof -
  have "users_broken ex_db [ex_user, ex_reader\<lparr>u_role := ''reader'', u_active := False, u_updated_at := unix_of 0\<rparr>] = None"
    by (simp add: users_broken_def unique_def List.map_filter_def nocase_def nocase_byte_eval)
  then show ?thesis
    by (simp add: UpdateUser_def queryUserWith_def no_rows_as_def guard_last_admin_def drop_credentials_def
      run_defs role_valid_def scanUser_def update_tab_def write_rows_def delete_from_def)
qed

theorem deactivation_revokes_witness:
  "\<exists>u c'. UpdateUser ex_env ''u2'' ''reader'' False (ex_conn ex_db) = (Inr u, c') \<and> no_credentials ''u2'' (tables c')"
proof -
  obtain u c' where r: "UpdateUser ex_env ''u2'' ''reader'' False (ex_conn ex_db) = (Inr u, c')"
    using ex_disable by blast
  from deactivation_revokes [OF r refl] r show ?thesis by blast
qed

section \<open>API tokens\<close>

text \<open>A new API token works: it resolves to the account it was created for, under its name, until it
  expires, and using it records the use.\<close>

theorem api_token_resolves:
  assumes ok: "store_ok (tables c)" and run: "CreateAPIToken e uid name0 expiresAt c = (Inr (raw, tok), c')"
    and c2: "tables c2 = tables c'" "faults c2 = []" and e2: "crypto e2 = crypto e"
    and live: "\<forall>x. expiresAt = Some x \<longrightarrow> unix_of (now e2) < unix_of x"
  shows "\<exists>u t c3. UserForAPIToken e2 raw c2 = (Inr (Some (u, t)), c3) \<and> user_ID u = uid \<and>
    tok_Name t = tok_Name tok \<and> tok_LastUsedAt t = Some (now e2) \<and>
    (\<exists>r \<in> set (api_tokens (tables c3)). t_user_id r = uid \<and> t_name r = tok_Name tok \<and>
      t_last_used_at r = Some (unix_of (now e2)))"
  using run
proof (rule CreateAPIToken_InrE)
  fix name bs rest r
  let ?h = "tokenHash (crypto e) raw"
  let ?row = "\<lparr>t_token_hash = ?h, t_user_id = uid, t_name = name, t_created_at = unix_of (now e),
    t_last_used_at = None, t_expires_at = map_option unix_of expiresAt\<rparr>"
  assume bs: "length bs = 32" and raw: "raw = ''bbk_'' @ b64_encode url_alphabet bs"
    and r: "List.find (\<lambda>r. u_id r = uid) (users (tables c)) = Some r" "u_active r"
    and b: "tokens_broken (tables c) (api_tokens (tables c')) = None"
    and t: "tables c' = (tables c)\<lparr>api_tokens := api_tokens (tables c) @ [?row]\<rparr>"
    and tok: "tok = \<lparr>tok_Name = name, tok_UserID = uid, tok_CreatedAt = now e, tok_LastUsedAt = None,
      tok_ExpiresAt = expiresAt\<rparr>"
  let ?ts = "api_tokens (tables c) @ [?row]"
  have pre: "has_prefix raw ''bbk_''" "20 \<le> length raw"
    using length_b64_encode [of url_alphabet bs] bs by (simp_all add: raw has_prefix_def)
  have d: "distinct (map t_token_hash ?ts)" using b by (simp add: t tokens_broken_def unique_def)
  then have none: "List.find (token_live ?h (unix_of (now e2))) (api_tokens (tables c)) = None"
    by (force simp: find_None_iff token_live_def)
  have lv: "token_live ?h (unix_of (now e2)) ?row" using live by (auto simp: token_live_def split: option.splits)
  have f: "List.find (token_live ?h (unix_of (now e2))) ?ts = Some ?row"
    using none lv by (simp add: find_append_None)
  have du: "distinct (map u_id (users (tables c)))" using ok by (simp add: store_ok_def db_ok_unique)
  have g: "List.find (\<lambda>u. u_id u = uid \<and> u_active u) (users (tables c)) = Some r"
    using find_SomeD [OF r(1)] r(2) distinct_key_inj [OF du]
    by (cases "List.find (\<lambda>u. u_id u = uid \<and> u_active u) (users (tables c))")
      (auto dest!: find_SomeD simp: find_None_iff)
  let ?up = "upd_where (\<lambda>x. t_token_hash x = ?h) (\<lambda>x. x\<lparr>t_last_used_at := Some (unix_of (now e2))\<rparr>) ?ts"
  have "tokens_broken (tables c2) ?up = None"
    using b by (auto simp: tokens_broken_def unique_def t c2 user_ids_def map_upd_where_same list_all_iff set_upd_where
      simp del: upd_where_append)
  then have "UserForAPIToken e2 raw c2 = (Inr (Some (scanUser r, (scan_token ?row)\<lparr>tok_LastUsedAt := Some (now e2)\<rparr>)),
      c2\<lparr>tables := (tables c2)\<lparr>api_tokens := ?up\<rparr>\<rparr>)"
    using pre f g
    by (simp add: UserForAPIToken_def Let_def run_defs no_rows_nil_def queryUserWith_def c2 t e2 update_tab_def
      write_rows_def one_row_def del: upd_where_append)
  moreover have "user_ID (scanUser r) = uid" using find_SomeD [OF r(1)] by (simp add: scanUser_def)
  moreover have "?row\<lparr>t_last_used_at := Some (unix_of (now e2))\<rparr> \<in> set ?up" by simp
  ultimately show ?thesis by (force simp: tok scan_token_def)
qed


lemma ex_create_token: "\<exists>raw tok c'. CreateAPIToken ex_env ''u2'' ''cli'' None (ex_conn ex_db) = (Inr (raw, tok), c')"
proof -
  have "normalizeAPITokenName ''cli'' = Inr ''cli''"
    by (simp add: normalizeAPITokenName_def ascii_eval token_char_def)
  then show ?thesis
    by (simp add: CreateAPIToken_def Let_def run_defs randomToken_ok expiry_passed_def insert_into_def write_rows_def
      tokens_broken_def unique_def user_ids_def one_row_def)
qed

theorem api_token_resolves_witness:
  "\<exists>raw tok c' u t c3. CreateAPIToken ex_env ''u2'' ''cli'' None (ex_conn ex_db) = (Inr (raw, tok), c') \<and>
    UserForAPIToken ex_env raw (ex_conn (tables c')) = (Inr (Some (u, t)), c3) \<and> user_ID u = ''u2''"
proof -
  obtain raw tok c' where r: "CreateAPIToken ex_env ''u2'' ''cli'' None (ex_conn ex_db) = (Inr (raw, tok), c')"
    using ex_create_token by blast
  from api_token_resolves [OF _ r, of "ex_conn (tables c')" ex_env] r show ?thesis
    by (simp add: store_ok_ex) blast
qed

text \<open>Logging out and revoking end a credential for good: once \<open>DeleteSession\<close> or
  \<open>RevokeCurrentAPIToken\<close> has succeeded, or \<open>RevokeAPIToken\<close> for the token's name, the raw token does
  not resolve on the tables they leave, at any time.\<close>

theorem revoked_credentials_are_dead:
  assumes c2: "tables c2 = tables c'" and e2: "crypto e2 = crypto e"
  shows "(DeleteSession e tok c = (Inr x, c') \<longrightarrow> UserForSession e2 tok c2 = (Inr s, c3) \<longrightarrow> s = None) \<and>
    (RevokeCurrentAPIToken e tok c = (Inr x, c') \<longrightarrow> UserForAPIToken e2 tok c2 = (Inr t, c4) \<longrightarrow> t = None) \<and>
    (RevokeAPIToken uid name c = (Inr x, c') \<longrightarrow> UserForAPIToken e2 tok c2 = (Inr (Some (u, a)), c5) \<longrightarrow>
      \<not> (user_ID u = uid \<and> (\<forall>n. normalizeAPITokenName name = Inr n \<longrightarrow> eq_nocase (tok_Name a) n)))"
proof (intro conjI impI)
  assume "DeleteSession e tok c = (Inr x, c')" "UserForSession e2 tok c2 = (Inr s, c3)"
  then show "s = None" by (rule session.revoked [OF _ c2 e2])
next
  assume "RevokeCurrentAPIToken e tok c = (Inr x, c')" "UserForAPIToken e2 tok c2 = (Inr t, c4)"
  then show "t = None" by (rule token.revoked [OF _ c2 e2])
next
  assume rev: "RevokeAPIToken uid name c = (Inr x, c')" and run: "UserForAPIToken e2 tok c2 = (Inr (Some (u, a)), c5)"
  from rev obtain n where n: "normalizeAPITokenName name = Inr n"
      "\<forall>t \<in> set (api_tokens (tables c2)). \<not> (t_user_id t = uid \<and> eq_nocase (t_name t) n)"
    by (rule RevokeAPIToken_InrE) (simp add: c2)
  from run show "\<not> (user_ID u = uid \<and> (\<forall>n. normalizeAPITokenName name = Inr n \<longrightarrow> eq_nocase (tok_Name a) n))"
    by (cases rule: UserForAPIToken_InrE)
      (use n in \<open>auto simp: scan_token_def scanUser_def dest!: find_SomeD\<close>)
qed

theorem revoked_credentials_are_dead_witness:
  "\<exists>c'. DeleteSession ex_env ''t'' (ex_conn ex_db) = (Inr (), c') \<and>
    UserForSession ex_env ''t'' (ex_conn (tables c')) = (Inr None, ex_conn (tables c'))"
proof -
  have r: "\<exists>c'. DeleteSession ex_env ''t'' (ex_conn ex_db) = (Inr (), c')"
    by (simp add: DeleteSession_def run_defs delete_from_def)
  then obtain c' where r: "DeleteSession ex_env ''t'' (ex_conn ex_db) = (Inr (), c')" by blast
  obtain s where s: "UserForSession ex_env ''t'' (ex_conn (tables c')) = (Inr s, ex_conn (tables c'))"
    by (simp add: UserForSession_ok)
  from revoked_credentials_are_dead [of "ex_conn (tables c')" c' ex_env ex_env "''t''" "ex_conn ex_db" "()" s] r s
  show ?thesis by auto
qed

end
