(* ===== verification/LibraryFacts.thy ===== *)
theory LibraryFacts
  imports PersonalLibrary SessionFacts
begin

text \<open>
  What the personal library of \<open>auth/library.go\<close> promises: it is private to its owner, a list is a
  set of books, tags are compared without case, and recently read books are a bounded list.
\<close>

section \<open>Privacy\<close>

text \<open>C10: What a reader keeps is private: whatever the seven writing operations are asked to do on behalf
  of another account, and whether they succeed or fail, the reader's recent books, lists, list items and
  tags stay exactly as they were.\<close>

theorem library_is_private:
  assumes ok: "db_ok (tables c)" and v: "uid \<noteq> v"
  shows "library_view v (tables (snd (RecordBookRead e uid b c))) = library_view v (tables c) \<and>
    library_view v (tables (snd (CreateBookList e uid n c))) = library_view v (tables c) \<and>
    library_view v (tables (snd (DeleteBookList uid lid c))) = library_view v (tables c) \<and>
    library_view v (tables (snd (AddBookToList e uid lid b c))) = library_view v (tables c) \<and>
    library_view v (tables (snd (RemoveBookFromList e uid lid b c))) = library_view v (tables c) \<and>
    library_view v (tables (snd (AddBookTag e uid b g c))) = library_view v (tables c) \<and>
    library_view v (tables (snd (RemoveBookTag uid b g c))) = library_view v (tables c)"
  using reads.many_others [of "[uid]" v c] creates.many_others [of "[uid]" v c] deletes.many_others [of "[uid]" v c]
    adds.many_others [of "[uid]" v c] removes.many_others [of "[uid]" v c] tags.many_others [of "[uid]" v c]
    untags.many_others [of "[uid]" v c] ok v
  by simp

theorem library_is_private_witness:
  "library_view ''u1'' (tables (snd (AddBookTag ex_env ''u2'' ''b'' ''sea'' (ex_conn ex_db)))) = library_view ''u1'' ex_db"
proof -
  have "db_ok ex_db" using store_ok_ex by (simp add: store_ok_def)
  then show ?thesis using library_is_private [of "ex_conn ex_db" "''u2''" "''u1''"] by simp
qed

section \<open>A list is a set of books\<close>

definition books_of :: "string \<Rightarrow> string \<Rightarrow> db \<Rightarrow> string set" where
  "books_of uid lid d = (if exists_where (own_list uid lid) (book_lists d)
     then i_book_id ` {i \<in> set (list_items d). i_list_id i = trim_space lid} else {})"

lemma own_list_touched:
  "exists_where (own_list uid lid) (touched uid lid t ls) \<longleftrightarrow> exists_where (own_list uid lid) ls"
  by (induction ls) (auto simp: touched_def own_list_def)

lemma find_own_list: "List.find (own_list uid lid) ls = Some l \<Longrightarrow> exists_where (own_list uid lid) ls"
  by (auto dest: find_SomeD)

text \<open>C11: A book list behaves as a set. A successful \<open>AddBookToList\<close> inserts the normalised book id, a
  successful \<open>RemoveBookFromList\<close> takes it out, both leave the other ids of the list, and
  \<open>BookIDsForList\<close> returns the set without repetition.\<close>

theorem list_is_a_set:
  assumes ok: "db_ok (tables c)" and b: "normalizeBookID b0 = Inr b"
  shows "(AddBookToList e uid lid b0 c = (Inr x, c1) \<longrightarrow>
      books_of uid lid (tables c1) = insert b (books_of uid lid (tables c))) \<and>
    (RemoveBookFromList e uid lid b0 c = (Inr x, c2) \<longrightarrow>
      books_of uid lid (tables c2) = books_of uid lid (tables c) - {b}) \<and>
    (BookIDsForList uid lid c = (Inr bs, c3) \<longrightarrow> distinct bs \<and> set bs = books_of uid lid (tables c))"
proof (intro conjI impI)
  assume "AddBookToList e uid lid b0 c = (Inr x, c1)"
  then show "books_of uid lid (tables c1) = insert b (books_of uid lid (tables c))"
    by (rule AddBookToList_InrE)
      (auto simp: books_of_def own_list_touched find_own_list with_item_def b image_iff simp del: exists_where_iff, auto)
next
  assume "RemoveBookFromList e uid lid b0 c = (Inr x, c2)"
  then show "books_of uid lid (tables c2) = books_of uid lid (tables c) - {b}"
    by (rule RemoveBookFromList_InrE)
      (auto simp: books_of_def own_list_touched find_own_list b simp del: exists_where_iff)
next
  assume run: "BookIDsForList uid lid c = (Inr bs, c3)"
  let ?q = "\<lambda>i. exists_where (\<lambda>l. own_list uid lid l \<and> l_id l = i_list_id i) (book_lists (tables c))"
  obtain l where l: "List.find (own_list uid lid) (book_lists (tables c)) = Some l"
    and bs: "bs = map i_book_id (sort_key (\<lambda>i. - i_added_at i) (filter ?q (list_items (tables c))))"
    using run unfolding BookIDsForList_def by (elim io_elim) auto
  have e: "exists_where (own_list uid lid) (book_lists (tables c))" by (rule find_own_list [OF l])
  have q: "?q i \<longleftrightarrow> i_list_id i = trim_space lid" for i
    using e by (auto simp: own_list_def)
  have "distinct (map (\<lambda>i. (i_list_id i, i_book_id i)) (list_items (tables c)))"
    using ok by (simp add: db_ok_def list_items_broken_def unique_def)
  then have "inj_on i_book_id {i \<in> set (list_items (tables c)). i_list_id i = trim_space lid}"
    and "distinct (list_items (tables c))"
    by (auto simp: distinct_map inj_on_def)
  then show "distinct bs" by (simp add: bs q distinct_map del: exists_where_iff)
  show "set bs = books_of uid lid (tables c)" using e by (simp add: bs q books_of_def del: exists_where_iff)
qed

definition ex_list :: list_row where
  "ex_list = \<lparr>l_id = ''l1'', l_user_id = ''u2'', l_name = ''Sea'', l_created_at = 5, l_updated_at = 5\<rparr>"

definition ex_shelf :: db where
  "ex_shelf = ex_db\<lparr>book_lists := [ex_list],
    list_items := [\<lparr>i_list_id = ''l1'', i_book_id = ''moby'', i_added_at = 5\<rparr>]\<rparr>"

lemma db_ok_shelf: "db_ok ex_shelf"
proof -
  have "db_ok (ex_db\<lparr>book_lists := [ex_list]\<rparr>)"
    using store_ok_ex
    by (intro db_ok_lists) (simp_all add: store_ok_def lists_broken_def unique_def ex_list_def user_ids_def)
  then have "db_ok (ex_db\<lparr>book_lists := [ex_list]\<rparr>\<lparr>list_items := [\<lparr>i_list_id = ''l1'', i_book_id = ''moby'', i_added_at = 5\<rparr>]\<rparr>)"
    by (rule db_ok_list_items) (simp add: list_items_broken_def unique_def ex_list_def)
  then show ?thesis by (simp add: ex_shelf_def)
qed

lemma ex_add_to_list:
  "\<exists>c'. AddBookToList ex_env ''u2'' ''l1'' '' emma '' (ex_conn ex_shelf) = (Inr (), c')"
  by (simp add: AddBookToList_def BookListForUser_def no_rows_as_def touch_list_def run_defs normalizeBookID_def
    ascii_eval own_list_def ex_shelf_def ex_list_def insert_or_ignore_def insert_into_def update_tab_def write_rows_def
    lists_broken_def list_items_broken_def unique_def user_ids_def)

theorem list_is_a_set_witness:
  "\<exists>c'. AddBookToList ex_env ''u2'' ''l1'' '' emma '' (ex_conn ex_shelf) = (Inr (), c') \<and>
    books_of ''u2'' ''l1'' (tables c') = {''emma'', ''moby''}"
proof -
  obtain c' where r: "AddBookToList ex_env ''u2'' ''l1'' '' emma '' (ex_conn ex_shelf) = (Inr (), c')"
    using ex_add_to_list by blast
  have n: "normalizeBookID '' emma '' = Inr ''emma''" by (simp add: normalizeBookID_def ascii_eval)
  have "books_of ''u2'' ''l1'' ex_shelf = {''moby''}"
    by (auto simp: books_of_def ex_shelf_def ex_list_def own_list_def ascii_eval)
  with list_is_a_set [OF _ n, of "ex_conn ex_shelf" ex_env "''u2''" "''l1''" "()" c'] r db_ok_shelf
  show ?thesis by auto
qed

section \<open>Tags and recent books\<close>

text \<open>Tags are found under any spelling: after a book was tagged, asking for the books of that tag
  in any letter case (and with any spacing the normalisation removes) returns the book, and only once.\<close>

theorem tag_found_in_any_case:
  assumes ok: "db_ok (tables c)" and run: "AddBookTag e uid b0 g0 c = (Inr x, c')"
    and b: "normalizeBookID b0 = Inr b" and g: "normalizeTag g0 = Inr g"
    and g2: "normalizeTag g2' = Inr g2" and eq: "nocase g2 = nocase g"
    and c2: "tables c2 = tables c'" and ids: "BookIDsForTag uid g2' c2 = (Inr bs, c3)"
  shows "b \<in> set bs \<and> distinct bs"
proof -
  let ?q = "\<lambda>r. b_user_id r = uid \<and> eq_nocase (b_tag r) g2"
  have ok': "db_ok (tables c')" using db_ok_library(6) [OF ok run] .
  have bs: "bs = map b_book_id (sort_key (\<lambda>r. - b_created_at r) (filter ?q (book_tags (tables c'))))"
    using ids unfolding BookIDsForTag_def by (elim io_elim) (auto simp: g2 c2)
  have "\<exists>r \<in> set (book_tags (tables c')). ?q r \<and> b_book_id r = b"
    using run by (rule AddBookTag_InrE) (auto simp: with_tag_def b g eq eq_nocase_def)
  then have "b \<in> set bs" by (auto simp: bs)
  moreover have "distinct (map (\<lambda>r. (b_user_id r, b_book_id r, nocase (b_tag r))) (book_tags (tables c')))"
    using ok' by (simp add: db_ok_def tags_broken_def unique_def)
  then have "inj_on b_book_id {r \<in> set (book_tags (tables c')). ?q r}" "distinct (book_tags (tables c'))"
    by (auto simp: distinct_map inj_on_def eq_nocase_def)
  then have "distinct bs" by (simp add: bs distinct_map)
  ultimately show ?thesis by blast
qed

lemma normalizeTag_sea: "normalizeTag '' Sea '' = Inr ''Sea''" "normalizeTag ''SEA'' = Inr ''SEA''"
  by (simp_all add: normalizeTag_def ascii_eval str_fields_def)

theorem tag_found_in_any_case_witness:
  "\<exists>c' bs. AddBookTag ex_env ''u2'' ''moby'' '' Sea '' (ex_conn ex_db) = (Inr (), c') \<and>
    BookIDsForTag ''u2'' ''SEA'' (ex_conn (tables c')) = (Inr bs, ex_conn (tables c')) \<and> ''moby'' \<in> set bs"
proof -
  have n: "normalizeBookID ''moby'' = Inr ''moby''" by (simp add: normalizeBookID_def ascii_eval)
  have "\<exists>c'. AddBookTag ex_env ''u2'' ''moby'' '' Sea '' (ex_conn ex_db) = (Inr (), c')"
    by (simp add: AddBookTag_def run_defs n normalizeTag_sea insert_or_ignore_def insert_into_def write_rows_def
      tags_broken_def unique_def user_ids_def)
  then obtain c' where r: "AddBookTag ex_env ''u2'' ''moby'' '' Sea '' (ex_conn ex_db) = (Inr (), c')" by blast
  obtain bs where i: "BookIDsForTag ''u2'' ''SEA'' (ex_conn (tables c')) = (Inr bs, ex_conn (tables c'))"
    by (simp add: BookIDsForTag_def run_defs normalizeTag_sea)
  have "nocase ''SEA'' = nocase ''Sea''" by (simp add: ascii_eval)
  with tag_found_in_any_case [OF _ r n normalizeTag_sea _ _ i] r i show ?thesis
    using store_ok_ex by (auto simp: store_ok_def)
qed

text \<open>The recently read books are a bounded list without repetition, newest first, at most a hundred
  and twelve when no limit is given; a book read later than everything else comes first.\<close>

theorem recent_books_bounded:
  assumes ok: "db_ok (tables c)" and run: "RecentBookIDs uid limit c = (Inr bs, c')"
  shows "length bs \<le> (if limit < 1 then 12 else nat (min limit 100)) \<and> distinct bs \<and>
    sorted (map (\<lambda>r. - a_last_read_at r) (recent_rows uid (recent_limit limit) (tables c))) \<and>
    (\<forall>r \<in> set (activity (tables c)). a_user_id r = uid \<and>
      (\<forall>r' \<in> set (activity (tables c)). a_user_id r' = uid \<longrightarrow> r' = r \<or> a_last_read_at r' < a_last_read_at r) \<longrightarrow>
      bs \<noteq> [] \<and> hd bs = a_book_id r)"
proof -
  let ?rs = "sort_key (\<lambda>r. - a_last_read_at r) (filter (\<lambda>r. a_user_id r = uid) (activity (tables c)))"
  have bs: "bs = map a_book_id (recent_rows uid (recent_limit limit) (tables c))"
    using run unfolding RecentBookIDs_def by (elim io_elim) auto
  have "recent_limit limit = (if limit < 1 then 12 else nat (min limit 100))"
    by (auto simp: recent_limit_def Let_def)
  then have len: "length bs \<le> (if limit < 1 then 12 else nat (min limit 100))"
    by (simp add: bs recent_rows_def)
  have "distinct (map (\<lambda>r. (a_user_id r, a_book_id r)) (activity (tables c)))"
    using ok by (simp add: db_ok_def activity_broken_def unique_def)
  then have "inj_on a_book_id {r \<in> set (activity (tables c)). a_user_id r = uid}" "distinct (activity (tables c))"
    by (auto simp: distinct_map inj_on_def)
  then have "distinct (map a_book_id ?rs)" by (simp add: distinct_map)
  then have dist: "distinct bs" by (simp add: bs recent_rows_def flip: take_map)
  have srt: "sorted (map (\<lambda>r. - a_last_read_at r) ?rs)" by simp
  have first: "bs \<noteq> [] \<and> hd bs = a_book_id r"
    if r: "r \<in> set (activity (tables c))" "a_user_id r = uid"
      and m: "\<forall>r' \<in> set (activity (tables c)). a_user_id r' = uid \<longrightarrow> r' = r \<or> a_last_read_at r' < a_last_read_at r" for r
  proof -
    have "r \<in> set ?rs" using r by simp
    then obtain y ys where y: "?rs = y # ys" by (cases ?rs) auto
    have "y \<in> set ?rs" using y by simp
    then have "y = r \<or> a_last_read_at y < a_last_read_at r" using m by simp
    moreover have "a_last_read_at r \<le> a_last_read_at y" using srt \<open>r \<in> set ?rs\<close> by (auto simp: y)
    ultimately have "y = r" by simp
    moreover have "0 < recent_limit limit" by (auto simp: recent_limit_def Let_def)
    ultimately show ?thesis by (cases "recent_limit limit") (simp_all add: bs recent_rows_def y)
  qed
  show ?thesis using len dist first sorted_map_filter_take [OF srt] by (auto simp: recent_rows_def)
qed

theorem recent_books_bounded_witness:
  "length (map a_book_id (recent_rows ''u2'' (recent_limit 500) ex_db)) \<le> 100"
proof -
  have "RecentBookIDs ''u2'' 500 (ex_conn ex_db) =
      (Inr (map a_book_id (recent_rows ''u2'' (recent_limit 500) ex_db)), ex_conn ex_db)"
    by (simp add: RecentBookIDs_def)
  from recent_books_bounded [OF _ this] store_ok_ex show ?thesis by (simp add: store_ok_def)
qed

end
