(* ===== verification/Reading.thy ===== *)
theory Reading
  imports PersonalLibrary
begin

text \<open>
  \<open>auth/reading.go\<close>: bookmarks and notes a reader keeps while reading, each with up to twelve tags.
  The fields are normalised and bounded, an item and its tags are written in one transaction, and
  reading an item back joins its tags in.
\<close>

section \<open>Normalisation\<close>

definition normalizeReadingText :: "string \<Rightarrow> string \<Rightarrow> nat \<Rightarrow> bool \<Rightarrow> err + string" where
  "normalizeReadingText value0 field maximum required =
    (let value = trim_space value0
     in if required \<and> value = '''' then Inl (ErrText (field @ '' is required''))
        else if rune_count value > maximum then Inl (ErrText (field @ '' must not exceed '' @ show_nat maximum @ '' characters''))
        else Inr value)"

fun reading_tags_loop :: "(nat \<Rightarrow> nat) \<Rightarrow> string list \<Rightarrow> string list \<Rightarrow> string list \<Rightarrow> err + string list" where
  "reading_tags_loop lw result seen [] = Inr result"
| "reading_tags_loop lw result seen (raw # tags) = (case normalizeTag raw of
      Inl e \<Rightarrow> if trim_space raw = '''' then reading_tags_loop lw result seen tags else Inl e
    | Inr tag \<Rightarrow>
        (let key = to_lower lw tag
         in if key \<in> set seen then reading_tags_loop lw result seen tags
            else if length (result @ [tag]) > 12
              then Inl (ErrText ''use no more than 12 tags on one bookmark or note'')
            else reading_tags_loop lw (result @ [tag]) (key # seen) tags))"

definition normalizeReadingTags :: "(nat \<Rightarrow> nat) \<Rightarrow> string list \<Rightarrow> err + string list" where
  "normalizeReadingTags lw tags = reading_tags_loop lw [] [] tags"

record ReadingItem =
  rd_ID :: string
  rd_UserID :: string
  rd_BookID :: string
  rd_Kind :: string
  rd_Locator :: string
  rd_LocatorLabel :: string
  rd_Title :: string
  rd_Body :: string
  rd_Excerpt :: string
  rd_Tags :: "string list"
  rd_CreatedAt :: gotime
  rd_UpdatedAt :: gotime

definition default_title :: "string \<Rightarrow> string \<Rightarrow> string" where
  "default_title kind title =
    (if title = '''' then if kind = ''bookmark'' then ''Bookmark'' else ''Note'' else title)"

text \<open>The item before it has an id, an owner and its times.\<close>

definition validateReadingItem :: "(nat \<Rightarrow> nat) \<Rightarrow> string \<Rightarrow> string \<Rightarrow> string \<Rightarrow> string \<Rightarrow> string \<Rightarrow> string \<Rightarrow>
    string \<Rightarrow> string list \<Rightarrow> ReadingItem db_io" where
  "validateReadingItem lw bookID0 kind locator0 label0 title0 body0 excerpt0 tags0 =
    bnd (of_result (normalizeBookID bookID0)) (\<lambda>bookID.
    bnd (fail_if (\<not> reading_kind_valid kind) (ErrText ''invalid reading item kind'')) (\<lambda>_.
    bnd (of_result (normalizeReadingText locator0 ''location'' 4000 True)) (\<lambda>locator.
    bnd (of_result (normalizeReadingText label0 ''location label'' 200 False)) (\<lambda>label.
    bnd (of_result (normalizeReadingText title0 ''title'' 200 False)) (\<lambda>title.
    bnd (of_result (normalizeReadingText body0 ''note'' 20000 False)) (\<lambda>body.
    bnd (of_result (normalizeReadingText excerpt0 ''excerpt'' 2000 False)) (\<lambda>excerpt.
    bnd (of_result (normalizeReadingTags lw tags0)) (\<lambda>tags.
    ret \<lparr>rd_ID = '''', rd_UserID = '''', rd_BookID = bookID, rd_Kind = kind, rd_Locator = locator,
      rd_LocatorLabel = label, rd_Title = default_title kind title, rd_Body = body, rd_Excerpt = excerpt,
      rd_Tags = tags, rd_CreatedAt = 0, rd_UpdatedAt = 0\<rparr>))))))))"

section \<open>Reading items back\<close>

definition scanReadingItem :: "reading_row \<Rightarrow> ReadingItem" where
  "scanReadingItem r = \<lparr>rd_ID = r_id r, rd_UserID = r_user_id r, rd_BookID = r_book_id r,
    rd_Kind = r_kind r, rd_Locator = r_locator r, rd_LocatorLabel = r_locator_label r,
    rd_Title = r_title r, rd_Body = r_body r, rd_Excerpt = r_excerpt r, rd_Tags = [],
    rd_CreatedAt = time_of_unix (r_created_at r), rd_UpdatedAt = time_of_unix (r_updated_at r)\<rparr>"

text \<open>The join of the tags with the items of the user, in tag order; ids are unique, so that every
  item with the id of a tag row is the one the code's map points to.\<close>

definition user_tags :: "string \<Rightarrow> db \<Rightarrow> (string \<times> string) list" where
  "user_tags userID d = map (\<lambda>t. (rt_item_id t, rt_tag t)) (sort_key (\<lambda>t. key_order (rt_tag t))
    (filter (\<lambda>t. exists_where (\<lambda>i. r_id i = rt_item_id t \<and> r_user_id i = userID) (reading_items d))
      (reading_tags d)))"

definition attachReadingTags :: "string \<Rightarrow> ReadingItem list \<Rightarrow> ReadingItem list db_io" where
  "attachReadingTags userID items =
    (if items = [] then ret []
     else query (\<lambda>d. Inr (map (\<lambda>i. i\<lparr>rd_Tags := rd_Tags i @
       map snd (filter (\<lambda>(itemID, tag). itemID = rd_ID i) (user_tags userID d))\<rparr>) items)))"

definition reading_limit :: "int \<Rightarrow> nat" where
  "reading_limit limit = nat (let l = (if limit < 1 then 200 else limit) in if l > 500 then 500 else l)"

definition ReadingItems :: "string \<Rightarrow> string \<Rightarrow> int \<Rightarrow> ReadingItem list db_io" where
  "ReadingItems userID bookID0 limit =
    bnd (if trim_space bookID0 \<noteq> '''' then bnd (of_result (normalizeBookID bookID0)) (\<lambda>b. ret (Some b))
         else ret None) (\<lambda>bookID.
    bnd (query (\<lambda>d. Inr (take (reading_limit limit)
      (sort_key (\<lambda>r. (- r_updated_at r, - r_created_at r))
        (filter (\<lambda>r. r_user_id r = userID \<and> (case bookID of None \<Rightarrow> True | Some b \<Rightarrow> r_book_id r = b))
          (reading_items d)))))) (\<lambda>rows.
    attachReadingTags userID (map scanReadingItem rows)))"

definition own_item :: "string \<Rightarrow> string \<Rightarrow> reading_row \<Rightarrow> bool" where
  "own_item userID itemID r \<longleftrightarrow> r_user_id r = userID \<and> r_id r = trim_space itemID"

definition ReadingItemForUser :: "string \<Rightarrow> string \<Rightarrow> ReadingItem db_io" where
  "ReadingItemForUser userID itemID =
    bnd (no_rows_as ErrReadingItemNotFound
      (query (\<lambda>d. one_row (List.find (own_item userID itemID) (reading_items d))))) (\<lambda>r.
    bnd (attachReadingTags userID [scanReadingItem r]) (\<lambda>items. ret (hd items)))"

section \<open>Writing items\<close>

fun insertReadingTags :: "string \<Rightarrow> string list \<Rightarrow> unix \<Rightarrow> unit db_io" where
  "insertReadingTags itemID [] t = ret ()"
| "insertReadingTags itemID (tag # tags) t =
    bnd (exec (insert_into reading_tags_t \<lparr>rt_item_id = itemID, rt_tag = tag, rt_created_at = t\<rparr>)) (\<lambda>_.
    insertReadingTags itemID tags t)"

definition reading_row_of :: "ReadingItem \<Rightarrow> reading_row" where
  "reading_row_of i = \<lparr>r_id = rd_ID i, r_user_id = rd_UserID i, r_book_id = rd_BookID i, r_kind = rd_Kind i,
    r_locator = rd_Locator i, r_locator_label = rd_LocatorLabel i, r_title = rd_Title i, r_body = rd_Body i,
    r_excerpt = rd_Excerpt i, r_created_at = unix_of (rd_CreatedAt i), r_updated_at = unix_of (rd_UpdatedAt i)\<rparr>"

definition CreateReadingItem :: "env \<Rightarrow> string \<Rightarrow> string \<Rightarrow> string \<Rightarrow> string \<Rightarrow> string \<Rightarrow> string \<Rightarrow> string \<Rightarrow>
    string \<Rightarrow> string list \<Rightarrow> ReadingItem db_io" where
  "CreateReadingItem e userID bookID kind locator label title body excerpt tags =
    bnd (validateReadingItem (low e) bookID kind locator label title body excerpt tags) (\<lambda>item0.
    bnd (randomToken 16) (\<lambda>tok.
    let item = item0\<lparr>rd_ID := tok, rd_UserID := userID, rd_CreatedAt := now e, rd_UpdatedAt := now e\<rparr>
    in tx (
      bnd (exec (insert_into reading_t (reading_row_of item))) (\<lambda>_.
      bnd (insertReadingTags (rd_ID item) (rd_Tags item) (unix_of (rd_CreatedAt item))) (\<lambda>_.
      ret item)))))"

text \<open>The transaction of \<open>UpdateReadingItem\<close>, and the function around it, which reads the item again
  after the commit and so can report an error although the update happened.\<close>

definition rewrite_item :: "env \<Rightarrow> string \<Rightarrow> string \<Rightarrow> string \<Rightarrow> string \<Rightarrow> string list \<Rightarrow> unit db_io" where
  "rewrite_item e userID itemID title body tags = tx (
    bnd (exec (update_tab reading_t (\<lambda>r. r_id r = trim_space itemID \<and> r_user_id r = userID)
      (\<lambda>r. r\<lparr>r_title := title, r_body := body, r_updated_at := unix_of (now e)\<rparr>))) (\<lambda>affected.
    bnd (fail_if (affected = 0) ErrReadingItemNotFound) (\<lambda>_.
    bnd (exec (delete_from reading_tags_t (\<lambda>t. rt_item_id t = trim_space itemID))) (\<lambda>_.
    insertReadingTags (trim_space itemID) tags (unix_of (now e))))))"

definition UpdateReadingItem :: "env \<Rightarrow> string \<Rightarrow> string \<Rightarrow> string \<Rightarrow> string \<Rightarrow> string list \<Rightarrow> ReadingItem db_io" where
  "UpdateReadingItem e userID itemID title0 body0 tags0 =
    bnd (of_result (normalizeReadingText title0 ''title'' 200 False)) (\<lambda>title.
    bnd (of_result (normalizeReadingText body0 ''note'' 20000 False)) (\<lambda>body.
    bnd (of_result (normalizeReadingTags (low e) tags0)) (\<lambda>tags.
    bnd (ReadingItemForUser userID itemID) (\<lambda>item.
    bnd (rewrite_item e userID itemID (default_title (rd_Kind item) title) body tags) (\<lambda>_.
    ReadingItemForUser userID itemID)))))"

text \<open>\<open>ON DELETE CASCADE\<close> takes the tags of the deleted items along.\<close>

definition delete_items :: "(reading_row \<Rightarrow> bool) \<Rightarrow> db \<Rightarrow> err + db \<times> nat" where
  "delete_items p d =
    (let gone = map r_id (filter p (reading_items d))
     in Inr (d\<lparr>reading_items := del_where p (reading_items d),
               reading_tags := del_where (\<lambda>t. rt_item_id t \<in> set gone) (reading_tags d)\<rparr>,
             count_where p (reading_items d)))"

definition DeleteReadingItem :: "string \<Rightarrow> string \<Rightarrow> unit db_io" where
  "DeleteReadingItem userID itemID =
    bnd (exec (delete_items (\<lambda>r. r_id r = trim_space itemID \<and> r_user_id r = userID)))
      (\<lambda>affected. fail_if (affected = 0) ErrReadingItemNotFound)"

section \<open>What successful runs do\<close>

lemma readonly_attachReadingTags [readonly_intro]: "readonly (attachReadingTags uid items)"
  unfolding attachReadingTags_def by (auto intro: readonly_intro)

lemma readonly_ReadingItemForUser [readonly_intro]: "readonly (ReadingItemForUser uid i)"
  unfolding ReadingItemForUser_def by (intro readonly_intro)

definition item_with_tags :: "string \<Rightarrow> db \<Rightarrow> reading_row \<Rightarrow> ReadingItem" where
  "item_with_tags uid d r = (scanReadingItem r)\<lparr>rd_Tags :=
    map rt_tag (sort_key (\<lambda>t. key_order (rt_tag t)) (filter (\<lambda>t. rt_item_id t = r_id r) (reading_tags d)))\<rparr>"

lemma filter_sort_key_pairs:
  "map snd (filter (\<lambda>(x, g). x = k) (map (\<lambda>t. (f t, g t)) (sort_key h xs))) =
    map g (sort_key h (filter (\<lambda>t. f t = k) xs))"
proof -
  have "filter (\<lambda>(x, g). x = k) (map (\<lambda>t. (f t, g t)) ys) = map (\<lambda>t. (f t, g t)) (filter (\<lambda>t. f t = k) ys)" for ys
    by (induction ys) auto
  then show ?thesis by (simp add: filter_sort comp_def)
qed

lemma own_tags:
  assumes "r \<in> set (reading_items d)" "r_user_id r = uid"
  shows "rd_Tags (scanReadingItem r) @ map snd (filter (\<lambda>(x, g). x = rd_ID (scanReadingItem r)) (user_tags uid d)) =
    rd_Tags (item_with_tags uid d r)"
proof -
  have "filter (\<lambda>t. rt_item_id t = r_id r) (filter (\<lambda>t. exists_where (\<lambda>i. r_id i = rt_item_id t \<and> r_user_id i = uid)
      (reading_items d)) (reading_tags d)) = filter (\<lambda>t. rt_item_id t = r_id r) (reading_tags d)"
    using assms by (auto simp: filter_filter intro!: filter_cong)
  then show ?thesis
    by (simp add: user_tags_def filter_sort_key_pairs item_with_tags_def scanReadingItem_def del: filter_filter)
qed

lemma attachReadingTags_InrE [io_elim]:
  assumes run: "attachReadingTags uid items c = (Inr x, c')"
  obtains fs where "c' = c\<lparr>faults := fs\<rparr>"
    "x = map (\<lambda>i. i\<lparr>rd_Tags := rd_Tags i @ map snd (filter (\<lambda>(y, g). y = rd_ID i) (user_tags uid (tables c)))\<rparr>) items"
proof (cases "items = []")
  case True
  have "c = c\<lparr>faults := faults c\<rparr>" by simp
  then show ?thesis using run True that [of "faults c"] by (auto simp: attachReadingTags_def elim!: io_elim)
next
  case False
  then show ?thesis using run unfolding attachReadingTags_def by (auto elim!: io_elim intro: that)
qed

lemma attach_own:
  assumes "List.find (own_item uid i) (reading_items d) = Some r"
  shows "(scanReadingItem r)\<lparr>rd_Tags := rd_Tags (scanReadingItem r) @
      map snd (filter (\<lambda>(x, g). x = rd_ID (scanReadingItem r)) (user_tags uid d))\<rparr> = item_with_tags uid d r"
proof -
  have "r \<in> set (reading_items d)" "r_user_id r = uid" using assms by (auto dest!: find_SomeD simp: own_item_def)
  from own_tags [OF this] show ?thesis by (simp add: item_with_tags_def)
qed

lemma ReadingItemForUser_InrE [io_elim]:
  assumes run: "ReadingItemForUser uid i c = (Inr x, c')"
  obtains r fs where "List.find (own_item uid i) (reading_items (tables c)) = Some r"
    "x = item_with_tags uid (tables c) r" "c' = c\<lparr>faults := fs\<rparr>"
proof -
  show ?thesis
    using run unfolding ReadingItemForUser_def
    by (elim io_elim) (clarsimp simp: attach_own, rule that, (assumption | rule refl)+)
qed

lemma validateReadingItem_InrE:
  assumes run: "validateReadingItem lw b0 kind loc0 lab0 t0 body0 ex0 tags0 c = (Inr x, c')"
  obtains b loc lab t body ex tags where "normalizeBookID b0 = Inr b" "reading_kind_valid kind"
    "normalizeReadingText loc0 ''location'' 4000 True = Inr loc"
    "normalizeReadingText lab0 ''location label'' 200 False = Inr lab"
    "normalizeReadingText t0 ''title'' 200 False = Inr t"
    "normalizeReadingText body0 ''note'' 20000 False = Inr body"
    "normalizeReadingText ex0 ''excerpt'' 2000 False = Inr ex"
    "normalizeReadingTags lw tags0 = Inr tags" "c' = c"
    "x = \<lparr>rd_ID = '''', rd_UserID = '''', rd_BookID = b, rd_Kind = kind, rd_Locator = loc,
      rd_LocatorLabel = lab, rd_Title = default_title kind t, rd_Body = body, rd_Excerpt = ex,
      rd_Tags = tags, rd_CreatedAt = 0, rd_UpdatedAt = 0\<rparr>"
proof -
  show ?thesis using run unfolding validateReadingItem_def
    by (elim io_elim) (clarsimp, rule that, (assumption | rule refl)+)
qed

definition tag_rows :: "string \<Rightarrow> string list \<Rightarrow> unix \<Rightarrow> reading_tag_row list" where
  "tag_rows i tags t = map (\<lambda>g. \<lparr>rt_item_id = i, rt_tag = g, rt_created_at = t\<rparr>) tags"

lemma insertReadingTags_InrE [io_elim]:
  assumes run: "insertReadingTags i tags t c = (Inr x, c')"
  obtains fs where "c' = c\<lparr>faults := fs, tables := (tables c)\<lparr>reading_tags := reading_tags (tables c) @ tag_rows i tags t\<rparr>\<rparr>"
    "tags \<noteq> [] \<longrightarrow> reading_tags_broken (tables c) (reading_tags (tables c) @ tag_rows i tags t) = None"
  using run
proof (induction tags arbitrary: c thesis)
  case Nil
  then have "c' = c" by (auto elim!: io_elim)
  then show ?case by (intro Nil(1) [of "faults c"]) (simp_all add: tag_rows_def)
next
  case (Cons g tags)
  let ?r = "\<lparr>rt_item_id = i, rt_tag = g, rt_created_at = t\<rparr>"
  obtain fs where b: "reading_tags_broken (tables c) (reading_tags (tables c) @ [?r]) = None"
    and run: "insertReadingTags i tags t (c\<lparr>faults := fs, tables := (tables c)\<lparr>reading_tags := reading_tags (tables c) @ [?r]\<rparr>\<rparr>) = (Inr x, c')"
    using Cons.prems(2) by (auto elim!: io_elim)
  show ?case
  proof (rule Cons.IH [OF _ run])
    fix fs'
    assume "c' = c\<lparr>faults := fs, tables := (tables c)\<lparr>reading_tags := reading_tags (tables c) @ [?r]\<rparr>\<rparr>
        \<lparr>faults := fs', tables := (tables (c\<lparr>faults := fs, tables := (tables c)\<lparr>reading_tags := reading_tags (tables c) @ [?r]\<rparr>\<rparr>))
          \<lparr>reading_tags := reading_tags (tables (c\<lparr>faults := fs, tables := (tables c)\<lparr>reading_tags := reading_tags (tables c) @ [?r]\<rparr>\<rparr>)) @ tag_rows i tags t\<rparr>\<rparr>"
      and "tags \<noteq> [] \<longrightarrow> reading_tags_broken (tables (c\<lparr>faults := fs, tables := (tables c)\<lparr>reading_tags := reading_tags (tables c) @ [?r]\<rparr>\<rparr>))
        (reading_tags (tables (c\<lparr>faults := fs, tables := (tables c)\<lparr>reading_tags := reading_tags (tables c) @ [?r]\<rparr>\<rparr>)) @ tag_rows i tags t) = None"
    then show thesis
      using b by (intro Cons.prems(1) [of fs']) (cases "tags = []"; simp add: tag_rows_def reading_tags_broken_def)+
  qed
qed

lemma CreateReadingItem_InrE:
  assumes run: "CreateReadingItem e uid b kind loc lab t body ex tags c = (Inr x, c')"
  obtains item0 idb where "validateReadingItem (low e) b kind loc lab t body ex tags c = (Inr item0, c)"
    "length idb = 16" "x = item0\<lparr>rd_ID := b64_encode url_alphabet idb, rd_UserID := uid, rd_CreatedAt := now e, rd_UpdatedAt := now e\<rparr>"
    "reading_broken (tables c) (reading_items (tables c) @ [reading_row_of x]) = None"
    "tables c' = (tables c)\<lparr>reading_items := reading_items (tables c) @ [reading_row_of x],
      reading_tags := reading_tags (tables c) @ tag_rows (rd_ID x) (rd_Tags x) (unix_of (now e))\<rparr>"
    "rd_Tags x \<noteq> [] \<longrightarrow> reading_tags_broken (tables c') (reading_tags (tables c')) = None"
proof -
  have v: "\<And>x c'. validateReadingItem (low e) b kind loc lab t body ex tags c = (Inr x, c') \<Longrightarrow> c' = c"
    by (erule validateReadingItem_InrE)
  show ?thesis
    using run unfolding CreateReadingItem_def Let_def
    by (elim io_elim)
      (frule v, clarsimp, rule that, (assumption | rule refl | simp add: reading_tags_broken_def)+)
qed

lemma rewrite_item_InrE [io_elim]:
  assumes run: "rewrite_item e uid i t body tags c = (Inr x, c')"
  obtains r fs where "r \<in> set (reading_items (tables c))" "own_item uid i r"
    "reading_broken (tables c) (reading_items (tables c')) = None"
    "tags \<noteq> [] \<longrightarrow> reading_tags_broken (tables c') (reading_tags (tables c')) = None"
    "tables c' = (tables c)\<lparr>
      reading_items := upd_where (\<lambda>r. r_id r = trim_space i \<and> r_user_id r = uid)
        (\<lambda>r. r\<lparr>r_title := t, r_body := body, r_updated_at := unix_of (now e)\<rparr>) (reading_items (tables c)),
      reading_tags := del_where (\<lambda>g. rt_item_id g = trim_space i) (reading_tags (tables c)) @
        tag_rows (trim_space i) tags (unix_of (now e))\<rparr>"
proof -
  show ?thesis
    using run unfolding rewrite_item_def
    by (elim io_elim) (clarsimp, rule that, (assumption | rule refl | simp add: reading_tags_broken_def own_item_def)+)
qed

lemma UpdateReadingItem_InrE:
  assumes run: "UpdateReadingItem e uid i t0 body0 tags0 c = (Inr x, c')"
  obtains t body tags r kind c1 c2 where
    "normalizeReadingText t0 ''title'' 200 False = Inr t" "normalizeReadingText body0 ''note'' 20000 False = Inr body"
    "normalizeReadingTags (low e) tags0 = Inr tags"
    "rewrite_item e uid i (default_title kind t) body tags c1 = (Inr (), c2)" "tables c1 = tables c"
    "tables c' = tables c2" "List.find (own_item uid i) (reading_items (tables c2)) = Some r"
    "x = item_with_tags uid (tables c2) r"
proof -
  have r: "\<And>x c c'. ReadingItemForUser uid i c = (Inr x, c') \<Longrightarrow> tables c' = tables c"
    by (rule readonlyD) (rule readonly_ReadingItemForUser)
  show ?thesis
    using run unfolding UpdateReadingItem_def
  proof (elim bnd_InrE of_result_InrE)
    fix t c1 body c2 tags c3 item c4 u c5
    assume *: "ReadingItemForUser uid i c3 = (Inr item, c4)"
      "rewrite_item e uid i (default_title (rd_Kind item) t) body tags c4 = (Inr u, c5)"
      "ReadingItemForUser uid i c5 = (Inr x, c')" "c1 = c" "c2 = c1" "c3 = c2"
    have "tables c4 = tables c" "tables c' = tables c5" using r [OF *(1)] r [OF *(3)] * by auto
    then show "normalizeReadingText t0 ''title'' 200 False = Inr t \<Longrightarrow>
        normalizeReadingText body0 ''note'' 20000 False = Inr body \<Longrightarrow>
        normalizeReadingTags (low e) tags0 = Inr tags \<Longrightarrow> thesis"
      using * by (cases u) (auto elim!: ReadingItemForUser_InrE intro!: that)
  qed
qed

definition without_item :: "string \<Rightarrow> string \<Rightarrow> db \<Rightarrow> db" where
  "without_item uid i d = d\<lparr>reading_items := del_where (own_item uid i) (reading_items d),
    reading_tags := del_where (\<lambda>t. \<exists>r \<in> set (reading_items d). own_item uid i r \<and> r_id r = rt_item_id t)
      (reading_tags d)\<rparr>"

lemma delete_items_eq:
  "delete_items p d = Inr (d\<lparr>reading_items := del_where p (reading_items d),
      reading_tags := del_where (\<lambda>t. \<exists>r \<in> set (reading_items d). p r \<and> r_id r = rt_item_id t) (reading_tags d)\<rparr>,
    count_where p (reading_items d))"
proof -
  have eq: "(\<lambda>t. rt_item_id t \<in> set (map r_id (filter p (reading_items d)))) =
      (\<lambda>t. \<exists>r \<in> set (reading_items d). p r \<and> r_id r = rt_item_id t)"
    by (force simp: fun_eq_iff)
  show ?thesis unfolding delete_items_def Let_def eq by (rule refl)
qed

lemma DeleteReadingItem_InrE:
  assumes run: "DeleteReadingItem uid i c = (Inr x, c')"
  obtains r where "r \<in> set (reading_items (tables c))" "own_item uid i r" "tables c' = without_item uid i (tables c)"
proof -
  have o: "own_item uid i = (\<lambda>r. r_id r = trim_space i \<and> r_user_id r = uid)" by (auto simp: own_item_def fun_eq_iff)
  show ?thesis
    using run unfolding DeleteReadingItem_def delete_items_eq o [symmetric]
    by (elim io_elim) (clarsimp simp: count_where_pos_iff, rule that, (assumption | simp add: without_item_def)+)
qed

section \<open>Invariants\<close>

lemma atomic_reading:
  "atomic (CreateReadingItem e uid b kind loc lab t body ex tags)" "atomic (rewrite_item e uid i t body tags)"
  "atomic (DeleteReadingItem uid i)"
proof -
  have "readonly (validateReadingItem (low e) b kind loc lab t body ex tags)"
    unfolding validateReadingItem_def by (intro readonly_intro)
  then show "atomic (CreateReadingItem e uid b kind loc lab t body ex tags)"
    unfolding CreateReadingItem_def Let_def by (intro atomic_intro readonly_intro)
  show "atomic (rewrite_item e uid i t body tags)" unfolding rewrite_item_def by (rule atomic_tx)
  show "atomic (DeleteReadingItem uid i)"
    unfolding DeleteReadingItem_def delete_items_eq
    by (rule atomic_exec_affected) (auto simp: del_where_def filter_id_conv intro!: db.equality)
qed

lemma preserves_UpdateReadingItem:
  assumes "\<And>e t body tags. preserves I (rewrite_item e uid i t body tags)"
  shows "preserves I (UpdateReadingItem e uid i t body tags)"
  unfolding UpdateReadingItem_def
  by (intro preserves_bnd preserves_readonly readonly_intro assms)

definition reading_view :: "string \<Rightarrow> db \<Rightarrow> reading_row list \<times> reading_tag_row list" where
  "reading_view v d = (filter (\<lambda>r. r_user_id r = v) (reading_items d),
    filter (\<lambda>t. \<exists>r \<in> set (reading_items d). r_user_id r = v \<and> r_id r = rt_item_id t) (reading_tags d))"

lemma reading_view_put: "reading_view v (d\<lparr>reading_items := is, reading_tags := ts\<rparr>) =
    (filter (\<lambda>r. r_user_id r = v) is, filter (\<lambda>t. \<exists>r \<in> set is. r_user_id r = v \<and> r_id r = rt_item_id t) ts)"
  by (simp add: reading_view_def)

lemma not_my_item:
  "distinct (map r_id is) \<Longrightarrow> own_item uid i r \<Longrightarrow> r \<in> set is \<Longrightarrow> v \<noteq> uid \<Longrightarrow> r' \<in> set is \<Longrightarrow> r_user_id r' = v \<Longrightarrow>
    r_id r' \<noteq> trim_space i"
  by (metis distinct_key_inj own_item_def)

lemma db_ok_reading_both:
  assumes ok: "db_ok d" and i: "reading_broken d is = None" and t: "reading_tags_broken (d\<lparr>reading_items := is\<rparr>) ts = None"
  shows "db_ok (d\<lparr>reading_items := is, reading_tags := ts\<rparr>)"
  using assms by (simp add: db_ok_def broken_defs user_ids_def)

lemma reading_tags_ok_mono:
  "db_ok d \<Longrightarrow> r_id ` set (reading_items d) \<subseteq> r_id ` set is \<Longrightarrow>
    reading_tags_broken (d\<lparr>reading_items := is\<rparr>) (reading_tags d) = None"
  by (auto simp: db_ok_def reading_tags_broken_def list_all_iff)

lemma db_ok_CreateReadingItem:
  assumes ok: "db_ok (tables c)" and run: "CreateReadingItem e uid b kind loc lab t body ex tags c = (Inr x, c')"
  shows "db_ok (tables c')"
  using run
proof (rule CreateReadingItem_InrE)
  let ?is = "reading_items (tables c) @ [reading_row_of x]" and ?ts = "reading_tags (tables c) @ tag_rows (rd_ID x) (rd_Tags x) (unix_of (now e))"
  assume b: "reading_broken (tables c) ?is = None" and t: "tables c' = (tables c)\<lparr>reading_items := ?is, reading_tags := ?ts\<rparr>"
    and g: "rd_Tags x \<noteq> [] \<longrightarrow> reading_tags_broken (tables c') (reading_tags (tables c')) = None"
  have "reading_tags_broken ((tables c)\<lparr>reading_items := ?is\<rparr>) ?ts = None"
    using g reading_tags_ok_mono [OF ok, of ?is]
    by (cases "rd_Tags x = []") (auto simp: t tag_rows_def reading_tags_broken_def)
  then show "db_ok (tables c')" unfolding t by (rule db_ok_reading_both [OF ok b])
qed

lemma db_ok_rewrite_item:
  assumes ok: "db_ok (tables c)" and run: "rewrite_item e uid i t body tags c = (Inr x, c')"
  shows "db_ok (tables c')"
  using run
proof (rule rewrite_item_InrE)
  let ?is = "upd_where (\<lambda>r. r_id r = trim_space i \<and> r_user_id r = uid)
    (\<lambda>r. r\<lparr>r_title := t, r_body := body, r_updated_at := unix_of (now e)\<rparr>) (reading_items (tables c))"
  let ?ts = "del_where (\<lambda>g. rt_item_id g = trim_space i) (reading_tags (tables c)) @ tag_rows (trim_space i) tags (unix_of (now e))"
  assume b: "reading_broken (tables c) (reading_items (tables c')) = None"
    and g: "tags \<noteq> [] \<longrightarrow> reading_tags_broken (tables c') (reading_tags (tables c')) = None"
    and t: "tables c' = (tables c)\<lparr>reading_items := ?is, reading_tags := ?ts\<rparr>"
  have ids: "map r_id ?is = map r_id (reading_items (tables c))" by (simp add: map_upd_where_same)
  then have "r_id ` set ?is = r_id ` set (reading_items (tables c))" by (metis set_map)
  then have "reading_tags_broken ((tables c)\<lparr>reading_items := ?is\<rparr>) (reading_tags (tables c)) = None"
    by (intro reading_tags_ok_mono ok) simp
  note d = broken_del_where(5) [OF this]
  have "reading_tags_broken ((tables c)\<lparr>reading_items := ?is\<rparr>) ?ts = None"
  proof (cases "tags = []")
    case True
    then show ?thesis using d by (simp add: tag_rows_def)
  next
    case False
    then show ?thesis using g by (simp add: t reading_tags_broken_def)
  qed
  then show "db_ok (tables c')" using b unfolding t by (intro db_ok_reading_both [OF ok]) simp_all
qed

lemma db_ok_without_item:
  assumes ok: "db_ok d" shows "db_ok (without_item uid i d)"
proof -
  let ?q = "\<lambda>t. \<exists>r \<in> set (reading_items d). own_item uid i r \<and> r_id r = rt_item_id t"
  have "reading_broken d (del_where (own_item uid i) (reading_items d)) = None"
    using ok by (simp add: db_ok_def reading_broken_def unique_del_where list_all_del_where)
  moreover have "reading_tags_broken (d\<lparr>reading_items := del_where (own_item uid i) (reading_items d)\<rparr>)
      (del_where ?q (reading_tags d)) = None"
    using ok by (fastforce simp: db_ok_def reading_tags_broken_def unique_del_where list_all_iff)
  ultimately show ?thesis unfolding without_item_def by (rule db_ok_reading_both [OF ok])
qed

lemma view_CreateReadingItem:
  assumes ok: "db_ok (tables c)" and v: "v \<noteq> uid"
    and run: "CreateReadingItem e uid b kind loc lab t body ex tags c = (Inr x, c')"
  shows "reading_view v (tables c') = reading_view v (tables c)"
  using run
proof (rule CreateReadingItem_InrE)
  fix item0 idb
  assume x: "x = item0\<lparr>rd_ID := b64_encode url_alphabet idb, rd_UserID := uid, rd_CreatedAt := now e, rd_UpdatedAt := now e\<rparr>"
    and b: "reading_broken (tables c) (reading_items (tables c) @ [reading_row_of x]) = None"
    and t: "tables c' = (tables c)\<lparr>reading_items := reading_items (tables c) @ [reading_row_of x],
      reading_tags := reading_tags (tables c) @ tag_rows (rd_ID x) (rd_Tags x) (unix_of (now e))\<rparr>"
  have "r_user_id (reading_row_of x) = uid" "r_id (reading_row_of x) = rd_ID x" by (simp_all add: reading_row_of_def x)
  then show ?thesis using v b
    by (auto simp: t reading_view_def tag_rows_def filter_empty_conv reading_broken_def unique_def image_iff)
qed

lemma view_rewrite_item:
  assumes ok: "db_ok (tables c)" and v: "v \<noteq> uid" and run: "rewrite_item e uid i t body tags c = (Inr x, c')"
  shows "reading_view v (tables c') = reading_view v (tables c)"
  using run
proof (rule rewrite_item_InrE)
  fix r
  let ?p = "\<lambda>r. r_id r = trim_space i \<and> r_user_id r = uid" and ?f = "\<lambda>r. r\<lparr>r_title := t, r_body := body, r_updated_at := unix_of (now e)\<rparr>"
  let ?is = "reading_items (tables c)"
  assume r: "r \<in> set ?is" "own_item uid i r"
    and t: "tables c' = (tables c)\<lparr>reading_items := upd_where ?p ?f ?is,
      reading_tags := del_where (\<lambda>g. rt_item_id g = trim_space i) (reading_tags (tables c)) @
        tag_rows (trim_space i) tags (unix_of (now e))\<rparr>"
  have n: "\<not> (\<exists>r' \<in> set ?is. r_user_id r' = v \<and> r_id r' = trim_space i)"
    using not_my_item [OF _ r(2,1) v] ok by (auto simp: db_ok_unique)
  have own: "(\<exists>r \<in> set (upd_where ?p ?f rs). r_user_id r = v \<and> r_id r = y) \<longleftrightarrow>
      (\<exists>r \<in> set rs. r_user_id r = v \<and> r_id r = y)" for y rs
    using v by (induction rs) auto
  have "filter (\<lambda>r. r_user_id r = v) (upd_where ?p ?f ?is) = filter (\<lambda>r. r_user_id r = v) ?is"
    using v by (intro filter_upd_where_other) auto
  moreover have "filter (\<lambda>t. \<exists>r \<in> set ?is. r_user_id r = v \<and> r_id r = rt_item_id t)
      (del_where (\<lambda>g. rt_item_id g = trim_space i) (reading_tags (tables c))) =
    filter (\<lambda>t. \<exists>r \<in> set ?is. r_user_id r = v \<and> r_id r = rt_item_id t) (reading_tags (tables c))"
    using n by (intro filter_del_where_other) auto
  ultimately show ?thesis using n by (auto simp: t reading_view_put own tag_rows_def reading_view_def filter_empty_conv)
qed

lemma view_without_item:
  assumes ok: "db_ok d" and v: "v \<noteq> uid"
  shows "reading_view v (without_item uid i d) = reading_view v d"
proof -
  let ?is = "reading_items d"
  have n: "r_id r \<noteq> r_id r'" if "r \<in> set ?is" "own_item uid i r" "r' \<in> set ?is" "r_user_id r' = v" for r r'
    using that v ok by (metis db_ok_unique(6) distinct_key_inj own_item_def)
  have own: "(\<exists>r \<in> set (del_where (own_item uid i) ?is). r_user_id r = v \<and> r_id r = y) \<longleftrightarrow>
      (\<exists>r \<in> set ?is. r_user_id r = v \<and> r_id r = y)" for y
    using v by (auto simp: own_item_def)
  have "filter (\<lambda>r. r_user_id r = v) (del_where (own_item uid i) ?is) = filter (\<lambda>r. r_user_id r = v) ?is"
    using v by (intro filter_del_where_other) (auto simp: own_item_def)
  moreover have "filter (\<lambda>t. \<exists>r \<in> set ?is. r_user_id r = v \<and> r_id r = rt_item_id t)
      (del_where (\<lambda>t. \<exists>r \<in> set ?is. own_item uid i r \<and> r_id r = rt_item_id t) (reading_tags d)) =
    filter (\<lambda>t. \<exists>r \<in> set ?is. r_user_id r = v \<and> r_id r = rt_item_id t) (reading_tags d)"
    using n by (intro filter_del_where_other) metis
  ultimately show ?thesis unfolding without_item_def reading_view_put own by (simp add: reading_view_def)
qed

lemma private_reading:
  assumes v: "v \<noteq> uid"
  shows "preserves (\<lambda>d. db_ok d \<and> reading_view v d = x) (CreateReadingItem e uid b kind loc lab t body ex tags)"
    "preserves (\<lambda>d. db_ok d \<and> reading_view v d = x) (UpdateReadingItem e uid i t body tags)"
    "preserves (\<lambda>d. db_ok d \<and> reading_view v d = x) (DeleteReadingItem uid i)"
proof -
  show "preserves (\<lambda>d. db_ok d \<and> reading_view v d = x) (CreateReadingItem e uid b kind loc lab t body ex tags)"
    by (rule private_atomic [OF atomic_reading(1)], rule conjI, erule (1) db_ok_CreateReadingItem,
        erule (1) view_CreateReadingItem [OF _ v])
  show "preserves (\<lambda>d. db_ok d \<and> reading_view v d = x) (UpdateReadingItem e uid i t body tags)"
    by (rule preserves_UpdateReadingItem, rule private_atomic [OF atomic_reading(2)], rule conjI,
        erule (1) db_ok_rewrite_item, erule (1) view_rewrite_item [OF _ v])
  show "preserves (\<lambda>d. db_ok d \<and> reading_view v d = x) (DeleteReadingItem uid i)"
    by (rule private_atomic [OF atomic_reading(3)], elim DeleteReadingItem_InrE)
      (simp add: db_ok_without_item view_without_item [OF _ v])
qed

interpretation bookmarks: private_action reading_view "\<lambda>uid. CreateReadingItem e uid b kind loc lab t body ex tags"
  for e b kind loc lab t body ex tags
  by unfold_locales (rule private_reading)
interpretation edits: private_action reading_view "\<lambda>uid. UpdateReadingItem e uid i t body tags" for e i t body tags
  by unfold_locales (rule private_reading)
interpretation erases: private_action reading_view "\<lambda>uid. DeleteReadingItem uid i" for i
  by unfold_locales (rule private_reading)

lemma preserves_reading:
  "preserves store_ok (CreateReadingItem e uid b kind loc lab t body ex tags)"
  "preserves store_ok (UpdateReadingItem e uid i t body tags)" "preserves store_ok (DeleteReadingItem uid i)"
proof -
  show "preserves store_ok (CreateReadingItem e uid b kind loc lab t body ex tags)"
    by (rule preserves_atomic [OF atomic_reading(1)], unfold store_ok_def, elim conjE, rule conjI,
        erule (1) db_ok_CreateReadingItem, elim CreateReadingItem_InrE) (simp add: admin_ok_def)
  show "preserves store_ok (UpdateReadingItem e uid i t body tags)"
    by (rule preserves_UpdateReadingItem, rule preserves_atomic [OF atomic_reading(2)], unfold store_ok_def,
        elim conjE, rule conjI, erule (1) db_ok_rewrite_item, elim rewrite_item_InrE) (simp add: admin_ok_def)
  show "preserves store_ok (DeleteReadingItem uid i)"
    by (rule preserves_atomic [OF atomic_reading(3)], unfold store_ok_def, elim DeleteReadingItem_InrE)
      (simp add: db_ok_without_item, simp add: without_item_def admin_ok_def)
qed

end
