(* ===== verification/ReadingFacts.thy ===== *)
theory ReadingFacts
  imports Reading SessionFacts
begin

text \<open>
  What \<open>auth/reading.go\<close> promises: a valid bookmark or note is stored and reads back as it was made,
  an update is all or nothing, and nobody else's notes are touched.
\<close>

section \<open>Tags of an item\<close>

lemma reading_tags_loop_ok:
  assumes "reading_tags_loop lw res seen tags = Inr out" and "length res \<le> 12" and "set seen = to_lower lw ` set res"
    and "distinct (map (to_lower lw) res)" and "\<forall>g \<in> set res. \<exists>raw. normalizeTag raw = Inr g"
  shows "length out \<le> 12 \<and> distinct (map (to_lower lw) out) \<and> (\<forall>g \<in> set out. \<exists>raw. normalizeTag raw = Inr g)"
  using assms
proof (induction lw res seen tags rule: reading_tags_loop.induct)
  case (2 lw result seen raw tags)
  show ?case
  proof (cases "normalizeTag raw")
    case (Inl e)
    with 2 show ?thesis by (auto split: if_splits)
  next
    case (Inr tag)
    show ?thesis
    proof (cases "to_lower lw tag \<in> set seen")
      case True
      with 2 Inr show ?thesis by (simp add: Let_def)
    next
      case False
      with 2(4) Inr have l: "\<not> 12 < length (result @ [tag])"
        and run: "reading_tags_loop lw (result @ [tag]) (to_lower lw tag # seen) tags = Inr out"
        by (auto simp: Let_def split: if_splits)
      show ?thesis
        using l False 2(5-8) Inr by (intro 2(3) [OF Inr refl _ _ run]) auto
    qed
  qed
qed simp

lemma normalizeReadingTags_ok:
  assumes "normalizeReadingTags lw tags = Inr out"
  shows "length out \<le> 12" "distinct (map nocase out)" "\<forall>g \<in> set out. \<exists>raw. normalizeTag raw = Inr g"
proof -
  have r: "length out \<le> 12 \<and> distinct (map (to_lower lw) out) \<and> (\<forall>g \<in> set out. \<exists>raw. normalizeTag raw = Inr g)"
    using reading_tags_loop_ok [of lw "[]" "[]" tags out] assms by (simp add: normalizeReadingTags_def)
  then show "length out \<le> 12" "\<forall>g \<in> set out. \<exists>raw. normalizeTag raw = Inr g" by blast+
  have "distinct (map (to_lower lw) out) \<Longrightarrow> distinct (map nocase out)"
    by (induction out) (auto simp: image_iff dest: eq_nocase_to_lower [unfolded eq_nocase_def, of _ _ lw])
  with r show "distinct (map nocase out)" by blast
qed

lemma insertReadingTags_ok:
  assumes "faults c = []" and "i \<in> r_id ` set (reading_items (tables c))"
    and "distinct (map nocase tags)" and "unique (\<lambda>r. (rt_item_id r, nocase (rt_tag r))) (reading_tags (tables c))"
    and "list_all (\<lambda>r. rt_item_id r \<in> r_id ` set (reading_items (tables c))) (reading_tags (tables c))"
    and "\<forall>r \<in> set (reading_tags (tables c)). rt_item_id r = i \<longrightarrow> nocase (rt_tag r) \<notin> nocase ` set tags"
  shows "insertReadingTags i tags t c =
    (Inr (), c\<lparr>tables := (tables c)\<lparr>reading_tags := reading_tags (tables c) @ tag_rows i tags t\<rparr>\<rparr>)"
  using assms
proof (induction tags arbitrary: c)
  case Nil
  then show ?case by (simp add: tag_rows_def ret_def)
next
  case (Cons g tags)
  let ?r = "\<lparr>rt_item_id = i, rt_tag = g, rt_created_at = t\<rparr>"
  let ?c = "c\<lparr>tables := (tables c)\<lparr>reading_tags := reading_tags (tables c) @ [?r]\<rparr>\<rparr>"
  have "reading_tags_broken (tables c) (reading_tags (tables c) @ [?r]) = None"
    using Cons.prems by (auto simp: reading_tags_broken_def unique_def image_iff)
  then have e: "exec (insert_into reading_tags_t ?r) c = (Inr 1, ?c)"
    using Cons.prems(1) by (simp add: insert_into_def write_rows_def)
  have "insertReadingTags i tags t ?c =
      (Inr (), ?c\<lparr>tables := (tables ?c)\<lparr>reading_tags := reading_tags (tables ?c) @ tag_rows i tags t\<rparr>\<rparr>)"
    using Cons.prems by (intro Cons.IH) (auto simp: unique_def image_iff)
  then show ?case by (simp only: insertReadingTags.simps bnd_def e prod.case sum.case) (simp add: tag_rows_def)
qed

section \<open>Writing and reading back\<close>

lemma sort_key_map: "sort_key f (map g xs) = map g (sort_key (\<lambda>x. f (g x)) xs)"
proof -
  have "insort_key f (g x) (map g ys) = map g (insort_key (\<lambda>x. f (g x)) x ys)" for x ys
    by (induction ys) simp_all
  then show ?thesis by (induction xs) simp_all
qed

lemma trim_space_id: "ascii s \<Longrightarrow> list_all (\<lambda>c. \<not> is_space (of_char c)) s \<Longrightarrow> trim_space s = s"
proof -
  have d: "list_all (\<lambda>c. \<not> is_space (of_char c)) s \<Longrightarrow> dropWhile (\<lambda>c. is_space (of_char c)) s = s" for s
    by (cases s) auto
  assume "ascii s" and s: "list_all (\<lambda>c. \<not> is_space (of_char c)) s"
  moreover have "list_all (\<lambda>c. \<not> is_space (of_char c)) (rev s)" using s by (simp add: list_all_iff)
  ultimately show ?thesis using d [OF s] d [of "rev s"] by (simp add: trim_space_ascii trim_ascii_def)
qed

lemma trim_space_token: "trim_space (b64_encode url_alphabet bs) = b64_encode url_alphabet bs"
proof -
  have "list_all (\<lambda>c. of_char c < (128::nat) \<and> \<not> is_space (of_char c)) url_alphabet"
    by (simp add: url_alphabet_def is_space_def)
  then have "list_all (\<lambda>c. of_char c < (128::nat) \<and> \<not> is_space (of_char c)) (b64_encode url_alphabet bs)"
    using b64_encode_chars [OF url_alphabet_ok] by (auto simp: list_all_iff)
  then show ?thesis by (intro trim_space_id) (auto simp: ascii_def list_all_iff)
qed

text \<open>How an item that was just made reads back: its times to the second, its tags in tag order.\<close>

definition read_back :: "ReadingItem \<Rightarrow> ReadingItem" where
  "read_back x = x\<lparr>rd_Tags := sort_key key_order (rd_Tags x),
    rd_CreatedAt := time_of_unix (unix_of (rd_CreatedAt x)), rd_UpdatedAt := time_of_unix (unix_of (rd_UpdatedAt x))\<rparr>"

text \<open>C12: A valid bookmark or note is stored and reads back as it was made. Whatever tags are given, they
  never trip the table's constraint: the normalisation leaves at most twelve, no two of which the table
  takes for the same.\<close>

theorem valid_note_round_trip:
  assumes ok: "db_ok (tables c)" and nf: "faults c = []" and u: "uid \<in> set (user_ids (tables c))"
    and v: "validateReadingItem (low e) b kind loc lab t body ex tags c = (Inr item0, c)"
    and ent: "entropy c = idb @ rest" "length idb = 16"
    and fresh: "b64_encode url_alphabet idb \<notin> r_id ` set (reading_items (tables c))"
  shows "\<exists>x c'. CreateReadingItem e uid b kind loc lab t body ex tags c = (Inr x, c') \<and>
    ReadingItemForUser uid (rd_ID x) c' = (Inr (read_back x), c') \<and>
    rd_Body x = rd_Body item0 \<and> length (rd_Tags x) \<le> 12 \<and> distinct (map nocase (rd_Tags x))"
proof -
  let ?id = "b64_encode url_alphabet idb"
  let ?x = "item0\<lparr>rd_ID := ?id, rd_UserID := uid, rd_CreatedAt := now e, rd_UpdatedAt := now e\<rparr>"
  let ?is = "reading_items (tables c) @ [reading_row_of ?x]"
  let ?ts = "reading_tags (tables c) @ tag_rows ?id (rd_Tags ?x) (unix_of (now e))"
  let ?c = "c\<lparr>entropy := rest, tables := (tables c)\<lparr>reading_items := ?is\<rparr>\<rparr>"
  let ?c' = "c\<lparr>entropy := rest, tables := (tables c)\<lparr>reading_items := ?is, reading_tags := ?ts\<rparr>\<rparr>"
  have kind: "reading_kind_valid (rd_Kind item0)" and tags: "normalizeReadingTags (low e) tags = Inr (rd_Tags item0)"
    using v by (auto elim!: validateReadingItem_InrE)
  note g = normalizeReadingTags_ok [OF tags]
  have rid: "r_id (reading_row_of ?x) = ?id" "r_user_id (reading_row_of ?x) = uid" by (simp_all add: reading_row_of_def)
  have br: "reading_broken (tables c) ?is = None"
    using ok u fresh kind
    by (auto simp: db_ok_def reading_broken_def unique_def reading_kind_valid_def reading_row_of_def)
  have tk: "randomToken 16 c = (Inr ?id, c\<lparr>entropy := rest\<rparr>)"
    using ent by (simp add: randomToken_def run_defs read_full_def)
  have no: "\<forall>r \<in> set (reading_tags (tables c)). rt_item_id r \<noteq> ?id"
  proof
    fix r assume "r \<in> set (reading_tags (tables c))"
    then have "rt_item_id r \<in> r_id ` set (reading_items (tables c))"
      using ok by (simp add: db_ok_def reading_tags_broken_def list_all_iff)
    then show "rt_item_id r \<noteq> ?id" using fresh by metis
  qed
  have ins: "insertReadingTags ?id (rd_Tags ?x) (unix_of (now e)) ?c = (Inr (), ?c')"
    using ok nf no rid g(2)
    by (subst insertReadingTags_ok) (auto simp: db_ok_def reading_tags_broken_def list_all_iff)
  have run: "CreateReadingItem e uid b kind loc lab t body ex tags c = (Inr ?x, ?c')"
    unfolding CreateReadingItem_def Let_def bnd_def v tk prod.case sum.case
    using nf br ins by (simp add: run_defs insert_into_def write_rows_def)
  have fr: "\<And>r. r \<in> set (reading_items (tables c)) \<Longrightarrow> r_id r \<noteq> ?id" using fresh by (metis imageI)
  have f: "List.find (own_item uid ?id) ?is = Some (reading_row_of ?x)"
    using fr rid by (subst find_append_None) (auto simp: find_None_iff own_item_def trim_space_token)
  have "filter (\<lambda>t. rt_item_id t = ?id) ?ts = tag_rows ?id (rd_Tags ?x) (unix_of (now e))"
    using no by (auto simp: tag_rows_def filter_empty_conv filter_id_conv)
  then have tg: "rd_Tags (item_with_tags uid (tables ?c') (reading_row_of ?x)) = sort_key key_order (rd_Tags ?x)"
    using rid by (simp add: item_with_tags_def tag_rows_def sort_key_map comp_def)
  have "ReadingItemForUser uid ?id ?c' = (Inr (item_with_tags uid (tables ?c') (reading_row_of ?x)), ?c')"
    using f nf attach_own [of uid ?id "tables ?c'"]
    by (simp add: ReadingItemForUser_def attachReadingTags_def run_defs no_rows_as_def one_row_def)
  moreover have "item_with_tags uid (tables ?c') (reading_row_of ?x) = read_back ?x"
    using tg by (simp add: item_with_tags_def read_back_def scanReadingItem_def reading_row_of_def)
  ultimately show ?thesis using run g by (intro exI [of _ ?x] exI [of _ ?c']) simp
qed


lemma ex_note: "validateReadingItem id '' moby '' ''note'' ''p4'' '''' '''' ''whale'' '''' ['' Sea '', ''SEA''] (ex_conn ex_db) =
  (Inr \<lparr>rd_ID = '''', rd_UserID = '''', rd_BookID = ''moby'', rd_Kind = ''note'', rd_Locator = ''p4'',
    rd_LocatorLabel = '''', rd_Title = ''Note'', rd_Body = ''whale'', rd_Excerpt = '''', rd_Tags = [''Sea''],
    rd_CreatedAt = 0, rd_UpdatedAt = 0\<rparr>, ex_conn ex_db)"
proof -
  have t: "normalizeReadingTags id ['' Sea '', ''SEA''] = Inr [''Sea'']"
    by (simp add: normalizeReadingTags_def normalizeTag_def ascii_eval)
  have x: "normalizeReadingText ''p4'' ''location'' 4000 True = Inr ''p4''"
    "normalizeReadingText '''' ''location label'' 200 False = Inr ''''"
    "normalizeReadingText '''' ''title'' 200 False = Inr ''''" "normalizeReadingText '''' ''excerpt'' 2000 False = Inr ''''"
    "normalizeReadingText ''whale'' ''note'' 20000 False = Inr ''whale''"
    by (simp_all add: normalizeReadingText_def ascii_eval)
  have b: "normalizeBookID '' moby '' = Inr ''moby''" by (simp add: normalizeBookID_def ascii_eval)
  show ?thesis by (simp add: validateReadingItem_def run_defs t x b reading_kind_valid_def default_title_def)
qed

theorem valid_note_round_trip_witness:
  "\<exists>x c'. CreateReadingItem ex_env ''u2'' '' moby '' ''note'' ''p4'' '''' '''' ''whale'' '''' ['' Sea '', ''SEA''] (ex_conn ex_db) = (Inr x, c') \<and>
    ReadingItemForUser ''u2'' (rd_ID x) c' = (Inr (read_back x), c') \<and> rd_Body x = ''whale''"
proof -
  have "validateReadingItem (low ex_env) '' moby '' ''note'' ''p4'' '''' '''' ''whale'' '''' ['' Sea '', ''SEA''] (ex_conn ex_db) =
    (Inr \<lparr>rd_ID = '''', rd_UserID = '''', rd_BookID = ''moby'', rd_Kind = ''note'', rd_Locator = ''p4'',
      rd_LocatorLabel = '''', rd_Title = ''Note'', rd_Body = ''whale'', rd_Excerpt = '''', rd_Tags = [''Sea''],
      rd_CreatedAt = 0, rd_UpdatedAt = 0\<rparr>, ex_conn ex_db)"
    using ex_note by simp
  from valid_note_round_trip [OF _ _ _ this, of "''u2''" "replicate 16 7" "replicate 48 7"] store_ok_ex
  show ?thesis by (auto simp: store_ok_def user_ids_def replicate_add [symmetric])
qed

text \<open>Reading the item back after the transaction fails for no other reason than the database.\<close>

lemma own_item_renamed:
  assumes "List.find (own_item uid i) rs = Some r" "\<And>r. own_item uid i r \<Longrightarrow> own_item uid i (f r)"
  shows "List.find (own_item uid i) (upd_where (own_item uid i) f rs) = Some (f r)"
  using assms by (induction rs) (auto split: if_splits)

lemma read_back_fails:
  assumes "ReadingItemForUser uid i c = (Inl x, c')" "List.find (own_item uid i) (reading_items (tables c)) = Some r"
  shows "x = IoFault"
  using assms unfolding ReadingItemForUser_def attachReadingTags_def
  by (auto elim!: io_err simp: one_row_def split: if_splits)

lemma UpdateReadingItem_steps:
  assumes run: "UpdateReadingItem e uid i t0 body0 tags0 c = (res, c')"
  obtains (failed) err where "res = Inl err" "tables c' = tables c"
  | (committed) t body tags item c1 c2 where "normalizeReadingText t0 ''title'' 200 False = Inr t"
      "normalizeReadingText body0 ''note'' 20000 False = Inr body" "normalizeReadingTags (low e) tags0 = Inr tags"
      "ReadingItemForUser uid i c = (Inr item, c1)" "rewrite_item e uid i (default_title (rd_Kind item) t) body tags c1 = (Inr (), c2)"
      "ReadingItemForUser uid i c2 = (res, c')"
proof -
  have same: "ReadingItemForUser uid i c = (x, c1) \<Longrightarrow> tables c1 = tables c" for x c c1
    by (rule readonlyD) (rule readonly_ReadingItemForUser)
  obtain x c1 where x: "ReadingItemForUser uid i c = (x, c1)" by fastforce
  show thesis
  proof (cases "normalizeReadingText t0 ''title'' 200 False")
    case (Inl err)
    then show thesis using run failed by (auto simp: UpdateReadingItem_def bnd_def of_result_def)
  next
    case t: (Inr t)
    show thesis
    proof (cases "normalizeReadingText body0 ''note'' 20000 False")
      case (Inl err)
      then show thesis using run t failed by (auto simp: UpdateReadingItem_def bnd_def of_result_def)
    next
      case body: (Inr body)
      show thesis
      proof (cases "normalizeReadingTags (low e) tags0")
        case (Inl err)
        then show thesis using run t body failed by (auto simp: UpdateReadingItem_def bnd_def of_result_def)
      next
        case tags: (Inr tags)
        note r = run [unfolded UpdateReadingItem_def t body tags bnd_def of_result_def sum.case prod.case x]
        show thesis
        proof (cases x)
          case (Inl err)
          then show thesis using r x same failed by auto
        next
          case item: (Inr item)
          obtain y c2 where y: "rewrite_item e uid i (default_title (rd_Kind item) t) body tags c1 = (y, c2)" by fastforce
          show thesis
          proof (cases y)
            case (Inl err)
            then have "tables c2 = tables c1" using y atomicD [OF atomic_reading(2)] by metis
            then show thesis using r item y Inl same [OF x] failed by auto
          next
            case (Inr u)
            then have "rewrite_item e uid i (default_title (rd_Kind item) t) body tags c1 = (Inr (), c2)" using y by simp
            from committed [OF t body tags x [unfolded item] this] show thesis using r item Inr y by simp
          qed
        qed
      qed
    qed
  qed
qed

text \<open>C13: Updating a bookmark or note is all or nothing. Either the call fails and the tables are untouched; or the title, the
  note and the tags that were given, each valid and normalised, replace those of the reader's item, its time is set, nothing
  else changes, and the result is the item as it is now. When reading it back fails, which happens for no other reason than the
  database itself, the call reports an error although the update is there.\<close>

theorem update_is_all_or_nothing:
  assumes run: "UpdateReadingItem e uid i t0 body0 tags0 c = (res, c')"
  shows "(\<exists>err. res = Inl err) \<and> tables c' = tables c \<or>
    (\<exists>t title body tags r. normalizeReadingText t0 ''title'' 200 False = Inr t \<and> normalizeReadingText body0 ''note'' 20000 False = Inr body \<and>
      normalizeReadingTags (low e) tags0 = Inr tags \<and>
      List.find (\<lambda>r. r_user_id r = uid \<and> r_id r = trim_space i) (reading_items (tables c)) = Some r \<and>
      title = (if t \<noteq> '''' then t else if r_kind r = ''bookmark'' then ''Bookmark'' else ''Note'') \<and>
      tables c' = (tables c)\<lparr>
        reading_items := map (\<lambda>x. if r_user_id x = uid \<and> r_id x = trim_space i
          then x\<lparr>r_title := title, r_body := body, r_updated_at := unix_of (now e)\<rparr> else x) (reading_items (tables c)),
        reading_tags := filter (\<lambda>g. rt_item_id g \<noteq> trim_space i) (reading_tags (tables c)) @
          map (\<lambda>g. \<lparr>rt_item_id = trim_space i, rt_tag = g, rt_created_at = unix_of (now e)\<rparr>) tags\<rparr> \<and>
      (case res of Inl err \<Rightarrow> err = IoFault
       | Inr x \<Rightarrow> x = (scanReadingItem r)\<lparr>rd_Title := title, rd_Body := body, rd_UpdatedAt := time_of_unix (unix_of (now e)),
           rd_Tags := sort_key key_order tags\<rparr>))"
  using run
proof (cases rule: UpdateReadingItem_steps)
  case failed
  then show ?thesis by blast
next
  case (committed t body tags item c1 c2)
  let ?own = "\<lambda>r. r_user_id r = uid \<and> r_id r = trim_space i"
  have own: "own_item uid i = ?own" by (simp add: fun_eq_iff own_item_def)
  from committed(4) obtain r where r: "List.find ?own (reading_items (tables c)) = Some r" "rd_Kind item = r_kind r" "tables c1 = tables c"
    by (elim ReadingItemForUser_InrE) (auto simp: own item_with_tags_def scanReadingItem_def)
  define title where "title = (if t \<noteq> '''' then t else if r_kind r = ''bookmark'' then ''Bookmark'' else ''Note'')"
  have title: "default_title (rd_Kind item) t = title" by (simp add: r(2) title_def default_title_def)
  let ?f = "\<lambda>x. x\<lparr>r_title := title, r_body := body, r_updated_at := unix_of (now e)\<rparr>"
  let ?items = "map (\<lambda>x. if ?own x then ?f x else x) (reading_items (tables c))"
  let ?tags = "filter (\<lambda>g. rt_item_id g \<noteq> trim_space i) (reading_tags (tables c)) @
    map (\<lambda>g. \<lparr>rt_item_id = trim_space i, rt_tag = g, rt_created_at = unix_of (now e)\<rparr>) tags"
  have c2: "tables c2 = (tables c)\<lparr>reading_items := ?items, reading_tags := ?tags\<rparr>"
    using committed(5) unfolding title
    by (elim rewrite_item_InrE) (simp add: r(3) upd_where_def del_where_def tag_rows_def conj_commute)
  have c': "tables c' = tables c2" using readonlyD [OF readonly_ReadingItemForUser committed(6)] .
  have f: "List.find (own_item uid i) (reading_items (tables c2)) = Some (?f r)"
    using own_item_renamed [of uid i "reading_items (tables c)" r ?f] r(1) by (simp add: c2 own upd_where_def)
  have "r_id r = trim_space i" using r(1) by (auto dest: find_SomeD)
  then have x: "item_with_tags uid (tables c2) (?f r) = (scanReadingItem r)\<lparr>rd_Title := title, rd_Body := body,
      rd_UpdatedAt := time_of_unix (unix_of (now e)), rd_Tags := sort_key key_order tags\<rparr>"
    by (simp add: item_with_tags_def c2 scanReadingItem_def sort_key_map comp_def filter_empty_conv filter_id_conv filter_filter)
  have "case res of Inl err \<Rightarrow> err = IoFault | Inr x \<Rightarrow> x = (scanReadingItem r)\<lparr>rd_Title := title, rd_Body := body,
      rd_UpdatedAt := time_of_unix (unix_of (now e)), rd_Tags := sort_key key_order tags\<rparr>"
  proof (cases res)
    case (Inl err)
    then show ?thesis using read_back_fails [OF _ f] committed(6) by simp
  next
    case (Inr y)
    then show ?thesis using committed(6) f x by (auto elim!: ReadingItemForUser_InrE)
  qed
  with c2 [folded c'] have "tables c' = (tables c)\<lparr>reading_items := ?items, reading_tags := ?tags\<rparr> \<and>
    (case res of Inl err \<Rightarrow> err = IoFault | Inr x \<Rightarrow> x = (scanReadingItem r)\<lparr>rd_Title := title, rd_Body := body,
      rd_UpdatedAt := time_of_unix (unix_of (now e)), rd_Tags := sort_key key_order tags\<rparr>)" by (rule conjI)
  note all = conjI [OF committed(1) conjI [OF committed(2) conjI [OF committed(3) conjI [OF r(1) conjI [OF title_def this]]]]]
  show ?thesis by (intro disjI2 exI) (rule all)
qed

definition ex_noted :: db where
  "ex_noted = ex_db\<lparr>reading_items := [\<lparr>r_id = ''n1'', r_user_id = ''u2'', r_book_id = ''moby'', r_kind = ''note'', r_locator = ''p4'',
    r_locator_label = '''', r_title = ''Whale'', r_body = ''big'', r_excerpt = '''', r_created_at = 0, r_updated_at = 0\<rparr>]\<rparr>"

lemma ex_update:
  "\<exists>x c'. UpdateReadingItem ex_env ''u2'' ''n1'' '''' ''seen'' [''Sea''] (ex_conn ex_noted) = (Inr x, c')"
proof -
  have t: "normalizeReadingTags id [''Sea''] = Inr [''Sea'']"
    by (simp add: normalizeReadingTags_def normalizeTag_def ascii_eval)
  have x: "normalizeReadingText '''' ''title'' 200 False = Inr ''''" "normalizeReadingText ''seen'' ''note'' 20000 False = Inr ''seen''"
    by (simp_all add: normalizeReadingText_def ascii_eval)
  have i: "trim_space ''n1'' = ''n1''" by (simp add: ascii_eval)
  have u: "''u2'' \<in> set (user_ids (ex_db\<lparr>reading_items := rs\<rparr>))" "''u2'' \<in> set (user_ids (ex_db\<lparr>reading_items := rs, reading_tags := ts\<rparr>))" for rs ts
    by (simp_all add: user_ids_def ex_db_def)
  have b: "reading_tags ex_db = []" by (simp add: ex_db_def)
  show ?thesis
    by (simp add: UpdateReadingItem_def t x i ReadingItemForUser_def own_item_def rewrite_item_def attachReadingTags_def run_defs
      no_rows_as_def one_row_def ex_noted_def user_tags_def tx_def tx_with_def settle_def commit_def update_tab_def delete_from_def
      insert_into_def write_rows_def reading_broken_def reading_tags_broken_def unique_def reading_kind_valid_def u b del_where_def count_where_def upd_where_def)
qed

theorem update_is_all_or_nothing_witness:
  "\<exists>x c'. UpdateReadingItem ex_env ''u2'' ''n1'' '''' ''seen'' [''Sea''] (ex_conn ex_noted) = (Inr x, c') \<and>
    rd_Title x = ''Note'' \<and> rd_Body x = ''seen'' \<and> rd_Tags x = [''Sea'']"
proof -
  obtain x c' where run: "UpdateReadingItem ex_env ''u2'' ''n1'' '''' ''seen'' [''Sea''] (ex_conn ex_noted) = (Inr x, c')"
    using ex_update by blast
  have i: "trim_space ''n1'' = ''n1''" by (simp add: ascii_eval)
  have t: "normalizeReadingTags id [''Sea''] = Inr [''Sea'']"
    by (simp add: normalizeReadingTags_def normalizeTag_def ascii_eval)
  have n: "normalizeReadingText [] ''title'' 200 False = Inr []" "normalizeReadingText ''seen'' ''note'' 20000 False = Inr ''seen''"
    by (simp_all add: normalizeReadingText_def ascii_eval)
  show ?thesis using update_is_all_or_nothing [OF run] run by (auto simp: i t n ex_noted_def)
qed


text \<open>Bookmarks and notes are private: creating, changing or deleting them on behalf of one account
  leaves every other reader's items and tags untouched, also when the call fails half way.\<close>

theorem notes_are_private:
  assumes ok: "db_ok (tables c)" and v: "uid \<noteq> v"
  shows "reading_view v (tables (snd (CreateReadingItem e uid b kind loc lab t body ex tags c))) = reading_view v (tables c) \<and>
    reading_view v (tables (snd (UpdateReadingItem e uid i t body tags c))) = reading_view v (tables c) \<and>
    reading_view v (tables (snd (DeleteReadingItem uid i c))) = reading_view v (tables c)"
  using bookmarks.many_others [of "[uid]" v c] edits.many_others [of "[uid]" v c] erases.many_others [of "[uid]" v c] ok v
  by simp

theorem notes_are_private_witness:
  "reading_view ''u1'' (tables (snd (DeleteReadingItem ''u2'' ''i'' (ex_conn ex_db)))) = reading_view ''u1'' ex_db"
  using notes_are_private [of "ex_conn ex_db" "''u2''" "''u1''"] store_ok_ex by (simp add: store_ok_def)

end
