(* ===== verification/Requests.thy ===== *)
theory Requests
  imports Accounts "HOL-Library.Product_Lexorder"
begin

text \<open>
  The book requests and copyright claims of \<open>auth/sqlite.go\<close>: readers ask for books, anyone may file a
  claim, managers resolve both. A request may be resolved again, a claim only once.
\<close>

section \<open>Book requests\<close>

definition bookRequestTitleMax :: nat where "bookRequestTitleMax = 300"
definition bookRequestAuthorMax :: nat where "bookRequestAuthorMax = 200"
definition bookRequestNotesMax :: nat where "bookRequestNotesMax = 2000"
definition bookRequestMessageMax :: nat where "bookRequestMessageMax = 2000"

lemmas request_limits [simp] = bookRequestTitleMax_def bookRequestAuthorMax_def bookRequestNotesMax_def
  bookRequestMessageMax_def

definition normalizeBookRequestFields :: "string \<Rightarrow> string \<Rightarrow> string \<Rightarrow> err + string \<times> string \<times> string" where
  "normalizeBookRequestFields title0 author0 notes0 =
    (let title = trim_space title0; author = trim_space author0; notes = trim_space notes0
     in if title = '''' then Inl (ErrText ''a book title is required'')
        else if length title > bookRequestTitleMax then Inl (too_long ''title'' bookRequestTitleMax)
        else if length author > bookRequestAuthorMax then Inl (too_long ''author'' bookRequestAuthorMax)
        else if length notes > bookRequestNotesMax then Inl (too_long ''notes'' bookRequestNotesMax)
        else Inr (title, author, notes))"

record BookRequest =
  req_ID :: string
  req_UserID :: string
  req_Title :: string
  req_Author :: string
  req_Notes :: string
  req_Status :: string
  req_BookID :: string
  req_Message :: string
  req_CreatedAt :: gotime
  req_UpdatedAt :: gotime
  req_RequesterName :: string
  req_RequesterEmail :: string

definition scanBookRequest :: "request_row \<Rightarrow> BookRequest" where
  "scanBookRequest r = \<lparr>req_ID = q_id r, req_UserID = q_user_id r, req_Title = q_title r,
    req_Author = q_author r, req_Notes = q_notes r, req_Status = q_status r, req_BookID = q_book_id r,
    req_Message = q_message r, req_CreatedAt = time_of_unix (q_created_at r),
    req_UpdatedAt = time_of_unix (q_updated_at r), req_RequesterName = '''', req_RequesterEmail = ''''\<rparr>"

definition scanBookRequestWithRequester :: "user_row \<Rightarrow> request_row \<Rightarrow> BookRequest" where
  "scanBookRequestWithRequester u r =
    (scanBookRequest r)\<lparr>req_RequesterName := u_name u, req_RequesterEmail := u_email u\<rparr>"

text \<open>\<open>SELECT active FROM users WHERE id = ?\<close> and the two errors it may lead to.\<close>

definition require_active :: "string \<Rightarrow> unit db_io" where
  "require_active userID =
    bnd (no_rows_as user_not_found
      (query (\<lambda>d. one_row (map_option u_active (List.find (\<lambda>u. u_id u = userID) (users d)))))) (\<lambda>active.
    fail_if (\<not> active) ErrInactive)"

definition CreateBookRequest :: "env \<Rightarrow> string \<Rightarrow> string \<Rightarrow> string \<Rightarrow> string \<Rightarrow> BookRequest db_io" where
  "CreateBookRequest e userID title0 author0 notes0 =
    bnd (of_result (normalizeBookRequestFields title0 author0 notes0)) (\<lambda>(title, author, notes).
    tx (
      bnd (require_active userID) (\<lambda>_.
      bnd (randomToken 16) (\<lambda>id.
      bnd (exec (insert_into requests_t \<lparr>q_id = id, q_user_id = userID, q_title = title, q_author = author,
        q_notes = notes, q_status = ''pending'', q_book_id = '''', q_message = '''',
        q_created_at = unix_of (now e), q_updated_at = unix_of (now e)\<rparr>)) (\<lambda>_.
      ret \<lparr>req_ID = id, req_UserID = userID, req_Title = title, req_Author = author, req_Notes = notes,
        req_Status = ''pending'', req_BookID = '''', req_Message = '''', req_CreatedAt = now e,
        req_UpdatedAt = now e, req_RequesterName = '''', req_RequesterEmail = ''''\<rparr>)))))"

definition BookRequestsForUser :: "string \<Rightarrow> BookRequest list db_io" where
  "BookRequestsForUser userID = query (\<lambda>d. Inr (map scanBookRequest
    (sort_key (\<lambda>r. - q_created_at r) (filter (\<lambda>r. q_user_id r = userID) (book_requests d)))))"

text \<open>The join drops no request while the foreign key holds; pending ones come first.\<close>

definition with_requester :: "db \<Rightarrow> request_row \<Rightarrow> BookRequest option" where
  "with_requester d r =
    map_option (\<lambda>u. scanBookRequestWithRequester u r) (List.find (\<lambda>u. u_id u = q_user_id r) (users d))"

definition BookRequestsAll :: "BookRequest list db_io" where
  "BookRequestsAll = query (\<lambda>d. Inr (List.map_filter (with_requester d)
    (sort_key (\<lambda>r. (if q_status r = ''pending'' then (0::int) else 1, - q_created_at r)) (book_requests d))))"

definition PendingBookRequestCount :: "nat db_io" where
  "PendingBookRequestCount = query (\<lambda>d. Inr (count_where (\<lambda>r. q_status r = ''pending'') (book_requests d)))"

definition PendingBookRequestCountForUser :: "string \<Rightarrow> nat db_io" where
  "PendingBookRequestCountForUser userID =
    query (\<lambda>d. Inr (count_where (\<lambda>r. q_user_id r = userID \<and> q_status r = ''pending'') (book_requests d)))"

definition ResolveBookRequest :: "env \<Rightarrow> string \<Rightarrow> string \<Rightarrow> string \<Rightarrow> string \<Rightarrow> unit db_io" where
  "ResolveBookRequest e requestID status bookID0 message0 =
    bnd (fail_if (\<not> request_status_valid status \<or> status = ''pending'') (ErrText ''invalid book request status'')) (\<lambda>_.
    let bookID = trim_space bookID0; message = trim_space message0 in
    bnd (fail_if (status = ''unavailable'' \<and> message = '''')
      (ErrText ''explain why the book could not be found'')) (\<lambda>_.
    bnd (fail_if (length message > bookRequestMessageMax) (too_long ''message'' bookRequestMessageMax)) (\<lambda>_.
    bnd (fail_if (length bookID > 64) (ErrText ''the book reference is invalid'')) (\<lambda>_.
    bnd (exec (update_tab requests_t (\<lambda>r. q_id r = requestID)
      (\<lambda>r. r\<lparr>q_status := status, q_book_id := bookID, q_message := message, q_updated_at := unix_of (now e)\<rparr>)))
    (\<lambda>affected. fail_if (affected = 0) (ErrText ''book request not found''))))))"

section \<open>Copyright claims\<close>

definition copyrightClaimNameMax :: nat where "copyrightClaimNameMax = 200"
definition copyrightClaimBookTitleMax :: nat where "copyrightClaimBookTitleMax = 500"
definition copyrightClaimSourceURLMax :: nat where "copyrightClaimSourceURLMax = 2000"
definition copyrightClaimDetailsMax :: nat where "copyrightClaimDetailsMax = 5000"
definition copyrightClaimResolutionMax :: nat where "copyrightClaimResolutionMax = 3000"

lemmas claim_limits [simp] = copyrightClaimNameMax_def copyrightClaimBookTitleMax_def
  copyrightClaimSourceURLMax_def copyrightClaimDetailsMax_def copyrightClaimResolutionMax_def

record claim_fields =
  cf_name :: string
  cf_email :: string
  cf_book_id :: string
  cf_book_title :: string
  cf_source_url :: string
  cf_details :: string

definition normalizeCopyrightClaimFields :: "(nat \<Rightarrow> nat) \<Rightarrow> claim_fields \<Rightarrow> err + claim_fields" where
  "normalizeCopyrightClaimFields lw f =
    (let name = trim_space (cf_name f) in
     if name = '''' then Inl (ErrText ''your name is required'')
     else if length name > copyrightClaimNameMax then Inl (too_long ''name'' copyrightClaimNameMax)
     else case normalizeEmail lw (cf_email f) of
       Inl _ \<Rightarrow> Inl (ErrText ''a valid contact email is required'')
     | Inr email \<Rightarrow>
       (let bookID = trim_space (cf_book_id f); title = trim_space (cf_book_title f);
            url = trim_space (cf_source_url f); details = trim_space (cf_details f) in
        if length bookID > 64 then Inl (ErrText ''the book reference is invalid'')
        else if title = '''' then Inl (ErrText ''a book title or reference is required'')
        else if length title > copyrightClaimBookTitleMax then Inl (too_long ''book title'' copyrightClaimBookTitleMax)
        else if length url > copyrightClaimSourceURLMax then Inl (too_long ''source URL'' copyrightClaimSourceURLMax)
        else if length details < 20 then Inl (ErrText ''provide at least 20 characters of claim details'')
        else if length details > copyrightClaimDetailsMax then Inl (too_long ''details'' copyrightClaimDetailsMax)
        else Inr \<lparr>cf_name = name, cf_email = email, cf_book_id = bookID, cf_book_title = title,
          cf_source_url = url, cf_details = details\<rparr>))"

record CopyrightClaim =
  clm_ID :: string
  clm_UserID :: string
  clm_ClaimantName :: string
  clm_ClaimantEmail :: string
  clm_BookID :: string
  clm_BookTitle :: string
  clm_SourceURL :: string
  clm_Details :: string
  clm_Status :: string
  clm_Resolution :: string
  clm_CreatedAt :: gotime
  clm_UpdatedAt :: gotime

definition scanCopyrightClaim :: "claim_row \<Rightarrow> CopyrightClaim" where
  "scanCopyrightClaim r = \<lparr>clm_ID = c_id r, clm_UserID = (case c_user_id r of None \<Rightarrow> '''' | Some u \<Rightarrow> u),
    clm_ClaimantName = c_claimant_name r, clm_ClaimantEmail = c_claimant_email r, clm_BookID = c_book_id r,
    clm_BookTitle = c_book_title r, clm_SourceURL = c_source_url r, clm_Details = c_details r,
    clm_Status = c_status r, clm_Resolution = c_resolution r, clm_CreatedAt = time_of_unix (c_created_at r),
    clm_UpdatedAt = time_of_unix (c_updated_at r)\<rparr>"

definition CreateCopyrightClaim :: "env \<Rightarrow> string \<Rightarrow> claim_fields \<Rightarrow> CopyrightClaim db_io" where
  "CreateCopyrightClaim e userID f0 =
    bnd (of_result (normalizeCopyrightClaimFields (low e) f0)) (\<lambda>f.
    bnd (when_io (userID \<noteq> '''') (require_active userID)) (\<lambda>_.
    bnd (randomToken 16) (\<lambda>id.
    bnd (exec (insert_into claims_t \<lparr>c_id = id, c_user_id = (if userID = '''' then None else Some userID),
      c_claimant_name = cf_name f, c_claimant_email = cf_email f, c_book_id = cf_book_id f,
      c_book_title = cf_book_title f, c_source_url = cf_source_url f, c_details = cf_details f,
      c_status = ''pending'', c_resolution = '''', c_created_at = unix_of (now e), c_updated_at = unix_of (now e)\<rparr>)) (\<lambda>_.
    ret \<lparr>clm_ID = id, clm_UserID = userID, clm_ClaimantName = cf_name f, clm_ClaimantEmail = cf_email f,
      clm_BookID = cf_book_id f, clm_BookTitle = cf_book_title f, clm_SourceURL = cf_source_url f,
      clm_Details = cf_details f, clm_Status = ''pending'', clm_Resolution = '''', clm_CreatedAt = now e,
      clm_UpdatedAt = now e\<rparr>))))"

definition CopyrightClaimsAll :: "CopyrightClaim list db_io" where
  "CopyrightClaimsAll = query (\<lambda>d. Inr (map scanCopyrightClaim
    (sort_key (\<lambda>r. (if c_status r = ''pending'' then (0::int) else 1, - c_created_at r)) (claims d))))"

definition CopyrightClaimByID :: "string \<Rightarrow> CopyrightClaim db_io" where
  "CopyrightClaimByID claimID = no_rows_as ErrCopyrightClaimNotFound
    (query (\<lambda>d. one_row (map_option scanCopyrightClaim (List.find (\<lambda>r. c_id r = claimID) (claims d)))))"

definition PendingCopyrightClaimCount :: "nat db_io" where
  "PendingCopyrightClaimCount = query (\<lambda>d. Inr (count_where (\<lambda>r. c_status r = ''pending'') (claims d)))"

definition ResolveCopyrightClaim :: "env \<Rightarrow> string \<Rightarrow> string \<Rightarrow> string \<Rightarrow> string \<Rightarrow> unit db_io" where
  "ResolveCopyrightClaim e claimID status bookID0 resolution0 =
    bnd (fail_if (\<not> claim_status_valid status \<or> status = ''pending'') (ErrText ''invalid copyright claim status'')) (\<lambda>_.
    let bookID = trim_space bookID0; resolution = trim_space resolution0 in
    bnd (fail_if (length bookID > 64) (ErrText ''the book reference is invalid'')) (\<lambda>_.
    bnd (fail_if (resolution = '''') (ErrText ''a resolution note is required'')) (\<lambda>_.
    bnd (fail_if (length resolution > copyrightClaimResolutionMax) (too_long ''resolution'' copyrightClaimResolutionMax)) (\<lambda>_.
    bnd (exec (update_tab claims_t (\<lambda>r. c_id r = claimID \<and> c_status r = ''pending'')
      (\<lambda>r. r\<lparr>c_status := status, c_book_id := bookID, c_resolution := resolution, c_updated_at := unix_of (now e)\<rparr>)))
    (\<lambda>affected. fail_if (affected = 0) (ErrText ''copyright claim not found or already resolved''))))))"

section \<open>What successful runs do\<close>

lemma readonly_require_active [readonly_intro]: "readonly (require_active uid)"
  unfolding require_active_def by (intro readonly_intro)

lemma require_active_InrE [io_elim]:
  assumes run: "require_active uid c = (Inr x, c')"
  obtains u fs where "u \<in> set (users (tables c))" "u_id u = uid" "u_active u" "c' = c\<lparr>faults := fs\<rparr>"
  using run unfolding require_active_def
  by (elim io_elim) (auto dest!: find_SomeD intro: that)

lemma CreateBookRequest_InrE:
  assumes run: "CreateBookRequest e uid title0 author0 notes0 c = (Inr x, c')"
  obtains title author nts idb where "normalizeBookRequestFields title0 author0 notes0 = Inr (title, author, nts)"
    "\<exists>u \<in> set (users (tables c)). u_id u = uid \<and> u_active u"
    "requests_broken (tables c) (book_requests (tables c')) = None"
    "tables c' = (tables c)\<lparr>book_requests := book_requests (tables c) @
      [\<lparr>q_id = b64_encode url_alphabet idb, q_user_id = uid, q_title = title, q_author = author, q_notes = nts,
        q_status = ''pending'', q_book_id = '''', q_message = '''', q_created_at = unix_of (now e),
        q_updated_at = unix_of (now e)\<rparr>]\<rparr>"
    "req_ID x = b64_encode url_alphabet idb" "req_Status x = ''pending''"
proof -
  show ?thesis
    using run unfolding CreateBookRequest_def case_prod_beta
    by (elim io_elim) (clarsimp, rule that, (assumption | rule refl | force)+)
qed

lemma ResolveBookRequest_InrE:
  assumes run: "ResolveBookRequest e rid st b0 m0 c = (Inr x, c')"
  obtains "st = ''added'' \<or> st = ''unavailable'' \<and> trim_space m0 \<noteq> ''''"
    "length (trim_space m0) \<le> 2000" "length (trim_space b0) \<le> 64"
    "\<exists>r \<in> set (book_requests (tables c)). q_id r = rid"
    "requests_broken (tables c) (book_requests (tables c')) = None"
    "tables c' = (tables c)\<lparr>book_requests := upd_where (\<lambda>r. q_id r = rid)
      (\<lambda>r. r\<lparr>q_status := st, q_book_id := trim_space b0, q_message := trim_space m0, q_updated_at := unix_of (now e)\<rparr>)
      (book_requests (tables c))\<rparr>"
proof -
  show ?thesis
    using run unfolding ResolveBookRequest_def Let_def
    by (elim io_elim) (clarsimp simp: count_where_pos_iff, rule that, auto simp: request_status_valid_def)
qed

lemma CreateCopyrightClaim_InrE:
  assumes run: "CreateCopyrightClaim e uid f0 c = (Inr x, c')"
  obtains f idb where "normalizeCopyrightClaimFields (low e) f0 = Inr f"
    "uid = '''' \<or> (\<exists>u \<in> set (users (tables c)). u_id u = uid \<and> u_active u)"
    "claims_broken (tables c) (claims (tables c')) = None"
    "tables c' = (tables c)\<lparr>claims := claims (tables c) @ [\<lparr>c_id = b64_encode url_alphabet idb,
      c_user_id = (if uid = '''' then None else Some uid),
      c_claimant_name = cf_name f, c_claimant_email = cf_email f, c_book_id = cf_book_id f,
      c_book_title = cf_book_title f, c_source_url = cf_source_url f, c_details = cf_details f,
      c_status = ''pending'', c_resolution = '''', c_created_at = unix_of (now e), c_updated_at = unix_of (now e)\<rparr>]\<rparr>"
    "clm_ID x = b64_encode url_alphabet idb"
proof -
  show ?thesis
    using run unfolding CreateCopyrightClaim_def
    by (elim io_elim) (clarsimp, rule that, (assumption | rule refl | force)+)+
qed

definition resolve_claim :: "string \<Rightarrow> string \<Rightarrow> string \<Rightarrow> unix \<Rightarrow> claim_row \<Rightarrow> claim_row" where
  "resolve_claim st b res t r = r\<lparr>c_status := st, c_book_id := b, c_resolution := res, c_updated_at := t\<rparr>"

lemma ResolveCopyrightClaim_InrE:
  assumes run: "ResolveCopyrightClaim e cid st b0 r0 c = (Inr x, c')"
  obtains "st = ''removed'' \<or> st = ''resolved''" "trim_space r0 \<noteq> ''''"
    "length (trim_space r0) \<le> 3000" "length (trim_space b0) \<le> 64"
    "\<exists>r \<in> set (claims (tables c)). c_id r = cid \<and> c_status r = ''pending''"
    "claims_broken (tables c) (claims (tables c')) = None"
    "tables c' = (tables c)\<lparr>claims := upd_where (\<lambda>r. c_id r = cid \<and> c_status r = ''pending'')
      (resolve_claim st (trim_space b0) (trim_space r0) (unix_of (now e))) (claims (tables c))\<rparr>"
proof -
  show ?thesis
    using run unfolding ResolveCopyrightClaim_def Let_def
    by (elim io_elim)
      (clarsimp simp: count_where_pos_iff, rule that, auto simp: claim_status_valid_def resolve_claim_def [abs_def])
qed

section \<open>Invariants\<close>

lemma atomic_requests:
  "atomic (CreateBookRequest e uid t a n)" "atomic (ResolveBookRequest e rid st b m)"
  "atomic (CreateCopyrightClaim e uid f)" "atomic (ResolveCopyrightClaim e cid st b r)"
proof -
  show "atomic (CreateBookRequest e uid t a n)"
    unfolding CreateBookRequest_def case_prod_beta by (intro atomic_intro readonly_intro)
  show "atomic (ResolveBookRequest e rid st b m)"
    unfolding ResolveBookRequest_def Let_def by (intro atomic_intro readonly_intro)
  show "atomic (CreateCopyrightClaim e uid f)"
    unfolding CreateCopyrightClaim_def by (intro atomic_intro readonly_intro)
  show "atomic (ResolveCopyrightClaim e cid st b r)"
    unfolding ResolveCopyrightClaim_def Let_def by (intro atomic_intro readonly_intro)
qed

lemma preserves_requests:
  "preserves store_ok (CreateBookRequest e uid t a n)" "preserves store_ok (ResolveBookRequest e rid st b m)"
  "preserves store_ok (CreateCopyrightClaim e uid f)" "preserves store_ok (ResolveCopyrightClaim e cid st b r)"
proof -
  show "preserves store_ok (CreateBookRequest e uid t a n)"
    by (rule preserves_atomic [OF atomic_requests(1)], elim CreateBookRequest_InrE)
      (auto simp: store_ok_def admin_ok_def db_ok_requests)
  show "preserves store_ok (ResolveBookRequest e rid st b m)"
    by (rule preserves_atomic [OF atomic_requests(2)], elim ResolveBookRequest_InrE)
      (auto simp: store_ok_def admin_ok_def db_ok_requests)
  show "preserves store_ok (CreateCopyrightClaim e uid f)"
    by (rule preserves_atomic [OF atomic_requests(3)], elim CreateCopyrightClaim_InrE)
      (auto simp: store_ok_def admin_ok_def db_ok_claims)
  show "preserves store_ok (ResolveCopyrightClaim e cid st b r)"
    by (rule preserves_atomic [OF atomic_requests(4)], elim ResolveCopyrightClaim_InrE)
      (auto simp: store_ok_def admin_ok_def db_ok_claims)
qed

end
