(* ===== verification/RequestFacts.thy ===== *)
theory RequestFacts
  imports Requests SessionFacts
begin

text \<open>
  What the requests and claims of \<open>auth/sqlite.go\<close> promise: a claim is resolved once, and the list the
  managers see is complete.
\<close>

section \<open>A claim is resolved once\<close>

text \<open>What may happen to a claim: nothing, or a manager settles it.\<close>

inductive claim_step :: "claim_row \<Rightarrow> claim_row \<Rightarrow> bool" where
  keep: "claim_step r r"
| settled: "c_status r = ''pending'' \<Longrightarrow> st \<in> {''removed'', ''resolved''} \<Longrightarrow> res \<noteq> '''' \<Longrightarrow>
    claim_step r (resolve_claim st b res t r)"

inductive_cases claim_stepE: "claim_step r r'"

lemma claim_step_final: "claim_step r r' \<Longrightarrow> c_status r \<noteq> ''pending'' \<Longrightarrow> r' = r"
  by (erule claim_stepE) simp_all

lemma claim_step_same: "claim_step r r' \<Longrightarrow> c_id r' = c_id r \<and> c_details r' = c_details r \<and> c_claimant_email r' = c_claimant_email r"
  by (erule claim_stepE) (simp_all add: resolve_claim_def)

definition claims_step :: "db \<Rightarrow> db \<Rightarrow> bool" where
  "claims_step d d' \<longleftrightarrow> (\<exists>new. list_all2 claim_step (claims d) (take (length (claims d)) (claims d')) \<and>
    drop (length (claims d)) (claims d') = new \<and> list_all (\<lambda>r. c_status r = ''pending'') new)"

lemma claims_step_refl: "claims d' = claims d \<Longrightarrow> claims_step d d'"
  by (simp add: claims_step_def claim_step.keep list_all2_refl)

lemma claims_step_create:
  "CreateCopyrightClaim e uid f c = (Inr x, c') \<Longrightarrow> claims_step (tables c) (tables c')"
  by (elim CreateCopyrightClaim_InrE) (simp add: claims_step_def claim_step.keep list_all2_refl)

lemma claims_step_resolve:
  assumes "ResolveCopyrightClaim e cid st b r c = (Inr x, c')"
  shows "claims_step (tables c) (tables c')"
  using assms
proof (rule ResolveCopyrightClaim_InrE)
  let ?f = "resolve_claim st (trim_space b) (trim_space r) (unix_of (now e))"
  assume st: "st = ''removed'' \<or> st = ''resolved''" and r: "trim_space r \<noteq> ''''"
    and t: "tables c' = (tables c)\<lparr>claims := upd_where (\<lambda>r. c_id r = cid \<and> c_status r = ''pending'') ?f (claims (tables c))\<rparr>"
  have "list_all2 claim_step rs (upd_where (\<lambda>r. c_id r = cid \<and> c_status r = ''pending'') ?f rs)" for rs
    using st r by (induction rs) (auto intro: claim_step.intros)
  then show ?thesis by (simp add: claims_step_def t)
qed

text \<open>A copyright claim is resolved once. Filing and resolving claims only ever appends pending claims
  or settles a pending one with a non-empty note; and once a claim was resolved every further attempt to
  resolve it fails and changes nothing.\<close>

theorem claim_resolved_once:
  assumes run: "ResolveCopyrightClaim e cid st b r c = (Inr x, c1)"
    and ok: "db_ok (tables c)" and c2: "tables c2 = tables c1"
    and again: "ResolveCopyrightClaim e2 cid st2 b2 r2 c2 = (y, c3)"
  shows "claims_step (tables c) (tables c1) \<and> (\<exists>err. y = Inl err) \<and> tables c3 = tables c1"
proof -
  have "\<not> (\<exists>q \<in> set (claims (tables c1)). c_id q = cid \<and> c_status q = ''pending'')"
    using run by (rule ResolveCopyrightClaim_InrE) (auto simp: resolve_claim_def elim!: in_upd_whereE)
  then have "\<exists>err. y = Inl err"
    using again c2 by (cases y) (auto elim!: ResolveCopyrightClaim_InrE)
  moreover from this have "tables c3 = tables c1"
    using again c2 atomicD [OF atomic_requests(4)] by metis
  ultimately show ?thesis using claims_step_resolve [OF run] by blast
qed

definition ex_claim :: claim_row where
  "ex_claim = \<lparr>c_id = ''k'', c_user_id = None, c_claimant_name = ''Ann'', c_claimant_email = ''ann@example.org'',
    c_book_id = '''', c_book_title = ''Moby'', c_source_url = '''', c_details = ''these are my own words'',
    c_status = ''pending'', c_resolution = '''', c_created_at = 0, c_updated_at = 0\<rparr>"

definition ex_claims :: db where
  "ex_claims = ex_db\<lparr>claims := [ex_claim]\<rparr>"

lemma ex_claims_simps: "claims ex_claims = [ex_claim]" "db_ok ex_claims"
  using store_ok_ex unfolding ex_claims_def store_ok_def
  by (auto intro!: db_ok_claims simp: claims_broken_def unique_def ex_claim_def)

lemma ex_resolve: "\<exists>c'. ResolveCopyrightClaim ex_env ''k'' ''removed'' ''moby'' ''taken down'' (ex_conn ex_claims) = (Inr (), c')"
  by (simp add: ResolveCopyrightClaim_def run_defs claim_status_valid_def ascii_eval update_tab_def write_rows_def
    ex_claims_simps ex_claim_def claims_broken_def unique_def)

theorem claim_resolved_once_witness:
  "\<exists>c1 err c3. ResolveCopyrightClaim ex_env ''k'' ''removed'' ''moby'' ''taken down'' (ex_conn ex_claims) = (Inr (), c1) \<and>
    ResolveCopyrightClaim ex_env ''k'' ''resolved'' '''' ''kept'' (ex_conn (tables c1)) = (Inl err, c3) \<and> tables c3 = tables c1"
proof -
  obtain c1 where r: "ResolveCopyrightClaim ex_env ''k'' ''removed'' ''moby'' ''taken down'' (ex_conn ex_claims) = (Inr (), c1)"
    using ex_resolve by blast
  obtain y c3 where a: "ResolveCopyrightClaim ex_env ''k'' ''resolved'' '''' ''kept'' (ex_conn (tables c1)) = (y, c3)"
    by fastforce
  from claim_resolved_once [OF r _ _ a] r a show ?thesis by (auto simp: ex_claims_simps)
qed

section \<open>Listing requests\<close>

text \<open>The managers' list of book requests is complete: it holds every request exactly once with its
  requester's name and address, the pending ones first, and as many pending ones as
  \<open>PendingBookRequestCount\<close> reports.\<close>

theorem request_list_is_complete:
  assumes ok: "db_ok (tables c)" and all: "BookRequestsAll c = (Inr rs, c')"
    and count: "PendingBookRequestCount c = (Inr n, c'')"
  shows "mset (map req_ID rs) = mset (map q_id (book_requests (tables c))) \<and> distinct (map req_ID rs) \<and>
    sorted (map (\<lambda>r. req_Status r \<noteq> ''pending'') rs) \<and> n = length (filter (\<lambda>r. req_Status r = ''pending'') rs) \<and>
    (\<forall>r \<in> set rs. \<exists>u \<in> set (users (tables c)). u_id u = req_UserID r \<and> req_RequesterEmail r = u_email u \<and> req_RequesterName r = u_name u)"
proof -
  let ?d = "tables c"
  let ?k = "\<lambda>r. (if q_status r = ''pending'' then (0::int) else 1, - q_created_at r)"
  let ?qs = "sort_key ?k (book_requests ?d)"
  let ?u = "\<lambda>r. the (List.find (\<lambda>u. u_id u = q_user_id r) (users ?d))"
  have fk: "\<forall>r \<in> set (book_requests ?d). \<exists>u. List.find (\<lambda>u. u_id u = q_user_id r) (users ?d) = Some u"
  proof
    fix r assume "r \<in> set (book_requests ?d)"
    then have "q_user_id r \<in> set (user_ids ?d)"
      using ok by (simp add: db_ok_def requests_broken_def list_all_iff)
    then show "\<exists>u. List.find (\<lambda>u. u_id u = q_user_id r) (users ?d) = Some u"
      by (cases "List.find (\<lambda>u. u_id u = q_user_id r) (users ?d)") (auto simp: find_None_iff user_ids_def)
  qed
  then have w: "\<forall>r \<in> set ?qs. with_requester ?d r = Some (scanBookRequestWithRequester (?u r) r)"
    by (auto simp: with_requester_def)
  have "List.map_filter f xs = map g xs" if "\<forall>x \<in> set xs. f x = Some (g x)" for f and g :: "request_row \<Rightarrow> BookRequest" and xs
    using that by (induction xs) (simp_all add: List.map_filter_simps)
  note mf = this [OF w]
  have rs: "rs = map (\<lambda>r. scanBookRequestWithRequester (?u r) r) ?qs"
    using all unfolding BookRequestsAll_def by (elim io_elim) (simp add: mf)
  have ids: "map req_ID rs = map q_id ?qs" and st: "map req_Status rs = map q_status ?qs"
    by (simp_all add: rs scanBookRequestWithRequester_def scanBookRequest_def)
  have m: "mset (map req_ID rs) = mset (map q_id (book_requests ?d))" by (simp add: ids)
  then have "distinct (map req_ID rs)"
    using ok by (metis db_ok_unique(7) mset_eq_imp_distinct_iff)
  moreover have "sorted (map (\<lambda>r. req_Status r \<noteq> ''pending'') rs)"
  proof -
    have "sorted (map ?k ?qs)" by simp
    then have "sorted_wrt (\<lambda>x y. ?k x \<le> ?k y) ?qs" unfolding sorted_map .
    then have "sorted_wrt (\<lambda>x y. (q_status x \<noteq> ''pending'') \<le> (q_status y \<noteq> ''pending'')) ?qs"
      by (rule sorted_wrt_mono_rel [rotated]) (auto split: if_splits)
    then have "sorted (map (\<lambda>r. q_status r \<noteq> ''pending'') ?qs)" unfolding sorted_map .
    then show ?thesis using st by (simp add: rs scanBookRequestWithRequester_def scanBookRequest_def comp_def)
  qed
  moreover have "n = length (filter (\<lambda>r. req_Status r = ''pending'') rs)"
  proof -
    have "n = count_where (\<lambda>r. q_status r = ''pending'') (book_requests ?d)"
      using count unfolding PendingBookRequestCount_def by (elim io_elim) simp
    also have "\<dots> = length (filter (\<lambda>r. q_status r = ''pending'') ?qs)"
      by (simp add: count_where_def filter_sort)
    also have "\<dots> = length (filter (\<lambda>r. req_Status r = ''pending'') rs)"
      by (simp add: rs filter_map comp_def scanBookRequestWithRequester_def scanBookRequest_def)
    finally show ?thesis .
  qed
  moreover have "\<forall>r \<in> set rs. \<exists>u \<in> set (users ?d). u_id u = req_UserID r \<and> req_RequesterEmail r = u_email u \<and> req_RequesterName r = u_name u"
    using fk by (fastforce simp: rs scanBookRequestWithRequester_def scanBookRequest_def dest: find_SomeD)
  ultimately show ?thesis using m by blast
qed

theorem request_list_is_complete_witness:
  "\<exists>rs. BookRequestsAll (ex_conn ex_db) = (Inr rs, ex_conn ex_db) \<and> length (filter (\<lambda>r. req_Status r = ''pending'') rs) = 0"
proof -
  obtain rs where a: "BookRequestsAll (ex_conn ex_db) = (Inr rs, ex_conn ex_db)" by (simp add: BookRequestsAll_def)
  have n: "PendingBookRequestCount (ex_conn ex_db) = (Inr 0, ex_conn ex_db)" by (simp add: PendingBookRequestCount_def)
  from request_list_is_complete [OF _ a n] a store_ok_ex show ?thesis by (simp add: store_ok_def)
qed

end
