(* ===== verification/Alerts.thy ===== *)
theory Alerts
  imports Accounts "HOL-Library.Product_Lexorder"
begin

text \<open>
  The system message channel of \<open>auth/sqlite.go\<close>: monitors raise alerts under a key, an open alert is
  refreshed in place, one resolved within the last day is reopened, old resolved ones are dropped.
\<close>

section \<open>Clipping and normalisation\<close>

definition systemAlertKeyMax :: nat where "systemAlertKeyMax = 100"
definition systemAlertSourceMax :: nat where "systemAlertSourceMax = 100"
definition systemAlertTitleMax :: nat where "systemAlertTitleMax = 300"
definition systemAlertDetailsMax :: nat where "systemAlertDetailsMax = 5000"
definition systemAlertResolutionMax :: nat where "systemAlertResolutionMax = 1000"
definition systemAlertReopenWindow :: int where "systemAlertReopenWindow = hours 24"
definition systemAlertRetention :: int where "systemAlertRetention = hours (90 * 24)"

text \<open>The three bytes of the ellipsis, and the loop over the runes' positions: the last position not
  above the limit, where \<open>for i := range value\<close> visits the first byte of every rune.\<close>

definition ellipsis :: string where
  "ellipsis = [char_of (0xE2::nat), char_of (0x80::nat), char_of (0xA6::nat)]"

fun clip_end :: "nat \<Rightarrow> nat \<Rightarrow> nat \<Rightarrow> (nat \<times> string) list \<Rightarrow> nat" where
  "clip_end limit i last_end [] = last_end"
| "clip_end limit i last_end ((r, bs) # rest) =
    (if limit < i then last_end else clip_end limit (i + length bs) i rest)"

definition clipSystemAlertText :: "string \<Rightarrow> nat \<Rightarrow> string" where
  "clipSystemAlertText v n =
    (if length v \<le> n then v
     else take (clip_end (n - length ellipsis) 0 0 (segs v)) v @ ellipsis)"

definition normalizeSystemAlertFields :: "string \<Rightarrow> string \<Rightarrow> string \<Rightarrow> string \<Rightarrow> err + string \<times> string \<times> string \<times> string" where
  "normalizeSystemAlertFields key0 source0 title0 details0 =
    (let key = trim_space key0; source = trim_space source0; title = trim_space title0
     in if key = '''' \<or> length key > systemAlertKeyMax then Inl (ErrText ''the system alert key is invalid'')
        else if source = '''' \<or> length source > systemAlertSourceMax
          then Inl (ErrText ''the system alert source is invalid'')
        else if title = '''' then Inl (ErrText ''a system alert title is required'')
        else Inr (key, source, clipSystemAlertText title systemAlertTitleMax,
          clipSystemAlertText (trim_space details0) systemAlertDetailsMax))"

section \<open>The channel\<close>

record SystemAlert =
  al_ID :: string
  al_Key :: string
  al_Source :: string
  al_Title :: string
  al_Details :: string
  al_Status :: string
  al_Resolution :: string
  al_Occurrences :: int
  al_FirstSeenAt :: gotime
  al_LastSeenAt :: gotime
  al_ResolvedAt :: "gotime option"
  al_AcknowledgedAt :: "gotime option"
  al_AcknowledgedBy :: string
  al_AcknowledgedByName :: string

text \<open>\<open>COALESCE(NULLIF(u.display_name, ''), u.name, '')\<close> over the left join with the readers.\<close>

definition reader_name :: "db \<Rightarrow> string option \<Rightarrow> string" where
  "reader_name d by = (case by of None \<Rightarrow> ''''
     | Some i \<Rightarrow> (case List.find (\<lambda>u. u_id u = i) (users d) of None \<Rightarrow> ''''
         | Some u \<Rightarrow> if u_display_name u = '''' then u_name u else u_display_name u))"

definition scanSystemAlert :: "db \<Rightarrow> alert_row \<Rightarrow> SystemAlert" where
  "scanSystemAlert d r = \<lparr>al_ID = m_id r, al_Key = m_key r, al_Source = m_source r, al_Title = m_title r,
    al_Details = m_details r, al_Status = m_status r, al_Resolution = m_resolution r,
    al_Occurrences = m_occurrences r, al_FirstSeenAt = time_of_unix (m_first_seen_at r),
    al_LastSeenAt = time_of_unix (m_last_seen_at r), al_ResolvedAt = map_option time_of_unix (m_resolved_at r),
    al_AcknowledgedAt = map_option time_of_unix (m_acknowledged_at r),
    al_AcknowledgedBy = (case m_acknowledged_by r of None \<Rightarrow> '''' | Some u \<Rightarrow> u),
    al_AcknowledgedByName = reader_name d (m_acknowledged_by r)\<rparr>"

definition open_alert :: "string \<Rightarrow> alert_row \<Rightarrow> bool" where
  "open_alert key r \<longleftrightarrow> m_key r = key \<and> m_status r = ''open''"

text \<open>The alert to reopen: of those resolved within the window the one resolved last.\<close>

definition reopenable :: "string \<Rightarrow> unix \<Rightarrow> alert_row list \<Rightarrow> alert_row option" where
  "reopenable key since rs =
    (case sort_key (\<lambda>r. - the (m_resolved_at r))
       (filter (\<lambda>r. m_key r = key \<and> m_status r = ''resolved'' \<and>
         (case m_resolved_at r of None \<Rightarrow> False | Some t \<Rightarrow> since \<le> t)) rs) of
       [] \<Rightarrow> None | r # _ \<Rightarrow> Some r)"

definition refresh_alert :: "string \<Rightarrow> string \<Rightarrow> string \<Rightarrow> unix \<Rightarrow> alert_row \<Rightarrow> alert_row" where
  "refresh_alert source title details t r =
    r\<lparr>m_source := source, m_title := title, m_details := details, m_last_seen_at := t\<rparr>"

definition reopen_alert :: "string \<Rightarrow> string \<Rightarrow> string \<Rightarrow> unix \<Rightarrow> alert_row \<Rightarrow> alert_row" where
  "reopen_alert source title details t r =
    (refresh_alert source title details t r)\<lparr>m_status := ''open'', m_resolution := '''',
      m_occurrences := m_occurrences r + 1, m_resolved_at := None, m_acknowledged_at := None,
      m_acknowledged_by := None\<rparr>"

definition new_alert :: "string \<Rightarrow> string \<Rightarrow> string \<Rightarrow> string \<Rightarrow> string \<Rightarrow> unix \<Rightarrow> alert_row" where
  "new_alert i key source title details t = \<lparr>m_id = i, m_key = key, m_source = source, m_title = title,
    m_details = details, m_status = ''open'', m_resolution = '''', m_occurrences = 1, m_first_seen_at = t,
    m_last_seen_at = t, m_resolved_at = None, m_acknowledged_at = None, m_acknowledged_by = None\<rparr>"

definition expired_alert :: "unix \<Rightarrow> alert_row \<Rightarrow> bool" where
  "expired_alert before r \<longleftrightarrow> m_status r = ''resolved'' \<and> (case m_resolved_at r of None \<Rightarrow> False | Some t \<Rightarrow> t < before)"

definition open_or_reopen :: "env \<Rightarrow> string \<Rightarrow> string \<Rightarrow> string \<Rightarrow> string \<Rightarrow> unit db_io" where
  "open_or_reopen e key source title details =
    bnd (no_rows_nil (query (\<lambda>d. one_row (map_option m_id
      (reopenable key (unix_of (now e - systemAlertReopenWindow)) (alerts d)))))) (\<lambda>previousID.
    bnd (case previousID of
        Some i \<Rightarrow> exec (update_tab alerts_t (\<lambda>r. m_id r = i) (reopen_alert source title details (unix_of (now e))))
      | None \<Rightarrow> bnd (randomToken 16) (\<lambda>i.
          exec (insert_into alerts_t (new_alert i key source title details (unix_of (now e)))))) (\<lambda>_.
    bnd (exec (delete_from alerts_t (expired_alert (unix_of (now e - systemAlertRetention))))) (\<lambda>_. ret ())))"

definition RaiseSystemAlert :: "env \<Rightarrow> string \<Rightarrow> string \<Rightarrow> string \<Rightarrow> string \<Rightarrow> (SystemAlert \<times> bool) db_io" where
  "RaiseSystemAlert e key0 source0 title0 details0 =
    bnd (of_result (normalizeSystemAlertFields key0 source0 title0 details0)) (\<lambda>(key, source, title, details).
    tx (
      bnd (exec (update_tab alerts_t (open_alert key) (refresh_alert source title details (unix_of (now e))))) (\<lambda>affected.
      bnd (when_io (affected = 0) (open_or_reopen e key source title details)) (\<lambda>_.
      bnd (query (\<lambda>d. one_row (map_option (scanSystemAlert d) (List.find (open_alert key) (alerts d))))) (\<lambda>alert.
      ret (alert, affected = 0))))))"

definition ResolveSystemAlert :: "env \<Rightarrow> string \<Rightarrow> string \<Rightarrow> bool db_io" where
  "ResolveSystemAlert e key resolution0 =
    (let resolution = clipSystemAlertText (trim_space resolution0) systemAlertResolutionMax in
    bnd (exec (update_tab alerts_t (open_alert (trim_space key))
      (\<lambda>r. r\<lparr>m_status := ''resolved'', m_resolution := resolution, m_resolved_at := Some (unix_of (now e))\<rparr>)))
    (\<lambda>affected. ret (affected > 0)))"

definition SystemAlerts :: "int \<Rightarrow> SystemAlert list db_io" where
  "SystemAlerts limit0 =
    (let limit = nat (if limit0 \<le> 0 then 100 else limit0) in
    query (\<lambda>d. Inr (map (scanSystemAlert d) (take limit
      (sort_key (\<lambda>r. (if m_status r = ''open'' then (0::int) else 1, - m_last_seen_at r)) (alerts d))))))"

definition SystemAlertCounts :: "(nat \<times> nat) db_io" where
  "SystemAlertCounts = query (\<lambda>d. Inr (count_where (\<lambda>r. m_status r = ''open'') (alerts d),
    count_where (\<lambda>r. m_acknowledged_at r = None) (alerts d)))"

text \<open>Both \<open>CASE\<close> and \<open>COALESCE\<close> read the row as it was before the update.\<close>

definition acknowledge :: "string \<Rightarrow> unix \<Rightarrow> alert_row \<Rightarrow> alert_row" where
  "acknowledge userID t r = r\<lparr>
    m_acknowledged_by := (if m_acknowledged_at r = None then Some userID else m_acknowledged_by r),
    m_acknowledged_at := (case m_acknowledged_at r of None \<Rightarrow> Some t | Some x \<Rightarrow> Some x)\<rparr>"

definition AcknowledgeSystemAlert :: "env \<Rightarrow> string \<Rightarrow> string \<Rightarrow> unit db_io" where
  "AcknowledgeSystemAlert e alertID userID =
    bnd (exec (update_tab alerts_t (\<lambda>r. m_id r = alertID) (acknowledge userID (unix_of (now e)))))
      (\<lambda>affected. fail_if (affected = 0) ErrSystemAlertNotFound)"

definition AcknowledgeAllSystemAlerts :: "env \<Rightarrow> string \<Rightarrow> nat db_io" where
  "AcknowledgeAllSystemAlerts e userID =
    exec (update_tab alerts_t (\<lambda>r. m_acknowledged_at r = None)
      (\<lambda>r. r\<lparr>m_acknowledged_at := Some (unix_of (now e)), m_acknowledged_by := Some userID\<rparr>))"

section \<open>What successful runs do\<close>

definition raised :: "string \<Rightarrow> string \<Rightarrow> string \<Rightarrow> string \<Rightarrow> gotime \<Rightarrow> string \<Rightarrow> alert_row list \<Rightarrow> alert_row list" where
  "raised key source title details t i rs =
    (if exists_where (open_alert key) rs
     then upd_where (open_alert key) (refresh_alert source title details (unix_of t)) rs
     else del_where (expired_alert (unix_of (t - systemAlertRetention)))
       (case reopenable key (unix_of (t - systemAlertReopenWindow)) rs of
          Some r \<Rightarrow> upd_where (\<lambda>x. m_id x = m_id r) (reopen_alert source title details (unix_of t)) rs
        | None \<Rightarrow> rs @ [new_alert i key source title details (unix_of t)]))"

lemma alerts_broken_put [simp]: "alerts_broken (d\<lparr>alerts := rs\<rparr>) = alerts_broken d"
  by (simp add: alerts_broken_def user_ids_def fun_eq_iff)

lemma open_or_reopen_InrE [io_elim]:
  assumes run: "open_or_reopen e key source title details c = (Inr x, c')"
    and none: "\<not> exists_where (open_alert key) (alerts (tables c))"
  obtains i where "tables c' = (tables c)\<lparr>alerts := raised key source title details (now e) i (alerts (tables c))\<rparr>"
    "alerts_broken (tables c) (alerts (tables c')) = None"
proof -
  let ?re = "reopenable key (unix_of (now e - systemAlertReopenWindow)) (alerts (tables c))"
  show ?thesis
    using run unfolding open_or_reopen_def
  proof (elim bnd_InrE ret_InrE)
    fix prev c1 n c2 m c3
    assume q: "no_rows_nil (query (\<lambda>d. one_row (map_option m_id
        (reopenable key (unix_of (now e - systemAlertReopenWindow)) (alerts d))))) c = (Inr prev, c1)"
      and w: "(case prev of
        Some i \<Rightarrow> exec (update_tab alerts_t (\<lambda>r. m_id r = i) (reopen_alert source title details (unix_of (now e))))
      | None \<Rightarrow> bnd (randomToken 16) (\<lambda>i.
          exec (insert_into alerts_t (new_alert i key source title details (unix_of (now e)))))) c1 = (Inr n, c2)"
      and d: "exec (delete_from alerts_t (expired_alert (unix_of (now e - systemAlertRetention)))) c2 = (Inr m, c3)"
      and "c' = c3"
    have c1: "tables c1 = tables c" "prev = map_option m_id ?re"
      using q by (cases prev; auto elim!: no_rows_nil_query_InrE)+
    obtain i where "tables c2 = (tables c)\<lparr>alerts := (case ?re of
        Some r \<Rightarrow> upd_where (\<lambda>x. m_id x = m_id r) (reopen_alert source title details (unix_of (now e))) (alerts (tables c))
      | None \<Rightarrow> alerts (tables c) @ [new_alert i key source title details (unix_of (now e))])\<rparr>"
      "alerts_broken (tables c) (alerts (tables c2)) = None"
      using w c1 by (cases ?re) (auto elim!: io_elim)
    with d none show ?thesis
      by (intro that [of i]) (auto elim!: exec_InrE simp: \<open>c' = c3\<close> raised_def alerts_broken_del_where simp del: exists_where_iff)
  qed
qed


lemma RaiseSystemAlert_InrE:
  assumes run: "RaiseSystemAlert e key0 source0 title0 details0 c = (Inr (a, opened), c')"
  obtains key source title details i r where
    "normalizeSystemAlertFields key0 source0 title0 details0 = Inr (key, source, title, details)"
    "tables c' = (tables c)\<lparr>alerts := raised key source title details (now e) i (alerts (tables c))\<rparr>"
    "alerts_broken (tables c) (alerts (tables c')) = None"
    "opened \<longleftrightarrow> \<not> exists_where (open_alert key) (alerts (tables c))"
    "List.find (open_alert key) (alerts (tables c')) = Some r" "a = scanSystemAlert (tables c') r"
proof -
  show ?thesis
    using run unfolding RaiseSystemAlert_def case_prod_beta
  proof (elim bnd_InrE of_result_InrE tx_InrE)
    fix f c1 fs c2 fs' n c3 u c4 al c5
    assume f: "normalizeSystemAlertFields key0 source0 title0 details0 = Inr f" and c1: "c1 = c"
      and fin: "c' = c2\<lparr>faults := fs'\<rparr>"
      and up: "exec (update_tab alerts_t (open_alert (fst f)) (refresh_alert (fst (snd f)) (fst (snd (snd f))) (snd (snd (snd f)))
        (unix_of (now e)))) (c1\<lparr>faults := fs\<rparr>) = (Inr n, c3)"
      and w: "when_io (n = 0) (open_or_reopen e (fst f) (fst (snd f)) (fst (snd (snd f))) (snd (snd (snd f)))) c3 = (Inr u, c4)"
      and q: "query (\<lambda>d. one_row (map_option (scanSystemAlert d) (List.find (open_alert (fst f)) (alerts d)))) c4 = (Inr al, c5)"
      and r: "ret (al, n = 0) c5 = (Inr (a, opened), c2)"
    obtain key source title details where ff: "f = (key, source, title, details)" by (cases f) auto
    note f = f[unfolded ff]
    have t5: "tables c' = tables c4" "a = al" "opened = (n = 0)" using q r fin by (auto elim!: io_elim)
    obtain row where row: "List.find (open_alert key) (alerts (tables c4)) = Some row" "al = scanSystemAlert (tables c4) row"
      using q by (auto simp: ff elim!: io_elim)
    let ?up = "upd_where (open_alert key) (refresh_alert source title details (unix_of (now e))) (alerts (tables c))"
    have n: "n = count_where (open_alert key) (alerts (tables c))" and b: "alerts_broken (tables c) ?up = None"
      and t3: "tables c3 = (tables c)\<lparr>alerts := ?up\<rparr>" using up by (auto simp: ff c1 elim!: io_elim)
    show thesis
    proof (cases "n = 0")
      case True
      then have none: "\<not> exists_where (open_alert key) (alerts (tables c))" using n by (simp del: count_where_0_iff) (simp add: n)
      then have "?up = alerts (tables c)" by (rule upd_where_None)
      then have t3': "tables c3 = tables c" by (simp add: t3)
      have "open_or_reopen e key source title details c3 = (Inr u, c4)" using w True by (simp add: ff when_io_def)
      then obtain i where
          "tables c4 = (tables c)\<lparr>alerts := raised key source title details (now e) i (alerts (tables c))\<rparr>"
          "alerts_broken (tables c) (alerts (tables c4)) = None"
        by (rule open_or_reopen_InrE) (use none in \<open>simp_all add: t3' del: exists_where_iff\<close>)
      then show thesis using that [OF f] row none True t5 by (simp del: exists_where_iff)
    next
      case False
      then have some: "exists_where (open_alert key) (alerts (tables c))" using n by (simp add: n)
      have "tables c4 = tables c3" using w False by (auto elim!: when_io_InrE)
      moreover have "raised key source title details (now e) i (alerts (tables c)) = ?up" for i using some by (simp add: raised_def)
      ultimately show thesis using that [OF f] row some False t5 t3 b by (simp del: exists_where_iff)
    qed
  qed
qed

lemma ResolveSystemAlert_InrE:
  assumes run: "ResolveSystemAlert e key res c = (Inr x, c')"
  obtains "x \<longleftrightarrow> exists_where (open_alert (trim_space key)) (alerts (tables c))"
    "alerts_broken (tables c) (alerts (tables c')) = None"
    "tables c' = (tables c)\<lparr>alerts := upd_where (open_alert (trim_space key))
      (\<lambda>r. r\<lparr>m_status := ''resolved'', m_resolution := clipSystemAlertText (trim_space res) systemAlertResolutionMax,
        m_resolved_at := Some (unix_of (now e))\<rparr>) (alerts (tables c))\<rparr>"
proof -
  show ?thesis
    using run unfolding ResolveSystemAlert_def Let_def
    by (elim io_elim) (clarsimp simp: count_where_pos_iff, rule that, auto simp: count_where_pos_iff)
qed

lemma AcknowledgeSystemAlert_InrE:
  assumes run: "AcknowledgeSystemAlert e i uid c = (Inr x, c')"
  obtains "\<exists>r \<in> set (alerts (tables c)). m_id r = i" "alerts_broken (tables c) (alerts (tables c')) = None"
    "tables c' = (tables c)\<lparr>alerts := upd_where (\<lambda>r. m_id r = i) (acknowledge uid (unix_of (now e))) (alerts (tables c))\<rparr>"
proof -
  show ?thesis
    using run unfolding AcknowledgeSystemAlert_def
    by (elim io_elim) (clarsimp simp: count_where_pos_iff, rule that, auto simp: count_where_pos_iff)
qed

lemma AcknowledgeAllSystemAlerts_InrE:
  assumes run: "AcknowledgeAllSystemAlerts e uid c = (Inr x, c')"
  obtains "alerts_broken (tables c) (alerts (tables c')) = None"
    "tables c' = (tables c)\<lparr>alerts := upd_where (\<lambda>r. m_acknowledged_at r = None)
      (\<lambda>r. r\<lparr>m_acknowledged_at := Some (unix_of (now e)), m_acknowledged_by := Some uid\<rparr>) (alerts (tables c))\<rparr>"
  using run unfolding AcknowledgeAllSystemAlerts_def by (elim io_elim) (auto intro: that)

section \<open>Invariants\<close>

lemma atomic_alerts:
  "atomic (RaiseSystemAlert e k s t d)" "atomic (ResolveSystemAlert e k r)" "atomic (AcknowledgeSystemAlert e i u)"
  "atomic (AcknowledgeAllSystemAlerts e u)"
proof -
  show "atomic (RaiseSystemAlert e k s t d)"
    unfolding RaiseSystemAlert_def case_prod_beta by (intro atomic_intro readonly_intro)
qed (unfold ResolveSystemAlert_def AcknowledgeSystemAlert_def AcknowledgeAllSystemAlerts_def Let_def,
  (intro atomic_intro readonly_intro)+)

lemma preserves_alerts:
  "preserves store_ok (RaiseSystemAlert e k s t d)" "preserves store_ok (ResolveSystemAlert e k r)"
  "preserves store_ok (AcknowledgeSystemAlert e i u)" "preserves store_ok (AcknowledgeAllSystemAlerts e u)"
proof -
  have st: "store_ok (d\<lparr>alerts := rs\<rparr>)" if "store_ok d" "alerts_broken d rs = None" for d rs
    using that by (auto simp: store_ok_def admin_ok_def db_ok_alerts)
  show "preserves store_ok (RaiseSystemAlert e k s t d)"
    by (rule preserves_atomic [OF atomic_alerts(1)]) (auto elim!: RaiseSystemAlert_InrE intro!: st)
  show "preserves store_ok (ResolveSystemAlert e k r)"
    by (rule preserves_atomic [OF atomic_alerts(2)]) (auto elim!: ResolveSystemAlert_InrE intro!: st)
  show "preserves store_ok (AcknowledgeSystemAlert e i u)"
    by (rule preserves_atomic [OF atomic_alerts(3)]) (auto elim!: AcknowledgeSystemAlert_InrE intro!: st)
  show "preserves store_ok (AcknowledgeAllSystemAlerts e u)"
    by (rule preserves_atomic [OF atomic_alerts(4)]) (auto elim!: AcknowledgeAllSystemAlerts_InrE intro!: st)
qed

end
