(* ===== verification/AlertFacts.thy ===== *)
theory AlertFacts
  imports Alerts SessionFacts
begin

text \<open>
  What the system message channel of \<open>auth/sqlite.go\<close> promises: one open alert per key, no flooding by
  a flapping problem, texts clipped to their bounds, and a reader recorded once.
\<close>

section \<open>Clipping\<close>

lemma clip_end_boundary:
  "\<exists>k. clip_end limit i l xs = l \<or> clip_end limit i l xs = i + length (seg_bytes (take k xs)) \<and> clip_end limit i l xs \<le> limit"
proof (induction limit i l xs rule: clip_end.induct)
  case (2 limit i l r bs rest)
  show ?case
  proof (cases "limit < i")
    case False
    from 2 [OF False] obtain k where k: "clip_end limit (i + length bs) i rest = i \<or>
        clip_end limit (i + length bs) i rest = (i + length bs) + length (seg_bytes (take k rest)) \<and>
        clip_end limit (i + length bs) i rest \<le> limit" by blast
    show ?thesis
    proof (cases "clip_end limit (i + length bs) i rest = i")
      case True
      with False show ?thesis by (intro exI [of _ 0]) simp
    next
      case ne: False
      with k False show ?thesis by (intro exI [of _ "Suc k"]) simp
    qed
  qed simp
qed simp

text \<open>Monitor text is clipped, never rejected and never cut inside a rune: the result is the text itself
  when it fits, otherwise some of its leading runes and an ellipsis; and it is never longer than the
  maximum.\<close>

theorem clipped_text_fits:
  assumes "3 \<le> n"
  shows "length (clipSystemAlertText v n) \<le> n \<and>
    (clipSystemAlertText v n = v \<or> (\<exists>k. clipSystemAlertText v n = seg_bytes (take k (segs v)) @ ellipsis))"
proof (cases "length v \<le> n")
  case False
  obtain k where k: "clip_end (n - 3) 0 0 (segs v) = 0 \<or>
      clip_end (n - 3) 0 0 (segs v) = length (seg_bytes (take k (segs v))) \<and> clip_end (n - 3) 0 0 (segs v) \<le> n - 3"
    using clip_end_boundary [of "n - 3" 0 0 "segs v"] by auto
  have e: "length ellipsis = 3" by (simp add: ellipsis_def)
  have "\<exists>k. clip_end (n - 3) 0 0 (segs v) = length (seg_bytes (take k (segs v)))"
    using k by (auto intro: exI [of _ 0])
  then obtain j where j: "clip_end (n - 3) 0 0 (segs v) = length (seg_bytes (take j (segs v)))" by blast
  have "v = seg_bytes (take j (segs v)) @ seg_bytes (drop j (segs v))"
    using seg_bytes_segs [of v] by (metis append_take_drop_id seg_bytes_simps(3))
  then have "take (clip_end (n - 3) 0 0 (segs v)) v = seg_bytes (take j (segs v))"
    unfolding j by (metis append_eq_conv_conj)
  moreover have "clip_end (n - 3) 0 0 (segs v) \<le> n - 3" using k by auto
  ultimately have l: "length (seg_bytes (take j (segs v))) \<le> n - 3" using j by simp
  have "clipSystemAlertText v n = seg_bytes (take j (segs v)) @ ellipsis"
    using False e \<open>take (clip_end (n - 3) 0 0 (segs v)) v = _\<close> by (simp add: clipSystemAlertText_def)
  then show ?thesis using l e assms by auto
qed (simp add: clipSystemAlertText_def)

theorem clipped_text_fits_witness: "length (clipSystemAlertText (replicate 400 CHR ''x'') 300) \<le> 300"
  using clipped_text_fits [of 300] by simp

section \<open>Raising\<close>

lemma find_unique_open:
  assumes "alerts_broken d rs = None" "r \<in> set rs" "open_alert key r"
  shows "List.find (open_alert key) rs = Some r"
proof -
  have d: "distinct (map m_key (filter (\<lambda>r. m_status r = ''open'') rs))"
    using assms(1) by (simp add: alerts_broken_def unique_def)
  obtain r' where r': "List.find (open_alert key) rs = Some r'"
    using assms by (cases "List.find (open_alert key) rs") (auto simp: find_None_iff)
  then have "r' \<in> set rs" "open_alert key r'" by (auto dest: find_SomeD)
  then have "r' = r"
    using assms(2,3) by (intro distinct_key_inj [OF d]) (auto simp: open_alert_def)
  with r' show ?thesis by simp
qed

lemma count_open:
  assumes "alerts_broken d rs = None" "List.find (open_alert key) rs = Some r"
  shows "count_where (open_alert key) rs = 1"
proof -
  have d: "distinct (map m_key (filter (\<lambda>r. m_status r = ''open'') rs))"
    using assms(1) by (simp add: alerts_broken_def unique_def)
  have f: "filter (open_alert key) rs = filter (\<lambda>r. m_key r = key) (filter (\<lambda>r. m_status r = ''open'') rs)"
    by (auto simp: open_alert_def intro!: filter_cong)
  have "distinct (map m_key (filter (open_alert key) rs))" unfolding f using d by (rule distinct_map_filter)
  moreover have "set (map m_key (filter (open_alert key) rs)) \<subseteq> {key}" by (auto simp: open_alert_def)
  ultimately have "length (filter (open_alert key) rs) \<le> 1"
    by (metis card.empty card_insert_disjoint card_mono distinct_card empty_iff finite.emptyI
        finite.insertI length_map One_nat_def)
  moreover have "filter (open_alert key) rs \<noteq> []" using find_SomeD [OF assms(2)] by (auto simp: filter_empty_conv)
  ultimately show ?thesis by (cases "filter (open_alert key) rs") (auto simp: count_where_def)
qed

lemma reopenable_cases:
  obtains (none) "reopenable key since rs = None"
      "\<forall>r \<in> set rs. m_key r = key \<and> m_status r = ''resolved'' \<longrightarrow> (\<forall>t. m_resolved_at r = Some t \<longrightarrow> t < since)"
  | (some) r t where "reopenable key since rs = Some r" "r \<in> set rs" "m_key r = key" "m_status r = ''resolved''"
      "m_resolved_at r = Some t" "since \<le> t"
proof -
  let ?k = "\<lambda>r. - the (m_resolved_at r)" and ?p = "\<lambda>r. m_key r = key \<and> m_status r = ''resolved'' \<and>
    (case m_resolved_at r of None \<Rightarrow> False | Some t \<Rightarrow> since \<le> t)"
  have s: "set (sort_key ?k (filter ?p rs)) = {r \<in> set rs. ?p r}" by simp
  show thesis
  proof (cases "sort_key ?k (filter ?p rs)")
    case Nil
    with s have "\<forall>r \<in> set rs. \<not> ?p r" by auto
    moreover have "reopenable key since rs = None" unfolding reopenable_def Nil by simp
    ultimately show thesis by (intro none) (auto split: option.splits)
  next
    case (Cons r ys)
    then have "r \<in> set (sort_key ?k (filter ?p rs))" by (simp only: list.set_intros)
    then have "r \<in> set rs" "?p r" unfolding s by blast+
    moreover from this obtain t where "m_resolved_at r = Some t" "since \<le> t" by (auto split: option.splits)
    moreover have "reopenable key since rs = Some r" unfolding reopenable_def Cons by simp
    ultimately show thesis using some by blast
  qed
qed

text \<open>C14: Raising an alert leaves exactly one open alert under its key, the one it returns, seen now, and
  reports whether it was opened by this call. An alert that was already open keeps its id, its count and who
  has read it; a reopened or new one is unread. Open alerts of other keys are not touched.\<close>

theorem raise_keeps_one_open_alert:
  assumes ok: "db_ok (tables c)" and run: "RaiseSystemAlert e key0 source0 title0 details0 c = (Inr (a, opened), c')"
  shows "\<exists>key source title details r. normalizeSystemAlertFields key0 source0 title0 details0 = Inr (key, source, title, details) \<and>
    count_where (open_alert key) (alerts (tables c')) = 1 \<and> r \<in> set (alerts (tables c')) \<and> open_alert key r \<and>
    a = scanSystemAlert (tables c') r \<and> m_last_seen_at r = unix_of (now e) \<and> m_title r = title \<and>
    (opened \<longleftrightarrow> \<not> exists_where (open_alert key) (alerts (tables c))) \<and>
    (opened \<longrightarrow> m_acknowledged_at r = None) \<and>
    (\<not> opened \<longrightarrow> (\<exists>r0 \<in> set (alerts (tables c)). open_alert key r0 \<and> r = refresh_alert source title details (unix_of (now e)) r0)) \<and>
    filter (\<lambda>r. m_status r = ''open'' \<and> m_key r \<noteq> key) (alerts (tables c')) =
      filter (\<lambda>r. m_status r = ''open'' \<and> m_key r \<noteq> key) (alerts (tables c))"
  using run
proof (rule RaiseSystemAlert_InrE)
  fix key source title details i r
  let ?rs = "alerts (tables c)" and ?t = "unix_of (now e)"
  let ?others = "\<lambda>r. m_status r = ''open'' \<and> m_key r \<noteq> key"
  assume f: "normalizeSystemAlertFields key0 source0 title0 details0 = Inr (key, source, title, details)"
    and t: "tables c' = (tables c)\<lparr>alerts := raised key source title details (now e) i ?rs\<rparr>"
    and b: "alerts_broken (tables c) (alerts (tables c')) = None"
    and o: "opened \<longleftrightarrow> \<not> exists_where (open_alert key) ?rs"
    and r: "List.find (open_alert key) (alerts (tables c')) = Some r" and a: "a = scanSystemAlert (tables c') r"
  have rin: "r \<in> set (raised key source title details (now e) i ?rs)" "open_alert key r" using find_SomeD [OF r] by (auto simp: t)
  have keep: "filter ?others (del_where (expired_alert x) xs) = filter ?others xs" for x xs
    by (intro filter_del_where_other) (auto simp: expired_alert_def)
  have "m_last_seen_at r = ?t \<and> m_title r = title \<and> (opened \<longrightarrow> m_acknowledged_at r = None) \<and>
    (\<not> opened \<longrightarrow> (\<exists>r0 \<in> set ?rs. open_alert key r0 \<and> r = refresh_alert source title details ?t r0)) \<and>
    filter ?others (raised key source title details (now e) i ?rs) = filter ?others ?rs"
  proof (cases opened)
    case False
    then have ex: "exists_where (open_alert key) ?rs" using o by simp
    then have up: "raised key source title details (now e) i ?rs = upd_where (open_alert key) (refresh_alert source title details ?t) ?rs"
      by (simp add: raised_def)
    obtain r0 where "r0 \<in> set ?rs" "open_alert key r0" "r = refresh_alert source title details ?t r0"
      using rin unfolding up by (auto elim!: in_upd_whereE)
    moreover have "filter ?others (upd_where (open_alert key) (refresh_alert source title details ?t) ?rs) = filter ?others ?rs"
      by (intro filter_upd_where_other) (auto simp: open_alert_def refresh_alert_def)
    ultimately show ?thesis using False up by (auto simp: refresh_alert_def)
  next
    case True
    then have no: "\<not> exists_where (open_alert key) ?rs" using o by simp
    let ?re = "reopenable key (unix_of (now e - systemAlertReopenWindow)) ?rs"
    show ?thesis
    proof (cases rule: reopenable_cases [of key "unix_of (now e - systemAlertReopenWindow)" ?rs])
      case none
      then have up: "raised key source title details (now e) i ?rs =
          del_where (expired_alert (unix_of (now e - systemAlertRetention))) (?rs @ [new_alert i key source title details ?t])"
        using no by (simp add: raised_def)
      have "r = new_alert i key source title details ?t" using rin no unfolding up by (auto split: if_splits)
      moreover have "filter ?others (?rs @ [new_alert i key source title details ?t]) = filter ?others ?rs"
        by (simp add: new_alert_def)
      ultimately show ?thesis unfolding up keep using True by (simp add: new_alert_def)
    next
      case (some p t0)
      then have up: "raised key source title details (now e) i ?rs = del_where (expired_alert (unix_of (now e - systemAlertRetention)))
          (upd_where (\<lambda>x. m_id x = m_id p) (reopen_alert source title details ?t) ?rs)"
        using no by (simp add: raised_def)
      have "r \<in> set (upd_where (\<lambda>x. m_id x = m_id p) (reopen_alert source title details ?t) ?rs)" using rin unfolding up by simp
      then obtain q where q: "q \<in> set ?rs" "r = reopen_alert source title details ?t q"
        using rin(2) no by (auto elim!: in_upd_whereE)
      have "x = p" if "x \<in> set ?rs" "m_id x = m_id p" for x
        using that some(2) ok by (metis db_ok_unique(9) distinct_key_inj)
      then have "upd_where (\<lambda>x. m_id x = m_id p) (reopen_alert source title details ?t) ?rs =
          upd_where (\<lambda>x. m_id x = m_id p \<and> m_key x = key \<and> m_status x = ''resolved'') (reopen_alert source title details ?t) ?rs"
        using some by (auto simp: upd_where_def)
      then have "filter ?others (upd_where (\<lambda>x. m_id x = m_id p) (reopen_alert source title details ?t) ?rs) = filter ?others ?rs"
        by (simp only:) (rule filter_upd_where_other, simp add: reopen_alert_def refresh_alert_def)
      then show ?thesis unfolding up keep using q True by (simp add: reopen_alert_def refresh_alert_def)
    qed
  qed
  then show ?thesis using f count_open [OF b r] rin o a by (intro exI) (auto simp: t)
qed

lemma ex_alert_fields: "normalizeSystemAlertFields '' tts '' ''monitor'' ''speech is down'' '''' = Inr (''tts'', ''monitor'', ''speech is down'', '''')"
  by (simp add: normalizeSystemAlertFields_def Let_def ascii_eval systemAlertKeyMax_def systemAlertSourceMax_def
    systemAlertTitleMax_def systemAlertDetailsMax_def clipSystemAlertText_def)

lemma ex_raise: "\<exists>a c'. RaiseSystemAlert ex_env '' tts '' ''monitor'' ''speech is down'' '''' (ex_conn ex_db) = (Inr (a, True), c')"
  by (simp add: RaiseSystemAlert_def open_or_reopen_def no_rows_nil_def run_defs ex_alert_fields update_tab_def write_rows_def
    insert_into_def delete_from_def randomToken_ok reopenable_def alerts_broken_def unique_def one_row_def open_alert_def
    new_alert_def expired_alert_def)

theorem raise_keeps_one_open_alert_witness:
  "\<exists>a c'. RaiseSystemAlert ex_env '' tts '' ''monitor'' ''speech is down'' '''' (ex_conn ex_db) = (Inr (a, True), c') \<and>
    count_where (open_alert ''tts'') (alerts (tables c')) = 1"
proof -
  obtain a c' where r: "RaiseSystemAlert ex_env '' tts '' ''monitor'' ''speech is down'' '''' (ex_conn ex_db) = (Inr (a, True), c')"
    using ex_raise by blast
  from raise_keeps_one_open_alert [OF _ r] r store_ok_ex show ?thesis by (auto simp: ex_alert_fields store_ok_def)
qed

text \<open>A flapping dependency cannot fill the channel: when a problem returns within a day of being resolved,
  the old alert is reopened, so that the channel holds no more alerts than before.\<close>

theorem flapping_reopens:
  assumes res: "ResolveSystemAlert e1 key0 note0 c = (Inr True, c1)" and c2: "tables c2 = tables c1"
    and again: "RaiseSystemAlert e2 key0 source0 title0 details0 c2 = (Inr (a, opened), c3)"
    and soon: "unix_of (now e2) \<le> unix_of (now e1) + 24 * 3600"
  shows "opened \<and> length (alerts (tables c3)) \<le> length (alerts (tables c)) \<and>
    (\<exists>r \<in> set (alerts (tables c)). m_key r = trim_space key0 \<and> al_ID a = m_id r)"
  using again
proof (rule RaiseSystemAlert_InrE)
  fix key source title details i r
  let ?rs = "alerts (tables c)" and ?rs1 = "alerts (tables c1)"
  assume f: "normalizeSystemAlertFields key0 source0 title0 details0 = Inr (key, source, title, details)"
    and t: "tables c3 = (tables c2)\<lparr>alerts := raised key source title details (now e2) i (alerts (tables c2))\<rparr>"
    and o: "opened \<longleftrightarrow> \<not> exists_where (open_alert key) (alerts (tables c2))"
    and r: "List.find (open_alert key) (alerts (tables c3)) = Some r" and a: "a = scanSystemAlert (tables c3) r"
  have key: "key = trim_space key0" using f by (auto simp: normalizeSystemAlertFields_def Let_def split: if_splits)
  let ?f = "\<lambda>r. r\<lparr>m_status := ''resolved'', m_resolution := clipSystemAlertText (trim_space note0) systemAlertResolutionMax,
        m_resolved_at := Some (unix_of (now e1))\<rparr>"
  have rs1: "?rs1 = upd_where (open_alert key) ?f ?rs" and ex: "\<exists>r \<in> set ?rs. open_alert key r"
    using res by (auto simp: key elim!: ResolveSystemAlert_InrE)
  have none: "\<not> exists_where (open_alert key) ?rs1" by (auto simp: rs1 open_alert_def elim!: in_upd_whereE)
  then have "opened" using o c2 by simp
  have window: "unix_of (now e2 - systemAlertReopenWindow) \<le> unix_of (now e1)"
    using soon unix_of_add_hours [of "now e2 - systemAlertReopenWindow" 24] by (simp add: systemAlertReopenWindow_def)
  obtain p where p: "p \<in> set ?rs1" "m_key p = key" "m_status p = ''resolved''" "m_resolved_at p = Some (unix_of (now e1))"
  proof -
    obtain r0 where r0: "r0 \<in> set ?rs" "open_alert key r0" using ex by blast
    then have "?f r0 \<in> set ?rs1" unfolding rs1 set_upd_where by (intro image_eqI [of _ _ r0]) simp_all
    then show thesis using r0(2) by (intro that [of "?f r0"]) (simp_all add: open_alert_def)
  qed
  show ?thesis
  proof (cases rule: reopenable_cases [of key "unix_of (now e2 - systemAlertReopenWindow)" ?rs1])
    case none
    then show ?thesis using p window by fastforce
  next
    case (some q t0)
    let ?up = "upd_where (\<lambda>x. m_id x = m_id q) (reopen_alert source title details (unix_of (now e2))) ?rs1"
    have up: "raised key source title details (now e2) i ?rs1 =
        del_where (expired_alert (unix_of (now e2 - systemAlertRetention))) ?up"
      using none some by (simp add: raised_def)
    then have "length (alerts (tables c3)) \<le> length ?rs"
      by (simp add: t c2 rs1) (simp add: del_where_def le_trans [OF length_filter_le])
    moreover have "r \<in> set ?up" "open_alert key r" using find_SomeD [OF r] by (auto simp: t c2 up)
    then have "m_id r = m_id q" using none by (auto simp: reopen_alert_def refresh_alert_def elim!: in_upd_whereE)
    moreover have "\<exists>x \<in> set ?rs. m_key x = key \<and> m_id x = m_id q"
      using some unfolding rs1 by (auto elim!: in_upd_whereE)
    ultimately show ?thesis using \<open>opened\<close> by (auto simp: key a scanSystemAlert_def)
  qed
qed

lemma ex_flap: "\<exists>a c1 c3. ResolveSystemAlert ex_env '' tts '' ''back'' (ex_conn (ex_db\<lparr>alerts := [new_alert ''i'' ''tts'' ''m'' ''t'' '''' 0]\<rparr>)) = (Inr True, c1) \<and>
  RaiseSystemAlert ex_env '' tts '' ''monitor'' ''speech is down'' '''' (ex_conn (tables c1)) = (Inr (a, True), c3)"
  by (simp add: ResolveSystemAlert_def Let_def RaiseSystemAlert_def open_or_reopen_def no_rows_nil_def run_defs ex_alert_fields update_tab_def write_rows_def
    insert_into_def delete_from_def reopenable_def alerts_broken_def unique_def one_row_def open_alert_def
    new_alert_def expired_alert_def ascii_eval reopen_alert_def refresh_alert_def unix_of_def systemAlertReopenWindow_def hours_def)

theorem flapping_reopens_witness:
  "\<exists>a (c1 :: db conn) c3. RaiseSystemAlert ex_env '' tts '' ''monitor'' ''speech is down'' '''' (ex_conn (tables c1)) = (Inr (a, True), c3) \<and>
    length (alerts (tables c3)) \<le> 1"
proof -
  obtain a c1 c3 where r: "ResolveSystemAlert ex_env '' tts '' ''back'' (ex_conn (ex_db\<lparr>alerts := [new_alert ''i'' ''tts'' ''m'' ''t'' '''' 0]\<rparr>)) = (Inr True, c1)"
    "RaiseSystemAlert ex_env '' tts '' ''monitor'' ''speech is down'' '''' (ex_conn (tables c1)) = (Inr (a, True), c3)"
    using ex_flap by blast
  from flapping_reopens [OF r(1) _ r(2)] have "length (alerts (tables c3)) \<le> 1" by simp
  with r(2) show ?thesis by blast
qed

text \<open>Marking an alert read is recorded once: the first administrator stays its reader, and marking it
  again, by anyone and at any time, changes nothing.\<close>

theorem alert_is_acknowledged_once:
  assumes ok: "db_ok (tables c)" and run: "AcknowledgeSystemAlert e i uid c = (Inr x, c1)"
    and c2: "tables c2 = tables c1" and again: "AcknowledgeSystemAlert e2 i uid2 c2 = (y, c3)"
  shows "tables c3 = tables c1 \<and> (\<exists>r \<in> set (alerts (tables c1)). m_id r = i \<and> m_acknowledged_at r \<noteq> None)"
proof -
  have ack: "\<forall>r \<in> set (alerts (tables c1)). m_id r = i \<longrightarrow> m_acknowledged_at r \<noteq> None"
    using run by (auto elim!: AcknowledgeSystemAlert_InrE in_upd_whereE simp: acknowledge_def split: option.splits)
  have "i \<in> set (map m_id (alerts (tables c1)))"
    using run by (rule AcknowledgeSystemAlert_InrE) (auto simp: map_upd_where_same acknowledge_def simp del: set_map, simp)
  then have ex: "\<exists>r \<in> set (alerts (tables c1)). m_id r = i" by auto
  have same: "upd_where (\<lambda>r. m_id r = i) (acknowledge uid2 t) (alerts (tables c1)) = alerts (tables c1)" for t
    using ack by (auto simp: upd_where_def acknowledge_def intro!: map_idI)
  have "tables c3 = tables c1"
  proof (cases y)
    case (Inl err)
    then show ?thesis using again c2 atomicD [OF atomic_alerts(3)] by metis
  next
    case (Inr u)
    show ?thesis
      by (rule AcknowledgeSystemAlert_InrE [OF again [unfolded Inr]]) (simp only: c2 same, simp)
  qed
  then show ?thesis using ack ex by blast
qed

lemma ex_acknowledge: "\<exists>c'. AcknowledgeSystemAlert ex_env ''i'' ''u1'' (ex_conn (ex_db\<lparr>alerts := [new_alert ''i'' ''tts'' ''m'' ''t'' '''' 0]\<rparr>)) = (Inr (), c')"
  by (simp add: AcknowledgeSystemAlert_def run_defs update_tab_def write_rows_def alerts_broken_def unique_def new_alert_def
    acknowledge_def user_ids_def)

theorem alert_is_acknowledged_once_witness:
  "\<exists>(c1 :: db conn) y c3. AcknowledgeSystemAlert ex_env ''i'' ''u2'' (ex_conn (tables c1)) = (y, c3) \<and> tables c3 = tables c1 \<and> alerts (tables c1) \<noteq> []"
proof -
  let ?d = "ex_db\<lparr>alerts := [new_alert ''i'' ''tts'' ''m'' ''t'' '''' 0]\<rparr>"
  obtain c1 where r: "AcknowledgeSystemAlert ex_env ''i'' ''u1'' (ex_conn ?d) = (Inr (), c1)"
    using ex_acknowledge by blast
  obtain y c3 where a: "AcknowledgeSystemAlert ex_env ''i'' ''u2'' (ex_conn (tables c1)) = (y, c3)" by fastforce
  have "db_ok ?d" using store_ok_ex
    by (intro db_ok_alerts) (simp_all add: store_ok_def alerts_broken_def unique_def new_alert_def)
  with alert_is_acknowledged_once [OF _ r _ a] have "tables c3 = tables c1 \<and> alerts (tables c1) \<noteq> []" by auto
  with a show ?thesis by blast
qed

end
