(* ===== verification/Schema.thy ===== *)
theory Schema
  imports AuthCore
begin

text \<open>
  The schema of \<open>auth/sqlite.go\<close>: the eleven migrations, each one transaction that changes the tables
  and records its version, and \<open>initialize\<close>, which brings a database of any earlier version up to
  date. The catalogue keeps the columns, keys and indexes SQLite would keep, and the rows of every
  table as lists of named cells, so that what a migration does to existing data is part of the model.
\<close>

section \<open>Catalogue\<close>

datatype cell = CText string | CInt int | CNull

datatype coltype = TextCol | IntegerCol

datatype on_delete = Cascade | SetNull

record column =
  col_name :: string
  col_type :: coltype
  col_required :: bool
  col_default :: "cell option"
  col_primary :: bool
  col_unique :: bool
  col_nocase :: bool
  col_check :: "cell list option"
  col_refs :: "(string \<times> on_delete) option"

definition column_of :: "string \<Rightarrow> coltype \<Rightarrow> column" where
  "column_of n t = \<lparr>col_name = n, col_type = t, col_required = False, col_default = None, col_primary = False,
    col_unique = False, col_nocase = False, col_check = None, col_refs = None\<rparr>"

text \<open>\<open>TEXT\<close>, \<open>INTEGER\<close> and the words that may follow a column's type.\<close>

abbreviation "txt \<equiv> \<lambda>n. column_of n TextCol"
abbreviation "num \<equiv> \<lambda>n. column_of n IntegerCol"
abbreviation "not_null c \<equiv> c\<lparr>col_required := True\<rparr>"
abbreviation "preset v c \<equiv> c\<lparr>col_default := Some v\<rparr>"
abbreviation "primary c \<equiv> c\<lparr>col_primary := True\<rparr>"
abbreviation "uniq c \<equiv> c\<lparr>col_unique := True\<rparr>"
abbreviation "caseless c \<equiv> c\<lparr>col_nocase := True\<rparr>"
abbreviation "among vs c \<equiv> c\<lparr>col_check := Some vs\<rparr>"
abbreviation "refs t a c \<equiv> c\<lparr>col_refs := Some (t, a)\<rparr>"
abbreviation "flag \<equiv> among [CInt 0, CInt 1]"
abbreviation "owner \<equiv> refs ''users'' Cascade (not_null (txt ''user_id''))"
abbreviation "optional n \<equiv> preset (CText '''') (not_null (txt n))"

record schema =
  sch_tables :: "(string \<times> column list \<times> string list list) list"
  sch_indexes :: "(string \<times> string \<times> string list \<times> (string \<times> string) option) list"

type_synonym row = "(string \<times> cell) list"

record catalogue =
  cat_schema :: schema
  cat_rows :: "string \<Rightarrow> row list"
  cat_versions :: "(int \<times> unix) list option" \<comment> \<open>\<open>None\<close>: no table \<open>schema_migrations\<close> yet\<close>
  cat_foreign_keys :: bool

text \<open>The statements the migrations use. The last argument of a \<open>CreateTable\<close> are its composite keys;
  that of a \<open>CreateIndex\<close> is the column and text of the \<open>WHERE\<close> of a unique partial index.\<close>

datatype ddl =
    CreateTable string "column list" "string list list"
  | CreateIndex string string "string list" "(string \<times> string) option"
  | AddColumn string column
  | InsertRow string row
  | ReplaceText string string string string

definition table_of :: "schema \<Rightarrow> string \<Rightarrow> (column list \<times> string list list) option" where
  "table_of s t = map_of (sch_tables s) t"

fun change_schema :: "ddl \<Rightarrow> schema \<Rightarrow> err + schema" where
  "change_schema (CreateTable t cols keys) s =
    (if table_of s t \<noteq> None then Inl (ErrText (''table '' @ t @ '' already exists''))
     else Inr (s\<lparr>sch_tables := sch_tables s @ [(t, cols, keys)]\<rparr>))"
| "change_schema (CreateIndex i t cols w) s =
    (if map_of (sch_indexes s) i \<noteq> None then Inl (ErrText (''index '' @ i @ '' already exists''))
     else case table_of s t of
       None \<Rightarrow> Inl (ErrText (''no such table: '' @ t))
     | Some (cs, _) \<Rightarrow>
         if set cols \<subseteq> col_name ` set cs then Inr (s\<lparr>sch_indexes := sch_indexes s @ [(i, t, cols, w)]\<rparr>)
         else Inl (ErrText ''no such column''))"
| "change_schema (AddColumn t c) s = (case table_of s t of
      None \<Rightarrow> Inl (ErrText (''no such table: '' @ t))
    | Some (cs, _) \<Rightarrow>
        if col_name c \<in> col_name ` set cs then Inl (ErrText (''duplicate column name: '' @ col_name c))
        else if col_required c \<and> col_default c = None
          then Inl (ErrText ''Cannot add a NOT NULL column with default value NULL'')
        else Inr (s\<lparr>sch_tables := map (\<lambda>(n, cols, keys). (n, if n = t then cols @ [c] else cols, keys))
            (sch_tables s)\<rparr>))"
| "change_schema (InsertRow t r) s =
    (if table_of s t = None then Inl (ErrText (''no such table: '' @ t)) else Inr s)"
| "change_schema (ReplaceText t c old new) s =
    (if table_of s t = None then Inl (ErrText (''no such table: '' @ t)) else Inr s)"

definition default_cell :: "column \<Rightarrow> cell" where
  "default_cell c = (case col_default c of None \<Rightarrow> CNull | Some v \<Rightarrow> v)"

definition cell_of :: "column \<Rightarrow> row \<Rightarrow> cell" where
  "cell_of c r = (case map_of r (col_name c) of None \<Rightarrow> default_cell c | Some v \<Rightarrow> v)"

definition row_fits :: "column list \<Rightarrow> row list \<Rightarrow> row \<Rightarrow> bool" where
  "row_fits cs rs r \<longleftrightarrow> list_all (\<lambda>c.
     (col_required c \<longrightarrow> cell_of c r \<noteq> CNull) \<and>
     (\<forall>vs. col_check c = Some vs \<longrightarrow> cell_of c r \<in> set vs) \<and>
     (col_primary c \<or> col_unique c \<longrightarrow> \<not> list_ex (\<lambda>r'. cell_of c r' = cell_of c r) rs)) cs"

fun change_rows :: "ddl \<Rightarrow> catalogue \<Rightarrow> err + (string \<Rightarrow> row list)" where
  "change_rows (CreateTable t cols keys) s = Inr ((cat_rows s)(t := []))"
| "change_rows (CreateIndex i t cols w) s = Inr (cat_rows s)"
| "change_rows (AddColumn t c) s =
    Inr ((cat_rows s)(t := map (\<lambda>r. r @ [(col_name c, default_cell c)]) (cat_rows s t)))"
| "change_rows (InsertRow t r) s =
    (let cs = (case table_of (cat_schema s) t of None \<Rightarrow> [] | Some (cs, _) \<Rightarrow> cs)
     in if row_fits cs (cat_rows s t) r
        then Inr ((cat_rows s)(t := cat_rows s t @ [map (\<lambda>c. (col_name c, cell_of c r)) cs]))
        else Inl (SqlConstraint ''constraint failed''))"
| "change_rows (ReplaceText t c old new) s =
    Inr ((cat_rows s)(t := map (map (\<lambda>(n, v). (n, if n = c \<and> v = CText old then CText new else v))) (cat_rows s t)))"

definition run_ddl :: "ddl \<Rightarrow> catalogue \<Rightarrow> err + catalogue \<times> nat" where
  "run_ddl st s = (case change_schema st (cat_schema s) of
      Inl e \<Rightarrow> Inl e
    | Inr sc \<Rightarrow> (case change_rows st s of
        Inl e \<Rightarrow> Inl e
      | Inr rs \<Rightarrow> Inr (s\<lparr>cat_schema := sc, cat_rows := rs\<rparr>, 0)))"

section \<open>The migrations\<close>

definition migrateV1 :: "ddl list" where
  "migrateV1 = [
    CreateTable ''users'' [primary (txt ''id''), caseless (uniq (not_null (txt ''email''))), not_null (txt ''name''),
      among [CText ''reader'', CText ''manager'', CText ''admin''] (not_null (txt ''role'')),
      flag (not_null (num ''active'')), optional ''password_hash'', uniq (txt ''google_subject''),
      not_null (num ''created_at''), not_null (num ''updated_at''), num ''last_login_at''] [],
    CreateTable ''sessions'' [primary (txt ''token_hash''), owner, not_null (num ''created_at''),
      not_null (num ''expires_at'')] [],
    CreateIndex ''sessions_user_id_idx'' ''sessions'' [''user_id''] None,
    CreateIndex ''sessions_expires_at_idx'' ''sessions'' [''expires_at''] None,
    CreateTable ''settings'' [among [CInt 1] (primary (num ''id'')), not_null (txt ''site_name''),
      flag (not_null (num ''registration_open'')), flag (not_null (num ''anonymous_book_links''))] [],
    InsertRow ''settings'' [(''id'', CInt 1), (''site_name'', CText ''BookBrowser''),
      (''registration_open'', CInt 1), (''anonymous_book_links'', CInt 1)]]"

definition migrateV2 :: "ddl list" where
  "migrateV2 = [
    AddColumn ''settings'' (preset (CText ''MicsBook'') (not_null (txt ''pwa_name''))),
    ReplaceText ''settings'' ''site_name'' ''BookBrowser'' ''MicsBook'']"

definition migrateV3 :: "ddl list" where
  "migrateV3 = [
    CreateTable ''user_book_activity'' [owner, not_null (txt ''book_id''), not_null (num ''last_read_at'')]
      [[''user_id'', ''book_id'']],
    CreateIndex ''user_book_activity_recent_idx'' ''user_book_activity'' [''user_id'', ''last_read_at''] None,
    CreateTable ''user_book_lists'' [primary (txt ''id''), owner, caseless (not_null (txt ''name'')),
      not_null (num ''created_at''), not_null (num ''updated_at'')] [[''user_id'', ''name'']],
    CreateIndex ''user_book_lists_user_idx'' ''user_book_lists'' [''user_id'', ''updated_at''] None,
    CreateTable ''user_book_list_items'' [refs ''user_book_lists'' Cascade (not_null (txt ''list_id'')),
      not_null (txt ''book_id''), not_null (num ''added_at'')] [[''list_id'', ''book_id'']],
    CreateIndex ''user_book_list_items_added_idx'' ''user_book_list_items'' [''list_id'', ''added_at''] None,
    CreateTable ''user_book_tags'' [owner, not_null (txt ''book_id''), caseless (not_null (txt ''tag'')),
      not_null (num ''created_at'')] [[''user_id'', ''book_id'', ''tag'']],
    CreateIndex ''user_book_tags_lookup_idx'' ''user_book_tags'' [''user_id'', ''tag'', ''created_at''] None]"

definition migrateV4 :: "ddl list" where
  "migrateV4 = [
    CreateTable ''user_reading_items'' [primary (txt ''id''), owner, not_null (txt ''book_id''),
      among [CText ''bookmark'', CText ''note''] (not_null (txt ''kind'')), not_null (txt ''locator''),
      optional ''locator_label'', optional ''title'', optional ''body'', optional ''excerpt'',
      not_null (num ''created_at''), not_null (num ''updated_at'')] [],
    CreateIndex ''user_reading_items_book_idx'' ''user_reading_items'' [''user_id'', ''book_id'', ''updated_at''] None,
    CreateIndex ''user_reading_items_recent_idx'' ''user_reading_items'' [''user_id'', ''updated_at''] None,
    CreateTable ''user_reading_item_tags'' [refs ''user_reading_items'' Cascade (not_null (txt ''item_id'')),
      caseless (not_null (txt ''tag'')), not_null (num ''created_at'')] [[''item_id'', ''tag'']],
    CreateIndex ''user_reading_item_tags_lookup_idx'' ''user_reading_item_tags'' [''tag'', ''created_at''] None]"

definition migrateV5 :: "ddl list" where
  "migrateV5 = [AddColumn ''users'' (optional ''last_ip''),
    AddColumn ''users'' (preset (CInt 1) (not_null (num ''allow_create_share_links'')))]"

definition migrateV6 :: "ddl list" where
  "migrateV6 = [AddColumn ''users'' (optional ''language'')]"

definition migrateV7 :: "ddl list" where
  "migrateV7 = [
    CreateTable ''api_tokens'' [primary (txt ''token_hash''), owner, caseless (not_null (txt ''name'')),
      not_null (num ''created_at''), num ''last_used_at'', num ''expires_at''] [[''user_id'', ''name'']],
    CreateIndex ''api_tokens_user_idx'' ''api_tokens'' [''user_id'', ''created_at''] None,
    CreateIndex ''api_tokens_expiry_idx'' ''api_tokens'' [''expires_at''] None]"

definition migrateV8 :: "ddl list" where
  "migrateV8 = [
    CreateTable ''book_requests'' [primary (txt ''id''), owner, not_null (txt ''title''), optional ''author'',
      optional ''notes'', among [CText ''pending'', CText ''added'', CText ''unavailable'']
        (preset (CText ''pending'') (not_null (txt ''status''))),
      optional ''book_id'', optional ''message'', not_null (num ''created_at''), not_null (num ''updated_at'')] [],
    CreateIndex ''book_requests_user_idx'' ''book_requests'' [''user_id'', ''created_at''] None,
    CreateIndex ''book_requests_status_idx'' ''book_requests'' [''status'', ''created_at''] None]"

definition migrateV9 :: "ddl list" where
  "migrateV9 = [AddColumn ''users'' (optional ''display_name''), AddColumn ''users'' (optional ''bio''),
    AddColumn ''users'' (optional ''location'')]"

definition migrateV10 :: "ddl list" where
  "migrateV10 = [
    CreateTable ''copyright_claims'' [primary (txt ''id''), refs ''users'' SetNull (txt ''user_id''),
      not_null (txt ''claimant_name''), not_null (txt ''claimant_email''), optional ''book_id'',
      not_null (txt ''book_title''), optional ''source_url'', not_null (txt ''details''),
      among [CText ''pending'', CText ''removed'', CText ''resolved'']
        (preset (CText ''pending'') (not_null (txt ''status''))),
      optional ''resolution'', not_null (num ''created_at''), not_null (num ''updated_at'')] [],
    CreateIndex ''copyright_claims_status_idx'' ''copyright_claims'' [''status'', ''created_at''] None,
    CreateIndex ''copyright_claims_user_idx'' ''copyright_claims'' [''user_id'', ''created_at''] None]"

definition migrateV11 :: "ddl list" where
  "migrateV11 = [
    CreateTable ''system_alerts'' [primary (txt ''id''), not_null (txt ''alert_key''), not_null (txt ''source''),
      not_null (txt ''title''), optional ''details'', among [CText ''open'', CText ''resolved'']
        (preset (CText ''open'') (not_null (txt ''status''))),
      optional ''resolution'', preset (CInt 1) (not_null (num ''occurrences'')), not_null (num ''first_seen_at''),
      not_null (num ''last_seen_at''), num ''resolved_at'', num ''acknowledged_at'',
      refs ''users'' SetNull (txt ''acknowledged_by'')] [],
    CreateIndex ''system_alerts_open_key_idx'' ''system_alerts'' [''alert_key''] (Some (''status'', ''open'')),
    CreateIndex ''system_alerts_key_idx'' ''system_alerts'' [''alert_key'', ''resolved_at''] None,
    CreateIndex ''system_alerts_status_idx'' ''system_alerts'' [''status'', ''last_seen_at''] None]"

text \<open>All of them, the one that leads to version \<open>k + 1\<close> at position \<open>k\<close>.\<close>

definition migrations :: "ddl list list" where
  "migrations = [migrateV1, migrateV2, migrateV3, migrateV4, migrateV5, migrateV6, migrateV7, migrateV8,
    migrateV9, migrateV10, migrateV11]"

section \<open>Running them\<close>

text \<open>A transaction whose commit error carries a label.\<close>

definition tx_wrap :: "string \<Rightarrow> ('d, unit) io \<Rightarrow> ('d, unit) io" where
  "tx_wrap s body = bnd tick (\<lambda>_ c. case body c of
      (Inl e, c') \<Rightarrow> (Inl e, c'\<lparr>tables := tables c\<rparr>)
    | (Inr _, c') \<Rightarrow> (case wrap_err s tick c' of
        (Inl e, c'') \<Rightarrow> (Inl e, c''\<lparr>tables := tables c\<rparr>)
      | (Inr _, c'') \<Rightarrow> (Inr (), c'')))"

definition record_version :: "int \<Rightarrow> unix \<Rightarrow> catalogue \<Rightarrow> err + catalogue \<times> nat" where
  "record_version v at s = (case cat_versions s of
      None \<Rightarrow> Inl (ErrText ''no such table: schema_migrations'')
    | Some vs \<Rightarrow>
        if v \<in> fst ` set vs then Inl (SqlConstraint ''UNIQUE constraint failed: schema_migrations.version'')
        else Inr (s\<lparr>cat_versions := Some (vs @ [(v, at)])\<rparr>, 1))"

definition step_label :: "string \<Rightarrow> nat \<Rightarrow> string" where
  "step_label what k = what @ '' auth migration v'' @ show_nat k"

definition migrate :: "env \<Rightarrow> nat \<Rightarrow> (catalogue, unit) io" where
  "migrate e k = tx_wrap (step_label ''commit'' k)
    (bnd (each (\<lambda>st. bnd (wrap_err (step_label ''apply'' k) (exec (run_ddl st))) (\<lambda>_. ret ()))
       (migrations ! (k - 1))) (\<lambda>_.
     bnd (wrap_err (step_label ''record'' k) (exec (record_version (int k) (unix_of (now e))))) (\<lambda>_. ret ())))"

fun upgrade :: "env \<Rightarrow> int \<Rightarrow> nat list \<Rightarrow> (catalogue, unit) io" where
  "upgrade e version [] = ret ()"
| "upgrade e version (k # ks) =
    (if version = int k then bnd (migrate e (k + 1)) (\<lambda>_. upgrade e (int (k + 1)) ks)
     else upgrade e version ks)"

text \<open>Only the first of the three pragmas has an effect the rest of the store relies on.\<close>

definition set_foreign_keys :: "catalogue \<Rightarrow> err + catalogue \<times> nat" where
  "set_foreign_keys s = Inr (s\<lparr>cat_foreign_keys := True\<rparr>, 0)"

definition other_pragma :: "catalogue \<Rightarrow> err + catalogue \<times> nat" where
  "other_pragma s = Inr (s, 0)"

definition create_migration_table :: "catalogue \<Rightarrow> err + catalogue \<times> nat" where
  "create_migration_table s =
    Inr (case cat_versions s of None \<Rightarrow> s\<lparr>cat_versions := Some []\<rparr> | Some _ \<Rightarrow> s, 0)"

definition schema_version :: "catalogue \<Rightarrow> err + int" where
  "schema_version s = (case cat_versions s of
      None \<Rightarrow> Inl (ErrText ''no such table: schema_migrations'')
    | Some vs \<Rightarrow> Inr (if vs = [] then 0 else Max (fst ` set vs)))"

definition initialize :: "env \<Rightarrow> (catalogue, unit) io" where
  "initialize e =
    bnd (each (\<lambda>st. bnd (wrap_err ''configure SQLite'' (exec st)) (\<lambda>_. ret ()))
      [set_foreign_keys, other_pragma, other_pragma]) (\<lambda>_.
    bnd (wrap_err ''create migration table'' (exec create_migration_table)) (\<lambda>_.
    bnd (wrap_err ''read schema version'' (query schema_version)) (\<lambda>version.
    bnd (fail_if (version > 11) (ErrText (''unsupported auth schema version '' @ show_int version))) (\<lambda>_.
    upgrade e version [0..<11]))))"

end
