(* ===== verification/SchemaShape.thy ===== *)
theory SchemaShape
  imports Schema
begin

text \<open>
  What the migrations make of the catalogue: the schema of every version, evaluated on the names of
  tables, columns and indexes, and the rows, which no statement of a migration loses.
\<close>

section \<open>The schema of each version\<close>

fun apply_all :: "ddl list \<Rightarrow> schema \<Rightarrow> err + schema" where
  "apply_all [] s = Inr s"
| "apply_all (st # sts) s = (case change_schema st s of Inl e \<Rightarrow> Inl e | Inr s' \<Rightarrow> apply_all sts s')"

lemma apply_all_append: "apply_all (xs @ ys) s = (case apply_all xs s of Inl e \<Rightarrow> Inl e | Inr s' \<Rightarrow> apply_all ys s')"
  by (induction xs arbitrary: s) (auto split: sum.splits)

definition no_schema :: schema where
  "no_schema = \<lparr>sch_tables = [], sch_indexes = []\<rparr>"

definition schema_at :: "nat \<Rightarrow> schema" where
  "schema_at k = (case apply_all (concat (take k migrations)) no_schema of Inl _ \<Rightarrow> no_schema | Inr s \<Rightarrow> s)"

lemmas migration_defs = migrateV1_def migrateV2_def migrateV3_def migrateV4_def migrateV5_def migrateV6_def
  migrateV7_def migrateV8_def migrateV9_def migrateV10_def migrateV11_def

lemma length_migrations [simp]: "length migrations = 11"
  by (simp add: migrations_def)

lemma column_of_simps: "col_name (column_of n t) = n" "col_default (column_of n t) = None" "col_required (column_of n t) = False"
  by (simp_all add: column_of_def)

text \<open>To see that the statements succeed on each other's results, names are enough.\<close>

type_synonym names = "(string \<times> string list) list \<times> string list"

definition names_of :: "schema \<Rightarrow> names" where
  "names_of s = (map (\<lambda>(t, cs, _). (t, map col_name cs)) (sch_tables s), map fst (sch_indexes s))"

fun names_step :: "ddl \<Rightarrow> names \<Rightarrow> names option" where
  "names_step (CreateTable t cols keys) (ts, ix) =
    (if map_of ts t \<noteq> None then None else Some (ts @ [(t, map col_name cols)], ix))"
| "names_step (CreateIndex i t cols w) (ts, ix) =
    (case map_of ts t of None \<Rightarrow> None
     | Some cs \<Rightarrow> if i \<in> set ix \<or> \<not> list_all (\<lambda>x. x \<in> set cs) cols then None else Some (ts, ix @ [i]))"
| "names_step (AddColumn t c) (ts, ix) = (case map_of ts t of None \<Rightarrow> None
     | Some cs \<Rightarrow> if col_name c \<in> set cs \<or> col_required c \<and> col_default c = None then None
         else Some (map (\<lambda>(n, cs). (n, if n = t then cs @ [col_name c] else cs)) ts, ix))"
| "names_step (InsertRow t r) (ts, ix) = (if map_of ts t = None then None else Some (ts, ix))"
| "names_step (ReplaceText t c old new) (ts, ix) = (if map_of ts t = None then None else Some (ts, ix))"

fun names_all :: "ddl list \<Rightarrow> names \<Rightarrow> names option" where
  "names_all [] n = Some n"
| "names_all (st # sts) n = (case names_step st n of None \<Rightarrow> None | Some n' \<Rightarrow> names_all sts n')"

lemma names_table: "map_of (fst (names_of s)) t = map_option (\<lambda>(cs, _). map col_name cs) (table_of s t)"
proof -
  have "map_of (map (\<lambda>(t, cs, k). (t, map col_name cs)) xs) t = map_option (\<lambda>(cs, _). map col_name cs) (map_of xs t)"
    for xs :: "(string \<times> column list \<times> string list list) list"
    by (induction xs) auto
  then show ?thesis by (simp add: names_of_def table_of_def)
qed

lemma names_step_sound:
  assumes "names_step st (names_of s) = Some n"
  shows "\<exists>s'. change_schema st s = Inr s' \<and> names_of s' = n"
proof -
  obtain ts ix where n: "names_of s = (ts, ix)" by fastforce
  have t: "map_of ts t = map_option (\<lambda>(cs, _). map col_name cs) (table_of s t)" for t
    using names_table [of s t] by (simp add: n)
  have ix: "ix = map fst (sch_indexes s)" using n by (simp add: names_of_def)
  have i: "map_of (sch_indexes s) i = None \<longleftrightarrow> i \<notin> set ix" for i
    by (simp add: ix map_of_eq_None_iff)
  show ?thesis
    using assms n t
    by (cases st) (auto simp: i names_of_def list_all_iff image_iff split: option.splits if_splits prod.splits
      intro!: map_cong)
qed

lemma names_all_sound: "names_all sts (names_of s) = Some n \<Longrightarrow> \<exists>s'. apply_all sts s = Inr s' \<and> names_of s' = n"
proof (induction sts arbitrary: s)
  case (Cons st sts)
  then obtain m where m: "names_step st (names_of s) = Some m" "names_all sts m = Some n"
    by (auto split: option.splits)
  from names_step_sound [OF m(1)] obtain s' where "change_schema st s = Inr s'" "names_of s' = m" by blast
  with Cons.IH [of s'] m(2) show ?case by simp
qed simp

definition final_names :: names where
  "final_names = ([
    (''users'', [''id'', ''email'', ''name'', ''role'', ''active'', ''password_hash'', ''google_subject'', ''created_at'',
      ''updated_at'', ''last_login_at'', ''last_ip'', ''allow_create_share_links'', ''language'', ''display_name'', ''bio'', ''location'']),
    (''sessions'', [''token_hash'', ''user_id'', ''created_at'', ''expires_at'']),
    (''settings'', [''id'', ''site_name'', ''registration_open'', ''anonymous_book_links'', ''pwa_name'']),
    (''user_book_activity'', [''user_id'', ''book_id'', ''last_read_at'']),
    (''user_book_lists'', [''id'', ''user_id'', ''name'', ''created_at'', ''updated_at'']),
    (''user_book_list_items'', [''list_id'', ''book_id'', ''added_at'']),
    (''user_book_tags'', [''user_id'', ''book_id'', ''tag'', ''created_at'']),
    (''user_reading_items'', [''id'', ''user_id'', ''book_id'', ''kind'', ''locator'', ''locator_label'', ''title'', ''body'',
      ''excerpt'', ''created_at'', ''updated_at'']),
    (''user_reading_item_tags'', [''item_id'', ''tag'', ''created_at'']),
    (''api_tokens'', [''token_hash'', ''user_id'', ''name'', ''created_at'', ''last_used_at'', ''expires_at'']),
    (''book_requests'', [''id'', ''user_id'', ''title'', ''author'', ''notes'', ''status'', ''book_id'', ''message'',
      ''created_at'', ''updated_at'']),
    (''copyright_claims'', [''id'', ''user_id'', ''claimant_name'', ''claimant_email'', ''book_id'', ''book_title'',
      ''source_url'', ''details'', ''status'', ''resolution'', ''created_at'', ''updated_at'']),
    (''system_alerts'', [''id'', ''alert_key'', ''source'', ''title'', ''details'', ''status'', ''resolution'', ''occurrences'',
      ''first_seen_at'', ''last_seen_at'', ''resolved_at'', ''acknowledged_at'', ''acknowledged_by''])],
   [''sessions_user_id_idx'', ''sessions_expires_at_idx'', ''user_book_activity_recent_idx'', ''user_book_lists_user_idx'',
    ''user_book_list_items_added_idx'', ''user_book_tags_lookup_idx'', ''user_reading_items_book_idx'',
    ''user_reading_items_recent_idx'', ''user_reading_item_tags_lookup_idx'', ''api_tokens_user_idx'', ''api_tokens_expiry_idx'',
    ''book_requests_user_idx'', ''book_requests_status_idx'', ''copyright_claims_status_idx'', ''copyright_claims_user_idx'',
    ''system_alerts_open_key_idx'', ''system_alerts_key_idx'', ''system_alerts_status_idx''])"

lemma migrations_names: "names_all (concat migrations) (names_of no_schema) = Some final_names"
  by (simp add: migrations_def migration_defs no_schema_def names_of_def column_of_simps final_names_def)

lemma migrations_apply: "\<exists>s. apply_all (concat migrations) no_schema = Inr s \<and> names_of s = final_names"
  by (rule names_all_sound) (rule migrations_names)


lemma take_concat_Suc: "k < length xs \<Longrightarrow> concat (take (Suc k) xs) = concat (take k xs) @ xs ! k"
  by (simp add: take_Suc_conv_app_nth)

lemma schema_at_0 [simp]: "schema_at 0 = no_schema"
  by (simp add: schema_at_def)

lemma schema_at_all: "k \<le> 11 \<Longrightarrow> apply_all (concat (take k migrations)) no_schema = Inr (schema_at k)"
proof -
  obtain s where "apply_all (concat (take k migrations) @ concat (drop k migrations)) no_schema = Inr s"
    using migrations_apply by (metis append_take_drop_id concat_append)
  then show ?thesis by (auto simp: apply_all_append schema_at_def split: sum.splits)
qed

lemma schema_at_Suc: "k < 11 \<Longrightarrow> apply_all (migrations ! k) (schema_at k) = Inr (schema_at (Suc k))"
  using schema_at_all [of "Suc k"] schema_at_all [of k]
  by (simp add: take_concat_Suc apply_all_append del: take_Suc_conv_app_nth)

lemma names_at_11: "names_of (schema_at 11) = final_names"
proof -
  have "take 11 migrations = migrations" by (rule take_all) simp
  then show ?thesis using migrations_apply schema_at_all [of 11] by auto
qed

section \<open>Data\<close>

text \<open>What the migrations may do to the rows of a table: append cells, replace the old site name, and
  append whole rows.\<close>

definition row_kept :: "row \<Rightarrow> row \<Rightarrow> bool" where
  "row_kept r r' \<longleftrightarrow> (\<forall>x \<in> set r. x \<in> set r' \<or> x = (''site_name'', CText ''BookBrowser''))"

definition rows_kept :: "row list \<Rightarrow> row list \<Rightarrow> bool" where
  "rows_kept rs rs' \<longleftrightarrow> length rs \<le> length rs' \<and> (\<forall>i < length rs. row_kept (rs ! i) (rs' ! i))"

definition data_kept :: "catalogue \<Rightarrow> catalogue \<Rightarrow> bool" where
  "data_kept s s' \<longleftrightarrow> (\<forall>t. t \<noteq> ''settings'' \<longrightarrow> length (cat_rows s t) = length (cat_rows s' t)) \<and>
    (\<forall>t. rows_kept (cat_rows s t) (cat_rows s' t))"

lemma row_kept_trans: "row_kept a b \<Longrightarrow> row_kept b c \<Longrightarrow> row_kept a c"
  by (auto simp: row_kept_def)

lemma data_kept_refl: "cat_rows s' = cat_rows s \<Longrightarrow> data_kept s s'"
  by (simp add: data_kept_def rows_kept_def row_kept_def)

lemma rows_kept_trans: "rows_kept a b \<Longrightarrow> rows_kept b c \<Longrightarrow> rows_kept a c"
  unfolding rows_kept_def by (auto intro: row_kept_trans dest: less_le_trans)

lemma data_kept_trans: "data_kept a b \<Longrightarrow> data_kept b c \<Longrightarrow> data_kept a c"
  unfolding data_kept_def by (auto intro: rows_kept_trans)

text \<open>A table that is not there has no rows.\<close>

definition no_stray_rows :: "catalogue \<Rightarrow> bool" where
  "no_stray_rows s \<longleftrightarrow> (\<forall>t. table_of (cat_schema s) t = None \<longrightarrow> cat_rows s t = [])"

fun tame :: "ddl \<Rightarrow> bool" where
  "tame (InsertRow t r) \<longleftrightarrow> t = ''settings''"
| "tame (ReplaceText t c old new) \<longleftrightarrow> c = ''site_name'' \<and> old = ''BookBrowser''"
| "tame _ \<longleftrightarrow> True"

lemma migrations_tame: "ms \<in> set migrations \<Longrightarrow> list_all tame ms"
  by (auto simp: migrations_def migration_defs)

lemma table_of_append: "table_of (s\<lparr>sch_tables := sch_tables s @ [(t, x)]\<rparr>) u =
    (case table_of s u of None \<Rightarrow> (if u = t then Some x else None) | Some y \<Rightarrow> Some y)"
  by (auto simp: table_of_def map_add_def split: option.splits)

lemma table_of_AddColumn: "table_of (s\<lparr>sch_tables := map (\<lambda>(n, cols, keys). (n, if n = t then cols @ [c] else cols, keys)) (sch_tables s)\<rparr>) u = None
    \<longleftrightarrow> table_of s u = None"
  by (force simp: table_of_def map_of_eq_None_iff)

lemma run_ddl_Inr:
  assumes "run_ddl st s = Inr (s', n)" and "tame st" and "no_stray_rows s"
  shows "change_schema st (cat_schema s) = Inr (cat_schema s')" "data_kept s s'" "no_stray_rows s'"
    "cat_versions s' = cat_versions s" "cat_foreign_keys s' = cat_foreign_keys s"
proof -
  obtain sc rs where c: "change_schema st (cat_schema s) = Inr sc" "change_rows st s = Inr rs"
    and s': "s' = s\<lparr>cat_schema := sc, cat_rows := rs\<rparr>"
    using assms(1) by (auto simp: run_ddl_def split: sum.splits)
  show "change_schema st (cat_schema s) = Inr (cat_schema s')" "cat_versions s' = cat_versions s"
    "cat_foreign_keys s' = cat_foreign_keys s" using c by (simp_all add: s')
  have "data_kept s s' \<and> no_stray_rows s'"
  proof (cases st)
    case (CreateTable t cols keys)
    then have "table_of (cat_schema s) t = None" using c by (cases "table_of (cat_schema s) t") (auto split: if_splits)
    then have "(cat_rows s)(t := []) = cat_rows s" using assms(3) by (auto simp: no_stray_rows_def)
    then show ?thesis using c assms(3) CreateTable
      by (auto simp: s' data_kept_refl no_stray_rows_def table_of_append split: if_splits option.splits)
  next
    case (CreateIndex i t cols w)
    then show ?thesis using c assms(3)
      by (auto simp: s' data_kept_def rows_kept_def row_kept_def no_stray_rows_def table_of_def split: if_splits option.splits)
  next
    case (AddColumn t col)
    then have "rs = (cat_rows s)(t := map (\<lambda>r. r @ [(col_name col, default_cell col)]) (cat_rows s t))"
      and "table_of sc u = None \<longleftrightarrow> table_of (cat_schema s) u = None" for u
      using c by (auto simp: table_of_AddColumn split: option.splits if_splits)
    then show ?thesis using assms(3)
      by (auto simp: s' data_kept_def rows_kept_def row_kept_def no_stray_rows_def)
  next
    case (InsertRow t r)
    then show ?thesis using c assms(2,3)
      by (auto simp: s' data_kept_def rows_kept_def row_kept_def no_stray_rows_def nth_append Let_def split: if_splits)
  next
    case (ReplaceText t col old new)
    let ?g = "\<lambda>(n, v). (n, if n = col \<and> v = CText old then CText new else v)"
    have k: "row_kept r (map ?g r)" for r
    proof (unfold row_kept_def, intro ballI)
      fix x assume "x \<in> set r"
      then have g: "?g x \<in> set (map ?g r)" by (simp only: set_map imageI)
      show "x \<in> set (map ?g r) \<or> x = (''site_name'', CText ''BookBrowser'')"
      proof (cases "x = (''site_name'', CText ''BookBrowser'')")
        case False
        then have "?g x = x" using assms(2) ReplaceText by (cases x) auto
        from this g have "x \<in> set (map ?g r)" by (rule subst [where P = "\<lambda>y. y \<in> set (map ?g r)"])
        then show ?thesis ..
      qed simp
    qed
    have "rs = (cat_rows s)(t := map (map ?g) (cat_rows s t))" "sc = cat_schema s"
      using c ReplaceText by (auto split: if_splits)
    moreover have "row_kept r r" for r by (simp add: row_kept_def)
    ultimately show ?thesis using assms(3) k
      by (auto simp: s' data_kept_def rows_kept_def no_stray_rows_def)
  qed
  then show "data_kept s s'" "no_stray_rows s'" by auto
qed

end
