(* ===== verification/SchemaFacts.thy ===== *)
theory SchemaFacts
  imports SchemaShape
begin

text \<open>
  What \<open>initialize\<close> of \<open>auth/sqlite.go\<close> promises: an upgrade stops at a version boundary and keeps all data
  whatever fails, it succeeds once nothing fails, and a new database is the one the other theories start from.
\<close>

section \<open>One migration\<close>

fun run_all :: "ddl list \<Rightarrow> catalogue \<Rightarrow> err + catalogue" where
  "run_all [] s = Inr s"
| "run_all (st # sts) s = (case run_ddl st s of Inl e \<Rightarrow> Inl e | Inr (s', n) \<Rightarrow> run_all sts s')"

definition run_stmts :: "string \<Rightarrow> ddl list \<Rightarrow> (catalogue, unit) io" where
  "run_stmts l sts = each (\<lambda>st. bnd (wrap_err l (exec (run_ddl st))) (\<lambda>_. ret ())) sts"

lemma run_stmts_InrE:
  assumes "run_stmts l sts c = (Inr x, c')"
  obtains fs where "run_all sts (tables c) = Inr (tables c')" "c' = c\<lparr>faults := fs, tables := tables c'\<rparr>"
  using assms
proof (induction sts arbitrary: c thesis)
  case Nil
  then have "c' = c" by (auto simp: run_stmts_def elim!: io_elim)
  then show ?case by (intro Nil(1) [of "faults c"]) simp_all
next
  case (Cons st sts)
  obtain d n fs where st: "run_ddl st (tables c) = Inr (d, n)"
    and rest: "run_stmts l sts (c\<lparr>faults := fs, tables := d\<rparr>) = (Inr x, c')"
    using Cons.prems(2) unfolding run_stmts_def by (auto elim!: io_elim)
  show ?case
  proof (rule Cons.IH [OF _ rest])
    fix fs' assume "run_all sts (tables (c\<lparr>faults := fs, tables := d\<rparr>)) = Inr (tables c')"
      and "c' = c\<lparr>faults := fs, tables := d\<rparr>\<lparr>faults := fs', tables := tables c'\<rparr>"
    then show thesis using st by (intro Cons.prems(1) [of fs']) simp_all
  qed
qed

lemma run_stmts_ok:
  assumes "run_all sts (tables c) = Inr s" "faults c = []"
  shows "run_stmts l sts c = (Inr (), c\<lparr>tables := s\<rparr>)"
  using assms
proof (induction sts arbitrary: c)
  case Nil
  then show ?case by (simp add: run_stmts_def ret_def)
next
  case (Cons st sts)
  from Cons.prems(1) obtain d n where d: "run_ddl st (tables c) = Inr (d, n)" "run_all sts d = Inr s"
    by (auto split: sum.splits)
  have "run_stmts l sts (c\<lparr>tables := d\<rparr>) = (Inr (), c\<lparr>tables := s\<rparr>)"
    using Cons.IH [of "c\<lparr>tables := d\<rparr>"] d(2) Cons.prems(2) by simp
  then show ?case using d(1) Cons.prems(2)
    by (simp add: run_stmts_def wrap_err_def handle_def bnd_def ret_def)
qed

lemma run_all_Inr:
  assumes "run_all sts s = Inr s'" and "list_all tame sts" and "no_stray_rows s"
  shows "apply_all sts (cat_schema s) = Inr (cat_schema s') \<and> data_kept s s' \<and> no_stray_rows s' \<and>
    cat_versions s' = cat_versions s \<and> cat_foreign_keys s' = cat_foreign_keys s"
  using assms
proof (induction sts arbitrary: s)
  case Nil
  then show ?case by (simp add: data_kept_refl)
next
  case (Cons st sts)
  then obtain d n where d: "run_ddl st s = Inr (d, n)" "run_all sts d = Inr s'" by (auto split: sum.splits)
  have "tame st" using Cons.prems by simp
  note r = run_ddl_Inr [OF d(1) this Cons.prems(3)]
  with Cons.IH [OF d(2)] Cons.prems show ?case by (auto intro: data_kept_trans)
qed

text \<open>Without an \<open>INSERT\<close> only the schema decides whether the statements run.\<close>

fun is_insert :: "ddl \<Rightarrow> bool" where
  "is_insert (InsertRow t r) = True"
| "is_insert _ = False"

lemma run_all_ok:
  assumes "apply_all sts (cat_schema s) = Inr sc" and "list_all (\<lambda>st. \<not> is_insert st) sts"
  shows "\<exists>s'. run_all sts s = Inr s'"
  using assms
proof (induction sts arbitrary: s)
  case (Cons st sts)
  then obtain sc1 where c: "change_schema st (cat_schema s) = Inr sc1" "apply_all sts sc1 = Inr sc"
    by (auto split: sum.splits)
  obtain rs where "change_rows st s = Inr rs" using Cons.prems(2) by (cases st) auto
  with c(1) have "run_ddl st s = Inr (s\<lparr>cat_schema := sc1, cat_rows := rs\<rparr>, 0)" by (simp add: run_ddl_def)
  with Cons.IH [of "s\<lparr>cat_schema := sc1, cat_rows := rs\<rparr>"] c(2) Cons.prems(2) show ?case by simp
qed simp

definition first_settings :: row where
  "first_settings = [(''id'', CInt 1), (''site_name'', CText ''BookBrowser''), (''registration_open'', CInt 1),
    (''anonymous_book_links'', CInt 1)]"

lemma run_migrateV1:
  assumes "cat_schema s = no_schema" "cat_rows s = (\<lambda>_. [])"
  shows "\<exists>s'. run_all migrateV1 s = Inr s' \<and> cat_rows s' = (\<lambda>_. [])(''settings'' := [first_settings])"
  using assms
  by (simp add: migrateV1_def run_ddl_def no_schema_def table_of_def column_of_def row_fits_def cell_of_def first_settings_def
    fun_upd_idem)

definition at_version :: "nat \<Rightarrow> catalogue \<Rightarrow> bool" where
  "at_version k s \<longleftrightarrow> cat_schema s = schema_at k \<and> no_stray_rows s \<and>
    fst ` set (case cat_versions s of None \<Rightarrow> [] | Some vs \<Rightarrow> vs) = int ` {1..k}"

lemma tx_wrap_InrE:
  assumes "tx_wrap s body c = (Inr x, c')"
  obtains fs y c1 fs' where "body (c\<lparr>faults := fs\<rparr>) = (Inr y, c1)" "c' = c1\<lparr>faults := fs'\<rparr>"
proof -
  obtain y c0 where t: "tick c = (Inr y, c0)" and run: "(case body c0 of
      (Inl e, c') \<Rightarrow> (Inl e, c'\<lparr>tables := tables c0\<rparr>)
    | (Inr _, c') \<Rightarrow> (case wrap_err s tick c' of
        (Inl e, c'') \<Rightarrow> (Inl e, c''\<lparr>tables := tables c0\<rparr>)
      | (Inr _, c'') \<Rightarrow> (Inr (), c''))) = (Inr x, c')"
    using assms unfolding tx_wrap_def by (elim bnd_InrE)
  from t obtain fs where c0: "c0 = c\<lparr>faults := fs\<rparr>" by (elim tick_InrE)
  obtain r c1 where b: "body c0 = (r, c1)" by fastforce
  obtain q c2 where w: "wrap_err s tick c1 = (q, c2)" by fastforce
  obtain y z where r: "r = Inr y" "q = Inr z" "c' = c2" using run b w by (cases r; cases q) auto
  then obtain fs' where "c2 = c1\<lparr>faults := fs'\<rparr>"
    using w by (auto elim!: wrap_err_InrE tick_InrE simp del: conn.update_convs)
  then show thesis using that b r by (simp add: c0)
qed

lemma atomic_tx_wrap [atomic_intro]: "atomic (tx_wrap s body)"
proof (unfold atomic_def, intro allI impI)
  fix c c' :: "'a conn" and e
  assume "tx_wrap s body c = (Inl e, c')"
  then show "tables c' = tables c"
    unfolding tx_wrap_def by (elim bnd_InlE tick_InlE tick_InrE) (auto split: prod.splits sum.splits)
qed

lemma migrate_def': "migrate e k = tx_wrap (step_label ''commit'' k)
    (bnd (run_stmts (step_label ''apply'' k) (migrations ! (k - 1))) (\<lambda>_.
     bnd (wrap_err (step_label ''record'' k) (exec (record_version (int k) (unix_of (now e))))) (\<lambda>_. ret ())))"
  by (simp add: migrate_def run_stmts_def)

lemma migrate_body_InrE:
  assumes "bnd (run_stmts l sts) (\<lambda>_. bnd (wrap_err l2 (exec (record_version v at))) (\<lambda>_. ret ())) c = (Inr y, c1)"
  obtains s vs fs where "run_all sts (tables c) = Inr s" "cat_versions s = Some vs" "v \<notin> fst ` set vs"
    "c1 = c\<lparr>faults := fs, tables := s\<lparr>cat_versions := Some (vs @ [(v, at)])\<rparr>\<rparr>"
  using assms
proof (elim bnd_InrE wrap_err_InrE exec_InrE ret_InrE)
  fix u c2 n c3 d fs2
  assume r: "run_stmts l sts c = (Inr u, c2)" and v: "record_version v at (tables c2) = Inr (d, n)"
    and c3: "c3 = c2\<lparr>faults := fs2, tables := d\<rparr>" "c1 = c3"
  from r obtain fs3 where s: "run_all sts (tables c) = Inr (tables c2)"
    and c2: "c2 = c\<lparr>faults := fs3, tables := tables c2\<rparr>" by (elim run_stmts_InrE) auto
  obtain vs where vs: "cat_versions (tables c2) = Some vs" "v \<notin> fst ` set vs"
    "d = (tables c2)\<lparr>cat_versions := Some (vs @ [(v, at)])\<rparr>"
    using v by (auto simp: record_version_def split: option.splits if_splits)
  have "c1 = c\<lparr>faults := fs2, tables := d\<rparr>" using c3 by (subst (asm) c2) simp
  with s vs show thesis using that by blast
qed

lemma migrate_InrE:
  assumes run: "migrate e (Suc k) c = (Inr x, c')"
  obtains vs s fs where "run_all (migrations ! k) (tables c) = Inr s" "cat_versions s = Some vs"
    "int (Suc k) \<notin> fst ` set vs"
    "c' = c\<lparr>faults := fs, tables := s\<lparr>cat_versions := Some (vs @ [(int (Suc k), unix_of (now e))])\<rparr>\<rparr>"
proof -
  show thesis
    using run unfolding migrate_def'
  proof (elim tx_wrap_InrE migrate_body_InrE)
    fix fs y c1 fs' s vs fs2
    assume "run_all (migrations ! (Suc k - 1)) (tables (c\<lparr>faults := fs\<rparr>)) = Inr s" "cat_versions s = Some vs"
      "int (Suc k) \<notin> fst ` set vs" "c' = c1\<lparr>faults := fs'\<rparr>"
      "c1 = c\<lparr>faults := fs\<rparr>\<lparr>faults := fs2, tables := s\<lparr>cat_versions := Some (vs @ [(int (Suc k), unix_of (now e))])\<rparr>\<rparr>"
    then show thesis using that [of s vs fs'] by simp
  qed
qed

lemma migrate_step:
  assumes k: "k < 11" and at: "at_version k (tables c)" and run: "migrate e (Suc k) c = (Inr x, c')"
  shows "at_version (Suc k) (tables c') \<and> data_kept (tables c) (tables c') \<and>
    cat_foreign_keys (tables c') = cat_foreign_keys (tables c)"
  using run
proof (rule migrate_InrE)
  fix vs s fs
  assume s: "run_all (migrations ! k) (tables c) = Inr s" and vs: "cat_versions s = Some vs"
    and c': "c' = c\<lparr>faults := fs, tables := s\<lparr>cat_versions := Some (vs @ [(int (Suc k), unix_of (now e))])\<rparr>\<rparr>"
  have "migrations ! k \<in> set migrations" using k by simp
  note r = run_all_Inr [OF s migrations_tame [OF this]]
  have st: "no_stray_rows (tables c)" "cat_schema (tables c) = schema_at k" using at by (simp_all add: at_version_def)
  then have "cat_versions (tables c) = Some vs" using r vs by simp
  then have v: "fst ` set vs = int ` {1..k}" using at by (simp add: at_version_def)
  from st have "cat_schema s = schema_at (Suc k)" "no_stray_rows s" "data_kept (tables c) s" "cat_foreign_keys s = cat_foreign_keys (tables c)"
    using r schema_at_Suc [OF k] by auto
  moreover have v': "int ` {1..Suc k} = insert (int (Suc k)) (int ` {1..k})" by (simp add: atLeastAtMostSuc_conv)
  moreover have "fst ` set (vs @ [(int (Suc k), unix_of (now e))]) = int ` {1..Suc k}" unfolding v' using v by simp
  ultimately show ?thesis by (simp add: c' at_version_def no_stray_rows_def data_kept_def del: set_append)
qed

section \<open>Initialising\<close>

lemma upgrade_skip: "j \<le> k \<Longrightarrow> k \<le> 11 \<Longrightarrow> upgrade e (int k) [j..<11] = upgrade e (int k) [k..<11]"
proof (induction "k - j" arbitrary: j)
  case (Suc n)
  then have "[j..<11] = j # [Suc j..<11]" by (simp add: upt_conv_Cons)
  then show ?case using Suc.hyps(1) [of "Suc j"] Suc.hyps(2) Suc.prems by simp
qed simp

lemma atomic_migrate: "atomic (migrate e k)"
  unfolding migrate_def by (rule atomic_tx_wrap)

text \<open>Whatever holds version by version holds of the version the loop stops at, and it stops at the
  last one unless there was an error.\<close>

lemma upgrade_progress:
  assumes "k \<le> 11" and "P k (tables c)" and "upgrade e (int k) [k..<11] c = (r, c')"
    and step: "\<And>k c x c'. k < 11 \<Longrightarrow> P k (tables c) \<Longrightarrow> migrate e (Suc k) c = (Inr x, c') \<Longrightarrow> P (Suc k) (tables c')"
  shows "\<exists>j. k \<le> j \<and> j \<le> 11 \<and> P j (tables c') \<and> (r = Inr () \<longrightarrow> j = 11)"
  using assms(1-3)
proof (induction "11 - k" arbitrary: k c)
  case 0
  then show ?case by (auto simp: ret_def)
next
  case (Suc n)
  then have k: "k < 11" "[k..<11] = k # [Suc k..<11]" by (simp_all add: upt_conv_Cons)
  then have run: "bnd (migrate e (Suc k)) (\<lambda>_. upgrade e (int (Suc k)) [Suc k..<11]) c = (r, c')" using Suc.prems(3) by simp
  obtain q c1 where m: "migrate e (Suc k) c = (q, c1)" by fastforce
  show ?case
  proof (cases q)
    case (Inl err)
    then have "c' = c1" "r = Inl err" using run m by (simp_all add: bnd_def)
    moreover have "tables c1 = tables c" using m Inl atomic_migrate by (blast dest: atomicD)
    ultimately show ?thesis using Suc.prems k by auto
  next
    case (Inr u)
    note s = step [OF k(1) Suc.prems(2) m [unfolded Inr]]
    have "upgrade e (int (Suc k)) [Suc k..<11] c1 = (r, c')" using run m Inr by (simp add: bnd_def)
    moreover have "n = 11 - Suc k" using Suc.hyps(2) by simp
    ultimately obtain j where
      "Suc k \<le> j" "j \<le> 11" "P j (tables c')" "r = Inr () \<longrightarrow> j = 11"
      using Suc.hyps(1) [of "Suc k"] s k(1) by (auto simp del: of_nat_Suc)
    then show ?thesis by (metis Suc_leD)
  qed
qed

lemma schema_version_at: "at_version k s \<Longrightarrow> cat_versions s \<noteq> None \<Longrightarrow> schema_version s = Inr (int k)"
proof -
  assume at: "at_version k s" and "cat_versions s \<noteq> None"
  then obtain vs where vs: "cat_versions s = Some vs" "fst ` set vs = int ` {1..k}" by (auto simp: at_version_def)
  show ?thesis
  proof (cases "k = 0")
    case True
    then show ?thesis using vs by (auto simp: schema_version_def)
  next
    case False
    have m: "Max (int ` {1..k}) = int k" using False by (intro Max_eqI) auto
    have "vs \<noteq> []" using vs(2) False by auto
    then show ?thesis unfolding schema_version_def vs(1) by (simp only: option.case if_False vs(2) m)
  qed
qed

text \<open>What happens before the first migration.\<close>

definition prepared :: "catalogue \<Rightarrow> catalogue" where
  "prepared s = s\<lparr>cat_foreign_keys := True, cat_versions := Some (case cat_versions s of None \<Rightarrow> [] | Some vs \<Rightarrow> vs)\<rparr>"

definition prepare :: "(catalogue, unit) io" where
  "prepare = bnd (each (\<lambda>st. bnd (wrap_err ''configure SQLite'' (exec st)) (\<lambda>_. ret ()))
      [set_foreign_keys, other_pragma, other_pragma])
    (\<lambda>_. bnd (wrap_err ''create migration table'' (exec create_migration_table)) (\<lambda>_. ret ()))"

lemma initialize_prepare: "initialize e = bnd prepare (\<lambda>_. bnd (wrap_err ''read schema version'' (query schema_version)) (\<lambda>version.
    bnd (fail_if (version > 11) (ErrText (''unsupported auth schema version '' @ show_int version))) (\<lambda>_.
    upgrade e version [0..<11])))"
  by (simp add: initialize_def prepare_def bnd_assoc)

lemma prepare_InrE:
  assumes "prepare c = (Inr x, c')"
  obtains fs where "c' = c\<lparr>faults := fs, tables := prepared (tables c)\<rparr>"
proof -
  have "create_migration_table ((tables c)\<lparr>cat_foreign_keys := True\<rparr>) = Inr (prepared (tables c), 0)"
    by (auto simp: create_migration_table_def prepared_def split: option.splits)
  then show thesis using assms unfolding prepare_def
    by (auto elim!: bnd_InrE wrap_err_InrE exec_InrE ret_InrE intro: that simp: set_foreign_keys_def other_pragma_def)
qed

lemma at_version_prepared: "at_version k s \<Longrightarrow> at_version k (prepared s)"
  by (auto simp: at_version_def prepared_def no_stray_rows_def)

lemma prepare_preserves:
  assumes fk: "\<And>s. I s \<Longrightarrow> I (s\<lparr>cat_foreign_keys := True\<rparr>)"
    and v: "\<And>s. I s \<Longrightarrow> cat_versions s = None \<Longrightarrow> I (s\<lparr>cat_versions := Some []\<rparr>)"
  shows "preserves I prepare"
  unfolding prepare_def
  by (intro preserves_bnd preserves_each preserves_wrap_err preserves_exec preserves_readonly [OF readonly_ret])
    (auto simp: set_foreign_keys_def other_pragma_def create_migration_table_def assms split: option.splits)

lemma initialize_run:
  assumes run: "initialize e c = (r, c')"
  obtains (before) err where "r = Inl err" "prepare c = (Inl err, c')"
  | (refused) err c1 where "prepare c = (Inr (), c1)" "r = Inl err" "tables c' = tables c1"
  | (going) v fs fs' where "prepare c = (Inr (), c\<lparr>faults := fs, tables := prepared (tables c)\<rparr>)"
      "schema_version (prepared (tables c)) = Inr v" "v \<le> 11"
      "upgrade e v [0..<11] (c\<lparr>tables := prepared (tables c), faults := fs'\<rparr>) = (r, c')"
proof -
  obtain q c1 where p: "prepare c = (q, c1)" by fastforce
  show thesis
  proof (cases q)
    case (Inl err)
    then show thesis using run p before [of err] by (auto simp: initialize_prepare bnd_def)
  next
    case (Inr u)
    from p [unfolded Inr] obtain fs where c1: "c1 = c\<lparr>faults := fs, tables := prepared (tables c)\<rparr>" by (rule prepare_InrE)
    let ?q = "wrap_err ''read schema version'' (query schema_version)"
    let ?k = "\<lambda>version. bnd (fail_if (version > 11) (ErrText (''unsupported auth schema version '' @ show_int version)))
      (\<lambda>_. upgrade e version [0..<11])"
    have rest: "bnd ?q ?k c1 = (r, c')" using run p Inr by (simp add: initialize_prepare bnd_def)
    obtain w c2 where w: "?q c1 = (w, c2)" by fastforce
    have "readonly ?q" by (intro readonly_intro)
    then have t2: "tables c2 = tables c1" using w by (rule readonlyD)
    show thesis
    proof (cases w)
      case (Inl err)
      then show thesis using rest w p Inr t2 by (intro refused [of c1 err]) (auto simp: bnd_def)
    next
      case (Inr v)
      then obtain fs' where v: "schema_version (tables c1) = Inr v" "c2 = c1\<lparr>faults := fs'\<rparr>"
        using w by (auto elim!: wrap_err_InrE query_InrE)
      have k: "?k v c2 = (r, c')" using rest w Inr by (simp add: bnd_def)
      show thesis
      proof (cases "v > 11")
        case True
        then show thesis using k p \<open>q = Inr u\<close> t2 by (intro refused [of c1]) (auto simp: bnd_def fail_if_def throw_def)
      next
        case False
        then have "upgrade e v [0..<11] c2 = (r, c')" using k by (simp add: bnd_def fail_if_def ret_def)
        then show thesis using False v p \<open>q = Inr u\<close> by (intro going [of fs v fs']) (simp_all add: c1)
      qed
    qed
  qed
qed

section \<open>What initialising promises\<close>

definition new_catalogue :: catalogue where
  "new_catalogue = \<lparr>cat_schema = no_schema, cat_rows = (\<lambda>_. []), cat_versions = None, cat_foreign_keys = False\<rparr>"

lemma at_version_new: "at_version 0 new_catalogue"
  by (simp add: new_catalogue_def at_version_def no_stray_rows_def)

text \<open>C15: Opening the store upgrades its database step by step and never loses data. From a database of any
  version up to eleven, and whatever statement fails on the way, the tables end up exactly at some
  version not before the old one, complete with its indexes and with the record of the versions run; every
  row of every table is still there with every value, but for the old default site name; and without an error the
  version is eleven and foreign keys are on.\<close>

theorem initialize_upgrades:
  assumes at: "at_version k (tables c)" and k: "k \<le> 11" and run: "initialize e c = (r, c')"
  shows "\<exists>j. k \<le> j \<and> j \<le> 11 \<and> at_version j (tables c') \<and> data_kept (tables c) (tables c') \<and>
    (r = Inr () \<longrightarrow> j = 11 \<and> cat_foreign_keys (tables c'))"
proof -
  let ?s = "tables c"
  have kept: "data_kept ?s (prepared ?s)" by (rule data_kept_refl) (simp add: prepared_def)
  have pre: "preserves (\<lambda>s. at_version k s \<and> data_kept ?s s) prepare"
    by (rule prepare_preserves) (auto simp: at_version_def no_stray_rows_def data_kept_def)
  have p: "at_version k (tables c1) \<and> data_kept ?s (tables c1)" if "prepare c = (q, c1)" for q c1
    using preservesD [OF pre _ that] at by (simp add: data_kept_refl)
  from run show ?thesis
  proof (cases rule: initialize_run)
    case (before err)
    then show ?thesis using p [of "Inl err" c'] k by auto
  next
    case (refused err c1)
    then show ?thesis using p [of "Inr ()" c1] k by (auto simp: at_version_def no_stray_rows_def)
  next
    case (going v fs fs')
    have at': "at_version k (prepared ?s)" by (rule at_version_prepared [OF at])
    then have "schema_version (prepared ?s) = Inr (int k)"
      by (rule schema_version_at) (simp add: prepared_def)
    with going have v: "v = int k" by simp
    have "upgrade e (int k) [k..<11] (c\<lparr>tables := prepared ?s, faults := fs'\<rparr>) = (r, c')"
      using going(4) upgrade_skip [of 0 k e] k by (simp add: v)
    moreover have "(at_version k (prepared ?s) \<and> data_kept ?s (prepared ?s)) \<and> cat_foreign_keys (prepared ?s)"
      using at' kept by (simp add: prepared_def)
    ultimately show ?thesis
      using upgrade_progress [of k "\<lambda>j s. (at_version j s \<and> data_kept ?s s) \<and> cat_foreign_keys s"
        "c\<lparr>tables := prepared ?s, faults := fs'\<rparr>" e r c'] k
      by (auto dest: migrate_step intro: data_kept_trans)
  qed
qed

lemma migrations_insert_free: "0 < k \<Longrightarrow> k < 11 \<Longrightarrow> list_all (\<lambda>st. \<not> is_insert st) (migrations ! k)"
proof -
  assume k: "0 < k" "k < 11"
  have "list_all (list_all (\<lambda>st. \<not> is_insert st)) (tl migrations)" by (simp add: migrations_def migration_defs)
  moreover have "migrations ! k = tl migrations ! (k - 1)" using k by (simp add: nth_tl)
  ultimately show ?thesis using k by (simp add: list_all_length)
qed

lemma migrate_ok:
  assumes k: "k < 11" and at: "at_version k (tables c)" and v: "cat_versions (tables c) \<noteq> None" and nf: "faults c = []"
  shows "\<exists>c'. migrate e (Suc k) c = (Inr (), c') \<and> faults c' = [] \<and> cat_versions (tables c') \<noteq> None"
proof -
  have "\<exists>s. run_all (migrations ! k) (tables c) = Inr s"
  proof (cases "k = 0")
    case True
    have "cat_rows (tables c) = (\<lambda>_. [])"
      using at True by (auto simp: at_version_def no_stray_rows_def no_schema_def table_of_def)
    then show ?thesis using run_migrateV1 [of "tables c"] at True by (auto simp: at_version_def migrations_def)
  next
    case False
    then show ?thesis using run_all_ok [OF _ migrations_insert_free] schema_at_Suc [OF k] at k by (simp add: at_version_def)
  qed
  then obtain s where s: "run_all (migrations ! k) (tables c) = Inr s" by blast
  have "migrations ! k \<in> set migrations" using k by simp
  note r = run_all_Inr [OF s migrations_tame [OF this]]
  obtain vs where vs: "cat_versions (tables c) = Some vs" "cat_versions s = Some vs" using v r at by (auto simp: at_version_def)
  then have "fst ` set vs = int ` {1..k}" using at by (simp add: at_version_def)
  then have new: "int (Suc k) \<notin> fst ` set vs" by (auto simp del: of_nat_Suc)
  have rs: "run_stmts l (migrations ! k) c = (Inr (), c\<lparr>tables := s\<rparr>)" for l by (rule run_stmts_ok [OF s nf])
  have "migrate e (Suc k) c = (Inr (), c\<lparr>tables := s\<lparr>cat_versions := Some (vs @ [(int (Suc k), unix_of (now e))])\<rparr>\<rparr>)"
    using nf new vs by (simp add: migrate_def' tx_wrap_def run_defs rs record_version_def del: of_nat_Suc)
  then show ?thesis using nf by simp
qed

lemma upgrade_ok:
  assumes "k \<le> 11" "at_version k (tables c)" "cat_versions (tables c) \<noteq> None" "faults c = []"
  shows "\<exists>c'. upgrade e (int k) [k..<11] c = (Inr (), c')"
  using assms
proof (induction "11 - k" arbitrary: k c)
  case 0
  then show ?case by (simp add: ret_def)
next
  case (Suc n)
  then have k: "k < 11" "[k..<11] = k # [Suc k..<11]" "n = 11 - Suc k" by (simp_all add: upt_conv_Cons)
  obtain c1 where c1: "migrate e (Suc k) c = (Inr (), c1)" "faults c1 = []" "cat_versions (tables c1) \<noteq> None"
    using migrate_ok [OF k(1)] Suc.prems by blast
  with migrate_step [OF k(1) Suc.prems(2) c1(1)] have "\<exists>c'. upgrade e (int (Suc k)) [Suc k..<11] c1 = (Inr (), c')"
    using Suc.hyps(1) [OF k(3)] k(1) by simp
  then show ?case using c1(1) by (simp add: k(2) bnd_def)
qed

lemma prepare_ok: "faults c = [] \<Longrightarrow> prepare c = (Inr (), c\<lparr>tables := prepared (tables c)\<rparr>)"
  by (auto simp: prepare_def run_defs set_foreign_keys_def other_pragma_def create_migration_table_def prepared_def
    split: option.splits)

theorem initialize_upgrades_witness:
  "\<exists>j. j \<le> 11 \<and> at_version j (tables (snd (initialize ex_env ((ex_conn new_catalogue)\<lparr>faults := replicate 30 False @ [True]\<rparr>))))"
proof -
  let ?c = "(ex_conn new_catalogue)\<lparr>faults := replicate 30 False @ [True]\<rparr>"
  obtain r c' where run: "initialize ex_env ?c = (r, c')" by fastforce
  have "at_version 0 (tables ?c)" using at_version_new by simp
  from initialize_upgrades [OF this _ run] run show ?thesis by auto
qed

text \<open>C16: Opening the store is never stuck: from a database of any supported version, once no statement fails,
  \<open>initialize\<close> succeeds and leaves the current version.\<close>

theorem initialize_succeeds:
  assumes at: "at_version k (tables c)" and k: "k \<le> 11" and nf: "faults c = []"
  shows "\<exists>c'. initialize e c = (Inr (), c') \<and> at_version 11 (tables c')"
proof -
  let ?s = "prepared (tables c)"
  have at': "at_version k ?s" by (rule at_version_prepared [OF at])
  have some: "cat_versions ?s \<noteq> None" by (simp add: prepared_def)
  obtain c' where "upgrade e (int k) [k..<11] (c\<lparr>tables := ?s\<rparr>) = (Inr (), c')"
    using upgrade_ok [OF k, of "c\<lparr>tables := ?s\<rparr>" e] at' some nf by auto
  then have "upgrade e (int k) [0..<11] (c\<lparr>tables := ?s\<rparr>) = (Inr (), c')" using upgrade_skip [of 0 k e] k by simp
  then have run: "initialize e c = (Inr (), c')"
    using schema_version_at [OF at' some] nf k
    by (simp add: initialize_prepare bnd_def prepare_ok wrap_err_def handle_def fail_if_def ret_def)
  obtain j where "j \<le> 11" "at_version j (tables c')" "j = 11" using initialize_upgrades [OF at k run] by blast
  then show ?thesis using run by blast
qed

theorem initialize_succeeds_witness: "\<exists>c'. initialize ex_env (ex_conn new_catalogue) = (Inr (), c') \<and> at_version 11 (tables c')"
  using initialize_succeeds [of 0 "ex_conn new_catalogue" ex_env] at_version_new by simp

section \<open>A new database\<close>

definition settings_cells :: "settings_row \<Rightarrow> row" where
  "settings_cells g = [(''id'', CInt 1), (''site_name'', CText (g_site_name g)),
    (''registration_open'', CInt (if g_registration_open g then 1 else 0)),
    (''anonymous_book_links'', CInt (if g_anonymous_book_links g then 1 else 0)), (''pwa_name'', CText (g_pwa_name g))]"

text \<open>What a statement that inserts nothing does to the rows of one table.\<close>

fun row_effect :: "string \<Rightarrow> ddl \<Rightarrow> row list \<Rightarrow> row list" where
  "row_effect u (CreateTable t cols keys) rs = (if t = u then [] else rs)"
| "row_effect u (AddColumn t c) rs = (if t = u then map (\<lambda>r. r @ [(col_name c, default_cell c)]) rs else rs)"
| "row_effect u (ReplaceText t c old new) rs =
    (if t = u then map (map (\<lambda>(n, v). (n, if n = c \<and> v = CText old then CText new else v))) rs else rs)"
| "row_effect u st rs = rs"

lemma run_all_rows:
  "run_all sts s = Inr s' \<Longrightarrow> list_all (\<lambda>st. \<not> is_insert st) sts \<Longrightarrow> cat_rows s' u = fold (row_effect u) sts (cat_rows s u)"
proof (induction sts arbitrary: s)
  case (Cons st sts)
  then obtain d n where d: "run_ddl st s = Inr (d, n)" "run_all sts d = Inr s'" by (auto split: sum.splits)
  have "cat_rows d u = row_effect u st (cat_rows s u)"
    using d(1) Cons.prems(2) by (cases st) (auto simp: run_ddl_def split: sum.splits)
  with Cons.IH [OF d(2)] Cons.prems(2) show ?case by simp
qed simp

definition fresh_rows :: "nat \<Rightarrow> string \<Rightarrow> row list" where
  "fresh_rows k u = fold (row_effect u) (concat (take (k - 1) (tl migrations)))
    (if u = ''settings'' then [first_settings] else [])"

definition fresh_at :: "nat \<Rightarrow> catalogue \<Rightarrow> bool" where
  "fresh_at k s \<longleftrightarrow> at_version k s \<and> (\<forall>u. cat_rows s u = (if k = 0 then [] else fresh_rows k u))"

lemma fresh_step:
  assumes k: "k < 11" and at: "fresh_at k (tables c)" and run: "migrate e (Suc k) c = (Inr x, c')"
  shows "fresh_at (Suc k) (tables c')"
proof -
  have v: "at_version (Suc k) (tables c')" using migrate_step [OF k _ run] at by (simp add: fresh_at_def)
  from run have "\<forall>u. cat_rows (tables c') u = fresh_rows (Suc k) u"
  proof (rule migrate_InrE)
    fix vs s fs
    assume s: "run_all (migrations ! k) (tables c) = Inr s"
      and c': "c' = c\<lparr>faults := fs, tables := s\<lparr>cat_versions := Some (vs @ [(int (Suc k), unix_of (now e))])\<rparr>\<rparr>"
    show ?thesis
    proof (cases "k = 0")
      case True
      then have "cat_schema (tables c) = no_schema" "cat_rows (tables c) = (\<lambda>_. [])"
        using at by (auto simp: fresh_at_def at_version_def)
      from run_migrateV1 [OF this] s True show ?thesis by (auto simp: c' fresh_rows_def migrations_def)
    next
      case False
      have "concat (take k (tl migrations)) = concat (take (k - 1) (tl migrations)) @ migrations ! k"
        using False k take_concat_Suc [of "k - 1" "tl migrations"] by (simp add: nth_tl)
      moreover have "cat_rows s u = fold (row_effect u) (migrations ! k) (cat_rows (tables c) u)" for u
        using run_all_rows [OF s] migrations_insert_free [of k] False k by simp
      ultimately show ?thesis using at False by (auto simp: c' fresh_at_def fresh_rows_def)
    qed
  qed
  with v show ?thesis by (simp add: fresh_at_def)
qed

lemma row_effect_other: "fold (row_effect u) sts [] = []"
proof -
  have "row_effect u st [] = []" for st by (cases st) simp_all
  then show ?thesis by (induction sts) simp_all
qed

lemma fresh_rows_11: "fresh_rows 11 u = (if u = ''settings'' then map settings_cells (settings_tab initial_db) else [])"
proof (cases "u = ''settings''")
  case True
  have "take 10 (tl migrations) = tl migrations" by (rule take_all) simp
  then show ?thesis unfolding True
    by (simp add: fresh_rows_def migrations_def migration_defs first_settings_def settings_cells_def column_of_simps default_cell_def)
qed (simp add: fresh_rows_def row_effect_other)

text \<open>C17: A new database is the one the rest of the model starts from: when \<open>initialize\<close> succeeds on an empty
  file, the tables and columns are those the rows of the model have, the one row of settings is the
  initial one, every other table is empty and foreign keys are enforced.\<close>

theorem new_database_is_initial:
  assumes new: "tables c = new_catalogue" and run: "initialize e c = (Inr x, c')"
  shows "names_of (cat_schema (tables c')) = final_names \<and>
    cat_rows (tables c') ''settings'' = map settings_cells (settings_tab initial_db) \<and>
    (\<forall>u. u \<noteq> ''settings'' \<longrightarrow> cat_rows (tables c') u = []) \<and> cat_foreign_keys (tables c')"
proof -
  have at: "at_version 0 (tables c)" by (simp add: new new_catalogue_def at_version_def no_stray_rows_def)
  have "at_version 11 (tables c')" "cat_foreign_keys (tables c')" using initialize_upgrades [OF at _ run] by auto
  moreover have "fresh_at 11 (tables c')"
    using run
  proof (cases rule: initialize_run)
    case (going v fs fs')
    have at': "at_version 0 (prepared (tables c))" by (rule at_version_prepared [OF at])
    have v: "v = 0" using going schema_version_at [OF at'] by (simp add: prepared_def)
    have "fresh_at 0 (prepared (tables c))" using at' by (simp add: fresh_at_def prepared_def new new_catalogue_def)
    then have "\<exists>j. 0 \<le> j \<and> j \<le> 11 \<and> fresh_at j (tables c') \<and> (Inr x = Inr () \<longrightarrow> j = 11)"
      using going(4) upgrade_progress [of 0 fresh_at "c\<lparr>tables := prepared (tables c), faults := fs'\<rparr>" e "Inr x" c'] fresh_step
      by (simp add: v)
    then show ?thesis by (cases x) auto
  qed simp_all
  ultimately show ?thesis by (simp add: fresh_at_def fresh_rows_11 at_version_def names_at_11)
qed


lemma ex_initialize: "\<exists>c'. initialize ex_env (ex_conn new_catalogue) = (Inr (), c')"
proof -
  have "\<exists>c'. upgrade ex_env (int 0) [0..<11] ((ex_conn new_catalogue)\<lparr>tables := prepared new_catalogue\<rparr>) = (Inr (), c')"
    by (rule upgrade_ok) (simp_all add: at_version_prepared at_version_new, simp add: prepared_def)
  then show ?thesis using schema_version_at [OF at_version_prepared [OF at_version_new]]
    by (simp add: initialize_prepare bnd_def prepare_ok wrap_err_def handle_def fail_if_def ret_def)
      (simp add: prepared_def fail_if_def ret_def)
qed

theorem new_database_is_initial_witness:
  "\<exists>c'. initialize ex_env (ex_conn new_catalogue) = (Inr (), c') \<and> names_of (cat_schema (tables c')) = final_names"
proof -
  obtain c' where r: "initialize ex_env (ex_conn new_catalogue) = (Inr (), c')" using ex_initialize by blast
  from new_database_is_initial [OF _ r] r show ?thesis by simp
qed

end
