(* ===== verification/StoreMachine.thy ===== *)
theory StoreMachine
  imports Alerts LibraryFacts ReadingFacts RequestFacts
begin

text \<open>
  The store of \<open>auth/\<close> as one state machine: every writing call of its interface is a step, with any
  random bytes and any of its statements failing. What every reachable database satisfies follows
  from what each operation preserves; an operation \<open>keeps\<close> a part of the tables when no run of it
  changes that part.
\<close>

section \<open>What an operation does not touch\<close>

definition keeps :: "(db \<Rightarrow> 'v) \<Rightarrow> 'a db_io \<Rightarrow> bool" where
  "keeps C m \<longleftrightarrow> (\<forall>c. C (tables (snd (m c))) = C (tables c))"

named_theorems keep_intro

lemma keepsD: "keeps C m \<Longrightarrow> m c = (r, c') \<Longrightarrow> C (tables c') = C (tables c)"
  by (metis keeps_def snd_conv)

lemma keeps_readonly: "readonly m \<Longrightarrow> keeps C m"
  by (simp add: keeps_def readonly_def)

lemmas keeps_leaves [keep_intro] = keeps_readonly [OF readonly_query] keeps_readonly [OF readonly_ret]
  keeps_readonly [OF readonly_throw] keeps_readonly [OF readonly_fail_if] keeps_readonly [OF readonly_of_result]
  keeps_readonly [OF readonly_read_full]

lemma keeps_if [keep_intro]: "keeps C m \<Longrightarrow> keeps C m' \<Longrightarrow> keeps C (if b then m else m')"
  by simp

lemma keeps_wrap_err [keep_intro]: "keeps C m \<Longrightarrow> keeps C (wrap_err s m)"
  by (auto simp: keeps_def wrap_err_def handle_def throw_def split: prod.splits sum.splits) (metis snd_conv)+

lemma keeps_atomic:
  fixes m :: "'a db_io"
  assumes "atomic m" and "\<And>c x c'. m c = (Inr x, c') \<Longrightarrow> C (tables c') = C (tables c)"
  shows "keeps C m"
proof (unfold keeps_def, rule allI)
  fix c :: "db conn"
  obtain r c' where "m c = (r, c')" by fastforce
  then show "C (tables (snd (m c))) = C (tables c)"
    using assms by (cases r) (auto dest: atomicD)
qed

lemma keeps_bnd [keep_intro]: "keeps C m \<Longrightarrow> (\<And>x. keeps C (f x)) \<Longrightarrow> keeps C (bnd m f)"
  by (auto simp: keeps_def bnd_def split: prod.splits sum.splits) (metis snd_conv)+

lemma keeps_when_io [keep_intro]: "keeps C m \<Longrightarrow> keeps C (when_io b m)"
  by (simp add: when_io_def keeps_def ret_def)

lemma keeps_handle [keep_intro]: "keeps C m \<Longrightarrow> (\<And>x. keeps C (h x)) \<Longrightarrow> keeps C (handle m h)"
  by (auto simp: keeps_def handle_def split: prod.splits sum.splits) (metis snd_conv)+

lemma keeps_option [keep_intro]: "keeps C m \<Longrightarrow> (\<And>x. keeps C (f x)) \<Longrightarrow> keeps C (case y of None \<Rightarrow> m | Some x \<Rightarrow> f x)"
  by (cases y) simp_all

lemma keeps_tx_with: "keeps C m \<Longrightarrow> keeps C (tx_with m)"
  unfolding tx_with_def
proof (rule keeps_bnd)
  assume m: "keeps C m"
  show "keeps C (\<lambda>c. settle (tables c) (m c))"
  proof (unfold keeps_def, rule allI)
    fix c :: "db conn"
    obtain r c1 where "m c = (r, c1)" by fastforce
    with m have "C (tables c1) = C (tables c)" "m c = (r, c1)" by (auto dest: keepsD)
    then show "C (tables (snd (settle (tables c) (m c)))) = C (tables c)"
      by (auto simp: settle_def commit_def tick_def split: sum.splits outcome.splits prod.splits list.splits if_splits)
  qed
qed (rule keeps_readonly [OF readonly_tick])

lemma keeps_tx [keep_intro]: "keeps C m \<Longrightarrow> keeps C (tx m)"
  unfolding tx_def by (intro keeps_tx_with keeps_bnd keeps_leaves)

lemma keeps_exec:
  assumes "\<And>d d' n. st d = Inr (d', n) \<Longrightarrow> C d' = C d"
  shows "keeps C (exec st)"
  using assms by (intro keeps_atomic [OF atomic_exec]) (auto elim!: exec_InrE)

lemma keeps_statements [keep_intro]:
  assumes "\<And>rs d. C (tab_put t rs d) = C d"
  shows "keeps C (exec (insert_into t r))" "keeps C (exec (update_tab t p f))" "keeps C (exec (delete_from t p))"
    "keeps C (exec (upsert t k r f))" "keeps C (exec (insert_or_ignore t k r))"
  using assms by (auto intro!: keeps_exec split: if_splits)

text \<open>The tables readers and managers write into.\<close>

definition content :: "db \<Rightarrow> list_row list \<times> tag_row list \<times> reading_row list \<times> request_row list \<times> claim_row list" where
  "content d = (book_lists d, book_tags d, reading_items d, book_requests d, claims d)"

lemma keeps_small:
  "keeps content (UpdateSettings s)" "keeps content (RegisterEmail e em n pw)" "keeps content (AuthenticateEmail e em pw)"
  "keeps content (UpdateUser e uid role act)" "keeps content (SetPassword e uid pw)"
  "keeps content (SetShareLinks uid allow)" "keeps content (RecordLastIP uid ip)" "keeps content (SetLanguage uid l)"
  "keeps content (UpdateProfile e uid nm bio lang)" "keeps content (RecordBookRead e uid b)"
  unfolding UpdateSettings_def RegisterEmail_def AuthenticateEmail_def UpdateUser_def SetPassword_def SetShareLinks_def
    RecordLastIP_def SetLanguage_def UpdateProfile_def RecordBookRead_def update_account_def Let_def drop_credentials_def
    guard_last_admin_def no_rows_as_def queryUserWith_def case_prod_beta hashPassword_def randomToken_def
  by (intro keep_intro; simp add: content_def)+

lemma keeps_google: "keeps content (UpsertGoogle e em n s a)"
  unfolding UpsertGoogle_def google_known_def google_link_def google_new_def Let_def queryUserWith_def case_prod_beta
    randomToken_def no_rows_nil_def
  by (intro keep_intro; simp add: content_def)+

lemma keeps_credentials:
  "keeps content (NewSession e uid)" "keeps content (UserForSession e token)" "keeps content (DeleteSession e token)"
  "keeps content (CreateAPIToken e uid name x)" "keeps content (UserForAPIToken e token)"
  "keeps content (RevokeAPIToken uid name)" "keeps content (RevokeCurrentAPIToken e token)"
proof -
  show "keeps content (NewSession e uid)"
    by (rule keeps_atomic [OF atomic_credentials(1)]) (elim NewSession_InrE, simp add: content_def)
  show "keeps content (UserForSession e token)"
    by (rule keeps_atomic [OF atomic_credentials(2)]) (elim UserForSession_InrE, simp)
  show "keeps content (DeleteSession e token)"
    by (rule keeps_atomic [OF atomic_credentials(3)]) (elim DeleteSession_InrE, simp add: content_def)
  show "keeps content (CreateAPIToken e uid name x)"
  proof (rule keeps_atomic [OF atomic_credentials(4)])
    fix c c' :: "db conn" and u
    assume "CreateAPIToken e uid name x c = (Inr u, c')"
    then have "CreateAPIToken e uid name x c = (Inr (fst u, snd u), c')" by simp
    then show "content (tables c') = content (tables c)" by (elim CreateAPIToken_InrE) (simp add: content_def)
  qed
  show "keeps content (UserForAPIToken e token)"
    by (rule keeps_atomic [OF atomic_credentials(5)]) (erule UserForAPIToken_InrE; simp add: content_def touch_token_def)
  show "keeps content (RevokeAPIToken uid name)"
    by (rule keeps_atomic [OF atomic_credentials(6)]) (elim RevokeAPIToken_InrE, simp add: content_def)
  show "keeps content (RevokeCurrentAPIToken e token)"
    by (rule keeps_atomic [OF atomic_credentials(7)]) (elim RevokeCurrentAPIToken_InrE, simp add: content_def)
qed

lemma keeps_alerts:
  "keeps content (RaiseSystemAlert e k s t d)" "keeps content (ResolveSystemAlert e k r)"
  "keeps content (AcknowledgeSystemAlert e i u)" "keeps content (AcknowledgeAllSystemAlerts e u)"
  unfolding RaiseSystemAlert_def ResolveSystemAlert_def AcknowledgeSystemAlert_def AcknowledgeAllSystemAlerts_def
    open_or_reopen_def Let_def case_prod_beta randomToken_def no_rows_nil_def
  by (intro keep_intro; simp add: content_def)+

section \<open>Rows readers and managers write\<close>

definition list_row_ok :: "list_row \<Rightarrow> bool" where
  "list_row_ok l \<longleftrightarrow> l_name l \<noteq> '''' \<and> rune_count (l_name l) \<le> 80"

definition tag_row_ok :: "tag_row \<Rightarrow> bool" where
  "tag_row_ok t \<longleftrightarrow> b_tag t \<noteq> '''' \<and> rune_count (b_tag t) \<le> 40 \<and> b_book_id t \<noteq> '''' \<and> length (b_book_id t) \<le> 200"

definition reading_row_ok :: "reading_row \<Rightarrow> bool" where
  "reading_row_ok r \<longleftrightarrow> reading_kind_valid (r_kind r) \<and> r_book_id r \<noteq> '''' \<and> length (r_book_id r) \<le> 200 \<and>
    r_locator r \<noteq> '''' \<and> rune_count (r_locator r) \<le> 4000 \<and> rune_count (r_locator_label r) \<le> 200 \<and>
    r_title r \<noteq> '''' \<and> rune_count (r_title r) \<le> 200 \<and> rune_count (r_body r) \<le> 20000 \<and>
    rune_count (r_excerpt r) \<le> 2000"

definition request_row_ok :: "request_row \<Rightarrow> bool" where
  "request_row_ok r \<longleftrightarrow> request_status_valid (q_status r) \<and> q_title r \<noteq> '''' \<and> length (q_title r) \<le> 300 \<and>
    length (q_author r) \<le> 200 \<and> length (q_notes r) \<le> 2000 \<and> length (q_message r) \<le> 2000 \<and>
    length (q_book_id r) \<le> 64 \<and> (q_status r = ''unavailable'' \<longrightarrow> q_message r \<noteq> '''') \<and>
    (q_status r = ''pending'' \<longrightarrow> q_message r = '''' \<and> q_book_id r = '''')"

definition claim_row_ok :: "claim_row \<Rightarrow> bool" where
  "claim_row_ok r \<longleftrightarrow> claim_status_valid (c_status r) \<and> (c_status r = ''pending'' \<longleftrightarrow> c_resolution r = '''') \<and>
    c_claimant_name r \<noteq> '''' \<and> length (c_claimant_name r) \<le> 200 \<and> length (c_book_id r) \<le> 64 \<and>
    c_book_title r \<noteq> '''' \<and> length (c_book_title r) \<le> 500 \<and> length (c_source_url r) \<le> 2000 \<and>
    20 \<le> length (c_details r) \<and> length (c_details r) \<le> 5000 \<and> length (c_resolution r) \<le> 3000"

definition content_ok :: "db \<Rightarrow> bool" where
  "content_ok d \<longleftrightarrow> (case content d of (ls, ts, rs, qs, cs) \<Rightarrow> list_all list_row_ok ls \<and> list_all tag_row_ok ts \<and>
    list_all reading_row_ok rs \<and> list_all request_row_ok qs \<and> list_all claim_row_ok cs)"

lemma content_ok_iff: "content_ok d \<longleftrightarrow> list_all list_row_ok (book_lists d) \<and> list_all tag_row_ok (book_tags d) \<and>
    list_all reading_row_ok (reading_items d) \<and> list_all request_row_ok (book_requests d) \<and> list_all claim_row_ok (claims d)"
  by (simp add: content_ok_def content_def)

lemma keeps_content_ok: "keeps content m \<Longrightarrow> preserves content_ok m"
  by (simp add: keeps_def preserves_def content_ok_def)

lemma list_all_upd_where: "list_all q rs \<Longrightarrow> (\<And>r. q r \<Longrightarrow> p r \<Longrightarrow> q (f r)) \<Longrightarrow> list_all q (upd_where p f rs)"
  by (induction rs) auto

lemma normalizeListName_Inr: "normalizeListName n = Inr x \<Longrightarrow> x \<noteq> '''' \<and> rune_count x \<le> 80"
  by (auto simp: normalizeListName_def Let_def split: if_splits)

lemma normalizeTag_Inr: "normalizeTag g = Inr x \<Longrightarrow> x \<noteq> '''' \<and> rune_count x \<le> 40"
  by (auto simp: normalizeTag_def Let_def split: if_splits)

lemma normalizeReadingText_Inr: "normalizeReadingText v f m q = Inr x \<Longrightarrow> (q \<longrightarrow> x \<noteq> '''') \<and> rune_count x \<le> m"
  by (auto simp: normalizeReadingText_def Let_def split: if_splits)

lemma default_title_ok: "rune_count t \<le> 200 \<Longrightarrow> default_title k t \<noteq> '''' \<and> rune_count (default_title k t) \<le> 200"
  by (auto simp: default_title_def ascii_eval)

lemma content_library:
  "preserves content_ok (RecordBookRead e uid b)" "preserves content_ok (CreateBookList e uid n)"
  "preserves content_ok (DeleteBookList uid lid)" "preserves content_ok (AddBookToList e uid lid b)"
  "preserves content_ok (RemoveBookFromList e uid lid b)" "preserves content_ok (AddBookTag e uid b g)"
  "preserves content_ok (RemoveBookTag uid b g)"
proof -
  show "preserves content_ok (RecordBookRead e uid b)" by (rule keeps_content_ok [OF keeps_small(10)])
  show "preserves content_ok (CreateBookList e uid n)"
    by (rule preserves_atomic [OF atomic_library(2)], elim CreateBookList_InrE)
      (simp add: content_ok_iff list_row_ok_def normalizeListName_Inr)
  show "preserves content_ok (DeleteBookList uid lid)"
    by (rule preserves_atomic [OF atomic_library(3)], elim DeleteBookList_InrE)
      (simp add: content_ok_iff without_list_def list_all_del_where)
  show "preserves content_ok (AddBookToList e uid lid b)"
    by (rule preserves_atomic [OF atomic_library(4)], elim AddBookToList_InrE)
      (auto simp: content_ok_iff touched_def list_row_ok_def intro!: list_all_upd_where)
  show "preserves content_ok (RemoveBookFromList e uid lid b)"
    by (rule preserves_atomic [OF atomic_library(5)], elim RemoveBookFromList_InrE)
      (auto simp: content_ok_iff touched_def list_row_ok_def intro!: list_all_upd_where)
  show "preserves content_ok (AddBookTag e uid b g)"
    by (rule preserves_atomic [OF atomic_library(6)], elim AddBookTag_InrE)
      (auto simp: content_ok_iff with_tag_def tag_row_ok_def normalizeTag_Inr dest: normalizeBookID_Inr)
  show "preserves content_ok (RemoveBookTag uid b g)"
    by (rule preserves_atomic [OF atomic_library(7)], elim RemoveBookTag_InrE)
      (simp add: content_ok_iff list_all_del_where)
qed

lemma content_rewrite:
  assumes t: "t \<noteq> ''''" "rune_count t \<le> 200" and b: "rune_count body \<le> 20000"
  shows "preserves content_ok (rewrite_item e uid i t body tags)"
  by (rule preserves_atomic [OF atomic_reading(2)], elim rewrite_item_InrE)
    (auto simp: content_ok_iff reading_row_ok_def t b intro!: list_all_upd_where)

lemma preserves_of_result_bnd: "(\<And>x. r = Inr x \<Longrightarrow> preserves I (f x)) \<Longrightarrow> preserves I (bnd (of_result r) f)"
  by (auto simp: preserves_def bnd_def of_result_def split: sum.splits)

lemma content_reading:
  "preserves content_ok (CreateReadingItem e uid b kind loc lab t body ex tags)"
  "preserves content_ok (UpdateReadingItem e uid i t body tags)" "preserves content_ok (DeleteReadingItem uid i)"
proof -
  show "preserves content_ok (CreateReadingItem e uid b kind loc lab t body ex tags)"
    by (rule preserves_atomic [OF atomic_reading(1)], elim CreateReadingItem_InrE validateReadingItem_InrE)
      (simp add: content_ok_iff reading_row_of_def reading_row_ok_def normalizeBookID_Inr normalizeReadingText_Inr default_title_ok)
  show "preserves content_ok (UpdateReadingItem e uid i t body tags)"
    unfolding UpdateReadingItem_def
    by (intro preserves_of_result_bnd preserves_bnd content_rewrite preserves_readonly [OF readonly_ReadingItemForUser])
      (simp_all add: normalizeReadingText_Inr default_title_ok)
  show "preserves content_ok (DeleteReadingItem uid i)"
    by (rule preserves_atomic [OF atomic_reading(3)], elim DeleteReadingItem_InrE)
      (simp add: content_ok_iff without_item_def list_all_del_where)
qed

lemma content_requests:
  "preserves content_ok (CreateBookRequest e uid t a n)" "preserves content_ok (ResolveBookRequest e rid st b m)"
  "preserves content_ok (CreateCopyrightClaim e uid f)" "preserves content_ok (ResolveCopyrightClaim e cid st b r)"
proof -
  show "preserves content_ok (CreateBookRequest e uid t a n)"
    by (rule preserves_atomic [OF atomic_requests(1)], elim CreateBookRequest_InrE)
      (auto simp: content_ok_iff request_row_ok_def normalizeBookRequestFields_def Let_def request_status_valid_def split: if_splits)
  show "preserves content_ok (ResolveBookRequest e rid st b m)"
    by (rule preserves_atomic [OF atomic_requests(2)], elim ResolveBookRequest_InrE)
      (auto simp: content_ok_iff request_row_ok_def request_status_valid_def intro!: list_all_upd_where)
  show "preserves content_ok (CreateCopyrightClaim e uid f)"
    by (rule preserves_atomic [OF atomic_requests(3)], elim CreateCopyrightClaim_InrE)
      (auto simp: content_ok_iff claim_row_ok_def normalizeCopyrightClaimFields_def Let_def claim_status_valid_def split: if_splits sum.splits)
  show "preserves content_ok (ResolveCopyrightClaim e cid st b r)"
    by (rule preserves_atomic [OF atomic_requests(4)], elim ResolveCopyrightClaim_InrE)
      (auto simp: content_ok_iff claim_row_ok_def resolve_claim_def claim_status_valid_def intro!: list_all_upd_where)
qed

section \<open>The store as a state machine\<close>

text \<open>Every call of the \<open>Store\<close> interface that writes, with its arguments.\<close>

datatype call =
    Update_settings Settings
  | Register_email string string string
  | Authenticate_email string string
  | Upsert_google string string string bool
  | Update_user string string bool
  | Set_password string string
  | Set_share_links string bool
  | Record_last_ip string string
  | Set_language string string
  | Update_profile string string string string
  | New_session string
  | User_for_session string
  | Delete_session string
  | Create_token string string "gotime option"
  | User_for_token string
  | Revoke_token string string
  | Revoke_current_token string
  | Record_read string string
  | Create_list string string
  | Delete_list string string
  | Add_to_list string string string
  | Remove_from_list string string string
  | Add_tag string string string
  | Remove_tag string string string
  | Create_item string string string string string string string string "string list"
  | Update_item string string string string "string list"
  | Delete_item string string
  | Create_request string string string string
  | Resolve_request string string string string
  | Create_claim string claim_fields
  | Resolve_claim string string string string
  | Raise_alert string string string string
  | Resolve_alert string string
  | Acknowledge string string
  | Acknowledge_all string

definition void :: "'a db_io \<Rightarrow> unit db_io" where
  "void m = bnd m (\<lambda>_. ret ())"

fun perform :: "env \<Rightarrow> call \<Rightarrow> unit db_io" where
  "perform e (Update_settings s) = UpdateSettings s"
| "perform e (Register_email em n pw) = void (RegisterEmail e em n pw)"
| "perform e (Authenticate_email em pw) = void (AuthenticateEmail e em pw)"
| "perform e (Upsert_google em n s a) = void (UpsertGoogle e em n s a)"
| "perform e (Update_user u r a) = void (UpdateUser e u r a)"
| "perform e (Set_password u pw) = SetPassword e u pw"
| "perform e (Set_share_links u a) = SetShareLinks u a"
| "perform e (Record_last_ip u ip) = RecordLastIP u ip"
| "perform e (Set_language u l) = SetLanguage u l"
| "perform e (Update_profile u n b l) = UpdateProfile e u n b l"
| "perform e (New_session u) = void (NewSession e u)"
| "perform e (User_for_session t) = void (UserForSession e t)"
| "perform e (Delete_session t) = DeleteSession e t"
| "perform e (Create_token u n x) = void (CreateAPIToken e u n x)"
| "perform e (User_for_token t) = void (UserForAPIToken e t)"
| "perform e (Revoke_token u n) = RevokeAPIToken u n"
| "perform e (Revoke_current_token t) = RevokeCurrentAPIToken e t"
| "perform e (Record_read u b) = RecordBookRead e u b"
| "perform e (Create_list u n) = void (CreateBookList e u n)"
| "perform e (Delete_list u l) = DeleteBookList u l"
| "perform e (Add_to_list u l b) = AddBookToList e u l b"
| "perform e (Remove_from_list u l b) = RemoveBookFromList e u l b"
| "perform e (Add_tag u b g) = AddBookTag e u b g"
| "perform e (Remove_tag u b g) = RemoveBookTag u b g"
| "perform e (Create_item u b k loc lab t body ex tags) = void (CreateReadingItem e u b k loc lab t body ex tags)"
| "perform e (Update_item u i t body tags) = void (UpdateReadingItem e u i t body tags)"
| "perform e (Delete_item u i) = DeleteReadingItem u i"
| "perform e (Create_request u t a n) = void (CreateBookRequest e u t a n)"
| "perform e (Resolve_request i st b m) = ResolveBookRequest e i st b m"
| "perform e (Create_claim u f) = void (CreateCopyrightClaim e u f)"
| "perform e (Resolve_claim i st b r) = ResolveCopyrightClaim e i st b r"
| "perform e (Raise_alert k s t d) = void (RaiseSystemAlert e k s t d)"
| "perform e (Resolve_alert k r) = void (ResolveSystemAlert e k r)"
| "perform e (Acknowledge i u) = AcknowledgeSystemAlert e i u"
| "perform e (Acknowledge_all u) = void (AcknowledgeAllSystemAlerts e u)"

text \<open>One call, at any time, with any random bytes and any of its statements failing.\<close>

inductive store_step :: "db \<Rightarrow> db \<Rightarrow> bool" where
  step: "perform e k c = (r, c') \<Longrightarrow> store_step (tables c) (tables c')"

inductive_cases store_stepE: "store_step d d'"

inductive reachable :: "db \<Rightarrow> bool" where
  start: "reachable initial_db"
| again: "reachable d \<Longrightarrow> store_step d d' \<Longrightarrow> reachable d'"

lemma preserves_void: "preserves I m \<Longrightarrow> preserves I (void m)"
  unfolding void_def by (intro preserves_bnd preserves_readonly [OF readonly_ret])

lemma store_step_preserves:
  "(\<And>e k. preserves I (perform e k)) \<Longrightarrow> store_step d d' \<Longrightarrow> I d \<Longrightarrow> I d'"
  by (erule store_stepE) (blast intro: preservesD)

lemmas store_ok_operations = preserves_RegisterEmail preserves_AuthenticateEmail preserves_UpsertGoogle
  preserves_UpdateUser preserves_SetPassword preserves_small_updates preserves_RecordLastIP preserves_UpdateSettings
  preserves_NewSession preserves_CreateAPIToken preserves_UserForAPIToken preserves_revocations preserves_library
  preserves_reading preserves_requests preserves_alerts

lemma perform_store_ok: "preserves store_ok (perform e k)"
  by (cases k) (simp_all add: preserves_void store_ok_operations)

lemmas content_operations = keeps_content_ok [OF keeps_small(1)] keeps_content_ok [OF keeps_small(2)]
  keeps_content_ok [OF keeps_small(3)] keeps_content_ok [OF keeps_small(4)] keeps_content_ok [OF keeps_small(5)]
  keeps_content_ok [OF keeps_small(6)] keeps_content_ok [OF keeps_small(7)] keeps_content_ok [OF keeps_small(8)]
  keeps_content_ok [OF keeps_small(9)] keeps_content_ok [OF keeps_google]
  keeps_credentials [THEN keeps_content_ok] keeps_alerts [THEN keeps_content_ok]
  content_library content_reading content_requests

lemma perform_content_ok: "preserves content_ok (perform e k)"
  by (cases k) (simp_all add: preserves_void content_operations)

text \<open>What happens to the claims, whatever the call.\<close>

definition claims_final :: "db \<Rightarrow> db \<Rightarrow> bool" where
  "claims_final d d' \<longleftrightarrow> (\<forall>r \<in> set (claims d). c_status r \<noteq> ''pending'' \<longrightarrow> r \<in> set (claims d'))"

lemma keeps_claims_of_content: "keeps content m \<Longrightarrow> keeps claims m"
  by (simp add: keeps_def content_def)

lemma keeps_void: "keeps C m \<Longrightarrow> keeps C (void m)"
  unfolding void_def by (intro keeps_bnd keeps_leaves)

lemma keeps_claims_library:
  "keeps claims (RecordBookRead e uid b)" "keeps claims (CreateBookList e uid n)"
  "keeps claims (DeleteBookList uid lid)" "keeps claims (AddBookToList e uid lid b)"
  "keeps claims (RemoveBookFromList e uid lid b)" "keeps claims (AddBookTag e uid b g)"
  "keeps claims (RemoveBookTag uid b g)"
proof -
  show "keeps claims (RecordBookRead e uid b)" by (rule keeps_claims_of_content [OF keeps_small(10)])
  show "keeps claims (CreateBookList e uid n)"
    by (rule keeps_atomic [OF atomic_library(2)]) (elim CreateBookList_InrE, simp)
  show "keeps claims (DeleteBookList uid lid)"
    by (rule keeps_atomic [OF atomic_library(3)]) (elim DeleteBookList_InrE, simp add: without_list_def)
  show "keeps claims (AddBookToList e uid lid b)"
    by (rule keeps_atomic [OF atomic_library(4)]) (elim AddBookToList_InrE, simp)
  show "keeps claims (RemoveBookFromList e uid lid b)"
    by (rule keeps_atomic [OF atomic_library(5)]) (elim RemoveBookFromList_InrE, simp)
  show "keeps claims (AddBookTag e uid b g)"
    by (rule keeps_atomic [OF atomic_library(6)]) (elim AddBookTag_InrE, simp)
  show "keeps claims (RemoveBookTag uid b g)"
    by (rule keeps_atomic [OF atomic_library(7)]) (elim RemoveBookTag_InrE, simp)
qed

lemma keeps_claims_reading:
  "keeps claims (CreateReadingItem e uid b kind loc lab t body ex tags)"
  "keeps claims (UpdateReadingItem e uid i t body tags)" "keeps claims (DeleteReadingItem uid i)"
proof -
  show "keeps claims (CreateReadingItem e uid b kind loc lab t body ex tags)"
    by (rule keeps_atomic [OF atomic_reading(1)]) (elim CreateReadingItem_InrE, simp)
  have "keeps claims (rewrite_item e uid i t body tags)" for t body tags
    by (rule keeps_atomic [OF atomic_reading(2)]) (elim rewrite_item_InrE, simp)
  then show "keeps claims (UpdateReadingItem e uid i t body tags)"
    unfolding UpdateReadingItem_def
    by (intro keeps_bnd keeps_leaves keeps_readonly [OF readonly_ReadingItemForUser])
  show "keeps claims (DeleteReadingItem uid i)"
    by (rule keeps_atomic [OF atomic_reading(3)]) (elim DeleteReadingItem_InrE, simp add: without_item_def)
qed

lemma keeps_claims_requests:
  "keeps claims (CreateBookRequest e uid t a n)" "keeps claims (ResolveBookRequest e rid st b m)"
  by (rule keeps_atomic [OF atomic_requests(1)], elim CreateBookRequest_InrE, simp)
    (rule keeps_atomic [OF atomic_requests(2)], elim ResolveBookRequest_InrE, simp)

lemmas claims_operations = keeps_small [THEN keeps_claims_of_content] keeps_google [THEN keeps_claims_of_content]
  keeps_credentials [THEN keeps_claims_of_content] keeps_alerts [THEN keeps_claims_of_content]
  keeps_claims_library keeps_claims_reading keeps_claims_requests

lemma perform_keeps_claims:
  "(\<forall>u f. k \<noteq> Create_claim u f) \<Longrightarrow> (\<forall>i st b r. k \<noteq> Resolve_claim i st b r) \<Longrightarrow> keeps claims (perform e k)"
  by (cases k) (simp_all add: keeps_void claims_operations)

lemma claims_final_resolve:
  assumes "ResolveCopyrightClaim e i st b n c = (r, c')"
  shows "claims_final (tables c) (tables c')"
proof (cases r)
  case (Inl x)
  then show ?thesis using assms atomicD [OF atomic_requests(4)] by (auto simp: claims_final_def)
next
  case (Inr x)
  with assms have "ResolveCopyrightClaim e i st b n c = (Inr x, c')" by simp
  then show ?thesis by (elim ResolveCopyrightClaim_InrE) (auto simp: claims_final_def set_upd_where image_iff)
qed

lemma claims_final_create:
  assumes "void (CreateCopyrightClaim e u f) c = (r, c')"
  shows "claims_final (tables c) (tables c')"
proof -
  obtain r1 c1 where run: "CreateCopyrightClaim e u f c = (r1, c1)" by fastforce
  then have c': "tables c' = tables c1" using assms by (auto simp: void_def bnd_def ret_def split: sum.splits)
  show ?thesis
  proof (cases r1)
    case (Inl x)
    with run c' show ?thesis using atomicD [OF atomic_requests(3)] by (auto simp: claims_final_def)
  next
    case (Inr x)
    with run have "CreateCopyrightClaim e u f c = (Inr x, c1)" by simp
    then show ?thesis by (elim CreateCopyrightClaim_InrE) (simp add: claims_final_def c')
  qed
qed

lemma perform_claims_final:
  assumes run: "perform e k c = (r, c')"
  shows "claims_final (tables c) (tables c')"
proof -
  consider (create) u f where "k = Create_claim u f" | (resolve) i st b n where "k = Resolve_claim i st b n"
    | (other) "\<forall>u f. k \<noteq> Create_claim u f" "\<forall>i st b r. k \<noteq> Resolve_claim i st b r" by blast
  then show ?thesis
  proof cases
    case create
    with run show ?thesis by (simp add: claims_final_create)
  next
    case resolve
    with run show ?thesis by (simp add: claims_final_resolve)
  next
    case other
    from keepsD [OF perform_keeps_claims [OF other] run] show ?thesis by (simp add: claims_final_def)
  qed
qed

section \<open>Operations that leave the settings alone\<close>

lemma keeps_settings_accounts:
  "keeps settings_tab (RegisterEmail e em n pw)" "keeps settings_tab (AuthenticateEmail e em pw)"
  "keeps settings_tab (UpdateUser e uid role act)" "keeps settings_tab (SetPassword e uid pw)"
  "keeps settings_tab (SetShareLinks uid allow)" "keeps settings_tab (RecordLastIP uid ip)" "keeps settings_tab (SetLanguage uid l)"
  "keeps settings_tab (UpdateProfile e uid nm bio lang)" "keeps settings_tab (RecordBookRead e uid b)"
  "keeps settings_tab (UpsertGoogle e em n sub a)"
  unfolding RegisterEmail_def AuthenticateEmail_def UpdateUser_def SetPassword_def SetShareLinks_def
    RecordLastIP_def SetLanguage_def UpdateProfile_def RecordBookRead_def update_account_def Let_def drop_credentials_def
    guard_last_admin_def no_rows_as_def queryUserWith_def case_prod_beta hashPassword_def randomToken_def
    UpsertGoogle_def google_known_def google_link_def google_new_def no_rows_nil_def
  by (intro keep_intro; simp)+

lemma keeps_settings_credentials:
  "keeps settings_tab (NewSession e uid)" "keeps settings_tab (DeleteSession e token)"
  "keeps settings_tab (CreateAPIToken e uid name x)" "keeps settings_tab (UserForAPIToken e token)"
  "keeps settings_tab (RevokeAPIToken uid name)" "keeps settings_tab (RevokeCurrentAPIToken e token)"
  "keeps settings_tab (UserForSession e token)"
proof -
  show "keeps settings_tab (NewSession e uid)"
    by (rule keeps_atomic [OF atomic_credentials(1)]) (elim NewSession_InrE, simp)
  show "keeps settings_tab (DeleteSession e token)"
    by (rule keeps_atomic [OF atomic_credentials(3)]) (elim DeleteSession_InrE, simp)
  show "keeps settings_tab (CreateAPIToken e uid name x)"
  proof (rule keeps_atomic [OF atomic_credentials(4)])
    fix c c' :: "db conn" and u
    assume "CreateAPIToken e uid name x c = (Inr u, c')"
    then have "CreateAPIToken e uid name x c = (Inr (fst u, snd u), c')" by simp
    then show "settings_tab (tables c') = settings_tab (tables c)" by (elim CreateAPIToken_InrE) simp
  qed
  show "keeps settings_tab (UserForAPIToken e token)"
    by (rule keeps_atomic [OF atomic_credentials(5)]) (erule UserForAPIToken_InrE; simp add: touch_token_def)
  show "keeps settings_tab (RevokeAPIToken uid name)"
    by (rule keeps_atomic [OF atomic_credentials(6)]) (elim RevokeAPIToken_InrE, simp)
  show "keeps settings_tab (RevokeCurrentAPIToken e token)"
    by (rule keeps_atomic [OF atomic_credentials(7)]) (elim RevokeCurrentAPIToken_InrE, simp)
  show "keeps settings_tab (UserForSession e token)"
    by (rule keeps_atomic [OF atomic_credentials(2)]) (elim UserForSession_InrE, simp)
qed

lemma keeps_settings_alerts:
  "keeps settings_tab (AcknowledgeSystemAlert e i u)" "keeps settings_tab (AcknowledgeAllSystemAlerts e u)"
  "keeps settings_tab (RaiseSystemAlert e k s t d)" "keeps settings_tab (ResolveSystemAlert e k r)"
  unfolding AcknowledgeSystemAlert_def AcknowledgeAllSystemAlerts_def RaiseSystemAlert_def ResolveSystemAlert_def
    open_or_reopen_def Let_def case_prod_beta randomToken_def no_rows_nil_def
  by (intro keep_intro; simp)+

lemma keeps_settings_library:
  "keeps settings_tab (CreateBookList e uid n)" "keeps settings_tab (DeleteBookList uid lid)" "keeps settings_tab (AddBookToList e uid lid b)"
  "keeps settings_tab (RemoveBookFromList e uid lid b)" "keeps settings_tab (AddBookTag e uid b g)" "keeps settings_tab (RemoveBookTag uid b g)"
proof -
  show "keeps settings_tab (CreateBookList e uid n)"
    by (rule keeps_atomic [OF atomic_library(2)]) (elim CreateBookList_InrE, simp)
  show "keeps settings_tab (DeleteBookList uid lid)"
    by (rule keeps_atomic [OF atomic_library(3)]) (elim DeleteBookList_InrE, simp add: without_list_def)
  show "keeps settings_tab (AddBookToList e uid lid b)"
    by (rule keeps_atomic [OF atomic_library(4)]) (elim AddBookToList_InrE, simp)
  show "keeps settings_tab (RemoveBookFromList e uid lid b)"
    by (rule keeps_atomic [OF atomic_library(5)]) (elim RemoveBookFromList_InrE, simp)
  show "keeps settings_tab (AddBookTag e uid b g)"
    by (rule keeps_atomic [OF atomic_library(6)]) (elim AddBookTag_InrE, simp)
  show "keeps settings_tab (RemoveBookTag uid b g)"
    by (rule keeps_atomic [OF atomic_library(7)]) (elim RemoveBookTag_InrE, simp)
qed

lemma keeps_settings_reading:
  "keeps settings_tab (CreateReadingItem e uid b kind loc lab t body ex tags)"
  "keeps settings_tab (UpdateReadingItem e uid i t body tags)" "keeps settings_tab (DeleteReadingItem uid i)"
proof -
  show "keeps settings_tab (CreateReadingItem e uid b kind loc lab t body ex tags)"
    by (rule keeps_atomic [OF atomic_reading(1)]) (elim CreateReadingItem_InrE, simp)
  have "keeps settings_tab (rewrite_item e uid i t body tags)" for t body tags
    by (rule keeps_atomic [OF atomic_reading(2)]) (elim rewrite_item_InrE, simp)
  then show "keeps settings_tab (UpdateReadingItem e uid i t body tags)"
    unfolding UpdateReadingItem_def
    by (intro keeps_bnd keeps_leaves keeps_readonly [OF readonly_ReadingItemForUser])
  show "keeps settings_tab (DeleteReadingItem uid i)"
    by (rule keeps_atomic [OF atomic_reading(3)]) (elim DeleteReadingItem_InrE, simp add: without_item_def)
qed

lemma keeps_settings_requests:
  "keeps settings_tab (CreateBookRequest e uid t a n)" "keeps settings_tab (ResolveBookRequest e rid st b m)"
  "keeps settings_tab (CreateCopyrightClaim e uid f)" "keeps settings_tab (ResolveCopyrightClaim e cid st b m)"
proof -
  show "keeps settings_tab (CreateBookRequest e uid t a n)"
    by (rule keeps_atomic [OF atomic_requests(1)]) (elim CreateBookRequest_InrE, simp)
  show "keeps settings_tab (ResolveBookRequest e rid st b m)"
    by (rule keeps_atomic [OF atomic_requests(2)]) (elim ResolveBookRequest_InrE, simp)
  show "keeps settings_tab (CreateCopyrightClaim e uid f)"
    by (rule keeps_atomic [OF atomic_requests(3)]) (elim CreateCopyrightClaim_InrE, simp)
  show "keeps settings_tab (ResolveCopyrightClaim e cid st b m)"
    by (rule keeps_atomic [OF atomic_requests(4)]) (elim ResolveCopyrightClaim_InrE, simp)
qed

text \<open>The settings are a single row, which only \<open>UpdateSettings\<close> rewrites, and no operation adds or removes.\<close>

lemma keeps_settings_row: "keeps settings_tab m \<Longrightarrow> keeps (\<lambda>d. length (settings_tab d)) m"
  by (simp add: keeps_def)

lemma keeps_settings_update: "keeps (\<lambda>d. length (settings_tab d)) (UpdateSettings s)"
  by (rule keeps_atomic [OF atomic_UpdateSettings]) (elim UpdateSettings_InrE, simp)

lemmas keeps_settings = keeps_settings_accounts keeps_settings_credentials keeps_settings_alerts keeps_settings_library
  keeps_settings_reading keeps_settings_requests

lemma perform_settings_row: "keeps (\<lambda>d. length (settings_tab d)) (perform e k)"
  by (cases k) (simp_all add: keeps_void keeps_settings_update keeps_settings [THEN keeps_settings_row])

lemma store_step_settings_row: "store_step d d' \<Longrightarrow> length (settings_tab d') = length (settings_tab d)"
  by (erule store_stepE) (use keepsD [OF perform_settings_row] in blast)

section \<open>Invariants of every reachable store\<close>

text \<open>C18: However the operations of the store are called, in any order, at any time and with any statement of
  theirs failing, the tables satisfy every constraint of the schema (keys, uniqueness, references and value
  checks), there is exactly one row of settings, and once there are accounts one of them is an active administrator.\<close>

theorem reachable_store_ok: "reachable d \<Longrightarrow> store_ok d \<and> length (settings_tab d) = 1"
  by (induction rule: reachable.induct)
    (auto simp: store_ok_initial store_step_settings_row intro: store_step_preserves [OF perform_store_ok])

text \<open>C19: Every stored list, tag, bookmark, note, book request and copyright claim is well-formed: the length
  limits hold, required fields are filled, an unavailable book has an explanation, and a claim is pending
  exactly as long as it has no resolution note.\<close>

theorem reachable_content_ok: "reachable d \<Longrightarrow> content_ok d"
  by (induction rule: reachable.induct) (simp add: content_ok_iff, rule store_step_preserves [OF perform_content_ok])

text \<open>C20: A settled copyright claim is never touched again: no sequence of calls of the store changes or
  removes it.\<close>

theorem settled_claim_is_final:
  assumes "store_step\<^sup>*\<^sup>* d d'" and r: "r \<in> set (claims d)" and "c_status r \<noteq> ''pending''"
  shows "r \<in> set (claims d')"
  using assms(1)
proof (induction rule: rtranclp_induct)
  case (step d1 d2)
  from step.hyps(2) have "claims_final d1 d2" by (rule store_stepE) (use perform_claims_final in blast)
  with step.IH assms(3) show ?case by (simp add: claims_final_def)
qed (rule r)

lemma ex_reachable: "\<exists>d u. reachable d \<and> u \<in> set (users d) \<and> u_email u = ''ann@example.org''"
proof -
  obtain u c' where r: "RegisterEmail ex_env ''Ann@example.org'' ''Ann'' ''correct horse'' (ex_conn initial_db) = (Inr u, c')"
    using ex_register by blast
  then have "perform ex_env (Register_email ''Ann@example.org'' ''Ann'' ''correct horse'') (ex_conn initial_db) = (Inr (), c')"
    by (simp add: void_def bnd_def ret_def)
  then have "store_step (tables (ex_conn initial_db)) (tables c')" by (rule store_step.step)
  then have "reachable (tables c')" by (intro reachable.again [OF reachable.start]) simp
  moreover have "\<exists>u \<in> set (users (tables c')). u_email u = ''ann@example.org''"
    using r by (elim RegisterEmail_InrE) (simp add: ex_email new_user_row_def)
  ultimately show ?thesis by blast
qed

theorem reachable_store_ok_witness:
  "\<exists>d u. reachable d \<and> u \<in> set (users d) \<and> u_email u = ''ann@example.org'' \<and> store_ok d
    \<and> length (settings_tab d) = 1"
  using ex_reachable reachable_store_ok by blast

theorem reachable_content_ok_witness:
  "\<exists>d u. reachable d \<and> u \<in> set (users d) \<and> u_email u = ''ann@example.org'' \<and> content_ok d"
  using ex_reachable reachable_content_ok by blast

theorem settled_claim_is_final_witness:
  "\<exists>c1 y c2 q. ResolveCopyrightClaim ex_env ''k'' ''removed'' ''moby'' ''taken down'' (ex_conn ex_claims) = (Inr (), c1) \<and>
    perform ex_env (Resolve_claim ''k'' ''resolved'' '''' ''kept'') (ex_conn (tables c1)) = (y, c2) \<and>
    q \<in> set (claims (tables c1)) \<and> c_resolution q = ''taken down'' \<and> q \<in> set (claims (tables c2))"
proof -
  obtain c1 where r: "ResolveCopyrightClaim ex_env ''k'' ''removed'' ''moby'' ''taken down'' (ex_conn ex_claims) = (Inr (), c1)"
    using ex_resolve by blast
  then obtain q where q: "q \<in> set (claims (tables c1))" "c_status q \<noteq> ''pending''" "c_resolution q = ''taken down''"
    by (elim ResolveCopyrightClaim_InrE) (auto simp: ex_claims_simps ex_claim_def resolve_claim_def ascii_eval)
  obtain y c2 where p: "perform ex_env (Resolve_claim ''k'' ''resolved'' '''' ''kept'') (ex_conn (tables c1)) = (y, c2)"
    by fastforce
  then have "store_step (tables (ex_conn (tables c1))) (tables c2)" by (rule store_step.step)
  then have "store_step\<^sup>*\<^sup>* (tables c1) (tables c2)" by simp
  from settled_claim_is_final [OF this q(1,2)] r p q show ?thesis by blast
qed

end
