(* ===== verification/GoSort.thy ===== *)
theory GoSort
  imports Prelude "HOL-Library.Multiset"
begin

text \<open>
  The algorithm of \<open>sort.SliceStable\<close> in Go's standard library: insertion sort on blocks of twenty, then
  in-place merges of neighbouring blocks by rotation. Whatever the comparison it permutes the slice;
  when the comparison compares keys it is the stable sort by the key. Comparisons of the program that
  do not compare keys (a book without an author is incomparable to all others) make the algorithm
  itself matter.
\<close>

section \<open>The algorithm\<close>

text \<open>\<open>insertionSort\<close>: the next element moves left while it is less than its neighbour. The sorted
  part is kept reversed.\<close>

fun move_left :: "('a \<Rightarrow> 'a \<Rightarrow> bool) \<Rightarrow> 'a \<Rightarrow> 'a list \<Rightarrow> 'a list" where
  "move_left lt x [] = [x]"
| "move_left lt x (y # ys) = (if lt x y then y # move_left lt x ys else x # y # ys)"

definition insertion_sort :: "('a \<Rightarrow> 'a \<Rightarrow> bool) \<Rightarrow> 'a list \<Rightarrow> 'a list" where
  "insertion_sort lt xs = rev (foldl (\<lambda>acc x. move_left lt x acc) [] xs)"

text \<open>The binary searches of \<open>symMerge\<close>: the first index from \<open>i\<close> on, below \<open>j\<close>, where \<open>p\<close> no longer holds.\<close>

function bsearch :: "(nat \<Rightarrow> bool) \<Rightarrow> nat \<Rightarrow> nat \<Rightarrow> nat" where
  "bsearch p i j = (if i < j then
     (let h = (i + j) div 2 in if p h then bsearch p (h + 1) j else bsearch p i h) else i)"
  by pat_completeness auto
termination by (relation "measure (\<lambda>(p, i, j). j - i)") auto

declare bsearch.simps [simp del]

text \<open>\<open>symMerge\<close> of two adjacent runs: the rotation brings the smaller halves together, the two parts
  are merged on their own. \<open>sym_start\<close> is the point the binary search finds.\<close>

definition sym_start :: "('a \<Rightarrow> 'a \<Rightarrow> bool) \<Rightarrow> 'a list \<Rightarrow> 'a list \<Rightarrow> nat" where
  "sym_start lt xs ys =
    (let m = length xs; b = length xs + length ys; mid = b div 2; n = mid + m
     in bsearch (\<lambda>c. \<not> lt ((xs @ ys) ! (n - 1 - c)) ((xs @ ys) ! c))
          (if mid < m then n - b else 0) (if mid < m then mid else m))"

definition sym_rotate :: "nat \<Rightarrow> nat \<Rightarrow> 'a list \<Rightarrow> 'a list \<Rightarrow> 'a list" where
  "sym_rotate start fin xs ys =
    (let m = length xs in if start < m \<and> m < fin
     then take start xs @ take (fin - m) ys @ drop start xs @ drop (fin - m) ys else xs @ ys)"

lemma length_sym_rotate [simp]: "length (sym_rotate start fin xs ys) = length xs + length ys"
  by (auto simp: sym_rotate_def Let_def)

function sym_merge :: "('a \<Rightarrow> 'a \<Rightarrow> bool) \<Rightarrow> 'a list \<Rightarrow> 'a list \<Rightarrow> 'a list" where
  "sym_merge lt xs ys =
    (if length xs < 1 \<or> length ys < 1 then xs @ ys
     else if length xs = 1 then
       (let i = bsearch (\<lambda>h. lt (ys ! h) (hd xs)) 0 (length ys) in take i ys @ xs @ drop i ys)
     else if length ys = 1 then
       (let i = bsearch (\<lambda>h. \<not> lt (hd ys) (xs ! h)) 0 (length xs) in take i xs @ ys @ drop i xs)
     else
       (let b = length xs + length ys; mid = b div 2; start = sym_start lt xs ys; fin = mid + length xs - start;
            d = sym_rotate start fin xs ys
        in (if 0 < start \<and> start < mid then sym_merge lt (take start d) (drop start (take mid d)) else take mid d) @
           (if mid < fin \<and> fin < b then sym_merge lt (take (fin - mid) (drop mid d)) (drop fin d) else drop mid d)))"
  by pat_completeness auto

termination
proof (relation "measure (\<lambda>(lt, xs, ys). length xs + length ys)", goal_cases)
  case 1
  show ?case by simp
next
  case (2 lt xs ys b mid start fin d)
  then have "length d = b" "mid < b" by auto
  moreover have "start < mid" using 2 by simp
  moreover have "b = length xs + length ys" by fact
  ultimately show ?case by simp
next
  case (3 lt xs ys b mid start fin d)
  then have "length d = b" "0 < mid" "mid < b" by auto
  moreover have "mid < fin" "fin < b" using 3 by simp_all
  moreover have "b = length xs + length ys" by fact
  ultimately show ?case by simp
qed

declare sym_merge.simps [simp del]

text \<open>One pass of \<open>stable\<close>: neighbouring blocks of the size are merged, then the size doubles.\<close>

fun merge_pass :: "('a \<Rightarrow> 'a \<Rightarrow> bool) \<Rightarrow> 'a list list \<Rightarrow> 'a list list" where
  "merge_pass lt (xs # ys # bs) = sym_merge lt xs ys # merge_pass lt bs"
| "merge_pass lt bs = bs"

lemma length_merge_pass: "length (merge_pass lt bs) = (length bs + 1) div 2"
  by (induction lt bs rule: merge_pass.induct) auto

function merge_all :: "('a \<Rightarrow> 'a \<Rightarrow> bool) \<Rightarrow> 'a list list \<Rightarrow> 'a list" where
  "merge_all lt bs = (case bs of [] \<Rightarrow> [] | [xs] \<Rightarrow> xs | _ \<Rightarrow> merge_all lt (merge_pass lt bs))"
  by pat_completeness auto
termination by (relation "measure (length \<circ> snd)") (auto simp: length_merge_pass)

declare merge_all.simps [simp del]

function chunks :: "nat \<Rightarrow> 'a list \<Rightarrow> 'a list list" where
  "chunks n xs = (if xs = [] \<or> n = 0 then [] else take n xs # chunks n (drop n xs))"
  by pat_completeness auto
termination by (relation "measure (length \<circ> snd)") auto

declare chunks.simps [simp del]

definition slice_stable :: "('a \<Rightarrow> 'a \<Rightarrow> bool) \<Rightarrow> 'a list \<Rightarrow> 'a list" where
  "slice_stable lt xs = merge_all lt (map (insertion_sort lt) (chunks 20 xs))"

section \<open>It is a permutation, whatever the comparison\<close>

lemma mset_move_left: "mset (move_left lt x ys) = add_mset x (mset ys)"
  by (induction ys) auto

lemma mset_insertion_sort: "mset (insertion_sort lt xs) = mset xs"
proof -
  have "mset (foldl (\<lambda>acc x. move_left lt x acc) ys xs) = mset ys + mset xs" for ys
    by (induction xs arbitrary: ys) (simp_all add: mset_move_left)
  then show ?thesis by (simp add: insertion_sort_def)
qed

lemma mset_take_drop: "mset (take i xs) + mset (drop i xs) = mset xs"
  by (metis append_take_drop_id mset_append)

lemma mset_sym_rotate: "mset (sym_rotate start fin xs ys) = mset xs + mset ys"
  unfolding sym_rotate_def Let_def
  by (simp add: mset_take_drop [of start xs, symmetric] mset_take_drop [of "fin - length xs" ys, symmetric])

lemma drop_split: "m < n \<Longrightarrow> drop n xs = drop (n - m) (drop m xs)"
  by simp

text \<open>The four cases of a merge.\<close>

lemma sym_merge_short: "length xs < 1 \<or> length ys < 1 \<Longrightarrow> sym_merge lt xs ys = xs @ ys"
  by (subst sym_merge.simps) (simp only: if_True)

lemma sym_merge_left: "length xs = 1 \<Longrightarrow> \<not> length ys < 1 \<Longrightarrow> sym_merge lt xs ys =
    (let i = bsearch (\<lambda>h. lt (ys ! h) (hd xs)) 0 (length ys) in take i ys @ xs @ drop i ys)"
  by (subst sym_merge.simps) simp

lemma sym_merge_right: "length ys = 1 \<Longrightarrow> \<not> length xs < 1 \<Longrightarrow> length xs \<noteq> 1 \<Longrightarrow> sym_merge lt xs ys =
    (let i = bsearch (\<lambda>h. \<not> lt (hd ys) (xs ! h)) 0 (length xs) in take i xs @ ys @ drop i xs)"
  by (subst sym_merge.simps) simp

lemma mset_insert_mid: "mset (take i ys @ zs @ drop i ys) = mset zs + mset ys"
  by (simp add: mset_take_drop [of i ys, symmetric] del: append_take_drop_id)

lemma mset_sym_merge: "mset (sym_merge lt xs ys) = mset xs + mset ys"
proof (induction lt xs ys rule: sym_merge.induct)
  case (1 lt xs ys)
  let ?b = "length xs + length ys"
  let ?mid = "?b div 2"
  let ?start = "sym_start lt xs ys"
  let ?fin = "?mid + length xs - ?start"
  let ?d = "sym_rotate ?start ?fin xs ys"
  consider "length xs < 1 \<or> length ys < 1" | "\<not> (length xs < 1 \<or> length ys < 1)" "length xs = 1"
    | "\<not> (length xs < 1 \<or> length ys < 1)" "length xs \<noteq> 1" "length ys = 1"
    | (big) "\<not> (length xs < 1 \<or> length ys < 1)" "length xs \<noteq> 1" "length ys \<noteq> 1" by blast
  then show ?case
  proof cases
    case 1
    then show ?thesis by (simp only: sym_merge_short mset_append)
  next
    case 2
    then show ?thesis by (subst sym_merge_left) (simp_all only: Let_def mset_insert_mid de_Morgan_disj simp_thms)
  next
    case 3
    then show ?thesis by (subst sym_merge_right) (simp_all only: Let_def mset_insert_mid de_Morgan_disj simp_thms add.commute)
  next
    case big
    have l: "mset (if 0 < ?start \<and> ?start < ?mid then sym_merge lt (take ?start ?d) (drop ?start (take ?mid ?d)) else take ?mid ?d)
        = mset (take ?mid ?d)"
      using 1(1) [OF big refl refl refl refl refl] by (auto simp: mset_take_drop [of ?start "take ?mid ?d", symmetric] min_def)
    have "drop ?fin ?d = drop (?fin - ?mid) (drop ?mid ?d)" if "?mid < ?fin" using that by (rule drop_split)
    then have r: "mset (if ?mid < ?fin \<and> ?fin < ?b then sym_merge lt (take (?fin - ?mid) (drop ?mid ?d)) (drop ?fin ?d) else drop ?mid ?d)
        = mset (drop ?mid ?d)"
      using 1(2) [OF big refl refl refl refl refl] by (auto simp only: mset_take_drop split: if_split)
    show ?thesis
      unfolding sym_merge.simps [of lt xs ys] Let_def if_not_P [OF big(1)] if_not_P [OF big(2)] if_not_P [OF big(3)]
        mset_append l r mset_take_drop mset_sym_rotate ..
  qed
qed

lemma mset_merge_all: "mset (merge_all lt bs) = mset (concat bs)"
proof (induction lt bs rule: merge_all.induct)
  case (1 lt bs)
  have p: "mset (concat (merge_pass lt bs)) = mset (concat bs)" for bs :: "'a list list"
    by (induction lt bs rule: merge_pass.induct) (simp_all add: mset_sym_merge)
  show ?case
  proof -
    consider "bs = []" | xs where "bs = [xs]" | xs ys cs where "bs = xs # ys # cs" by (metis list.exhaust)
    then show ?thesis
    proof cases
      case 3
      with "1.IH" [OF 3] p [of bs] show ?thesis by (subst merge_all.simps) simp
    qed (subst merge_all.simps, simp)+
  qed
qed

lemma concat_chunks: "0 < n \<Longrightarrow> concat (chunks n xs) = xs"
proof (induction n xs rule: chunks.induct)
  case (1 n xs)
  then show ?case by (subst chunks.simps) simp
qed

theorem mset_slice_stable: "mset (slice_stable lt xs) = mset xs"
proof -
  have "mset (concat (map (insertion_sort lt) cs)) = mset (concat cs)" for cs
    by (induction cs) (simp_all add: mset_insertion_sort)
  then show ?thesis by (simp add: slice_stable_def mset_merge_all concat_chunks)
qed

section \<open>It is the stable sort, when the comparison compares keys\<close>

lemma sort_key_unique:
  assumes "mset ys = mset xs" and "\<And>v. filter (\<lambda>x. k x = v) ys = filter (\<lambda>x. k x = v) xs"
  shows "sort_key k ys = sort_key k xs"
proof (rule properties_for_sort_key [symmetric])
  show "mset (sort_key k ys) = mset xs" using assms(1) by simp
  show "filter (\<lambda>x. k z = k x) (sort_key k ys) = filter (\<lambda>x. k z = k x) xs" for z
    using assms(2) [of "k z"] sort_key_stable [of k "k z" ys] by (simp add: eq_commute)
qed simp

lemma sort_key_append:
  assumes "\<And>a b. a \<in> set xs \<Longrightarrow> b \<in> set ys \<Longrightarrow> k a \<le> k b"
  shows "sort_key k (xs @ ys) = sort_key k xs @ sort_key k ys"
proof (rule properties_for_sort_key)
  show "sorted (map k (sort_key k xs @ sort_key k ys))" using assms by (auto simp: sorted_append)
  show "filter (\<lambda>x. k z = k x) (sort_key k xs @ sort_key k ys) = filter (\<lambda>x. k z = k x) (xs @ ys)" for z
    using sort_key_stable [of k "k z"] by (simp add: eq_commute)
qed simp

lemma sort_key_swap:
  assumes "\<And>a b. a \<in> set xs \<Longrightarrow> b \<in> set ys \<Longrightarrow> k b < k a"
  shows "sort_key k (us @ xs @ ys @ vs) = sort_key k (us @ ys @ xs @ vs)"
proof (rule sort_key_unique)
  show "filter (\<lambda>x. k x = v) (us @ xs @ ys @ vs) = filter (\<lambda>x. k x = v) (us @ ys @ xs @ vs)" for v
  proof (cases "\<exists>x \<in> set xs. k x = v")
    case True
    then have "filter (\<lambda>x. k x = v) ys = []" using assms by (fastforce simp: filter_empty_conv)
    then show ?thesis by simp
  next
    case False
    then have "filter (\<lambda>x. k x = v) xs = []" by (auto simp: filter_empty_conv)
    then show ?thesis by simp
  qed
qed simp

lemma sort_key_presorted: "sort_key k (sort_key k xs @ ys) = sort_key k (xs @ ys)"
  by (rule sort_key_unique) (simp_all add: sort_key_stable)

lemma sort_key_presorted2: "sort_key k (sort_key k xs @ sort_key k ys) = sort_key k (xs @ ys)"
  by (rule sort_key_unique) (simp_all add: sort_key_stable)

lemma move_left_key:
  assumes "sorted (map k (rev ys))"
  shows "rev (move_left (\<lambda>a b. k a < k b) x ys) = sort_key k (rev ys @ [x])"
  using assms
proof (induction ys)
  case (Cons y ys)
  then have s: "sorted (map k (rev ys))" and le: "\<And>z. z \<in> set ys \<Longrightarrow> k z \<le> k y"
    by (auto simp: sorted_append)
  show ?case
  proof (cases "k x < k y")
    case True
    have "sort_key k (rev ys @ [y] @ [x] @ []) = sort_key k (rev ys @ [x] @ [y] @ [])"
      using True by (intro sort_key_swap) simp
    also have "\<dots> = sort_key k (rev ys @ [x]) @ [y]"
      using sort_key_append [of "rev ys @ [x]" "[y]" k] le less_imp_le [OF True] by fastforce
    finally show ?thesis using True Cons.IH [OF s] by simp
  next
    case False
    then have "sorted (map k (rev (y # ys) @ [x]))"
      using Cons.prems by (auto simp: sorted_append not_less intro: order_trans [OF le])
    then show ?thesis using False sort_key_id_if_sorted [of k "rev (y # ys) @ [x]"] by simp
  qed
qed simp

lemma insertion_sort_key: "insertion_sort (\<lambda>a b. k a < k b) xs = sort_key k xs"
proof -
  have "rev (foldl (\<lambda>acc x. move_left (\<lambda>a b. k a < k b) x acc) acc xs) = sort_key k (rev acc @ xs)"
    if "sorted (map k (rev acc))" for acc
    using that
  proof (induction xs arbitrary: acc)
    case Nil
    then show ?case by (simp add: sort_key_id_if_sorted)
  next
    case (Cons x xs)
    let ?acc = "move_left (\<lambda>a b. k a < k b) x acc"
    have r: "rev ?acc = sort_key k (rev acc @ [x])" using move_left_key [OF Cons.prems] .
    then have "sorted (map k (rev ?acc))" by simp
    from Cons.IH [OF this] show ?case by (simp add: r sort_key_presorted del: sort_key_simps)
  qed
  from this [of "[]"] show ?thesis by (simp add: insertion_sort_def)
qed

lemma bsearch_range: "i \<le> j \<Longrightarrow> i \<le> bsearch p i j \<and> bsearch p i j \<le> j"
proof (induction p i j rule: bsearch.induct)
  case (1 p i j)
  show ?case
  proof (cases "i < j")
    case True
    then have "i \<le> (i + j) div 2" "(i + j) div 2 < j" by auto
    with 1 True show ?thesis
      by (subst (1 2) bsearch.simps) (cases "p ((i + j) div 2)"; fastforce simp: Let_def)
  next
    case False
    with 1 show ?thesis by (subst (1 2) bsearch.simps) simp
  qed
qed

lemma bsearch_split:
  assumes "\<And>x y. i \<le> x \<Longrightarrow> x \<le> y \<Longrightarrow> y < j \<Longrightarrow> p y \<Longrightarrow> p x" and "i \<le> j"
  shows "(\<forall>x. i \<le> x \<and> x < bsearch p i j \<longrightarrow> p x) \<and> (\<forall>x. bsearch p i j \<le> x \<and> x < j \<longrightarrow> \<not> p x)"
  using assms
proof (induction p i j rule: bsearch.induct)
  case (1 p i j)
  show ?case
  proof (cases "i < j")
    case lt: True
    let ?h = "(i + j) div 2"
    from lt have h: "i \<le> ?h" "?h < j" by auto
    show ?thesis
    proof (cases "p ?h")
      case True
      have "(\<forall>x. ?h + 1 \<le> x \<and> x < bsearch p (?h + 1) j \<longrightarrow> p x) \<and> (\<forall>x. bsearch p (?h + 1) j \<le> x \<and> x < j \<longrightarrow> \<not> p x)"
        using 1(1) [OF lt refl True] 1(3) h by auto
      moreover have "\<forall>x. i \<le> x \<and> x \<le> ?h \<longrightarrow> p x" using 1(3) True h by blast
      moreover have "bsearch p i j = bsearch p (?h + 1) j" using lt True bsearch.simps [of p i j] by (simp add: Let_def)
      moreover have "x \<le> ?h \<or> ?h + 1 \<le> x" for x by arith
      ultimately show ?thesis by metis
    next
      case False
      have "(\<forall>x. i \<le> x \<and> x < bsearch p i ?h \<longrightarrow> p x) \<and> (\<forall>x. bsearch p i ?h \<le> x \<and> x < ?h \<longrightarrow> \<not> p x)"
        using 1(2) [OF lt refl False] 1(3) h by auto
      moreover have "\<forall>x. ?h \<le> x \<and> x < j \<longrightarrow> \<not> p x" using 1(3) False h by blast
      moreover have "bsearch p i j = bsearch p i ?h" using lt False bsearch.simps [of p i j] by (simp add: Let_def)
      moreover have "x < ?h \<or> ?h \<le> x" for x by arith
      ultimately show ?thesis by metis
    qed
  next
    case False
    then show ?thesis by (subst (1 2) bsearch.simps) auto
  qed
qed

lemma sorted_nth_key: "sorted (map k xs) \<Longrightarrow> i \<le> j \<Longrightarrow> j < length xs \<Longrightarrow> k (xs ! i) \<le> k (xs ! j)"
  using sorted_nth_mono [of "map k xs" i j] by simp

text \<open>Where the merge cuts: what goes left is at most, and what it swaps is less than, what goes right.\<close>

lemma sym_start_key:
  assumes xs: "sorted (map k xs)" and ys: "sorted (map k ys)"
  defines "mid \<equiv> (length xs + length ys) div 2" and "s \<equiv> sym_start (\<lambda>a b. k a < k b) xs ys"
  shows "s \<le> length xs" "s \<le> mid" "mid - s \<le> length ys"
    "\<And>a b. a \<in> set (take s xs) \<Longrightarrow> b \<in> set (drop (mid - s) ys) \<Longrightarrow> k a \<le> k b"
    "\<And>a b. a \<in> set (drop s xs) \<Longrightarrow> b \<in> set (take (mid - s) ys) \<Longrightarrow> k b < k a"
proof -
  let ?m = "length xs" and ?b = "length xs + length ys"
  define lo hi where "lo = (if mid < ?m then mid + ?m - ?b else 0)" and "hi = (if mid < ?m then mid else ?m)"
  let ?p = "\<lambda>c. \<not> k ((xs @ ys) ! (mid + ?m - 1 - c)) < k ((xs @ ys) ! c)"
  have s: "s = bsearch ?p lo hi" unfolding s_def sym_start_def lo_def hi_def mid_def Let_def ..
  have r: "lo \<le> hi" "hi \<le> ?m" "hi \<le> mid" "mid - lo \<le> length ys" "lo = 0 \<or> mid - lo = length ys" "hi = mid \<or> hi = ?m"
    by (auto simp: lo_def hi_def mid_def)
  have p: "?p c \<longleftrightarrow> k (xs ! c) \<le> k (ys ! (mid - 1 - c))" "mid - 1 - c < length ys" if "lo \<le> c" "c < hi" for c
  proof -
    have i: "c < ?m" "mid + ?m - 1 - c = ?m + (mid - 1 - c)" using that r by auto
    have "(xs @ ys) ! (?m + z) = ys ! z" for z by (rule nth_append_length_plus)
    then have "(xs @ ys) ! (mid + ?m - 1 - c) = ys ! (mid - 1 - c)" using i(2) by metis
    with i(1) show "?p c \<longleftrightarrow> k (xs ! c) \<le> k (ys ! (mid - 1 - c))" by (simp only: not_less nth_append if_True)
    show "mid - 1 - c < length ys" using that r by auto
  qed
  have mono: "?p x" if "lo \<le> x" "x \<le> y" "y < hi" "?p y" for x y
  proof -
    have "k (xs ! x) \<le> k (xs ! y)" using that r by (intro sorted_nth_key [OF xs]) auto
    also have "\<dots> \<le> k (ys ! (mid - 1 - y))" using that p(1) [of y] by simp
    also have "\<dots> \<le> k (ys ! (mid - 1 - x))" using that p(2) [of x] by (intro sorted_nth_key [OF ys]) auto
    finally show ?thesis using that p(1) [of x] by simp
  qed
  have "(\<forall>x. lo \<le> x \<and> x < s \<longrightarrow> ?p x) \<and> (\<forall>x. s \<le> x \<and> x < hi \<longrightarrow> \<not> ?p x)"
    unfolding s by (rule bsearch_split [OF _ r(1)]) (rule mono)
  then have sp: "\<And>x. lo \<le> x \<Longrightarrow> x < s \<Longrightarrow> ?p x" "\<And>x. s \<le> x \<Longrightarrow> x < hi \<Longrightarrow> \<not> ?p x" by blast+
  have sr: "lo \<le> s" "s \<le> hi" using bsearch_range [OF r(1), of ?p] unfolding s by auto
  then show "s \<le> ?m" "s \<le> mid" "mid - s \<le> length ys" using r by auto
  show "k a \<le> k b" if ab: "a \<in> set (take s xs)" "b \<in> set (drop (mid - s) ys)" for a b
  proof -
    from ab obtain i j where ij: "i < s" "i < ?m" "a = xs ! i" "mid - s \<le> j" "j < length ys" "b = ys ! j"
      by (auto simp: in_set_conv_nth) (metis add.commute le_add1 less_diff_conv)
    then have "lo < s" using r sr by auto
    then have "k (xs ! (s - 1)) \<le> k (ys ! (mid - s))" using sp(1) [of "s - 1"] p(1) [of "s - 1"] sr by simp
    moreover have "k a \<le> k (xs ! (s - 1))" using ij sr r sorted_nth_key [OF xs, of i "s - 1"] by simp
    moreover have "k (ys ! (mid - s)) \<le> k b" using ij sorted_nth_key [OF ys, of "mid - s" j] by simp
    ultimately show ?thesis by order
  qed
  show "k b < k a" if ab: "a \<in> set (drop s xs)" "b \<in> set (take (mid - s) ys)" for a b
  proof -
    from ab obtain i j where ij: "s \<le> i" "i < ?m" "a = xs ! i" "j < mid - s" "j < length ys" "b = ys ! j"
      by (auto simp: in_set_conv_nth) (metis add.commute le_add1 less_diff_conv)
    then have "s < hi" using r sr by auto
    then have "k (ys ! (mid - 1 - s)) < k (xs ! s)" using sp(2) [of s] p(1) [of s] sr by simp
    moreover have "k (xs ! s) \<le> k a" using ij sorted_nth_key [OF xs, of s i] by simp
    moreover have "k b \<le> k (ys ! (mid - 1 - s))"
      using ij p(2) [of s] \<open>s < hi\<close> sr sorted_nth_key [OF ys, of j "mid - 1 - s"] by simp
    ultimately show ?thesis by order
  qed
qed

lemma sym_rotate_split:
  assumes "s \<le> length xs" "s \<le> mid" "mid - s \<le> length ys"
  shows "sym_rotate s (mid + length xs - s) xs ys = (take s xs @ take (mid - s) ys) @ (drop s xs @ drop (mid - s) ys)"
    and "length (take s xs @ take (mid - s) ys) = mid"
proof -
  have "mid + length xs - s - length xs = mid - s" by simp
  moreover have "length xs < mid + length xs - s \<longleftrightarrow> s < mid" using assms by auto
  ultimately show "sym_rotate s (mid + length xs - s) xs ys = (take s xs @ take (mid - s) ys) @ (drop s xs @ drop (mid - s) ys)"
    using assms by (auto simp: sym_rotate_def Let_def)
  show "length (take s xs @ take (mid - s) ys) = mid" using assms by simp
qed

lemma sorted_key_take_drop:
  "sorted (map k xs) \<Longrightarrow> sorted (map k (take i xs))" "sorted (map k xs) \<Longrightarrow> sorted (map k (drop i xs))"
  "sorted (map k xs) \<Longrightarrow> a \<in> set (take i xs) \<Longrightarrow> b \<in> set (drop i xs) \<Longrightarrow> k a \<le> k b"
proof -
  assume "sorted (map k xs)"
  then have "sorted (map k (take i xs @ drop i xs))" by simp
  then show "sorted (map k (take i xs))" "sorted (map k (drop i xs))"
    "a \<in> set (take i xs) \<Longrightarrow> b \<in> set (drop i xs) \<Longrightarrow> k a \<le> k b"
    by (auto simp only: map_append sorted_append set_map ball_simps)
qed

theorem sym_merge_key:
  assumes "sorted (map k xs)" "sorted (map k ys)"
  shows "sym_merge (\<lambda>a b. k a < k b) xs ys = sort_key k (xs @ ys)"
  using assms
proof (induction "length xs + length ys" arbitrary: xs ys rule: less_induct)
  case less
  note xs = less.prems(1) and ys = less.prems(2)
  let ?lt = "\<lambda>a b. k a < k b"
  consider (short) "length xs < 1 \<or> length ys < 1" | (left) "\<not> length ys < 1" "length xs = 1"
    | (right) "\<not> length xs < 1" "length xs \<noteq> 1" "length ys = 1"
    | (big) "\<not> (length xs < 1 \<or> length ys < 1)" "length xs \<noteq> 1" "length ys \<noteq> 1" by blast
  then show ?case
  proof cases
    case short
    then have "xs @ ys = xs \<or> xs @ ys = ys" by auto
    with xs ys have "sorted (map k (xs @ ys))" by metis
    then show ?thesis unfolding sym_merge_short [OF short] by (rule sort_key_id_if_sorted [symmetric])
  next
    case left
    then obtain x where x: "xs = [x]" by (auto simp: length_Suc_conv)
    let ?p = "\<lambda>h. k (ys ! h) < k x"
    define i where "i = bsearch ?p 0 (length ys)"
    have i: "i \<le> length ys" using bsearch_range [of 0 "length ys" ?p] by (simp add: i_def)
    have p: "(\<forall>h. 0 \<le> h \<and> h < i \<longrightarrow> ?p h) \<and> (\<forall>h. i \<le> h \<and> h < length ys \<longrightarrow> \<not> ?p h)"
      unfolding i_def by (rule bsearch_split) (auto intro: order.strict_trans1 sorted_nth_key [OF ys])
    then have lt: "k a < k x" if "a \<in> set (take i ys)" for a using that by (auto simp: in_set_conv_nth)
    have ge: "k x \<le> k a" if "a \<in> set (drop i ys)" for a
      using that p i by (auto simp: in_set_conv_nth not_less)
    have "sort_key k ([] @ [x] @ take i ys @ drop i ys) = sort_key k ([] @ take i ys @ [x] @ drop i ys)"
      using lt by (intro sort_key_swap) simp
    also have "\<dots> = take i ys @ [x] @ drop i ys"
      using sorted_key_take_drop [OF ys] lt ge unfolding append_Nil
      by (intro sort_key_id_if_sorted) (auto simp del: append_take_drop_id simp: sorted_append less_imp_le)
    finally show ?thesis using left by (subst sym_merge_left) (simp_all add: x i_def [symmetric] Let_def)
  next
    case right
    then obtain y where y: "ys = [y]" by (auto simp: length_Suc_conv)
    let ?p = "\<lambda>h. \<not> k y < k (xs ! h)"
    define i where "i = bsearch ?p 0 (length xs)"
    have i: "i \<le> length xs" using bsearch_range [of 0 "length xs" ?p] by (simp add: i_def)
    have p: "(\<forall>h. 0 \<le> h \<and> h < i \<longrightarrow> ?p h) \<and> (\<forall>h. i \<le> h \<and> h < length xs \<longrightarrow> \<not> ?p h)"
      unfolding i_def by (rule bsearch_split) (auto simp: not_less intro: order_trans sorted_nth_key [OF xs])
    then have le: "k a \<le> k y" if "a \<in> set (take i xs)" for a using that by (auto simp: in_set_conv_nth not_less)
    have gt: "k y < k a" if "a \<in> set (drop i xs)" for a using that p i by (auto simp: in_set_conv_nth)
    have "sort_key k (take i xs @ drop i xs @ [y] @ []) = sort_key k (take i xs @ [y] @ drop i xs @ [])"
      using gt by (intro sort_key_swap) simp
    also have "\<dots> = take i xs @ [y] @ drop i xs"
      using sorted_key_take_drop [OF xs] le gt unfolding append_Nil2
      by (intro sort_key_id_if_sorted) (auto simp del: append_take_drop_id simp: sorted_append less_imp_le)
    finally show ?thesis using right by (subst sym_merge_right) (simp_all add: y i_def [symmetric] Let_def flip: append_assoc)
  next
    case big
    define b mid s where "b = length xs + length ys" and "mid = b div 2" and "s = sym_start ?lt xs ys"
    note st = sym_start_key [OF xs ys, folded b_def, folded mid_def s_def]
    let ?l1 = "take s xs" and ?l2 = "take (mid - s) ys" and ?r1 = "drop s xs" and ?r2 = "drop (mid - s) ys"
    note d = sym_rotate_split [OF st(1-3)]
    have "2 \<le> b" using big by (simp only: b_def) arith
    then have m: "0 < mid" "mid < b" by (auto simp: mid_def)
    let ?left = "if 0 < s \<and> s < mid then sym_merge ?lt ?l1 ?l2 else ?l1 @ ?l2"
    let ?fin = "mid + length xs - s"
    let ?right = "if mid < ?fin \<and> ?fin < b then sym_merge ?lt ?r1 ?r2 else ?r1 @ ?r2"
    have "sym_merge ?lt xs ys = ?left @ ?right"
    proof -
      let ?d = "sym_rotate s ?fin xs ys"
      have cut: "length as = n \<Longrightarrow> take n (as @ bs) = as \<and> drop n (as @ bs) = bs" for n and as bs :: "'z list" by auto
      have t: "take mid ?d = ?l1 @ ?l2" "drop mid ?d = ?r1 @ ?r2" unfolding d(1) using cut [OF d(2)] by blast+
      have "take s ?d = ?l1" using st(1) by (simp add: d(1))
      moreover have "drop s (take mid ?d) = ?l2" using st(1) by (simp add: t(1))
      moreover have "take (?fin - mid) (drop mid ?d) = ?r1" unfolding t(2) using st(1) by simp
      moreover have "drop ?fin ?d = ?r2" if "mid < ?fin"
        using that st(1) by (simp add: drop_split [OF that] t(2))
      ultimately show ?thesis
        by (subst sym_merge.simps) (simp only: Let_def if_not_P [OF big(1)] if_not_P [OF big(2)] if_not_P [OF big(3)]
          b_def [symmetric] mid_def [symmetric] s_def [symmetric] t cong: if_cong)
    qed
    also have "?left = sort_key k (?l1 @ ?l2)"
    proof (cases "0 < s \<and> s < mid")
      case True
      have "length ?l1 + length ?l2 < length xs + length ys" using d(2) m by (simp add: b_def)
      with True show ?thesis using less.hyps [of ?l1 ?l2] sorted_key_take_drop [OF xs] sorted_key_take_drop [OF ys] by simp
    next
      case False
      with st(2) have "?l1 @ ?l2 = ?l1 \<or> ?l1 @ ?l2 = ?l2" by auto
      then have "sorted (map k (?l1 @ ?l2))" using sorted_key_take_drop(1) [OF xs, of s] sorted_key_take_drop(1) [OF ys, of "mid - s"]
        by (elim disjE) (simp_all only:)
      with False show ?thesis by (simp only: if_False sort_key_id_if_sorted)
    qed
    also have "?right = sort_key k (?r1 @ ?r2)"
    proof (cases "mid < ?fin \<and> ?fin < b")
      case True
      have "length ?r1 + length ?r2 < length xs + length ys" using st(1-3) m by (simp add: b_def)
      with True show ?thesis using less.hyps [of ?r1 ?r2] sorted_key_take_drop [OF xs] sorted_key_take_drop [OF ys] by simp
    next
      case False
      then have "?r1 = [] \<or> ?r2 = []" using st(1-3) by (auto simp: b_def)
      then have "?r1 @ ?r2 = ?r2 \<or> ?r1 @ ?r2 = ?r1" by (elim disjE) (simp_all only: append_Nil append_Nil2 simp_thms)
      then have "sorted (map k (?r1 @ ?r2))" using sorted_key_take_drop(2) [OF xs, of s] sorted_key_take_drop(2) [OF ys, of "mid - s"]
        by (elim disjE) (simp_all only:)
      with False show ?thesis by (simp only: if_False sort_key_id_if_sorted)
    qed
    also have "sort_key k (?l1 @ ?l2) @ sort_key k (?r1 @ ?r2) = sort_key k (?l1 @ ?l2 @ ?r1 @ ?r2)"
    proof -
      have le: "k a \<le> k c" if "a \<in> set (?l1 @ ?l2)" "c \<in> set (?r1 @ ?r2)" for a c
        using that st(4) [of a c] less_imp_le [OF st(5) [of c a]] sorted_key_take_drop(3) [OF xs, of a s c]
          sorted_key_take_drop(3) [OF ys, of a "mid - s" c] by auto
      have "sort_key k ((?l1 @ ?l2) @ (?r1 @ ?r2)) = sort_key k (?l1 @ ?l2) @ sort_key k (?r1 @ ?r2)"
        by (rule sort_key_append) (rule le)
      then show ?thesis by simp
    qed
    also have "\<dots> = sort_key k (?l1 @ ?r1 @ ?l2 @ ?r2)" using st(5) by (intro sort_key_swap [symmetric])
    also have "?l1 @ ?r1 @ ?l2 @ ?r2 = xs @ ys" by (simp flip: append_assoc)
    finally show ?thesis .
  qed
qed

lemma merge_pass_key:
  "list_all (\<lambda>b. sorted (map k b)) bs \<Longrightarrow> list_all (\<lambda>b. sorted (map k b)) (merge_pass (\<lambda>a b. k a < k b) bs) \<and>
    sort_key k (concat (merge_pass (\<lambda>a b. k a < k b) bs)) = sort_key k (concat bs)"
proof (induction "\<lambda>a b. k a < k b" bs rule: merge_pass.induct)
  case (1 xs ys bs)
  then have "sort_key k (concat (merge_pass (\<lambda>a b. k a < k b) bs)) = sort_key k (concat bs)" by simp
  then have "sort_key k (sort_key k (xs @ ys) @ concat (merge_pass (\<lambda>a b. k a < k b) bs)) = sort_key k ((xs @ ys) @ concat bs)"
    using sort_key_presorted2 [of k "xs @ ys"] by (metis sort_key_presorted)
  with 1 show ?case by (simp add: sym_merge_key)
qed simp_all

lemma merge_all_key:
  "list_all (\<lambda>b. sorted (map k b)) bs \<Longrightarrow> merge_all (\<lambda>a b. k a < k b) bs = sort_key k (concat bs)"
proof (induction "\<lambda>a b. k a < k b" bs rule: merge_all.induct)
  case (1 bs)
  consider "bs = []" | xs where "bs = [xs]" | (more) xs ys cs where "bs = xs # ys # cs" by (metis list.exhaust)
  then show ?case
  proof cases
    case more
    then have "merge_all (\<lambda>a b. k a < k b) bs = merge_all (\<lambda>a b. k a < k b) (merge_pass (\<lambda>a b. k a < k b) bs)"
      by (subst merge_all.simps) simp
    also have "\<dots> = sort_key k (concat bs)" using "1.hyps" [OF more] "1.prems" merge_pass_key [of k bs] more by simp
    finally show ?thesis .
  qed (use "1.prems" in \<open>subst merge_all.simps, simp add: sort_key_id_if_sorted\<close>)+
qed

text \<open>So \<open>sort.SliceStable\<close>, called with a comparison of keys, is the stable sort by that key.\<close>

theorem slice_stable_key: "slice_stable (\<lambda>a b. k a < k b) xs = sort_key k xs"
proof -
  have "sort_key k (concat (map (sort_key k) cs)) = sort_key k (concat cs)" for cs
    by (induction cs) (simp_all, metis sort_key_presorted sort_key_presorted2)
  moreover have "insertion_sort (\<lambda>a b. k a < k b) = sort_key k" by (rule ext) (rule insertion_sort_key)
  ultimately show ?thesis
    unfolding slice_stable_def
    by (subst merge_all_key) (simp_all add: list_all_iff concat_chunks)
qed

section \<open>Only comparisons of elements of the slice matter\<close>

definition agree :: "('a \<Rightarrow> 'a \<Rightarrow> bool) \<Rightarrow> ('a \<Rightarrow> 'a \<Rightarrow> bool) \<Rightarrow> 'a set \<Rightarrow> bool" where
  "agree lt lt' A \<longleftrightarrow> (\<forall>a \<in> A. \<forall>b \<in> A. lt a b = lt' a b)"

lemma agree_subset: "agree lt lt' A \<Longrightarrow> B \<subseteq> A \<Longrightarrow> agree lt lt' B"
  by (auto simp: agree_def)

lemma bsearch_cong: "(\<And>h. i \<le> h \<Longrightarrow> h < j \<Longrightarrow> p h = q h) \<Longrightarrow> bsearch p i j = bsearch q i j"
proof (induction p i j rule: bsearch.induct)
  case (1 p i j)
  show ?case
  proof (cases "i < j")
    case True
    then have h: "i \<le> (i + j) div 2" "(i + j) div 2 < j" by auto
    then have e: "p ((i + j) div 2) = q ((i + j) div 2)" using 1(3) by blast
    have a: "p ((i + j) div 2) \<Longrightarrow> bsearch p ((i + j) div 2 + 1) j = bsearch q ((i + j) div 2 + 1) j"
      by (rule 1(1) [OF True refl]) (use 1(3) h in auto)
    have b: "\<not> p ((i + j) div 2) \<Longrightarrow> bsearch p i ((i + j) div 2) = bsearch q i ((i + j) div 2)"
      by (rule 1(2) [OF True refl]) (use 1(3) h in auto)
    show ?thesis using True e a b bsearch.simps [of p i j] bsearch.simps [of q i j] by (simp add: Let_def)
  next
    case False
    then show ?thesis using bsearch.simps [of p i j] bsearch.simps [of q i j] by simp
  qed
qed

lemma sym_start_cong:
  assumes "agree lt lt' (set xs \<union> set ys)"
  shows "sym_start lt xs ys = sym_start lt' xs ys"
  unfolding sym_start_def Let_def
proof (rule bsearch_cong)
  fix h
  let ?m = "length xs" and ?b = "length xs + length ys"
  let ?mid = "?b div 2"
  assume h: "(if ?mid < ?m then ?mid + ?m - ?b else 0) \<le> h" "h < (if ?mid < ?m then ?mid else ?m)"
  then have "h < length (xs @ ys)" "?mid + ?m - 1 - h < length (xs @ ys)" by (auto split: if_splits)
  then have "(xs @ ys) ! h \<in> set xs \<union> set ys" "(xs @ ys) ! (?mid + ?m - 1 - h) \<in> set xs \<union> set ys"
    by (metis nth_mem set_append)+
  with assms show "(\<not> lt ((xs @ ys) ! (?mid + ?m - 1 - h)) ((xs @ ys) ! h)) = (\<not> lt' ((xs @ ys) ! (?mid + ?m - 1 - h)) ((xs @ ys) ! h))"
    unfolding agree_def by blast
qed

lemma set_sym_rotate: "set (sym_rotate s f xs ys) = set xs \<union> set ys"
  using mset_sym_rotate [of s f xs ys] by (metis set_mset_mset set_mset_union)

lemma sym_merge_cong: "agree lt lt' (set xs \<union> set ys) \<Longrightarrow> sym_merge lt xs ys = sym_merge lt' xs ys"
proof (induction lt xs ys rule: sym_merge.induct)
  case (1 lt xs ys)
  let ?b = "length xs + length ys"
  let ?mid = "?b div 2"
  let ?start = "sym_start lt xs ys"
  let ?fin = "?mid + length xs - ?start"
  let ?d = "sym_rotate ?start ?fin xs ys"
  have e: "lt a b = lt' a b" if "a \<in> set xs \<union> set ys" "b \<in> set xs \<union> set ys" for a b
    using 1(3) that unfolding agree_def by blast
  consider (short) "length xs < 1 \<or> length ys < 1" | (left) "\<not> length ys < 1" "length xs = 1"
    | (right) "\<not> length xs < 1" "length xs \<noteq> 1" "length ys = 1"
    | (big) "\<not> (length xs < 1 \<or> length ys < 1)" "length xs \<noteq> 1" "length ys \<noteq> 1" by blast
  then show ?case
  proof cases
    case short
    then show ?thesis by (simp only: sym_merge_short)
  next
    case left
    have "bsearch (\<lambda>h. lt (ys ! h) (hd xs)) 0 (length ys) = bsearch (\<lambda>h. lt' (ys ! h) (hd xs)) 0 (length ys)"
      using left by (intro bsearch_cong e) (cases xs; simp)+
    then show ?thesis unfolding sym_merge_left [OF left(2,1)] by (simp only:)
  next
    case right
    have "lt (hd ys) (xs ! h) = lt' (hd ys) (xs ! h)" if "h < length xs" for h
      using right that by (intro e) (cases ys; simp)+
    then have "bsearch (\<lambda>h. \<not> lt (hd ys) (xs ! h)) 0 (length xs) = bsearch (\<lambda>h. \<not> lt' (hd ys) (xs ! h)) 0 (length xs)"
      by (intro bsearch_cong) simp
    then show ?thesis unfolding sym_merge_right [OF right(3,1,2)] by (simp only:)
  next
    case big
    have sub: "set (take i zs) \<subseteq> set zs" "set (drop i zs) \<subseteq> set zs" for i and zs :: "'a list"
      by (simp_all add: set_take_subset set_drop_subset)
    have d: "set ?d \<subseteq> set xs \<union> set ys" by (simp add: set_sym_rotate)
    have "set (take ?start ?d) \<union> set (drop ?start (take ?mid ?d)) \<subseteq> set xs \<union> set ys"
      using d sub(1) [of ?start ?d] sub(2) [of ?start "take ?mid ?d"] sub(1) [of ?mid ?d] by (simp only: Un_subset_iff) (meson order_trans)
    note l = 1(1) [OF big refl refl refl refl refl _ agree_subset [OF 1(3) this]]
    have "set (take (?fin - ?mid) (drop ?mid ?d)) \<union> set (drop ?fin ?d) \<subseteq> set xs \<union> set ys"
      using d sub(1) [of "?fin - ?mid" "drop ?mid ?d"] sub(2) [of ?mid ?d] sub(2) [of ?fin ?d] by (simp only: Un_subset_iff) (meson order_trans)
    note r = 1(2) [OF big refl refl refl refl refl _ agree_subset [OF 1(3) this]]
    show ?thesis
      unfolding sym_merge.simps [of lt xs ys] sym_merge.simps [of lt' xs ys] Let_def sym_start_cong [OF 1(3), symmetric]
        if_not_P [OF big(1)] if_not_P [OF big(2)] if_not_P [OF big(3)]
      by (rule arg_cong2 [of _ _ _ _ "(@)"]; rule if_cong [OF refl _ refl]) (erule l, erule r)
  qed
qed

lemma merge_all_cong: "agree lt lt' (set (concat bs)) \<Longrightarrow> merge_all lt bs = merge_all lt' bs"
proof (induction lt bs rule: merge_all.induct)
  case (1 lt bs)
  have p: "agree lt lt' (set (concat bs)) \<Longrightarrow> merge_pass lt bs = merge_pass lt' bs" for bs
    by (induction lt bs rule: merge_pass.induct) (auto intro!: sym_merge_cong simp: agree_def)
  have s: "set (concat (merge_pass lt bs)) = set (concat bs)" for bs :: "'a list list"
    by (induction lt bs rule: merge_pass.induct) (auto simp flip: set_mset_mset simp: mset_sym_merge)
  consider "bs = []" | xs where "bs = [xs]" | (more) xs ys cs where "bs = xs # ys # cs" by (metis list.exhaust)
  then show ?case
  proof cases
    case more
    have "merge_all f bs = merge_all f (merge_pass f bs)" for f :: "'a \<Rightarrow> 'a \<Rightarrow> bool"
      using more by (subst merge_all.simps) simp
    moreover have "merge_all lt (merge_pass lt bs) = merge_all lt' (merge_pass lt bs)"
      using "1.IH" [OF more] "1.prems" by (simp only: s more [symmetric])
    ultimately show ?thesis using p [OF "1.prems"] by simp
  qed (subst (1 2) merge_all.simps, simp)+
qed

lemma insertion_sort_cong: "agree lt lt' (set xs) \<Longrightarrow> insertion_sort lt xs = insertion_sort lt' xs"
proof -
  have m: "agree lt lt' (insert x (set ys)) \<Longrightarrow> move_left lt x ys = move_left lt' x ys" for x ys
    by (induction ys) (auto simp: agree_def)
  have s: "set (move_left lt x ys) = insert x (set ys)" for x ys
    by (induction ys) auto
  have "agree lt lt' (set acc \<union> set xs) \<Longrightarrow> foldl (\<lambda>acc x. move_left lt x acc) acc xs = foldl (\<lambda>acc x. move_left lt' x acc) acc xs" for acc xs
  proof (induction xs arbitrary: acc)
    case (Cons x xs)
    then have "move_left lt x acc = move_left lt' x acc" by (intro m) (auto simp: agree_def)
    moreover have "agree lt lt' (set (move_left lt x acc) \<union> set xs)" using Cons.prems by (auto simp: s agree_def)
    ultimately show ?case using Cons.IH by simp
  qed simp
  from this [of "[]"] show "agree lt lt' (set xs) \<Longrightarrow> ?thesis" by (simp add: insertion_sort_def)
qed

theorem slice_stable_cong:
  assumes "agree lt lt' (set xs)"
  shows "slice_stable lt xs = slice_stable lt' xs"
proof -
  have "set c \<subseteq> set xs" if "c \<in> set (chunks 20 xs)" for c
    using that concat_chunks [of 20 xs] by (metis UN_upper set_concat zero_less_numeral)
  then have e: "map (insertion_sort lt) (chunks 20 xs) = map (insertion_sort lt') (chunks 20 xs)"
    using assms by (intro map_cong refl insertion_sort_cong) (auto intro: agree_subset)
  have "set (insertion_sort lt' c) = set c" for c
    by (metis mset_insertion_sort set_mset_mset)
  then have "set (concat (map (insertion_sort lt') (chunks 20 xs))) = set xs"
    using concat_chunks [of 20 xs] by (simp) (metis set_concat)
  then show ?thesis using assms unfolding slice_stable_def e by (intro merge_all_cong) simp
qed

text \<open>A comparison that compares keys on the elements at hand sorts by them.\<close>

theorem slice_stable_key_on:
  "(\<And>a b. a \<in> set xs \<Longrightarrow> b \<in> set xs \<Longrightarrow> lt a b = (k a < k b)) \<Longrightarrow> slice_stable lt xs = sort_key k xs"
  unfolding slice_stable_key [symmetric] by (rule slice_stable_cong) (simp add: agree_def)

lemma chunks_short: "length xs \<le> n \<Longrightarrow> xs \<noteq> [] \<Longrightarrow> chunks n xs = [xs]"
  by (subst chunks.simps, subst chunks.simps) (cases n; simp)

lemma chunks_Nil [simp]: "chunks n [] = []"
  by (subst chunks.simps) simp

lemma merge_all_simple [simp]: "merge_all lt [] = []" "merge_all lt [xs] = xs"
  by (subst merge_all.simps, simp)+

lemma slice_stable_short: "length xs \<le> 20 \<Longrightarrow> slice_stable lt xs = insertion_sort lt xs"
  by (cases "xs = []") (simp_all add: slice_stable_def chunks_short insertion_sort_def)

end
