(* ===== verification/GoNet.thy ===== *)
theory GoNet
  imports GoStrings
begin

text \<open>
  The parts of \<open>net\<close>, \<open>net/url\<close> and \<open>path/filepath\<close> the HTTP layer uses: parsing and printing of IP addresses,
  splitting a host from a port, and the escaping of query strings and path segments, with the
  inverse of the query escape.
\<close>

section \<open>IP addresses\<close>

text \<open>\<open>net.IP\<close> as \<open>net.ParseIP\<close> returns it: the eight 16-bit groups, IPv4 mapped into \<open>::ffff:0:0/96\<close>.\<close>

type_synonym ip = "nat list"

text \<open>One field of an IPv4 address: decimal, at most 255, no leading zero.\<close>

definition ipv4_field :: "string \<Rightarrow> nat option" where
  "ipv4_field s = (if s = '''' \<or> 1 < length s \<and> hd s = CHR ''0'' \<or> 3 < length s then None
    else case digits_val 0 s of None \<Rightarrow> None | Some v \<Rightarrow> if v \<le> 255 then Some v else None)"

definition parse_ipv4 :: "string \<Rightarrow> (nat \<times> nat) option" where
  "parse_ipv4 s = (case map ipv4_field (split_char CHR ''.'' s) of
      [Some a, Some b, Some c, Some d] \<Rightarrow> Some (256 * a + b, 256 * c + d) | _ \<Rightarrow> None)"

definition hex_val :: "char \<Rightarrow> nat option" where
  "hex_val c = (let b = of_char c :: nat in
    if 48 \<le> b \<and> b \<le> 57 then Some (b - 48) else if 97 \<le> b \<and> b \<le> 102 then Some (b - 87)
    else if 65 \<le> b \<and> b \<le> 70 then Some (b - 55) else None)"

text \<open>The leading hexadecimal digits: their value, how many there are, and the rest.\<close>

fun hex_digits :: "nat \<Rightarrow> nat \<Rightarrow> string \<Rightarrow> nat \<times> nat \<times> string" where
  "hex_digits v n [] = (v, n, [])"
| "hex_digits v n (c # cs) = (case hex_val c of None \<Rightarrow> (v, n, c # cs) | Some d \<Rightarrow> hex_digits (16 * v + d) (n + 1) cs)"

text \<open>The loop of \<open>netip.parseIPv6\<close> with \<open>k\<close> groups to go: the groups so far, where the \<open>::\<close> was,
  the input left.\<close>

fun ipv6_loop :: "nat \<Rightarrow> nat list \<Rightarrow> nat option \<Rightarrow> string \<Rightarrow> (nat list \<times> nat option \<times> string) option" where
  "ipv6_loop 0 gs ell s = Some (gs, ell, s)"
| "ipv6_loop (Suc k) gs ell s = (case hex_digits 0 0 s of (v, n, rest) \<Rightarrow>
    if n = 0 \<or> 4 < n then None
    else if rest \<noteq> [] \<and> hd rest = CHR ''.'' then
      (if ell = None \<and> length gs \<noteq> 6 \<or> k = 0 then None
       else case parse_ipv4 s of None \<Rightarrow> None | Some (a, b) \<Rightarrow> Some (gs @ [a, b], ell, []))
    else (case rest of [] \<Rightarrow> Some (gs @ [v], ell, [])
      | c # cs \<Rightarrow> if c \<noteq> CHR '':'' \<or> cs = [] then None
          else if hd cs = CHR '':'' then
            (if ell \<noteq> None then None
             else if tl cs = [] then Some (gs @ [v], Some (length gs + 1), [])
             else ipv6_loop k (gs @ [v]) (Some (length gs + 1)) (tl cs))
          else ipv6_loop k (gs @ [v]) ell cs))"

definition expand_ipv6 :: "nat list \<Rightarrow> nat option \<Rightarrow> ip option" where
  "expand_ipv6 gs ell = (case ell of
      None \<Rightarrow> if length gs = 8 then Some gs else None
    | Some i \<Rightarrow> if length gs < 8 then Some (take i gs @ replicate (8 - length gs) 0 @ drop i gs) else None)"

definition parse_ipv6 :: "string \<Rightarrow> ip option" where
  "parse_ipv6 s0 = (let (ell, s) = (if has_prefix s0 ''::'' then (Some 0, drop 2 s0) else (None, s0)) in
    if ell \<noteq> None \<and> s = '''' then Some (replicate 8 0)
    else case ipv6_loop 8 [] ell s of None \<Rightarrow> None
      | Some (gs, ell', rest) \<Rightarrow> if rest = '''' then expand_ipv6 gs ell' else None)"

text \<open>\<open>net.ParseIP\<close>: the first dot or colon decides the family; a zone makes it fail.\<close>

definition parse_ip :: "string \<Rightarrow> ip option" where
  "parse_ip s = (case List.find (\<lambda>c. c \<in> {CHR ''.'', CHR '':'', CHR ''%''}) s of
      Some c \<Rightarrow> if c = CHR ''.'' then map_option (\<lambda>(a, b). [0, 0, 0, 0, 0, 0xffff, a, b]) (parse_ipv4 s)
        else if c = CHR '':'' \<and> CHR ''%'' \<notin> set s then parse_ipv6 s else None
    | None \<Rightarrow> None)"

definition is_ipv4 :: "ip \<Rightarrow> bool" where
  "is_ipv4 i \<longleftrightarrow> take 6 i = [0, 0, 0, 0, 0, 0xffff]"

definition is_loopback :: "ip \<Rightarrow> bool" where
  "is_loopback i \<longleftrightarrow> (if is_ipv4 i then i ! 6 div 256 = 127 else i = [0, 0, 0, 0, 0, 0, 0, 1])"

text \<open>\<open>IP.String\<close>: dotted for IPv4, else lower-case groups with the first longest run of at least two zero
  groups cut.\<close>

fun show_hex :: "nat \<Rightarrow> string" where
  "show_hex n = (if n < 16 then [''0123456789abcdef'' ! n] else show_hex (n div 16) @ [''0123456789abcdef'' ! (n mod 16)])"

declare show_hex.simps [simp del]

definition zero_run :: "ip \<Rightarrow> nat \<Rightarrow> nat" where
  "zero_run i k = length (takeWhile (\<lambda>g. g = 0) (drop k i))"

definition longest_run :: "ip \<Rightarrow> nat option" where
  "longest_run i = (let m = Max (set (map (zero_run i) [0..<8])) in
    if m < 2 then None else List.find (\<lambda>k. zero_run i k = m) [0..<8])"

definition show_groups :: "ip \<Rightarrow> string" where
  "show_groups gs = join '':'' (map show_hex gs)"

definition show_ip :: "ip \<Rightarrow> string" where
  "show_ip i = (if is_ipv4 i then join ''.'' (map show_nat [i ! 6 div 256, i ! 6 mod 256, i ! 7 div 256, i ! 7 mod 256])
    else case longest_run i of None \<Rightarrow> show_groups i
      | Some k \<Rightarrow> show_groups (take k i) @ ''::'' @ show_groups (drop (k + zero_run i k) i))"

section \<open>Host and port\<close>

definition index_char :: "char \<Rightarrow> string \<Rightarrow> nat option" where
  "index_char c s = List.find (\<lambda>i. s ! i = c) [0..<length s]"

definition last_index_char :: "char \<Rightarrow> string \<Rightarrow> nat option" where
  "last_index_char c s = List.find (\<lambda>i. s ! i = c) (rev [0..<length s])"

text \<open>\<open>net.SplitHostPort\<close>, \<open>None\<close> for every one of its errors.\<close>

definition split_host_port :: "string \<Rightarrow> (string \<times> string) option" where
  "split_host_port s = (case last_index_char CHR '':'' s of None \<Rightarrow> None | Some i \<Rightarrow>
    if hd s = CHR ''['' then
      (case index_char CHR '']'' s of None \<Rightarrow> None
       | Some end \<Rightarrow> if end + 1 \<noteq> i then None
           else if CHR ''['' \<in> set (drop 1 s) \<or> CHR '']'' \<in> set (drop (end + 1) s) then None
           else Some (take (end - 1) (drop 1 s), drop (i + 1) s))
    else if CHR '':'' \<in> set (take i s) \<or> CHR ''['' \<in> set s \<or> CHR '']'' \<in> set s then None
    else Some (take i s, drop (i + 1) s))"

section \<open>Escaping\<close>

definition upper_hex :: "nat \<Rightarrow> char" where
  "upper_hex d = ''0123456789ABCDEF'' ! d"

definition percent :: "char \<Rightarrow> string" where
  "percent c = (let b = of_char c :: nat in [CHR ''%'', upper_hex (b div 16), upper_hex (b mod 16)])"

definition unreserved :: "char \<Rightarrow> bool" where
  "unreserved c \<longleftrightarrow> (let b = of_char c :: nat in
    65 \<le> b \<and> b \<le> 90 \<or> 97 \<le> b \<and> b \<le> 122 \<or> 48 \<le> b \<and> b \<le> 57 \<or> c \<in> set ''-_.~'')"

text \<open>\<open>url.QueryEscape\<close>, its inverse \<open>url.QueryUnescape\<close>, and \<open>url.PathEscape\<close>.\<close>

definition query_escape :: "string \<Rightarrow> string" where
  "query_escape s = concat (map (\<lambda>c. if unreserved c then [c] else if c = CHR '' '' then ''+'' else percent c) s)"

definition path_escape :: "string \<Rightarrow> string" where
  "path_escape s = concat (map (\<lambda>c. if unreserved c \<or> c \<in> set ''$&+:=@'' then [c] else percent c) s)"

fun query_unescape :: "string \<Rightarrow> string option" where
  "query_unescape [] = Some []"
| "query_unescape (c # cs) =
    (if c = CHR ''%'' then
       (case cs of a # b # ds \<Rightarrow> (case (hex_val a, hex_val b) of
            (Some x, Some y) \<Rightarrow> map_option ((#) (char_of (16 * x + y))) (query_unescape ds) | _ \<Rightarrow> None)
        | _ \<Rightarrow> None)
     else map_option ((#) (if c = CHR ''+'' then CHR '' '' else c)) (query_unescape cs))"

lemma unreserved_plain: "unreserved c \<Longrightarrow> c \<noteq> CHR ''%'' \<and> c \<noteq> CHR ''+''"
  by (auto simp: unreserved_def)

lemma hex_val_upper: "d < 16 \<Longrightarrow> hex_val (upper_hex d) = Some d"
  by (simp add: upper_hex_def hex_val_def numeral_nat less_Suc_eq; elim disjE; simp)

lemma query_unescape_percent: "query_unescape (percent c @ s) = map_option ((#) c) (query_unescape s)"
proof -
  have "(of_char c :: nat) < 256" by (rule of_char_less)
  then have "(of_char c :: nat) div 16 < 16" "(of_char c :: nat) mod 16 < 16" by (simp_all add: div_less_iff_less_mult)
  moreover have "16 * ((of_char c :: nat) div 16) + of_char c mod 16 = of_char c" by simp
  ultimately show ?thesis by (simp add: percent_def Let_def hex_val_upper)
qed

lemma query_unescape_escape: "query_unescape (query_escape s) = Some s"
proof (induction s)
  case Nil
  then show ?case by (simp add: query_escape_def)
next
  case (Cons c s)
  have "query_escape (c # s) = (if unreserved c then [c] else if c = CHR '' '' then ''+'' else percent c) @ query_escape s"
    by (simp add: query_escape_def)
  with Cons show ?case
    by (cases "unreserved c"; cases "c = CHR '' ''") (auto simp: query_unescape_percent dest: unreserved_plain)
qed

text \<open>The escaped text holds no character that ends or splits a query.\<close>

lemma query_escape_plain: "c \<in> set (query_escape s) \<Longrightarrow> unreserved c \<or> c = CHR ''%'' \<or> c = CHR ''+''"
proof -
  have "upper_hex d \<in> set ''0123456789ABCDEF''" if "d < 16" for d
    unfolding upper_hex_def using that by (intro nth_mem) simp
  then have h: "d < 16 \<Longrightarrow> unreserved (upper_hex d)" for d
    by (force simp: unreserved_def)
  have "(of_char y :: nat) div 16 < 16" for y :: char
    using of_char_less [of y] by (simp add: div_less_iff_less_mult)
  then have "x \<in> set (percent y) \<Longrightarrow> unreserved x \<or> x = CHR ''%''" for x y
    by (auto simp: percent_def Let_def intro!: h)
  then show "c \<in> set (query_escape s) \<Longrightarrow> ?thesis"
    by (auto simp: query_escape_def split: if_splits)
qed

section \<open>File names\<close>

text \<open>\<open>filepath.Ext\<close> and \<open>filepath.Base\<close> on Unix.\<close>

definition path_ext :: "string \<Rightarrow> string" where
  "path_ext p = (let r = takeWhile (\<lambda>c. c \<noteq> CHR ''/'') (rev p) in
    if CHR ''.'' \<in> set r then rev (takeWhile (\<lambda>c. c \<noteq> CHR ''.'') r @ ''.'') else '''')"

definition path_base :: "string \<Rightarrow> string" where
  "path_base p = (if p = '''' then ''.'' else
    let s = rev (dropWhile (\<lambda>c. c = CHR ''/'') (rev p)) in
    if s = '''' then ''/'' else rev (takeWhile (\<lambda>c. c \<noteq> CHR ''/'') (rev s)))"

text \<open>\<open>strings.Replace(s, old, \<dots>, -1)\<close> with a non-empty \<open>old\<close> and an empty replacement.\<close>

function remove_all :: "string \<Rightarrow> string \<Rightarrow> string" where
  "remove_all old [] = []"
| "remove_all old (c # cs) = (if old \<noteq> [] \<and> has_prefix (c # cs) old then remove_all old (drop (length old) (c # cs))
     else c # remove_all old cs)"
  by pat_completeness auto
termination by (relation "measure (length \<circ> snd)") auto


end
