(* ===== verification/Books.thy ===== *)
theory Books
  imports GoSort GoNet Encoding "HOL-Library.List_Lexorder"
begin

text \<open>
  \<open>booklist/\<close>, \<open>formats/formats.go\<close>, \<open>indexer/\<close> and \<open>util/\<close>: the books of the library, the nine orders they can
  be shown in, the lists of authors and series, and the indexer that collects them. What a loader
  reads out of a file and what a directory holds are parameters.
\<close>

section \<open>Descending keys\<close>

datatype 'a desc = Desc (undesc: 'a)

instantiation desc :: (linorder) linorder
begin

definition less_eq_desc :: "'a desc \<Rightarrow> 'a desc \<Rightarrow> bool" where
  "less_eq_desc x y \<longleftrightarrow> undesc y \<le> undesc x"

definition less_desc :: "'a desc \<Rightarrow> 'a desc \<Rightarrow> bool" where
  "less_desc x y \<longleftrightarrow> undesc y < undesc x"

instance
  by standard (auto simp: less_eq_desc_def less_desc_def intro: desc.expand)

end

lemma desc_simps [simp]: "Desc a < Desc b \<longleftrightarrow> b < a" "Desc a \<le> Desc b \<longleftrightarrow> b \<le> a"
  by (simp_all add: less_desc_def less_eq_desc_def)

section \<open>Comparing strings and floats\<close>

text \<open>Go compares strings by their bytes.\<close>

definition str_key :: "string \<Rightarrow> nat list" where
  "str_key s = map of_char s"

definition str_less :: "string \<Rightarrow> string \<Rightarrow> bool" where
  "str_less a b \<longleftrightarrow> str_key a < str_key b"

text \<open>A \<open>float64\<close> by its bits: not-a-number compares with nothing, the two zeros are equal.\<close>

type_synonym f64 = "64 word"

definition f64_nan :: "f64 \<Rightarrow> bool" where
  "f64_nan x \<longleftrightarrow> unat x mod 2 ^ 63 > 0x7FF0000000000000"

definition f64_key :: "f64 \<Rightarrow> int" where
  "f64_key x = (if unat x \<ge> 2 ^ 63 then - int (unat x - 2 ^ 63) else int (unat x))"

definition f64_less :: "f64 \<Rightarrow> f64 \<Rightarrow> bool" where
  "f64_less a b \<longleftrightarrow> \<not> f64_nan a \<and> \<not> f64_nan b \<and> f64_key a < f64_key b"

section \<open>SHA-1\<close>

definition rotl :: "nat \<Rightarrow> w32 \<Rightarrow> w32" where
  "rotl n x = push_bit n x OR drop_bit (32 - n) x"

definition sha1_f :: "nat \<Rightarrow> w32 \<Rightarrow> w32 \<Rightarrow> w32 \<Rightarrow> w32" where
  "sha1_f t b c d = (if t < 20 then (b AND c) OR (NOT b AND d)
    else if t < 40 then b XOR c XOR d
    else if t < 60 then (b AND c) OR (b AND d) OR (c AND d) else b XOR c XOR d)"

definition sha1_k :: "nat \<Rightarrow> w32" where
  "sha1_k t = (if t < 20 then 0x5A827999 else if t < 40 then 0x6ED9EBA1 else if t < 60 then 0x8F1BBCDC else 0xCA62C1D6)"

fun sha1_rounds :: "w32 list \<Rightarrow> w32 list \<Rightarrow> nat list \<Rightarrow> w32 list" where
  "sha1_rounds h w [] = h"
| "sha1_rounds h w (t # ts) =
    sha1_rounds [rotl 5 (h ! 0) + sha1_f t (h ! 1) (h ! 2) (h ! 3) + h ! 4 + sha1_k t + w ! 0,
        h ! 0, rotl 30 (h ! 1), h ! 2, h ! 3]
      (drop 1 w @ [rotl 1 (w ! 13 XOR w ! 8 XOR w ! 2 XOR w ! 0)]) ts"

function sha1_blocks :: "w32 list \<Rightarrow> byte list \<Rightarrow> w32 list" where
  "sha1_blocks h bs = (if bs = [] then h
    else sha1_blocks (map2 (+) h (sha1_rounds h (words_of (take 64 bs)) [0..<80])) (drop 64 bs))"
  by pat_completeness auto
termination by (relation "measure (length \<circ> snd)") auto

declare sha1_blocks.simps [simp del]

definition sha1 :: "byte list \<Rightarrow> byte list" where
  "sha1 m = concat (map word_bytes
    (sha1_blocks [0x67452301, 0xEFCDAB89, 0x98BADCFE, 0x10325476, 0xC3D2E1F0] (sha_pad m)))"

text \<open>\<open>fmt.Sprintf("%x", \<dots>)\<close> of a byte slice.\<close>

definition hex_bytes :: "byte list \<Rightarrow> string" where
  "hex_bytes bs = concat (map (\<lambda>b. [''0123456789abcdef'' ! (unat b div 16), ''0123456789abcdef'' ! (unat b mod 16)]) bs)"

section \<open>Books\<close>

record Book =
  bk_Hash :: string
  bk_FilePath :: string
  bk_FileSize :: int
  bk_ModTime :: gotime
  bk_HasCover :: bool
  bk_Title :: string
  bk_Author :: string
  bk_Description :: string
  bk_Series :: string
  bk_SeriesIndex :: f64
  bk_Publisher :: string
  bk_ISBN :: string
  bk_PublishDate :: gotime

text \<open>The hash is the 40 digits of a SHA-1, so that \<open>Hash[:10]\<close> is in range.\<close>

definition book_ID :: "Book \<Rightarrow> string" where
  "book_ID b = take 10 (bk_Hash b)"

definition AuthorID :: "Book \<Rightarrow> string" where
  "AuthorID b = take 10 (hex_bytes (sha1 (bytes_of (bk_Author b))))"

definition SeriesID :: "Book \<Rightarrow> string" where
  "SeriesID b = take 10 (hex_bytes (sha1 (bytes_of (bk_Series b))))"

definition FileType :: "(nat \<Rightarrow> nat) \<Rightarrow> Book \<Rightarrow> string" where
  "FileType lw b = remove_all ''.'' (to_lower lw (path_ext (bk_FilePath b)))"

text \<open>\<open>BookList.Sorted\<close> and the other operations on lists of books. The result of \<open>Sorted\<close> shares its array
  with the receiver, so that it is what the receiver holds afterwards, too. A slice expression out of range
  panics, \<open>None\<close> here.\<close>

definition Sorted :: "('a \<Rightarrow> 'a \<Rightarrow> bool) \<Rightarrow> 'a list \<Rightarrow> 'a list" where
  "Sorted lt bl = slice_stable lt bl"

fun Filtered :: "(Book \<Rightarrow> bool) \<Rightarrow> Book list \<Rightarrow> Book list" where
  "Filtered fn [] = []"
| "Filtered fn (b # bl) = (if fn b then b # Filtered fn bl else Filtered fn bl)"

definition Skip :: "int \<Rightarrow> Book list \<Rightarrow> Book list option" where
  "Skip n bl = (if n \<ge> int (length bl) then Some [] else if n < 0 then None else Some (drop (nat n) bl))"

definition Take :: "int \<Rightarrow> Book list \<Rightarrow> Book list option" where
  "Take n bl = (if n > int (length bl) then Some bl else if n < 0 then None else Some (take (nat n) bl))"

definition book_less :: "string \<Rightarrow> (Book \<Rightarrow> Book \<Rightarrow> bool) option" where
  "book_less order =
    (if order = ''author-asc'' then Some (\<lambda>a b. bk_Author a \<noteq> '''' \<and> bk_Author b \<noteq> '''' \<and> str_less (bk_Author a) (bk_Author b))
     else if order = ''author-desc'' then Some (\<lambda>a b. bk_Author a \<noteq> '''' \<and> bk_Author b \<noteq> '''' \<and> str_less (bk_Author b) (bk_Author a))
     else if order = ''title-asc'' then Some (\<lambda>a b. str_less (bk_Title a) (bk_Title b))
     else if order = ''title-desc'' then Some (\<lambda>a b. str_less (bk_Title b) (bk_Title a))
     else if order = ''series-asc'' then Some (\<lambda>a b. bk_Series a \<noteq> '''' \<and> bk_Series b \<noteq> '''' \<and> str_less (bk_Series a) (bk_Series b))
     else if order = ''series-desc'' then Some (\<lambda>a b. bk_Series a \<noteq> '''' \<and> bk_Series b \<noteq> '''' \<and> str_less (bk_Series b) (bk_Series a))
     else if order = ''seriesindex-asc'' then Some (\<lambda>a b. bk_Series a \<noteq> '''' \<and> bk_Series b \<noteq> '''' \<and> f64_less (bk_SeriesIndex a) (bk_SeriesIndex b))
     else if order = ''seriesindex-desc'' then Some (\<lambda>a b. bk_Series a \<noteq> '''' \<and> bk_Series b \<noteq> '''' \<and> f64_less (bk_SeriesIndex b) (bk_SeriesIndex a))
     else if order = ''modified-desc'' then Some (\<lambda>a b. unix_of (bk_ModTime a) > unix_of (bk_ModTime b))
     else None)"

definition SortBy :: "(nat \<Rightarrow> nat) \<Rightarrow> string \<Rightarrow> Book list \<Rightarrow> Book list \<times> bool" where
  "SortBy lw order l = (case book_less (to_lower lw order) of None \<Rightarrow> (l, False) | Some lt \<Rightarrow> (Sorted lt l, True))"

text \<open>\<open>Authors\<close> and \<open>Series\<close>: the names in the order they first occur, once per id.\<close>

record named =
  nm_Name :: string
  nm_ID :: string

fun collect :: "(Book \<Rightarrow> string) \<Rightarrow> (Book \<Rightarrow> string) \<Rightarrow> string list \<Rightarrow> Book list \<Rightarrow> named list" where
  "collect name ident seen [] = []"
| "collect name ident seen (b # bl) =
    (if name b = '''' then collect name ident seen bl
     else if ident b \<in> set seen then collect name ident seen bl
     else \<lparr>nm_Name = name b, nm_ID = ident b\<rparr> # collect name ident (ident b # seen) bl)"

definition Authors :: "Book list \<Rightarrow> named list" where
  "Authors bl = collect bk_Author AuthorID [] bl"

definition Series :: "Book list \<Rightarrow> named list" where
  "Series bl = collect bk_Series SeriesID [] bl"

text \<open>\<open>findBook\<close> and \<open>booksByIDs\<close> of the server. The map of the second is filled in the order of the
  list, so that the last book with an id is the one it holds.\<close>

definition findBook :: "Book list \<Rightarrow> string \<Rightarrow> Book option" where
  "findBook bl i = List.find (\<lambda>b. book_ID b = i) bl"

definition booksByIDs :: "Book list \<Rightarrow> string list \<Rightarrow> Book list" where
  "booksByIDs bl ids = List.map_filter (\<lambda>i. List.find (\<lambda>b. book_ID b = i) (rev bl)) ids"

section \<open>Formats and the indexer\<close>

text \<open>\<open>formats.Register\<close>, \<open>Load\<close> and \<open>GetExts\<close>: the loaders by lower-case extension. Registering an extension
  twice panics (\<open>None\<close>); what a loader does with a file is a parameter, its error a text.\<close>

type_synonym loader = "string \<Rightarrow> string + Book"

definition Register :: "(nat \<Rightarrow> nat) \<Rightarrow> string \<Rightarrow> loader \<Rightarrow> (string \<times> loader) list \<Rightarrow> (string \<times> loader) list option" where
  "Register lw ext load fs = (let e = to_lower lw ext in
    if map_of fs e \<noteq> None then None else Some ((e, load) # fs))"

definition format_ext :: "string \<Rightarrow> string" where
  "format_ext filename = (let e = path_ext filename in
    case cut_char CHR ''.'' e of (a, None) \<Rightarrow> a | (a, Some b) \<Rightarrow> a @ b)"

definition Load :: "(nat \<Rightarrow> nat) \<Rightarrow> (string \<times> loader) list \<Rightarrow> string \<Rightarrow> string + Book" where
  "Load lw fs filename = (case map_of fs (to_lower lw (format_ext filename)) of
      None \<Rightarrow> Inl (''could not load format '' @ format_ext filename) | Some load \<Rightarrow> load filename)"

definition GetExts :: "(string \<times> loader) list \<Rightarrow> string list" where
  "GetExts fs = map fst fs"

text \<open>\<open>Indexer.Refresh\<close>: what the file system glob finds for a directory and an extension, files and possibly
  an error, and what \<open>getBook\<close> makes of a file are parameters. The progress is the number of files done and
  the number of all of them, \<open>None\<close> while nothing is indexed.\<close>

record indexer =
  ix_paths :: "string list"
  ix_exts :: "string list"
  ix_booklist :: "Book list"
  ix_progress :: "(nat \<times> nat) option"

definition scan_files :: "(string \<Rightarrow> string \<Rightarrow> string list \<times> string option) \<Rightarrow> indexer \<Rightarrow> string list \<times> string list" where
  "scan_files glob ix =
    (let ls = concat (map (\<lambda>p. map (\<lambda>e. (p, e)) (ix_exts ix)) (ix_paths ix))
     in (concat (map (\<lambda>(p, e). fst (glob p e)) ls),
         List.map_filter (\<lambda>(p, e). map_option (\<lambda>x. ''error scanning '' @ [CHR 0x27] @ p @ [CHR 0x27] @ '' for type '' @
           [CHR 0x27] @ e @ [CHR 0x27] @ '': '' @ x) (snd (glob p e))) ls))"

fun index_files :: "loader \<Rightarrow> string list \<Rightarrow> string list \<Rightarrow> Book list \<times> string list" where
  "index_files getBook seen [] = ([], [])"
| "index_files getBook seen (f # fs) = (case getBook f of
      Inl x \<Rightarrow> (case index_files getBook seen fs of (bl, errs) \<Rightarrow>
        (bl, (''error reading book '' @ [CHR 0x27] @ f @ [CHR 0x27] @ '': '' @ x) # errs))
    | Inr b \<Rightarrow> if book_ID b \<in> set seen then index_files getBook seen fs
        else (case index_files getBook (book_ID b # seen) fs of (bl, errs) \<Rightarrow> (b # bl, errs)))"

text \<open>The errors and the error of the run; the list is replaced only when the run did not fail.\<close>

definition Refresh :: "(string \<Rightarrow> string \<Rightarrow> string list \<times> string option) \<Rightarrow> loader \<Rightarrow> indexer \<Rightarrow>
    (string list \<times> string option) \<times> indexer" where
  "Refresh glob getBook ix =
    (if ix_paths ix = [] then (([], Some ''no paths to index''), ix\<lparr>ix_progress := None\<rparr>)
     else case scan_files glob ix of (files, errs) \<Rightarrow>
       (case index_files getBook [] files of (bl, errs') \<Rightarrow>
         ((errs @ errs', None), ix\<lparr>ix_booklist := bl, ix_progress := None\<rparr>)))"

section \<open>Text of file metadata\<close>

fun str_index :: "string \<Rightarrow> string \<Rightarrow> nat option" where
  "str_index [] p = (if p = [] then Some 0 else None)"
| "str_index (c # cs) p = (if has_prefix (c # cs) p then Some 0 else map_option Suc (str_index cs p))"

text \<open>\<open>util.StringBetween\<close>: the end is searched from the beginning of the string, so that slicing panics
  (\<open>None\<close>) when the end marker is missing or stands before the start marker.\<close>

definition StringBetween :: "string \<Rightarrow> string \<Rightarrow> string \<Rightarrow> string option" where
  "StringBetween str start fin = (case str_index str start of
      None \<Rightarrow> Some ''''
    | Some s0 \<Rightarrow> let s = s0 + length start in
        (case str_index str fin of None \<Rightarrow> None | Some e \<Rightarrow> if e < s then None else Some (take (e - s) (drop s str))))"

definition StringAfter :: "string \<Rightarrow> string \<Rightarrow> string" where
  "StringAfter str start = (case str_index str start of None \<Rightarrow> '''' | Some s \<Rightarrow> drop (s + length start) str)"

definition fix_rune :: "nat \<Rightarrow> nat" where
  "fix_rune r = (if r \<in> {0x201C, 0x2039, 0x201D, 0x203A} then 0x22 else if r \<in> {0x2018, 0x2019} then 0x27 else r)"

definition FixString :: "string \<Rightarrow> string" where
  "FixString s = concat (map (\<lambda>r. encode_rune (fix_rune r)) (runes s))"

section \<open>Sorting the library\<close>

text \<open>The reference: a stable sort by the key the order names.\<close>

definition reference_sort :: "string \<Rightarrow> Book list \<Rightarrow> Book list" where
  "reference_sort order l =
    (if order = ''author-asc'' then sort_key (\<lambda>b. str_key (bk_Author b)) l
     else if order = ''author-desc'' then sort_key (\<lambda>b. Desc (str_key (bk_Author b))) l
     else if order = ''title-asc'' then sort_key (\<lambda>b. str_key (bk_Title b)) l
     else if order = ''title-desc'' then sort_key (\<lambda>b. Desc (str_key (bk_Title b))) l
     else if order = ''series-asc'' then sort_key (\<lambda>b. str_key (bk_Series b)) l
     else if order = ''series-desc'' then sort_key (\<lambda>b. Desc (str_key (bk_Series b))) l
     else if order = ''seriesindex-asc'' then sort_key (\<lambda>b. f64_key (bk_SeriesIndex b)) l
     else if order = ''seriesindex-desc'' then sort_key (\<lambda>b. Desc (f64_key (bk_SeriesIndex b))) l
     else if order = ''modified-desc'' then sort_key (\<lambda>b. Desc (unix_of (bk_ModTime b))) l
     else l)"

text \<open>The book has what the order compares.\<close>

definition sortable :: "string \<Rightarrow> Book \<Rightarrow> bool" where
  "sortable order b \<longleftrightarrow>
    (order \<in> {''author-asc'', ''author-desc''} \<longrightarrow> bk_Author b \<noteq> '''') \<and>
    (order \<in> {''series-asc'', ''series-desc''} \<longrightarrow> bk_Series b \<noteq> '''') \<and>
    (order \<in> {''seriesindex-asc'', ''seriesindex-desc''} \<longrightarrow> bk_Series b \<noteq> '''' \<and> \<not> f64_nan (bk_SeriesIndex b))"

lemma mset_Sorted: "mset (Sorted lt l) = mset l"
  by (simp add: Sorted_def mset_slice_stable)

text \<open>C21: Sorting the library by any of its nine orders is the stable sort by the author, the title, the series,
  the place in the series or the time of modification, provided every book has the field compared (the title
  and modification orders ask for nothing); any other order leaves the list as it is. This is the algorithm of
  the standard library run on the comparison of the code, not an assumption about it.\<close>

theorem sort_by_is_stable_sort:
  assumes "list_all (sortable (to_lower lw order)) l"
  shows "fst (SortBy lw order l) = reference_sort (to_lower lw order) l"
proof -
  define ord where "ord = to_lower lw order"
  show ?thesis
  proof (cases "book_less ord")
    case None
    then show ?thesis by (simp add: SortBy_def reference_sort_def book_less_def ord_def [symmetric] split: if_splits)
  next
    case (Some lt)
    have "fst (SortBy lw order l) = slice_stable lt l" using Some by (simp add: SortBy_def Sorted_def ord_def)
    moreover have "\<And>b. b \<in> set l \<Longrightarrow> sortable ord b" using assms by (simp add: list_all_iff ord_def)
    note s = this
    have "slice_stable lt l = reference_sort ord l"
      using Some s unfolding book_less_def reference_sort_def
      by (auto split: if_splits intro!: slice_stable_key_on simp: sortable_def str_less_def f64_less_def)
    ultimately show ?thesis by (simp add: ord_def)
  qed
qed

text \<open>No order ever loses or repeats a book, whatever fields the books lack.\<close>

theorem sort_by_permutes: "mset (fst (SortBy lw order l)) = mset l"
  by (simp add: SortBy_def mset_Sorted split: option.split)

text \<open>With a book that has no author in between, books by different authors stay in the wrong order.\<close>

definition book_of :: "string \<Rightarrow> string \<Rightarrow> string \<Rightarrow> Book" where
  "book_of h t a = \<lparr>bk_Hash = h, bk_FilePath = ''/b/'' @ t @ ''.epub'', bk_FileSize = 1, bk_ModTime = 0, bk_HasCover = False,
    bk_Title = t, bk_Author = a, bk_Description = '''', bk_Series = '''', bk_SeriesIndex = 0, bk_Publisher = '''',
    bk_ISBN = '''', bk_PublishDate = 0\<rparr>"

lemma book_of_simps [simp]: "bk_Author (book_of h t a) = a" "bk_Title (book_of h t a) = t" "bk_Hash (book_of h t a) = h"
  "bk_Series (book_of h t a) = ''''" "bk_FilePath (book_of h t a) = ''/b/'' @ t @ ''.epub''"
  by (simp_all add: book_of_def)

lemma lower_author: "to_lower id ''author-asc'' = ''author-asc''" "to_lower id ''author-desc'' = ''author-desc''"
  by (simp_all add: ascii_eval)

lemma book_less_author: "book_less ''author-asc'' =
    Some (\<lambda>a b. bk_Author a \<noteq> '''' \<and> bk_Author b \<noteq> '''' \<and> str_less (bk_Author a) (bk_Author b))"
  unfolding book_less_def by (simp only: if_True refl)

lemma author_sort_gap:
  "map bk_Author (fst (SortBy id ''author-asc'' [book_of h1 t1 ''Melville'', book_of h2 t2 '''', book_of h3 t3 ''Austen''])) =
    [''Melville'', '''', ''Austen'']"
  unfolding SortBy_def lower_author book_less_author
  by (simp add: Sorted_def slice_stable_short insertion_sort_def)

theorem sort_by_is_stable_sort_witness:
  "fst (SortBy id ''author-desc'' [book_of ''1'' ''x'' ''Austen'', book_of ''2'' ''y'' ''Melville'']) =
    [book_of ''2'' ''y'' ''Melville'', book_of ''1'' ''x'' ''Austen'']"
proof -
  let ?l = "[book_of ''1'' ''x'' ''Austen'', book_of ''2'' ''y'' ''Melville'']"
  have "list_all (sortable (to_lower id ''author-desc'')) ?l"
    unfolding lower_author by (simp add: sortable_def)
  from sort_by_is_stable_sort [OF this] have "fst (SortBy id ''author-desc'' ?l) = sort_key (\<lambda>b. Desc (str_key (bk_Author b))) ?l"
    unfolding lower_author by (simp add: reference_sort_def)
  also have "\<dots> = [book_of ''2'' ''y'' ''Melville'', book_of ''1'' ''x'' ''Austen'']" by (simp add: str_key_def)
  finally show ?thesis .
qed

section \<open>Authors and series\<close>

lemma collect_ids: "nm_ID ` set (collect name ident seen bl) = ident ` {b \<in> set bl. name b \<noteq> ''''} - set seen"
proof (induction name ident seen bl rule: collect.induct)
  case (2 name ident seen b bl)
  have "ident ` {x \<in> set (b # bl). name x \<noteq> ''''} =
      (if name b = '''' then {} else {ident b}) \<union> ident ` {x \<in> set bl. name x \<noteq> ''''}" by auto
  with 2 show ?case by (simp only: collect.simps split: if_split) (auto simp del: collect.simps)
qed simp

lemma collect_distinct: "distinct (map nm_ID (collect name ident seen bl))"
  by (induction name ident seen bl rule: collect.induct) (simp_all add: collect_ids)

lemma collect_names: "set (collect name ident seen bl) \<subseteq> (\<lambda>b. \<lparr>nm_Name = name b, nm_ID = ident b\<rparr>) ` {b \<in> set bl. name b \<noteq> ''''}"
proof (induction name ident seen bl rule: collect.induct)
  case (2 name ident seen b bl)
  let ?f = "\<lambda>b. \<lparr>nm_Name = name b, nm_ID = ident b\<rparr>"
  have "?f ` {x \<in> set bl. name x \<noteq> ''''} \<subseteq> ?f ` {x \<in> set (b # bl). name x \<noteq> ''''}" by (intro image_mono) auto
  moreover have "name b \<noteq> '''' \<Longrightarrow> ?f b \<in> ?f ` {x \<in> set (b # bl). name x \<noteq> ''''}" by (intro imageI) simp
  ultimately show ?case using 2 by (cases "name b = ''''"; cases "ident b \<in> set seen") (simp_all only: collect.simps if_True if_False list.set insert_subset simp_thms, blast+)
qed simp

text \<open>The list of authors names every author of a book with an author, once per author id and under the
  spelling of one of the books, and nobody else; so does the list of series.\<close>

theorem authors_and_series_are_listed:
  "distinct (map nm_ID (Authors bl)) \<and> set (map nm_ID (Authors bl)) = AuthorID ` {b \<in> set bl. bk_Author b \<noteq> ''''} \<and>
    set (Authors bl) \<subseteq> (\<lambda>b. \<lparr>nm_Name = bk_Author b, nm_ID = AuthorID b\<rparr>) ` {b \<in> set bl. bk_Author b \<noteq> ''''} \<and>
    distinct (map nm_ID (Series bl)) \<and> set (map nm_ID (Series bl)) = SeriesID ` {b \<in> set bl. bk_Series b \<noteq> ''''} \<and>
    set (Series bl) \<subseteq> (\<lambda>b. \<lparr>nm_Name = bk_Series b, nm_ID = SeriesID b\<rparr>) ` {b \<in> set bl. bk_Series b \<noteq> ''''}"
  unfolding Authors_def Series_def set_map
  by (intro conjI collect_distinct collect_names) (simp_all add: collect_ids)

section \<open>The index\<close>

lemma index_files_spec:
  "index_files getBook seen fs = (bl, errs) \<Longrightarrow>
    distinct (map book_ID bl) \<and> book_ID ` set bl = book_ID ` {b. \<exists>f \<in> set fs. getBook f = Inr b} - set seen \<and>
    set bl \<subseteq> {b. \<exists>f \<in> set fs. getBook f = Inr b} \<and> length errs = length (filter (\<lambda>f. isl (getBook f)) fs)"
proof (induction getBook seen fs arbitrary: bl errs rule: index_files.induct)
  case (2 getBook seen f fs)
  show ?case
  proof (cases "getBook f")
    case (Inl x)
    obtain bl' errs' where r: "index_files getBook seen fs = (bl', errs')" by fastforce
    have "{b. \<exists>g \<in> set (f # fs). getBook g = Inr b} = {b. \<exists>g \<in> set fs. getBook g = Inr b}" using Inl by auto
    with 2(1) [OF Inl r] 2(4) Inl r show ?thesis by auto
  next
    case (Inr b)
    have e: "{x. \<exists>g \<in> set (f # fs). getBook g = Inr x} = insert b {x. \<exists>g \<in> set fs. getBook g = Inr x}" using Inr by auto
    show ?thesis
    proof (cases "book_ID b \<in> set seen")
      case True
      with 2(4) Inr have "index_files getBook seen fs = (bl, errs)" by simp
      from 2(2) [OF Inr True this] show ?thesis unfolding e using True Inr by auto
    next
      case False
      obtain bl' errs' where r: "index_files getBook (book_ID b # seen) fs = (bl', errs')" by fastforce
      with 2(4) Inr False have "bl = b # bl'" "errs = errs'" by auto
      moreover note 2(3) [OF Inr False r]
      ultimately show ?thesis unfolding e using False Inr by auto
    qed
  qed
qed simp

text \<open>C22: After a refresh the library holds exactly the books that could be read: every readable file is found
  under its book id, no id twice, no book that is not among the files, and every file that could not be read
  and every directory that could not be scanned is reported.\<close>

theorem refresh_indexes_every_book:
  assumes run: "Refresh glob getBook ix = ((errs, None), ix')"
  defines "files \<equiv> fst (scan_files glob ix)"
  shows "distinct (map book_ID (ix_booklist ix')) \<and>
    book_ID ` set (ix_booklist ix') = book_ID ` {b. \<exists>f \<in> set files. getBook f = Inr b} \<and>
    set (ix_booklist ix') \<subseteq> {b. \<exists>f \<in> set files. getBook f = Inr b} \<and>
    (\<forall>b \<in> set (ix_booklist ix'). findBook (ix_booklist ix') (book_ID b) = Some b) \<and>
    length errs = length (snd (scan_files glob ix)) + length (filter (\<lambda>f. isl (getBook f)) files)"
proof -
  obtain bl errs' where r: "index_files getBook [] files = (bl, errs')" by fastforce
  from run have p: "ix_paths ix \<noteq> []" by (auto simp: Refresh_def split: if_splits)
  with run r have i: "ix_booklist ix' = bl" "errs = snd (scan_files glob ix) @ errs'"
    by (auto simp: Refresh_def files_def split: prod.splits)
  note s = index_files_spec [OF r]
  have "findBook bl (book_ID b) = Some b" if "b \<in> set bl" for b
    unfolding findBook_def using s that by (intro find_by_key) auto
  with s show ?thesis by (simp add: i)
qed

theorem refresh_indexes_every_book_witness:
  "\<exists>ix'. Refresh (\<lambda>p e. ([''a'', ''b'', ''c''], None)) (\<lambda>f. if f = ''c'' then Inl ''bad'' else Inr (book_of ''0123456789'' f f))
      \<lparr>ix_paths = [''/b''], ix_exts = [''epub''], ix_booklist = [], ix_progress = None\<rparr> =
      (([''error reading book '' @ [CHR 0x27] @ ''c'' @ [CHR 0x27] @ '': bad''], None), ix') \<and>
    findBook (ix_booklist ix') ''0123456789'' = Some (book_of ''0123456789'' ''a'' ''a'')"
proof -
  let ?g = "\<lambda>p e :: string. ([''a'', ''b'', ''c''], None :: string option)"
  let ?l = "\<lambda>f. if f = ''c'' then Inl ''bad'' else Inr (book_of ''0123456789'' f f)"
  let ?ix = "\<lparr>ix_paths = [''/b''], ix_exts = [''epub''], ix_booklist = [], ix_progress = None\<rparr>"
  let ?ix' = "?ix\<lparr>ix_booklist := [book_of ''0123456789'' ''a'' ''a'']\<rparr>"
  have r: "Refresh ?g ?l ?ix = (([''error reading book '' @ [CHR 0x27] @ ''c'' @ [CHR 0x27] @ '': bad''], None), ?ix')"
    by (simp add: Refresh_def scan_files_def List.map_filter_simps book_ID_def)
  from refresh_indexes_every_book [OF this] have "findBook (ix_booklist ?ix') (book_ID (book_of ''0123456789'' ''a'' ''a'')) =
      Some (book_of ''0123456789'' ''a'' ''a'')" by simp
  with r show ?thesis by (auto simp: book_ID_def)
qed

end
