(* ===== verification/Json.thy ===== *)
theory Json
  imports GoNet Encoding
begin

text \<open>
  The decoder of \<open>encoding/json\<close>, as far as the program uses it: values are read from the bytes of a request, a
  token or a reply, and fill the fields of a structure. The reader is a recursive descent with fuel; the last section
  shows that the fuel it is given is enough, more of it never changes a result.
\<close>

section \<open>Values\<close>

text \<open>A number that was read is its literal; the program writes integers, floating point numbers (their bits)
  and times.\<close>

datatype json = JNull | JBool bool | JNum string | JFloat "64 word" | JTime int | JStr string
  | JArr "json list" | JObj "(string \<times> json) list"

abbreviation JInt :: "int \<Rightarrow> json" where "JInt i \<equiv> JNum (show_int i)"

section \<open>Reading\<close>

definition json_space :: "char \<Rightarrow> bool" where
  "json_space c \<longleftrightarrow> c = CHR '' '' \<or> c = CHR 0x09 \<or> c = CHR 0x0A \<or> c = CHR 0x0D"

definition skip_space :: "string \<Rightarrow> string" where
  "skip_space s = dropWhile json_space s"

definition hex4 :: "string \<Rightarrow> nat option" where
  "hex4 s = (if length s < 4 then None
    else case hex_digits 0 0 (take 4 s) of (v, n, rest) \<Rightarrow> if n = 4 then Some v else None)"

definition json_escape :: "char \<Rightarrow> char option" where
  "json_escape c =
    (if c = CHR 0x22 \<or> c = CHR 0x5C \<or> c = CHR ''/'' then Some c
     else if c = CHR ''b'' then Some (CHR 0x08) else if c = CHR ''f'' then Some (CHR 0x0C)
     else if c = CHR ''n'' then Some (CHR 0x0A) else if c = CHR ''r'' then Some (CHR 0x0D)
     else if c = CHR ''t'' then Some (CHR 0x09) else None)"

text \<open>The rune of \<open>\u\<close> and four digits, with a second escape when the two are a surrogate pair.\<close>

definition surrogate :: "nat \<Rightarrow> bool" where
  "surrogate r \<longleftrightarrow> 0xD800 \<le> r \<and> r < 0xE000"

definition unicode_escape :: "string \<Rightarrow> (nat \<times> string) option" where
  "unicode_escape s = (case hex4 s of
      None \<Rightarrow> None
    | Some r \<Rightarrow>
        let rest = drop 4 s in
        if \<not> surrogate r then Some (r, rest)
        else case (if has_prefix rest [CHR 0x5C, CHR ''u''] then hex4 (drop 2 rest) else None) of
          Some r1 \<Rightarrow> if r < 0xDC00 \<and> 0xDC00 \<le> r1 \<and> r1 < 0xE000
            then Some ((r - 0xD800) * 1024 + (r1 - 0xDC00) + 0x10000, drop 6 rest)
            else Some (rune_error, rest)
        | None \<Rightarrow> Some (rune_error, rest))"

text \<open>The rest of a string literal after its opening quote; every step reads at least one byte, so the length
  of the input is fuel enough.\<close>

fun json_chars :: "nat \<Rightarrow> string \<Rightarrow> (string \<times> string) option" where
  "json_chars n [] = None"
| "json_chars 0 s = None"
| "json_chars (Suc n) (c # cs) =
    (if c = CHR 0x22 then Some ([], cs)
     else if of_char c < (32::nat) then None
     else if c = CHR 0x5C then
       (case cs of
         [] \<Rightarrow> None
       | x # xs \<Rightarrow>
           if x = CHR ''u'' then (case unicode_escape xs of
               None \<Rightarrow> None
             | Some (r, rest) \<Rightarrow> map_option (\<lambda>(out, t). (encode_rune r @ out, t)) (json_chars n rest))
           else (case json_escape x of
               None \<Rightarrow> None
             | Some y \<Rightarrow> map_option (\<lambda>(out, t). (y # out, t)) (json_chars n xs)))
     else (case decode_rune (c # cs) of (r, w) \<Rightarrow>
       map_option (\<lambda>(out, t). (encode_rune r @ out, t)) (json_chars n (drop w (c # cs)))))"

definition is_digit :: "char \<Rightarrow> bool" where
  "is_digit c \<longleftrightarrow> digit_val c \<noteq> None"

text \<open>\<open>-?(0|[1-9][0-9]*)(\.[0-9]+)?([eE][+-]?[0-9]+)?\<close>: the literal and what follows.\<close>

definition json_digits :: "string \<Rightarrow> (string \<times> string) option" where
  "json_digits s = (let d = takeWhile is_digit s in if d = [] then None else Some (d, dropWhile is_digit s))"

definition json_integer :: "string \<Rightarrow> (string \<times> string) option" where
  "json_integer s = (case json_digits s of None \<Rightarrow> None
    | Some (d, rest) \<Rightarrow> if hd d = CHR ''0'' then Some (''0'', drop 1 s) else Some (d, rest))"

definition json_fraction :: "string \<Rightarrow> (string \<times> string) option" where
  "json_fraction s = (if has_prefix s ''.'' then map_option (\<lambda>(d, t). (CHR ''.'' # d, t)) (json_digits (drop 1 s))
    else Some ([], s))"

definition json_exponent :: "string \<Rightarrow> (string \<times> string) option" where
  "json_exponent s = (case s of
      c # rest \<Rightarrow> if c = CHR ''e'' \<or> c = CHR ''E'' then
          (let sign = (if has_prefix rest ''+'' \<or> has_prefix rest ''-'' then take 1 rest else [])
           in map_option (\<lambda>(d, t). (c # sign @ d, t)) (json_digits (drop (length sign) rest)))
        else Some ([], s)
    | [] \<Rightarrow> Some ([], []))"

definition json_number :: "string \<Rightarrow> (string \<times> string) option" where
  "json_number s =
    (let sign = (if has_prefix s ''-'' then ''-'' else []) in
     case json_integer (drop (length sign) s) of None \<Rightarrow> None | Some (i, s1) \<Rightarrow>
     case json_fraction s1 of None \<Rightarrow> None | Some (f, s2) \<Rightarrow>
     case json_exponent s2 of None \<Rightarrow> None | Some (x, s3) \<Rightarrow> Some (sign @ i @ f @ x, s3))"

text \<open>\<open>maxNestingDepth\<close> of \<open>encoding/json\<close>.\<close>

definition json_depth :: nat where "json_depth = 10000"

fun json_value :: "nat \<Rightarrow> nat \<Rightarrow> string \<Rightarrow> (json \<times> string) option"
  and json_items :: "nat \<Rightarrow> nat \<Rightarrow> string \<Rightarrow> (json list \<times> string) option"
  and json_members :: "nat \<Rightarrow> nat \<Rightarrow> string \<Rightarrow> ((string \<times> json) list \<times> string) option" where
  "json_value 0 depth s = None"
| "json_value (Suc n) depth s =
    (case skip_space s of
      [] \<Rightarrow> None
    | c # cs \<Rightarrow>
        if c = CHR 0x22 then map_option (\<lambda>(v, t). (JStr v, t)) (json_chars (length cs) cs)
        else if c = CHR ''['' then
          (if json_depth \<le> depth then None
           else case skip_space cs of
             [] \<Rightarrow> None
           | x # t \<Rightarrow> if x = CHR '']'' then Some (JArr [], t)
               else map_option (\<lambda>(vs, t). (JArr vs, t)) (json_items n (Suc depth) cs))
        else if c = CHR ''{'' then
          (if json_depth \<le> depth then None
           else case skip_space cs of
             [] \<Rightarrow> None
           | x # t \<Rightarrow> if x = CHR ''}'' then Some (JObj [], t)
               else map_option (\<lambda>(kvs, t). (JObj kvs, t)) (json_members n (Suc depth) cs))
        else if has_prefix (c # cs) ''true'' then Some (JBool True, drop 3 cs)
        else if has_prefix (c # cs) ''false'' then Some (JBool False, drop 4 cs)
        else if has_prefix (c # cs) ''null'' then Some (JNull, drop 3 cs)
        else map_option (\<lambda>(l, t). (JNum l, t)) (json_number (c # cs)))"
| "json_items 0 depth s = None"
| "json_items (Suc n) depth s =
    (case json_value n depth s of
      None \<Rightarrow> None
    | Some (v, rest) \<Rightarrow>
        (case skip_space rest of
          [] \<Rightarrow> None
        | x # t \<Rightarrow> if x = CHR '']'' then Some ([v], t)
            else if x = CHR '','' then map_option (\<lambda>(vs, t). (v # vs, t)) (json_items n depth t)
            else None))"
| "json_members 0 depth s = None"
| "json_members (Suc n) depth s =
    (case skip_space s of
      [] \<Rightarrow> None
    | q # cs \<Rightarrow>
        if q \<noteq> CHR 0x22 then None
        else case json_chars (length cs) cs of
          None \<Rightarrow> None
        | Some (k, rest) \<Rightarrow>
            (case skip_space rest of
              [] \<Rightarrow> None
            | x # t \<Rightarrow>
                if x \<noteq> CHR '':'' then None
                else case json_value n depth t of
                  None \<Rightarrow> None
                | Some (v, rest) \<Rightarrow>
                    (case skip_space rest of
                      [] \<Rightarrow> None
                    | y # t \<Rightarrow> if y = CHR ''}'' then Some ([(k, v)], t)
                        else if y = CHR '','' then map_option (\<lambda>(kvs, t). ((k, v) # kvs, t)) (json_members n depth t)
                        else None)))"

text \<open>The first value of an input and what follows it; \<open>json.Unmarshal\<close> wants nothing to follow.\<close>

definition json_first :: "string \<Rightarrow> (json \<times> string) option" where
  "json_first s = json_value (2 * length s + 1) 0 s"

definition json_read :: "string \<Rightarrow> json option" where
  "json_read s = (case json_first s of None \<Rightarrow> None | Some (v, rest) \<Rightarrow> if skip_space rest = [] then Some v else None)"

section \<open>Filling a structure\<close>

text \<open>Keys match the names of fields up to the simple case folding of \<open>encoding/json\<close>; the names are ASCII, whose
  foldings outside ASCII are the Kelvin sign and the long s.\<close>

definition fold_rune :: "nat \<Rightarrow> nat" where
  "fold_rune r = (if 65 \<le> r \<and> r \<le> 90 then r + 32 else if r = 0x212A then 107 else if r = 0x17F then 115 else r)"

definition key_is :: "string \<Rightarrow> string \<Rightarrow> bool" where
  "key_is name k \<longleftrightarrow> map fold_rune (runes k) = map fold_rune (runes name)"

text \<open>The members of an object for a structure with the given fields; \<open>null\<close> leaves the structure alone, any
  other value is an error, and so is an unknown key when those are disallowed.\<close>

definition members :: "bool \<Rightarrow> string list \<Rightarrow> json \<Rightarrow> (string \<times> json) list option" where
  "members strict names v = (case v of
      JObj kvs \<Rightarrow> if strict \<and> list_ex (\<lambda>(k, _). \<not> list_ex (\<lambda>n. key_is n k) names) kvs then None else Some kvs
    | JNull \<Rightarrow> Some []
    | _ \<Rightarrow> None)"

text \<open>A field takes the last of its values; \<open>null\<close> leaves a plain field alone and clears a pointer.\<close>

fun fill :: "(json \<Rightarrow> 'a \<Rightarrow> 'a option) \<Rightarrow> string \<Rightarrow> (string \<times> json) list \<Rightarrow> 'a \<Rightarrow> 'a option" where
  "fill put name [] x = Some x"
| "fill put name ((k, v) # kvs) x =
    (if key_is name k then (case put v x of None \<Rightarrow> None | Some y \<Rightarrow> fill put name kvs y) else fill put name kvs x)"

fun set_string :: "json \<Rightarrow> string \<Rightarrow> string option" where
  "set_string (JStr s) x = Some s" | "set_string JNull x = Some x" | "set_string v x = None"

fun set_bool :: "json \<Rightarrow> bool \<Rightarrow> bool option" where
  "set_bool (JBool b) x = Some b" | "set_bool JNull x = Some x" | "set_bool v x = None"

fun set_int :: "json \<Rightarrow> int \<Rightarrow> int option" where
  "set_int (JNum l) x = atoi l" | "set_int JNull x = Some x" | "set_int v x = None"

fun set_string_ptr :: "json \<Rightarrow> string option \<Rightarrow> string option option" where
  "set_string_ptr (JStr s) x = Some (Some s)" | "set_string_ptr JNull x = Some None" | "set_string_ptr v x = None"

fun set_bool_ptr :: "json \<Rightarrow> bool option \<Rightarrow> bool option option" where
  "set_bool_ptr (JBool b) x = Some (Some b)" | "set_bool_ptr JNull x = Some None" | "set_bool_ptr v x = None"

abbreviation string_field :: "string \<Rightarrow> (string \<times> json) list \<Rightarrow> string option" where
  "string_field n kvs \<equiv> fill set_string n kvs ''''"
abbreviation bool_field :: "string \<Rightarrow> (string \<times> json) list \<Rightarrow> bool option" where
  "bool_field n kvs \<equiv> fill set_bool n kvs False"
abbreviation int_field :: "string \<Rightarrow> (string \<times> json) list \<Rightarrow> int option" where
  "int_field n kvs \<equiv> fill set_int n kvs 0"

section \<open>The fuel is enough\<close>

lemma skip_space_length: "length (skip_space s) \<le> length s"
  by (simp add: skip_space_def length_dropWhile_le)

lemma unicode_escape_length: "unicode_escape s = Some (r, t) \<Longrightarrow> length t \<le> length s"
  by (auto simp: unicode_escape_def Let_def split: option.splits if_splits)

lemma json_chars_length: "json_chars n s = Some (v, t) \<Longrightarrow> length t < length s"
proof (induction n s arbitrary: v t rule: json_chars.induct)
  case (3 n c cs)
  consider (quote) "c = CHR 0x22" | (control) "of_char c < (32::nat)" "c \<noteq> CHR 0x22"
    | (escape) "c \<noteq> CHR 0x22" "\<not> of_char c < (32::nat)" "c = CHR 0x5C"
    | (plain) "c \<noteq> CHR 0x22" "\<not> of_char c < (32::nat)" "c \<noteq> CHR 0x5C" by blast
  then show ?case
  proof cases
    case quote
    then show ?thesis using "3.prems" by simp
  next
    case control
    then show ?thesis using "3.prems" by simp
  next
    case escape
    then obtain x xs where cs: "cs = x # xs" using "3.prems" by (cases cs) simp_all
    show ?thesis
    proof (cases "x = CHR ''u''")
      case True
      then obtain r rest where u: "unicode_escape xs = Some (r, rest)"
        using "3.prems" escape cs by (auto split: option.splits)
      then obtain out where "json_chars n rest = Some (out, t)"
        using "3.prems" escape cs True by auto
      with "3.IH"(1) [OF escape cs True u] have "length t < length rest" by simp
      then show ?thesis using unicode_escape_length [OF u] cs by simp
    next
      case False
      then obtain y where y: "json_escape x = Some y" using "3.prems" escape cs by (auto split: option.splits)
      then obtain out where "json_chars n xs = Some (out, t)" using "3.prems" escape cs False by auto
      with "3.IH"(2) [OF escape cs False y] show ?thesis using cs by simp
    qed
  next
    case plain
    obtain r w where d: "decode_rune (c # cs) = (r, w)" by fastforce
    then obtain out where "json_chars n (drop w (c # cs)) = Some (out, t)" using "3.prems" plain by auto
    with "3.IH"(3) [OF plain d [symmetric]] have "length t < length (drop w (c # cs))" by blast
    then show ?thesis using d decode_rune_width [of "c # cs"] by simp
  qed
qed simp_all

lemma json_digits_length: "json_digits s = Some (d, t) \<Longrightarrow> length t < length s"
proof -
  assume "json_digits s = Some (d, t)"
  then have "takeWhile is_digit s \<noteq> []" "t = dropWhile is_digit s" by (auto simp: json_digits_def Let_def split: if_splits)
  moreover have "length s = length (takeWhile is_digit s) + length (dropWhile is_digit s)"
    by (metis length_append takeWhile_dropWhile_id)
  ultimately show ?thesis by simp
qed

lemma json_integer_length: "json_integer s = Some (d, t) \<Longrightarrow> length t < length s"
  by (cases s) (auto simp: json_integer_def json_digits_def Let_def le_imp_less_Suc length_dropWhile_le split: option.splits if_splits)

lemma json_fraction_length: "json_fraction s = Some (d, t) \<Longrightarrow> length t \<le> length s"
  by (auto simp: json_fraction_def split: if_splits dest!: json_digits_length)

lemma json_exponent_length: "json_exponent s = Some (d, t) \<Longrightarrow> length t \<le> length s"
  by (auto simp: json_exponent_def Let_def split: list.splits if_splits dest!: json_digits_length)

lemma json_number_length: "json_number s = Some (l, t) \<Longrightarrow> length t < length s"
  by (clarsimp simp: json_number_def Let_def split: option.splits if_splits;
    drule json_integer_length; drule json_fraction_length; drule json_exponent_length; simp)

lemma skip_space_Cons: "skip_space s = c # cs \<Longrightarrow> length cs < length s"
  using skip_space_length [of s] by simp

lemma json_length:
  "json_value n d s = Some (v, t) \<Longrightarrow> length t < length s"
  "json_items n d s = Some (vs, t) \<Longrightarrow> length t < length s"
  "json_members n d s = Some (kvs, t) \<Longrightarrow> length t < length s"
proof (induction n d s and n d s and n d s arbitrary: v t and vs t and kvs t
    rule: json_value_json_items_json_members.induct)
  case (2 n depth s)
  then obtain c cs where s: "skip_space s = c # cs" by (auto split: list.splits)
  show ?case using 2 s skip_space_Cons [OF s]
    by (auto split: if_splits list.splits dest!: json_chars_length json_number_length skip_space_Cons)
      (meson less_trans refl)+
next
  case (4 n depth s)
  from 4(3) obtain v rest x t' where "json_value n depth s = Some (v, rest)" "skip_space rest = x # t'"
    by (auto split: option.splits list.splits)
  then show ?case using 4 skip_space_Cons [of rest x t']
    by (auto split: if_splits) (meson less_trans refl)+
next
  case (6 n depth s)
  from 6(3) obtain q cs where q: "skip_space s = q # cs" "q = CHR 0x22" by (auto split: list.splits if_splits)
  from 6(3) q obtain k rest x t1 where k: "json_chars (length cs) cs = Some (k, rest)" "skip_space rest = x # t1" "x = CHR '':''"
    by (auto split: list.splits if_splits option.splits)
  from 6(3) q k obtain v rest2 y t2 where v: "json_value n depth t1 = Some (v, rest2)" "skip_space rest2 = y # t2"
    by (auto split: list.splits if_splits option.splits)
  have "length rest2 < length t1" using 6(1) q k v by blast
  moreover have "length t = length t2 \<or> length t < length t2" using 6(2,3) q k v by (auto split: if_splits)
  ultimately show ?case using skip_space_Cons [OF q(1)] skip_space_Cons [OF k(2)] skip_space_Cons [OF v(2)]
      json_chars_length [OF k(1)] by linarith
qed simp_all

text \<open>With at least twice the length of the input and one, more fuel gives the same value.\<close>

lemma json_fuel:
  "2 * length s + 1 \<le> n \<Longrightarrow> json_value (Suc n) d s = json_value n d s"
  "2 * length s + 2 \<le> n \<Longrightarrow> json_items (Suc n) d s = json_items n d s"
  "2 * length s + 2 \<le> n \<Longrightarrow> json_members (Suc n) d s = json_members n d s"
proof (induction n arbitrary: d s)
  case (Suc n)
  {
    case 1
    then show ?case
    proof (cases "skip_space s")
      case (Cons c cs)
      then have "length cs < length s" by (rule skip_space_Cons)
      then have "2 * length cs + 2 \<le> n" using 1 by simp
      then have "json_items (Suc n) (Suc d) cs = json_items n (Suc d) cs"
        "json_members (Suc n) (Suc d) cs = json_members n (Suc d) cs" by (rule Suc.IH)+
      then show ?thesis using Cons by (simp del: json_items.simps json_members.simps split: list.split)
    qed simp
  next
    case 2
    then have v: "json_value (Suc n) d s = json_value n d s" by (intro Suc.IH) simp
    have "json_items (Suc n) d t = json_items n d t" if "json_value n d s = Some (v, rest)" "skip_space rest = x # t" for v rest x t
      using 2 json_length(1) [OF that(1)] skip_space_Cons [OF that(2)] by (intro Suc.IH) simp
    then show ?case
      unfolding json_items.simps(2) [of "Suc n" d s] json_items.simps(2) [of n d s] v
      by (auto split: option.split list.split)
  next
    case 3
    have v: "json_value (Suc n) d t = json_value n d t"
      if "skip_space s = q # cs" "json_chars (length cs) cs = Some (k, rest)" "skip_space rest = x # t" for q cs k rest x t
      using 3 skip_space_Cons [OF that(1)] json_chars_length [OF that(2)] skip_space_Cons [OF that(3)]
      by (intro Suc.IH) simp
    have m: "json_members (Suc n) d t' = json_members n d t'"
      if "skip_space s = q # cs" "json_chars (length cs) cs = Some (k, rest)" "skip_space rest = x # t"
        "json_value n d t = Some (w, rest')" "skip_space rest' = y # t'" for q cs k rest x t w rest' y t'
      using 3 skip_space_Cons [OF that(1)] json_chars_length [OF that(2)] skip_space_Cons [OF that(3)]
        json_length(1) [OF that(4)] skip_space_Cons [OF that(5)] by (intro Suc.IH) simp
    show ?case
      unfolding json_members.simps(2) [of "Suc n" d s] json_members.simps(2) [of n d s]
      by (auto split: option.split list.split simp: v m simp del: json_members.simps json_value.simps)
  }
qed simp_all

lemma json_first_fuel: "2 * length s + 1 \<le> n \<Longrightarrow> json_value n 0 s = json_first s"
  unfolding json_first_def by (induction n rule: dec_induct) (simp_all add: json_fuel del: json_value.simps)

section \<open>Reading concrete input\<close>

lemma json_chars_step:
  assumes "32 \<le> (of_char c :: nat)" "(of_char c :: nat) < 128" "c \<noteq> CHR 0x22" "c \<noteq> CHR 0x5C"
  shows "json_chars (Suc n) (c # cs) = map_option (\<lambda>(out, t). (c # out, t)) (json_chars n cs)"
proof -
  have "decode_rune (c # cs) = (byte_at (c # cs) 0, 1)" by (rule decode_rune_ascii) (use assms in \<open>auto simp: rune_size_def\<close>)
  moreover have "encode_rune (of_char c) = [c]" using assms by (simp add: encode_rune_def)
  ultimately show ?thesis using assms by simp
qed

lemma json_chars_stop: "json_chars (Suc n) (CHR 0x22 # cs) = Some ([], cs)"
  by simp

lemmas json_eval = json_read_def json_first_def json_chars_step json_chars_stop json_depth_def json_number_def json_integer_def
  json_digits_def is_digit_def digit_val_def json_fraction_def json_exponent_def has_prefix_def Let_def skip_space_def json_space_def

end
