(* ===== verification/Http.thy ===== *)
theory Http
  imports StoreMachine Books Json "HOL-Library.State_Monad"
begin

text \<open>
  The HTTP layer of \<open>server/\<close>: requests and responses, the fields of \<open>Server\<close>, where a request comes from, cookies,
  the double-submit CSRF token, sessions, the data every page is given, and the wrappers that decide who may run a
  handler. A handler threads the server through the state monad; the last section collects what it leaves alone.
  Every request reads the clock once (\<open>env\<close>); rendering a template and writing to the network are not modelled.
\<close>

section \<open>Requests and responses\<close>

text \<open>A request: the query and the form (the values of the body before those of the query) are lists of
  names and values, \<open>rq_params\<close> are the parameters of the route, \<open>rq_body\<close> the bytes of a body that is not a form.
  \<open>rq_form_ok\<close> says whether the first \<open>ParseForm\<close> succeeds within the limit on the body, \<open>rq_multipart\<close> is what
  \<open>ParseMultipartForm\<close> finds: \<open>None\<close> for a failure, else the uploaded file \<open>book\<close>, its name and bytes, if there is one.
  The keys of headers are in canonical form.\<close>

record request =
  rq_method :: string
  rq_uri :: string
  rq_query :: "(string \<times> string) list"
  rq_form :: "(string \<times> string) list"
  rq_form_ok :: bool
  rq_multipart :: "(string \<times> string) option option"
  rq_headers :: "(string \<times> string) list"
  rq_cookies :: "(string \<times> string) list"
  rq_remote :: string
  rq_host :: string
  rq_tls :: bool
  rq_params :: "(string \<times> string) list"
  rq_body :: string

definition lookup_first :: "(string \<times> string) list \<Rightarrow> string \<Rightarrow> string" where
  "lookup_first kvs k = (case map_of kvs k of None \<Rightarrow> '''' | Some v \<Rightarrow> v)"

abbreviation FormValue :: "request \<Rightarrow> string \<Rightarrow> string" where "FormValue r \<equiv> lookup_first (rq_form r)"
abbreviation query_value :: "request \<Rightarrow> string \<Rightarrow> string" where "query_value r \<equiv> lookup_first (rq_query r)"
abbreviation header :: "request \<Rightarrow> string \<Rightarrow> string" where "header r \<equiv> lookup_first (rq_headers r)"
abbreviation param :: "request \<Rightarrow> string \<Rightarrow> string" where "param r \<equiv> lookup_first (rq_params r)"
abbreviation form_values :: "request \<Rightarrow> string \<Rightarrow> string list" where
  "form_values r k \<equiv> map snd (filter (\<lambda>(n, _). n = k) (rq_form r))"
abbreviation cookie_value :: "request \<Rightarrow> string \<Rightarrow> string option" where "cookie_value r \<equiv> map_of (rq_cookies r)"

text \<open>\<open>FormValue\<close> parses the form and drops the error; a \<open>ParseForm\<close> after it finds the form parsed and
  reports nothing, whatever the first one met.\<close>

definition ParseForm_again :: "request \<Rightarrow> bool" where
  "ParseForm_again r = True"

record cookie =
  ck_name :: string
  ck_value :: string
  ck_max_age :: int
  ck_expires :: gotime
  ck_http_only :: bool
  ck_secure :: bool

text \<open>What a template is given: named values of the types the handlers pass.\<close>

datatype val =
    VStr string | VBool bool | VInt int | VTime gotime | VNil | VUser User | VSettings Settings | VBook Book | VBooks "Book list"
  | VNames "named list" | VLists "BookList list" | VList BookList | VTags "BookTag list" | VStrs "string list"
  | VReading ReadingItem | VRequest BookRequest | VClaim CopyrightClaim | VAlert SystemAlert
  | VRows "(string \<times> val) list list"

text \<open>A handler that panics sends nothing: the server recovers and closes the connection.\<close>

datatype body = NoBody | Panic | Text string | Template string "(string \<times> val) list" | Json json | File string

record response =
  rp_status :: nat
  rp_location :: "string option"
  rp_headers :: "(string \<times> string) list"
  rp_cookies :: "cookie list"
  rp_body :: body

definition redirect :: "nat \<Rightarrow> string \<Rightarrow> response" where
  "redirect status url = \<lparr>rp_status = status, rp_location = Some url, rp_headers = [], rp_cookies = [], rp_body = NoBody\<rparr>"

definition http_error :: "string \<Rightarrow> nat \<Rightarrow> response" where
  "http_error message status = \<lparr>rp_status = status, rp_location = None, rp_headers = [], rp_cookies = [], rp_body = Text message\<rparr>"

definition panic :: response where
  "panic = \<lparr>rp_status = 0, rp_location = None, rp_headers = [], rp_cookies = [], rp_body = Panic\<rparr>"

definition json_type :: "string \<times> string" where
  "json_type = (''Content-Type'', ''application/json; charset=utf-8'')"

text \<open>\<open>writeJSON\<close> and \<open>writeJSONError\<close> of \<open>server/reading.go\<close>, \<open>writeAPIJSON\<close> and \<open>writeAPIError\<close> of \<open>server/api.go\<close>.\<close>

definition writeJSON :: "nat \<Rightarrow> json \<Rightarrow> response" where
  "writeJSON status v = \<lparr>rp_status = status, rp_location = None,
    rp_headers = [json_type, (''Cache-Control'', ''no-store'')], rp_cookies = [], rp_body = Json v\<rparr>"

definition writeJSONError :: "nat \<Rightarrow> string \<Rightarrow> response" where
  "writeJSONError status message = writeJSON status (JObj [(''error'', JStr message)])"

definition writeAPIJSON :: "nat \<Rightarrow> json \<Rightarrow> response" where
  "writeAPIJSON status v = \<lparr>rp_status = status, rp_location = None,
    rp_headers = [json_type, (''Cache-Control'', ''no-store''), (''X-Content-Type-Options'', ''nosniff'')],
    rp_cookies = [], rp_body = Json v\<rparr>"

definition writeAPIError :: "nat \<Rightarrow> string \<Rightarrow> string \<Rightarrow> response" where
  "writeAPIError status code message =
    writeAPIJSON status (JObj [(''error'', JObj [(''code'', JStr code), (''message'', JStr message)])])"

definition urlQuery :: "string \<Rightarrow> string" where
  "urlQuery v = query_escape v"

section \<open>The server\<close>

record attempt_entry =
  ae_Failures :: nat
  ae_ResetAt :: gotime

record challenge =
  ch_ID :: string
  ch_PollHash :: string
  ch_TokenName :: string
  ch_ClientName :: string
  ch_ClientIP :: string
  ch_ExpiresAt :: gotime
  ch_LastPollAt :: "gotime option"
  ch_ApprovedUser :: string
  ch_Issuing :: bool

text \<open>A background download (\<open>libgenJobStatus\<close>) and the state of the monitor of the text-to-speech service.\<close>

record job =
  job_MD5 :: string
  job_Title :: string
  job_State :: string
  job_Error :: string

record monitor =
  mon_url :: string
  mon_unreachable :: int
  mon_unreachableSince :: gotime
  mon_unsupportedLogged :: bool

text \<open>The files of the library by path, behind the same kind of connection as the database: any operation may
  fail, and the names of temporary files are drawn from the random bytes.\<close>

type_synonym files = "string \<Rightarrow> string option"
type_synonym 'a disk_io = "(files, 'a) io"

text \<open>An RSA key and the state of the verifier of Google's tokens.\<close>

record verifier =
  vf_keys :: "string \<Rightarrow> (nat \<times> nat) option"
  vf_expires :: gotime

text \<open>The fields of \<open>Server\<close> its handlers use. \<open>sv_format\<close> is \<open>Time.Format\<close> of a layout and a time in the
  time zone of the machine, \<open>sv_refreshes\<close> counts the background runs of \<open>RefreshBookIndex\<close> that were started,
  \<open>sv_pages\<close> are the pages of \<open>public.Box\<close> by path, with the document Markdown renders them to.\<close>

record server =
  sv_db :: "db conn"
  sv_disk :: "files conn"
  sv_index :: indexer
  sv_formats :: "(string \<times> loader) list"
  sv_BookDir :: string
  sv_attempts :: "string \<Rightarrow> attempt_entry option"
  sv_challenges :: "(string \<times> challenge) list"
  sv_google :: string
  sv_verifier :: verifier
  sv_version :: string
  sv_build_id :: string
  sv_build_time :: string
  sv_build_number :: string
  sv_last_index_at :: "gotime option"
  sv_last_index_error :: string
  sv_refreshes :: nat
  sv_jobs :: "string \<Rightarrow> job option"
  sv_job_order :: "string list"
  sv_data_path :: string
  sv_format :: "string \<Rightarrow> gotime \<Rightarrow> string"
  sv_year :: "gotime \<Rightarrow> int"
  sv_pages :: "string \<Rightarrow> string option option"

type_synonym 'a act = "(server, 'a) state"

abbreviation give :: "'a \<Rightarrow> 'a act" where "give \<equiv> State_Monad.return"

definition field :: "(server \<Rightarrow> 'a) \<Rightarrow> 'a act" where
  "field f = State (\<lambda>s. (f s, s))"

definition store :: "'a db_io \<Rightarrow> (err + 'a) act" where
  "store m = State (\<lambda>s. case m (sv_db s) of (r, c) \<Rightarrow> (r, s\<lparr>sv_db := c\<rparr>))"

definition disk :: "'a disk_io \<Rightarrow> (err + 'a) act" where
  "disk m = State (\<lambda>s. case m (sv_disk s) of (r, c) \<Rightarrow> (r, s\<lparr>sv_disk := c\<rparr>))"

definition modify :: "(server \<Rightarrow> server) \<Rightarrow> unit act" where
  "modify f = State (\<lambda>s. ((), f s))"

lemma run_field [simp]: "run_state (field f) s = (f s, s)"
  by (simp add: field_def)

lemma run_store [simp]: "run_state (store m) s = (case m (sv_db s) of (r, c) \<Rightarrow> (r, s\<lparr>sv_db := c\<rparr>))"
  by (simp add: store_def)

lemma run_disk [simp]: "run_state (disk m) s = (case m (sv_disk s) of (r, c) \<Rightarrow> (r, s\<lparr>sv_disk := c\<rparr>))"
  by (simp add: disk_def)

lemma run_modify [simp]: "run_state (modify f) s = ((), f s)"
  by (simp add: modify_def)

text \<open>\<open>s.Indexer.BookList()\<close>; \<open>put_books\<close> is what an operation that reorders the shared array leaves.
  \<open>go s.RefreshBookIndex()\<close> starts a run in the background.\<close>

definition books :: "Book list act" where
  "books = field (\<lambda>s. ix_booklist (sv_index s))"

definition put_books :: "Book list \<Rightarrow> unit act" where
  "put_books bl = modify (\<lambda>s. s\<lparr>sv_index := (sv_index s)\<lparr>ix_booklist := bl\<rparr>\<rparr>)"

definition find_book :: "string \<Rightarrow> Book option act" where
  "find_book i = do { bl \<leftarrow> books; give (findBook bl i) }"

definition start_refresh :: "unit act" where
  "start_refresh = modify (\<lambda>s. s\<lparr>sv_refreshes := sv_refreshes s + 1\<rparr>)"

definition google_enabled :: "bool act" where
  "google_enabled = field (\<lambda>s. sv_google s \<noteq> '''')"

section \<open>Where a request comes from\<close>

definition requestIsSecure :: "request \<Rightarrow> bool" where
  "requestIsSecure r = (if rq_tls r then True
    else case split_host_port (rq_remote r) of None \<Rightarrow> False
      | Some (host, _) \<Rightarrow> (case parse_ip host of None \<Rightarrow> False
          | Some i \<Rightarrow> is_loopback i \<and> trim_space (hd (split_char CHR '','' (header r ''X-Forwarded-Proto''))) = ''https''))"

definition clientIP :: "request \<Rightarrow> string" where
  "clientIP r = (let host = (case split_host_port (rq_remote r) of None \<Rightarrow> rq_remote r | Some (h, _) \<Rightarrow> h) in
    case parse_ip host of
      Some i \<Rightarrow> if is_loopback i then
          (case parse_ip (trim_space (header r ''X-Real-Ip'')) of Some real \<Rightarrow> show_ip real | None \<Rightarrow> host)
        else host
    | None \<Rightarrow> host)"

definition pageURL :: "request \<Rightarrow> string" where
  "pageURL r =
    (let scheme = (if requestIsSecure r then ''https'' else ''http'');
         forwarded = trim_space (hd (split_char CHR '','' (header r ''X-Forwarded-Host'')));
         host = (if forwarded \<noteq> '''' then forwarded else trim_space (rq_host r))
     in scheme @ ''://'' @ host @ rq_uri r)"

definition safeNext :: "string \<Rightarrow> bool" where
  "safeNext v \<longleftrightarrow> has_prefix v ''/'' \<and> \<not> has_prefix v ''//'' \<and> \<not> contains_any v [CHR 0x0D, CHR 0x0A]"

definition safeNextValue :: "string \<Rightarrow> string" where
  "safeNextValue v = (if safeNext v then v else '''')"

definition constantStringEqual :: "string \<Rightarrow> string \<Rightarrow> bool" where
  "constantStringEqual a b = (if length a \<noteq> length b then False else list_all2 (=) a b)"

section \<open>Cookies and sessions\<close>

definition sessionCookieName :: string where "sessionCookieName = ''bookbrowser_session''"
definition csrfCookieName :: string where "csrfCookieName = ''bookbrowser_csrf''"

definition secureToken :: "nat \<Rightarrow> (err + string) act" where
  "secureToken n = store (bnd (read_full n) (\<lambda>buf. ret (b64_encode url_alphabet buf)))"

definition userCount :: "nat act" where
  "userCount = do { n \<leftarrow> store CountUsers; give (case n of Inl _ \<Rightarrow> 0 | Inr k \<Rightarrow> k) }"

definition registrationAllowed :: "bool act" where
  "registrationAllowed = do { a \<leftarrow> store CanRegister; give (case a of Inl _ \<Rightarrow> False | Inr b \<Rightarrow> b) }"

definition authSettings :: "Settings act" where
  "authSettings = do { s \<leftarrow> store GetSettings; give (case s of Inl _ \<Rightarrow> DefaultSettings | Inr x \<Rightarrow> x) }"

definition currentUser :: "env \<Rightarrow> request \<Rightarrow> User option act" where
  "currentUser e r = (case cookie_value r sessionCookieName of
      None \<Rightarrow> give None
    | Some v \<Rightarrow> if v = '''' then give None
        else do { u \<leftarrow> store (UserForSession e v); give (case u of Inl _ \<Rightarrow> None | Inr x \<Rightarrow> x) })"

definition csrfToken :: "env \<Rightarrow> request \<Rightarrow> (string \<times> cookie list) act" where
  "csrfToken e r =
    (let fresh = do {
        t \<leftarrow> secureToken 24;
        give (case t of Inl _ \<Rightarrow> ('''', [])
          | Inr token \<Rightarrow> (token, [\<lparr>ck_name = csrfCookieName, ck_value = token, ck_max_age = 24 * 3600,
              ck_expires = now e + hours 24, ck_http_only = True, ck_secure = requestIsSecure r\<rparr>]))
      }
     in case cookie_value r csrfCookieName of
       None \<Rightarrow> fresh
     | Some v \<Rightarrow> if 32 \<le> length v then give (v, []) else fresh)"

definition verifyCSRF :: "request \<Rightarrow> bool" where
  "verifyCSRF r = (case cookie_value r csrfCookieName of
      None \<Rightarrow> False | Some v \<Rightarrow> constantStringEqual v (FormValue r ''csrf_token''))"

definition clearCookie :: "request \<Rightarrow> string \<Rightarrow> cookie" where
  "clearCookie r name = \<lparr>ck_name = name, ck_value = '''', ck_max_age = -1, ck_expires = seconds 1,
    ck_http_only = True, ck_secure = requestIsSecure r\<rparr>"

definition startSession :: "env \<Rightarrow> request \<Rightarrow> User \<Rightarrow> (err + cookie list) act" where
  "startSession e r user = do {
    t \<leftarrow> store (NewSession e (user_ID user));
    case t of
      Inl x \<Rightarrow> give (Inl x)
    | Inr token \<Rightarrow> do {
        _ \<leftarrow> store (RecordLastIP (user_ID user) (clientIP r));
        give (Inr [\<lparr>ck_name = sessionCookieName, ck_value = token, ck_max_age = 30 * 24 * 3600,
          ck_expires = now e + hours (30 * 24), ck_http_only = True, ck_secure = requestIsSecure r\<rparr>])
      }
  }"

section \<open>Pages\<close>

text \<open>The part of the page data only a signed-in reader sees.\<close>

definition user_data :: "User \<Rightarrow> (string \<times> val) list act" where
  "user_data user = do {
    admin \<leftarrow> (if user_Role user = RoleAdmin then do {
        claims \<leftarrow> store PendingCopyrightClaimCount;
        alerts \<leftarrow> store SystemAlertCounts;
        give ((case alerts of Inl _ \<Rightarrow> [] | Inr (_, unread) \<Rightarrow> [(''UnreadSystemAlerts'', VInt (int unread))]) @
          (case claims of Inl _ \<Rightarrow> [] | Inr n \<Rightarrow> [(''PendingCopyrightClaims'', VInt (int n))]))
      } else give []);
    mine \<leftarrow> store (PendingBookRequestCountForUser (user_ID user));
    give ((case mine of Inl _ \<Rightarrow> [] | Inr n \<Rightarrow> [(''MyPendingRequests'', VInt (int n))]) @ admin @
      [(''CanManageLibrary'', VBool (role_allows (user_Role user) RoleManager)),
       (''IsAdmin'', VBool (user_Role user = RoleAdmin)), (''LoggedIn'', VBool True), (''CurrentUser'', VUser user)])
  }"

text \<open>The data of the page, the entries set last first.\<close>

definition renderPage :: "env \<Rightarrow> request \<Rightarrow> nat \<Rightarrow> string \<Rightarrow> (string \<times> val) list \<Rightarrow> response act" where
  "renderPage e r status name data = do {
    settings \<leftarrow> authSettings;
    open \<leftarrow> registrationAllowed;
    google \<leftarrow> field sv_google;
    count \<leftarrow> userCount;
    build \<leftarrow> field (\<lambda>s. (sv_build_id s, sv_build_time s, sv_build_number s));
    year \<leftarrow> field (\<lambda>s. sv_year s (now e));
    token \<leftarrow> csrfToken e r;
    user \<leftarrow> currentUser e r;
    signed_in \<leftarrow> (case user of None \<Rightarrow> give [] | Some u \<Rightarrow> user_data u);
    give \<lparr>rp_status = status, rp_location = None, rp_headers = [], rp_cookies = snd token, rp_body = Template name
      (signed_in @ [(''CSRFToken'', VStr (fst token)), (''PageURL'', VStr (pageURL r)),
        (''BuildNumber'', VStr (snd (snd build))), (''BuildTime'', VStr (fst (snd build))), (''BuildID'', VStr (fst build)),
        (''NeedsSetup'', VBool (count = 0)), (''GoogleClientID'', VStr google), (''GoogleEnabled'', VBool (google \<noteq> '''')),
        (''RegistrationOpen'', VBool open), (''CurrentYear'', VInt year),
        (''PWAName'', VStr (set_PWAName settings)), (''SiteName'', VStr (set_SiteName settings))] @ data)\<rparr>
  }"

text \<open>The pages that say what went wrong.\<close>

definition message_page :: "env \<Rightarrow> request \<Rightarrow> nat \<Rightarrow> string \<Rightarrow> string \<Rightarrow> string \<Rightarrow> response act" where
  "message_page e r status title heading message = do {
    v \<leftarrow> field sv_version;
    renderPage e r status ''message'' [(''CurVersion'', VStr v), (''PageTitle'', VStr title), (''Title'', VStr heading),
      (''Message'', VStr message)]
  }"

definition not_found_page :: "env \<Rightarrow> request \<Rightarrow> string \<Rightarrow> response act" where
  "not_found_page e r message = do {
    v \<leftarrow> field sv_version;
    renderPage e r 404 ''notfound'' [(''CurVersion'', VStr v), (''PageTitle'', VStr ''Not Found''),
      (''Title'', VStr ''Not Found''), (''Message'', VStr message)]
  }"

section \<open>Who may run a handler\<close>

definition redirectToLogin :: "request \<Rightarrow> response" where
  "redirectToLogin r = (let next = (if safeNext (rq_uri r) then rq_uri r else ''/books'')
    in redirect 303 (''/login?next='' @ query_escape next))"

definition requireRole :: "env \<Rightarrow> string \<Rightarrow> (request \<Rightarrow> response act) \<Rightarrow> request \<Rightarrow> response act" where
  "requireRole e required handler r = do {
    user \<leftarrow> currentUser e r;
    case user of
      None \<Rightarrow> give (redirectToLogin r)
    | Some u \<Rightarrow> if \<not> role_allows (user_Role u) required
        then message_page e r 403 ''Forbidden'' ''Access denied'' ''Your account does not have permission to access this page.''
        else handler r
  }"

definition allowAnonymousBook :: "env \<Rightarrow> (request \<Rightarrow> response act) \<Rightarrow> request \<Rightarrow> response act" where
  "allowAnonymousBook e handler r = do {
    settings \<leftarrow> authSettings;
    if set_AnonymousBookLinks settings then handler r
    else do {
      user \<leftarrow> currentUser e r;
      case user of
        None \<Rightarrow> give (redirectToLogin r)
      | Some u \<Rightarrow> if \<not> role_allows (user_Role u) RoleReader then give (redirectToLogin r) else handler r
    }
  }"

section \<open>What a handler does not touch\<close>

definition leaves :: "(server \<Rightarrow> 'v) \<Rightarrow> 'a act \<Rightarrow> bool" where
  "leaves C m = state_io_rel (\<lambda>s s'. C s' = C s) m"

lemma leaves_iff: "leaves C m \<longleftrightarrow> (\<forall>s. C (snd (run_state m s)) = C s)"
  by (simp add: leaves_def state_io_rel_def)

text \<open>A part of the tables of the database.\<close>

abbreviation stored :: "(db \<Rightarrow> 'v) \<Rightarrow> server \<Rightarrow> 'v" where
  "stored C s \<equiv> C (tables (sv_db s))"

named_theorems leave_intro

lemma leavesD: "leaves C m \<Longrightarrow> run_state m s = (x, s') \<Longrightarrow> C s' = C s"
  by (metis leaves_iff snd_conv)

lemma leaves_give [leave_intro]: "leaves C (give x)"
  by (simp add: leaves_iff)

lemma leaves_field [leave_intro]: "leaves C (field f)"
  by (simp add: leaves_iff)

lemma leaves_modify: "(\<And>s. C (f s) = C s) \<Longrightarrow> leaves C (modify f)"
  by (simp add: leaves_iff)

lemma leaves_bind [leave_intro]: "leaves C m \<Longrightarrow> (\<And>x. leaves C (f x)) \<Longrightarrow> leaves C (State_Monad.bind m f)"
  by (auto simp: leaves_iff split: prod.splits) (metis snd_conv)

lemma leaves_if [leave_intro]: "(b \<Longrightarrow> leaves C m) \<Longrightarrow> (\<not> b \<Longrightarrow> leaves C m') \<Longrightarrow> leaves C (if b then m else m')"
  by simp

lemma leaves_option [leave_intro]:
  "leaves C m \<Longrightarrow> (\<And>x. leaves C (f x)) \<Longrightarrow> leaves C (case y of None \<Rightarrow> m | Some x \<Rightarrow> f x)"
  by (cases y) simp_all

lemma leaves_sum [leave_intro]:
  "(\<And>x. leaves C (f x)) \<Longrightarrow> (\<And>x. leaves C (g x)) \<Longrightarrow> leaves C (case y of Inl x \<Rightarrow> f x | Inr x \<Rightarrow> g x)"
  by (cases y) simp_all

lemma leaves_prod [leave_intro]: "(\<And>x y. leaves C (f x y)) \<Longrightarrow> leaves C (case p of (x, y) \<Rightarrow> f x y)"
  by (cases p) simp

lemma leaves_Let [leave_intro]: "leaves C (f v) \<Longrightarrow> leaves C (let x = v in f x)"
  by simp

lemma leaves_store: "keeps C m \<Longrightarrow> leaves (stored C) (store m)"
  by (auto simp: leaves_iff keeps_def split: prod.splits) (metis snd_conv)

lemma leaves_read: "readonly m \<Longrightarrow> leaves (stored C) (store m)"
  by (rule leaves_store [OF keeps_readonly])

lemma leaves_disk [leave_intro]: "leaves (stored C) (disk m)"
  by (auto simp: leaves_iff split: prod.splits)

text \<open>The calls of the store that only read.\<close>

lemma readonly_cases [readonly_intro]:
  "readonly m \<Longrightarrow> readonly m' \<Longrightarrow> readonly (if b then m else m')"
  "(\<And>x y. readonly (f x y)) \<Longrightarrow> readonly (case p of (x, y) \<Rightarrow> f x y)"
  "readonly m \<Longrightarrow> (\<And>x. readonly (g x)) \<Longrightarrow> readonly (case z of None \<Rightarrow> m | Some x \<Rightarrow> g x)"
  by (simp, cases p, simp, cases z, simp_all)

lemma readonly_reads [readonly_intro]:
  "readonly CountUsers" "readonly CanRegister" "readonly GetSettings" "readonly (UserForSession e t)"
  "readonly Users" "readonly (UserByID i)" "readonly (UserByEmail em)" "readonly (APITokens i)" "readonly (LanguageForUser i)"
  "readonly (RecentBookIDs i n)" "readonly (RecentBooks i n)" "readonly (BookListsForUser i)" "readonly (BookListsForBook i b)"
  "readonly (BookListForUser i l)" "readonly (BookIDsForList i l)" "readonly (TagsForUser i)" "readonly (TagsForBook i b)"
  "readonly (BookIDsForTag i g)" "readonly (ReadingItems i b n)" "readonly (BookRequestsForUser i)" "readonly BookRequestsAll"
  "readonly PendingBookRequestCount" "readonly (PendingBookRequestCountForUser i)" "readonly CopyrightClaimsAll"
  "readonly (CopyrightClaimByID i)" "readonly PendingCopyrightClaimCount" "readonly (SystemAlerts n)" "readonly SystemAlertCounts"
  unfolding CountUsers_def CanRegister_def GetSettings_def UserForSession_def Users_def UserByID_def UserByEmail_def
    APITokens_def LanguageForUser_def RecentBookIDs_def RecentBooks_def BookListsForUser_def BookListsForBook_def
    BookListForUser_def BookIDsForList_def TagsForUser_def TagsForBook_def BookIDsForTag_def ReadingItems_def
    BookRequestsForUser_def BookRequestsAll_def PendingBookRequestCount_def PendingBookRequestCountForUser_def
    CopyrightClaimsAll_def CopyrightClaimByID_def PendingCopyrightClaimCount_def SystemAlerts_def SystemAlertCounts_def Let_def
  by (intro readonly_intro)+

lemma leaves_reads [leave_intro]:
  "leaves (stored C) (store CountUsers)" "leaves (stored C) (store CanRegister)" "leaves (stored C) (store GetSettings)"
  "leaves (stored C) (store (UserForSession e t))" "leaves (stored C) (store Users)" "leaves (stored C) (store (UserByID i))"
  "leaves (stored C) (store (APITokens i))" "leaves (stored C) (store (LanguageForUser i))"
  "leaves (stored C) (store (RecentBookIDs i n))" "leaves (stored C) (store (RecentBooks i n))"
  "leaves (stored C) (store (BookListsForUser i))" "leaves (stored C) (store (BookListsForBook i b))"
  "leaves (stored C) (store (BookListForUser i l))" "leaves (stored C) (store (BookIDsForList i l))"
  "leaves (stored C) (store (TagsForUser i))" "leaves (stored C) (store (TagsForBook i b))"
  "leaves (stored C) (store (BookIDsForTag i g))" "leaves (stored C) (store (ReadingItems i b n))"
  "leaves (stored C) (store (BookRequestsForUser i))" "leaves (stored C) (store BookRequestsAll)"
  "leaves (stored C) (store PendingBookRequestCount)" "leaves (stored C) (store (PendingBookRequestCountForUser i))"
  "leaves (stored C) (store CopyrightClaimsAll)" "leaves (stored C) (store (CopyrightClaimByID i))"
  "leaves (stored C) (store PendingCopyrightClaimCount)" "leaves (stored C) (store (SystemAlerts n))"
  "leaves (stored C) (store SystemAlertCounts)"
  by (rule leaves_read, rule readonly_intro)+

lemma leaves_books [leave_intro]:
  "leaves (stored C) books" "leaves (stored C) (put_books bl)" "leaves (stored C) (find_book i)"
  "leaves (stored C) start_refresh" "leaves (stored C) google_enabled"
  unfolding books_def put_books_def find_book_def start_refresh_def google_enabled_def
  by (intro leave_intro leaves_modify; simp)+

lemma leaves_secureToken [leave_intro]: "leaves (stored C) (secureToken n)"
  unfolding secureToken_def by (intro leaves_read readonly_intro)

lemma leaves_pages [leave_intro]:
  "leaves (stored C) userCount" "leaves (stored C) registrationAllowed" "leaves (stored C) authSettings"
  "leaves (stored C) (currentUser e r)" "leaves (stored C) (csrfToken e r)" "leaves (stored C) (user_data u)"
  unfolding userCount_def registrationAllowed_def authSettings_def currentUser_def csrfToken_def user_data_def
  by (intro leave_intro)+

lemma leaves_renderPage [leave_intro]:
  "leaves (stored C) (renderPage e r st nm dat)" "leaves (stored C) (message_page e r st t h m)"
  "leaves (stored C) (not_found_page e r m)"
  unfolding renderPage_def message_page_def not_found_page_def by (intro leave_intro)+

text \<open>Parts of the server outside the database are left alone by every page.\<close>

lemma leaves_store_other: "(\<And>s c. C (s\<lparr>sv_db := c\<rparr>) = C s) \<Longrightarrow> leaves C (store m)"
  by (simp add: leaves_iff split: prod.splits)

lemma leaves_pages_other:
  assumes "\<And>s c. C (s\<lparr>sv_db := c\<rparr>) = C s"
  shows "leaves C userCount" "leaves C registrationAllowed" "leaves C authSettings" "leaves C (secureToken n)"
    "leaves C (currentUser e r)" "leaves C (csrfToken e r)" "leaves C (user_data u)" "leaves C (renderPage e r st nm dat)"
    "leaves C (message_page e r st t h msg)" "leaves C (not_found_page e r msg)" "leaves C (startSession e r u)"
  unfolding userCount_def registrationAllowed_def authSettings_def secureToken_def currentUser_def csrfToken_def user_data_def
    renderPage_def message_page_def not_found_page_def startSession_def
  by (intro leave_intro leaves_store_other assms)+

section \<open>What a handler answers\<close>

named_theorems reply_intro

lemma reply_give [reply_intro]: "P x \<Longrightarrow> pred_state P (give x)"
  by auto

lemma reply_bind [reply_intro]: "(\<And>x. pred_state P (f x)) \<Longrightarrow> pred_state P (State_Monad.bind m f)"
  by (auto split: prod.splits)

lemma reply_cases [reply_intro]:
  "(b \<Longrightarrow> pred_state P m) \<Longrightarrow> (\<not> b \<Longrightarrow> pred_state P m') \<Longrightarrow> pred_state P (if b then m else m')"
  "pred_state P m \<Longrightarrow> (\<And>x. pred_state P (f x)) \<Longrightarrow> pred_state P (case y of None \<Rightarrow> m | Some x \<Rightarrow> f x)"
  "(\<And>x. pred_state P (g x)) \<Longrightarrow> (\<And>x. pred_state P (h x)) \<Longrightarrow> pred_state P (case z of Inl x \<Rightarrow> g x | Inr x \<Rightarrow> h x)"
  "(\<And>x y. pred_state P (k x y)) \<Longrightarrow> pred_state P (case p of (x, y) \<Rightarrow> k x y)"
  "pred_state P (l v) \<Longrightarrow> pred_state P (let x = v in l x)"
  by (simp, cases y, simp, simp, cases z, simp, simp, cases p, simp, simp)

text \<open>Every page is sent with its status and no redirect.\<close>

definition page_reply :: "nat \<Rightarrow> response \<Rightarrow> bool" where
  "page_reply st p \<longleftrightarrow> rp_status p = st \<and> rp_location p = None"

lemma page_replies [reply_intro]:
  "pred_state (page_reply st) (renderPage e r st nm dat)" "pred_state (page_reply st) (message_page e r st t h m)"
  "pred_state (page_reply 404) (not_found_page e r m)"
  unfolding renderPage_def message_page_def not_found_page_def
  by (intro reply_intro; simp add: page_reply_def)+

lemma page_run:
  assumes "run_state (renderPage e r st nm dat) s = (p, s')"
  shows "rp_status p = st" "rp_location p = None"
  using pred_stateD [OF page_replies(1) assms] by (simp_all add: page_reply_def)

lemma message_run:
  assumes "run_state (message_page e r st t h m) s = (p, s')"
  shows "rp_status p = st" "rp_location p = None"
  using pred_stateD [OF page_replies(2) assms] by (simp_all add: page_reply_def)

section \<open>An example server\<close>

definition ex_server :: "db \<Rightarrow> server" where
  "ex_server d = \<lparr>sv_db = ex_conn d, sv_disk = \<lparr>tables = (\<lambda>_. None), entropy = [], faults = []\<rparr>,
    sv_index = \<lparr>ix_paths = [''/books''], ix_exts = [''epub''], ix_booklist = [], ix_progress = None\<rparr>, sv_formats = [],
    sv_BookDir = ''/books'', sv_attempts = (\<lambda>_. None), sv_challenges = [], sv_google = '''',
    sv_verifier = \<lparr>vf_keys = (\<lambda>_. None), vf_expires = 0\<rparr>, sv_version = ''dev'', sv_build_id = ''dev'',
    sv_build_time = ''unknown'', sv_build_number = ''dev-unknown'', sv_last_index_at = None, sv_last_index_error = '''',
    sv_refreshes = 0, sv_jobs = (\<lambda>_. None), sv_job_order = [], sv_data_path = ''/data'',
    sv_format = (\<lambda>_ _. ''''), sv_year = (\<lambda>_. 2026), sv_pages = (\<lambda>_. None)\<rparr>"

definition ex_post :: "string \<Rightarrow> (string \<times> string) list \<Rightarrow> request" where
  "ex_post uri form = \<lparr>rq_method = ''POST'', rq_uri = uri, rq_query = [], rq_form = (''csrf_token'', ''0123456789abcdef0123456789abcdef'') # form,
    rq_form_ok = True, rq_multipart = None, rq_headers = [], rq_cookies = [(csrfCookieName, ''0123456789abcdef0123456789abcdef'')],
    rq_remote = ''10.0.0.7:4000'', rq_host = ''books.example'', rq_tls = True, rq_params = [], rq_body = ''''\<rparr>"


end
