(* ===== verification/Google.thy ===== *)
theory Google
  imports Http "HOL-Library.Log_Nat"
begin

text \<open>
  \<open>server/google.go\<close>: the verifier of Google ID tokens, its cache of signing keys, and the sign-in handler. The reply of
  the key service is an argument; RSA verification, base64, JSON and SHA-256 are the standard library's.
\<close>

section \<open>RSA signatures\<close>

text \<open>\<open>rsa.VerifyPKCS1v15\<close> with SHA-256 (RFC 8017, 8.2.2): a public key is its modulus and exponent.\<close>

definition os2ip :: "byte list \<Rightarrow> nat" where
  "os2ip bs = foldl (\<lambda>a b. a * 256 + unat b) 0 bs"

definition bit_len :: "nat \<Rightarrow> nat" where
  "bit_len n = floorlog 2 n"

definition key_size :: "nat \<times> nat \<Rightarrow> nat" where
  "key_size k = (bit_len (fst k) + 7) div 8"

definition sha256_info :: "byte list" where
  "sha256_info = [0x30, 0x31, 0x30, 0x0D, 0x06, 0x09, 0x60, 0x86, 0x48, 0x01, 0x65, 0x03, 0x04, 0x02, 0x01, 0x05, 0x00, 0x04, 0x20]"

definition pkcs1_block :: "nat \<Rightarrow> byte list \<Rightarrow> byte list" where
  "pkcs1_block k hashed = [0x00, 0x01] @ replicate (k - length hashed - 22) 0xFF @ [0x00] @ sha256_info @ hashed"

definition rsa_verify :: "nat \<times> nat \<Rightarrow> byte list \<Rightarrow> byte list \<Rightarrow> bool" where
  "rsa_verify key hashed sig = (case key of (n, x) \<Rightarrow>
    let k = key_size key in
    odd n \<and> length hashed + 30 \<le> k \<and> length sig = k \<and> os2ip sig < n \<and>
    os2ip sig ^ x mod n = os2ip (pkcs1_block k hashed))"

section \<open>Google's signing keys\<close>

text \<open>What the key service answers: nothing, or a status, its \<open>Cache-Control\<close> and at most 1 MiB of its body.\<close>

type_synonym jwks_reply = "(nat \<times> string \<times> string) option"

record jwk =
  jwk_KeyType :: string
  jwk_KeyID :: string
  jwk_Algorithm :: string
  jwk_Modulus :: string
  jwk_Exponent :: string

definition decode_jwk :: "json \<Rightarrow> jwk option" where
  "decode_jwk v = Option.bind (members False [] v) (\<lambda>kvs.
    Option.bind (string_field ''kty'' kvs) (\<lambda>t. Option.bind (string_field ''kid'' kvs) (\<lambda>i.
    Option.bind (string_field ''use'' kvs) (\<lambda>_. Option.bind (string_field ''alg'' kvs) (\<lambda>a.
    Option.bind (string_field ''n'' kvs) (\<lambda>n. Option.bind (string_field ''e'' kvs) (\<lambda>x.
    Some \<lparr>jwk_KeyType = t, jwk_KeyID = i, jwk_Algorithm = a, jwk_Modulus = n, jwk_Exponent = x\<rparr>)))))))"

fun set_jwks :: "json \<Rightarrow> jwk list \<Rightarrow> jwk list option" where
  "set_jwks (JArr vs) ks = those (map decode_jwk vs)"
| "set_jwks JNull ks = Some []"
| "set_jwks v ks = None"

definition decode_jwks :: "string \<Rightarrow> jwk list option" where
  "decode_jwks body = Option.bind (json_first body) (\<lambda>(v, _).
    Option.bind (members False [] v) (\<lambda>kvs. fill set_jwks ''keys'' kvs []))"

text \<open>The keys that are usable; a later one takes the place of an earlier one with its id.\<close>

definition usable_key :: "jwk \<Rightarrow> (nat \<times> nat) option" where
  "usable_key item =
    (if jwk_KeyType item \<noteq> ''RSA'' \<or> jwk_KeyID item = '''' \<or> (jwk_Algorithm item \<noteq> '''' \<and> jwk_Algorithm item \<noteq> ''RS256'') then None
     else case b64_decode url_alphabet (jwk_Modulus item) of
       None \<Rightarrow> None
     | Some m \<Rightarrow> (case b64_decode url_alphabet (jwk_Exponent item) of
         None \<Rightarrow> None
       | Some x \<Rightarrow>
           if length x = 0 \<or> 4 < length x then None
           else if bit_len (os2ip m) < 2048 \<or> os2ip x < 3 then None
           else Some (os2ip m, os2ip x)))"

fun collect_keys :: "jwk list \<Rightarrow> (string \<Rightarrow> (nat \<times> nat) option) \<Rightarrow> string \<Rightarrow> (nat \<times> nat) option" where
  "collect_keys [] m = m"
| "collect_keys (k # ks) m = collect_keys ks (case usable_key k of None \<Rightarrow> m | Some v \<Rightarrow> m(jwk_KeyID k \<mapsto> v))"

text \<open>\<open>maxAgePattern\<close>, \<open>(?:^|,)\s*max-age=(\d+)\<close>: the digits of the leftmost match.\<close>

definition regexp_space :: "char \<Rightarrow> bool" where
  "regexp_space c \<longleftrightarrow> of_char c \<in> {9, 10, 12, 13, 32 :: nat}"

definition max_age_here :: "string \<Rightarrow> string option" where
  "max_age_here s = (let t = dropWhile regexp_space s; d = takeWhile is_digit (drop 8 t) in
    if has_prefix t ''max-age='' \<and> d \<noteq> [] then Some d else None)"

fun max_age_after_comma :: "string \<Rightarrow> string option" where
  "max_age_after_comma [] = None"
| "max_age_after_comma (c # cs) = (case (if c = CHR '','' then max_age_here cs else None) of
      Some d \<Rightarrow> Some d | None \<Rightarrow> max_age_after_comma cs)"

definition max_age_match :: "string \<Rightarrow> string option" where
  "max_age_match s = (case max_age_here s of Some d \<Rightarrow> Some d | None \<Rightarrow> max_age_after_comma s)"

definition cacheMaxAge :: "string \<Rightarrow> gotime" where
  "cacheMaxAge v = (case max_age_match v of
      None \<Rightarrow> hours 1
    | Some d \<Rightarrow> (case atoi d of
        None \<Rightarrow> hours 1
      | Some n \<Rightarrow> if n < 60 then hours 1 else seconds (if n > 86400 then 86400 else n)))"

text \<open>The first component says whether the refresh succeeded.\<close>

definition refreshLocked :: "jwks_reply \<Rightarrow> gotime \<Rightarrow> verifier \<Rightarrow> bool \<times> verifier" where
  "refreshLocked reply t v = (case reply of
      None \<Rightarrow> (False, v)
    | Some (status, cache, body) \<Rightarrow>
        if status \<noteq> 200 then (False, v)
        else case decode_jwks body of
          None \<Rightarrow> (False, v)
        | Some items \<Rightarrow>
            if List.map_filter usable_key items = [] then (False, v)
            else (True, v\<lparr>vf_keys := collect_keys items (\<lambda>_. None), vf_expires := t + cacheMaxAge cache\<rparr>))"

definition signing_key :: "jwks_reply \<Rightarrow> string \<Rightarrow> gotime \<Rightarrow> verifier \<Rightarrow> (nat \<times> nat) option \<times> verifier" where
  "signing_key reply keyID t v =
    (if vf_keys v keyID \<noteq> None \<and> t < vf_expires v then (vf_keys v keyID, v)
     else case refreshLocked reply t v of
       (False, v') \<Rightarrow> (None, v')
     | (True, v') \<Rightarrow> (vf_keys v' keyID, v'))"

section \<open>ID tokens\<close>

record googleIdentity =
  gi_Subject :: string
  gi_Email :: string
  gi_Name :: string
  gi_EmailAuthoritative :: bool

record id_header =
  hd_Algorithm :: string
  hd_KeyID :: string

record id_claims =
  cl_Issuer :: string
  cl_Audience :: string
  cl_Subject :: string
  cl_Email :: string
  cl_EmailVerified :: bool
  cl_Name :: string
  cl_HostedDomain :: string
  cl_ExpiresAt :: int
  cl_IssuedAt :: int

definition decode_header :: "byte list \<Rightarrow> id_header option" where
  "decode_header bs = Option.bind (json_read (string_of bs)) (\<lambda>v. Option.bind (members False [] v) (\<lambda>kvs.
    Option.bind (string_field ''alg'' kvs) (\<lambda>a. Option.bind (string_field ''kid'' kvs) (\<lambda>i.
    Option.bind (string_field ''typ'' kvs) (\<lambda>_. Some \<lparr>hd_Algorithm = a, hd_KeyID = i\<rparr>)))))"

definition decode_claims :: "byte list \<Rightarrow> id_claims option" where
  "decode_claims bs = Option.bind (json_read (string_of bs)) (\<lambda>v. Option.bind (members False [] v) (\<lambda>kvs.
    Option.bind (string_field ''iss'' kvs) (\<lambda>iss. Option.bind (string_field ''aud'' kvs) (\<lambda>aud.
    Option.bind (string_field ''sub'' kvs) (\<lambda>sub. Option.bind (string_field ''email'' kvs) (\<lambda>email.
    Option.bind (bool_field ''email_verified'' kvs) (\<lambda>verified. Option.bind (string_field ''name'' kvs) (\<lambda>name.
    Option.bind (string_field ''hd'' kvs) (\<lambda>domain. Option.bind (int_field ''exp'' kvs) (\<lambda>x.
    Option.bind (int_field ''iat'' kvs) (\<lambda>i.
    Some \<lparr>cl_Issuer = iss, cl_Audience = aud, cl_Subject = sub, cl_Email = email, cl_EmailVerified = verified, cl_Name = name,
      cl_HostedDomain = domain, cl_ExpiresAt = x, cl_IssuedAt = i\<rparr>)))))))))))"

definition claims_valid :: "string \<Rightarrow> unix \<Rightarrow> id_claims \<Rightarrow> bool" where
  "claims_valid clientID t c \<longleftrightarrow>
    (cl_Issuer c = ''accounts.google.com'' \<or> cl_Issuer c = ''https://accounts.google.com'') \<and>
    cl_Audience c = clientID \<and> cl_Subject c \<noteq> '''' \<and> cl_Email c \<noteq> '''' \<and> cl_EmailVerified c \<and>
    t < cl_ExpiresAt c \<and> cl_IssuedAt c \<le> t + 300"

definition identity_of :: "(nat \<Rightarrow> nat) \<Rightarrow> id_claims \<Rightarrow> googleIdentity" where
  "identity_of lw c = \<lparr>gi_Subject = cl_Subject c, gi_Email = cl_Email c, gi_Name = cl_Name c,
    gi_EmailAuthoritative = has_suffix (to_lower lw (cl_Email c)) ''@gmail.com'' \<or> cl_HostedDomain c \<noteq> ''''\<rparr>"

text \<open>\<open>Verify\<close>: the identity, \<open>None\<close> for any error (the handlers drop its text), and the keys kept for the next call.\<close>

definition Verify :: "env \<Rightarrow> jwks_reply \<Rightarrow> string \<Rightarrow> string \<Rightarrow> verifier \<Rightarrow> googleIdentity option \<times> verifier" where
  "Verify e reply token clientID v = (case split_char CHR ''.'' token of
      [p0, p1, p2] \<Rightarrow>
        if clientID = '''' then (None, v)
        else case Option.bind (b64_decode url_alphabet p0) decode_header of
          None \<Rightarrow> (None, v)
        | Some h \<Rightarrow>
            if hd_Algorithm h \<noteq> ''RS256'' \<or> hd_KeyID h = '''' then (None, v)
            else (case signing_key reply (hd_KeyID h) (now e) v of
              (None, v') \<Rightarrow> (None, v')
            | (Some key, v') \<Rightarrow>
                (case b64_decode url_alphabet p2 of
                  None \<Rightarrow> (None, v')
                | Some sig \<Rightarrow>
                    if \<not> rsa_verify key (sha (crypto e) (bytes_of (p0 @ ''.'' @ p1))) sig then (None, v')
                    else (case Option.bind (b64_decode url_alphabet p1) decode_claims of
                      None \<Rightarrow> (None, v')
                    | Some c \<Rightarrow>
                        if claims_valid clientID (unix_of (now e)) c then (Some (identity_of (low e) c), v') else (None, v'))))
    | _ \<Rightarrow> (None, v))"

section \<open>Signing in\<close>

definition verify_google :: "env \<Rightarrow> jwks_reply \<Rightarrow> string \<Rightarrow> googleIdentity option act" where
  "verify_google e reply token = State (\<lambda>s. case Verify e reply token (sv_google s) (sv_verifier s) of
    (i, v) \<Rightarrow> (i, s\<lparr>sv_verifier := v\<rparr>))"

definition writeGoogleError :: "nat \<Rightarrow> string \<Rightarrow> response" where
  "writeGoogleError status message = \<lparr>rp_status = status, rp_location = None, rp_headers = [json_type], rp_cookies = [],
    rp_body = Json (JObj [(''error'', JStr message)])\<rparr>"

definition handleGoogleLogin :: "env \<Rightarrow> jwks_reply \<Rightarrow> request \<Rightarrow> response act" where
  "handleGoogleLogin e reply r = do {
    enabled \<leftarrow> google_enabled;
    if \<not> enabled then give (writeGoogleError 404 ''Google login is not configured.'')
    else if \<not> rq_form_ok r then give (writeGoogleError 400 ''Invalid Google login request.'')
    else if \<not> verifyCSRF r then give (writeGoogleError 403 ''This login form expired. Refresh the page and try again.'')
    else if FormValue r ''credential'' = '''' then give (writeGoogleError 400 ''Google did not return an ID token.'')
    else do {
      identity \<leftarrow> verify_google e reply (FormValue r ''credential'');
      case identity of
        None \<Rightarrow> give (writeGoogleError 401 ''Google sign-in could not be verified.'')
      | Some i \<Rightarrow> do {
          user \<leftarrow> store (UpsertGoogle e (gi_Email i) (gi_Name i) (gi_Subject i) (gi_EmailAuthoritative i));
          case user of
            Inl x \<Rightarrow> give (writeGoogleError 401 (error_text x))
          | Inr u \<Rightarrow> do {
              session \<leftarrow> startSession e r u;
              case session of
                Inl _ \<Rightarrow> give (writeGoogleError 500 ''Could not create a login session.'')
              | Inr cookies \<Rightarrow> give \<lparr>rp_status = 200, rp_location = None, rp_headers = [json_type], rp_cookies = cookies,
                  rp_body = Json (JObj [(''redirect'', JStr ''/books'')])\<rparr>
            }
        }
    }
  }"

end
