(* ===== verification/WebAuth.thy ===== *)
theory WebAuth
  imports Google
begin

text \<open>
  Signing in, registering and signing out (\<open>server/auth.go\<close>): the limiter of failed attempts and the handlers of the
  forms. How many passwords can be tried is the subject of \<open>LimiterFacts\<close>.
\<close>

section \<open>Failed attempts\<close>

definition attempt_allowed :: "string \<Rightarrow> gotime \<Rightarrow> (string \<Rightarrow> attempt_entry option) \<Rightarrow> bool \<times> (string \<Rightarrow> attempt_entry option)" where
  "attempt_allowed key t m = (case m key of
      None \<Rightarrow> (True, m(key := None))
    | Some entry \<Rightarrow> if ae_ResetAt entry < t then (True, m(key := None)) else (ae_Failures entry < 5, m))"

definition attempt_fail :: "string \<Rightarrow> gotime \<Rightarrow> (string \<Rightarrow> attempt_entry option) \<Rightarrow> (string \<Rightarrow> attempt_entry option)" where
  "attempt_fail key t m =
    (let entry = (case m key of
        None \<Rightarrow> \<lparr>ae_Failures = 0, ae_ResetAt = t + minutes 15\<rparr>
      | Some x \<Rightarrow> if ae_ResetAt x < t then \<lparr>ae_Failures = 0, ae_ResetAt = t + minutes 15\<rparr> else x)
     in m(key \<mapsto> entry\<lparr>ae_Failures := ae_Failures entry + 1\<rparr>))"

definition attempt_clear :: "string \<Rightarrow> (string \<Rightarrow> attempt_entry option) \<Rightarrow> (string \<Rightarrow> attempt_entry option)" where
  "attempt_clear key m = m(key := None)"

definition allowed :: "env \<Rightarrow> string \<Rightarrow> bool act" where
  "allowed e key = State (\<lambda>s. case attempt_allowed key (now e) (sv_attempts s) of (b, m) \<Rightarrow> (b, s\<lparr>sv_attempts := m\<rparr>))"

definition fail :: "env \<Rightarrow> string \<Rightarrow> unit act" where
  "fail e key = modify (\<lambda>s. s\<lparr>sv_attempts := attempt_fail key (now e) (sv_attempts s)\<rparr>)"

definition clear :: "string \<Rightarrow> unit act" where
  "clear key = modify (\<lambda>s. s\<lparr>sv_attempts := attempt_clear key (sv_attempts s)\<rparr>)"

section \<open>The forms\<close>

definition login_data :: "request \<Rightarrow> string \<Rightarrow> (string \<times> val) list" where
  "login_data r v = [(''CurVersion'', VStr v), (''PageTitle'', VStr ''Sign in''), (''AuthPage'', VBool True),
    (''Next'', VStr (safeNextValue (query_value r ''next'')))]"

definition login_key :: "env \<Rightarrow> request \<Rightarrow> string \<Rightarrow> string" where
  "login_key e r email = clientIP r @ ''|'' @ to_lower (low e) (trim_space email)"

definition handleLogin :: "env \<Rightarrow> request \<Rightarrow> response act" where
  "handleLogin e r = do {
    user \<leftarrow> currentUser e r;
    v \<leftarrow> field sv_version;
    if user \<noteq> None then give (redirect 303 ''/books'')
    else if rq_method r = ''GET'' then renderPage e r 200 ''login'' (login_data r v)
    else if \<not> verifyCSRF r then message_page e r 403 ''Request expired'' ''Request expired'' ''Refresh the page and try again.''
    else do {
      let email = to_lower (low e) (trim_space (FormValue r ''email''));
      let key = login_key e r (FormValue r ''email'');
      ok \<leftarrow> allowed e key;
      if \<not> ok then renderPage e r 429 ''login''
        ((''Error'', VStr ''Too many failed attempts. Try again in 15 minutes.'') # login_data r v)
      else do {
        user \<leftarrow> store (AuthenticateEmail e email (FormValue r ''password''));
        case user of
          Inl _ \<Rightarrow> do {
            _ \<leftarrow> fail e key;
            renderPage e r 401 ''login''
              ([(''Error'', VStr ''Invalid email or password.''), (''Email'', VStr email)] @ login_data r v)
          }
        | Inr u \<Rightarrow> do {
            _ \<leftarrow> clear key;
            session \<leftarrow> startSession e r u;
            case session of
              Inl _ \<Rightarrow> message_page e r 500 ''Sign-in error'' ''Could not sign in'' ''Please try again.''
            | Inr cookies \<Rightarrow>
                (let next = safeNextValue (FormValue r ''next'')
                 in give ((redirect 303 (if next = '''' then ''/books'' else next))\<lparr>rp_cookies := cookies\<rparr>))
          }
      }
    }
  }"

definition register_data :: "string \<Rightarrow> (string \<times> val) list" where
  "register_data v = [(''CurVersion'', VStr v), (''PageTitle'', VStr ''Create account''), (''AuthPage'', VBool True)]"

definition register_error :: "env \<Rightarrow> request \<Rightarrow> string \<Rightarrow> string \<Rightarrow> response act" where
  "register_error e r v message = renderPage e r 400 ''register''
    ([(''Name'', VStr (FormValue r ''name'')), (''Email'', VStr (FormValue r ''email'')), (''Error'', VStr message)] @ register_data v)"

definition handleRegister :: "env \<Rightarrow> request \<Rightarrow> response act" where
  "handleRegister e r = do {
    user \<leftarrow> currentUser e r;
    v \<leftarrow> field sv_version;
    if user \<noteq> None then give (redirect 303 ''/books'')
    else do {
      open \<leftarrow> registrationAllowed;
      if \<not> open then renderPage e r 403 ''register'' ((''RegistrationClosed'', VBool True) # register_data v)
      else if rq_method r = ''GET'' then renderPage e r 200 ''register'' (register_data v)
      else if \<not> verifyCSRF r then renderPage e r 403 ''register''
        ((''Error'', VStr ''This form expired. Refresh the page and try again.'') # register_data v)
      else if FormValue r ''password'' \<noteq> FormValue r ''password_confirm''
        then register_error e r v ''Passwords do not match.''
      else do {
        user \<leftarrow> store (RegisterEmail e (FormValue r ''email'') (FormValue r ''name'') (FormValue r ''password''));
        case user of
          Inl x \<Rightarrow> register_error e r v (error_text x)
        | Inr u \<Rightarrow> do {
            _ \<leftarrow> (if FormValue r ''allow_share_links'' \<noteq> ''on'' then store (SetShareLinks (user_ID u) False) else give (Inr ()));
            session \<leftarrow> startSession e r u;
            case session of
              Inl _ \<Rightarrow> give (redirect 303 ''/login'')
            | Inr cookies \<Rightarrow> give ((redirect 303 ''/books'')\<lparr>rp_cookies := cookies\<rparr>)
          }
      }
    }
  }"

definition invalid_csrf :: response where
  "invalid_csrf = http_error ''invalid CSRF token'' 403"

definition handleLogout :: "env \<Rightarrow> request \<Rightarrow> response act" where
  "handleLogout e r = (if \<not> verifyCSRF r then give invalid_csrf
    else do {
      _ \<leftarrow> (case cookie_value r sessionCookieName of None \<Rightarrow> give (Inr ()) | Some v \<Rightarrow> store (DeleteSession e v));
      give ((redirect 303 ''/login'')\<lparr>rp_cookies := [clearCookie r sessionCookieName]\<rparr>)
    })"

text \<open>The root page.\<close>

definition handleRoot :: "env \<Rightarrow> request \<Rightarrow> response act" where
  "handleRoot e r = do {
    user \<leftarrow> currentUser e r;
    give (redirect 307 (if user \<noteq> None then ''/books/'' else ''/login''))
  }"

section \<open>What the checks let through\<close>

text \<open>The check of the next page accepts a backslash after the slash, which browsers read as a second slash.\<close>

lemma safeNext_backslash: "safeNext (''/'' @ [CHR 0x5C] @ ''evil.example'')"
  by (simp add: safeNext_def has_prefix_def contains_any_def)

text \<open>An empty CSRF cookie goes with an empty token.\<close>

lemma verifyCSRF_empty:
  "cookie_value r csrfCookieName = Some '''' \<Longrightarrow> FormValue r ''csrf_token'' = '''' \<Longrightarrow> verifyCSRF r"
  by (simp add: verifyCSRF_def constantStringEqual_def)

end
