(* ===== verification/ApiAuth.thy ===== *)
theory ApiAuth
  imports WebAuth "HOL-Library.AList"
begin

text \<open>
  The API's authentication (\<open>server/api.go\<close>, \<open>server/api_auth.go\<close>): JSON bodies, bearer tokens, errors of the store as
  replies, signing in with a password, and signing in from a terminal through a browser: a challenge is started by the
  client, approved in a browser with a Google account and polled by the client until a token is issued. The last section
  is the interleaving of many clients over the store of challenges.
\<close>

section \<open>Challenges of the command-line client\<close>

type_synonym challenges = "(string \<times> challenge) list"

definition googleCLIChallengeLifetime :: gotime where "googleCLIChallengeLifetime = minutes 5"
definition googleCLIPollInterval :: gotime where "googleCLIPollInterval = seconds 3"

definition challengeSecretHash :: "crypto \<Rightarrow> string \<Rightarrow> string" where
  "challengeSecretHash k v = b64_encode url_alphabet (sha k (bytes_of v))"

definition secretHashEqual :: "string \<Rightarrow> string \<Rightarrow> bool" where
  "secretHashEqual a b = constantStringEqual a b"

definition cleanupLocked :: "gotime \<Rightarrow> challenges \<Rightarrow> challenges" where
  "cleanupLocked t cs = filter (\<lambda>(_, c). t < ch_ExpiresAt c) cs"

definition challenge_add :: "env \<Rightarrow> string \<Rightarrow> string \<Rightarrow> string \<Rightarrow> string \<Rightarrow> string \<Rightarrow> challenges \<Rightarrow> challenge option \<times> challenges" where
  "challenge_add e i secret tokenName clientName ip cs0 =
    (let cs = cleanupLocked (now e) cs0;
         active = length (filter (\<lambda>(_, c). ch_ClientIP c = ip) cs);
         c = \<lparr>ch_ID = i, ch_PollHash = challengeSecretHash (crypto e) secret, ch_TokenName = tokenName, ch_ClientName = clientName,
           ch_ClientIP = ip, ch_ExpiresAt = now e + googleCLIChallengeLifetime, ch_LastPollAt = None, ch_ApprovedUser = '''',
           ch_Issuing = False\<rparr>
     in if 5 \<le> active then (None, cs) else (Some c, AList.update i c cs))"

definition challenge_get :: "gotime \<Rightarrow> string \<Rightarrow> challenges \<Rightarrow> challenge option \<times> challenges" where
  "challenge_get t i cs0 = (let cs = cleanupLocked t cs0 in (map_of cs i, cs))"

text \<open>The error, if any.\<close>

definition challenge_approve :: "gotime \<Rightarrow> string \<Rightarrow> string \<Rightarrow> challenges \<Rightarrow> string option \<times> challenges" where
  "challenge_approve t i userID cs0 =
    (let cs = cleanupLocked t cs0 in
     case map_of cs i of
       None \<Rightarrow> (Some ''login request expired or was already used'', cs)
     | Some c \<Rightarrow>
         if ch_ApprovedUser c \<noteq> '''' then (Some ''login request was already approved'', cs)
         else (None, AList.update i (c\<lparr>ch_ApprovedUser := userID\<rparr>) cs))"

datatype poll_status = Invalid | Expired | Slow | Pending | Approved challenge

definition challenge_poll :: "env \<Rightarrow> string \<Rightarrow> string \<Rightarrow> challenges \<Rightarrow> poll_status \<times> challenges" where
  "challenge_poll e i secret cs = (case map_of cs i of
      None \<Rightarrow> (Invalid, cs)
    | Some c \<Rightarrow>
        if \<not> now e < ch_ExpiresAt c then (Expired, AList.delete i cs)
        else if \<not> secretHashEqual (ch_PollHash c) (challengeSecretHash (crypto e) secret) then (Invalid, cs)
        else if (case ch_LastPollAt c of None \<Rightarrow> False | Some t \<Rightarrow> now e - t < googleCLIPollInterval) then (Slow, cs)
        else
          let c1 = c\<lparr>ch_LastPollAt := Some (now e)\<rparr> in
          if ch_ApprovedUser c1 = '''' then (Pending, AList.update i c1 cs)
          else if ch_Issuing c1 then (Slow, AList.update i c1 cs)
          else let c2 = c1\<lparr>ch_Issuing := True\<rparr> in (Approved c2, AList.update i c2 cs))"

definition challenge_finish :: "string \<Rightarrow> bool \<Rightarrow> challenges \<Rightarrow> challenges" where
  "challenge_finish i success cs =
    (if success then AList.delete i cs
     else case map_of cs i of None \<Rightarrow> cs | Some c \<Rightarrow> AList.update i (c\<lparr>ch_Issuing := False\<rparr>) cs)"

definition challenge_cancel :: "env \<Rightarrow> string \<Rightarrow> string \<Rightarrow> challenges \<Rightarrow> bool \<times> challenges" where
  "challenge_cancel e i secret cs = (case map_of cs i of
      None \<Rightarrow> (False, cs)
    | Some c \<Rightarrow> if secretHashEqual (ch_PollHash c) (challengeSecretHash (crypto e) secret)
        then (True, AList.delete i cs) else (False, cs))"

definition on_challenges :: "(challenges \<Rightarrow> 'a \<times> challenges) \<Rightarrow> 'a act" where
  "on_challenges f = State (\<lambda>s. case f (sv_challenges s) of (x, cs) \<Rightarrow> (x, s\<lparr>sv_challenges := cs\<rparr>))"

definition finish :: "string \<Rightarrow> bool \<Rightarrow> unit act" where
  "finish i success = on_challenges (\<lambda>cs. ((), challenge_finish i success cs))"

section \<open>The API\<close>

text \<open>\<open>decodeAPIJSON\<close>: the response that refuses the body, or the structure it fills.\<close>

definition maxAPIJSONBytes :: nat where "maxAPIJSONBytes = 64 * 1024"

definition decodeAPIJSON :: "string list \<Rightarrow> ((string \<times> json) list \<Rightarrow> 'a option) \<Rightarrow> request \<Rightarrow> response + 'a" where
  "decodeAPIJSON names target r =
    (let body = take maxAPIJSONBytes (rq_body r) in
     case json_first body of
       None \<Rightarrow> Inl (writeAPIError 400 ''invalid_json'' ''The JSON request body is invalid.'')
     | Some (v, rest) \<Rightarrow>
         (case Option.bind (members True names v) target of
           None \<Rightarrow> Inl (writeAPIError 400 ''invalid_json'' ''The JSON request body is invalid.'')
         | Some x \<Rightarrow>
             if length (rq_body r) \<le> maxAPIJSONBytes \<and> skip_space rest = [] then Inr x
             else Inl (writeAPIError 400 ''invalid_json'' ''The request must contain one JSON value.'')))"

record apiIdentity =
  id_User :: User
  id_Token :: APIToken
  id_RawToken :: string

text \<open>The token of the \<open>Authorization\<close> header.\<close>

definition bearer_token :: "request \<Rightarrow> string option" where
  "bearer_token r = (case cut_char CHR '' '' (trim_space (header r ''Authorization'')) of
      (_, None) \<Rightarrow> None
    | (scheme, Some rest) \<Rightarrow> if \<not> eq_nocase scheme ''Bearer'' \<or> trim_space rest = '''' then None else Some (trim_space rest))"

definition requireAPIRole :: "env \<Rightarrow> string \<Rightarrow> (apiIdentity \<Rightarrow> request \<Rightarrow> response act) \<Rightarrow> request \<Rightarrow> response act" where
  "requireAPIRole e required handler r = (case bearer_token r of
      None \<Rightarrow> give (writeAPIError 401 ''authentication_required'' ''A valid bearer token is required.'')
    | Some raw \<Rightarrow> do {
        found \<leftarrow> store (UserForAPIToken e raw);
        case found of
          Inl _ \<Rightarrow> give (writeAPIError 500 ''authentication_failed'' ''Authentication could not be completed.'')
        | Inr None \<Rightarrow> give (writeAPIError 401 ''invalid_token'' ''The bearer token is invalid, expired, or revoked.'')
        | Inr (Some (user, token)) \<Rightarrow>
            if \<not> role_allows (user_Role user) required
            then give (writeAPIError 403 ''forbidden'' ''Your account does not have permission for this operation.'')
            else handler \<lparr>id_User = user, id_Token = token, id_RawToken = raw\<rparr> r
      })"

definition writeAPIStoreError :: "err \<Rightarrow> response" where
  "writeAPIStoreError x =
    (if is_err x ErrInvalidCredentials then writeAPIError 401 ''invalid_credentials'' ''Invalid email or password.''
     else if is_err x ErrInactive then writeAPIError 403 ''account_disabled'' ''This account is disabled.''
     else if is_err x ErrInvalidRole then writeAPIError 400 ''invalid_role'' ''Role must be reader, manager, or admin.''
     else if is_err x ErrIdentityConflict then writeAPIError 409 ''identity_conflict'' (error_text x)
     else if is_err x ErrLastAdmin then writeAPIError 409 ''last_active_admin'' (error_text x)
     else if is_err x ErrAPITokenNotFound then writeAPIError 404 ''token_not_found'' (error_text x)
     else if is_err x ErrAPITokenNameExists then writeAPIError 409 ''token_name_exists'' (error_text x)
     else if error_text x = ''registration is closed'' then writeAPIError 403 ''registration_closed'' (error_text x)
     else writeAPIError 500 ''server_error'' ''The server could not complete the request.'')"

text \<open>What is sent of accounts, tokens and settings; the order of the members of an object does not matter.\<close>

definition newAPIUser :: "User \<Rightarrow> (string \<times> json) list" where
  "newAPIUser u = [(''id'', JStr (user_ID u)), (''email'', JStr (user_Email u)), (''name'', JStr (user_Name u)),
    (''role'', JStr (user_Role u)), (''active'', JBool (user_Active u)), (''allow_share_links'', JBool (user_AllowShare u))]"

definition optional_time :: "string \<Rightarrow> gotime option \<Rightarrow> (string \<times> json) list" where
  "optional_time k t = (case t of None \<Rightarrow> [] | Some x \<Rightarrow> [(k, JTime x)])"

definition json_token :: "APIToken \<Rightarrow> json" where
  "json_token t = JObj ([(''name'', JStr (tok_Name t)), (''created_at'', JTime (tok_CreatedAt t))] @
    optional_time ''last_used_at'' (tok_LastUsedAt t) @ optional_time ''expires_at'' (tok_ExpiresAt t))"

definition json_settings :: "Settings \<Rightarrow> json" where
  "json_settings s = JObj [(''site_name'', JStr (set_SiteName s)), (''pwa_name'', JStr (set_PWAName s)),
    (''registration_open'', JBool (set_RegistrationOpen s)), (''anonymous_book_links'', JBool (set_AnonymousBookLinks s))]"

definition json_flags :: "string list \<Rightarrow> json" where
  "json_flags ks = JObj (map (\<lambda>k. (k, JBool True)) ks)"

section \<open>Signing in with a password\<close>

record login_input =
  li_Email :: string
  li_Password :: string
  li_TokenName :: string

definition login_target :: "(string \<times> json) list \<Rightarrow> login_input option" where
  "login_target kvs = Option.bind (string_field ''email'' kvs) (\<lambda>m. Option.bind (string_field ''password'' kvs) (\<lambda>p.
    Option.bind (string_field ''token_name'' kvs) (\<lambda>n. Some \<lparr>li_Email = m, li_Password = p, li_TokenName = n\<rparr>)))"

definition handleAPILogin :: "env \<Rightarrow> request \<Rightarrow> response act" where
  "handleAPILogin e r = (case decodeAPIJSON [''email'', ''password'', ''token_name''] login_target r of
      Inl p \<Rightarrow> give p
    | Inr input \<Rightarrow> do {
        let key = login_key e r (li_Email input);
        ok \<leftarrow> allowed e key;
        if \<not> ok then give (writeAPIError 429 ''login_rate_limited'' ''Too many failed attempts. Try again later.'')
        else do {
          user \<leftarrow> store (AuthenticateEmail e (li_Email input) (li_Password input));
          case user of
            Inl x \<Rightarrow> do { _ \<leftarrow> fail e key; give (writeAPIStoreError x) }
          | Inr u \<Rightarrow> do {
              _ \<leftarrow> clear key;
              recorded \<leftarrow> store (RecordLastIP (user_ID u) (clientIP r));
              case recorded of
                Inl _ \<Rightarrow> give (writeAPIError 500 ''login_failed'' ''The login could not be recorded.'')
              | Inr _ \<Rightarrow> do {
                  created \<leftarrow> store (CreateAPIToken e (user_ID u) (li_TokenName input) None);
                  case created of
                    Inl x \<Rightarrow> give (writeAPIStoreError x)
                  | Inr (raw, token) \<Rightarrow> give (writeAPIJSON 201 (JObj [(''token'', JStr raw), (''api_token'', json_token token),
                      (''user'', JObj (newAPIUser u))]))
                }
            }
        }
      })"

definition handleAPIMe :: "apiIdentity \<Rightarrow> request \<Rightarrow> response act" where
  "handleAPIMe identity r = do {
    settings \<leftarrow> authSettings;
    build \<leftarrow> field (\<lambda>s. (sv_version s, sv_build_id s, sv_build_time s));
    give (writeAPIJSON 200 (JObj [(''user'', JObj (newAPIUser (id_User identity))), (''token'', json_token (id_Token identity)),
      (''server'', JObj [(''site_name'', JStr (set_SiteName settings)), (''pwa_name'', JStr (set_PWAName settings)),
        (''version'', JStr (fst build)), (''build_id'', JStr (fst (snd build))), (''build_time'', JStr (snd (snd build)))])]))
  }"

definition handleAPITokens :: "apiIdentity \<Rightarrow> request \<Rightarrow> response act" where
  "handleAPITokens identity r = do {
    items \<leftarrow> store (APITokens (user_ID (id_User identity)));
    give (case items of
        Inl _ \<Rightarrow> writeAPIError 500 ''token_list_failed'' ''API tokens could not be loaded.''
      | Inr ts \<Rightarrow> writeAPIJSON 200 (JObj [(''tokens'', JArr (map json_token ts))]))
  }"

definition handleAPIRevokeToken :: "apiIdentity \<Rightarrow> request \<Rightarrow> response act" where
  "handleAPIRevokeToken identity r = do {
    done \<leftarrow> store (RevokeAPIToken (user_ID (id_User identity)) (param r ''name''));
    give (case done of Inl x \<Rightarrow> writeAPIStoreError x | Inr _ \<Rightarrow> writeAPIJSON 200 (json_flags [''revoked'']))
  }"

definition handleAPIRevokeCurrentToken :: "env \<Rightarrow> apiIdentity \<Rightarrow> request \<Rightarrow> response act" where
  "handleAPIRevokeCurrentToken e identity r = do {
    done \<leftarrow> store (RevokeCurrentAPIToken e (id_RawToken identity));
    give (case done of Inl x \<Rightarrow> writeAPIStoreError x | Inr _ \<Rightarrow> writeAPIJSON 200 (json_flags [''revoked'']))
  }"

section \<open>Signing in through a browser\<close>

record start_input =
  st_TokenName :: string
  st_ClientName :: string

definition start_target :: "(string \<times> json) list \<Rightarrow> start_input option" where
  "start_target kvs = Option.bind (string_field ''token_name'' kvs) (\<lambda>t. Option.bind (string_field ''client_name'' kvs) (\<lambda>c.
    Some \<lparr>st_TokenName = t, st_ClientName = c\<rparr>))"

definition client_name :: "string \<Rightarrow> string" where
  "client_name v = (let n = trim_space v in take 120 (if n = '''' then ''bookbrowser-cli'' else n))"

definition google_unavailable :: response where
  "google_unavailable = writeAPIError 404 ''google_login_unavailable'' ''Google login is not configured.''"

definition challenge_failed :: response where
  "challenge_failed = writeAPIError 500 ''challenge_failed'' ''The login request could not be created.''"

definition handleAPIGoogleStart :: "env \<Rightarrow> request \<Rightarrow> response act" where
  "handleAPIGoogleStart e r = do {
    enabled \<leftarrow> google_enabled;
    if \<not> enabled then give google_unavailable
    else case decodeAPIJSON [''token_name'', ''client_name''] start_target r of
      Inl p \<Rightarrow> give p
    | Inr input \<Rightarrow> (case ValidateAPITokenName (st_TokenName input) of
        Some x \<Rightarrow> give (writeAPIError 400 ''invalid_token_name'' (error_text x))
      | None \<Rightarrow> do {
          i \<leftarrow> secureToken 24;
          case i of
            Inl _ \<Rightarrow> give challenge_failed
          | Inr ident \<Rightarrow> do {
              s \<leftarrow> secureToken 32;
              case s of
                Inl _ \<Rightarrow> give challenge_failed
              | Inr secret \<Rightarrow> do {
                  added \<leftarrow> on_challenges (challenge_add e ident secret (st_TokenName input)
                    (client_name (st_ClientName input)) (clientIP r));
                  give (case added of
                      None \<Rightarrow> writeAPIError 429 ''challenge_rate_limited'' ''too many active Google login requests''
                    | Some c \<Rightarrow> writeAPIJSON 201 (JObj [(''challenge_id'', JStr ident), (''poll_secret'', JStr secret),
                        (''verification_url'', JStr (trim_suffix (pageURL r) (rq_uri r) @ ''/cli/google/'' @ ident)),
                        (''expires_at'', JTime (ch_ExpiresAt c)), (''interval_seconds'', JInt 3)]))
                }
            }
        })
  }"

definition handleCLIGooglePage :: "env \<Rightarrow> request \<Rightarrow> response act" where
  "handleCLIGooglePage e r = do {
    found \<leftarrow> on_challenges (challenge_get (now e) (param r ''challenge''));
    enabled \<leftarrow> google_enabled;
    case found of
      None \<Rightarrow> give (http_error ''This CLI login request is invalid or expired.'' 410)
    | Some c \<Rightarrow> if \<not> enabled then give (http_error ''This CLI login request is invalid or expired.'' 410)
        else do {
          expires \<leftarrow> field (\<lambda>s. sv_format s ''2006-01-02 15:04:05 MST'' (ch_ExpiresAt c));
          google \<leftarrow> field sv_google;
          token \<leftarrow> csrfToken e r;
          give \<lparr>rp_status = 200, rp_location = None,
            rp_headers = [(''Content-Type'', ''text/html; charset=utf-8''), (''Cache-Control'', ''no-store''),
              (''Content-Security-Policy'', ''frame-ancestors '' @ [CHR 0x27] @ ''none'' @ [CHR 0x27] @ ''; base-uri '' @ [CHR 0x27] @
                ''none'' @ [CHR 0x27] @ ''; form-action '' @ [CHR 0x27] @ ''self'' @ [CHR 0x27]),
              (''Referrer-Policy'', ''no-referrer''), (''X-Frame-Options'', ''DENY''), (''X-Content-Type-Options'', ''nosniff'')],
            rp_cookies = snd token, rp_body = Template ''cli-google'' [(''ClientName'', VStr (ch_ClientName c)),
              (''TokenName'', VStr (ch_TokenName c)), (''ExpiresAt'', VStr expires), (''ClientID'', VStr google),
              (''ChallengeID'', VStr (ch_ID c)), (''CSRFToken'', VStr (fst token))]\<rparr>
        }
  }"

definition handleAPIGoogleComplete :: "env \<Rightarrow> jwks_reply \<Rightarrow> request \<Rightarrow> response act" where
  "handleAPIGoogleComplete e reply r = do {
    enabled \<leftarrow> google_enabled;
    if \<not> enabled then give google_unavailable
    else if \<not> rq_form_ok r \<or> \<not> verifyCSRF r
      then give (writeAPIError 403 ''invalid_csrf'' ''This authorization page expired. Reload it and try again.'')
    else do {
      found \<leftarrow> on_challenges (challenge_get (now e) (FormValue r ''challenge_id''));
      if found = None then give (writeAPIError 410 ''challenge_expired'' ''This CLI login request is invalid or expired.'')
      else do {
        let key = clientIP r @ ''|google-cli'';
        ok \<leftarrow> allowed e key;
        if \<not> ok then give (writeAPIError 429 ''login_rate_limited'' ''Too many failed attempts. Try again later.'')
        else do {
          identity \<leftarrow> verify_google e reply (FormValue r ''credential'');
          case identity of
            None \<Rightarrow> do { _ \<leftarrow> fail e key; give (writeAPIError 401 ''google_verification_failed'' ''Google sign-in could not be verified.'') }
          | Some i \<Rightarrow> do {
              user \<leftarrow> store (UpsertGoogle e (gi_Email i) (gi_Name i) (gi_Subject i) (gi_EmailAuthoritative i));
              case user of
                Inl x \<Rightarrow> give (writeAPIStoreError x)
              | Inr u \<Rightarrow> do {
                  _ \<leftarrow> clear key;
                  approved \<leftarrow> on_challenges (challenge_approve (now e) (FormValue r ''challenge_id'') (user_ID u));
                  give (case approved of
                      Some x \<Rightarrow> writeAPIError 409 ''challenge_unavailable'' x
                    | None \<Rightarrow> writeAPIJSON 200 (json_flags [''approved'']))
                }
            }
        }
      }
    }
  }"

record poll_input =
  pi_ChallengeID :: string
  pi_PollSecret :: string

definition poll_target :: "(string \<times> json) list \<Rightarrow> poll_input option" where
  "poll_target kvs = Option.bind (string_field ''challenge_id'' kvs) (\<lambda>c. Option.bind (string_field ''poll_secret'' kvs) (\<lambda>s.
    Some \<lparr>pi_ChallengeID = c, pi_PollSecret = s\<rparr>))"

definition retry_after :: "response \<Rightarrow> response" where
  "retry_after p = p\<lparr>rp_headers := (''Retry-After'', ''3'') # rp_headers p\<rparr>"

text \<open>The token of an approved challenge; when a later step fails the token is revoked and the challenge is free again.\<close>

definition issue_token :: "env \<Rightarrow> request \<Rightarrow> challenge \<Rightarrow> response act" where
  "issue_token e r c = do {
    created \<leftarrow> store (CreateAPIToken e (ch_ApprovedUser c) (ch_TokenName c) None);
    case created of
      Inl x \<Rightarrow> do { _ \<leftarrow> finish (ch_ID c) False; give (writeAPIStoreError x) }
    | Inr (raw, token) \<Rightarrow> do {
        user \<leftarrow> store (UserByID (ch_ApprovedUser c));
        case user of
          Inr (Some u) \<Rightarrow> do {
            recorded \<leftarrow> store (RecordLastIP (user_ID u) (clientIP r));
            case recorded of
              Inl _ \<Rightarrow> do {
                _ \<leftarrow> store (RevokeCurrentAPIToken e raw);
                _ \<leftarrow> finish (ch_ID c) False;
                give (writeAPIError 500 ''login_failed'' ''The login could not be recorded.'')
              }
            | Inr _ \<Rightarrow> do {
                _ \<leftarrow> finish (ch_ID c) True;
                give (writeAPIJSON 200 (JObj [(''status'', JStr ''approved''), (''token'', JStr raw), (''api_token'', json_token token),
                  (''user'', JObj (newAPIUser u))]))
              }
          }
        | _ \<Rightarrow> do {
            _ \<leftarrow> store (RevokeCurrentAPIToken e raw);
            _ \<leftarrow> finish (ch_ID c) False;
            give (writeAPIError 500 ''login_failed'' ''The approved account could not be loaded.'')
          }
      }
  }"

definition handleAPIGooglePoll :: "env \<Rightarrow> request \<Rightarrow> response act" where
  "handleAPIGooglePoll e r = (case decodeAPIJSON [''challenge_id'', ''poll_secret''] poll_target r of
      Inl p \<Rightarrow> give p
    | Inr input \<Rightarrow> do {
        status \<leftarrow> on_challenges (challenge_poll e (pi_ChallengeID input) (pi_PollSecret input));
        case status of
          Pending \<Rightarrow> give (retry_after (writeAPIJSON 202 (JObj [(''status'', JStr ''pending''), (''retry_after'', JInt 3)])))
        | Slow \<Rightarrow> give (retry_after (writeAPIError 429 ''poll_too_fast'' ''Wait before polling again.''))
        | Expired \<Rightarrow> give (writeAPIError 410 ''challenge_expired'' ''The Google login request expired.'')
        | Invalid \<Rightarrow> give (writeAPIError 401 ''invalid_challenge'' ''The Google login request is invalid.'')
        | Approved c \<Rightarrow> issue_token e r c
      })"

definition handleAPIGoogleCancel :: "env \<Rightarrow> request \<Rightarrow> response act" where
  "handleAPIGoogleCancel e r = (case decodeAPIJSON [''challenge_id'', ''poll_secret''] poll_target r of
      Inl p \<Rightarrow> give p
    | Inr input \<Rightarrow> do {
        cancelled \<leftarrow> on_challenges (challenge_cancel e (pi_ChallengeID input) (pi_PollSecret input));
        give (if \<not> cancelled then writeAPIError 401 ''invalid_challenge'' ''The Google login request is invalid.''
          else writeAPIJSON 200 (json_flags [''cancelled'']))
      })"

section \<open>One token for one challenge\<close>

text \<open>The requests of several clients interleave between the calls of the challenge store, each of which holds its lock.
  The state: the store, the ids a poll is issuing a token for, the ids a token was issued for, the ids ever drawn. An id
  is 24 random bytes; that it was not drawn before is the one assumption.\<close>

record cli =
  cli_store :: challenges
  cli_issuing :: "string list"
  cli_issued :: "string list"
  cli_drawn :: "string list"

inductive cli_step :: "cli \<Rightarrow> cli \<Rightarrow> bool" where
  start: "challenge_add e i secret tn cn ip (cli_store x) = (r, cs) \<Longrightarrow> i \<notin> set (cli_drawn x) \<Longrightarrow>
    cli_step x (x\<lparr>cli_store := cs, cli_drawn := i # cli_drawn x\<rparr>)"
| get: "challenge_get t i (cli_store x) = (r, cs) \<Longrightarrow> cli_step x (x\<lparr>cli_store := cs\<rparr>)"
| approve: "challenge_approve t i uid (cli_store x) = (r, cs) \<Longrightarrow> cli_step x (x\<lparr>cli_store := cs\<rparr>)"
| wait: "challenge_poll e i secret (cli_store x) = (r, cs) \<Longrightarrow> r \<in> {Invalid, Expired, Slow, Pending} \<Longrightarrow>
    cli_step x (x\<lparr>cli_store := cs\<rparr>)"
| issue: "challenge_poll e i secret (cli_store x) = (Approved c, cs) \<Longrightarrow>
    cli_step x (x\<lparr>cli_store := cs, cli_issuing := ch_ID c # cli_issuing x\<rparr>)"
| finish_ok: "i \<in> set (cli_issuing x) \<Longrightarrow> cli_step x (x\<lparr>cli_store := challenge_finish i True (cli_store x),
    cli_issuing := remove1 i (cli_issuing x), cli_issued := i # cli_issued x\<rparr>)"
| finish_failed: "i \<in> set (cli_issuing x) \<Longrightarrow> cli_step x (x\<lparr>cli_store := challenge_finish i False (cli_store x),
    cli_issuing := remove1 i (cli_issuing x)\<rparr>)"
| cancel: "challenge_cancel e i secret (cli_store x) = (r, cs) \<Longrightarrow> cli_step x (x\<lparr>cli_store := cs\<rparr>)"

inductive cli_reachable :: "cli \<Rightarrow> bool" where
  init: "cli_reachable \<lparr>cli_store = [], cli_issuing = [], cli_issued = [], cli_drawn = []\<rparr>"
| step: "cli_reachable x \<Longrightarrow> cli_step x y \<Longrightarrow> cli_reachable y"

text \<open>A store is well formed when its ids are distinct and are those of its challenges. \<open>becomes\<close> says how an
  operation may change a store: challenges go away, or stay with their id and never lose the mark of an issuer.\<close>

definition store_wf :: "challenges \<Rightarrow> bool" where
  "store_wf cs \<longleftrightarrow> distinct (map fst cs) \<and> (\<forall>i c. map_of cs i = Some c \<longrightarrow> ch_ID c = i)"

definition becomes :: "challenges \<Rightarrow> challenges \<Rightarrow> bool" where
  "becomes cs cs' \<longleftrightarrow> (\<forall>i c'. map_of cs' i = Some c' \<longrightarrow>
    (\<exists>c. map_of cs i = Some c \<and> ch_ID c' = ch_ID c \<and> (ch_Issuing c \<longrightarrow> ch_Issuing c')))"

lemma map_of_filter: "distinct (map fst xs) \<Longrightarrow> map_of (filter (\<lambda>(_, v). P v) xs) k =
    (case map_of xs k of None \<Rightarrow> None | Some v \<Rightarrow> if P v then Some v else None)"
proof (induction xs)
  case (Cons x xs)
  then show ?case by (cases x) (auto simp: map_of_eq_None_iff image_iff split: option.splits dest: map_of_SomeD)
qed simp

lemma distinct_filter_keys: "distinct (map fst xs) \<Longrightarrow> distinct (map fst (filter P xs))"
  by (induction xs) auto

lemma cleanup_becomes: "store_wf cs \<Longrightarrow> store_wf (cleanupLocked t cs) \<and> becomes cs (cleanupLocked t cs)"
  unfolding store_wf_def becomes_def cleanupLocked_def
  by (auto simp: map_of_filter distinct_filter_keys split: option.splits if_splits)

lemma update_wf: "store_wf cs \<Longrightarrow> ch_ID c = i \<Longrightarrow> store_wf (AList.update i c cs)"
  by (auto simp: store_wf_def distinct_update update_conv' split: if_splits)

lemma update_becomes: "map_of cs i = Some c \<Longrightarrow> ch_ID c' = ch_ID c \<Longrightarrow> (ch_Issuing c \<Longrightarrow> ch_Issuing c') \<Longrightarrow>
    becomes cs (AList.update i c' cs)"
  by (auto simp: becomes_def update_conv' split: if_splits)

lemma delete_becomes: "store_wf cs \<Longrightarrow> store_wf (AList.delete i cs) \<and> becomes cs (AList.delete i cs)"
  by (auto simp: store_wf_def becomes_def delete_conv' distinct_delete split: if_splits)

lemma becomes_refl [simp]: "becomes cs cs"
  by (auto simp: becomes_def)

lemma becomes_trans: "becomes a b \<Longrightarrow> becomes b c \<Longrightarrow> becomes a c"
  unfolding becomes_def by metis

lemma wf_ID: "store_wf cs \<Longrightarrow> map_of cs i = Some c \<Longrightarrow> ch_ID c = i"
  by (simp add: store_wf_def)

lemma get_becomes: "challenge_get t i cs = (r, cs') \<Longrightarrow> store_wf cs \<Longrightarrow> store_wf cs' \<and> becomes cs cs'"
  by (auto simp: challenge_get_def Let_def dest: cleanup_becomes)

lemma approve_becomes:
  assumes "challenge_approve t i uid cs = (r, cs')" and wf: "store_wf cs"
  shows "store_wf cs' \<and> becomes cs cs'"
proof -
  define cl where "cl = cleanupLocked t cs"
  have cl: "store_wf cl" "becomes cs cl" using cleanup_becomes [OF wf] by (simp_all add: cl_def)
  from assms(1) consider "cs' = cl" | c where "map_of cl i = Some c" "cs' = AList.update i (c\<lparr>ch_ApprovedUser := uid\<rparr>) cl"
    by (auto simp: challenge_approve_def Let_def cl_def split: option.splits if_splits)
  then show ?thesis
  proof cases
    case 1
    then show ?thesis using cl by simp
  next
    case (2 c)
    have "becomes cl cs'" unfolding 2(2) by (rule update_becomes [OF 2(1)]) simp_all
    then show ?thesis using 2 cl becomes_trans wf_ID [OF cl(1) 2(1)] by (auto intro!: update_wf)
  qed
qed

text \<open>A poll, by its answer.\<close>

lemma poll_cases:
  assumes p: "challenge_poll e i secret cs = (r, cs')" and wf: "store_wf cs"
  obtains (approved) c0 c where "r = Approved c" "map_of cs i = Some c0" "\<not> ch_Issuing c0" "ch_ApprovedUser c0 \<noteq> ''''"
      "now e < ch_ExpiresAt c0" "ch_PollHash c0 = challengeSecretHash (crypto e) secret"
      "c = c0\<lparr>ch_LastPollAt := Some (now e), ch_Issuing := True\<rparr>" "cs' = AList.update i c cs"
  | (other) "r \<in> {Invalid, Expired, Slow, Pending}" "store_wf cs'" "becomes cs cs'"
proof (cases "map_of cs i")
  case None
  then show thesis using p wf other by (simp add: challenge_poll_def)
next
  case (Some c0)
  note k = wf_ID [OF wf Some]
  let ?c1 = "c0\<lparr>ch_LastPollAt := Some (now e)\<rparr>"
  have u: "store_wf (AList.update i ?c1 cs)" "becomes cs (AList.update i ?c1 cs)"
    using wf k update_becomes [OF Some, of ?c1] by (auto intro: update_wf)
  have h: "secretHashEqual (ch_PollHash c0) h \<Longrightarrow> ch_PollHash c0 = h" for h
    by (simp add: secretHashEqual_def constantStringEqual_def list.rel_eq split: if_splits)
  show thesis using p wf Some u delete_becomes [OF wf, of i] other approved h
    by (auto simp: challenge_poll_def Let_def split: if_splits option.splits)
qed

lemma cancel_becomes: "challenge_cancel e i secret cs = (r, cs') \<Longrightarrow> store_wf cs \<Longrightarrow> store_wf cs' \<and> becomes cs cs'"
  by (auto simp: challenge_cancel_def delete_becomes split: option.splits if_splits)

definition cli_ok :: "cli \<Rightarrow> bool" where
  "cli_ok x \<longleftrightarrow> store_wf (cli_store x) \<and> distinct (cli_issuing x) \<and> distinct (cli_issued x) \<and>
    set (cli_issuing x) \<inter> set (cli_issued x) = {} \<and>
    dom (map_of (cli_store x)) \<union> set (cli_issuing x) \<union> set (cli_issued x) \<subseteq> set (cli_drawn x) \<and>
    (\<forall>i \<in> set (cli_issued x). map_of (cli_store x) i = None) \<and>
    (\<forall>i \<in> set (cli_issuing x). \<forall>c. map_of (cli_store x) i = Some c \<longrightarrow> ch_Issuing c)"

lemma becomes_dom: "becomes cs cs' \<Longrightarrow> dom (map_of cs') \<subseteq> dom (map_of cs)"
  by (auto simp: becomes_def dom_def)

lemma cli_ok_becomes: "cli_ok x \<Longrightarrow> store_wf cs \<and> becomes (cli_store x) cs \<Longrightarrow> cli_ok (x\<lparr>cli_store := cs\<rparr>)"
proof -
  assume x: "cli_ok x" and cs: "store_wf cs \<and> becomes (cli_store x) cs"
  have "map_of cs i = None" if "map_of (cli_store x) i = None" for i
    using becomes_dom [of "cli_store x" cs] cs that by auto
  moreover have "ch_Issuing c" if "i \<in> set (cli_issuing x)" "map_of cs i = Some c" for i c
    using x cs that unfolding cli_ok_def becomes_def by metis
  moreover have "dom (map_of cs) \<subseteq> set (cli_drawn x)" using x cs becomes_dom [of "cli_store x" cs] unfolding cli_ok_def by blast
  ultimately show ?thesis using x cs by (simp add: cli_ok_def)
qed

lemma add_ok:
  assumes "challenge_add e i secret tn cn ip (cli_store x) = (r, cs)" "i \<notin> set (cli_drawn x)" "cli_ok x"
  shows "cli_ok (x\<lparr>cli_store := cs, cli_drawn := i # cli_drawn x\<rparr>)"
proof -
  define cl where "cl = cleanupLocked (now e) (cli_store x)"
  have cl: "cli_ok (x\<lparr>cli_store := cl\<rparr>)"
    using assms(3) cleanup_becomes unfolding cl_def by (intro cli_ok_becomes) (auto simp: cli_ok_def)
  then have new: "i \<notin> dom (map_of cl)" "i \<notin> set (cli_issuing x)" "i \<notin> set (cli_issued x)"
    using assms(2) by (auto simp: cli_ok_def)
  from assms(1) consider "cs = cl" | c where "cs = AList.update i c cl" "ch_ID c = i"
    by (auto simp: challenge_add_def Let_def cl_def split: if_splits)
  then show ?thesis
  proof cases
    case 1
    then show ?thesis using cl by (auto simp: cli_ok_def)
  next
    case (2 c)
    then show ?thesis using cl new by (auto simp: cli_ok_def update_wf update_conv' split: if_splits)
  qed
qed

lemma finish_ok:
  assumes ok: "cli_ok x" and i: "i \<in> set (cli_issuing x)"
  shows "cli_ok (x\<lparr>cli_store := challenge_finish i True (cli_store x), cli_issuing := remove1 i (cli_issuing x), cli_issued := i # cli_issued x\<rparr>)"
    "cli_ok (x\<lparr>cli_store := challenge_finish i False (cli_store x), cli_issuing := remove1 i (cli_issuing x)\<rparr>)"
proof -
  have wf: "store_wf (cli_store x)" using ok by (simp add: cli_ok_def)
  show "cli_ok (x\<lparr>cli_store := challenge_finish i True (cli_store x), cli_issuing := remove1 i (cli_issuing x), cli_issued := i # cli_issued x\<rparr>)"
    using ok i delete_becomes [OF wf, of i]
    by (auto simp: cli_ok_def challenge_finish_def delete_conv' distinct_remove1)
  show "cli_ok (x\<lparr>cli_store := challenge_finish i False (cli_store x), cli_issuing := remove1 i (cli_issuing x)\<rparr>)"
  proof (cases "map_of (cli_store x) i")
    case None
    then show ?thesis using ok by (auto simp: cli_ok_def challenge_finish_def distinct_remove1)
  next
    case (Some c)
    then show ?thesis using ok wf_ID [OF wf Some] i
      by (auto simp: cli_ok_def challenge_finish_def distinct_remove1 update_wf update_conv' split: if_splits)
  qed
qed

lemma cli_step_ok: "cli_step x y \<Longrightarrow> cli_ok x \<Longrightarrow> cli_ok y"
proof (induction rule: cli_step.induct)
  case (start e i secret tn cn ip x r cs)
  then show ?case by (intro add_ok)
next
  case (issue e i secret x c cs)
  have wf: "store_wf (cli_store x)" using issue.prems by (simp add: cli_ok_def)
  from issue(1) wf show ?case
  proof (cases rule: poll_cases)
    case (approved c0 c')
    then have "ch_ID c = i" "map_of (cli_store x) i = Some c0" "\<not> ch_Issuing c0" "ch_Issuing c" "cs = AList.update i c (cli_store x)"
      using wf_ID [OF wf] by auto
    moreover from this have "i \<notin> set (cli_issuing x)" "i \<notin> set (cli_issued x)" "i \<in> set (cli_drawn x)"
      using issue.prems by (auto simp: cli_ok_def)
    ultimately show ?thesis using issue.prems by (auto simp: cli_ok_def update_wf update_conv' split: if_splits)
  qed simp
next
  case (wait e i secret x r cs)
  have "store_wf (cli_store x)" using wait.prems by (simp add: cli_ok_def)
  with wait show ?case by (elim poll_cases) (auto intro: cli_ok_becomes)
next
  case (get t i x r cs)
  then show ?case using get_becomes by (intro cli_ok_becomes) (auto simp: cli_ok_def)
next
  case (approve t i uid x r cs)
  then show ?case using approve_becomes by (intro cli_ok_becomes) (auto simp: cli_ok_def)
next
  case (cancel e i secret x r cs)
  then show ?case using cancel_becomes by (intro cli_ok_becomes) (auto simp: cli_ok_def)
qed (simp_all add: finish_ok)

lemma cli_reachable_ok: "cli_reachable x \<Longrightarrow> cli_ok x"
proof (induction rule: cli_reachable.induct)
  case init
  then show ?case by (simp add: cli_ok_def store_wf_def)
qed (rule cli_step_ok)

text \<open>C24: However the requests of several clients interleave, no more than one of them issues a token for a challenge at a
  time, a challenge that a token was issued for is gone for good, and no challenge ever yields two tokens.\<close>

theorem challenge_yields_one_token:
  assumes "cli_reachable x"
  shows "distinct (cli_issuing x) \<and> distinct (cli_issued x) \<and> set (cli_issuing x) \<inter> set (cli_issued x) = {} \<and>
    map_of (cli_store x) ` set (cli_issued x) \<subseteq> {None}"
  using cli_reachable_ok [OF assms] by (auto simp: cli_ok_def)

lemma secretHashEqual_refl [simp]: "secretHashEqual h h"
  by (simp add: secretHashEqual_def constantStringEqual_def list.rel_eq)

text \<open>A run: a challenge is started, approved, polled and its token issued.\<close>

lemma reach_steps:
  assumes "cli_reachable x"
  shows "challenge_add e i secret tn cn ip (cli_store x) = (r, cs) \<Longrightarrow> i \<notin> set (cli_drawn x) \<Longrightarrow>
      y = x\<lparr>cli_store := cs, cli_drawn := i # cli_drawn x\<rparr> \<Longrightarrow> cli_reachable y"
    and "challenge_approve t i uid (cli_store x) = (r', cs) \<Longrightarrow> y = x\<lparr>cli_store := cs\<rparr> \<Longrightarrow> cli_reachable y"
    and "challenge_poll e i secret (cli_store x) = (Approved c, cs) \<Longrightarrow>
      y = x\<lparr>cli_store := cs, cli_issuing := ch_ID c # cli_issuing x\<rparr> \<Longrightarrow> cli_reachable y"
  using assms cli_step.intros(1,3,5) by (auto intro: cli_reachable.step)

lemma ex_cli: "cli_reachable \<lparr>cli_store = [], cli_issuing = [], cli_issued = [''i''], cli_drawn = [''i'']\<rparr>"
proof -
  define c where "c = \<lparr>ch_ID = ''i'', ch_PollHash = challengeSecretHash (crypto ex_env) ''s'', ch_TokenName = ''t'', ch_ClientName = ''n'',
    ch_ClientIP = ''ip'', ch_ExpiresAt = now ex_env + googleCLIChallengeLifetime, ch_LastPollAt = None, ch_ApprovedUser = '''', ch_Issuing = False\<rparr>"
  define c2 where "c2 = c\<lparr>ch_ApprovedUser := ''u'', ch_LastPollAt := Some (now ex_env), ch_Issuing := True\<rparr>"
  note evals = challenge_add_def challenge_approve_def challenge_poll_def cleanupLocked_def googleCLIChallengeLifetime_def
    minutes_def seconds_def Let_def c_def c2_def
  have "challenge_add ex_env ''i'' ''s'' ''t'' ''n'' ''ip'' [] = (Some c, [(''i'', c)])" by (simp add: evals)
  then have started: "cli_reachable \<lparr>cli_store = [(''i'', c)], cli_issuing = [], cli_issued = [], cli_drawn = [''i'']\<rparr>"
    by (intro reach_steps(1) [OF cli_reachable.init]) simp_all
  have "challenge_approve (now ex_env) ''i'' ''u'' [(''i'', c)] = (None, [(''i'', c\<lparr>ch_ApprovedUser := ''u''\<rparr>)])"
    by (simp add: evals)
  then have approved: "cli_reachable \<lparr>cli_store = [(''i'', c\<lparr>ch_ApprovedUser := ''u''\<rparr>)], cli_issuing = [], cli_issued = [], cli_drawn = [''i'']\<rparr>"
    by (intro reach_steps(2) [OF started]) simp_all
  have "challenge_poll ex_env ''i'' ''s'' [(''i'', c\<lparr>ch_ApprovedUser := ''u''\<rparr>)] = (Approved c2, [(''i'', c2)])"
    by (simp add: evals)
  then have "cli_reachable \<lparr>cli_store = [(''i'', c2)], cli_issuing = [''i''], cli_issued = [], cli_drawn = [''i'']\<rparr>"
    by (intro reach_steps(3) [OF approved]) (simp, simp add: c2_def c_def)
  from cli_reachable.step [OF this cli_step.finish_ok [of "''i''"]] show ?thesis
    by (simp add: challenge_finish_def)
qed

theorem challenge_yields_one_token_witness:
  "distinct [''i''] \<and> map_of ([] :: challenges) ` set [''i''] \<subseteq> {None}"
  using challenge_yields_one_token [OF ex_cli] by simp

end
