(* ===== verification/WebLibrary.thy ===== *)
theory WebLibrary
  imports ApiAuth
begin

text \<open>
  The private pages of a reader (\<open>server/personal_library.go\<close>, \<open>server/profile.go\<close>): opening a book in the reader, lists,
  tags and the profile. Every form is checked for its CSRF token and for the account before anything is changed.
\<close>

section \<open>Helpers of the private pages\<close>

definition addQuery :: "string \<Rightarrow> string \<Rightarrow> string \<Rightarrow> string" where
  "addQuery destination key v =
    destination @ (if contains destination ''?'' then ''&'' else ''?'') @ query_escape key @ ''='' @ query_escape v"

definition privateLibraryNext :: "request \<Rightarrow> string \<Rightarrow> string" where
  "privateLibraryNext r fallback = (let next = safeNextValue (FormValue r ''next'') in if next \<noteq> '''' then next else fallback)"

definition redirectPrivateLibraryError :: "string \<Rightarrow> err \<Rightarrow> response" where
  "redirectPrivateLibraryError destination x = redirect 303 (addQuery destination ''error'' (error_text x))"

text \<open>The account a form of the private pages is for; without one the handler ends.\<close>

definition privateLibraryPostUser :: "env \<Rightarrow> request \<Rightarrow> (response + User) act" where
  "privateLibraryPostUser e r =
    (if \<not> verifyCSRF r then give (Inl invalid_csrf)
     else do {
       user \<leftarrow> currentUser e r;
       give (case user of None \<Rightarrow> Inl (redirectToLogin r) | Some u \<Rightarrow> Inr u)
     })"

abbreviation saved_and_error :: "request \<Rightarrow> (string \<times> val) list" where
  "saved_and_error r \<equiv> [(''Saved'', VStr (query_value r ''saved'')), (''Error'', VStr (query_value r ''error''))]"

abbreviation titles :: "string \<Rightarrow> string \<Rightarrow> string \<Rightarrow> (string \<times> val) list" where
  "titles version page heading \<equiv> [(''CurVersion'', VStr version), (''PageTitle'', VStr page), (''Title'', VStr heading)]"

section \<open>Reading a book\<close>

text \<open>Where the reader is opened, at a position if the locator is one of the reader's.\<close>

definition read_destination :: "env \<Rightarrow> Book \<Rightarrow> string \<Rightarrow> string" where
  "read_destination e b locator =
    (let file = ''/download/'' @ book_ID b @ ''.'' @ FileType (low e) b in
     if FileType (low e) b = ''epub'' then
       (if has_prefix locator ''epubcfi('' then ''/static/reader/epub/?locator='' @ query_escape locator @ ''#!'' @ file
        else ''/static/reader/epub/#!'' @ file)
     else if FileType (low e) b = ''pdf'' then
       ''/static/reader/pdf/web/viewer.html?file='' @ file @
       (if has_prefix locator ''page:'' then
          (case atoi (trim_prefix locator ''page:'') of
            Some page \<Rightarrow> if 0 < page then ''#page='' @ show_int page else ''''
          | None \<Rightarrow> '''')
        else '''')
     else ''/books/'' @ path_escape (book_ID b))"

definition handleReadBook :: "env \<Rightarrow> request \<Rightarrow> response act" where
  "handleReadBook e r = do {
    found \<leftarrow> find_book (param r ''id'');
    case found of
      None \<Rightarrow> not_found_page e r ''Book not found.''
    | Some b \<Rightarrow> do {
        user \<leftarrow> currentUser e r;
        case user of
          None \<Rightarrow> give (redirectToLogin r)
        | Some u \<Rightarrow> do {
            _ \<leftarrow> store (RecordBookRead e (user_ID u) (book_ID b));
            let locator = trim_space (query_value r ''locator'');
            give (redirect 303 (read_destination e b (if 4000 < length locator then '''' else locator)))
          }
      }
  }"

section \<open>Lists and tags\<close>

definition handleMyLibrary :: "env \<Rightarrow> request \<Rightarrow> response act" where
  "handleMyLibrary e r = do {
    user \<leftarrow> currentUser e r;
    case user of
      None \<Rightarrow> give (redirectToLogin r)
    | Some u \<Rightarrow> do {
        recent \<leftarrow> store (RecentBookIDs (user_ID u) 12);
        lists \<leftarrow> store (BookListsForUser (user_ID u));
        tags \<leftarrow> store (TagsForUser (user_ID u));
        bl \<leftarrow> books;
        v \<leftarrow> field sv_version;
        renderPage e r 200 ''my_library'' (titles v ''My Library'' ''My Library'' @
          [(''ShowViewSelector'', VBool False),
           (''RecentBooks'', VBooks (booksByIDs bl (case recent of Inl _ \<Rightarrow> [] | Inr ids \<Rightarrow> ids))),
           (''BookLists'', VLists (case lists of Inl _ \<Rightarrow> [] | Inr ls \<Rightarrow> ls)),
           (''BookTags'', VTags (case tags of Inl _ \<Rightarrow> [] | Inr ts \<Rightarrow> ts))] @ saved_and_error r)
      }
  }"

definition handleCreateBookList :: "env \<Rightarrow> request \<Rightarrow> response act" where
  "handleCreateBookList e r = do {
    user \<leftarrow> privateLibraryPostUser e r;
    case user of
      Inl p \<Rightarrow> give p
    | Inr u \<Rightarrow> do {
        created \<leftarrow> store (CreateBookList e (user_ID u) (FormValue r ''name''));
        give (case created of
            Inl x \<Rightarrow> redirectPrivateLibraryError ''/my-library'' x
          | Inr l \<Rightarrow> redirect 303 (''/my-library/lists/'' @ path_escape (lst_ID l) @ ''?saved=created''))
      }
  }"

definition handleBookList :: "env \<Rightarrow> request \<Rightarrow> response act" where
  "handleBookList e r = do {
    user \<leftarrow> currentUser e r;
    case user of
      None \<Rightarrow> give (redirectToLogin r)
    | Some u \<Rightarrow> do {
        found \<leftarrow> store (BookListForUser (user_ID u) (param r ''id''));
        case found of
          Inl _ \<Rightarrow> not_found_page e r ''That book list does not exist.''
        | Inr l \<Rightarrow> do {
            ids \<leftarrow> store (BookIDsForList (user_ID u) (lst_ID l));
            case ids of
              Inl x \<Rightarrow> give (redirectPrivateLibraryError ''/my-library'' x)
            | Inr is \<Rightarrow> do {
                bl \<leftarrow> books;
                v \<leftarrow> field sv_version;
                renderPage e r 200 ''book_collection'' (titles v (lst_Name l) (lst_Name l) @
                  [(''CollectionKind'', VStr ''list''), (''BookList'', VList l), (''Books'', VBooks (booksByIDs bl is)),
                   (''ShowViewSelector'', VBool False)] @ saved_and_error r)
              }
          }
      }
  }"

definition handleDeleteBookList :: "env \<Rightarrow> request \<Rightarrow> response act" where
  "handleDeleteBookList e r = do {
    user \<leftarrow> privateLibraryPostUser e r;
    case user of
      Inl p \<Rightarrow> give p
    | Inr u \<Rightarrow> do {
        deleted \<leftarrow> store (DeleteBookList (user_ID u) (param r ''id''));
        give (case deleted of
            Inl x \<Rightarrow> redirectPrivateLibraryError ''/my-library'' x
          | Inr _ \<Rightarrow> redirect 303 ''/my-library?saved=list-deleted'')
      }
  }"

text \<open>Both ways of changing what a list holds, and both of changing the tags of a book: the book must exist.\<close>

definition change_book :: "env \<Rightarrow> request \<Rightarrow> string \<Rightarrow> (string \<Rightarrow> unit db_io) \<Rightarrow> string \<Rightarrow> response act" where
  "change_book e r bookID change status = do {
    user \<leftarrow> privateLibraryPostUser e r;
    case user of
      Inl p \<Rightarrow> give p
    | Inr u \<Rightarrow> do {
        let destination = privateLibraryNext r (''/books/'' @ path_escape bookID);
        found \<leftarrow> find_book bookID;
        if found = None then give (redirectPrivateLibraryError destination (ErrText ''book not found''))
        else do {
          changed \<leftarrow> store (change (user_ID u));
          give (case changed of
              Inl x \<Rightarrow> redirectPrivateLibraryError destination x
            | Inr _ \<Rightarrow> redirect 303 (addQuery destination ''saved'' status))
        }
      }
  }"

definition changeBookListMembership :: "env \<Rightarrow> request \<Rightarrow> bool \<Rightarrow> response act" where
  "changeBookListMembership e r add = change_book e r (param r ''book_id'')
    (\<lambda>u. if add then AddBookToList e u (param r ''id'') (param r ''book_id'')
      else RemoveBookFromList e u (param r ''id'') (param r ''book_id''))
    (if add then ''list-added'' else ''list-removed'')"

definition handleAddBookToList :: "env \<Rightarrow> request \<Rightarrow> response act" where
  "handleAddBookToList e r = changeBookListMembership e r True"

definition handleRemoveBookFromList :: "env \<Rightarrow> request \<Rightarrow> response act" where
  "handleRemoveBookFromList e r = changeBookListMembership e r False"

definition changeBookTag :: "env \<Rightarrow> request \<Rightarrow> bool \<Rightarrow> response act" where
  "changeBookTag e r add = change_book e r (param r ''id'')
    (\<lambda>u. if add then AddBookTag e u (param r ''id'') (FormValue r ''tag'') else RemoveBookTag u (param r ''id'') (FormValue r ''tag''))
    (if add then ''tag-added'' else ''tag-removed'')"

definition handleAddBookTag :: "env \<Rightarrow> request \<Rightarrow> response act" where
  "handleAddBookTag e r = changeBookTag e r True"

definition handleRemoveBookTag :: "env \<Rightarrow> request \<Rightarrow> response act" where
  "handleRemoveBookTag e r = changeBookTag e r False"

definition handleTaggedBooks :: "env \<Rightarrow> request \<Rightarrow> response act" where
  "handleTaggedBooks e r = do {
    user \<leftarrow> currentUser e r;
    case user of
      None \<Rightarrow> give (redirectToLogin r)
    | Some u \<Rightarrow> do {
        let tag = trim_space (query_value r ''tag'');
        ids \<leftarrow> store (BookIDsForTag (user_ID u) tag);
        case ids of
          Inl x \<Rightarrow> give (redirectPrivateLibraryError ''/my-library'' x)
        | Inr is \<Rightarrow> do {
            bl \<leftarrow> books;
            v \<leftarrow> field sv_version;
            renderPage e r 200 ''book_collection'' (titles v (''Tag: '' @ tag) (''Tag: '' @ tag) @
              [(''CollectionKind'', VStr ''tag''), (''Tag'', VStr tag), (''Books'', VBooks (booksByIDs bl is)),
               (''ShowViewSelector'', VBool False)])
          }
      }
  }"

section \<open>The profile\<close>

definition handleProfile :: "env \<Rightarrow> request \<Rightarrow> response act" where
  "handleProfile e r = do {
    user \<leftarrow> currentUser e r;
    case user of
      None \<Rightarrow> give (redirectToLogin r)
    | Some u \<Rightarrow>
        if \<not> role_allows (user_Role u) RoleReader then give (redirectToLogin r)
        else if rq_method r = ''POST'' then
          (if \<not> verifyCSRF r then give invalid_csrf
           else if \<not> ParseForm_again r then give (redirect 303 (''/profile?error='' @ urlQuery ''The profile form could not be read.''))
           else do {
             updated \<leftarrow> store (UpdateProfile e (user_ID u) (FormValue r ''display_name'') (FormValue r ''bio'') (FormValue r ''location''));
             give (redirect 303 (case updated of
                 Inl x \<Rightarrow> ''/profile?error='' @ urlQuery (error_text x)
               | Inr _ \<Rightarrow> ''/profile?saved=1''))
           })
        else do {
          v \<leftarrow> field sv_version;
          renderPage e r 200 ''profile'' (titles v ''Profile'' ''Profile'' @
            [(''Saved'', VBool (query_value r ''saved'' = ''1'')), (''Error'', VStr (query_value r ''error''))])
        }
  }"

end
