(* ===== verification/WebReading.thy ===== *)
theory WebReading
  imports WebLibrary
begin

text \<open>
  \<open>server/reading.go\<close>: the about and help replies, the context of the reader, its language, and bookmarks and notes, as
  JSON for the reader and as forms for the page that lists them.
\<close>

section \<open>About and help\<close>

definition aboutData :: "json act" where
  "aboutData = do {
    settings \<leftarrow> authSettings;
    v \<leftarrow> field sv_version;
    build \<leftarrow> field (\<lambda>s. (sv_build_id s, sv_build_time s, sv_build_number s));
    give (JObj [(''name'', JStr (set_SiteName settings)),
      (''description'', JStr ''Read, listen to, and organize your ebook library from any device.''), (''version'', JStr v),
      (''build_id'', JStr (fst build)), (''build_time'', JStr (fst (snd build))), (''build_number'', JStr (snd (snd build)))])
  }"

definition handleAbout :: "request \<Rightarrow> response act" where
  "handleAbout r = do { about \<leftarrow> aboutData; give (writeJSON 200 about) }"

text \<open>The Chinese title of the guide, in UTF-8.\<close>

definition guide_title_zh :: string where
  "guide_title_zh = map char_of [0xE4, 0xBD, 0xBF, 0xE7, 0x94, 0xA8, 0xE8, 0xAF, 0xB4, 0xE6, 0x98, 0x8E :: nat]"

definition handleHelp :: "env \<Rightarrow> request \<Rightarrow> response act" where
  "handleHelp e r = do {
    pages \<leftarrow> field sv_pages;
    let zh = to_lower (low e) (trim_space (query_value r ''lang'')) = ''zh'' \<and> pages ''docs/user_guide.zh.md'' \<noteq> None;
    let title = (if zh then guide_title_zh else ''How to use this app'');
    give (case pages (if zh then ''docs/user_guide.zh.md'' else ''docs/user_guide.md'') of
        None \<Rightarrow> writeJSONError 500 ''the user guide is unavailable''
      | Some None \<Rightarrow> writeJSONError 500 ''the user guide could not be rendered''
      | Some (Some document) \<Rightarrow> writeJSON 200 (JObj [(''title'', JStr title), (''document'', JStr document)]))
  }"

section \<open>The reader\<close>

definition json_item :: "ReadingItem \<Rightarrow> json" where
  "json_item i = JObj [(''id'', JStr (rd_ID i)), (''book_id'', JStr (rd_BookID i)), (''kind'', JStr (rd_Kind i)),
    (''locator'', JStr (rd_Locator i)), (''locator_label'', JStr (rd_LocatorLabel i)), (''title'', JStr (rd_Title i)),
    (''body'', JStr (rd_Body i)), (''excerpt'', JStr (rd_Excerpt i)), (''tags'', JArr (map JStr (rd_Tags i))),
    (''created_at'', JTime (rd_CreatedAt i)), (''updated_at'', JTime (rd_UpdatedAt i))]"

text \<open>\<open>readerContextResponse\<close> without its empty members.\<close>

definition json_context :: "json \<Rightarrow> bool \<Rightarrow> string \<Rightarrow> ReadingItem list \<Rightarrow> string \<Rightarrow> json" where
  "json_context about authenticated token items language = JObj ([(''about'', about), (''authenticated'', JBool authenticated)] @
    (if token = '''' then [] else [(''csrf_token'', JStr token)]) @
    (if items = [] then [] else [(''items'', JArr (map json_item items))]) @
    (if language = '''' then [] else [(''language'', JStr language)]))"

definition handleReaderContext :: "env \<Rightarrow> request \<Rightarrow> response act" where
  "handleReaderContext e r = do {
    let bookID = trim_space (query_value r ''book_id'');
    found \<leftarrow> find_book bookID;
    if found = None then give (writeJSONError 404 ''book not found'')
    else do {
      about \<leftarrow> aboutData;
      user \<leftarrow> currentUser e r;
      case user of
        None \<Rightarrow> give (writeJSON 200 (json_context about False '''' [] ''''))
      | Some u \<Rightarrow>
          if \<not> role_allows (user_Role u) RoleReader then give (writeJSON 200 (json_context about False '''' [] ''''))
          else do {
            items \<leftarrow> store (ReadingItems (user_ID u) bookID 500);
            case items of
              Inl _ \<Rightarrow> give (writeJSONError 500 ''could not load bookmarks and notes'')
            | Inr is \<Rightarrow> do {
                token \<leftarrow> csrfToken e r;
                language \<leftarrow> store (LanguageForUser (user_ID u));
                give ((writeJSON 200 (json_context about True (fst token) is (case language of Inl _ \<Rightarrow> '''' | Inr l \<Rightarrow> l)))
                  \<lparr>rp_cookies := snd token\<rparr>)
              }
          }
    }
  }"

definition readerAPIUser :: "env \<Rightarrow> request \<Rightarrow> (response + User) act" where
  "readerAPIUser e r = do {
    user \<leftarrow> currentUser e r;
    give (case user of
        None \<Rightarrow> Inl (writeJSONError 401 ''sign in to save bookmarks and notes'')
      | Some u \<Rightarrow>
          if \<not> role_allows (user_Role u) RoleReader then Inl (writeJSONError 401 ''sign in to save bookmarks and notes'')
          else if \<not> verifyCSRF r then Inl (writeJSONError 403 ''invalid CSRF token'')
          else Inr u)
  }"

definition handleReaderLanguage :: "env \<Rightarrow> request \<Rightarrow> response act" where
  "handleReaderLanguage e r = do {
    user \<leftarrow> readerAPIUser e r;
    case user of
      Inl p \<Rightarrow> give p
    | Inr u \<Rightarrow> do {
        let language = to_lower (low e) (trim_space (FormValue r ''language''));
        if language \<noteq> ''en'' \<and> language \<noteq> ''zh'' then give (writeJSONError 400 ''unsupported language'')
        else do {
          saved \<leftarrow> store (SetLanguage (user_ID u) language);
          give (case saved of
              Inl _ \<Rightarrow> writeJSONError 500 ''could not save language''
            | Inr _ \<Rightarrow> writeJSON 200 (JObj [(''language'', JStr language)]))
        }
      }
  }"

section \<open>Bookmarks and notes\<close>

definition readingTags :: "string \<Rightarrow> string list" where
  "readingTags v = fields_func (\<lambda>r. r = 44 \<or> r = 10) v"

definition handleCreateReadingItemAPI :: "env \<Rightarrow> request \<Rightarrow> response act" where
  "handleCreateReadingItemAPI e r = do {
    user \<leftarrow> readerAPIUser e r;
    case user of
      Inl p \<Rightarrow> give p
    | Inr u \<Rightarrow> do {
        found \<leftarrow> find_book (FormValue r ''book_id'');
        if found = None then give (writeJSONError 404 ''book not found'')
        else do {
          item \<leftarrow> store (CreateReadingItem e (user_ID u) (FormValue r ''book_id'') (FormValue r ''kind'') (FormValue r ''locator'')
            (FormValue r ''locator_label'') (FormValue r ''title'') (FormValue r ''body'') (FormValue r ''excerpt'')
            (readingTags (FormValue r ''tags'')));
          give (case item of
              Inl x \<Rightarrow> writeJSONError 400 (error_text x)
            | Inr i \<Rightarrow> writeJSON 201 (json_item i))
        }
      }
  }"

definition item_error :: "err \<Rightarrow> response" where
  "item_error x = writeJSONError (if is_err x ErrReadingItemNotFound then 404 else 400) (error_text x)"

definition handleUpdateReadingItemAPI :: "env \<Rightarrow> request \<Rightarrow> response act" where
  "handleUpdateReadingItemAPI e r = do {
    user \<leftarrow> readerAPIUser e r;
    case user of
      Inl p \<Rightarrow> give p
    | Inr u \<Rightarrow> do {
        item \<leftarrow> store (UpdateReadingItem e (user_ID u) (param r ''id'') (FormValue r ''title'') (FormValue r ''body'')
          (readingTags (FormValue r ''tags'')));
        give (case item of Inl x \<Rightarrow> item_error x | Inr i \<Rightarrow> writeJSON 200 (json_item i))
      }
  }"

definition handleDeleteReadingItemAPI :: "env \<Rightarrow> request \<Rightarrow> response act" where
  "handleDeleteReadingItemAPI e r = do {
    user \<leftarrow> readerAPIUser e r;
    case user of
      Inl p \<Rightarrow> give p
    | Inr u \<Rightarrow> do {
        deleted \<leftarrow> store (DeleteReadingItem (user_ID u) (param r ''id''));
        give (case deleted of Inl x \<Rightarrow> item_error x | Inr _ \<Rightarrow> writeJSON 200 (json_flags [''deleted'']))
      }
  }"

definition readingItemLink :: "ReadingItem \<Rightarrow> string" where
  "readingItemLink i = ''/read/'' @ path_escape (rd_BookID i) @ ''?locator='' @ query_escape (rd_Locator i)"

definition handleReadingItems :: "env \<Rightarrow> request \<Rightarrow> response act" where
  "handleReadingItems e r = do {
    user \<leftarrow> currentUser e r;
    case user of
      None \<Rightarrow> give (redirectToLogin r)
    | Some u \<Rightarrow> do {
        items \<leftarrow> store (ReadingItems (user_ID u) '''' 500);
        case items of
          Inl x \<Rightarrow> give (redirectPrivateLibraryError ''/my-library'' x)
        | Inr is \<Rightarrow> do {
            bl \<leftarrow> books;
            v \<leftarrow> field sv_version;
            renderPage e r 200 ''reading_items'' (titles v ''Bookmarks & Notes'' ''Bookmarks & Notes'' @
              [(''Items'', VRows (map (\<lambda>i. [(''Item'', VReading i),
                (''Book'', case findBook bl (rd_BookID i) of None \<Rightarrow> VNil | Some b \<Rightarrow> VBook b),
                (''ReadURL'', VStr (readingItemLink i))]) is))] @ saved_and_error r)
          }
      }
  }"

definition handleUpdateReadingItem :: "env \<Rightarrow> request \<Rightarrow> response act" where
  "handleUpdateReadingItem e r = do {
    user \<leftarrow> privateLibraryPostUser e r;
    case user of
      Inl p \<Rightarrow> give p
    | Inr u \<Rightarrow> do {
        item \<leftarrow> store (UpdateReadingItem e (user_ID u) (param r ''id'') (FormValue r ''title'') (FormValue r ''body'')
          (readingTags (FormValue r ''tags'')));
        give (case item of
            Inl x \<Rightarrow> redirectPrivateLibraryError ''/my-library/reading'' x
          | Inr _ \<Rightarrow> redirect 303 ''/my-library/reading?saved=updated'')
      }
  }"

definition handleDeleteReadingItem :: "env \<Rightarrow> request \<Rightarrow> response act" where
  "handleDeleteReadingItem e r = do {
    user \<leftarrow> privateLibraryPostUser e r;
    case user of
      Inl p \<Rightarrow> give p
    | Inr u \<Rightarrow> do {
        deleted \<leftarrow> store (DeleteReadingItem (user_ID u) (param r ''id''));
        give (case deleted of
            Inl x \<Rightarrow> redirectPrivateLibraryError ''/my-library/reading'' x
          | Inr _ \<Rightarrow> redirect 303 ''/my-library/reading?saved=deleted'')
      }
  }"

end
