(* ===== verification/WebCatalogue.thy ===== *)
theory WebCatalogue
  imports WebReading
begin

text \<open>
  The catalogue of \<open>server/server.go\<close>: books, authors, series, search and downloads. \<open>SortBy\<close> and \<open>Sorted\<close> order the array
  of the list they are given, which is that of the indexer for the pages that do not filter it first.
\<close>

section \<open>The catalogue\<close>

definition remove_first :: "string \<Rightarrow> string \<Rightarrow> string" where
  "remove_first s old = (if old = '''' then s else case List.find (\<lambda>i. has_prefix (drop i s) old) [0..<length s] of
      None \<Rightarrow> s | Some i \<Rightarrow> take i s @ drop (i + length old) s)"

abbreviation page_bar :: "bool \<Rightarrow> bool \<Rightarrow> bool \<Rightarrow> (string \<times> val) list" where
  "page_bar bar search selector \<equiv> [(''ShowBar'', VBool bar), (''ShowSearch'', VBool search), (''ShowViewSelector'', VBool selector)]"

definition named_less :: "named \<Rightarrow> named \<Rightarrow> bool" where
  "named_less a b = str_less (nm_Name a) (nm_Name b)"

definition handleAuthors :: "env \<Rightarrow> request \<Rightarrow> response act" where
  "handleAuthors e r = do {
    bl \<leftarrow> books;
    v \<leftarrow> field sv_version;
    renderPage e r 200 ''authors'' (titles v ''Authors'' ''Authors'' @ page_bar True False True @
      [(''Authors'', VNames (Sorted named_less (Authors bl)))])
  }"

definition handleSeriess :: "env \<Rightarrow> request \<Rightarrow> response act" where
  "handleSeriess e r = do {
    bl \<leftarrow> books;
    v \<leftarrow> field sv_version;
    renderPage e r 200 ''seriess'' (titles v ''Series'' ''Series'' @ page_bar True False True @
      [(''Series'', VNames (Sorted named_less (Series bl)))])
  }"

text \<open>The name with an id, the last one found; \<open>not_found_bar\<close> is the page when there is none.\<close>

definition name_with_id :: "named list \<Rightarrow> string \<Rightarrow> string" where
  "name_with_id ns i = (case List.find (\<lambda>n. nm_ID n = i) (rev ns) of None \<Rightarrow> '''' | Some n \<Rightarrow> nm_Name n)"

definition not_found_bar :: "env \<Rightarrow> request \<Rightarrow> string \<Rightarrow> response act" where
  "not_found_bar e r message = do {
    v \<leftarrow> field sv_version;
    renderPage e r 404 ''notfound'' (titles v ''Not Found'' ''Not Found'' @ page_bar False False False @ [(''Message'', VStr message)])
  }"

definition handleAuthor :: "env \<Rightarrow> request \<Rightarrow> response act" where
  "handleAuthor e r = do {
    bl \<leftarrow> books;
    v \<leftarrow> field sv_version;
    let aname = name_with_id (Authors bl) (param r ''id'');
    if aname \<noteq> '''' then do {
      let own = Filtered (\<lambda>b. bk_Author b \<noteq> '''' \<and> AuthorID b = param r ''id'') bl;
      let own = fst (SortBy (low e) (query_value r ''sort'') (fst (SortBy (low e) ''title-asc'' own)));
      renderPage e r 200 ''author'' (titles v aname aname @ page_bar True False True @ [(''Books'', VBooks own)])
    } else not_found_bar e r ''Author not found.''
  }"

text \<open>The order asked for is computed but not shown: the books are sorted by their index again.\<close>

definition handleSeries :: "env \<Rightarrow> request \<Rightarrow> response act" where
  "handleSeries e r = do {
    bl \<leftarrow> books;
    v \<leftarrow> field sv_version;
    let sname = name_with_id (Series bl) (param r ''id'');
    if sname \<noteq> '''' then
      renderPage e r 200 ''series'' (titles v sname sname @ page_bar True False True @
        [(''Books'', VBooks (Sorted (\<lambda>a b. f64_less (bk_SeriesIndex a) (bk_SeriesIndex b))
          (Filtered (\<lambda>b. bk_Series b \<noteq> '''' \<and> SeriesID b = param r ''id'') bl)))])
    else not_found_bar e r ''Series not found.''
  }"

text \<open>The list of the indexer itself is sorted.\<close>

definition handleBooks :: "env \<Rightarrow> request \<Rightarrow> response act" where
  "handleBooks e r = do {
    bl \<leftarrow> books;
    let bl = fst (SortBy (low e) (query_value r ''sort'') (fst (SortBy (low e) ''modified-desc'' bl)));
    _ \<leftarrow> put_books bl;
    v \<leftarrow> field sv_version;
    renderPage e r 200 ''books'' (titles v ''Books'' '''' @ page_bar True True True @ [(''Books'', VBooks bl)])
  }"

definition handleBook :: "env \<Rightarrow> request \<Rightarrow> response act" where
  "handleBook e r = do {
    found \<leftarrow> find_book (param r ''id'');
    v \<leftarrow> field sv_version;
    case found of
      None \<Rightarrow> not_found_bar e r ''Book not found.''
    | Some b \<Rightarrow> do {
        user \<leftarrow> currentUser e r;
        mine \<leftarrow> (case user of
            None \<Rightarrow> give []
          | Some u \<Rightarrow> do {
              lists \<leftarrow> store (BookListsForBook (user_ID u) (book_ID b));
              tags \<leftarrow> store (TagsForBook (user_ID u) (book_ID b));
              give ((case lists of Inl _ \<Rightarrow> [] | Inr ls \<Rightarrow> [(''BookLists'', VLists ls)]) @
                (case tags of Inl _ \<Rightarrow> [] | Inr ts \<Rightarrow> [(''BookTags'', VStrs ts)]))
            });
        renderPage e r 200 ''book'' (titles v (bk_Title b) '''' @ page_bar False False False @ [(''Book'', VBook b)] @ mine @ saved_and_error r)
      }
  }"

definition search_match :: "env \<Rightarrow> string \<Rightarrow> Book \<Rightarrow> bool" where
  "search_match e ql b \<longleftrightarrow> (bk_Author b \<noteq> '''' \<and> contains (to_lower (low e) (bk_Author b)) ql) \<or>
    contains (to_lower (low e) (bk_Title b)) ql \<or> (bk_Series b \<noteq> '''' \<and> contains (to_lower (low e) (bk_Series b)) ql)"

definition handleSearch :: "env \<Rightarrow> request \<Rightarrow> response act" where
  "handleSearch e r = do {
    bl \<leftarrow> books;
    v \<leftarrow> field sv_version;
    let q = query_value r ''q'';
    if q \<noteq> '''' then do {
      let hits = Filtered (search_match e (to_lower (low e) q)) bl;
      let hits = fst (SortBy (low e) (query_value r ''sort'') (fst (SortBy (low e) ''title-asc'' hits)));
      renderPage e r 200 ''search'' (titles v ''Search Results'' ''Search Results'' @ page_bar True True True @
        [(''Query'', VStr q), (''Books'', VBooks hits)])
    } else renderPage e r 200 ''search'' (titles v ''Search'' ''Search'' @ page_bar True True False @ [(''Query'', VStr '''')])
  }"

text \<open>\<open>n\<close> is the random number; the remainder by the length of an empty list panics.\<close>

definition handleRandom :: "nat \<Rightarrow> request \<Rightarrow> response act" where
  "handleRandom n r = do {
    bl \<leftarrow> books;
    give (if bl = [] then panic else redirect 307 (''/books/'' @ book_ID (bl ! (n mod length bl))))
  }"

section \<open>Downloads\<close>

text \<open>\<open>os.Open\<close> and reading the file: an error, or its bytes.\<close>

definition read_file :: "string \<Rightarrow> string disk_io" where
  "read_file path = query (\<lambda>fs. case fs path of None \<Rightarrow> Inl (ErrText ''no such file or directory'') | Some s \<Rightarrow> Inr s)"

text \<open>\<open>template.HTMLEscapeString\<close>.\<close>

definition html_escape :: "string \<Rightarrow> string" where
  "html_escape s = concat (map (\<lambda>c.
    if c = CHR 0x00 then encode_rune rune_error else if c = CHR 0x22 then ''&#34;'' else if c = CHR 0x27 then ''&#39;''
    else if c = CHR ''&'' then ''&amp;'' else if c = CHR ''<'' then ''&lt;'' else if c = CHR ''>'' then ''&gt;'' else [c]) s)"

text \<open>The line of a book; the second case repeats the condition of the first, so that a book with an author but no
  series has no line. \<open>fmt\<close> is the \<open>%v\<close> of a floating point number.\<close>

definition download_line :: "(f64 \<Rightarrow> string) \<Rightarrow> env \<Rightarrow> Book \<Rightarrow> string" where
  "download_line fmt e b =
    (let link = ''<a href='' @ [CHR 0x22] @ ''/download/'' @ book_ID b @ ''.'' @ FileType (low e) b @ [CHR 0x22] @ ''>'' in
     if bk_Author b \<noteq> '''' \<and> bk_Series b \<noteq> ''''
       then link @ bk_Title b @ '' - '' @ bk_Author b @ '' - '' @ bk_Series b @ '' ('' @ fmt (bk_SeriesIndex b) @ '')</a>''
     else if bk_Author b \<noteq> '''' \<and> bk_Series b \<noteq> '''' then link @ bk_Title b @ '' - '' @ bk_Author b @ ''</a>''
     else if bk_Author b = '''' \<and> bk_Series b \<noteq> ''''
       then link @ bk_Title b @ '' - '' @ bk_Series b @ '' ('' @ fmt (bk_SeriesIndex b) @ '')</a>''
     else if bk_Author b = '''' \<and> bk_Series b = '''' then link @ bk_Title b @ ''</a>''
     else '''')"

text \<open>The page is sent as the title of the site and the lines of the books; the list of the indexer is sorted for it.\<close>

definition handleDownloads :: "(f64 \<Rightarrow> string) \<Rightarrow> env \<Rightarrow> request \<Rightarrow> response act" where
  "handleDownloads fmt e r = do {
    settings \<leftarrow> authSettings;
    bl \<leftarrow> books;
    let sbl = Sorted (\<lambda>a b. str_less (bk_Title a) (bk_Title b)) bl;
    _ \<leftarrow> put_books sbl;
    give \<lparr>rp_status = 200, rp_location = None, rp_headers = [(''Content-Type'', ''text/html'')], rp_cookies = [],
      rp_body = Template ''downloads'' [(''title'', VStr (html_escape (set_SiteName settings))),
        (''lines'', VStr (concat (map (download_line fmt e) sbl)))]\<rparr>
  }"

text \<open>The name of a download without its extension, and its title in ASCII.\<close>

definition download_id :: "string \<Rightarrow> string" where
  "download_id filename = remove_all ''.kepub'' (remove_first filename (path_ext filename))"

definition ascii_title :: "string \<Rightarrow> string" where
  "ascii_title s = concat (map (\<lambda>(rn, bytes). if rn < 128 then bytes else ''_'') (segs s))"

definition file_type_header :: "string \<Rightarrow> string \<times> string" where
  "file_type_header t = (''Content-Type'', if t = ''epub'' then ''application/epub+zip''
    else if t = ''pdf'' then ''application/pdf'' else ''application/octet-stream'')"

definition plain_reply :: "nat \<Rightarrow> string \<Rightarrow> response" where
  "plain_reply status message = \<lparr>rp_status = status, rp_location = None, rp_headers = [], rp_cookies = [], rp_body = Text message\<rparr>"

text \<open>\<open>convert\<close> is the converter of the kepubify library, from the bytes of an EPUB to those of a Kobo EPUB.\<close>

definition handleDownload :: "(string \<Rightarrow> string option) \<Rightarrow> env \<Rightarrow> request \<Rightarrow> response act" where
  "handleDownload convert e r = do {
    let bid = download_id (param r ''filename'');
    found \<leftarrow> find_book bid;
    case found of
      None \<Rightarrow> give (plain_reply 404 (''Could not find book with id '' @ bid))
    | Some b \<Rightarrow>
        if \<not> has_suffix (param r ''filename'') ''.kepub.epub'' then do {
          file \<leftarrow> disk (read_file (bk_FilePath b));
          give (case file of
              Inl _ \<Rightarrow> plain_reply 500 ''Error handling request''
            | Inr bytes \<Rightarrow> \<lparr>rp_status = 200, rp_location = None,
                rp_headers = [(''Content-Disposition'', ''attachment; filename='' @ [CHR 0x22] @ ascii_title (bk_Title b) @ ''.'' @
                  FileType (low e) b @ [CHR 0x22]), file_type_header (FileType (low e) b)],
                rp_cookies = [], rp_body = File bytes\<rparr>)
        }
        else if FileType (low e) b \<noteq> ''epub'' then give (plain_reply 404 ''Not found'')
        else do {
          dir \<leftarrow> disk tick;
          file \<leftarrow> (case dir of Inl x \<Rightarrow> give (Inl x) | Inr _ \<Rightarrow> disk (read_file (bk_FilePath b)));
          let converted = (case file of Inl _ \<Rightarrow> None | Inr bytes \<Rightarrow> convert bytes);
          opened \<leftarrow> (if converted = None then give (Inr ()) else disk tick);
          give (case dir of
              Inl _ \<Rightarrow> plain_reply 500 ''Internal Server Error''
            | Inr _ \<Rightarrow> (case converted of
                None \<Rightarrow> plain_reply 500 ''Internal Server Error - Error converting book''
              | Some bytes \<Rightarrow> (case opened of
                  Inl _ \<Rightarrow> plain_reply 500 ''Error handling request''
                | Inr _ \<Rightarrow> \<lparr>rp_status = 200, rp_location = None,
                    rp_headers = [(''Content-Disposition'', ''attachment; filename='' @ path_escape (bk_Title b) @ ''.kepub.epub''),
                      (''Content-Type'', ''application/epub+zip'')],
                    rp_cookies = [], rp_body = File bytes\<rparr>)))
        }
  }"

end
