(* ===== verification/LibraryOps.thy ===== *)
theory LibraryOps
  imports WebCatalogue
begin

text \<open>
Storing uploaded books and moving removed ones to recoverable storage (src/server/library_ops.go, with the file
name rules of src/server/admin.go). The files of the library are the finite map of the disk state; every
operation on it may fail, and a deferred removal of a temporary file is written where the code's \<open>defer\<close> runs.
What ebook-convert does is a parameter.
\<close>

section \<open>Names\<close>

text \<open>Trimming characters of a set at both ends (\<open>strings.Trim\<close>, an ASCII set).\<close>

definition trim_chars :: "string \<Rightarrow> string \<Rightarrow> string" where
  "trim_chars s cs = rev (dropWhile (\<lambda>c. c \<in> set cs) (rev (dropWhile (\<lambda>c. c \<in> set cs) s)))"

text \<open>\<open>unsafeUploadCharacters\<close>: every maximal run of runes outside the class becomes one underscore.\<close>

definition upload_rune :: "nat \<Rightarrow> bool" where
  "upload_rune r \<longleftrightarrow> (48 \<le> r \<and> r \<le> 57) \<or> (65 \<le> r \<and> r \<le> 90) \<or> (97 \<le> r \<and> r \<le> 122) \<or> r \<in> {46, 95, 40, 41, 45, 32}"

fun replace_runs :: "(nat \<Rightarrow> bool) \<Rightarrow> bool \<Rightarrow> (nat \<times> string) list \<Rightarrow> string" where
  "replace_runs ok inside [] = ''''"
| "replace_runs ok inside ((r, bytes) # xs) =
    (if ok r then bytes @ replace_runs ok False xs
     else (if inside then '''' else ''_'') @ replace_runs ok True xs)"

text \<open>A slice \<open>base[:limit]\<close> with \<open>limit\<close> beyond the end panics; the base is longer than the limit there.\<close>

definition safeUploadName :: "string \<Rightarrow> string" where
  "safeUploadName v =
    (let name = trim_chars (replace_runs upload_rune False (segs (path_base (trim_space v)))) ''. '' in
     if 180 < length name then
       (let ext = path_ext name; base = trim_suffix name ext in
        if 180 < length ext + 1 then '''' else take (180 - length ext) base @ ext)
     else name)"

definition supportedBookExtension :: "(nat \<Rightarrow> nat) \<Rightarrow> (string \<times> loader) list \<Rightarrow> string \<Rightarrow> bool" where
  "supportedBookExtension lw fs extension =
    list_ex (\<lambda>supported. trim_prefix (to_lower lw extension) ''.'' = to_lower lw supported) (GetExts fs)"

definition isMobiFilename :: "(nat \<Rightarrow> nat) \<Rightarrow> string \<Rightarrow> bool" where
  "isMobiFilename lw filename = (let x = to_lower lw (path_ext filename) in x = ''.mobi'' \<or> x = ''.azw'' \<or> x = ''.azw3'')"

definition installed_name :: "(nat \<Rightarrow> nat) \<Rightarrow> string \<Rightarrow> string" where
  "installed_name lw filename = (if isMobiFilename lw filename then trim_suffix filename (path_ext filename) @ ''.epub'' else filename)"

text \<open>\<open>filepath.Join\<close> of a clean directory and a name that is one element.\<close>

definition in_dir :: "string \<Rightarrow> string \<Rightarrow> string" where
  "in_dir dir name = dir @ ''/'' @ name"

section \<open>Files\<close>

text \<open>\<open>os.CreateTemp\<close>: a random number takes the place of the star, a name that exists is drawn again, ten thousand times
  at most; the new file is empty.\<close>

fun create_temp :: "nat \<Rightarrow> string \<Rightarrow> string \<Rightarrow> string \<Rightarrow> string disk_io" where
  "create_temp 0 dir prefix suffix = throw (ErrText ''file exists'')"
| "create_temp (Suc n) dir prefix suffix =
    bnd (read_full 4) (\<lambda>bs.
    let path = in_dir dir (prefix @ show_nat (foldl (\<lambda>a b. a * 256 + unat b) 0 bs) @ suffix) in
    bnd (query (\<lambda>fs. Inr (fs path))) (\<lambda>found.
    case found of
      Some _ \<Rightarrow> create_temp n dir prefix suffix
    | None \<Rightarrow> bnd (exec (\<lambda>fs. Inr (fs(path \<mapsto> ''''), 1))) (\<lambda>_. ret path)))"

definition write_file :: "string \<Rightarrow> string \<Rightarrow> unit disk_io" where
  "write_file path s = bnd (exec (\<lambda>fs. Inr (fs(path \<mapsto> s), 1))) (\<lambda>_. ret ())"

definition rename_file :: "string \<Rightarrow> string \<Rightarrow> unit disk_io" where
  "rename_file a b = bnd (exec (\<lambda>fs. case fs a of
      None \<Rightarrow> Inl (ErrText ''no such file or directory'') | Some s \<Rightarrow> Inr ((fs(a := None))(b \<mapsto> s), 1))) (\<lambda>_. ret ())"

text \<open>Removing a temporary file; the error is dropped.\<close>

definition remove_file :: "string \<Rightarrow> unit disk_io" where
  "remove_file path = handle (bnd (exec (\<lambda>fs. Inr (fs(path := None), 1))) (\<lambda>_. ret ())) (\<lambda>_. ret ())"

definition stat_file :: "string \<Rightarrow> nat option disk_io" where
  "stat_file path = query (\<lambda>fs. Inr (map_option length (fs path)))"

section \<open>Storing a book\<close>

record library_error =
  le_Code :: string
  le_Message :: string
  le_Status :: nat

definition lib_err :: "string \<Rightarrow> string \<Rightarrow> nat \<Rightarrow> library_error" where
  "lib_err code message status = \<lparr>le_Code = code, le_Message = message, le_Status = status\<rparr>"

definition maxBookUploadBytes :: nat where "maxBookUploadBytes = 256 * 1024 * 1024"

text \<open>\<open>ebook-convert\<close>: missing, out of time, failed with an output, or the bytes of the file it made (\<open>None\<close>: no file).\<close>

datatype conversion = NoConverter | TimedOut | Failed string | Converted "string option"

text \<open>The steps of an upload with the errors they end in; \<open>try_disk m x\<close> maps any failure of \<open>m\<close> to \<open>x\<close>.\<close>

type_synonym 'a upload = "files conn \<Rightarrow> (library_error + 'a) \<times> files conn"

definition up_ret :: "'a \<Rightarrow> 'a upload" where
  "up_ret x = (\<lambda>c. (Inr x, c))"

definition up_fail :: "library_error \<Rightarrow> 'a upload" where
  "up_fail x = (\<lambda>c. (Inl x, c))"

definition up_bind :: "'a upload \<Rightarrow> ('a \<Rightarrow> 'b upload) \<Rightarrow> 'b upload" where
  "up_bind m f = (\<lambda>c. case m c of (Inl x, c') \<Rightarrow> (Inl x, c') | (Inr y, c') \<Rightarrow> f y c')"

definition try_disk :: "'a disk_io \<Rightarrow> library_error \<Rightarrow> 'a upload" where
  "try_disk m x = (\<lambda>c. case m c of (Inl _, c') \<Rightarrow> (Inl x, c') | (Inr y, c') \<Rightarrow> (Inr y, c'))"

text \<open>A deferred removal of a file: \<open>cleanup_failed\<close> when the body fails.\<close>

definition cleanup_failed :: "string \<Rightarrow> 'a upload \<Rightarrow> 'a upload" where
  "cleanup_failed path m = (\<lambda>c. case m c of
      (Inl x, c') \<Rightarrow> (Inl x, snd (remove_file path c'))
    | (Inr y, c') \<Rightarrow> (Inr y, c'))"

definition conversion_storage :: library_error where
  "conversion_storage = lib_err ''conversion_storage_failed'' ''The converted book could not be stored.'' 500"

definition conversion_failed :: "string \<Rightarrow> library_error" where
  "conversion_failed details = lib_err ''conversion_failed'' details 422"

definition clip_output :: "string \<Rightarrow> string" where
  "clip_output s = (let d = trim_space s in if 1000 < length d then drop (length d - 1000) d else d)"

definition run_converter :: "conversion \<Rightarrow> string \<Rightarrow> unit upload" where
  "run_converter conv outputPath = (case conv of
      TimedOut \<Rightarrow> up_fail (lib_err ''conversion_timeout'' ''Converting the MOBI book took too long.'' 504)
    | Failed output \<Rightarrow>
        (if clip_output output \<noteq> '''' then up_fail (conversion_failed (''The MOBI book could not be converted: '' @ clip_output output))
         else up_fail (conversion_failed ''The MOBI book could not be converted.''))
    | Converted (Some s) \<Rightarrow> (\<lambda>c. (Inr (), c\<lparr>tables := (tables c)(outputPath \<mapsto> s)\<rparr>))
    | _ \<Rightarrow> up_ret ())"

definition no_valid_epub :: library_error where
  "no_valid_epub = conversion_failed ''The converter did not produce a valid EPUB.''"

definition check_converted :: "string \<Rightarrow> (string \<times> nat) upload" where
  "check_converted outputPath =
    up_bind (try_disk (stat_file outputPath) no_valid_epub) (\<lambda>info.
    case info of
      None \<Rightarrow> up_fail no_valid_epub
    | Some n \<Rightarrow>
        if n = 0 then up_fail no_valid_epub
        else if maxBookUploadBytes < n then up_fail (lib_err ''book_too_large'' ''The converted EPUB exceeds 256 MiB.'' 413)
        else up_bind (try_disk tick (lib_err ''conversion_permission_failed''
          ''The converted book permissions could not be set.'' 500)) (\<lambda>_. up_ret (outputPath, n)))"

definition convertUploadedBook :: "conversion \<Rightarrow> string \<Rightarrow> (string \<times> nat) upload" where
  "convertUploadedBook conv bookDir =
    (if conv = NoConverter then up_fail (lib_err ''converter_unavailable''
       ''MOBI books require Calibre (ebook-convert) to be installed on the server.'' 503)
     else up_bind (try_disk (create_temp 10000 bookDir ''.book-convert-'' ''.epub'') conversion_storage) (\<lambda>outputPath.
       up_bind (cleanup_failed outputPath (try_disk tick conversion_storage)) (\<lambda>_.
       up_bind (try_disk (bnd (exec (\<lambda>fs. Inr (fs(outputPath := None), 1))) (\<lambda>_. ret ())) conversion_storage) (\<lambda>_.
       cleanup_failed outputPath (up_bind (run_converter conv outputPath) (\<lambda>_. check_converted outputPath))))))"

definition upload_error :: "string \<Rightarrow> string \<Rightarrow> library_error" where
  "upload_error code message = lib_err code message 500"

definition book_too_large :: library_error where
  "book_too_large = lib_err ''book_too_large'' ''The upload failed or exceeds 256 MiB.'' 413"

text \<open>Moving the file to its place; a converted file that cannot be moved is removed.\<close>

definition install_file :: "string \<Rightarrow> string \<Rightarrow> string \<Rightarrow> unit upload" where
  "install_file final tmp destination = (\<lambda>c. case rename_file final destination c of
      (Inl _, c') \<Rightarrow> (Inl (upload_error ''upload_install_failed'' ''The uploaded book could not be installed.''),
        if final \<noteq> tmp then snd (remove_file final c') else c')
    | (Inr _, c') \<Rightarrow> (Inr (), if final \<noteq> tmp then snd (remove_file tmp c') else c'))"

text \<open>From the open temporary file to the installed book.\<close>

definition save_upload :: "bool \<Rightarrow> conversion \<Rightarrow> string \<Rightarrow> string \<Rightarrow> string \<Rightarrow> string \<Rightarrow> string \<Rightarrow> (string \<times> nat) upload" where
  "save_upload mobi conv bookDir installedName destination input tmp =
     up_bind (try_disk (write_file tmp (take (maxBookUploadBytes + 1) input)) book_too_large) (\<lambda>_.
     if maxBookUploadBytes < length input then up_fail book_too_large
     else
       up_bind (try_disk tick (upload_error ''upload_save_failed'' ''The upload could not be stored.'')) (\<lambda>_.
       up_bind (try_disk tick (upload_error ''upload_save_failed'' ''The upload could not be stored.'')) (\<lambda>_.
       up_bind (try_disk tick (upload_error ''upload_permission_failed'' ''The uploaded file permissions could not be set.'')) (\<lambda>_.
       up_bind (if mobi then convertUploadedBook conv bookDir else up_ret (tmp, length input)) (\<lambda>(final, size).
       up_bind (install_file final tmp destination) (\<lambda>_. up_ret (installedName, size)))))))"

definition storeUploadedBook :: "(nat \<Rightarrow> nat) \<Rightarrow> (string \<times> loader) list \<Rightarrow> conversion \<Rightarrow> string \<Rightarrow> string \<Rightarrow> string \<Rightarrow>
    (string \<times> nat) upload" where
  "storeUploadedBook lw fs conv bookDir originalName input =
    (let filename = safeUploadName originalName;
         installedName = installed_name lw filename;
         destination = in_dir bookDir installedName in
     if filename = '''' \<or> \<not> supportedBookExtension lw fs (path_ext filename)
     then up_fail (lib_err ''unsupported_book'' ''That file type is not supported.'' 400)
     else up_bind (try_disk (stat_file destination) (upload_error ''destination_check_failed'' ''The destination could not be checked.'')) (\<lambda>found.
       if found \<noteq> None then up_fail (lib_err ''book_filename_exists'' ''A book with that filename already exists.'' 409)
       else up_bind (try_disk (create_temp 10000 bookDir ''.book-upload-'' (path_ext filename))
           (upload_error ''upload_storage_failed'' ''The upload could not be stored.'')) (\<lambda>tmp.
         cleanup_failed tmp (save_upload (isMobiFilename lw filename) conv bookDir installedName destination input tmp))))"

section \<open>Removing a book\<close>

text \<open>The elements of a clean path (\<open>filepath.Clean\<close>), and \<open>filepath.Rel\<close>: \<open>None\<close> is its error.\<close>

fun clean_elems :: "bool \<Rightarrow> string list \<Rightarrow> string list \<Rightarrow> string list" where
  "clean_elems rooted done [] = rev done"
| "clean_elems rooted done (x # xs) =
    (if x = '''' \<or> x = ''.'' then clean_elems rooted done xs
     else if x = ''..'' then
       (case done of
         [] \<Rightarrow> clean_elems rooted (if rooted then [] else [x]) xs
       | d # ds \<Rightarrow> if d = ''..'' then clean_elems rooted (x # done) xs else clean_elems rooted ds xs)
     else clean_elems rooted (x # done) xs)"

definition path_elems :: "string \<Rightarrow> bool \<times> string list" where
  "path_elems p = (has_prefix p ''/'', clean_elems (has_prefix p ''/'') [] (split_char CHR ''/'' p))"

fun strip_common :: "string list \<Rightarrow> string list \<Rightarrow> string list \<times> string list" where
  "strip_common (x # xs) (y # ys) = (if x = y then strip_common xs ys else (x # xs, y # ys))"
| "strip_common xs ys = (xs, ys)"

definition path_rel :: "string \<Rightarrow> string \<Rightarrow> string option" where
  "path_rel base target =
    (case (path_elems base, path_elems target) of ((rb, bs), (rt, ts)) \<Rightarrow>
     if bs = ts \<and> rb = rt then Some ''.''
     else if rb \<noteq> rt then None
     else case strip_common bs ts of (b, t) \<Rightarrow>
       if b \<noteq> [] \<and> hd b = ''..'' then None else Some (join ''/'' (replicate (length b) ''..'' @ t)))"

definition path_show :: "bool \<times> string list \<Rightarrow> string" where
  "path_show p = (case p of (rooted, xs) \<Rightarrow>
    if xs = [] then (if rooted then ''/'' else ''.'') else (if rooted then ''/'' else '''') @ join ''/'' xs)"

definition path_join :: "string list \<Rightarrow> string" where
  "path_join ps = (let qs = filter (\<lambda>p. p \<noteq> '''') ps in if qs = [] then '''' else path_show (path_elems (join ''/'' qs)))"

definition outside_library :: "string \<Rightarrow> string \<Rightarrow> bool" where
  "outside_library bookDir path = (case path_rel bookDir path of
      None \<Rightarrow> True
    | Some relative \<Rightarrow> relative = ''..'' \<or> has_prefix relative ''/'' \<or> (2 < length relative \<and> take 3 relative = ''../''))"

definition trash_path :: "string \<Rightarrow> unix \<Rightarrow> Book \<Rightarrow> string" where
  "trash_path bookDir t b = path_join [path_join [bookDir, ''.bookbrowser'', ''trash''],
    book_ID b @ ''-'' @ show_int t @ ''-'' @ safeUploadName (path_base (bk_FilePath b)) @ ''.deleted'']"

definition removeLibraryBook :: "env \<Rightarrow> string \<Rightarrow> Book list \<Rightarrow> string \<Rightarrow> string upload" where
  "removeLibraryBook e bookDir bl i = (case findBook bl i of
      None \<Rightarrow> up_fail (lib_err ''book_not_found'' ''Book not found.'' 404)
    | Some b \<Rightarrow>
        if outside_library bookDir (bk_FilePath b)
        then up_fail (lib_err ''book_path_outside_library'' ''The book path is outside the managed library.'' 400)
        else up_bind (try_disk tick (lib_err ''trash_create_failed'' ''The recoverable-delete folder could not be created.'' 500)) (\<lambda>_.
          up_bind (try_disk (rename_file (bk_FilePath b) (trash_path bookDir (unix_of (now e)) b))
            (lib_err ''book_remove_failed'' ''The book could not be moved to recoverable storage.'' 500)) (\<lambda>_.
          up_ret (trash_path bookDir (unix_of (now e)) b))))"

section \<open>The operations of the server\<close>

definition on_disk :: "(server \<Rightarrow> 'a upload) \<Rightarrow> (library_error + 'a) act" where
  "on_disk m = State (\<lambda>s. case m s (sv_disk s) of (r, c) \<Rightarrow> (r, s\<lparr>sv_disk := c\<rparr>))"

definition upload_book :: "env \<Rightarrow> conversion \<Rightarrow> string \<times> string \<Rightarrow> (library_error + string \<times> nat) act" where
  "upload_book e conv file = on_disk (\<lambda>s. storeUploadedBook (low e) (sv_formats s) conv (sv_BookDir s) (fst file) (snd file))"

definition remove_book :: "env \<Rightarrow> string \<Rightarrow> (library_error + string) act" where
  "remove_book e i = on_disk (\<lambda>s. removeLibraryBook e (sv_BookDir s) (ix_booklist (sv_index s)) i)"

end
