(* ===== verification/Paths.thy ===== *)
theory Paths
  imports LibraryOps
begin

text \<open>
Clean absolute paths: what \<open>filepath.Join\<close> and \<open>filepath.Rel\<close> make of them, for the files of the library and of the
command-line client.
\<close>

section \<open>Clean paths\<close>

lemma clean_elems_append: "clean_elems rooted acc (xs @ ys) = clean_elems rooted (rev (clean_elems rooted acc xs)) ys"
  by (induction rooted acc xs rule: clean_elems.induct) (auto split: list.splits)

definition plain_name :: "string \<Rightarrow> bool" where
  "plain_name f \<longleftrightarrow> f \<noteq> '''' \<and> f \<noteq> ''.'' \<and> f \<noteq> ''..'' \<and> CHR ''/'' \<notin> set f"

text \<open>A clean absolute path other than the root.\<close>

definition clean_home :: "string \<Rightarrow> bool" where
  "clean_home h \<longleftrightarrow> (case h of [] \<Rightarrow> False | c # t \<Rightarrow> c = CHR ''/'' \<and> t \<noteq> []) \<and> path_show (path_elems h) = h"

lemma clean_home_Cons: "clean_home h \<Longrightarrow> \<exists>t. h = CHR ''/'' # t \<and> t \<noteq> []"
  by (auto simp: clean_home_def split: list.splits)

lemma absolute [simp]: "has_prefix (CHR ''/'' # t) ''/''"
  by (simp add: has_prefix_def)

lemma split_char_joined: "split_char d (a @ d # b) = split_char d a @ split_char d b"
  by (induction a) (auto split: list.splits)

lemma join_snoc: "xs \<noteq> [] \<Longrightarrow> join s (xs @ [f]) = join s xs @ s @ f"
  by (induction s xs rule: join.induct) auto

lemma clean_home_elems:
  assumes "clean_home h"
  obtains es where "path_elems h = (True, es)" "es \<noteq> []" "h = ''/'' @ join ''/'' es"
proof -
  obtain t where t: "h = CHR ''/'' # t" "t \<noteq> []" using clean_home_Cons [OF assms] by blast
  then obtain es where es: "path_elems h = (True, es)" by (simp add: path_elems_def)
  have "path_show (path_elems h) = h" using assms by (simp add: clean_home_def)
  then have h: "h = (if es = [] then ''/'' else ''/'' @ join ''/'' es)" unfolding es path_show_def by (cases "es = []") simp_all
  have ne: "es \<noteq> []"
  proof
    assume "es = []"
    with h t show False by simp
  qed
  show ?thesis by (rule that [OF es ne]) (use h ne in simp)
qed

lemma path_elems_child:
  assumes "clean_home h" "plain_name f"
  shows "path_elems (h @ ''/'' @ f) = (True, snd (path_elems h) @ [f])"
proof -
  obtain t where t: "h = CHR ''/'' # t" "t \<noteq> []" using clean_home_Cons [OF assms(1)] by blast
  have f: "split_char CHR ''/'' f = [f]" using assms(2) by (simp add: plain_name_def split_char_none)
  show ?thesis
    using assms(2) f t split_char_joined [of "CHR ''/''" h f]
    by (simp add: path_elems_def clean_elems_append plain_name_def del: split_char.simps)
qed

lemma path_join_child:
  assumes "clean_home h" "plain_name f"
  shows "path_join [h, f] = h @ ''/'' @ f" "clean_home (h @ ''/'' @ f)"
proof -
  from clean_home_elems [OF assms(1)] obtain es where es: "path_elems h = (True, es)" "es \<noteq> []" "h = ''/'' @ join ''/'' es" .
  have s: "path_show (path_elems (h @ ''/'' @ f)) = h @ ''/'' @ f"
    using path_elems_child [OF assms] es by (simp add: path_show_def join_snoc)
  obtain t where t: "h = CHR ''/'' # t" "t \<noteq> []" using clean_home_Cons [OF assms(1)] by blast
  have "h \<noteq> ''''" "f \<noteq> ''''" using t assms(2) by (auto simp: plain_name_def)
  then show "path_join [h, f] = h @ ''/'' @ f" using s by (simp add: path_join_def)
  show "clean_home (h @ ''/'' @ f)" using s t by (simp add: clean_home_def)
qed

lemma find_append_none: "(\<And>x. x \<in> set xs \<Longrightarrow> \<not> P x) \<Longrightarrow> List.find P (xs @ y # ys) = (if P y then Some y else List.find P ys)"
  by (induction xs) auto

lemma last_index_char_append: "d \<notin> set f \<Longrightarrow> last_index_char d (h @ d # f) = Some (length h)"
proof -
  assume d: "d \<notin> set f"
  have r: "rev [0..<length (h @ d # f)] = rev [Suc (length h)..<length (h @ d # f)] @ length h # rev [0..<length h]"
  proof -
    have "[0..<length h + Suc (length f)] = [0..<length h] @ [length h..<length h + Suc (length f)]"
      by (rule upt_add_eq_append) simp
    also have "[length h..<length h + Suc (length f)] = length h # [Suc (length h)..<length h + Suc (length f)]"
      by (rule upt_conv_Cons) simp
    finally show ?thesis by simp
  qed
  have n: "(h @ d # f) ! i \<noteq> d" if "i \<in> set (rev [Suc (length h)..<length (h @ d # f)])" for i
  proof -
    from that obtain k where "i = Suc (length h) + k" "k < length f" by (auto simp: le_iff_add)
    then show ?thesis using d by (auto simp: nth_append)
  qed
  have "(h @ d # f) ! length h = d" by simp
  with n show ?thesis unfolding last_index_char_def unfolding r by (subst find_append_none) (blast, simp)
qed

lemma join_append: "xs \<noteq> [] \<Longrightarrow> ys \<noteq> [] \<Longrightarrow> join s (xs @ ys) = join s xs @ s @ join s ys"
  by (induction s xs rule: join.induct) (auto simp: neq_Nil_conv)

lemma strip_common_split:
  "strip_common xs ys = (b, t) \<Longrightarrow> \<exists>p. xs = p @ b \<and> ys = p @ t"
proof (induction xs ys arbitrary: b t rule: strip_common.induct)
  case (1 x xs y ys)
  show ?case
  proof (cases "x = y")
    case True
    with 1 obtain p where "xs = p @ b \<and> ys = p @ t" by auto
    with True show ?thesis by (intro exI [of _ "x # p"]) simp
  qed (use 1 in simp)
qed auto

text \<open>A clean path that \<open>filepath.Rel\<close> gives no leading \<open>..\<close> is the directory or lies below it.\<close>

lemma below_directory:
  assumes d: "clean_home d" and f: "clean_home f" and rel: "path_rel d f = Some r" and "f \<noteq> d"
    and inside: "r \<noteq> ''..''" "\<not> (2 < length r \<and> take 3 r = ''../'')"
  obtains rest where "f = d @ ''/'' @ rest"
proof -
  obtain ds where ds: "path_elems d = (True, ds)" "ds \<noteq> []" "d = ''/'' @ join ''/'' ds" using clean_home_elems [OF d] .
  obtain fs where fs: "path_elems f = (True, fs)" "fs \<noteq> []" "f = ''/'' @ join ''/'' fs" using clean_home_elems [OF f] .
  obtain b t where bt: "strip_common ds fs = (b, t)" by fastforce
  then obtain p where p: "ds = p @ b" "fs = p @ t" using strip_common_split by blast
  have ne: "ds \<noteq> fs" using assms(4) ds(3) fs(3) by auto
  have r: "b \<noteq> [] \<longrightarrow> hd b \<noteq> ''..''" "r = join ''/'' (replicate (length b) ''..'' @ t)"
    using rel ne by (auto simp: path_rel_def ds(1) fs(1) bt split: if_splits)
  have "b = []"
  proof (rule ccontr)
    assume "b \<noteq> []"
    then obtain x bs where b: "b = x # bs" by (cases b) auto
    show False
    proof (cases "replicate (length bs) ''..'' @ t")
      case Nil
      then show ?thesis using r(2) inside(1) by (simp add: b)
    next
      case (Cons y ys)
      then have "r = ''../'' @ join ''/'' (y # ys)" using r(2) by (simp add: b)
      then show ?thesis using inside(2) Cons by (cases "join ''/'' (y # ys)") simp_all
    qed
  qed
  moreover from this have t: "t \<noteq> []" using ne p by auto
  ultimately show ?thesis using that p ds fs join_append [of ds t "''/''"] by simp
qed

end
