(* ===== verification/UploadFacts.thy ===== *)
theory UploadFacts
  imports Paths
begin

text \<open>
What an upload and a removal may change: a small triple calculus over the steps of an upload, in which every
failure leaves all files but the temporary ones as they were.
\<close>

section \<open>What an upload may change\<close>

text \<open>Names that begin neither with a dot nor contain a slash.\<close>

lemma trim_chars_hd: "trim_chars s cs \<noteq> '''' \<Longrightarrow> hd (trim_chars s cs) \<notin> set cs"
proof -
  let ?d = "dropWhile (\<lambda>c. c \<in> set cs) s"
  assume ne: "trim_chars s cs \<noteq> ''''"
  have "\<exists>ys. ?d = trim_chars s cs @ ys"
    unfolding trim_chars_def by (metis rev_append rev_rev_ident takeWhile_dropWhile_id)
  then obtain ys where d: "?d = trim_chars s cs @ ys" ..
  then have "?d \<noteq> []" using ne by auto
  then have "hd ?d \<notin> set cs" using hd_dropWhile [of "\<lambda>c. c \<in> set cs" s] by simp
  then show ?thesis using ne unfolding d by simp
qed

lemma set_trim_chars: "set (trim_chars s cs) \<subseteq> set s"
  unfolding trim_chars_def by (auto dest!: set_dropWhileD)

lemma set_replace_runs: "set (replace_runs ok inside xs) \<subseteq> insert CHR ''_'' (set (seg_bytes xs))"
  by (induction ok inside xs rule: replace_runs.induct) auto

lemma slash_free_base: "CHR ''/'' \<notin> set (replace_runs upload_rune False (segs (path_base v)))"
proof (cases "path_base v = ''/''")
  case True
  then show ?thesis by (simp add: segs_ascii ascii_def upload_rune_def)
next
  case False
  have "CHR ''/'' \<notin> set (path_base v)"
    using False unfolding path_base_def Let_def by (auto dest: set_takeWhileD split: if_splits)
  then show ?thesis using set_replace_runs [of upload_rune False "segs (path_base v)"] by auto
qed

lemma trim_suffix_append [simp]: "trim_suffix (b @ x) x = b"
  by (simp add: trim_suffix_def has_suffix_def)

lemma path_ext_split:
  assumes "path_ext p \<noteq> ''''"
  obtains base rest where "p = base @ path_ext p" "path_ext p = CHR ''.'' # rest" "trim_suffix p (path_ext p) = base"
proof -
  define r where "r = takeWhile (\<lambda>c. c \<noteq> CHR ''/'') (rev p)"
  define q where "q = dropWhile (\<lambda>c. c \<noteq> CHR ''/'') (rev p)"
  define t where "t = takeWhile (\<lambda>c. c \<noteq> CHR ''.'') r"
  have rq: "rev p = r @ q" unfolding r_def q_def by simp
  have dot: "CHR ''.'' \<in> set r" using assms unfolding path_ext_def Let_def r_def by (auto split: if_splits)
  then obtain r' where r': "dropWhile (\<lambda>c. c \<noteq> CHR ''.'') r = CHR ''.'' # r'"
    by (cases "dropWhile (\<lambda>c. c \<noteq> CHR ''.'') r") (auto simp: dropWhile_eq_Cons_conv)
  have ext: "path_ext p = CHR ''.'' # rev t" using dot unfolding path_ext_def Let_def r_def t_def by simp
  have "r = t @ CHR ''.'' # r'" unfolding t_def r' [symmetric] by simp
  then have "p = rev (t @ CHR ''.'' # r' @ q)" using rq by (metis append.assoc append_Cons rev_rev_ident)
  then have p: "p = rev (r' @ q) @ path_ext p" unfolding ext by simp
  then have "trim_suffix p (path_ext p) = rev (r' @ q)" by (metis trim_suffix_append)
  with p ext show ?thesis by (rule that)
qed

lemma safeUploadName_shape:
  assumes "safeUploadName v \<noteq> ''''"
  shows "CHR ''/'' \<notin> set (safeUploadName v) \<and> hd (safeUploadName v) \<noteq> CHR ''.''"
proof -
  define name where "name = trim_chars (replace_runs upload_rune False (segs (path_base (trim_space v)))) ''. ''"
  have slash: "CHR ''/'' \<notin> set name" unfolding name_def using set_trim_chars slash_free_base by blast
  have hd: "name \<noteq> '''' \<Longrightarrow> hd name \<noteq> CHR ''.''" unfolding name_def using trim_chars_hd by fastforce
  show ?thesis
  proof (cases "180 < length name")
    case False
    then have "safeUploadName v = name" unfolding safeUploadName_def Let_def name_def by simp
    then show ?thesis using slash hd assms by simp
  next
    case True
    let ?ext = "path_ext name" and ?base = "trim_suffix name (path_ext name)"
    have v: "safeUploadName v = take (180 - length ?ext) ?base @ ?ext" and len: "length ?ext < 180"
      using True assms unfolding safeUploadName_def Let_def name_def [symmetric] by (auto split: if_splits)
    show ?thesis
    proof (cases "?ext = ''''")
      case e: True
      then have "safeUploadName v = take 180 name" using v by (simp add: trim_suffix_def has_suffix_def)
      then show ?thesis using slash hd True by (cases name) (auto dest: in_set_takeD)
    next
      case e: False
      obtain base rest where s: "name = base @ ?ext" "?ext = CHR ''.'' # rest" "?base = base"
        using path_ext_split [OF e] by metis
      have "base \<noteq> ''''" using s hd True by (metis append_Nil list.sel(1) list.distinct(1))
      then obtain b bs where b: "base = b # bs" by (cases base) auto
      have "hd name = b" using s(1) b by (metis append_Cons list.sel(1))
      then have "hd (safeUploadName v) = hd name" unfolding v s(3) using b len by (cases "180 - length ?ext") auto
      moreover have "set (safeUploadName v) \<subseteq> set name"
        unfolding v s(3) using s(1) by (metis Un_mono dual_order.refl set_append set_take_subset)
      moreover have "name \<noteq> ''''" using True by auto
      ultimately show ?thesis using slash hd [OF \<open>name \<noteq> ''''\<close>] by auto
    qed
  qed
qed

lemma installed_name_shape:
  assumes "safeUploadName v \<noteq> ''''"
  shows "CHR ''/'' \<notin> set (installed_name lw (safeUploadName v)) \<and> installed_name lw (safeUploadName v) \<noteq> '''' \<and>
    hd (installed_name lw (safeUploadName v)) \<noteq> CHR ''.''"
proof (cases "isMobiFilename lw (safeUploadName v)")
  case False
  then show ?thesis using safeUploadName_shape [OF assms] assms by (simp add: installed_name_def)
next
  case True
  let ?f = "safeUploadName v"
  have "path_ext ?f \<noteq> ''''" using True unfolding isMobiFilename_def Let_def by (auto simp: ascii_eval)
  then obtain base rest where s: "?f = base @ path_ext ?f" "path_ext ?f = CHR ''.'' # rest" "trim_suffix ?f (path_ext ?f) = base"
    using path_ext_split by metis
  have "base \<noteq> ''''" using s safeUploadName_shape [OF assms] by (metis append_Nil list.sel(1))
  moreover have "set base \<subseteq> set ?f" "base \<noteq> '''' \<Longrightarrow> hd base = hd ?f" using s(1) by (metis set_append sup_ge1, metis hd_append)
  ultimately show ?thesis using True s(3) safeUploadName_shape [OF assms] by (auto simp: installed_name_def)
qed

text \<open>What holds along an upload: outside the paths \<open>T\<close> the files are those of \<open>A\<close>. \<open>keeps_off A T P m Q\<close> is the
  triple of a step that, when it fails, leaves that.\<close>

definition off :: "files \<Rightarrow> string set \<Rightarrow> files \<Rightarrow> bool" where
  "off A T fs \<longleftrightarrow> (\<forall>q. q \<notin> T \<longrightarrow> fs q = A q)"

definition keeps_off :: "files \<Rightarrow> string set \<Rightarrow> (files \<Rightarrow> bool) \<Rightarrow> 'a upload \<Rightarrow> ('a \<Rightarrow> files \<Rightarrow> bool) \<Rightarrow> bool" where
  "keeps_off A T P m Q \<longleftrightarrow> (\<forall>c r c'. P (tables c) \<and> m c = (r, c') \<longrightarrow>
    (case r of Inl _ \<Rightarrow> off A T (tables c') | Inr x \<Rightarrow> Q x (tables c')))"

lemma off_upd: "q \<in> T \<Longrightarrow> off A T fs \<Longrightarrow> off A T (fs(q := x))"
  by (auto simp: off_def)

lemma keeps_offD:
  "keeps_off A T P m Q \<Longrightarrow> P (tables c) \<Longrightarrow> m c = (r, c') \<Longrightarrow>
    (case r of Inl _ \<Rightarrow> off A T (tables c') | Inr x \<Rightarrow> Q x (tables c'))"
  unfolding keeps_off_def by blast

lemma keeps_off_ret: "(\<And>fs. P fs \<Longrightarrow> Q x fs) \<Longrightarrow> keeps_off A T P (up_ret x) Q"
  by (simp add: keeps_off_def up_ret_def)

lemma keeps_off_fail: "(\<And>fs. P fs \<Longrightarrow> off A T fs) \<Longrightarrow> keeps_off A T P (up_fail x) Q"
  by (simp add: keeps_off_def up_fail_def)

lemma keeps_off_bind:
  assumes "keeps_off A T P m R" "\<And>x. keeps_off A T (R x) (f x) Q"
  shows "keeps_off A T P (up_bind m f) Q"
  unfolding keeps_off_def
proof (intro allI impI, elim conjE)
  fix c r c'
  assume pre: "P (tables c)" and run: "up_bind m f c = (r, c')"
  obtain r1 c1 where m: "m c = (r1, c1)" by fastforce
  from keeps_offD [OF assms(1) pre m] run m keeps_offD [OF assms(2)]
  show "case r of Inl _ \<Rightarrow> off A T (tables c') | Inr x \<Rightarrow> Q x (tables c')"
    by (cases r1) (auto simp: up_bind_def)
qed

lemma keeps_off_if:
  "(b \<Longrightarrow> keeps_off A T P m Q) \<Longrightarrow> (\<not> b \<Longrightarrow> keeps_off A T P m' Q) \<Longrightarrow> keeps_off A T P (if b then m else m') Q"
  by simp

lemma keeps_off_pure: "(b \<Longrightarrow> keeps_off A T P m Q) \<Longrightarrow> keeps_off A T (\<lambda>fs. b \<and> P fs) m Q"
  by (auto simp: keeps_off_def)

lemma keeps_off_pre: "keeps_off A T P' m Q \<Longrightarrow> (\<And>fs. P fs \<Longrightarrow> P' fs) \<Longrightarrow> keeps_off A T P m Q"
  by (auto simp: keeps_off_def)

lemma keeps_off_disk:
  assumes "\<And>c r c'. P (tables c) \<Longrightarrow> m c = (r, c') \<Longrightarrow>
    (case r of Inl _ \<Rightarrow> off A T (tables c') | Inr x \<Rightarrow> Q x (tables c'))"
  shows "keeps_off A T P (try_disk m e) Q"
  unfolding keeps_off_def
proof (intro allI impI, elim conjE)
  fix c r c'
  assume pre: "P (tables c)" and run: "try_disk m e c = (r, c')"
  obtain r1 c1 where m: "m c = (r1, c1)" by fastforce
  from assms [OF pre m] run m show "case r of Inl _ \<Rightarrow> off A T (tables c') | Inr x \<Rightarrow> Q x (tables c')"
    by (cases r1) (auto simp: try_disk_def)
qed

lemma keeps_off_tick: "(\<And>fs. P fs \<Longrightarrow> off A T fs) \<Longrightarrow> keeps_off A T P (try_disk tick e) (\<lambda>_. P)"
  by (rule keeps_off_disk) (auto simp: tick_def split: list.splits if_splits)

text \<open>A write of the files is all or nothing.\<close>

lemma keeps_off_exec:
  assumes "\<And>fs. P fs \<Longrightarrow> off A T fs" "\<And>fs. P fs \<Longrightarrow> Q () (f fs)"
  shows "keeps_off A T P (try_disk (bnd (exec (\<lambda>fs. Inr (f fs, n))) (\<lambda>_. ret ())) e) Q"
  by (rule keeps_off_disk)
    (auto simp: exec_def bnd_def ret_def tick_def assms split: list.splits if_splits)

lemma remove_file_tables: "tables (snd (remove_file path c)) \<in> {tables c, (tables c)(path := None)}"
  by (auto simp: remove_file_def handle_def bnd_def exec_def tick_def ret_def split: list.splits)

lemma remove_file_off: "path \<in> T \<Longrightarrow> off A T (tables c) \<Longrightarrow> off A T (tables (snd (remove_file path c)))"
  using remove_file_tables [of path c] by (auto simp: off_def)

lemma keeps_off_cleanup:
  assumes "path \<in> T" "keeps_off A T P m Q"
  shows "keeps_off A T P (cleanup_failed path m) Q"
  unfolding keeps_off_def
proof (intro allI impI, elim conjE)
  fix c r c'
  assume pre: "P (tables c)" and run: "cleanup_failed path m c = (r, c')"
  obtain r1 c1 where m: "m c = (r1, c1)" by fastforce
  from keeps_offD [OF assms(2) pre m] run m remove_file_off [OF assms(1), of A c1]
  show "case r of Inl _ \<Rightarrow> off A T (tables c') | Inr x \<Rightarrow> Q x (tables c')"
    by (cases r1) (auto simp: cleanup_failed_def)
qed

text \<open>The names of temporary files that were free at the start.\<close>

definition temporary :: "files \<Rightarrow> string \<Rightarrow> string set" where
  "temporary A dir = {q. A q = None \<and> (\<exists>x. q = in_dir dir (''.book-upload-'' @ x) \<or> q = in_dir dir (''.book-convert-'' @ x))}"

lemma create_temp_off:
  assumes "create_temp n dir prefix suffix c = (r, c')" "off A (temporary A dir) (tables c)"
    "prefix = ''.book-upload-'' \<or> prefix = ''.book-convert-''"
  shows "case r of Inl _ \<Rightarrow> off A (temporary A dir) (tables c')
    | Inr x \<Rightarrow> x \<in> temporary A dir \<and> off A (temporary A dir) (tables c')"
  using assms
proof (induction n arbitrary: c)
  case 0
  then show ?case by (auto simp: throw_def)
next
  case (Suc n)
  let ?path = "\<lambda>bs. in_dir dir (prefix @ show_nat (foldl (\<lambda>a b. a * 256 + unat b) 0 (bs :: byte list)) @ suffix)"
  have t: "?path bs \<in> temporary A dir" if "tables c (?path bs) = None" for bs
    using that Suc.prems(2,3) unfolding off_def temporary_def by (cases "?path bs \<in> temporary A dir") (auto simp: temporary_def)
  have ind: "create_temp n dir prefix suffix c1 = (r, c') \<Longrightarrow> tables c1 = tables c \<Longrightarrow> ?case" for c1
    using Suc.IH [of c1] Suc.prems(2,3) by simp
  show ?case
  proof (cases "4 \<le> length (entropy c)")
    case False
    then show ?thesis using Suc.prems by (auto simp: bnd_def read_full_def)
  next
    case True
    define p where "p = ?path (take 4 (entropy c))"
    define c1 where "c1 = c\<lparr>entropy := drop 4 (entropy c)\<rparr>"
    have c1: "tables c1 = tables c" "faults c1 = faults c" by (simp_all add: c1_def)
    obtain r2 c2 where q: "query (\<lambda>fs. Inr (fs p)) c1 = (r2, c2)" by fastforce
    then have c2: "tables c2 = tables c" "\<And>x. r2 = Inr x \<Longrightarrow> x = tables c p"
      using c1 by (auto simp: query_def bnd_def tick_def split: list.splits if_splits)
    have run: "(case r2 of Inl e \<Rightarrow> (Inl e, c2) | Inr (Some _) \<Rightarrow> create_temp n dir prefix suffix c2
      | Inr None \<Rightarrow> bnd (exec (\<lambda>fs. Inr (fs(p \<mapsto> ''''), 1))) (\<lambda>_. ret p) c2) = (r, c')"
      using Suc.prems(1) True q by (simp add: bnd_def read_full_def p_def c1_def Let_def split: sum.splits option.splits)
    show ?thesis
    proof (cases r2)
      case (Inl e)
      then show ?thesis using run c2 Suc.prems(2) by auto
    next
      case (Inr x)
      then show ?thesis using run c2 ind [of c2] t [of "take 4 (entropy c)"] Suc.prems(2)
        by (cases x) (auto simp: exec_def bnd_def tick_def ret_def off_upd p_def split: list.splits if_splits)
    qed
  qed
qed

lemma keeps_off_create:
  "prefix = ''.book-upload-'' \<or> prefix = ''.book-convert-'' \<Longrightarrow>
    keeps_off A (temporary A dir) (off A (temporary A dir)) (try_disk (create_temp n dir prefix suffix) e)
      (\<lambda>x fs. x \<in> temporary A dir \<and> off A (temporary A dir) fs)"
  by (rule keeps_off_disk) (drule create_temp_off, auto)

lemma keeps_off_stat:
  "(\<And>fs. P fs \<Longrightarrow> off A T fs) \<Longrightarrow>
    keeps_off A T P (try_disk (stat_file path) e) (\<lambda>x fs. x = map_option length (fs path) \<and> P fs)"
  by (rule keeps_off_disk) (auto simp: stat_file_def query_def bnd_def tick_def split: list.splits if_splits)

text \<open>What the conversion hands over: a temporary file with the bytes the converter made, neither empty nor too large.\<close>

definition holds_file :: "files \<Rightarrow> string set \<Rightarrow> string \<Rightarrow> string \<Rightarrow> files \<Rightarrow> bool" where
  "holds_file A T path s fs \<longleftrightarrow> off A T fs \<and> path \<in> T \<and> fs path = Some s \<and> length s \<le> maxBookUploadBytes"

lemma keeps_off_option:
  "(x = None \<Longrightarrow> keeps_off A T P m Q) \<Longrightarrow> (\<And>y. x = Some y \<Longrightarrow> keeps_off A T P (f y) Q) \<Longrightarrow>
    keeps_off A T P (case x of None \<Rightarrow> m | Some y \<Rightarrow> f y) Q"
  by (cases x) auto

lemma run_converter_off:
  assumes "path \<in> T" "conv \<noteq> NoConverter"
  shows "keeps_off A T (\<lambda>fs. off A T fs \<and> fs path = None) (run_converter conv path)
    (\<lambda>_ fs. off A T fs \<and> (fs path = None \<or> (\<exists>s. conv = Converted (Some s) \<and> fs path = Some s)))"
  using assms off_upd [OF assms(1), of A]
  by (auto simp: run_converter_def keeps_off_def up_fail_def up_ret_def split: conversion.splits option.splits if_splits)

lemma check_converted_off:
  assumes "path \<in> T"
  shows "keeps_off A T (\<lambda>fs. off A T fs \<and> (fs path = None \<or> (\<exists>s. conv = Converted (Some s) \<and> fs path = Some s)))
    (check_converted path)
    (\<lambda>(final, size) fs. \<exists>s. conv = Converted (Some s) \<and> s \<noteq> '''' \<and> size = length s \<and> holds_file A T final s fs)"
  unfolding check_converted_def
  by (rule keeps_off_bind, rule keeps_off_stat, blast, rule keeps_off_option, rule keeps_off_fail, blast,
      rule keeps_off_if, rule keeps_off_fail, blast, rule keeps_off_if, rule keeps_off_fail, blast,
      rule keeps_off_bind, rule keeps_off_tick, blast, rule keeps_off_ret)
    (auto simp: holds_file_def assms)

lemma convertUploadedBook_off:
  "keeps_off A (temporary A dir) (off A (temporary A dir)) (convertUploadedBook conv dir)
    (\<lambda>(final, size) fs. \<exists>s. conv = Converted (Some s) \<and> s \<noteq> '''' \<and> size = length s \<and> holds_file A (temporary A dir) final s fs)"
  unfolding convertUploadedBook_def
proof (rule keeps_off_if, rule keeps_off_fail, assumption, rule keeps_off_bind, rule keeps_off_create, simp, rule keeps_off_pure)
  fix path assume path: "path \<in> temporary A dir" and conv: "conv \<noteq> NoConverter"
  show "keeps_off A (temporary A dir) (off A (temporary A dir))
    (up_bind (cleanup_failed path (try_disk tick conversion_storage)) (\<lambda>_.
       up_bind (try_disk (bnd (exec (\<lambda>fs. Inr (fs(path := None), 1))) (\<lambda>_. ret ())) conversion_storage) (\<lambda>_.
       cleanup_failed path (up_bind (run_converter conv path) (\<lambda>_. check_converted path)))))
    (\<lambda>(final, size) fs. \<exists>s. conv = Converted (Some s) \<and> s \<noteq> '''' \<and> size = length s \<and> holds_file A (temporary A dir) final s fs)"
    by (rule keeps_off_bind, rule keeps_off_cleanup [OF path], rule keeps_off_tick, assumption, rule keeps_off_bind,
        rule keeps_off_exec [where Q = "\<lambda>_ fs. off A (temporary A dir) fs \<and> fs path = None"], assumption,
        simp add: off_upd path, rule keeps_off_cleanup [OF path], rule keeps_off_bind,
        rule run_converter_off [OF path conv], rule check_converted_off [OF path])
qed

text \<open>Moving the file to its place adds that file and nothing else.\<close>

lemma install_file_off:
  assumes "install_file final tmp dest c = (r, c')" "holds_file A T final s (tables c)" "tmp \<in> T" "dest \<notin> T"
  shows "case r of Inl _ \<Rightarrow> off A T (tables c') | Inr _ \<Rightarrow> off (A(dest \<mapsto> s)) T (tables c')"
proof -
  obtain r1 c1 where m: "rename_file final dest c = (r1, c1)" by fastforce
  have c1: "case r1 of Inl _ \<Rightarrow> off A T (tables c1) | Inr _ \<Rightarrow> off (A(dest \<mapsto> s)) T (tables c1)"
    using m assms(2,4) by (auto simp: rename_file_def exec_def bnd_def tick_def ret_def holds_file_def off_def split: list.splits if_splits)
  show ?thesis
    using assms m c1 remove_file_off [of final T A c1] remove_file_off [of tmp T "A(dest \<mapsto> s)" c1]
    by (cases r1) (auto simp: install_file_def holds_file_def split: if_splits)
qed

lemma destination_not_temporary:
  assumes "safeUploadName v \<noteq> ''''"
  shows "in_dir dir (installed_name lw (safeUploadName v)) \<notin> temporary A dir"
  using installed_name_shape [OF assms, of lw] by (auto simp: temporary_def in_dir_def)

lemma keeps_off_post: "keeps_off A T P m Q' \<Longrightarrow> (\<And>x fs. Q' x fs \<Longrightarrow> Q x fs) \<Longrightarrow> keeps_off A T P m Q"
  unfolding keeps_off_def by (metis (mono_tags, lifting) sum.case_eq_if)

text \<open>The files after an upload that succeeded.\<close>

definition uploaded :: "files \<Rightarrow> string set \<Rightarrow> bool \<Rightarrow> conversion \<Rightarrow> string \<Rightarrow> string \<Rightarrow> string \<Rightarrow> string \<times> nat \<Rightarrow> files \<Rightarrow> bool" where
  "uploaded A T mobi conv name dest input x fs \<longleftrightarrow> (\<exists>s. x = (name, length s) \<and> length s \<le> maxBookUploadBytes \<and>
    (if mobi then conv = Converted (Some s) \<and> s \<noteq> '''' else s = input) \<and> off (A(dest \<mapsto> s)) T fs)"

lemma save_upload_off:
  assumes t: "tmp \<in> temporary A dir" and d: "dest \<notin> temporary A dir"
  shows "keeps_off A (temporary A dir) (off A (temporary A dir)) (save_upload mobi conv dir name dest input tmp)
    (uploaded A (temporary A dir) mobi conv name dest input)"
    (is "keeps_off A ?T _ _ ?Q")
proof -
  let ?P = "\<lambda>fs. off A ?T fs \<and> fs tmp = Some (take (maxBookUploadBytes + 1) input)"
  let ?R = "\<lambda>(final, size) fs. \<exists>s. size = length s \<and> (if mobi then conv = Converted (Some s) \<and> s \<noteq> '''' else s = input) \<and> holds_file A ?T final s fs"
  have written: "keeps_off A ?T (off A ?T) (try_disk (write_file tmp (take (maxBookUploadBytes + 1) input)) book_too_large) (\<lambda>_. ?P)"
    unfolding write_file_def by (rule keeps_off_exec) (auto simp: off_upd t)
  have tick: "keeps_off A ?T ?P (try_disk tick e) (\<lambda>_. ?P)" for e by (rule keeps_off_tick) simp
  have conv: "keeps_off A ?T ?P (if mobi then convertUploadedBook conv dir else up_ret (tmp, length input)) ?R"
    if "\<not> maxBookUploadBytes < length input"
  proof (cases mobi)
    case True
    have "keeps_off A ?T (off A ?T) (convertUploadedBook conv dir) ?R"
      using convertUploadedBook_off [of A dir conv] True unfolding keeps_off_def
      by (fastforce split: sum.splits)
    then show ?thesis using True by (auto intro: keeps_off_pre)
  next
    case False
    then show ?thesis using that t by (auto intro!: keeps_off_ret simp: holds_file_def)
  qed
  have inst: "keeps_off A ?T (?R (final, k)) (up_bind (install_file final tmp dest) (\<lambda>_. up_ret (name, k))) ?Q" for final k
    unfolding keeps_off_def
  proof (intro allI impI, elim conjE)
    fix c r c'
    assume "?R (final, k) (tables c)" and run: "up_bind (install_file final tmp dest) (\<lambda>_. up_ret (name, k)) c = (r, c')"
    then obtain s where s: "k = length s" "if mobi then conv = Converted (Some s) \<and> s \<noteq> '''' else s = input" "holds_file A ?T final s (tables c)"
      by auto
    obtain r1 c1 where i: "install_file final tmp dest c = (r1, c1)" by fastforce
    note io = install_file_off [OF i s(3) t d]
    have l: "length s \<le> maxBookUploadBytes" using s(3) by (simp add: holds_file_def)
    show "case r of Inl _ \<Rightarrow> off A ?T (tables c') | Inr x \<Rightarrow> ?Q x (tables c')"
    proof (cases r1)
      case (Inl x)
      then show ?thesis using run i io by (auto simp: up_bind_def)
    next
      case (Inr x)
      then have "r = Inr (name, k)" "c' = c1" using run i by (auto simp: up_bind_def up_ret_def)
      moreover have "off (A(dest \<mapsto> s)) ?T (tables c1)" using io Inr by simp
      ultimately show ?thesis using s l unfolding uploaded_def by (auto intro!: exI [of _ s])
    qed
  qed
  show ?thesis
    unfolding save_upload_def
    by (rule keeps_off_bind [OF written], rule keeps_off_if, rule keeps_off_fail, simp,
        rule keeps_off_bind [OF tick], rule keeps_off_bind [OF tick], rule keeps_off_bind [OF tick],
        rule keeps_off_bind [OF conv], assumption, clarify, rule inst [simplified])
qed

text \<open>C25: An upload either changes no file but temporary ones that were free at the start, or adds exactly one book:
  the uploaded bytes, or for a MOBI file the non-empty EPUB the converter made, of at most 256 MiB, under a name that
  was free, is a name directly in the library directory and is not hidden. Whatever the name of the upload and
  whatever fails, no existing file is replaced.\<close>

theorem upload_is_atomic:
  assumes "storeUploadedBook lw fs conv dir name input c = (r, c')"
  shows "case r of
      Inl _ \<Rightarrow> (\<forall>q. q \<notin> temporary (tables c) dir \<longrightarrow> tables c' q = tables c q)
    | Inr (n, k) \<Rightarrow> n = installed_name lw (safeUploadName name) \<and> CHR ''/'' \<notin> set n \<and> n \<noteq> '''' \<and> hd n \<noteq> CHR ''.'' \<and>
        tables c (in_dir dir n) = None \<and>
        (\<exists>s. k = length s \<and> length s \<le> maxBookUploadBytes \<and>
          (if isMobiFilename lw (safeUploadName name) then conv = Converted (Some s) \<and> s \<noteq> '''' else s = input) \<and>
          (\<forall>q. q \<notin> temporary (tables c) dir \<longrightarrow> tables c' q = ((tables c)(in_dir dir n \<mapsto> s)) q))"
proof -
  let ?f = "safeUploadName name" and ?T = "temporary (tables c) dir"
  let ?n = "installed_name lw ?f"
  let ?b = "isMobiFilename lw ?f"
  let ?U = "uploaded (tables c) ?T ?b conv ?n (in_dir dir ?n) input"
  show ?thesis
  proof (cases "?f = '''' \<or> \<not> supportedBookExtension lw fs (path_ext ?f)")
    case True
    then show ?thesis using assms by (auto simp: storeUploadedBook_def up_fail_def)
  next
    case False
    then have ne: "?f \<noteq> ''''" by simp
    note T = destination_not_temporary [OF ne, of dir lw "tables c"]
    have "keeps_off (tables c) ?T (\<lambda>fs. fs = tables c) (storeUploadedBook lw fs conv dir name input)
      (\<lambda>x fs. tables c (in_dir dir ?n) = None \<and> ?U x fs)"
      unfolding storeUploadedBook_def Let_def if_not_P [OF False]
      by (rule keeps_off_bind, rule keeps_off_stat, simp add: off_def, rule keeps_off_if, rule keeps_off_fail, simp add: off_def,
          rule keeps_off_pre [where P' = "\<lambda>fs. tables c (in_dir dir ?n) = None \<and> off (tables c) ?T fs"], rule keeps_off_pure,
          rule keeps_off_bind, rule keeps_off_create, simp, rule keeps_off_pure, rule keeps_off_cleanup, assumption,
          rule keeps_off_post, erule save_upload_off [OF _ T])
        (auto simp: off_def)
    from keeps_offD [OF this refl assms] installed_name_shape [OF ne, of lw] show ?thesis
      by (cases r) (auto simp: off_def uploaded_def split: if_splits)
  qed
qed

definition ex_disk :: "files conn" where
  "ex_disk = \<lparr>tables = Map.empty(''lib/old.pdf'' \<mapsto> ''old''), entropy = [0, 0, 0, 7], faults = []\<rparr>"

lemma ex_upload:
  "storeUploadedBook id [(''pdf'', \<lambda>_. Inl '''')] NoConverter ''lib'' ''../a b?.PDF'' ''hi'' ex_disk =
    (Inr (''a b_.PDF'', 2), \<lparr>tables = Map.empty(''lib/old.pdf'' \<mapsto> ''old'', ''lib/a b_.PDF'' \<mapsto> ''hi''), entropy = [], faults = []\<rparr>)"
proof -
  have n: "safeUploadName ''../a b?.PDF'' = ''a b_.PDF''"
    by (simp add: safeUploadName_def ascii_eval path_base_def trim_chars_def upload_rune_def Let_def segs_ascii)
  have x: "path_ext ''a b_.PDF'' = ''.PDF''" by (simp add: path_ext_def Let_def)
  have s: "supportedBookExtension id [(''pdf'', \<lambda>_. Inl '''')] ''.PDF''"
    by (simp add: supportedBookExtension_def GetExts_def trim_prefix_def has_prefix_def ascii_eval)
  have m: "\<not> isMobiFilename id ''a b_.PDF''" by (simp add: isMobiFilename_def x ascii_eval)
  have t: "create_temp 10000 ''lib'' ''.book-upload-'' ''.PDF'' ex_disk =
    (Inr ''lib/.book-upload-7.PDF'', \<lparr>tables = Map.empty(''lib/old.pdf'' \<mapsto> ''old'', ''lib/.book-upload-7.PDF'' \<mapsto> ''''), entropy = [], faults = []\<rparr>)"
    using create_temp.simps(2) [of 9999 "''lib''" "''.book-upload-''" "''.PDF''", THEN fun_cong, of ex_disk]
    by (simp add: Let_def char_of_def bit_0 ex_disk_def query_def bnd_def tick_def in_dir_def read_full_def exec_def ret_def show_nat.simps)
  have e: "stat_file ''lib/a b_.PDF'' ex_disk = (Inr None, ex_disk)"
    by (simp add: ex_disk_def stat_file_def query_def bnd_def tick_def)
  show ?thesis
    unfolding storeUploadedBook_def Let_def n x
    by (simp add: s m t e installed_name_def up_bind_def try_disk_def bnd_def tick_def in_dir_def
      cleanup_failed_def save_upload_def write_file_def read_full_def exec_def ret_def maxBookUploadBytes_def up_ret_def install_file_def
      rename_file_def fun_eq_iff)
qed

theorem upload_is_atomic_witness:
  "\<exists>s. (2 :: nat) = length s \<and> s = ''hi'' \<and> tables ex_disk (in_dir ''lib'' ''a b_.PDF'') = None"
  using upload_is_atomic [OF ex_upload] by auto

section \<open>What a removal may change\<close>

lemma safeUploadName_slash: "CHR ''/'' \<notin> set (safeUploadName v)"
  using safeUploadName_shape [of v] by (cases "safeUploadName v = ''''") simp_all

lemma show_int_slash: "CHR ''/'' \<notin> set (show_int i)"
  using show_nat_chars [of "CHR ''/''"] by (auto simp: show_int_def)

text \<open>The recoverable copy has a name of its own directly in the trash folder.\<close>

lemma trash_path_in:
  fixes t :: unix
  assumes d: "clean_home dir" and h: "CHR ''/'' \<notin> set (bk_Hash b)"
  defines "nm \<equiv> book_ID b @ ''-'' @ show_int t @ ''-'' @ safeUploadName (path_base (bk_FilePath b)) @ ''.deleted''"
  shows "trash_path dir t b = dir @ ''/.bookbrowser/trash/'' @ nm" "CHR ''/'' \<notin> set nm"
proof -
  have "CHR ''/'' \<notin> set (book_ID b)" using h by (auto simp: book_ID_def dest: in_set_takeD)
  then show slash: "CHR ''/'' \<notin> set nm" using show_int_slash safeUploadName_slash by (simp add: nm_def)
  have "7 < length nm" by (simp add: nm_def)
  then have nm: "plain_name nm" using slash by (auto simp: plain_name_def)
  have p: "plain_name ''.bookbrowser''" "plain_name ''trash''" by (simp_all add: plain_name_def)
  have c: "clean_home (dir @ ''/.bookbrowser/trash'')"
    using path_join_child(2) [OF path_join_child(2) [OF d p(1)] p(2)] by simp
  have "dir \<noteq> ''''" using clean_home_Cons [OF d] by auto
  then have "path_join [dir, ''.bookbrowser'', ''trash''] = dir @ ''/.bookbrowser/trash''"
    using c by (simp add: path_join_def clean_home_def)
  then show "trash_path dir t b = dir @ ''/.bookbrowser/trash/'' @ nm"
    using path_join_child(1) [OF c nm] unfolding trash_path_def nm_def [symmetric] by simp
qed

lemma ran_moved:
  assumes "m f = Some s" "m p = None"
  shows "ran (m(f := None, p \<mapsto> s)) = ran m"
proof (rule set_eqI, rule iffI)
  fix x assume "x \<in> ran (m(f := None, p \<mapsto> s))"
  then obtain q where "(m(f := None, p \<mapsto> s)) q = Some x" by (auto simp: ran_def)
  then have "m (if q = p then f else q) = Some x" using assms(1) by (simp split: if_splits)
  then show "x \<in> ran m" by (rule ranI)
next
  fix x assume "x \<in> ran m"
  then obtain q where q: "m q = Some x" by (auto simp: ran_def)
  then have "q \<noteq> p" using assms(2) by auto
  then have "(m(f := None, p \<mapsto> s)) (if q = f then p else q) = Some x" using q assms by auto
  then show "x \<in> ran (m(f := None, p \<mapsto> s))" by (rule ranI)
qed

lemma inside_library:
  assumes "clean_home dir" "clean_home f" "f \<noteq> dir" "\<not> outside_library dir f"
  obtains rest where "f = dir @ ''/'' @ rest"
  using assms below_directory [of dir f] by (auto simp: outside_library_def split: option.splits)

lemma removeLibraryBook_Inr:
  assumes "removeLibraryBook e dir bl i c = (Inr p, c')"
  obtains b s where "findBook bl i = Some b" "\<not> outside_library dir (bk_FilePath b)" "tables c (bk_FilePath b) = Some s"
    "p = trash_path dir (unix_of (now e)) b" "tables c' = (tables c)(bk_FilePath b := None, p \<mapsto> s)"
  using assms
  by (auto simp: removeLibraryBook_def up_bind_def up_fail_def up_ret_def try_disk_def rename_file_def exec_def bnd_def tick_def ret_def
      split: list.splits if_splits option.splits)

lemma removeLibraryBook_Inl: "removeLibraryBook e dir bl i c = (Inl x, c') \<Longrightarrow> tables c' = tables c"
  by (auto simp: removeLibraryBook_def up_bind_def up_fail_def up_ret_def try_disk_def rename_file_def exec_def bnd_def tick_def ret_def
      split: list.splits if_splits option.splits)

text \<open>C26: Removing a book moves its file within the library. On success the file of the indexed book lay below the
  directory of the library, a file of the name \<open>ID-time-name.deleted\<close> directly in its folder .bookbrowser/trash has the bytes of
  that file, the book's file is gone, and every other path is as it was; a copy of exactly that name, which the same book
  could have left in the same second, is replaced, and when there was none no content is lost. A failure changes nothing.
  The directory is absolute and clean, as \<open>filepath.Abs\<close> leaves it, and no book itself; so are the paths of the indexed books,
  whose hashes are written in hexadecimal.\<close>

theorem removal_is_recoverable:
  assumes "removeLibraryBook e dir bl i c = (r, c')"
    and d: "clean_home dir" "tables c dir = None"
    and bl: "\<forall>b \<in> set bl. clean_home (bk_FilePath b) \<and> CHR ''/'' \<notin> set (bk_Hash b)"
  shows "case r of
      Inl _ \<Rightarrow> tables c' = tables c
    | Inr p \<Rightarrow> \<exists>b s rest name. findBook bl i = Some b \<and> bk_FilePath b = dir @ ''/'' @ rest \<and> tables c (bk_FilePath b) = Some s \<and>
        p = dir @ ''/.bookbrowser/trash/'' @ name \<and> CHR ''/'' \<notin> set name \<and>
        name = book_ID b @ ''-'' @ show_int (unix_of (now e)) @ ''-'' @ safeUploadName (path_base (bk_FilePath b)) @ ''.deleted'' \<and>
        tables c' p = Some s \<and> (p \<noteq> bk_FilePath b \<longrightarrow> tables c' (bk_FilePath b) = None) \<and>
        (\<forall>q. q \<noteq> p \<and> q \<noteq> bk_FilePath b \<longrightarrow> tables c' q = tables c q) \<and>
        (tables c p = None \<longrightarrow> ran (tables c') = ran (tables c))"
proof (cases r)
  case (Inl x)
  then show ?thesis using assms removeLibraryBook_Inl by auto
next
  case (Inr p)
  with assms(1) obtain b s where b: "findBook bl i = Some b" "\<not> outside_library dir (bk_FilePath b)"
    "tables c (bk_FilePath b) = Some s" "p = trash_path dir (unix_of (now e)) b" "tables c' = (tables c)(bk_FilePath b := None, p \<mapsto> s)"
    using removeLibraryBook_Inr by metis
  have "b \<in> set bl" using b(1) by (auto simp: findBook_def find_Some_iff)
  with bl have f: "clean_home (bk_FilePath b)" "CHR ''/'' \<notin> set (bk_Hash b)" by blast+
  have "bk_FilePath b \<noteq> dir" using b(3) d(2) by auto
  then obtain rest where rest: "bk_FilePath b = dir @ ''/'' @ rest" using inside_library [OF d(1) f(1) _ b(2)] by blast
  have same: "ran (tables c') = ran (tables c)" if "tables c p = None"
    unfolding b(5) by (rule ran_moved [where f = "bk_FilePath b", OF b(3) that])
  let ?name = "book_ID b @ ''-'' @ show_int (unix_of (now e)) @ ''-'' @ safeUploadName (path_base (bk_FilePath b)) @ ''.deleted''"
  note t = trash_path_in [OF d(1) f(2), of "unix_of (now e)"]
  have "tables c' p = Some s" "p \<noteq> bk_FilePath b \<longrightarrow> tables c' (bk_FilePath b) = None"
    "\<forall>q. q \<noteq> p \<and> q \<noteq> bk_FilePath b \<longrightarrow> tables c' q = tables c q" unfolding b(5) by simp_all
  note all = conjI [OF b(1) conjI [OF rest conjI [OF b(3) conjI [OF trans [OF b(4) t(1)] conjI [OF t(2) conjI [OF refl
    conjI [OF this(1) conjI [OF this(2) conjI [OF this(3) impI [OF same]]]]]]]]]]
  show ?thesis unfolding Inr sum.case by (intro exI) (rule all)
qed

definition ex_book :: Book where
  "ex_book = \<lparr>bk_Hash = ''0123456789abcdef'', bk_FilePath = ''/lib/emma.pdf'', bk_FileSize = 4, bk_ModTime = 0, bk_HasCover = False,
    bk_Title = ''Emma'', bk_Author = '''', bk_Description = '''', bk_Series = '''', bk_SeriesIndex = 0, bk_Publisher = '''', bk_ISBN = '''',
    bk_PublishDate = 0\<rparr>"

lemma ex_removal:
  "removeLibraryBook (ex_env\<lparr>now := 0\<rparr>) ''/lib'' [ex_book] ''0123456789''
      \<lparr>tables = Map.empty(''/lib/emma.pdf'' \<mapsto> ''text''), entropy = [], faults = []\<rparr> =
    (Inr (trash_path ''/lib'' 0 ex_book),
      \<lparr>tables = Map.empty(trash_path ''/lib'' 0 ex_book \<mapsto> ''text''), entropy = [], faults = []\<rparr>)"
proof -
  have f: "findBook [ex_book] ''0123456789'' = Some ex_book" by (simp add: findBook_def ex_book_def book_ID_def)
  have i: "\<not> outside_library ''/lib'' (bk_FilePath ex_book)"
    by (simp add: outside_library_def path_rel_def path_elems_def ex_book_def has_prefix_def)
  have p: "bk_FilePath ex_book = ''/lib/emma.pdf''" by (simp add: ex_book_def)
  show ?thesis
    by (simp add: removeLibraryBook_def f p i [unfolded p] up_bind_def up_ret_def try_disk_def rename_file_def exec_def bnd_def tick_def ret_def
        unix_of_def fun_eq_iff)
qed

theorem removal_is_recoverable_witness:
  "\<exists>rest name. bk_FilePath ex_book = ''/lib'' @ ''/'' @ rest \<and>
    trash_path ''/lib'' 0 ex_book = ''/lib'' @ ''/.bookbrowser/trash/'' @ name \<and> CHR ''/'' \<notin> set name"
proof -
  have "clean_home ''/lib''" by (simp add: clean_home_def path_elems_def path_show_def has_prefix_def)
  moreover have "\<forall>b \<in> set [ex_book]. clean_home (bk_FilePath b) \<and> CHR ''/'' \<notin> set (bk_Hash b)"
    by (simp add: clean_home_def path_elems_def path_show_def has_prefix_def ex_book_def)
  moreover have "findBook [ex_book] ''0123456789'' = Some ex_book" by (simp add: findBook_def ex_book_def book_ID_def)
  ultimately show ?thesis using removal_is_recoverable [OF ex_removal] by auto
qed

end
