(* ===== verification/WebAdmin.thy ===== *)
theory WebAdmin
  imports UploadFacts
begin

text \<open>
Administration of accounts, the library and the settings (src/server/admin.go). sort.Slice is not stable; ties
are taken in the order of the list.
\<close>

section \<open>The activity feed\<close>

record adminActivity =
  fd_Kind :: string
  fd_Text :: string
  fd_When :: gotime
  fd_Label :: string
  fd_Full :: string

definition adminActivityFeedLimit :: nat where "adminActivityFeedLimit = 6"

definition adminTimeAgo :: "env \<Rightarrow> (string \<Rightarrow> gotime \<Rightarrow> string) \<Rightarrow> gotime \<Rightarrow> string" where
  "adminTimeAgo e fmt t =
    (let diff = now e - t in
     if diff < 0 \<or> diff < minutes 1 then ''just now''
     else if diff < hours 1 then show_int (diff div minutes 1) @ ''m ago''
     else if diff < hours 24 then show_int (diff div hours 1) @ ''h ago''
     else if diff < hours (7 * 24) then show_int (diff div hours 24) @ ''d ago''
     else fmt ''Jan 2, 2006'' t)"

definition newAdminActivity :: "env \<Rightarrow> (string \<Rightarrow> gotime \<Rightarrow> string) \<Rightarrow> string \<Rightarrow> string \<Rightarrow> gotime \<Rightarrow> adminActivity" where
  "newAdminActivity e fmt kind what t = \<lparr>fd_Kind = kind, fd_Text = what, fd_When = t,
    fd_Label = adminTimeAgo e fmt t, fd_Full = fmt ''2006-01-02 15:04'' t\<rparr>"

text \<open>The title of a book in typographic quotation marks.\<close>

definition quoted_title :: "string \<Rightarrow> string" where
  "quoted_title t = ''Read '' @ map char_of [0xE2, 0x80, 0x9C :: nat] @ t @ map char_of [0xE2, 0x80, 0x9D :: nat]"

definition book_title :: "Book list \<Rightarrow> string \<Rightarrow> string" where
  "book_title bl i = (case List.find (\<lambda>b. book_ID b = i) (rev bl) of
      None \<Rightarrow> i | Some b \<Rightarrow> if bk_Title b = '''' then i else bk_Title b)"

definition activity_feed :: "env \<Rightarrow> (string \<Rightarrow> gotime \<Rightarrow> string) \<Rightarrow> Book list \<Rightarrow> User \<Rightarrow> err + BookActivity list \<Rightarrow> adminActivity list" where
  "activity_feed e fmt bl u recent =
    take adminActivityFeedLimit (sort_key (\<lambda>a. - fd_When a)
      ((case user_LastLoginAt u of None \<Rightarrow> [] | Some t \<Rightarrow> [newAdminActivity e fmt ''login'' ''Signed in'' t]) @
       (case recent of Inl _ \<Rightarrow> []
        | Inr xs \<Rightarrow> map (\<lambda>a. newAdminActivity e fmt ''read'' (quoted_title (book_title bl (act_BookID a))) (act_LastReadAt a)) xs)))"

section \<open>Pages of the administration\<close>

definition handleImplementation :: "env \<Rightarrow> request \<Rightarrow> response act" where
  "handleImplementation e r = do {
    pages \<leftarrow> field sv_pages;
    case pages ''docs/auth_rbac_implementation.md'' of
      None \<Rightarrow> give (http_error ''implementation guide is unavailable'' 500)
    | Some None \<Rightarrow> give (http_error ''implementation guide could not be rendered'' 500)
    | Some (Some document) \<Rightarrow> do {
        v \<leftarrow> field sv_version;
        p \<leftarrow> renderPage e r 200 ''implementation'' [(''CurVersion'', VStr v), (''PageTitle'', VStr ''Implementation guide''),
          (''DocumentHTML'', VStr document)];
        give (p\<lparr>rp_headers := (''Cache-Control'', ''no-cache'') # rp_headers p\<rparr>)
      }
  }"

definition handleAdminDashboard :: "env \<Rightarrow> request \<Rightarrow> response act" where
  "handleAdminDashboard e r = do {
    user \<leftarrow> currentUser e r;
    pending \<leftarrow> store PendingBookRequestCount;
    let admin = (case user of None \<Rightarrow> False | Some u \<Rightarrow> user_Role u = RoleAdmin);
    counts \<leftarrow> (if admin then do {
        claims \<leftarrow> store PendingCopyrightClaimCount;
        alerts \<leftarrow> store SystemAlertCounts;
        give (case claims of Inl _ \<Rightarrow> 0 | Inr n \<Rightarrow> n, case alerts of Inl _ \<Rightarrow> 0 | Inr (n, _) \<Rightarrow> n)
      } else give (0, 0));
    users \<leftarrow> userCount;
    bl \<leftarrow> books;
    v \<leftarrow> field sv_version;
    renderPage e r 200 ''admin'' (titles v ''Administration'' ''Administration'' @
      [(''UserCount'', VInt (int users)), (''BookCount'', VInt (int (length bl))),
       (''PendingRequests'', VInt (int (case pending of Inl _ \<Rightarrow> 0 | Inr n \<Rightarrow> n))),
       (''PendingCopyrightClaims'', VInt (int (fst counts))), (''OpenSystemAlerts'', VInt (int (snd counts))),
       (''IsAdmin'', VBool admin)])
  }"

definition feed_row :: "adminActivity \<Rightarrow> (string \<times> val) list" where
  "feed_row a = [(''Kind'', VStr (fd_Kind a)), (''Text'', VStr (fd_Text a)), (''When'', VTime (fd_When a)),
    (''Label'', VStr (fd_Label a)), (''Full'', VStr (fd_Full a))]"

definition user_row_view :: "(string \<Rightarrow> gotime \<Rightarrow> string) \<Rightarrow> User \<Rightarrow> adminActivity list \<Rightarrow> (string \<times> val) list" where
  "user_row_view fmt u feed =
    [(''ID'', VStr (user_ID u)), (''Email'', VStr (user_Email u)), (''Name'', VStr (user_Name u)), (''Role'', VStr (user_Role u)),
     (''Active'', VBool (user_Active u)), (''IsReader'', VBool (user_Role u = RoleReader)),
     (''IsManager'', VBool (user_Role u = RoleManager)), (''IsAdmin'', VBool (user_Role u = RoleAdmin)),
     (''HasEmail'', VBool (user_PasswordHash u \<noteq> '''')), (''HasGoogle'', VBool (user_GoogleSubject u \<noteq> '''')),
     (''LastIP'', VStr (user_LastIP u)), (''AllowShare'', VBool (user_AllowShare u)), (''CreatedAt'', VTime (user_CreatedAt u)),
     (''LastLogin'', VStr (case user_LastLoginAt u of None \<Rightarrow> ''Never'' | Some t \<Rightarrow> fmt ''2006-01-02 15:04'' t)),
     (''Activity'', VRows (map feed_row feed)), (''HasActivity'', VBool (feed \<noteq> []))]"

fun user_views :: "env \<Rightarrow> (string \<Rightarrow> gotime \<Rightarrow> string) \<Rightarrow> Book list \<Rightarrow> User list \<Rightarrow> (string \<times> val) list list act" where
  "user_views e fmt bl [] = give []"
| "user_views e fmt bl (u # us) = do {
    recent \<leftarrow> store (RecentBooks (user_ID u) 50);
    views \<leftarrow> user_views e fmt bl us;
    give (user_row_view fmt u (activity_feed e fmt bl u recent) # views)
  }"

definition handleAdminUsers :: "env \<Rightarrow> request \<Rightarrow> response act" where
  "handleAdminUsers e r = do {
    found \<leftarrow> store Users;
    case found of
      Inl _ \<Rightarrow> message_page e r 500 ''User error'' ''Could not load users'' ''The user database could not be read.''
    | Inr us \<Rightarrow> do {
        bl \<leftarrow> books;
        fmt \<leftarrow> field sv_format;
        views \<leftarrow> user_views e fmt bl us;
        v \<leftarrow> field sv_version;
        renderPage e r 200 ''admin_users'' (titles v ''Manage users'' ''Manage users'' @ [(''Users'', VRows views)] @ saved_and_error r)
      }
  }"

definition users_error :: "string \<Rightarrow> response" where
  "users_error message = redirect 303 (''/admin/users?error='' @ urlQuery message)"

definition handleAdminUserUpdate :: "env \<Rightarrow> request \<Rightarrow> response act" where
  "handleAdminUserUpdate e r =
    (if \<not> verifyCSRF r then give invalid_csrf
     else do {
       updated \<leftarrow> store (UpdateUser e (param r ''id'') (FormValue r ''role'') (FormValue r ''active'' = ''on''));
       give (case updated of Inl x \<Rightarrow> users_error (error_text x) | Inr _ \<Rightarrow> redirect 303 ''/admin/users?saved=1'')
     })"

definition handleAdminUserResetPassword :: "env \<Rightarrow> request \<Rightarrow> response act" where
  "handleAdminUserResetPassword e r =
    (if \<not> verifyCSRF r then give invalid_csrf
     else if \<not> ParseForm_again r then give (users_error ''The password form could not be read.'')
     else if FormValue r ''password'' \<noteq> FormValue r ''password_confirm'' then give (users_error ''The passwords do not match.'')
     else do {
       changed \<leftarrow> store (SetPassword e (param r ''id'') (FormValue r ''password''));
       give (case changed of Inl x \<Rightarrow> users_error (error_text x) | Inr _ \<Rightarrow> redirect 303 ''/admin/users?saved=password'')
     })"

section \<open>The library\<close>

definition newest_first :: "(nat \<Rightarrow> nat) \<Rightarrow> Book list \<Rightarrow> Book list" where
  "newest_first lw bl = sort_key (\<lambda>b. - bk_ModTime b) (sort_key (\<lambda>b. str_key (to_lower lw (bk_Title b))) bl)"

definition handleAdminLibrary :: "env \<Rightarrow> request \<Rightarrow> response act" where
  "handleAdminLibrary e r = do {
    bl \<leftarrow> books;
    v \<leftarrow> field sv_version;
    renderPage e r 200 ''admin_library'' (titles v ''Manage library'' ''Manage library'' @
      [(''Books'', VBooks (newest_first (low e) bl))] @ saved_and_error r @
      [(''Msg'', VStr (query_value r ''msg'')), (''MaxUploadMB'', VInt (int (maxBookUploadBytes div 2 ^ 20)))])
  }"

definition libraryRedirectError :: "string \<Rightarrow> response" where
  "libraryRedirectError message = redirect 303 (''/admin/library?error='' @ urlQuery message)"

definition handleAdminLibraryUpload :: "env \<Rightarrow> conversion \<Rightarrow> request \<Rightarrow> response act" where
  "handleAdminLibraryUpload e conv r = (case rq_multipart r of
      None \<Rightarrow> give (libraryRedirectError ''The upload is invalid or exceeds 256 MiB.'')
    | Some book \<Rightarrow>
        if \<not> verifyCSRF r then give invalid_csrf
        else (case book of
            None \<Rightarrow> give (libraryRedirectError ''Choose an ebook file to upload.'')
          | Some file \<Rightarrow> do {
              stored \<leftarrow> upload_book e conv file;
              case stored of
                Inl x \<Rightarrow> give (libraryRedirectError (le_Message x))
              | Inr _ \<Rightarrow> do { _ \<leftarrow> start_refresh; give (redirect 303 ''/admin/library?saved=uploaded'') }
            }))"

definition handleAdminLibraryDelete :: "env \<Rightarrow> request \<Rightarrow> response act" where
  "handleAdminLibraryDelete e r =
    (if \<not> verifyCSRF r then give invalid_csrf
     else do {
       removed \<leftarrow> remove_book e (param r ''id'');
       case removed of
         Inl x \<Rightarrow> give (libraryRedirectError (le_Message x))
       | Inr _ \<Rightarrow> do { _ \<leftarrow> start_refresh; give (redirect 303 ''/admin/library?saved=removed'') }
     })"

definition handleAdminLibraryRescan :: "request \<Rightarrow> response act" where
  "handleAdminLibraryRescan r =
    (if \<not> verifyCSRF r then give invalid_csrf
     else do { _ \<leftarrow> start_refresh; give (redirect 303 ''/admin/library?saved=rescan'') })"

section \<open>Settings\<close>

definition renderAdminSettings :: "env \<Rightarrow> request \<Rightarrow> Settings \<Rightarrow> string \<Rightarrow> bool \<Rightarrow> response act" where
  "renderAdminSettings e r settings errorMessage saved = do {
    v \<leftarrow> field sv_version;
    google \<leftarrow> google_enabled;
    path \<leftarrow> field sv_data_path;
    renderPage e r 200 ''admin_settings'' (titles v ''Settings'' ''Settings'' @
      [(''Settings'', VSettings settings), (''GoogleConfigured'', VBool google), (''AuthDataPath'', VStr path),
       (''Error'', VStr errorMessage), (''Saved'', VBool saved)])
  }"

definition form_settings :: "request \<Rightarrow> Settings" where
  "form_settings r = \<lparr>set_SiteName = FormValue r ''site_name'', set_PWAName = FormValue r ''pwa_name'',
    set_RegistrationOpen = (FormValue r ''registration_open'' = ''on''),
    set_AnonymousBookLinks = (FormValue r ''anonymous_book_links'' = ''on'')\<rparr>"

definition handleAdminSettings :: "env \<Rightarrow> request \<Rightarrow> response act" where
  "handleAdminSettings e r =
    (if rq_method r = ''POST'' then
       (if \<not> verifyCSRF r then give invalid_csrf
        else do {
          updated \<leftarrow> store (UpdateSettings (form_settings r));
          case updated of
            Inl x \<Rightarrow> renderAdminSettings e r (form_settings r) (error_text x) False
          | Inr _ \<Rightarrow> give (redirect 303 ''/admin/settings?saved=1'')
        })
     else do {
       settings \<leftarrow> store GetSettings;
       case settings of
         Inl _ \<Rightarrow> renderAdminSettings e r DefaultSettings ''The settings database could not be read.'' False
       | Inr s \<Rightarrow> renderAdminSettings e r s '''' (query_value r ''saved'' = ''1'')
     })"


end
