(* ===== verification/WebRequests.thy ===== *)
theory WebRequests
  imports WebAdmin
begin

text \<open>
Book requests and copyright claims over HTTP (src/server/book_requests.go, src/server/copyright_claims.go).
\<close>

section \<open>Book requests\<close>

definition isFetchRequest :: "request \<Rightarrow> bool" where
  "isFetchRequest r \<longleftrightarrow> eq_nocase (header r ''X-Requested-With'') ''fetch'' \<or> contains (header r ''Accept'') ''application/json''"

definition bookRequestFailure :: "request \<Rightarrow> string \<Rightarrow> response" where
  "bookRequestFailure r message =
    (if isFetchRequest r then writeJSONError 400 message else redirect 303 (''/requests?error='' @ urlQuery message))"

definition form_expired :: string where
  "form_expired = ''This form expired. Refresh the page and try again.''"

definition handleCreateBookRequest :: "env \<Rightarrow> request \<Rightarrow> response act" where
  "handleCreateBookRequest e r = do {
    user \<leftarrow> currentUser e r;
    case user of
      None \<Rightarrow> give (redirectToLogin r)
    | Some u \<Rightarrow>
        if \<not> role_allows (user_Role u) RoleReader then give (redirectToLogin r)
        else if \<not> verifyCSRF r then
          give (if isFetchRequest r then writeJSONError 403 form_expired else redirect 303 (''/requests?error='' @ urlQuery form_expired))
        else if \<not> ParseForm_again r then give (bookRequestFailure r ''The request form could not be read.'')
        else do {
          made \<leftarrow> store (CreateBookRequest e (user_ID u) (FormValue r ''title'') (FormValue r ''author'') (FormValue r ''notes''));
          give (case made of
              Inl x \<Rightarrow> bookRequestFailure r (error_text x)
            | Inr q \<Rightarrow> if isFetchRequest r then writeJSON 201 (JObj [(''id'', JStr (req_ID q)), (''ok'', JBool True)])
                else redirect 303 ''/requests?saved=1'')
        }
  }"

definition request_view :: "(string \<Rightarrow> gotime \<Rightarrow> string) \<Rightarrow> Book list \<Rightarrow> BookRequest \<Rightarrow> (string \<times> val) list" where
  "request_view fmt bl q =
    [(''BookRequest'', VRequest q), (''CreatedText'', VStr (fmt ''2006-01-02 15:04'' (req_CreatedAt q))),
     (''BookTitle'', VStr (if req_Status q = ''added'' \<and> req_BookID q \<noteq> ''''
        then (case findBook bl (req_BookID q) of None \<Rightarrow> '''' | Some b \<Rightarrow> bk_Title b) else ''''))]"

definition handleBookRequests :: "env \<Rightarrow> request \<Rightarrow> response act" where
  "handleBookRequests e r = do {
    user \<leftarrow> currentUser e r;
    case user of
      None \<Rightarrow> give panic
    | Some u \<Rightarrow> do {
        found \<leftarrow> store (BookRequestsForUser (user_ID u));
        case found of
          Inl _ \<Rightarrow> message_page e r 500 ''Book requests error'' ''Could not load your requests'' ''The request list could not be read.''
        | Inr qs \<Rightarrow> do {
            bl \<leftarrow> books;
            fmt \<leftarrow> field sv_format;
            v \<leftarrow> field sv_version;
            renderPage e r 200 ''book_requests'' (titles v ''My book requests'' ''Book requests'' @
              [(''Requests'', VRows (map (request_view fmt bl) qs))] @ saved_and_error r)
          }
      }
  }"

text \<open>The books to choose from, by title.\<close>

definition book_options :: "(nat \<Rightarrow> nat) \<Rightarrow> Book list \<Rightarrow> (string \<times> val) list list" where
  "book_options lw bl = map (\<lambda>b. [(''ID'', VStr (book_ID b)), (''Title'', VStr (bk_Title b))])
    (sort_key (\<lambda>b. str_key (to_lower lw (bk_Title b))) bl)"

definition handleAdminBookRequests :: "env \<Rightarrow> request \<Rightarrow> response act" where
  "handleAdminBookRequests e r = do {
    found \<leftarrow> store BookRequestsAll;
    case found of
      Inl _ \<Rightarrow> message_page e r 500 ''Book requests error'' ''Could not load requests'' ''The request list could not be read.''
    | Inr qs \<Rightarrow> do {
        bl \<leftarrow> books;
        fmt \<leftarrow> field sv_format;
        v \<leftarrow> field sv_version;
        renderPage e r 200 ''admin_requests'' (titles v ''Book requests'' ''Book requests'' @
          [(''Requests'', VRows (map (request_view fmt bl) qs)), (''Books'', VRows (book_options (low e) bl))] @ saved_and_error r)
      }
  }"

definition adminRequestsRedirectError :: "string \<Rightarrow> response" where
  "adminRequestsRedirectError message = redirect 303 (''/admin/requests?error='' @ urlQuery message)"

definition handleAdminBookRequestResolve :: "env \<Rightarrow> request \<Rightarrow> response act" where
  "handleAdminBookRequestResolve e r =
    (let resolve = (\<lambda>status bookID. do {
        done \<leftarrow> store (ResolveBookRequest e (param r ''id'') status bookID (FormValue r ''message''));
        give (case done of
            Inl x \<Rightarrow> adminRequestsRedirectError (error_text x)
          | Inr _ \<Rightarrow> redirect 303 ''/admin/requests?saved=1'')
      })
     in if \<not> verifyCSRF r then give invalid_csrf
     else if \<not> ParseForm_again r then give (adminRequestsRedirectError ''The resolution form could not be read.'')
     else if FormValue r ''action'' = ''added'' then do {
       found \<leftarrow> find_book (trim_space (FormValue r ''book_id''));
       if found = None then give (adminRequestsRedirectError ''Choose the library book that fulfils this request.'')
       else resolve ''added'' (trim_space (FormValue r ''book_id''))
     }
     else if FormValue r ''action'' = ''unavailable'' then resolve ''unavailable'' ''''
     else give (adminRequestsRedirectError ''Choose an outcome for this request.''))"

section \<open>Copyright claims\<close>

definition json_claim_context :: "string \<Rightarrow> string \<Rightarrow> string \<Rightarrow> json" where
  "json_claim_context token name email = JObj ([(''csrf_token'', JStr token)] @
    (if name = '''' then [] else [(''name'', JStr name)]) @ (if email = '''' then [] else [(''email'', JStr email)]))"

definition known_name :: "User \<Rightarrow> string" where
  "known_name u = (if user_DisplayName u = '''' then user_Name u else user_DisplayName u)"

definition handleCopyrightClaimContext :: "env \<Rightarrow> request \<Rightarrow> response act" where
  "handleCopyrightClaimContext e r = do {
    token \<leftarrow> csrfToken e r;
    user \<leftarrow> currentUser e r;
    give ((writeJSON 200 (case user of
        None \<Rightarrow> json_claim_context (fst token) '''' ''''
      | Some u \<Rightarrow> json_claim_context (fst token) (known_name u) (user_Email u)))\<lparr>rp_cookies := snd token\<rparr>)
  }"

text \<open>Whether \<open>ParseMultipartForm\<close> takes the body for a multipart form: by the media type (malformed parameters of
  the type, for which the code parses the body as a plain form, are not told apart). A plain form that is not
  multipart was parsed, its error dropped, before \<open>ErrNotMultipart\<close> is returned.\<close>

definition is_multipart :: "request \<Rightarrow> bool" where
  "is_multipart r \<longleftrightarrow> nocase (trim_space (hd (split_char CHR '';'' (header r ''Content-Type'')))) = ''multipart/form-data''"

definition claim_form_ok :: "request \<Rightarrow> bool" where
  "claim_form_ok r = (if is_multipart r then rq_multipart r \<noteq> None else ParseForm_again r)"

definition handleCreateCopyrightClaim :: "env \<Rightarrow> request \<Rightarrow> response act" where
  "handleCreateCopyrightClaim e r =
    (if \<not> claim_form_ok r then give (writeJSONError 400 ''The report form could not be read.'')
     else if \<not> verifyCSRF r then give (writeJSONError 403 form_expired)
     else if trim_space (FormValue r ''company_website'') \<noteq> '''' then give (writeJSON 201 (JObj [(''ok'', JBool True)]))
     else if FormValue r ''authorized'' \<noteq> ''on'' \<and> FormValue r ''authorized'' \<noteq> ''true''
     then give (writeJSONError 400 ''Confirm that the information is accurate and you are authorized to submit it.'')
     else do {
       user \<leftarrow> currentUser e r;
       let name = FormValue r ''claimant_name'';
       let email = FormValue r ''claimant_email'';
       let name' = (case user of Some u \<Rightarrow> if trim_space name = '''' then known_name u else name | None \<Rightarrow> name);
       let email' = (case user of Some u \<Rightarrow> if trim_space email = '''' then user_Email u else email | None \<Rightarrow> email);
       let uid = (case user of Some u \<Rightarrow> user_ID u | None \<Rightarrow> '''');
       made \<leftarrow> store (CreateCopyrightClaim e uid \<lparr>cf_name = name', cf_email = email', cf_book_id = FormValue r ''book_id'',
         cf_book_title = FormValue r ''book_title'', cf_source_url = FormValue r ''source_url'', cf_details = FormValue r ''details''\<rparr>);
       give (case made of
           Inl x \<Rightarrow> writeJSONError 400 (error_text x)
         | Inr q \<Rightarrow> writeJSON 201 (JObj [(''id'', JStr (clm_ID q)), (''ok'', JBool True)]))
     })"

definition claim_row_view :: "(string \<Rightarrow> gotime \<Rightarrow> string) \<Rightarrow> Book list \<Rightarrow> CopyrightClaim \<Rightarrow> (string \<times> val) list" where
  "claim_row_view fmt bl q =
    [(''CopyrightClaim'', VClaim q), (''CreatedText'', VStr (fmt ''2006-01-02 15:04'' (clm_CreatedAt q))),
     (''BookExists'', VBool (clm_BookID q \<noteq> '''' \<and> findBook bl (clm_BookID q) \<noteq> None))]"

definition handleAdminCopyrightClaims :: "env \<Rightarrow> request \<Rightarrow> response act" where
  "handleAdminCopyrightClaims e r = do {
    found \<leftarrow> store CopyrightClaimsAll;
    case found of
      Inl _ \<Rightarrow> message_page e r 500 ''Copyright claims error'' ''Could not load copyright claims'' ''The claim list could not be read.''
    | Inr qs \<Rightarrow> do {
        bl \<leftarrow> books;
        fmt \<leftarrow> field sv_format;
        v \<leftarrow> field sv_version;
        renderPage e r 200 ''admin_copyright_claims'' (titles v ''Copyright claims'' '''' @
          [(''Claims'', VRows (map (claim_row_view fmt bl) qs)), (''Books'', VRows (book_options (low e) bl))] @ saved_and_error r)
      }
  }"

definition adminCopyrightRedirectError :: "string \<Rightarrow> response" where
  "adminCopyrightRedirectError message = redirect 303 (''/admin/copyright?error='' @ urlQuery message)"

definition claim_saved :: response where
  "claim_saved = redirect 303 ''/admin/copyright?saved=1''"

text \<open>The two outcomes of a claim.\<close>

definition remove_claimed :: "env \<Rightarrow> string \<Rightarrow> string \<Rightarrow> string \<Rightarrow> response act" where
  "remove_claimed e claimID bookID resolution = do {
    found \<leftarrow> find_book bookID;
    if found = None then give (adminCopyrightRedirectError ''Choose the library book to remove.'')
    else do {
      removed \<leftarrow> remove_book e bookID;
      case removed of
        Inl x \<Rightarrow> give (adminCopyrightRedirectError (le_Message x))
      | Inr _ \<Rightarrow> do {
          resolved \<leftarrow> store (ResolveCopyrightClaim e claimID ''removed'' bookID
            (if resolution = '''' then ''Reported book moved to recoverable storage.'' else resolution));
          case resolved of
            Inl x \<Rightarrow> give (adminCopyrightRedirectError (error_text x))
          | Inr _ \<Rightarrow> do { _ \<leftarrow> start_refresh; give claim_saved }
        }
    }
  }"

definition resolve_claimed :: "env \<Rightarrow> string \<Rightarrow> string \<Rightarrow> string \<Rightarrow> response act" where
  "resolve_claimed e claimID bookID resolution = do {
    resolved \<leftarrow> store (ResolveCopyrightClaim e claimID ''resolved'' bookID resolution);
    give (case resolved of Inl x \<Rightarrow> adminCopyrightRedirectError (error_text x) | Inr _ \<Rightarrow> claim_saved)
  }"

definition handleAdminCopyrightClaimResolve :: "env \<Rightarrow> request \<Rightarrow> response act" where
  "handleAdminCopyrightClaimResolve e r =
    (if \<not> verifyCSRF r then give invalid_csrf
     else if \<not> ParseForm_again r then give (adminCopyrightRedirectError ''The resolution form could not be read.'')
     else do {
       claim \<leftarrow> store (CopyrightClaimByID (param r ''id''));
       let pending = (case claim of Inl _ \<Rightarrow> False | Inr c \<Rightarrow> clm_Status c = ''pending'');
       let bookID = trim_space (FormValue r ''book_id'');
       let resolution = trim_space (FormValue r ''resolution'');
       if \<not> pending then give (adminCopyrightRedirectError ''The copyright claim was not found or has already been resolved.'')
       else if FormValue r ''action'' = ''remove'' then remove_claimed e (param r ''id'') bookID resolution
       else if FormValue r ''action'' = ''resolve'' then resolve_claimed e (param r ''id'') bookID resolution
       else give (adminCopyrightRedirectError ''Choose an outcome for this claim.'')
     })"

end
