(* ===== verification/WebAlerts.thy ===== *)
theory WebAlerts
  imports WebRequests
begin

text \<open>
The monitor of the speech service and the alert pages (src/server/system_alerts.go): one check of the health
endpoint is a step on the state of the monitor. What the network answers is a parameter of the step, the ticker that
repeats it and the log are not modelled.
\<close>

section \<open>The health of the speech service\<close>

definition alertKeyTTSUpstream :: string where "alertKeyTTSUpstream = ''tts.upstream''"
definition alertKeyTTSService :: string where "alertKeyTTSService = ''tts.service''"
definition ttsUnreachableThreshold :: int where "ttsUnreachableThreshold = 3"
definition systemAlertsPageLimit :: int where "systemAlertsPageLimit = 200"

record ttsHealth =
  tts_Status :: string
  tts_ConsecutiveFailures :: int
  tts_FailingSince :: f64
  tts_LastSuccessAt :: f64
  tts_LastError :: string
  tts_EdgeTTSVersion :: string

text \<open>A number that \<open>strconv.ParseFloat\<close> (the parameter \<open>pf\<close>) cannot represent is an error.\<close>

fun set_float :: "(string \<Rightarrow> f64 option) \<Rightarrow> json \<Rightarrow> f64 \<Rightarrow> f64 option" where
  "set_float pf (JNum l) x = pf l"
| "set_float pf JNull x = Some x"
| "set_float pf v x = None"

definition health_target :: "(string \<Rightarrow> f64 option) \<Rightarrow> (string \<times> json) list \<Rightarrow> ttsHealth option" where
  "health_target pf kvs =
    Option.bind (fill set_string ''status'' kvs '''') (\<lambda>status.
    Option.bind (fill set_int ''consecutive_failures'' kvs 0) (\<lambda>failures.
    Option.bind (fill (set_float pf) ''failing_since'' kvs 0) (\<lambda>since.
    Option.bind (fill (set_float pf) ''last_success_at'' kvs 0) (\<lambda>success.
    Option.bind (fill set_string ''last_error'' kvs '''') (\<lambda>lastError.
    Option.bind (fill set_string ''edge_tts_version'' kvs '''') (\<lambda>version.
    Some \<lparr>tts_Status = status, tts_ConsecutiveFailures = failures, tts_FailingSince = since, tts_LastSuccessAt = success,
      tts_LastError = lastError, tts_EdgeTTSVersion = version\<rparr>))))))"

definition health_names :: "string list" where
  "health_names = [''status'', ''consecutive_failures'', ''failing_since'', ''last_success_at'', ''last_error'', ''edge_tts_version'']"

definition newTTSMonitor :: "string \<Rightarrow> monitor" where
  "newTTSMonitor url = \<lparr>mon_url = url, mon_unreachable = 0, mon_unreachableSince = 0, mon_unsupportedLogged = False\<rparr>"

text \<open>What a request to the service ends in: an error of the client, or a status and a body with the text of the
  error the JSON decoder reports when it cannot read it. \<open>fetch\<close> gives the health, or the error: \<open>None\<close> is
  \<open>errTTSHealthUnsupported\<close>.\<close>

datatype tts_reply = TtsError string | TtsAnswer nat string string

definition fetch :: "(string \<Rightarrow> f64 option) \<Rightarrow> tts_reply \<Rightarrow> string option + ttsHealth" where
  "fetch pf reply = (case reply of
      TtsError x \<Rightarrow> Inl (Some x)
    | TtsAnswer status body x \<Rightarrow>
        if status = 404 then Inl None
        else if status \<noteq> 200 then Inl (Some (''health check returned HTTP '' @ show_nat status))
        else (case Option.bind (map_option fst (json_first (take (64 * 1024) body)))
              (\<lambda>v. Option.bind (members False health_names v) (health_target pf)) of
            None \<Rightarrow> Inl (Some (''read health response: '' @ x))
          | Some health \<Rightarrow> Inr health))"

text \<open>\<open>int64(x)\<close> of a \<open>float64\<close>: towards zero, and the least number when it does not fit (on amd64).\<close>

definition f64_trunc :: "f64 \<Rightarrow> int" where
  "f64_trunc x =
    (let bits = unat x mod 2 ^ 63; ex = bits div 2 ^ 52; frac = bits mod 2 ^ 52;
         n = (if ex = 0 then 0 else if 1075 \<le> ex then (2 ^ 52 + frac) * 2 ^ (ex - 1075) else (2 ^ 52 + frac) div 2 ^ (1075 - ex))
     in if 1086 \<le> ex then - (2 ^ 63) else if 2 ^ 63 \<le> unat x then - int n else int n)"

definition unixFloat :: "f64 \<Rightarrow> gotime" where
  "unixFloat x = time_of_unix (f64_trunc x)"

definition formatAlertTime :: "(string \<Rightarrow> gotime \<Rightarrow> string) \<Rightarrow> gotime \<Rightarrow> string" where
  "formatAlertTime fmt t = fmt ''2006-01-02 15:04 MST'' t"

definition newline :: string where "newline = [CHR 0x0A]"

definition ttsFailingDetails :: "(string \<Rightarrow> gotime \<Rightarrow> string) \<Rightarrow> ttsHealth \<Rightarrow> string" where
  "ttsFailingDetails fmt h =
    (let lastSuccess = (if f64_less 0 (tts_LastSuccessAt h) then formatAlertTime fmt (unixFloat (tts_LastSuccessAt h))
       else ''none since the TTS service started'') in
     ''Microsoft Edge neural speech synthesis has failed '' @ show_int (tts_ConsecutiveFailures h) @ '' times in a row since '' @
     formatAlertTime fmt (unixFloat (tts_FailingSince h)) @ '' (last success: '' @ lastSuccess @ '').'' @ newline @
     ''Readers hear the browser'' @ [CHR 0x27] @ ''s built-in fallback voice, and their voice setting is ignored. Passages already in the TTS cache still play normally.'' @
     newline @ newline @ ''Last error: '' @ tts_LastError h @ newline @
     (if tts_EdgeTTSVersion h \<noteq> '''' then ''edge-tts version: '' @ tts_EdgeTTSVersion h @ newline else '''') @
     (if contains (tts_LastError h) ''403'' then newline @
       ''A 403 from speech.platform.bing.com usually means Microsoft changed its Edge TTS token. Upgrade edge-tts in the TTS virtual environment and restart bookbrowser-tts (see current_deployment.md).'' @ newline
      else '''') @
     newline @ ''This alert closes automatically once synthesis succeeds again.'')"

definition ttsUnreachableDetails :: "(string \<Rightarrow> gotime \<Rightarrow> string) \<Rightarrow> monitor \<Rightarrow> string \<Rightarrow> string" where
  "ttsUnreachableDetails fmt m x =
    ''BookBrowser has not reached the text-to-speech service at '' @ mon_url m @ '' for '' @ show_int (mon_unreachable m) @
    '' consecutive checks since '' @ formatAlertTime fmt (mon_unreachableSince m) @ ''.'' @ newline @
    ''Readers hear the browser'' @ [CHR 0x27] @ ''s built-in fallback voice, and their voice setting is ignored.'' @ newline @ newline @
    ''Last error: '' @ x @ newline @ newline @
    ''Check the bookbrowser-tts service and its log. This alert closes automatically once the service answers again.''"

definition raiseSystemAlert :: "env \<Rightarrow> string \<Rightarrow> string \<Rightarrow> string \<Rightarrow> string \<Rightarrow> unit act" where
  "raiseSystemAlert e key source title details = do { _ \<leftarrow> store (RaiseSystemAlert e key source title details); give () }"

definition resolveSystemAlert :: "env \<Rightarrow> string \<Rightarrow> string \<Rightarrow> unit act" where
  "resolveSystemAlert e key resolution = do { _ \<leftarrow> store (ResolveSystemAlert e key resolution); give () }"

definition checkTTSHealth :: "(string \<Rightarrow> f64 option) \<Rightarrow> env \<Rightarrow> tts_reply \<Rightarrow> monitor \<Rightarrow> monitor act" where
  "checkTTSHealth pf e reply m = do {
    fmt \<leftarrow> field sv_format;
    case fetch pf reply of
      Inl None \<Rightarrow> do {
        _ \<leftarrow> resolveSystemAlert e alertKeyTTSService ''The text-to-speech service is answering again.'';
        give (m\<lparr>mon_unsupportedLogged := True, mon_unreachable := 0\<rparr>)
      }
    | Inl (Some x) \<Rightarrow> do {
        let m = (if mon_unreachable m = 0 then m\<lparr>mon_unreachableSince := now e\<rparr> else m);
        let m = m\<lparr>mon_unreachable := mon_unreachable m + 1\<rparr>;
        _ \<leftarrow> (if ttsUnreachableThreshold \<le> mon_unreachable m
              then raiseSystemAlert e alertKeyTTSService ''tts'' ''Text-to-speech service is unreachable'' (ttsUnreachableDetails fmt m x)
              else give ());
        give m
      }
    | Inr health \<Rightarrow> do {
        _ \<leftarrow> resolveSystemAlert e alertKeyTTSService ''The text-to-speech service is answering again.'';
        _ \<leftarrow> (if tts_Status health = ''failing''
              then raiseSystemAlert e alertKeyTTSUpstream ''tts'' ''Neural text-to-speech is failing'' (ttsFailingDetails fmt health)
              else if tts_Status health = ''ok''
              then resolveSystemAlert e alertKeyTTSUpstream ''Neural speech synthesis is succeeding again.''
              else give ());
        give (m\<lparr>mon_unreachable := 0\<rparr>)
      }
  }"

section \<open>The pages of the alerts\<close>

definition alert_row_view :: "(string \<Rightarrow> gotime \<Rightarrow> string) \<Rightarrow> SystemAlert \<Rightarrow> (string \<times> val) list" where
  "alert_row_view fmt a =
    [(''SystemAlert'', VAlert a), (''Unread'', VBool (al_AcknowledgedAt a = None)),
     (''FirstSeenText'', VStr (fmt ''2006-01-02 15:04'' (al_FirstSeenAt a))), (''LastSeenText'', VStr (fmt ''2006-01-02 15:04'' (al_LastSeenAt a))),
     (''ResolvedText'', VStr (case al_ResolvedAt a of None \<Rightarrow> '''' | Some t \<Rightarrow> fmt ''2006-01-02 15:04'' t)),
     (''ReadText'', VStr (case al_AcknowledgedAt a of None \<Rightarrow> '''' | Some t \<Rightarrow> fmt ''2006-01-02 15:04'' t))]"

definition handleAdminSystemAlerts :: "env \<Rightarrow> request \<Rightarrow> response act" where
  "handleAdminSystemAlerts e r = do {
    found \<leftarrow> store (SystemAlerts systemAlertsPageLimit);
    case found of
      Inl _ \<Rightarrow> message_page e r 500 ''System alerts error'' ''Could not load system alerts'' ''The system alert list could not be read.''
    | Inr als \<Rightarrow> do {
        fmt \<leftarrow> field sv_format;
        v \<leftarrow> field sv_version;
        renderPage e r 200 ''admin_system'' (titles v ''System alerts'' '''' @
          [(''Alerts'', VRows (map (alert_row_view fmt) als)),
           (''Unread'', VInt (int (length (filter (\<lambda>a. al_AcknowledgedAt a = None) als))))] @ saved_and_error r)
      }
  }"

definition alerts_error :: "string \<Rightarrow> response" where
  "alerts_error message = redirect 303 (''/admin/system?error='' @ urlQuery message)"

definition handleAdminSystemAlertsRead :: "env \<Rightarrow> request \<Rightarrow> response act" where
  "handleAdminSystemAlertsRead e r =
    (if \<not> verifyCSRF r then give invalid_csrf
     else if \<not> ParseForm_again r then give (alerts_error ''The form could not be read.'')
     else do {
       user \<leftarrow> currentUser e r;
       case user of
         None \<Rightarrow> give panic
       | Some u \<Rightarrow>
           if FormValue r ''all'' = ''1'' then do {
             read \<leftarrow> store (AcknowledgeAllSystemAlerts e (user_ID u));
             give (case read of Inl _ \<Rightarrow> alerts_error ''The alerts could not be updated.'' | Inr _ \<Rightarrow> redirect 303 ''/admin/system?saved=1'')
           }
           else do {
             read \<leftarrow> store (AcknowledgeSystemAlert e (FormValue r ''alert_id'') (user_ID u));
             give (case read of Inl x \<Rightarrow> alerts_error (error_text x) | Inr _ \<Rightarrow> redirect 303 ''/admin/system?saved=1'')
           }
     })"

section \<open>The monitor\<close>

definition tts_failed :: "(string \<Rightarrow> f64 option) \<Rightarrow> tts_reply \<Rightarrow> bool" where
  "tts_failed pf reply \<longleftrightarrow> (\<exists>x. fetch pf reply = Inl (Some x))"

fun monitor_run :: "(string \<Rightarrow> f64 option) \<Rightarrow> (env \<times> tts_reply) list \<Rightarrow> monitor \<Rightarrow> monitor act" where
  "monitor_run pf [] m = give m"
| "monitor_run pf ((e, reply) # cs) m = do { m' \<leftarrow> checkTTSHealth pf e reply m; monitor_run pf cs m' }"

definition failures_at_end :: "(string \<Rightarrow> f64 option) \<Rightarrow> (env \<times> tts_reply) list \<Rightarrow> nat" where
  "failures_at_end pf cs = length (takeWhile (\<lambda>c. tts_failed pf (snd c)) (rev cs))"

lemma run_check_failed:
  assumes "fetch pf reply = Inl (Some x)"
  shows "run_state (checkTTSHealth pf e reply m) s =
    (let m' = m\<lparr>mon_unreachable := mon_unreachable m + 1,
        mon_unreachableSince := (if mon_unreachable m = 0 then now e else mon_unreachableSince m)\<rparr>
     in (m', if ttsUnreachableThreshold \<le> mon_unreachable m + 1
       then snd (run_state (raiseSystemAlert e alertKeyTTSService ''tts'' ''Text-to-speech service is unreachable''
         (ttsUnreachableDetails (sv_format s) m' x)) s) else s))"
  using assms unfolding checkTTSHealth_def Let_def by (cases m) (auto split: prod.splits)

lemma check_count:
  assumes "run_state (checkTTSHealth pf e reply m) s = (m', s')"
  shows "mon_unreachable m' = (if tts_failed pf reply then mon_unreachable m + 1 else 0) \<and> mon_url m' = mon_url m"
proof (cases "fetch pf reply")
  case (Inl y)
  show ?thesis
  proof (cases y)
    case None
    then show ?thesis using assms Inl unfolding checkTTSHealth_def tts_failed_def by (auto split: prod.splits)
  next
    case (Some x)
    then show ?thesis using assms Inl run_check_failed [of pf reply x e m s] by (auto simp: tts_failed_def Let_def)
  qed
next
  case (Inr h)
  then show ?thesis using assms unfolding checkTTSHealth_def tts_failed_def by (auto split: prod.splits)
qed

lemma failures_at_end_append:
  "failures_at_end pf (cs @ [(e, reply)]) = (if tts_failed pf reply then Suc (failures_at_end pf cs) else 0)"
  by (simp add: failures_at_end_def)

lemma monitor_run_append:
  "run_state (monitor_run pf (cs @ ds) m) s = (case run_state (monitor_run pf cs m) s of (m', s') \<Rightarrow> run_state (monitor_run pf ds m') s')"
  by (induction pf cs m arbitrary: s rule: monitor_run.induct) (auto split: prod.splits)

lemma monitor_count:
  assumes "run_state (monitor_run pf cs (newTTSMonitor url)) s = (m, s')"
  shows "mon_unreachable m = int (failures_at_end pf cs) \<and> mon_url m = url"
  using assms
proof (induction cs arbitrary: m s' rule: rev_induct)
  case Nil
  then show ?case by (auto simp: failures_at_end_def newTTSMonitor_def)
next
  case (snoc c cs)
  obtain e reply where c: "c = (e, reply)" by fastforce
  obtain m1 s1 where r: "run_state (monitor_run pf cs (newTTSMonitor url)) s = (m1, s1)" by fastforce
  with snoc.prems c have "run_state (checkTTSHealth pf e reply m1) s1 = (m, s')"
    by (auto simp: monitor_run_append split: prod.splits)
  from check_count [OF this] snoc.IH [OF r] c show ?case by (simp add: failures_at_end_append)
qed

text \<open>Whatever the speech service answered before, the monitor changes nothing when a check fails until the third
  failure in a row: it rides out an ordinary restart. From the third on it raises the alert of the service, with
  the number of failures in a row.\<close>

theorem alert_waits_for_third_failure:
  assumes "run_state (monitor_run pf cs (newTTSMonitor url)) s = (m, s1)"
    and "run_state (checkTTSHealth pf e reply m) s1 = (m', s2)"
    and "tts_failed pf reply"
  shows "if failures_at_end pf cs < 2 then s2 = s1
    else \<exists>details. run_state (raiseSystemAlert e alertKeyTTSService ''tts'' ''Text-to-speech service is unreachable'' details) s1 = ((), s2) \<and>
      (\<exists>t x. details = ttsUnreachableDetails (sv_format s1)
        \<lparr>mon_url = url, mon_unreachable = int (failures_at_end pf cs) + 1, mon_unreachableSince = t, mon_unsupportedLogged = mon_unsupportedLogged m\<rparr> x)"
proof -
  obtain x where x: "fetch pf reply = Inl (Some x)" using assms(3) by (auto simp: tts_failed_def)
  have n: "mon_unreachable m = int (failures_at_end pf cs)" "mon_url m = url" using monitor_count [OF assms(1)] by auto
  define t where "t = (if mon_unreachable m = 0 then now e else mon_unreachableSince m)"
  let ?m = "\<lparr>mon_url = url, mon_unreachable = int (failures_at_end pf cs) + 1, mon_unreachableSince = t,
    mon_unsupportedLogged = mon_unsupportedLogged m\<rparr>"
  have m: "m\<lparr>mon_unreachable := mon_unreachable m + 1, mon_unreachableSince := t\<rparr> = ?m" using n by (cases m) simp
  have s2: "s2 = (if ttsUnreachableThreshold \<le> mon_unreachable m + 1
      then snd (run_state (raiseSystemAlert e alertKeyTTSService ''tts'' ''Text-to-speech service is unreachable''
        (ttsUnreachableDetails (sv_format s1) ?m x)) s1) else s1)"
    using assms(2) unfolding run_check_failed [OF x] Let_def t_def [symmetric] m by simp
  have "run_state (raiseSystemAlert e k a b d) s1 = ((), snd (run_state (raiseSystemAlert e k a b d) s1))" for k a b d
    by (simp add: prod_eq_iff)
  then show ?thesis using s2 n by (auto simp: ttsUnreachableThreshold_def)
qed

theorem alert_waits_for_third_failure_witness:
  "let fs = [(ex_env, TtsError ''refused''), (ex_env, TtsError ''refused'')]; s = ex_server initial_db;
       r = run_state (monitor_run (\<lambda>_. None) (take 1 fs) (newTTSMonitor ''http://tts/health'')) s
   in snd (run_state (checkTTSHealth (\<lambda>_. None) ex_env (TtsError ''refused'') (fst r)) (snd r)) = snd r"
  using alert_waits_for_third_failure [where pf = "\<lambda>_. None" and cs = "[(ex_env, TtsError ''refused'')]" and url = "''http://tts/health''"
    and s = "ex_server initial_db" and e = ex_env and reply = "TtsError ''refused''", OF surjective_pairing surjective_pairing]
  by (simp add: tts_failed_def fetch_def failures_at_end_def)

end
