(* ===== verification/ApiCatalogue.thy ===== *)
theory ApiCatalogue
  imports WebAlerts
begin

text \<open>
The JSON API of the library (src/server/api_books.go), of its administration (src/server/api_admin.go), and the web
app manifest (src/server/manifest.go).
\<close>

section \<open>Books as JSON\<close>

text \<open>The zero \<open>time.Time\<close>, and a \<open>float64\<close> JSON can represent: the encoder refuses NaN and the infinities, and the
  reply is then sent with its status and an empty body.\<close>

definition zero_time :: gotime where "zero_time = seconds (- 62135596800)"

definition f64_finite :: "f64 \<Rightarrow> bool" where
  "f64_finite x \<longleftrightarrow> unat x mod 2 ^ 63 < 0x7FF0000000000000"

definition send_books :: "nat \<Rightarrow> Book list \<Rightarrow> json \<Rightarrow> response" where
  "send_books status bl v = (if list_all (\<lambda>b. f64_finite (bk_SeriesIndex b)) bl then writeAPIJSON status v
    else (writeAPIJSON status v)\<lparr>rp_body := NoBody\<rparr>)"

definition newAPIBook :: "(nat \<Rightarrow> nat) \<Rightarrow> Book \<Rightarrow> json" where
  "newAPIBook lw b = JObj ([(''id'', JStr (book_ID b)), (''title'', JStr (bk_Title b)), (''author'', JStr (bk_Author b)),
    (''description'', JStr (bk_Description b)), (''series'', JStr (bk_Series b)), (''series_index'', JFloat (bk_SeriesIndex b)),
    (''publisher'', JStr (bk_Publisher b)), (''isbn'', JStr (bk_ISBN b))] @
    (if bk_PublishDate b = zero_time then [] else [(''publish_date'', JTime (bk_PublishDate b))]) @
    [(''format'', JStr (FileType lw b)), (''file_size'', JInt (bk_FileSize b)), (''modified_at'', JTime (bk_ModTime b)),
     (''has_cover'', JBool (bk_HasCover b))])"

text \<open>\<open>None\<close> is the error; a maximum of zero is none.\<close>

definition parsePageValue :: "request \<Rightarrow> string \<Rightarrow> int \<Rightarrow> int \<Rightarrow> int option" where
  "parsePageValue r name defaultValue largest =
    (let raw = trim_space (query_value r name) in
     if raw = '''' then Some defaultValue
     else (case atoi raw of None \<Rightarrow> None
       | Some value \<Rightarrow> if value < 0 \<or> (0 < largest \<and> largest < value) then None else Some value))"

definition containsFold :: "(nat \<Rightarrow> nat) \<Rightarrow> string \<Rightarrow> string \<Rightarrow> bool" where
  "containsFold lw value q = contains (to_lower lw value) (to_lower lw (trim_space q))"

definition api_match :: "(nat \<Rightarrow> nat) \<Rightarrow> string \<Rightarrow> string \<Rightarrow> string \<Rightarrow> string \<Rightarrow> Book \<Rightarrow> bool" where
  "api_match lw q author series format b =
    (if q \<noteq> '''' \<and> \<not> containsFold lw (bk_Title b) q \<and> \<not> containsFold lw (bk_Author b) q \<and>
        \<not> containsFold lw (bk_Series b) q \<and> \<not> containsFold lw (bk_Description b) q then False
     else if author \<noteq> '''' \<and> \<not> containsFold lw (bk_Author b) author then False
     else if series \<noteq> '''' \<and> \<not> containsFold lw (bk_Series b) series then False
     else format = '''' \<or> FileType lw b = format)"

definition page_of :: "int \<Rightarrow> int \<Rightarrow> 'a list \<Rightarrow> 'a list" where
  "page_of offset limit xs =
    (let total = int (length xs);
         start = (if total < offset then total else offset);
         fin = (if total < start + limit then total else start + limit)
     in take (nat (fin - start)) (drop (nat start) xs))"

definition handleAPIBooks :: "env \<Rightarrow> request \<Rightarrow> response act" where
  "handleAPIBooks e r = (case parsePageValue r ''limit'' 50 200 of
      None \<Rightarrow> give (writeAPIError 400 ''invalid_limit'' ''limit must be between 1 and 200.'')
    | Some limit \<Rightarrow>
        if limit < 1 then give (writeAPIError 400 ''invalid_limit'' ''limit must be between 1 and 200.'')
        else (case parsePageValue r ''offset'' 0 0 of
            None \<Rightarrow> give (writeAPIError 400 ''invalid_offset'' ''offset must be zero or greater.'')
          | Some offset \<Rightarrow> do {
              bl \<leftarrow> books;
              let format = to_lower (low e) (trim_space (query_value r ''format''));
              let found = Filtered (api_match (low e) (query_value r ''q'') (query_value r ''author'') (query_value r ''series'') format) bl;
              let name = trim_space (query_value r ''sort'');
              give (case SortBy (low e) (if name = '''' then ''modified-desc'' else name) found of
                  (_, False) \<Rightarrow> writeAPIError 400 ''invalid_sort'' ''The requested book sort is not supported.''
                | (shown, True) \<Rightarrow> send_books 200 (page_of offset limit shown) (JObj [
                    (''items'', JArr (map (newAPIBook (low e)) (page_of offset limit shown))), (''limit'', JInt limit),
                    (''offset'', JInt offset), (''total'', JInt (int (length shown)))]))
            }))"

definition handleAPIBook :: "env \<Rightarrow> request \<Rightarrow> response act" where
  "handleAPIBook e r = do {
    found \<leftarrow> find_book (param r ''id'');
    give (case found of
        None \<Rightarrow> writeAPIError 404 ''book_not_found'' ''Book not found.''
      | Some b \<Rightarrow> send_books 200 [b] (JObj [(''book'', newAPIBook (low e) b)]))
  }"

section \<open>Downloads\<close>

text \<open>\<open>mime.FormatMediaType\<close> of an attachment with a file name: a token as it is, ASCII in quotation marks, anything
  else in the encoding of RFC 2231.\<close>

definition tspecial :: "char \<Rightarrow> bool" where
  "tspecial c \<longleftrightarrow> c \<in> set ''()<>@,;:/[]?='' \<or> c = CHR 0x5C \<or> c = CHR 0x22"

definition token_byte :: "char \<Rightarrow> bool" where
  "token_byte c \<longleftrightarrow> 0x20 < (of_char c :: nat) \<and> (of_char c :: nat) < 0x7F \<and> \<not> tspecial c"

definition attachment :: "string \<Rightarrow> string" where
  "attachment name =
    (if list_ex (\<lambda>c. ((of_char c :: nat) < 0x20 \<or> 0x7E < (of_char c :: nat)) \<and> c \<noteq> CHR 0x09) name then
       ''attachment; filename*=utf-8'' @ [CHR 0x27, CHR 0x27] @
       concat (map (\<lambda>c. if \<not> token_byte c \<or> c = CHR ''*'' \<or> c = CHR 0x27 \<or> c = CHR ''%'' then percent c else [c]) name)
     else if name \<noteq> '''' \<and> list_all token_byte name then ''attachment; filename='' @ name
     else ''attachment; filename='' @ [CHR 0x22] @
       concat (map (\<lambda>c. if c = CHR 0x22 \<or> c = CHR 0x5C then [CHR 0x5C, c] else [c]) name) @ [CHR 0x22])"

definition api_content_type :: "string \<Rightarrow> string" where
  "api_content_type ft = (if ft = ''epub'' then ''application/epub+zip'' else if ft = ''pdf'' then ''application/pdf''
    else ''application/octet-stream'')"

definition download_name :: "(nat \<Rightarrow> nat) \<Rightarrow> Book \<Rightarrow> string" where
  "download_name lw b =
    (let name = safeUploadName (bk_Title b) in (if name = '''' then ''book-'' @ book_ID b else name) @ ''.'' @ FileType lw b)"

definition handleAPIBookDownload :: "env \<Rightarrow> request \<Rightarrow> response act" where
  "handleAPIBookDownload e r = do {
    found \<leftarrow> find_book (param r ''id'');
    case found of
      None \<Rightarrow> give (writeAPIError 404 ''book_not_found'' ''Book not found.'')
    | Some b \<Rightarrow> do {
        file \<leftarrow> disk (read_file (bk_FilePath b));
        case file of
          Inl _ \<Rightarrow> give (writeAPIError 500 ''download_failed'' ''The book file could not be opened.'')
        | Inr bytes \<Rightarrow> do {
            info \<leftarrow> disk tick;
            give (case info of
                Inl _ \<Rightarrow> writeAPIError 500 ''download_failed'' ''The book file could not be inspected.''
              | Inr _ \<Rightarrow> \<lparr>rp_status = 200, rp_location = None,
                  rp_headers = [(''Content-Disposition'', attachment (path_base (download_name (low e) b))),
                    (''Content-Type'', api_content_type (FileType (low e) b)), (''X-Content-Type-Options'', ''nosniff'')],
                  rp_cookies = [], rp_body = File bytes\<rparr>)
          }
      }
  }"

section \<open>The library\<close>

text \<open>\<open>float64(a) / float64(b)\<close> for a positive quotient of at most one, rounded to nearest, ties to even.\<close>

definition f64_ratio :: "nat \<Rightarrow> nat \<Rightarrow> f64" where
  "f64_ratio a b = (if a = 0 then 0 else
    (let k = 52 + (bit_len b - bit_len a);
         ex = (if a * 2 ^ k < b * 2 ^ 52 then k + 1 else k);
         q = a * 2 ^ ex div b; r = a * 2 ^ ex mod b;
         m = (if b < 2 * r \<or> (b = 2 * r \<and> odd q) then q + 1 else q)
     in of_nat ((1075 - ex) * 2 ^ 52 + m - 2 ^ 52)))"

definition ProgressValue :: "indexer \<Rightarrow> f64" where
  "ProgressValue ix = (case ix_progress ix of None \<Rightarrow> 0 | Some (a, b) \<Rightarrow> f64_ratio a b)"

definition handleAPILibraryStatus :: "response act" where
  "handleAPILibraryStatus = do {
    last \<leftarrow> field sv_last_index_at;
    problem \<leftarrow> field sv_last_index_error;
    progress \<leftarrow> field (\<lambda>s. ProgressValue (sv_index s));
    bl \<leftarrow> books;
    give (writeAPIJSON 200 (JObj [(''indexing'', JBool (progress \<noteq> 0)), (''progress'', JFloat progress),
      (''book_count'', JInt (int (length bl))), (''last_completed_at'', JTime (case last of None \<Rightarrow> zero_time | Some t \<Rightarrow> t)),
      (''last_error'', JStr problem)]))
  }"

definition operation_error :: "library_error \<Rightarrow> response" where
  "operation_error x = writeAPIError (le_Status x) (le_Code x) (le_Message x)"

definition handleAPILibraryUpload :: "env \<Rightarrow> conversion \<Rightarrow> request \<Rightarrow> response act" where
  "handleAPILibraryUpload e conv r = (case rq_multipart r of
      None \<Rightarrow> give (writeAPIError 413 ''book_too_large'' ''The upload is invalid or exceeds 256 MiB.'')
    | Some None \<Rightarrow> give (writeAPIError 400 ''book_required'' ''Choose an ebook file to upload.'')
    | Some (Some file) \<Rightarrow> do {
        stored \<leftarrow> upload_book e conv file;
        case stored of
          Inl x \<Rightarrow> give (operation_error x)
        | Inr (name, n) \<Rightarrow> do {
            _ \<leftarrow> start_refresh;
            give (writeAPIJSON 201 (JObj [(''uploaded'', JBool True), (''filename'', JStr name), (''size'', JInt (int n))]))
          }
      })"

definition handleAPILibraryRemove :: "env \<Rightarrow> request \<Rightarrow> response act" where
  "handleAPILibraryRemove e r = do {
    removed \<leftarrow> remove_book e (param r ''id'');
    case removed of
      Inl x \<Rightarrow> give (operation_error x)
    | Inr trash \<Rightarrow> do {
        _ \<leftarrow> start_refresh;
        give (writeAPIJSON 200 (JObj [(''removed'', JBool True), (''recoverable'', JBool True), (''trash_name'', JStr (path_base trash))]))
      }
  }"

definition handleAPILibraryRescan :: "response act" where
  "handleAPILibraryRescan = do { _ \<leftarrow> start_refresh; give (writeAPIJSON 202 (json_flags [''started''])) }"

section \<open>Accounts\<close>

definition newAPIAdminUser :: "User \<Rightarrow> json" where
  "newAPIAdminUser u = JObj (newAPIUser u @ [(''last_ip'', JStr (user_LastIP u)), (''created_at'', JTime (user_CreatedAt u)),
    (''updated_at'', JTime (user_UpdatedAt u))] @ optional_time ''last_login_at'' (user_LastLoginAt u) @
    [(''has_password'', JBool (user_PasswordHash u \<noteq> '''')), (''has_google'', JBool (user_GoogleSubject u \<noteq> ''''))])"

definition handleAPIUsers :: "response act" where
  "handleAPIUsers = do {
    found \<leftarrow> store Users;
    give (case found of
        Inl _ \<Rightarrow> writeAPIError 500 ''user_list_failed'' ''Users could not be loaded.''
      | Inr us \<Rightarrow> writeAPIJSON 200 (JObj [(''users'', JArr (map newAPIAdminUser us))]))
  }"

definition with_user :: "string \<Rightarrow> (User \<Rightarrow> response act) \<Rightarrow> response act" where
  "with_user i f = do {
    found \<leftarrow> store (UserByID i);
    case found of
      Inl _ \<Rightarrow> give (writeAPIError 500 ''user_load_failed'' ''The user could not be loaded.'')
    | Inr None \<Rightarrow> give (writeAPIError 404 ''user_not_found'' ''User not found.'')
    | Inr (Some u) \<Rightarrow> f u
  }"

definition handleAPIUser :: "request \<Rightarrow> response act" where
  "handleAPIUser r = with_user (param r ''id'') (\<lambda>u. give (writeAPIJSON 200 (JObj [(''user'', newAPIAdminUser u)])))"

definition update_target :: "(string \<times> json) list \<Rightarrow> (string option \<times> bool option) option" where
  "update_target kvs = Option.bind (fill set_string_ptr ''role'' kvs None) (\<lambda>role.
    Option.bind (fill set_bool_ptr ''active'' kvs None) (\<lambda>active. Some (role, active)))"

definition handleAPIUserUpdate :: "env \<Rightarrow> request \<Rightarrow> response act" where
  "handleAPIUserUpdate e r = (case decodeAPIJSON [''role'', ''active''] update_target r of
      Inl p \<Rightarrow> give p
    | Inr (role, active) \<Rightarrow> with_user (param r ''id'') (\<lambda>u.
        if role = None \<and> active = None then give (writeAPIError 400 ''empty_update'' ''Supply role or active.'')
        else do {
          updated \<leftarrow> store (UpdateUser e (user_ID u) (case role of None \<Rightarrow> user_Role u | Some x \<Rightarrow> x)
            (case active of None \<Rightarrow> user_Active u | Some x \<Rightarrow> x));
          give (case updated of
              Inl x \<Rightarrow> writeAPIStoreError x
            | Inr u' \<Rightarrow> writeAPIJSON 200 (JObj [(''user'', newAPIAdminUser u')]))
        }))"

definition handleAPIUserPassword :: "env \<Rightarrow> request \<Rightarrow> response act" where
  "handleAPIUserPassword e r = (case decodeAPIJSON [''password''] (string_field ''password'') r of
      Inl p \<Rightarrow> give p
    | Inr password \<Rightarrow>
        if length password < 10 then give (writeAPIError 400 ''password_too_short'' ''Password must contain at least 10 characters.'')
        else with_user (param r ''id'') (\<lambda>_. do {
          changed \<leftarrow> store (SetPassword e (param r ''id'') password);
          give (case changed of
              Inl x \<Rightarrow> writeAPIStoreError x
            | Inr _ \<Rightarrow> writeAPIJSON 200 (json_flags [''password_updated'', ''sessions_revoked'', ''tokens_revoked'']))
        }))"

section \<open>Settings\<close>

definition handleAPISettings :: "response act" where
  "handleAPISettings = do {
    settings \<leftarrow> store GetSettings;
    give (case settings of
        Inl _ \<Rightarrow> writeAPIError 500 ''settings_load_failed'' ''Settings could not be loaded.''
      | Inr s \<Rightarrow> writeAPIJSON 200 (JObj [(''settings'', json_settings s)]))
  }"

record settings_input =
  si_SiteName :: "string option"
  si_PWAName :: "string option"
  si_RegistrationOpen :: "bool option"
  si_AnonymousBookLinks :: "bool option"

definition settings_target :: "(string \<times> json) list \<Rightarrow> settings_input option" where
  "settings_target kvs = Option.bind (fill set_string_ptr ''site_name'' kvs None) (\<lambda>a.
    Option.bind (fill set_string_ptr ''pwa_name'' kvs None) (\<lambda>b. Option.bind (fill set_bool_ptr ''registration_open'' kvs None) (\<lambda>c.
    Option.bind (fill set_bool_ptr ''anonymous_book_links'' kvs None) (\<lambda>d.
    Some \<lparr>si_SiteName = a, si_PWAName = b, si_RegistrationOpen = c, si_AnonymousBookLinks = d\<rparr>))))"

definition changed_settings :: "settings_input \<Rightarrow> Settings \<Rightarrow> Settings" where
  "changed_settings i s =
    \<lparr>set_SiteName = (case si_SiteName i of None \<Rightarrow> set_SiteName s | Some x \<Rightarrow> x),
     set_PWAName = (case si_PWAName i of None \<Rightarrow> set_PWAName s | Some x \<Rightarrow> x),
     set_RegistrationOpen = (case si_RegistrationOpen i of None \<Rightarrow> set_RegistrationOpen s | Some x \<Rightarrow> x),
     set_AnonymousBookLinks = (case si_AnonymousBookLinks i of None \<Rightarrow> set_AnonymousBookLinks s | Some x \<Rightarrow> x)\<rparr>"

definition handleAPISettingsUpdate :: "request \<Rightarrow> response act" where
  "handleAPISettingsUpdate r =
    (case decodeAPIJSON [''site_name'', ''pwa_name'', ''registration_open'', ''anonymous_book_links''] settings_target r of
      Inl p \<Rightarrow> give p
    | Inr i \<Rightarrow>
        if si_SiteName i = None \<and> si_PWAName i = None \<and> si_RegistrationOpen i = None \<and> si_AnonymousBookLinks i = None
        then give (writeAPIError 400 ''empty_update'' ''Supply at least one setting.'')
        else do {
          settings \<leftarrow> store GetSettings;
          case settings of
            Inl _ \<Rightarrow> give (writeAPIError 500 ''settings_load_failed'' ''Settings could not be loaded.'')
          | Inr s \<Rightarrow> do {
              updated \<leftarrow> store (UpdateSettings (changed_settings i s));
              give (case updated of
                  Inl x \<Rightarrow> writeAPIError 400 ''invalid_settings'' (error_text x)
                | Inr _ \<Rightarrow> writeAPIJSON 200 (JObj [(''settings'', json_settings (changed_settings i s))]))
            }
        })"

section \<open>The web app manifest\<close>

definition json_strings :: "(string \<times> string) list \<Rightarrow> json" where
  "json_strings kvs = JObj (map (\<lambda>(k, v). (k, JStr v)) kvs)"

definition manifest_icon :: "string \<Rightarrow> string \<Rightarrow> string \<Rightarrow> json" where
  "manifest_icon source sizes purpose =
    json_strings [(''src'', source), (''sizes'', sizes), (''type'', ''image/png''), (''purpose'', purpose)]"

definition manifest_shortcut :: "string \<Rightarrow> string \<Rightarrow> string \<Rightarrow> string \<Rightarrow> json" where
  "manifest_shortcut name short description url =
    json_strings [(''name'', name), (''short_name'', short), (''description'', description), (''url'', url)]"

definition webManifest :: "string \<Rightarrow> json" where
  "webManifest name = JObj [(''id'', JStr ''/''), (''name'', JStr name), (''short_name'', JStr name),
    (''description'', JStr ''Browse, read, and listen to your ebook library.''), (''lang'', JStr ''en''), (''dir'', JStr ''ltr''),
    (''start_url'', JStr ''/books''), (''scope'', JStr ''/''), (''display'', JStr ''standalone''), (''orientation'', JStr ''any''),
    (''background_color'', JStr ''#061a36''), (''theme_color'', JStr ''#061a36''),
    (''categories'', JArr [JStr ''books'', JStr ''education'', JStr ''productivity'']),
    (''icons'', JArr [manifest_icon ''/static/icons/icon-192.png'' ''192x192'' ''any'',
      manifest_icon ''/static/icons/icon-512.png'' ''512x512'' ''any'', manifest_icon ''/static/icons/icon-192.png'' ''192x192'' ''maskable'',
      manifest_icon ''/static/icons/icon-512.png'' ''512x512'' ''maskable'']),
    (''shortcuts'', JArr [manifest_shortcut ''Books'' ''Books'' ''Browse the ebook library'' ''/books'',
      manifest_shortcut ''Search'' ''Search'' ''Search for an ebook'' ''/search'',
      manifest_shortcut ''Random book'' ''Random'' ''Open a random book'' ''/random''])]"

definition handleManifest :: "response act" where
  "handleManifest = do {
    settings \<leftarrow> authSettings;
    give \<lparr>rp_status = 200, rp_location = None, rp_headers = [(''Content-Type'', ''application/manifest+json; charset=utf-8''),
      (''Cache-Control'', ''no-cache'')], rp_cookies = [], rp_body = Json (webManifest (set_PWAName settings))\<rparr>
  }"

section \<open>Paging\<close>

lemma page_of_eq: "0 \<le> offset \<Longrightarrow> 0 \<le> limit \<Longrightarrow> page_of offset limit xs = take (nat limit) (drop (nat offset) xs)"
proof -
  assume n: "0 \<le> offset" "0 \<le> limit"
  show ?thesis
  proof (cases "int (length xs) < offset")
    case True
    then show ?thesis using n by (simp add: page_of_def Let_def)
  next
    case False
    then have "take (nat (int (length xs) - offset)) (drop (nat offset) xs) = drop (nat offset) xs" by simp
    moreover have "int (length xs) < offset + limit \<Longrightarrow> take (nat limit) (drop (nat offset) xs) = drop (nat offset) xs"
      using n by simp
    ultimately show ?thesis using False n by (simp add: page_of_def Let_def)
  qed
qed

text \<open>Consecutive pages of one size, put together, are the list from its start.\<close>

lemma pages_partition:
  assumes "0 \<le> limit"
  shows "concat (map (\<lambda>k. page_of (int k * limit) limit xs) [0..<m]) = take (m * nat limit) xs"
proof (induction m)
  case (Suc m)
  have "take (Suc m * nat limit) xs = take (m * nat limit) xs @ take (nat limit) (drop (m * nat limit) xs)"
    by (metis add.commute mult_Suc take_add)
  moreover have "nat (int m * limit) = m * nat limit" using assms by (simp add: nat_mult_distrib)
  ultimately show ?case using Suc assms by (simp add: page_of_eq)
qed simp

end
