(* ===== verification/JsonText.thy ===== *)
theory JsonText
  imports Json
begin

text \<open>
Strings as encoding/json writes them, and the proof that what was written is read back: the runes of the string, with
U+FFFD in the place of every byte that belongs to none.
\<close>

section \<open>Runes and their bytes\<close>

lemma two_bytes: "2 \<le> x \<Longrightarrow> x < 32 \<Longrightarrow> y < 64 \<Longrightarrow> encode_rune (x * 64 + y) = [char_of (0xC0 + x), char_of (0x80 + y)]"
  by (simp add: encode_rune_def)

lemma base64: "z < 64 \<Longrightarrow> (q * 64 + z) div 64 = q" "z < 64 \<Longrightarrow> (q * 64 + z) mod 64 = (z::nat)"
  by simp_all

lemma three_bytes:
  assumes "x < 16" "y < 64" "z < 64" "x = 0 \<Longrightarrow> 32 \<le> y" "x = 13 \<Longrightarrow> y < 32"
  shows "encode_rune (x * 4096 + y * 64 + z) = [char_of (0xE0 + x), char_of (0x80 + y), char_of (0x80 + z)]"
proof -
  let ?r = "x * 4096 + y * 64 + z"
  have d: "?r div 4096 = x" "?r div 64 mod 64 = y" "?r mod 64 = z"
  proof -
    have r: "?r = (x * 64 + y) * 64 + z" by simp
    have a: "?r div 64 = x * 64 + y" by (subst r) (rule base64(1) [OF assms(3)])
    have "?r div 4096 = ?r div 64 div 64" using div_mult2_eq [of ?r 64 64] by simp
    then show "?r div 4096 = x" "?r div 64 mod 64 = y" unfolding a using base64 [OF assms(2)] by simp_all
    show "?r mod 64 = z" by (subst r) (rule base64(2) [OF assms(3)])
  qed
  have "0x800 \<le> ?r" using assms(4) by (cases "x = 0") auto
  moreover have "?r < 0xD800 \<or> 0xDFFF < ?r"
  proof -
    consider "x \<le> 12" | "x = 13" | "14 \<le> x" by linarith
    then show ?thesis using assms by cases auto
  qed
  moreover have "?r < 0x10000" using assms by auto
  ultimately show ?thesis unfolding encode_rune_def using d by auto
qed

lemma four_bytes:
  assumes "x < 5" "y < 64" "z < 64" "u < 64" "x = 0 \<Longrightarrow> 16 \<le> y" "x = 4 \<Longrightarrow> y < 16"
  shows "encode_rune (x * 262144 + y * 4096 + z * 64 + u) =
    [char_of (0xF0 + x), char_of (0x80 + y), char_of (0x80 + z), char_of (0x80 + u)]"
proof -
  let ?r = "x * 262144 + y * 4096 + z * 64 + u"
  have d: "?r div 262144 = x" "?r div 4096 mod 64 = y" "?r div 64 mod 64 = z" "?r mod 64 = u"
  proof -
    have r: "?r = ((x * 64 + y) * 64 + z) * 64 + u" by simp
    have a: "?r div 64 = (x * 64 + y) * 64 + z" by (subst r) (rule base64(1) [OF assms(4)])
    have "?r div 4096 = ?r div 64 div 64" using div_mult2_eq [of ?r 64 64] by simp
    then have c: "?r div 4096 = x * 64 + y" unfolding a using base64(1) [OF assms(3)] by simp
    have "?r div 262144 = ?r div 4096 div 64" using div_mult2_eq [of ?r 4096 64] by simp
    then show "?r div 262144 = x" unfolding c using base64(1) [OF assms(2)] by simp
    show "?r div 4096 mod 64 = y" unfolding c by (rule base64(2) [OF assms(2)])
    show "?r div 64 mod 64 = z" unfolding a by (rule base64(2) [OF assms(3)])
    show "?r mod 64 = u" by (subst r) (rule base64(2) [OF assms(4)])
  qed
  have "0x10000 \<le> ?r" using assms(5) by (cases "x = 0") auto
  moreover have "?r \<le> 0x10FFFF"
  proof -
    consider "x \<le> 3" | "x = 4" using assms(1) by linarith
    then show ?thesis using assms by cases auto
  qed
  ultimately show ?thesis unfolding encode_rune_def using d by auto
qed

lemma byte_at_eq: "s ! i = char_of (of_char (s ! i) :: nat)"
  by simp

lemma decoded_bytes:
  assumes "decode_rune s = (r, w)" "s \<noteq> []" "\<not> (r = rune_error \<and> w = 1)"
  shows "take w s = encode_rune r"
proof -
  let ?b = "\<lambda>i. byte_at s i"
  have nb: "?b i < 256" for i by (rule of_char_less)
  define n where "n = rune_size (?b 0)"
  consider "n = 1" | "n = 2" | "n = 3" | "n = 4"
    using rune_size_cases [of "?b 0"] assms by (auto simp: decode_rune_def n_def Let_def)
  then show ?thesis
  proof cases
    case 1
    then have "r = ?b 0" "w = 1" "?b 0 < 0x80" using assms by (auto simp: decode_rune_def n_def Let_def rune_size_def split: if_splits)
    then show ?thesis using assms(2) by (cases s) (auto simp: encode_rune_def)
  next
    case 2
    then have l: "2 \<le> length s" and b: "0xC2 \<le> ?b 0" "?b 0 < 0xE0" "0x80 \<le> ?b 1" "?b 1 \<le> 0xBF" "w = 2"
      and r: "r = (?b 0 - 0xC0) * 64 + (?b 1 - 0x80)"
      using assms by (auto simp: decode_rune_def n_def Let_def rune_size_def accept_lo_def accept_hi_def split: if_splits)
    have "take 2 s = [s ! 0, s ! 1]" using l by (cases s; cases "tl s") (auto simp: numeral_nat)
    also have "\<dots> = [char_of (0xC0 + (?b 0 - 0xC0)), char_of (0x80 + (?b 1 - 0x80))]" using b by simp
    also have "\<dots> = encode_rune r" unfolding r using b by (intro two_bytes [symmetric]) auto
    finally show ?thesis using b by simp
  next
    case 3
    then have l: "3 \<le> length s" and b: "0xE0 \<le> ?b 0" "?b 0 < 0xF0" "0x80 \<le> ?b 1" "?b 1 \<le> 0xBF" "0x80 \<le> ?b 2" "?b 2 \<le> 0xBF" "w = 3"
      and lo: "?b 0 = 0xE0 \<Longrightarrow> 0xA0 \<le> ?b 1" "?b 0 = 0xED \<Longrightarrow> ?b 1 \<le> 0x9F"
      and r: "r = (?b 0 - 0xE0) * 4096 + (?b 1 - 0x80) * 64 + (?b 2 - 0x80)"
      using assms by (auto simp: decode_rune_def n_def Let_def rune_size_def accept_lo_def accept_hi_def cont_byte_def split: if_splits)
    have "take 3 s = [s ! 0, s ! 1, s ! 2]" using l by (cases s; cases "tl s"; cases "tl (tl s)") (auto simp: numeral_nat)
    also have "\<dots> = [char_of (0xE0 + (?b 0 - 0xE0)), char_of (0x80 + (?b 1 - 0x80)), char_of (0x80 + (?b 2 - 0x80))]" using b by simp
    also have "\<dots> = encode_rune r" unfolding r
    proof (rule three_bytes [symmetric])
      show "?b 1 - 0x80 < 32" if "?b 0 - 0xE0 = 13"
      proof -
        have "?b 0 = 0xED" using b that by linarith
        then show ?thesis using lo(2) b by linarith
      qed
    qed (use b lo in auto)
    finally show ?thesis using b by simp
  next
    case 4
    then have l: "4 \<le> length s" and b: "0xF0 \<le> ?b 0" "?b 0 < 0xF5" "0x80 \<le> ?b 1" "?b 1 \<le> 0xBF" "0x80 \<le> ?b 2" "?b 2 \<le> 0xBF"
        "0x80 \<le> ?b 3" "?b 3 \<le> 0xBF" "w = 4"
      and lo: "?b 0 = 0xF0 \<Longrightarrow> 0x90 \<le> ?b 1" "?b 0 = 0xF4 \<Longrightarrow> ?b 1 \<le> 0x8F"
      and r: "r = (?b 0 - 0xF0) * 262144 + (?b 1 - 0x80) * 4096 + (?b 2 - 0x80) * 64 + (?b 3 - 0x80)"
      using assms by (auto simp: decode_rune_def n_def Let_def rune_size_def accept_lo_def accept_hi_def cont_byte_def split: if_splits)
    have "take 4 s = [s ! 0, s ! 1, s ! 2, s ! 3]" using l
      by (cases s; cases "tl s"; cases "tl (tl s)"; cases "tl (tl (tl s))") (auto simp: numeral_nat)
    also have "\<dots> = [char_of (0xF0 + (?b 0 - 0xF0)), char_of (0x80 + (?b 1 - 0x80)), char_of (0x80 + (?b 2 - 0x80)), char_of (0x80 + (?b 3 - 0x80))]"
      using b by simp
    also have "\<dots> = encode_rune r" unfolding r
    proof (rule four_bytes [symmetric])
      show "?b 1 - 0x80 < 16" if "?b 0 - 0xF0 = 4"
      proof -
        have "?b 0 = 0xF4" using b that by linarith
        then show ?thesis using lo(2) b by linarith
      qed
    qed (use b lo in auto)
    finally show ?thesis using b by simp
  qed
qed

section \<open>Strings\<close>

text \<open>Strings are written as \<open>encoding/json\<close> writes them: invalid UTF-8 as U+FFFD, and the characters HTML gives a
  meaning escaped.\<close>

definition hex4_text :: "nat \<Rightarrow> string" where
  "hex4_text r = map (\<lambda>k. ''0123456789abcdef'' ! (r div 16 ^ k mod 16)) [3, 2, 1, 0]"

definition json_rune :: "nat \<Rightarrow> string" where
  "json_rune r =
    (if r = 0x22 then [CHR 0x5C, CHR 0x22] else if r = 0x5C then [CHR 0x5C, CHR 0x5C]
     else if r = 8 then [CHR 0x5C, CHR ''b''] else if r = 9 then [CHR 0x5C, CHR ''t''] else if r = 10 then [CHR 0x5C, CHR ''n'']
     else if r = 12 then [CHR 0x5C, CHR ''f''] else if r = 13 then [CHR 0x5C, CHR ''r'']
     else if r < 0x20 \<or> r \<in> {0x26, 0x3C, 0x3E, 0x2028, 0x2029} then [CHR 0x5C, CHR ''u''] @ hex4_text r
     else encode_rune r)"

text \<open>A byte that does not belong to a rune decodes as U+FFFD with one byte, and is written as the escape of it; the rune
  U+FFFD itself takes three bytes and is written as it is.\<close>

definition json_seg :: "nat \<times> string \<Rightarrow> string" where
  "json_seg x = (case x of (r, bs) \<Rightarrow> if r = 0xFFFD \<and> length bs = 1 then [CHR 0x5C] @ ''ufffd'' else json_rune r)"

definition json_string :: "string \<Rightarrow> string" where
  "json_string s = [CHR 0x22] @ concat (map json_seg (segs s)) @ [CHR 0x22]"

text \<open>Reading one escape or one rune.\<close>

lemma json_chars_rune:
  assumes "decode_rune s = (r, w)" "s \<noteq> []" "\<not> (r = rune_error \<and> w = 1)" "0x20 \<le> r" "r \<noteq> 0x22" "r \<noteq> 0x5C"
  shows "json_chars (Suc n) (encode_rune r @ q) = map_option (\<lambda>(out, t). (encode_rune r @ out, t)) (json_chars n q)"
proof -
  have e: "take w s = encode_rune r" by (rule decoded_bytes [OF assms(1-3)])
  have w: "1 \<le> w" "w \<le> length s" using decode_rune_width [OF assms(2)] assms(1) by auto
  then have ne: "encode_rune r \<noteq> []" "length (encode_rune r) = w" using e assms(2) by (auto simp flip: e)
  have s: "encode_rune r @ drop w s = s" using e by (metis append_take_drop_id)
  have d: "decode_rune (encode_rune r) = (r, w)"
    using decode_rune_prefix [OF ne(1), of "drop w s"] unfolding s using ne assms(1) by simp
  have "snd (decode_rune (encode_rune r @ q)) \<le> length (encode_rune r)"
    using decode_rune_width_cases [OF ne(1)] decode_rune_width_cases [of "encode_rune r @ q"] ne d assms(3)
    by (auto simp: nth_append)
  then have dq: "decode_rune (encode_rune r @ q) = (r, w)" using decode_rune_prefix [OF ne(1)] d by simp
  obtain c cs where c: "encode_rune r = c # cs" using ne by (cases "encode_rune r") auto
  have b: "(of_char c :: nat) < 0x80 \<Longrightarrow> r = of_char c" using d c by (simp add: decode_rune_def rune_size_def Let_def)
  have "c \<noteq> CHR 0x22" using b assms(5) by fastforce
  moreover have "c \<noteq> CHR 0x5C" using b assms(6) by fastforce
  moreover have "\<not> of_char c < (32::nat)" using b assms(4) by fastforce
  ultimately have "c \<noteq> CHR 0x22" "\<not> of_char c < (32::nat)" "c \<noteq> CHR 0x5C" by blast+
  moreover have "drop w (encode_rune r @ q) = q" using ne by simp
  ultimately show ?thesis using dq c by simp
qed

lemma hex_val_lower: "d < 16 \<Longrightarrow> hex_val (''0123456789abcdef'' ! d) = Some d"
  by (simp add: hex_val_def numeral_nat less_Suc_eq; elim disjE; simp)

lemma nested: "r = 16 * a + x \<Longrightarrow> a = 16 * b + y \<Longrightarrow> b = 16 * c + z \<Longrightarrow> r = 16 * (16 * (16 * c + z) + y) + (x::nat)"
  by simp

lemma hex4_hex4_text: "r < 65536 \<Longrightarrow> hex4 (hex4_text r @ q) = Some r"
proof -
  assume r: "r < 65536"
  have h: "hex_val (''0123456789abcdef'' ! (r div 16 ^ k mod 16)) = Some (r div 16 ^ k mod 16)" for k
    by (rule hex_val_lower) simp
  have "r div 256 = r div 16 div 16" "r div 4096 = r div 256 div 16"
    using div_mult2_eq [of r 16 16] div_mult2_eq [of r 256 16] by simp_all
  then have e: "16 * (16 * (16 * (r div 4096) + r div 256 mod 16) + r div 16 mod 16) + r mod 16 = r"
    using nested [of r "r div 16" "r mod 16" "r div 256" "r div 16 mod 16" "r div 4096" "r div 256 mod 16"] by simp
  have m: "r div 4096 mod 16 = r div 4096" using r by (simp add: less_mult_imp_div_less)
  show ?thesis using h [of 3] h [of 2] h [of 1] h [of 0] m e
    by (simp add: hex4_def hex4_text_def)
qed

lemma json_chars_hex:
  assumes "r < 65536" "\<not> surrogate r"
  shows "json_chars (Suc n) ([CHR 0x5C, CHR ''u''] @ hex4_text r @ q) = map_option (\<lambda>(out, t). (encode_rune r @ out, t)) (json_chars n q)"
proof -
  have "length (hex4_text r) = 4" by (simp add: hex4_text_def)
  then have "unicode_escape (hex4_text r @ q) = Some (r, q)"
    using assms hex4_hex4_text [OF assms(1)] by (simp add: unicode_escape_def)
  then show ?thesis by simp
qed

lemma json_chars_seg:
  assumes "decode_rune s = (r, w)" "s \<noteq> []" "bs = take w s"
  shows "json_chars (Suc n) (json_seg (r, bs) @ q) = map_option (\<lambda>(out, t). (encode_rune r @ out, t)) (json_chars n q)"
proof -
  have w: "length bs = w" using assms decode_rune_width [OF assms(2)] by simp
  have t: "hex4_text 0xFFFD = ''fffd''" by (simp add: hex4_text_def)
  show ?thesis
  proof (cases "r = rune_error \<and> w = 1")
    case True
    then show ?thesis using json_chars_hex [where r = "0xFFFD" and n = n and q = q] w unfolding t by (simp add: json_seg_def rune_error_def surrogate_def)
  next
    case False
    then have j: "json_seg (r, bs) = json_rune r" using w unfolding json_seg_def rune_error_def prod.case by (intro if_not_P) auto
    show ?thesis
    proof (cases "r < 0x20 \<or> r \<in> {0x22, 0x5C, 0x26, 0x3C, 0x3E, 0x2028, 0x2029}")
      case True
      show ?thesis
      proof (cases "r \<in> {0x22, 0x5C, 8, 9, 10, 12, 13}")
        case True
        then show ?thesis unfolding j by (elim insertE emptyE) (simp_all add: json_rune_def json_escape_def encode_rune_def char_of_def bit_0)
      next
        case False
        then have "json_rune r = [CHR 0x5C, CHR ''u''] @ hex4_text r" "r < 65536" "\<not> surrogate r"
          using \<open>r < 0x20 \<or> r \<in> {0x22, 0x5C, 0x26, 0x3C, 0x3E, 0x2028, 0x2029}\<close>
          by (auto simp: json_rune_def surrogate_def)
        then show ?thesis unfolding j using json_chars_hex [where r = r and n = n and q = q] by simp
      qed
    next
      case plain: False
      then show ?thesis unfolding j using json_chars_rune [OF assms(1,2) False, where n = n and q = q] by (auto simp: json_rune_def)
    qed
  qed
qed

text \<open>A string that was written is read back, with U+FFFD in the place of what is not UTF-8.\<close>

definition valid_utf8 :: "string \<Rightarrow> bool" where
  "valid_utf8 s \<longleftrightarrow> concat (map encode_rune (runes s)) = s"

lemma json_chars_segs:
  "length (segs s) \<le> n \<Longrightarrow>
    json_chars (Suc n) (concat (map json_seg (segs s)) @ CHR 0x22 # q) = Some (concat (map encode_rune (runes s)), q)"
proof (induction s arbitrary: n rule: segs.induct)
  case 1
  then show ?case by (simp add: runes_def)
next
  case (2 c cs)
  obtain r w where d: "decode_rune (c # cs) = (r, w)" by fastforce
  have e: "segs (c # cs) = (r, take w (c # cs)) # segs (drop w (c # cs))" using d by (simp add: segs.simps(2))
  then obtain m where n: "n = Suc m" using "2.prems" by (cases n) auto
  have "json_chars (Suc m) (concat (map json_seg (segs (drop w (c # cs)))) @ CHR 0x22 # q) =
    Some (concat (map encode_rune (runes (drop w (c # cs)))), q)"
    using "2.IH" [OF d [symmetric] refl] "2.prems" e n by simp
  then show ?case
    using json_chars_seg [OF d _ refl, where n = "Suc m" and q = "concat (map json_seg (segs (drop w (c # cs)))) @ CHR 0x22 # q"] n e
    by (simp add: runes_def del: json_chars.simps)
qed

lemma json_string_read:
  assumes "length (concat (map json_seg (segs s)) @ CHR 0x22 # q) \<le> n"
  shows "json_chars n (concat (map json_seg (segs s)) @ CHR 0x22 # q) = Some (concat (map encode_rune (runes s)), q)"
proof -
  have "length (json_seg x) \<noteq> 0" for x
    by (cases x) (auto simp: json_seg_def json_rune_def hex4_text_def encode_rune_def)
  then have pos: "1 \<le> length (json_seg x)" for x by (simp add: Suc_le_eq)
  have "length xs \<le> length (concat (map json_seg xs))" for xs
  proof (induction xs)
    case (Cons x xs)
    then show ?case using pos [of x] by simp
  qed simp
  from this [of "segs s"] have "length (segs s) < n" using assms by simp
  then obtain m where "n = Suc m" "length (segs s) \<le> m" by (cases n) auto
  then show ?thesis using json_chars_segs by blast
qed

end
