(* ===== verification/Libgen.thy ===== *)
theory Libgen
  imports ApiCatalogue JsonText
begin

text \<open>
Adding books from the mirrors of LibGen (src/server/libgen.go, src/server/admin_libgen.go): file names, sizes, the
search over the mirrors, downloads with stall detection, free names, jobs and the pages. The network, and the HTML
that goquery parses, are parameters: the order in which answers arrive, the reads of a body, the links of a page.
\<close>

section \<open>Names and sizes\<close>

text \<open>\<open>libGenUnsafeFilename\<close>: characters that are illegal in file names, and control characters.\<close>

definition unsafe_char :: "char \<Rightarrow> bool" where
  "unsafe_char c \<longleftrightarrow> (of_char c :: nat) < 0x20 \<or> c \<in> set ''/:*?<>|'' \<or> c = CHR 0x5C \<or> c = CHR 0x22"

text \<open>Runes are dropped from the end until the text fits, but for the last one.\<close>

definition runes_text :: "nat list \<Rightarrow> string" where
  "runes_text rs = concat (map encode_rune rs)"

function shorten :: "nat \<Rightarrow> nat list \<Rightarrow> nat list" where
  "shorten budget rs = (if budget < length (runes_text rs) \<and> 1 < length rs then shorten budget (butlast rs) else rs)"
  by pat_completeness auto
termination by (relation "measure (\<lambda>(_, rs). length rs)") auto

declare shorten.simps [simp del]

definition last_dot :: "string \<Rightarrow> nat option" where
  "last_dot s = (if CHR ''.'' \<in> set s then Some (length s - 1 - length (takeWhile (\<lambda>c. c \<noteq> CHR ''.'') (rev s))) else None)"

definition clipBytes :: "string \<Rightarrow> nat \<Rightarrow> string" where
  "clipBytes name limit =
    (if length name \<le> limit then name
     else let k = (case last_dot name of None \<Rightarrow> 0 | Some i \<Rightarrow> i);
              ext = (if 0 < k then drop k name else '''');
              root = (if 0 < k then take k name else name) in
       if limit < length ext + 1 then drop (length name - limit) name
       else runes_text (shorten (limit - length ext) (runes root)) @ ext)"

definition libGenSafeFilename :: "(nat \<Rightarrow> nat) \<Rightarrow> string \<Rightarrow> string \<Rightarrow> string \<Rightarrow> string" where
  "libGenSafeFilename lw title md5 extension =
    (let base0 = (if trim_space title = '''' then md5 else trim_space title);
         base = trim_chars (join '' '' (str_fields (map (\<lambda>c. if unsafe_char c then CHR ''_'' else c) base0))) ''. '';
         ext = trim_prefix (to_lower lw extension) ''.'' in
     if ext = '''' then base else clipBytes (base @ ''.'' @ ext) 180)"

text \<open>The ellipsis is U+2026.\<close>

definition clipDisplay :: "string \<Rightarrow> nat \<Rightarrow> string" where
  "clipDisplay s n = (if length (runes s) \<le> n then s
    else runes_text (take (n - 1) (runes s)) @ map char_of [0xE2, 0x80, 0xA6 :: nat])"

text \<open>\<open>libgenSizePattern\<close>: a number, space and a unit in any case, in which \<open>(?i)K\<close> matches the Kelvin sign, too;
  \<open>strings.ToUpper\<close> keeps that sign, and the unit is then taken for bytes. The parameter \<open>pf\<close> is \<open>strconv.ParseFloat\<close>.\<close>

definition size_parts :: "string \<Rightarrow> (string \<times> string) option" where
  "size_parts s =
    (let whole = takeWhile is_digit s; rest = dropWhile is_digit s;
         frac = (case rest of c # cs \<Rightarrow> if c = CHR ''.'' \<and> takeWhile is_digit cs \<noteq> '''' then CHR ''.'' # takeWhile is_digit cs else ''''
                 | [] \<Rightarrow> '''');
         unit = dropWhile regexp_space (drop (length frac) rest) in
     if whole \<noteq> '''' \<and> (unit = '''' \<or> list_ex (key_is unit) [''kb'', ''mb'', ''gb'', ''kib'', ''mib'', ''gib'', ''b''])
     then Some (whole @ frac, unit) else None)"

text \<open>\<open>int64(value * 2 ^ k)\<close> for a value that is not negative.\<close>

definition scaled_trunc :: "f64 \<Rightarrow> nat \<Rightarrow> int" where
  "scaled_trunc x k = (let ex = unat x div 2 ^ 52 in
    if ex = 0 then 0 else if 2047 \<le> ex + k then - (2 ^ 63) else f64_trunc (x + of_nat (k * 2 ^ 52)))"

definition libgenSizeBytes :: "(string \<Rightarrow> f64 option) \<Rightarrow> string \<Rightarrow> int" where
  "libgenSizeBytes pf size0 = (case size_parts (trim_space size0) of
      None \<Rightarrow> 0
    | Some (num, unit) \<Rightarrow> (case pf num of
        None \<Rightarrow> 0
      | Some value \<Rightarrow> scaled_trunc value
          (if eq_nocase unit ''KB'' \<or> eq_nocase unit ''KIB'' then 10 else if eq_nocase unit ''MB'' \<or> eq_nocase unit ''MIB'' then 20
           else if eq_nocase unit ''GB'' \<or> eq_nocase unit ''GIB'' then 30 else 0)))"

definition libgenLargeBookBytes :: int where "libgenLargeBookBytes = 50 * 2 ^ 20"

section \<open>Searching the mirrors\<close>

record libgenBook =
  lg_MD5 :: string
  lg_Title :: string
  lg_Authors :: string
  lg_Publisher :: string
  lg_Year :: string
  lg_Language :: string
  lg_Pages :: string
  lg_Size :: string
  lg_Extension :: string
  lg_Candidates :: "(string \<times> string) list"

definition PrimaryDownloadURL :: "libgenBook \<Rightarrow> string \<times> string" where
  "PrimaryDownloadURL b = (case List.find (\<lambda>c. fst c = ''get'') (lg_Candidates b) of
      Some c \<Rightarrow> (''get'', snd c)
    | None \<Rightarrow> (case List.find (\<lambda>c. fst c = ''ads'') (lg_Candidates b) of
        Some c \<Rightarrow> (''ads'', snd c)
      | None \<Rightarrow> ('''', '''')))"

text \<open>What a search sees of one attempt, in the order in which it arrives: the answers of the mirrors, and possibly
  the end of the time allowed.\<close>

datatype mirror_event = Deadline | Answer string "string + libgenBook list"

definition libgenSearchRetries :: nat where "libgenSearchRetries = 2"
definition libgenMirrorCount :: nat where "libgenMirrorCount = 5"

definition search_timeout :: "string option \<Rightarrow> string" where
  "search_timeout last_error = (case last_error of None \<Rightarrow> ''search timed out (mirrors may be unreachable)'' | Some x \<Rightarrow> x)"

text \<open>One attempt ends the search or hands over the last error and the events that follow.\<close>

fun search_attempt :: "nat \<Rightarrow> string option \<Rightarrow> mirror_event list \<Rightarrow>
    (string + libgenBook list \<times> string) + string option \<times> mirror_event list" where
  "search_attempt 0 last_error evs = Inr (last_error, evs)"
| "search_attempt (Suc n) last_error [] = Inl (Inl (search_timeout last_error))"
| "search_attempt (Suc n) last_error (Deadline # evs) = Inl (Inl (search_timeout last_error))"
| "search_attempt (Suc n) last_error (Answer base (Inl x) # evs) = search_attempt n (Some x) evs"
| "search_attempt (Suc n) last_error (Answer base (Inr bs) # evs) =
    (if bs = [] then search_attempt n last_error evs else Inl (Inr (bs, base)))"

text \<open>Between two attempts the search waits for a second, during which the time may end, too.\<close>

fun search_attempts :: "nat \<Rightarrow> string option \<Rightarrow> mirror_event list \<Rightarrow> string + libgenBook list \<times> string" where
  "search_attempts 0 last_error evs = Inl (case last_error of None \<Rightarrow> ''no results (mirrors may be unreachable)'' | Some x \<Rightarrow> x)"
| "search_attempts (Suc n) last_error evs = (case search_attempt libgenMirrorCount last_error evs of
      Inl r \<Rightarrow> r
    | Inr (last_error', evs') \<Rightarrow>
        if 0 < n \<and> (case evs' of Deadline # _ \<Rightarrow> True | _ \<Rightarrow> False) then Inl (search_timeout last_error')
        else search_attempts n last_error' evs')"

definition searchLibGenBases :: "string \<Rightarrow> mirror_event list \<Rightarrow> string + libgenBook list \<times> string" where
  "searchLibGenBases q evs =
    (if trim_space q = '''' then Inl ''empty query'' else search_attempts libgenSearchRetries None evs)"

section \<open>Downloading\<close>

text \<open>One \<open>Read\<close> of the body within the time allowed: bytes and possibly an end, \<open>None\<close> for \<open>io.EOF\<close>; or nothing in
  that time, as also when the list of reads ends. The copy gives the bytes written and the error; the writes are taken
  as one.\<close>

datatype read_event = Stalled | Arrived string "string option option"

fun copyWithStallDetection :: "read_event list \<Rightarrow> nat \<Rightarrow> string \<Rightarrow> string \<times> string option" where
  "copyWithStallDetection [] limit written = (written, Some ''download stalled: no data received'')"
| "copyWithStallDetection (Stalled # rs) limit written = (written, Some ''download stalled: no data received'')"
| "copyWithStallDetection (Arrived bytes fin # rs) limit written =
    (let written' = (if bytes = '''' then written else written @ take (limit - length written) bytes) in
     if bytes \<noteq> '''' \<and> limit \<le> length written' then (written', None)
     else (case fin of
         None \<Rightarrow> copyWithStallDetection rs limit written'
       | Some x \<Rightarrow> (written', x)))"

definition libgenMaxDLBytes :: nat where "libgenMaxDLBytes = 2 ^ 30"

text \<open>The answer of a download link: an error of the client, or a status and the reads of the body.\<close>

datatype download_reply = Unreachable string | Reply nat "read_event list"

definition text_error :: "string \<Rightarrow> library_error" where
  "text_error s = lib_err '''' s 0"

definition try_wrap :: "'a disk_io \<Rightarrow> string \<Rightarrow> 'a upload" where
  "try_wrap m s = (\<lambda>c. case m c of (Inl x, c') \<Rightarrow> (Inl (text_error (s @ error_text x)), c') | (Inr y, c') \<Rightarrow> (Inr y, c'))"

text \<open>A step that fails removes the converted file, unless it is the download itself.\<close>

definition drop_converted :: "string \<Rightarrow> string \<Rightarrow> 'a upload \<Rightarrow> 'a upload" where
  "drop_converted final tmp m = (\<lambda>c. case m c of
      (Inl x, c') \<Rightarrow> (Inl x, if final \<noteq> tmp then snd (remove_file final c') else c')
    | (Inr y, c') \<Rightarrow> (Inr y, c'))"

definition save_download :: "conversion \<Rightarrow> string \<Rightarrow> string \<Rightarrow> bool \<Rightarrow> read_event list \<Rightarrow> string \<Rightarrow> nat upload" where
  "save_download conv bookDir destName convert reads tmp =
    (case copyWithStallDetection reads (libgenMaxDLBytes + 1) '''' of (written, problem) \<Rightarrow>
     up_bind (try_wrap (write_file tmp written) ''could not write download: '') (\<lambda>_.
     case problem of
       Some x \<Rightarrow> up_fail (text_error (''could not write download: '' @ x))
     | None \<Rightarrow>
         if libgenMaxDLBytes < length written then up_fail (text_error ''download exceeds 1 GiB'')
         else
           up_bind (try_wrap tick ''could not sync download: '') (\<lambda>_.
           up_bind (try_wrap tick ''could not close download: '') (\<lambda>_.
           up_bind (if convert then convertUploadedBook conv bookDir else up_ret (tmp, length written)) (\<lambda>(final, size).
           up_bind (drop_converted final tmp (try_wrap tick ''could not set permissions: '')) (\<lambda>_.
           up_bind (drop_converted final tmp (try_wrap (rename_file final (in_dir bookDir destName)) ''could not install download: '')) (\<lambda>_.
           up_bind (\<lambda>c. (Inr (), if final \<noteq> tmp then snd (remove_file tmp c) else c)) (\<lambda>_. up_ret size))))))))"

definition downloadLibGenBook :: "conversion \<Rightarrow> string \<Rightarrow> download_reply \<Rightarrow> string \<Rightarrow> bool \<Rightarrow> string \<Rightarrow> nat upload" where
  "downloadLibGenBook conv bookDir reply destName convert inputExt = (case reply of
      Unreachable x \<Rightarrow> up_fail (text_error x)
    | Reply status reads \<Rightarrow>
        if status \<noteq> 200 then up_fail (text_error (''download returned HTTP '' @ show_nat status))
        else up_bind (try_wrap (create_temp 10000 bookDir ''.libgen-dl-'' inputExt) ''could not stage download: '') (\<lambda>tmp.
          cleanup_failed tmp (save_download conv bookDir destName convert reads tmp)))"

section \<open>A free name\<close>

text \<open>What \<open>os.Lstat\<close> says of a path. The loop over numbered names ends with the first absent one, and does not end when
  there is none: its value is then \<open>None\<close>. A name of more than 255 bytes is an error, whatever the directory holds.\<close>

datatype lstat_reply = Present | Absent | LstatError

definition numbered :: "string \<Rightarrow> string \<Rightarrow> nat \<Rightarrow> string" where
  "numbered stem ext n = stem @ '' ('' @ show_nat n @ '')'' @ ext"

partial_function (option) free_number :: "(nat \<Rightarrow> lstat_reply) \<Rightarrow> nat \<Rightarrow> nat option" where
  "free_number probe n = (if probe n = Absent then Some n else free_number probe (n + 1))"

definition library_name :: "string \<Rightarrow> string" where
  "library_name name = trim_space (trim_prefix (path_base name) ''.'')"

definition uniqueLibraryFilename :: "(string \<Rightarrow> lstat_reply) \<Rightarrow> string \<Rightarrow> string option" where
  "uniqueLibraryFilename lstat name0 =
    (let name = library_name name0 in
     if name = '''' \<or> name = ''.'' \<or> name = ''..'' then Some ''''
     else if lstat name = Absent then Some name
     else (let ext = path_ext name; stem = trim_suffix name ext in
       map_option (numbered stem ext) (free_number (\<lambda>n. lstat (numbered stem ext n)) 2)))"

definition lstat_in :: "files \<Rightarrow> string \<Rightarrow> string \<Rightarrow> lstat_reply" where
  "lstat_in fs dir name = (if 255 < length name then LstatError else if fs (in_dir dir name) = None then Absent else Present)"

section \<open>Jobs\<close>

record adminLibGenResult =
  lr_MD5 :: string
  lr_Title :: string
  lr_Authors :: string
  lr_Publisher :: string
  lr_Year :: string
  lr_Size :: string
  lr_Language :: string
  lr_Extension :: string
  lr_Mirror :: string
  lr_Download :: string
  lr_DownloadKind :: string
  lr_Filename :: string
  lr_TitleShort :: string
  lr_Large :: bool

text \<open>The link of a result; \<open>ads\<close> is what \<open>resolveLibGenAdsURL\<close> finds on a page of advertisements.\<close>

definition DownloadURL :: "(string \<Rightarrow> string + string) \<Rightarrow> adminLibGenResult \<Rightarrow> string + string" where
  "DownloadURL ads r = (if lr_DownloadKind r = ''ads'' then ads (lr_Download r)
    else if lr_DownloadKind r = ''get'' then Inr (lr_Download r) else Inl ''no usable download link found'')"

definition setLibgenJob :: "job \<Rightarrow> unit act" where
  "setLibgenJob j = modify (\<lambda>s. s\<lparr>sv_jobs := (sv_jobs s)(job_MD5 j \<mapsto> j),
    sv_job_order := (if sv_jobs s (job_MD5 j) = None then sv_job_order s @ [job_MD5 j] else sv_job_order s)\<rparr>)"

definition updateLibgenJob :: "string \<Rightarrow> string \<Rightarrow> string \<Rightarrow> unit act" where
  "updateLibgenJob md5 state errMsg = modify (\<lambda>s. case sv_jobs s md5 of
      None \<Rightarrow> s | Some j \<Rightarrow> s\<lparr>sv_jobs := (sv_jobs s)(md5 \<mapsto> j\<lparr>job_State := state, job_Error := errMsg\<rparr>)\<rparr>)"

definition libgenJobsSnapshot :: "server \<Rightarrow> job list" where
  "libgenJobsSnapshot s = List.map_filter (sv_jobs s) (sv_job_order s)"

definition json_job :: "job \<Rightarrow> json" where
  "json_job j = JObj ([(''md5'', JStr (job_MD5 j)), (''title'', JStr (job_Title j)), (''state'', JStr (job_State j))] @
    (if job_Error j = '''' then [] else [(''error'', JStr (job_Error j))]))"

definition handleAdminLibraryAddStatus :: "response act" where
  "handleAdminLibraryAddStatus = do {
    js \<leftarrow> field libgenJobsSnapshot;
    give (writeAPIJSON 200 (JObj [(''jobs'', JArr (map json_job js))]))
  }"

text \<open>The background run over the chosen results. One download gives \<open>None\<close> when the search for a free name does not end,
  and with it the run, else whether a book was added. \<open>net\<close> are the links, the downloads and the conversions.\<close>

record net =
  net_ads :: "string \<Rightarrow> string + string"
  net_get :: "string \<Rightarrow> download_reply"
  net_convert :: "string \<Rightarrow> conversion"

definition failed_job :: "string \<Rightarrow> string \<Rightarrow> bool option act" where
  "failed_job md5 x = do { _ \<leftarrow> updateLibgenJob md5 ''failed'' x; give (Some False) }"

definition run_download :: "env \<Rightarrow> net \<Rightarrow> adminLibGenResult \<Rightarrow> string \<Rightarrow> bool option act" where
  "run_download e net result md5 = (case DownloadURL (net_ads net) result of
      Inl x \<Rightarrow> failed_job md5 x
    | Inr url \<Rightarrow> do {
        dest \<leftarrow> field (\<lambda>s. uniqueLibraryFilename (lstat_in (tables (sv_disk s)) (sv_BookDir s)) (installed_name (low e) (lr_Filename result)));
        case dest of
          None \<Rightarrow> give None
        | Some destination \<Rightarrow>
            if destination = '''' then failed_job md5 ''unusable filename''
            else do {
              stored \<leftarrow> on_disk (\<lambda>s. downloadLibGenBook (net_convert net url) (sv_BookDir s) (net_get net url) destination
                (isMobiFilename (low e) (lr_Filename result)) (path_ext (lr_Filename result)));
              case stored of
                Inl x \<Rightarrow> failed_job md5 (le_Message x)
              | Inr _ \<Rightarrow> do { _ \<leftarrow> updateLibgenJob md5 ''added'' ''''; give (Some True) }
            }
      })"

fun run_downloads :: "env \<Rightarrow> net \<Rightarrow> (string \<times> adminLibGenResult) list \<Rightarrow> nat \<Rightarrow> nat option act" where
  "run_downloads e net [] added = give (Some added)"
| "run_downloads e net ((md5, result) # ts) added = do {
    one \<leftarrow> run_download e net result md5;
    case one of
      None \<Rightarrow> give None
    | Some ok \<Rightarrow> run_downloads e net ts (if ok then added + 1 else added)
  }"

text \<open>Whether the run ends; the refresh of the index at its end is the background operation \<open>start_refresh\<close>.\<close>

definition runLibgenDownloads :: "env \<Rightarrow> net \<Rightarrow> (string \<times> adminLibGenResult) list \<Rightarrow> bool act" where
  "runLibgenDownloads e net targets = do {
    added \<leftarrow> run_downloads e net targets 0;
    case added of
      None \<Rightarrow> give False
    | Some n \<Rightarrow> do { _ \<leftarrow> (if 0 < n then start_refresh else give ()); give True }
  }"

section \<open>The page that adds books\<close>

text \<open>The payload of the page as JSON.\<close>

definition json_member :: "string \<Rightarrow> string \<Rightarrow> string" where
  "json_member k v = json_string k @ '':'' @ v"

definition result_text :: "adminLibGenResult \<Rightarrow> string" where
  "result_text r = ''{'' @ join '','' (map (\<lambda>(k, v). json_member k (json_string v))
      [(''md5'', lr_MD5 r), (''title'', lr_Title r), (''authors'', lr_Authors r), (''publisher'', lr_Publisher r), (''year'', lr_Year r),
       (''size'', lr_Size r), (''language'', lr_Language r), (''extension'', lr_Extension r), (''mirror'', lr_Mirror r),
       (''download'', lr_Download r), (''download_kind'', lr_DownloadKind r), (''filename'', lr_Filename r),
       (''title_short'', lr_TitleShort r)]) @ '','' @ json_member ''large'' (if lr_Large r then ''true'' else ''false'') @ ''}''"

definition payload_text :: "string \<Rightarrow> adminLibGenResult list \<Rightarrow> string" where
  "payload_text mirror rs = ''{'' @ json_member ''mirror'' (json_string mirror) @ '','' @
    json_member ''results'' (''['' @ join '','' (map result_text rs) @ '']'') @ ''}''"

text \<open>Reading it back: every field takes the last of its values, an array is read over the elements of an earlier one.\<close>

definition no_result :: adminLibGenResult where
  "no_result = \<lparr>lr_MD5 = '''', lr_Title = '''', lr_Authors = '''', lr_Publisher = '''', lr_Year = '''', lr_Size = '''', lr_Language = '''',
    lr_Extension = '''', lr_Mirror = '''', lr_Download = '''', lr_DownloadKind = '''', lr_Filename = '''', lr_TitleShort = '''', lr_Large = False\<rparr>"

definition set_result :: "json \<Rightarrow> adminLibGenResult \<Rightarrow> adminLibGenResult option" where
  "set_result v x = Option.bind (members False [] v) (\<lambda>kvs.
    let f = (\<lambda>k old. fill set_string k kvs old) in
    Option.bind (f ''md5'' (lr_MD5 x)) (\<lambda>md5. Option.bind (f ''title'' (lr_Title x)) (\<lambda>title.
    Option.bind (f ''authors'' (lr_Authors x)) (\<lambda>authors. Option.bind (f ''publisher'' (lr_Publisher x)) (\<lambda>publisher.
    Option.bind (f ''year'' (lr_Year x)) (\<lambda>year. Option.bind (f ''size'' (lr_Size x)) (\<lambda>bookSize.
    Option.bind (f ''language'' (lr_Language x)) (\<lambda>language. Option.bind (f ''extension'' (lr_Extension x)) (\<lambda>extension.
    Option.bind (f ''mirror'' (lr_Mirror x)) (\<lambda>mirror. Option.bind (f ''download'' (lr_Download x)) (\<lambda>download.
    Option.bind (f ''download_kind'' (lr_DownloadKind x)) (\<lambda>kind. Option.bind (f ''filename'' (lr_Filename x)) (\<lambda>filename.
    Option.bind (f ''title_short'' (lr_TitleShort x)) (\<lambda>short. Option.bind (fill set_bool ''large'' kvs (lr_Large x)) (\<lambda>large.
    Some \<lparr>lr_MD5 = md5, lr_Title = title, lr_Authors = authors, lr_Publisher = publisher, lr_Year = year, lr_Size = bookSize,
      lr_Language = language, lr_Extension = extension, lr_Mirror = mirror, lr_Download = download, lr_DownloadKind = kind,
      lr_Filename = filename, lr_TitleShort = short, lr_Large = large\<rparr>)))))))))))))))"

fun read_elements :: "json list \<Rightarrow> adminLibGenResult list \<Rightarrow> adminLibGenResult list option" where
  "read_elements [] old = Some []"
| "read_elements (v # vs) old = Option.bind (set_result v (case old of [] \<Rightarrow> no_result | x # _ \<Rightarrow> x)) (\<lambda>r.
    map_option ((#) r) (read_elements vs (tl old)))"

fun set_results :: "json \<Rightarrow> adminLibGenResult list \<Rightarrow> adminLibGenResult list option" where
  "set_results (JArr vs) old = read_elements vs old"
| "set_results JNull old = Some []"
| "set_results v old = None"

definition read_payload :: "string \<Rightarrow> adminLibGenResult list option" where
  "read_payload raw = Option.bind (json_read raw) (\<lambda>v. Option.bind (members False [] v) (\<lambda>kvs.
    Option.bind (string_field ''mirror'' kvs) (\<lambda>_. fill set_results ''results'' kvs [])))"

definition result_of :: "(string \<Rightarrow> f64 option) \<Rightarrow> (nat \<Rightarrow> nat) \<Rightarrow> string \<Rightarrow> libgenBook \<Rightarrow> adminLibGenResult" where
  "result_of pf lw mirror b = \<lparr>lr_MD5 = lg_MD5 b, lr_Title = lg_Title b, lr_Authors = lg_Authors b, lr_Publisher = lg_Publisher b,
    lr_Year = lg_Year b, lr_Size = lg_Size b, lr_Language = lg_Language b, lr_Extension = lg_Extension b, lr_Mirror = mirror,
    lr_Download = snd (PrimaryDownloadURL b), lr_DownloadKind = fst (PrimaryDownloadURL b),
    lr_Filename = libGenSafeFilename lw (lg_Title b) (lg_MD5 b) (lg_Extension b), lr_TitleShort = clipDisplay (lg_Title b) 90,
    lr_Large = (libgenLargeBookBytes < libgenSizeBytes pf (lg_Size b))\<rparr>"

definition result_row :: "adminLibGenResult \<Rightarrow> (string \<times> val) list" where
  "result_row r = [(''MD5'', VStr (lr_MD5 r)), (''Title'', VStr (lr_Title r)), (''Authors'', VStr (lr_Authors r)),
    (''Publisher'', VStr (lr_Publisher r)), (''Year'', VStr (lr_Year r)), (''Size'', VStr (lr_Size r)), (''Language'', VStr (lr_Language r)),
    (''Extension'', VStr (lr_Extension r)), (''Mirror'', VStr (lr_Mirror r)), (''Download'', VStr (lr_Download r)),
    (''DownloadKind'', VStr (lr_DownloadKind r)), (''Filename'', VStr (lr_Filename r)), (''TitleShort'', VStr (lr_TitleShort r)),
    (''Large'', VBool (lr_Large r))]"

definition handleAdminLibraryFind :: "(string \<Rightarrow> f64 option) \<Rightarrow> env \<Rightarrow> mirror_event list \<Rightarrow> request \<Rightarrow> response act" where
  "handleAdminLibraryFind pf e evs r = do {
    v \<leftarrow> field sv_version;
    fs \<leftarrow> field sv_formats;
    let q = trim_space (query_value r ''q'');
    let page = (\<lambda>more. renderPage e r 200 ''admin_library_add''
      (more @ titles v ''Add books'' ''Add books from LibGen'' @ [(''Query'', VStr q)]));
    if q = '''' then page []
    else (case searchLibGenBases q evs of
        Inl _ \<Rightarrow> page [(''Error'', VStr ''The LibGen mirrors could not be reached or returned no results. Try again or check connectivity.'')]
      | Inr (found, mirror) \<Rightarrow>
          let results = map (result_of pf (low e) mirror) (filter (\<lambda>b. supportedBookExtension (low e) fs (lg_Extension b)) found) in
          if results = [] then page [(''Error'', VStr ''The LibGen results contained no books in a supported format (epub, pdf, mobi, azw, azw3). Try a different search.'')]
          else page [(''Mirror'', VStr mirror), (''Results'', VRows (map result_row results)),
            (''Payload'', VStr (b64_encode std_alphabet (bytes_of (payload_text mirror results))))])
  }"

text \<open>The chosen results of the payload that the form sends back, or the reply that refuses it; the last of several
  results with one MD5 counts.\<close>

definition add_error :: "string \<Rightarrow> response" where
  "add_error message = redirect 303 (''/admin/library/add?error='' @ urlQuery message)"

definition picked_downloads :: "request \<Rightarrow> response + (string \<times> adminLibGenResult) list" where
  "picked_downloads r =
    (if \<not> verifyCSRF r then Inl invalid_csrf
     else if \<not> ParseForm_again r then Inl (libraryRedirectError ''The selection could not be read.'')
     else if form_values r ''pick'' = [] then Inl (add_error ''Select at least one book to add.'')
     else (case b64_decode std_alphabet (FormValue r ''payload'') of
         None \<Rightarrow> Inl (add_error ''The search payload could not be read. Search again.'')
       | Some raw \<Rightarrow> (case read_payload (string_of raw) of
           None \<Rightarrow> Inl (add_error ''The search payload could not be read. Search again.'')
         | Some results \<Rightarrow>
             let byMD5 = map_of (rev (map (\<lambda>x. (lr_MD5 x, x)) results));
                 targets = List.map_filter (\<lambda>md5. map_option (Pair md5) (byMD5 md5)) (form_values r ''pick'') in
             if targets = [] then Inl (add_error ''Select at least one book to add.'') else Inr targets)))"

fun queue_jobs :: "(string \<times> adminLibGenResult) list \<Rightarrow> unit act" where
  "queue_jobs [] = give ()"
| "queue_jobs ((md5, x) # ts) = do {
    _ \<leftarrow> setLibgenJob \<lparr>job_MD5 = md5, job_Title = lr_TitleShort x, job_State = ''downloading'', job_Error = ''''\<rparr>;
    queue_jobs ts
  }"

text \<open>The run that the handler starts in the background is \<open>runLibgenDownloads\<close> of the same targets.\<close>

definition handleAdminLibraryAddBooks :: "request \<Rightarrow> response act" where
  "handleAdminLibraryAddBooks r = (case picked_downloads r of
      Inl p \<Rightarrow> give p
    | Inr targets \<Rightarrow> do {
        _ \<leftarrow> queue_jobs targets;
        give (redirect 303 (''/admin/library?saved=queued&msg='' @ urlQuery (''Downloading '' @ show_nat (length targets) @
          '' book(s) in the background. The library will refresh automatically when they finish.'')))
      })"

end
