(* ===== verification/LibgenFacts.thy ===== *)
theory LibgenFacts
  imports Libgen
begin

text \<open>
The search for a free file name in the library: when it ends, and that its result replaces nothing.
\<close>

section \<open>The search for a free name\<close>

declare free_number.simps [code]

lemma free_number_finds:
  assumes "probe m = Absent" "n \<le> m"
  shows "\<exists>j. free_number probe n = Some j \<and> probe j = Absent \<and> n \<le> j"
  using assms
proof (induction "m - n" arbitrary: n)
  case 0
  then show ?case by (subst free_number.simps) (auto intro!: exI [of _ n])
next
  case (Suc k)
  show ?case
  proof (cases "probe n = Absent")
    case True
    then show ?thesis by (subst free_number.simps) auto
  next
    case False
    with Suc have "\<exists>j. free_number probe (n + 1) = Some j \<and> probe j = Absent \<and> n + 1 \<le> j"
      by (intro Suc.hyps(1)) auto
    then show ?thesis using False by (subst free_number.simps) auto
  qed
qed

lemma free_number_sound: "free_number probe n = Some j \<Longrightarrow> probe j = Absent"
  by (rule free_number.raw_induct [where P = "\<lambda>probe n j. probe j = Absent"]) (auto split: if_splits)

lemma length_show_nat: "n < 10 ^ k \<Longrightarrow> 0 < k \<Longrightarrow> length (show_nat n) \<le> k"
proof (induction k arbitrary: n)
  case (Suc k)
  show ?case
  proof (cases "n < 10")
    case True
    then show ?thesis by (simp add: show_nat.simps)
  next
    case False
    then have k: "0 < k" using Suc.prems(1) by (cases k) auto
    have "n div 10 < 10 ^ k" using Suc.prems(1) by (simp add: div_less_iff_less_mult mult.commute)
    then have "length (show_nat (n div 10)) \<le> k" using Suc.IH k by blast
    then show ?thesis using False by (subst show_nat.simps) simp
  qed
qed simp

lemma show_nat_inj: "show_nat a = show_nat b \<Longrightarrow> a = b"
  by (metis digits_val_show_nat option.inject)

text \<open>Among more numbers than there are files one gives a free name.\<close>

lemma free_candidate:
  assumes fin: "finite (dom fs)" and many: "card (dom fs) < 10 ^ k - 2" and short: "length stem + length ext + 3 + k \<le> 255" and k: "0 < k"
  shows "\<exists>n \<ge> 2. lstat_in fs dir (numbered stem ext n) = Absent"
proof (rule ccontr)
  assume none: "\<not> (\<exists>n \<ge> 2. lstat_in fs dir (numbered stem ext n) = Absent)"
  let ?N = "{2..<10 ^ k :: nat}" and ?f = "\<lambda>n. in_dir dir (numbered stem ext n)"
  have inj: "inj_on ?f ?N" by (auto simp: inj_on_def in_dir_def numbered_def dest: show_nat_inj)
  have "?f ` ?N \<subseteq> dom fs"
  proof (rule image_subsetI)
    fix n :: nat assume n: "n \<in> ?N"
    then have "length (numbered stem ext n) \<le> 255" using length_show_nat [of n k] short k by (simp add: numbered_def)
    then show "?f n \<in> dom fs" using none n by (auto simp: lstat_in_def split: if_splits)
  qed
  then have "card ?N \<le> card (dom fs)" using card_mono [OF fin] card_image [OF inj] by metis
  then show False using many by simp
qed

text \<open>The stem and the extension make up the name.\<close>

lemma stem_length: "length (trim_suffix name (path_ext name)) + length (path_ext name) = length name"
  by (cases "path_ext name = ''''", simp add: trim_suffix_def has_suffix_def, metis path_ext_split length_append)

text \<open>C27: The search for a free file name ends whenever the name leaves room for a number of as many digits as the files
  of the library need, and its result is then free: a download never replaces a file. It does not end for a name of more
  than 255 bytes, which no file can have: the background run that asks for it is stuck.\<close>

theorem free_name_search_ends:
  assumes "finite (dom fs)" "card (dom fs) < 10 ^ k - 2"
  shows "if length (library_name name) + 3 + k \<le> 255
    then \<exists>n. uniqueLibraryFilename (lstat_in fs dir) name = Some n \<and> (n \<noteq> '''' \<longrightarrow> fs (in_dir dir n) = None)
    else 255 < length (library_name name) \<longrightarrow> uniqueLibraryFilename (lstat_in fs dir) name = None"
proof (cases "library_name name = '''' \<or> library_name name = ''.'' \<or> library_name name = ''..''")
  case True
  then show ?thesis by (auto simp: uniqueLibraryFilename_def Let_def)
next
  case False
  let ?name = "library_name name"
  let ?cand = "numbered (trim_suffix ?name (path_ext ?name)) (path_ext ?name)"
  have k: "0 < k" using assms(2) by (cases k) auto
  have unique: "uniqueLibraryFilename (lstat_in fs dir) name = (if lstat_in fs dir ?name = Absent then Some ?name
    else map_option ?cand (free_number (\<lambda>n. lstat_in fs dir (?cand n)) 2))"
    using False by (simp add: uniqueLibraryFilename_def Let_def)
  have free: "lstat_in fs dir n = Absent \<Longrightarrow> fs (in_dir dir n) = None" for n by (auto simp: lstat_in_def split: if_splits)
  show ?thesis
  proof (cases "length ?name + 3 + k \<le> 255")
    case short: True
    have "\<exists>n \<ge> 2. lstat_in fs dir (?cand n) = Absent"
      using free_candidate [OF assms _ k] stem_length [of ?name] short by simp
    then obtain m where "2 \<le> m" "lstat_in fs dir (?cand m) = Absent" by blast
    then obtain j where "free_number (\<lambda>n. lstat_in fs dir (?cand n)) 2 = Some j" "lstat_in fs dir (?cand j) = Absent"
      using free_number_finds [of "\<lambda>n. lstat_in fs dir (?cand n)" m 2] by auto
    then show ?thesis using short unique free by auto
  next
    case long: False
    have "lstat_in fs dir (?cand n) \<noteq> Absent" if "255 < length ?name" for n
      using that stem_length [of ?name] by (simp add: lstat_in_def numbered_def)
    then have "255 < length ?name \<Longrightarrow> free_number (\<lambda>n. lstat_in fs dir (?cand n)) 2 = None"
      using free_number_sound [of "\<lambda>n. lstat_in fs dir (?cand n)" 2] by (meson not_None_eq)
    then show ?thesis using long unique by (auto simp: lstat_in_def)
  qed
qed

theorem free_name_search_ends_witness:
  "(\<exists>n. uniqueLibraryFilename (lstat_in Map.empty ''lib'') ''emma.epub'' = Some n) \<and>
    uniqueLibraryFilename (lstat_in Map.empty ''lib'') (replicate 300 CHR ''a'') = None"
proof
  have n: "library_name ''emma.epub'' = ''emma.epub''"
    by (simp add: library_name_def path_base_def trim_prefix_def has_prefix_def ascii_eval)
  show "\<exists>n. uniqueLibraryFilename (lstat_in Map.empty ''lib'') ''emma.epub'' = Some n"
    using free_name_search_ends [of Map.empty 1 "''emma.epub''" "''lib''"] by (auto simp: n)
next
  have "trim_space (replicate 300 CHR ''a'') = replicate 300 CHR ''a''"
    by (subst trim_space_ascii) (simp_all add: ascii_def list_all_iff trim_ascii_def is_space_def dropWhile_replicate)
  then have "library_name (replicate 300 CHR ''a'') = replicate 300 CHR ''a''"
    by (simp add: library_name_def path_base_def trim_prefix_def has_prefix_def dropWhile_replicate takeWhile_replicate)
  then show "uniqueLibraryFilename (lstat_in Map.empty ''lib'') (replicate 300 CHR ''a'') = None"
    using free_name_search_ends [of Map.empty 1 "replicate 300 CHR ''a''" "''lib''"] by simp
qed

end
