(* ===== verification/Router.thy ===== *)
theory Router
  imports LibgenFacts
begin

text \<open>
The router of the server (initRouter of src/server/server.go and initAPIRoutes of src/server/api.go): every route with
its wrapper and its handler, and the step that serves one request.
\<close>

section \<open>The table of routes\<close>

text \<open>What the server gets from outside the program while it serves one request. \<open>w_match\<close> is the matching of httprouter:
  from the method and the path, the pattern of a registered route and the values of its parameters.\<close>

record world =
  w_match :: "string \<Rightarrow> string \<Rightarrow> (string \<times> (string \<times> string) list) option"
  w_random :: nat
  w_show_float :: "f64 \<Rightarrow> string"
  w_fixed_float :: "f64 \<Rightarrow> string"
  w_parse_float :: "string \<Rightarrow> f64 option"
  w_kepub :: "string \<Rightarrow> string option"
  w_convert :: conversion
  w_jwks :: jwks_reply
  w_mirrors :: "mirror_event list"
  w_static :: "string \<Rightarrow> response"

text \<open>The wrappers in which a route runs its handler.\<close>

datatype route =
    Open "request \<Rightarrow> response act"
  | Needs string "request \<Rightarrow> response act"
  | AnonymousBook "request \<Rightarrow> response act"
  | Api string "apiIdentity \<Rightarrow> request \<Rightarrow> response act"

definition indexer_status :: "world \<Rightarrow> response act" where
  "indexer_status w = do {
    progress \<leftarrow> field (\<lambda>s. ProgressValue (sv_index s));
    give \<lparr>rp_status = 200, rp_location = None, rp_headers = [(''Cache-Control'', ''no-cache''), (''Content-Type'', ''application/json'')],
      rp_cookies = [], rp_body = Text (''{'' @ [CHR 0x22] @ ''indexing'' @ [CHR 0x22] @ '': '' @ (if progress \<noteq> 0 then ''true'' else ''false'') @ '', '' @
        [CHR 0x22] @ ''progress'' @ [CHR 0x22] @ '': '' @ w_fixed_float w progress @ ''}'')\<rparr>
  }"

definition rootAsset :: "world \<Rightarrow> string \<Rightarrow> string \<Rightarrow> string \<Rightarrow> response act" where
  "rootAsset w path content_type cache = (let p = w_static w path in
    give (p\<lparr>rp_headers := [(''Content-Type'', content_type), (''Cache-Control'', cache)] @ rp_headers p\<rparr>))"

definition api_routes :: "world \<Rightarrow> env \<Rightarrow> (string \<times> string \<times> route) list" where
  "api_routes w e =
    [(''POST'', ''/api/v1/auth/login'', Open (handleAPILogin e)),
     (''POST'', ''/api/v1/auth/google/start'', Open (handleAPIGoogleStart e)),
     (''GET'', ''/cli/google/:challenge'', Open (handleCLIGooglePage e)),
     (''POST'', ''/api/v1/auth/google/complete'', Open (handleAPIGoogleComplete e (w_jwks w))),
     (''POST'', ''/api/v1/auth/google/poll'', Open (handleAPIGooglePoll e)),
     (''POST'', ''/api/v1/auth/google/cancel'', Open (handleAPIGoogleCancel e)),
     (''GET'', ''/api/v1/me'', Api RoleReader handleAPIMe),
     (''GET'', ''/api/v1/tokens'', Api RoleReader handleAPITokens),
     (''DELETE'', ''/api/v1/token'', Api RoleReader (handleAPIRevokeCurrentToken e)),
     (''DELETE'', ''/api/v1/tokens/:name'', Api RoleReader handleAPIRevokeToken),
     (''GET'', ''/api/v1/books'', Api RoleReader (\<lambda>_. handleAPIBooks e)),
     (''GET'', ''/api/v1/books/:id'', Api RoleReader (\<lambda>_. handleAPIBook e)),
     (''GET'', ''/api/v1/books/:id/download'', Api RoleReader (\<lambda>_. handleAPIBookDownload e)),
     (''GET'', ''/api/v1/library/status'', Api RoleManager (\<lambda>_ _. handleAPILibraryStatus)),
     (''POST'', ''/api/v1/library/books'', Api RoleManager (\<lambda>_. handleAPILibraryUpload e (w_convert w))),
     (''DELETE'', ''/api/v1/library/books/:id'', Api RoleManager (\<lambda>_. handleAPILibraryRemove e)),
     (''POST'', ''/api/v1/library/rescan'', Api RoleManager (\<lambda>_ _. handleAPILibraryRescan)),
     (''GET'', ''/api/v1/users'', Api RoleAdmin (\<lambda>_ _. handleAPIUsers)),
     (''GET'', ''/api/v1/users/:id'', Api RoleAdmin (\<lambda>_. handleAPIUser)),
     (''PATCH'', ''/api/v1/users/:id'', Api RoleAdmin (\<lambda>_. handleAPIUserUpdate e)),
     (''POST'', ''/api/v1/users/:id/password'', Api RoleAdmin (\<lambda>_. handleAPIUserPassword e)),
     (''GET'', ''/api/v1/settings'', Api RoleAdmin (\<lambda>_ _. handleAPISettings)),
     (''PATCH'', ''/api/v1/settings'', Api RoleAdmin (\<lambda>_. handleAPISettingsUpdate))]"

text \<open>The pages open to everyone, the pages of a reader, and those of the administration.\<close>

definition open_routes :: "world \<Rightarrow> env \<Rightarrow> (string \<times> string \<times> route) list" where
  "open_routes w e =
    [(''GET'', ''/'', Open (handleRoot e)),
     (''GET'', ''/manifest.webmanifest'', Open (\<lambda>_. handleManifest)),
     (''GET'', ''/sw.js'', Open (\<lambda>_. rootAsset w ''/static/sw.js'' ''application/javascript; charset=utf-8'' ''no-cache'')),
     (''GET'', ''/api/about'', Open handleAbout),
     (''GET'', ''/api/help'', Open (handleHelp e)),
     (''GET'', ''/api/copyright/context'', Open (handleCopyrightClaimContext e)),
     (''POST'', ''/api/copyright-claims'', Open (handleCreateCopyrightClaim e)),
     (''GET'', ''/login'', Open (handleLogin e)), (''POST'', ''/login'', Open (handleLogin e)),
     (''GET'', ''/register'', Open (handleRegister e)), (''POST'', ''/register'', Open (handleRegister e)),
     (''POST'', ''/logout'', Open (handleLogout e)),
     (''POST'', ''/auth/google'', Open (handleGoogleLogin e (w_jwks w))),
     (''GET'', ''/api/reader/context'', Open (handleReaderContext e)),
     (''POST'', ''/api/reader/items'', Open (handleCreateReadingItemAPI e)),
     (''POST'', ''/api/reader/items/:id'', Open (handleUpdateReadingItemAPI e)),
     (''POST'', ''/api/reader/items/:id/delete'', Open (handleDeleteReadingItemAPI e)),
     (''POST'', ''/api/reader/language'', Open (handleReaderLanguage e)),
     (''GET'', ''/books/:id'', AnonymousBook (handleBook e)),
     (''GET'', ''/download/:filename'', AnonymousBook (handleDownload (w_kepub w) e)),
     (''GET'', ''/static/*filepath'', Open (\<lambda>r. give (w_static w (''/static'' @ param r ''filepath'')))),
     (''GET'', ''/covers/*filepath'', Open (\<lambda>r. give (w_static w (''/covers'' @ param r ''filepath''))))]"

definition reader_routes :: "world \<Rightarrow> env \<Rightarrow> (string \<times> string \<times> route) list" where
  "reader_routes w e = map (\<lambda>(m, p, h). (m, p, Needs RoleReader h))
    [(''GET'', ''/random'', handleRandom (w_random w)), (''GET'', ''/search'', handleSearch e),
     (''GET'', ''/api/indexer'', \<lambda>_. indexer_status w),
     (''GET'', ''/books'', handleBooks e), (''GET'', ''/read/:id'', handleReadBook e),
     (''POST'', ''/books/:id/tags'', handleAddBookTag e),
     (''POST'', ''/books/:id/tags/remove'', handleRemoveBookTag e),
     (''GET'', ''/my-library'', handleMyLibrary e), (''GET'', ''/my-library/reading'', handleReadingItems e),
     (''POST'', ''/my-library/reading/:id'', handleUpdateReadingItem e),
     (''POST'', ''/my-library/reading/:id/delete'', handleDeleteReadingItem e),
     (''POST'', ''/my-library/lists'', handleCreateBookList e),
     (''GET'', ''/my-library/lists/:id'', handleBookList e),
     (''POST'', ''/my-library/lists/:id/delete'', handleDeleteBookList e),
     (''POST'', ''/my-library/lists/:id/books/:book_id'', handleAddBookToList e),
     (''POST'', ''/my-library/lists/:id/books/:book_id/remove'', handleRemoveBookFromList e),
     (''GET'', ''/my-library/tags'', handleTaggedBooks e),
     (''GET'', ''/requests'', handleBookRequests e), (''POST'', ''/requests'', handleCreateBookRequest e),
     (''GET'', ''/profile'', handleProfile e), (''POST'', ''/profile'', handleProfile e),
     (''GET'', ''/authors'', handleAuthors e), (''GET'', ''/authors/:id'', handleAuthor e),
     (''GET'', ''/series'', handleSeriess e), (''GET'', ''/series/:id'', handleSeries e),
     (''GET'', ''/download'', handleDownloads (w_show_float w) e)]"

definition manager_routes :: "world \<Rightarrow> env \<Rightarrow> (string \<times> string \<times> route) list" where
  "manager_routes w e = map (\<lambda>(m, p, h). (m, p, Needs RoleManager h))
    [(''GET'', ''/admin'', handleAdminDashboard e), (''GET'', ''/admin/library'', handleAdminLibrary e),
     (''POST'', ''/admin/library/upload'', handleAdminLibraryUpload e (w_convert w)),
     (''POST'', ''/admin/library/rescan'', handleAdminLibraryRescan),
     (''POST'', ''/admin/library/delete/:id'', handleAdminLibraryDelete e),
     (''GET'', ''/admin/library/add'', handleAdminLibraryFind (w_parse_float w) e (w_mirrors w)),
     (''POST'', ''/admin/library/add'', handleAdminLibraryAddBooks),
     (''GET'', ''/admin/library/add/status'', \<lambda>_. handleAdminLibraryAddStatus),
     (''GET'', ''/admin/requests'', handleAdminBookRequests e),
     (''POST'', ''/admin/requests/:id'', handleAdminBookRequestResolve e)]"

definition admin_routes :: "world \<Rightarrow> env \<Rightarrow> (string \<times> string \<times> route) list" where
  "admin_routes w e = map (\<lambda>(m, p, h). (m, p, Needs RoleAdmin h))
    [(''GET'', ''/admin/copyright'', handleAdminCopyrightClaims e),
     (''POST'', ''/admin/copyright/:id'', handleAdminCopyrightClaimResolve e),
     (''GET'', ''/admin/system'', handleAdminSystemAlerts e),
     (''POST'', ''/admin/system/read'', handleAdminSystemAlertsRead e),
     (''GET'', ''/admin/users'', handleAdminUsers e),
     (''POST'', ''/admin/users/:id'', handleAdminUserUpdate e),
     (''POST'', ''/admin/users/:id/password'', handleAdminUserResetPassword e),
     (''GET'', ''/admin/settings'', handleAdminSettings e),
     (''POST'', ''/admin/settings'', handleAdminSettings e),
     (''GET'', ''/implementation.md'', handleImplementation e)]"

definition routes :: "world \<Rightarrow> env \<Rightarrow> (string \<times> string \<times> route) list" where
  "routes w e = open_routes w e @ api_routes w e @ reader_routes w e @ manager_routes w e @ admin_routes w e"

section \<open>Serving a request\<close>

text \<open>The handler registered for a method and a pattern.\<close>

fun registered :: "string \<Rightarrow> string \<Rightarrow> (string \<times> string \<times> route) list \<Rightarrow> route option" where
  "registered m pat [] = None"
| "registered m pat ((m1, p, t) # rs) = (if m1 = m \<and> p = pat then Some t else registered m pat rs)"

definition run_route :: "env \<Rightarrow> route \<Rightarrow> request \<Rightarrow> response act" where
  "run_route e t r = (case t of
      Open h \<Rightarrow> h r
    | Needs role h \<Rightarrow> requireRole e role h r
    | AnonymousBook h \<Rightarrow> allowAnonymousBook e h r
    | Api role h \<Rightarrow> requireAPIRole e role h r)"

text \<open>A path that matches no route is answered by the router itself (a redirect to the path with or without a final slash, or
  in another case, a 405 or a 404), and runs no handler.\<close>

definition serve_http :: "world \<Rightarrow> env \<Rightarrow> string \<Rightarrow> request \<Rightarrow> response act" where
  "serve_http w e path r = (case w_match w (rq_method r) path of
      None \<Rightarrow> give (http_error ''404 page not found'' 404)
    | Some (pat, ps) \<Rightarrow> (case registered (rq_method r) pat (routes w e) of
        None \<Rightarrow> give (http_error ''404 page not found'' 404)
      | Some t \<Rightarrow> run_route e t (r\<lparr>rq_params := ps\<rparr>)))"

section \<open>The build and the index\<close>

text \<open>\<open>SetBuildInfo\<close>: the Replacer drops the punctuation of the time and replaces Z by itself.\<close>

definition known_text :: "string \<Rightarrow> string" where
  "known_text s = (if trim_space s = '''' then ''unknown'' else trim_space s)"

definition compact_time :: "string \<Rightarrow> string" where
  "compact_time = filter (\<lambda>c. c \<notin> set ''-:.+'')"

definition SetBuildInfo :: "string \<Rightarrow> string \<Rightarrow> unit act" where
  "SetBuildInfo i builtAt = modify (\<lambda>s. s\<lparr>sv_build_id := known_text i, sv_build_time := known_text builtAt,
    sv_build_number := known_text i @ ''-'' @ compact_time (known_text builtAt)\<rparr>)"

text \<open>\<open>RefreshBookIndex\<close>, with the time at its end; what it answers is the error of the run.\<close>

definition RefreshBookIndex :: "env \<Rightarrow> (string \<Rightarrow> string \<Rightarrow> string list \<times> string option) \<Rightarrow> loader \<Rightarrow> string option act" where
  "RefreshBookIndex e glob getBook = State (\<lambda>s. case Refresh glob getBook (sv_index s) of
    ((errs, err), ix) \<Rightarrow> (err, s\<lparr>sv_index := ix, sv_last_index_at := Some (now e),
      sv_last_index_error := (case err of Some x \<Rightarrow> x
        | None \<Rightarrow> if errs \<noteq> [] then ''indexing finished with '' @ show_nat (length errs) @ '' book errors'' else '''')\<rparr>))"

end
