(* ===== verification/RouterFacts.thy ===== *)
theory RouterFacts
  imports Router
begin

text \<open>
What the router promises: without the token of its cookie, a form changes nothing that lasts, whatever route it names.
\<close>

section \<open>Finding a route\<close>

lemma registered_in: "registered m pat rs = Some t \<Longrightarrow> (m, pat, t) \<in> set rs"
  by (induction m pat rs rule: registered.induct) (auto split: if_splits)

lemma serve_cases:
  assumes "run_state (serve_http w e path r) s = (p, s')"
  obtains "s' = s" | ps t pat where "w_match w (rq_method r) path = Some (pat, ps)" "(rq_method r, pat, t) \<in> set (routes w e)"
    "run_state (run_route e t (r\<lparr>rq_params := ps\<rparr>)) s = (p, s')"
proof (cases "run_state (serve_http w e path r) s = run_state (give (http_error ''404 page not found'' 404)) s")
  case True
  then show ?thesis using assms by (intro that(1)) simp
next
  case False
  then obtain pat ps t where "w_match w (rq_method r) path = Some (pat, ps)" "registered (rq_method r) pat (routes w e) = Some t"
    by (auto simp: serve_http_def split: option.splits)
  then show ?thesis using assms registered_in by (intro that(2)) (auto simp: serve_http_def)
qed

section \<open>What lasts\<close>

text \<open>The tables of the database, the files, the background work and the jobs.\<close>

definition persistent :: "server \<Rightarrow> db \<times> files \<times> nat \<times> (string \<Rightarrow> job option) \<times> string list" where
  "persistent s = (tables (sv_db s), tables (sv_disk s), sv_refreshes s, sv_jobs s, sv_job_order s)"

lemma leaves_persistent:
  assumes "leaves (Http.stored id) m" "leaves (\<lambda>s. (tables (sv_disk s), sv_refreshes s, sv_jobs s, sv_job_order s)) m"
  shows "leaves persistent m"
  using assms by (auto simp: leaves_iff persistent_def)

lemmas other_pages = leaves_pages_other [where C = "\<lambda>s. (tables (sv_disk s), sv_refreshes s, sv_jobs s, sv_job_order s)", simplified]

lemma leaves_persistent_pages [leave_intro]:
  "leaves persistent (currentUser e r)" "leaves persistent (csrfToken e r)" "leaves persistent registrationAllowed"
  "leaves persistent (renderPage e r st nm dat)" "leaves persistent (message_page e r st t h msg)"
  "leaves persistent (not_found_page e r msg)"
  by (rule leaves_persistent, rule leave_intro, rule other_pages)+

lemma leaves_persistent_google [leave_intro]: "leaves persistent google_enabled"
  unfolding google_enabled_def by (rule leave_intro)

text \<open>What follows a step can rest on what the step answers.\<close>

lemma leaves_bind_pred:
  assumes "leaves C m" "pred_state P m" "\<And>x. P x \<Longrightarrow> leaves C (f x)"
  shows "leaves C (State_Monad.bind m f)"
proof -
  have "C (snd (run_state (State_Monad.bind m f) s)) = C s" for s
  proof -
    obtain x s1 where m: "run_state m s = (x, s1)" by fastforce
    then have "P x" using pred_stateD [OF assms(2)] by blast
    then have "C (snd (run_state (f x) s1)) = C s1" using assms(3) by (simp add: leaves_iff)
    also have "\<dots> = C s" by (rule leavesD [OF assms(1) m])
    finally show ?thesis using m by simp
  qed
  then show ?thesis by (simp add: leaves_iff)
qed

lemma refused_without_token:
  assumes "\<not> verifyCSRF r"
  shows "pred_state isl (readerAPIUser e r)" "pred_state isl (privateLibraryPostUser e r)"
  using assms unfolding readerAPIUser_def privateLibraryPostUser_def
  by (auto intro!: reply_intro split: option.splits)

lemma guarded_bind:
  assumes "\<not> verifyCSRF r" "\<And>p. leaves persistent (g (Inl p))"
  shows "leaves persistent (State_Monad.bind (readerAPIUser e r) g)" "leaves persistent (State_Monad.bind (privateLibraryPostUser e r) g)"
proof -
  have "leaves persistent (readerAPIUser e r)" "leaves persistent (privateLibraryPostUser e r)"
    unfolding readerAPIUser_def privateLibraryPostUser_def by (intro leave_intro)+
  then show "leaves persistent (State_Monad.bind (readerAPIUser e r) g)" "leaves persistent (State_Monad.bind (privateLibraryPostUser e r) g)"
    using assms leaves_bind_pred [OF _ refused_without_token(1) [OF assms(1)], of persistent e g]
      leaves_bind_pred [OF _ refused_without_token(2) [OF assms(1)], of persistent e g] by (auto simp: isl_def)
qed

lemma verifyCSRF_params [simp]: "verifyCSRF (r\<lparr>rq_params := ps\<rparr>) = verifyCSRF r"
  by (simp add: verifyCSRF_def split: option.splits)

text \<open>A route is guarded against forged forms when its wrapper and handler leave all that lasts alone without the token.\<close>

definition csrf_guarded :: "env \<Rightarrow> route \<Rightarrow> bool" where
  "csrf_guarded e t \<longleftrightarrow> (\<forall>r. rq_method r = ''POST'' \<and> \<not> verifyCSRF r \<longrightarrow> leaves persistent (run_route e t r))"

lemma csrf_guarded_Open: "(\<And>r. rq_method r = ''POST'' \<Longrightarrow> \<not> verifyCSRF r \<Longrightarrow> leaves persistent (h r)) \<Longrightarrow> csrf_guarded e (Open h)"
  by (simp add: csrf_guarded_def run_route_def)

lemma csrf_guarded_Needs:
  "(\<And>r. rq_method r = ''POST'' \<Longrightarrow> \<not> verifyCSRF r \<Longrightarrow> leaves persistent (h r)) \<Longrightarrow> csrf_guarded e (Needs role h)"
  by (auto simp: csrf_guarded_def run_route_def requireRole_def intro!: leave_intro)

lemma post_open:
  assumes "rq_method r = ''POST''" "\<not> verifyCSRF r"
  shows "leaves persistent (handleCreateCopyrightClaim e r)" "leaves persistent (handleLogin e r)"
    "leaves persistent (handleRegister e r)" "leaves persistent (handleLogout e r)" "leaves persistent (handleGoogleLogin e k r)"
  using assms
  by (auto simp: handleCreateCopyrightClaim_def handleLogin_def handleRegister_def handleLogout_def handleGoogleLogin_def
    intro!: leave_intro)

lemma post_guarded:
  assumes "\<not> verifyCSRF r"
  shows "leaves persistent (handleCreateReadingItemAPI e r)" "leaves persistent (handleUpdateReadingItemAPI e r)"
    "leaves persistent (handleDeleteReadingItemAPI e r)" "leaves persistent (handleReaderLanguage e r)"
    "leaves persistent (handleAddBookTag e r)" "leaves persistent (handleRemoveBookTag e r)"
    "leaves persistent (handleUpdateReadingItem e r)" "leaves persistent (handleDeleteReadingItem e r)"
    "leaves persistent (handleCreateBookList e r)" "leaves persistent (handleDeleteBookList e r)"
    "leaves persistent (handleAddBookToList e r)" "leaves persistent (handleRemoveBookFromList e r)"
  unfolding handleCreateReadingItemAPI_def handleUpdateReadingItemAPI_def handleDeleteReadingItemAPI_def handleReaderLanguage_def
    handleAddBookTag_def handleRemoveBookTag_def changeBookTag_def change_book_def handleUpdateReadingItem_def
    handleDeleteReadingItem_def handleCreateBookList_def handleDeleteBookList_def handleAddBookToList_def handleRemoveBookFromList_def
    changeBookListMembership_def Let_def
  by (rule guarded_bind [OF assms], simp add: leaves_give)+

lemma post_reader:
  assumes "rq_method r = ''POST''" "\<not> verifyCSRF r"
  shows "leaves persistent (handleCreateBookRequest e r)" "leaves persistent (handleProfile e r)"
  using assms by (auto simp: handleCreateBookRequest_def handleProfile_def intro!: leave_intro)

lemma post_admin:
  assumes "rq_method r = ''POST''" "\<not> verifyCSRF r"
  shows "leaves persistent (handleAdminLibraryUpload e v r)" "leaves persistent (handleAdminLibraryRescan r)"
    "leaves persistent (handleAdminLibraryDelete e r)" "leaves persistent (handleAdminLibraryAddBooks r)"
    "leaves persistent (handleAdminBookRequestResolve e r)" "leaves persistent (handleAdminCopyrightClaimResolve e r)"
    "leaves persistent (handleAdminSystemAlertsRead e r)" "leaves persistent (handleAdminUserUpdate e r)"
    "leaves persistent (handleAdminUserResetPassword e r)" "leaves persistent (handleAdminSettings e r)"
  using assms
  by (auto simp: handleAdminLibraryUpload_def handleAdminLibraryRescan_def handleAdminLibraryDelete_def handleAdminLibraryAddBooks_def
    picked_downloads_def handleAdminBookRequestResolve_def handleAdminCopyrightClaimResolve_def handleAdminSystemAlertsRead_def
    handleAdminUserUpdate_def handleAdminUserResetPassword_def handleAdminSettings_def Let_def intro!: leave_intro)

lemma csrf_guarded_routes:
  "list_all (\<lambda>(m, p, t). m = ''POST'' \<longrightarrow> csrf_guarded e t) (open_routes w e)"
  "list_all (\<lambda>(m, p, t). m = ''POST'' \<longrightarrow> csrf_guarded e t) (reader_routes w e)"
  "list_all (\<lambda>(m, p, t). m = ''POST'' \<longrightarrow> csrf_guarded e t) (manager_routes w e)"
  "list_all (\<lambda>(m, p, t). m = ''POST'' \<longrightarrow> csrf_guarded e t) (admin_routes w e)"
  by (simp_all add: open_routes_def reader_routes_def manager_routes_def admin_routes_def
    csrf_guarded_Open csrf_guarded_Needs post_open post_guarded post_reader post_admin)

lemma api_routes_prefix: "list_all (\<lambda>(m, p, t). m = ''POST'' \<longrightarrow> take 8 p = ''/api/v1/'') (api_routes w e)"
  by (simp add: api_routes_def)

text \<open>C28: No POST request from a browser that lacks the CSRF token of its cookie changes anything that lasts, whatever it asks
  for and whoever sends it: not the database, not the library, no background work, no job. Only the requests of the API,
  under \<open>/api/v1\<close>, are served without the token; they identify their sender by a bearer token, which no form can send.\<close>

theorem forged_forms_change_nothing:
  assumes "run_state (serve_http w e path r) s = (p, s')" "rq_method r = ''POST''" "\<not> verifyCSRF r"
    and "\<And>pat ps. w_match w ''POST'' path = Some (pat, ps) \<Longrightarrow> take 8 pat \<noteq> ''/api/v1/''"
  shows "persistent s' = persistent s"
  using assms(1)
proof (cases rule: serve_cases)
  case 1
  then show ?thesis by simp
next
  case (2 ps t pat)
  have "(''POST'', pat, t) \<notin> set (api_routes w e)"
    using api_routes_prefix [of w e] assms(4) 2(1) assms(2) by (auto simp: list_all_iff)
  then have "csrf_guarded e t"
    using 2(2) assms(2) csrf_guarded_routes [of e w] by (auto simp: routes_def list_all_iff)
  then have "leaves persistent (run_route e t (r\<lparr>rq_params := ps\<rparr>))"
    using assms(2,3) unfolding csrf_guarded_def by simp
  then show ?thesis using 2(3) by (rule leavesD)
qed

definition ex_world :: world where
  "ex_world = \<lparr>w_match = (\<lambda>_ path. Some (path, [])), w_random = 0, w_show_float = (\<lambda>_. ''''), w_fixed_float = (\<lambda>_. ''''),
    w_parse_float = (\<lambda>_. None), w_kepub = (\<lambda>_. None), w_convert = NoConverter, w_jwks = None, w_mirrors = [],
    w_static = (\<lambda>_. http_error '''' 404)\<rparr>"

theorem forged_forms_change_nothing_witness:
  "persistent (snd (run_state (serve_http ex_world ex_env ''/admin/library/rescan'' ((ex_post ''/admin/library/rescan'' [])\<lparr>rq_cookies := []\<rparr>))
    (ex_server ex_db))) = persistent (ex_server ex_db)"
  using forged_forms_change_nothing [where r = "(ex_post ''/admin/library/rescan'' [])\<lparr>rq_cookies := []\<rparr>" and w = ex_world and e = ex_env
    and path = "''/admin/library/rescan''" and s = "ex_server ex_db", OF surjective_pairing]
  by (simp add: ex_post_def verifyCSRF_def ex_world_def)

end
