(* ===== verification/SettingsFacts.thy ===== *)
theory SettingsFacts
  imports RouterFacts
begin

text \<open>
Which requests change the settings of the site: the handlers one by one leave them alone, except the two of the
administration, and these two run for an administrator only.
\<close>

section \<open>Calls of the store that leave the settings alone\<close>

lemmas settings_calls = leaves_store [OF keeps_settings_accounts(1)] leaves_store [OF keeps_settings_accounts(2)]
  leaves_store [OF keeps_settings_accounts(3)] leaves_store [OF keeps_settings_accounts(4)] leaves_store [OF keeps_settings_accounts(5)]
  leaves_store [OF keeps_settings_accounts(6)] leaves_store [OF keeps_settings_accounts(7)] leaves_store [OF keeps_settings_accounts(8)]
  leaves_store [OF keeps_settings_accounts(9)] leaves_store [OF keeps_settings_accounts(10)]
  keeps_settings_credentials [THEN leaves_store] keeps_settings_alerts [THEN leaves_store] keeps_settings_library [THEN leaves_store]
  keeps_settings_reading [THEN leaves_store] keeps_settings_requests [THEN leaves_store]

section \<open>Handlers that leave the settings alone\<close>

abbreviation site_settings :: "server \<Rightarrow> settings_row list" where
  "site_settings s \<equiv> settings_tab (tables (sv_db s))"

lemma leaves_memory [leave_intro]:
  "leaves (Http.stored C) (allowed e k)" "leaves (Http.stored C) (fail e k)" "leaves (Http.stored C) (clear k)"
  "leaves (Http.stored C) (on_challenges f)" "leaves (Http.stored C) (finish i b)" "leaves (Http.stored C) (on_disk m)"
  "leaves (Http.stored C) (setLibgenJob j)" "leaves (Http.stored C) (updateLibgenJob a b' c)"
  "leaves (Http.stored C) (verify_google e jw cr)"
  unfolding allowed_def fail_def clear_def finish_def on_challenges_def on_disk_def setLibgenJob_def updateLibgenJob_def verify_google_def
  by (auto simp: leaves_iff modify_def split: prod.splits option.splits)

lemma leaves_lists [leave_intro]: "leaves (Http.stored C) (queue_jobs ts)" "leaves (Http.stored C) (user_views e fmt bl us)"
  by (induction ts rule: queue_jobs.induct) (auto intro!: leave_intro, induction us, auto intro!: leave_intro)

lemma settings_session [leave_intro]: "leaves site_settings (startSession e r u)"
  unfolding startSession_def by (intro leave_intro settings_calls)

lemma settings_open:
  "leaves site_settings (handleLogin e r)" "leaves site_settings (handleRegister e r)" "leaves site_settings (handleLogout e r)"
  "leaves site_settings (handleGoogleLogin e k r)" "leaves site_settings (handleRoot e r)" "leaves site_settings handleManifest"
  "leaves site_settings (rootAsset w a b c)" "leaves site_settings (handleAbout r)" "leaves site_settings (handleHelp e r)"
  "leaves site_settings (handleCopyrightClaimContext e r)" "leaves site_settings (handleCreateCopyrightClaim e r)"
  "leaves site_settings (handleReaderContext e r)" "leaves site_settings (handleReaderLanguage e r)"
  "leaves site_settings (handleCreateReadingItemAPI e r)" "leaves site_settings (handleUpdateReadingItemAPI e r)"
  "leaves site_settings (handleDeleteReadingItemAPI e r)"
  unfolding handleLogin_def handleRegister_def handleLogout_def handleGoogleLogin_def handleRoot_def handleManifest_def rootAsset_def
    handleAbout_def aboutData_def handleHelp_def handleCopyrightClaimContext_def handleCreateCopyrightClaim_def handleReaderContext_def
    handleReaderLanguage_def handleCreateReadingItemAPI_def handleUpdateReadingItemAPI_def handleDeleteReadingItemAPI_def
    readerAPIUser_def register_error_def
  by (intro leave_intro settings_calls leaves_modify; simp)+

lemma leaves_poll [leave_intro]:
  "leaves C a \<Longrightarrow> leaves C b \<Longrightarrow> leaves C c \<Longrightarrow> leaves C d \<Longrightarrow> (\<And>x. leaves C (f x)) \<Longrightarrow>
    leaves C (case p of Invalid \<Rightarrow> a | Expired \<Rightarrow> b | Slow \<Rightarrow> c | Pending \<Rightarrow> d | Approved x \<Rightarrow> f x)"
  by (cases p) simp_all

lemma settings_api:
  "leaves site_settings (handleAPILogin e r)" "leaves site_settings (handleAPIGoogleStart e r)" "leaves site_settings (handleCLIGooglePage e r)"
  "leaves site_settings (handleAPIGoogleComplete e jw r)" "leaves site_settings (handleAPIGooglePoll e r)"
  "leaves site_settings (handleAPIGoogleCancel e r)" "leaves site_settings (handleAPIMe i r)" "leaves site_settings (handleAPITokens i r)"
  "leaves site_settings (handleAPIRevokeCurrentToken e i r)" "leaves site_settings (handleAPIRevokeToken i r)"
  unfolding handleAPILogin_def handleAPIGoogleStart_def handleCLIGooglePage_def handleAPIGoogleComplete_def handleAPIGooglePoll_def
    handleAPIGoogleCancel_def handleAPIMe_def handleAPITokens_def handleAPIRevokeCurrentToken_def handleAPIRevokeToken_def
    issue_token_def
  by (intro leave_intro settings_calls)+

lemma settings_api_library:
  "leaves site_settings (handleAPIBooks e r)" "leaves site_settings (handleAPIBook e r)" "leaves site_settings (handleAPIBookDownload e r)"
  "leaves site_settings handleAPILibraryStatus" "leaves site_settings (handleAPILibraryUpload e v r)"
  "leaves site_settings (handleAPILibraryRemove e r)" "leaves site_settings handleAPILibraryRescan" "leaves site_settings handleAPIUsers"
  "leaves site_settings (handleAPIUser r)" "leaves site_settings (handleAPIUserUpdate e r)" "leaves site_settings (handleAPIUserPassword e r)"
  "leaves site_settings handleAPISettings"
  unfolding handleAPIBooks_def handleAPIBook_def handleAPIBookDownload_def handleAPILibraryStatus_def handleAPILibraryUpload_def
    handleAPILibraryRemove_def handleAPILibraryRescan_def handleAPIUsers_def handleAPIUser_def handleAPIUserUpdate_def
    handleAPIUserPassword_def handleAPISettings_def with_user_def upload_book_def remove_book_def
  by (intro leave_intro settings_calls)+

lemma settings_catalogue:
  "leaves site_settings (handleBook e r)" "leaves site_settings (handleDownload kp e r)" "leaves site_settings (handleRandom k r)"
  "leaves site_settings (handleSearch e r)" "leaves site_settings (indexer_status w)" "leaves site_settings (handleBooks e r)"
  "leaves site_settings (handleAuthors e r)" "leaves site_settings (handleAuthor e r)" "leaves site_settings (handleSeriess e r)"
  "leaves site_settings (handleSeries e r)" "leaves site_settings (handleDownloads sf e r)"
  unfolding handleBook_def handleDownload_def handleRandom_def handleSearch_def indexer_status_def handleBooks_def handleAuthors_def
    handleAuthor_def handleSeriess_def handleSeries_def handleDownloads_def not_found_bar_def Let_def
  by (intro leave_intro settings_calls)+

lemma settings_reader:
  "leaves site_settings (handleReadBook e r)" "leaves site_settings (handleAddBookTag e r)" "leaves site_settings (handleRemoveBookTag e r)"
  "leaves site_settings (handleMyLibrary e r)" "leaves site_settings (handleReadingItems e r)" "leaves site_settings (handleUpdateReadingItem e r)"
  "leaves site_settings (handleDeleteReadingItem e r)" "leaves site_settings (handleCreateBookList e r)" "leaves site_settings (handleBookList e r)"
  "leaves site_settings (handleDeleteBookList e r)" "leaves site_settings (handleAddBookToList e r)"
  "leaves site_settings (handleRemoveBookFromList e r)" "leaves site_settings (handleTaggedBooks e r)"
  "leaves site_settings (handleBookRequests e r)" "leaves site_settings (handleCreateBookRequest e r)" "leaves site_settings (handleProfile e r)"
  unfolding handleReadBook_def handleAddBookTag_def handleRemoveBookTag_def changeBookTag_def change_book_def handleMyLibrary_def
    handleReadingItems_def handleUpdateReadingItem_def handleDeleteReadingItem_def handleCreateBookList_def handleBookList_def
    handleDeleteBookList_def handleAddBookToList_def handleRemoveBookFromList_def changeBookListMembership_def handleTaggedBooks_def
    handleBookRequests_def handleCreateBookRequest_def handleProfile_def privateLibraryPostUser_def Let_def if_True if_False
  by (intro leave_intro settings_calls)+

lemma settings_manager:
  "leaves site_settings (handleAdminDashboard e r)" "leaves site_settings (handleAdminLibrary e r)"
  "leaves site_settings (handleAdminLibraryUpload e v r)" "leaves site_settings (handleAdminLibraryRescan r)"
  "leaves site_settings (handleAdminLibraryDelete e r)" "leaves site_settings (handleAdminLibraryFind pf e ms r)"
  "leaves site_settings (handleAdminLibraryAddBooks r)" "leaves site_settings handleAdminLibraryAddStatus"
  "leaves site_settings (handleAdminBookRequests e r)" "leaves site_settings (handleAdminBookRequestResolve e r)"
  unfolding handleAdminDashboard_def handleAdminLibrary_def handleAdminLibraryUpload_def handleAdminLibraryRescan_def
    handleAdminLibraryDelete_def handleAdminLibraryFind_def handleAdminLibraryAddBooks_def handleAdminLibraryAddStatus_def
    handleAdminBookRequests_def handleAdminBookRequestResolve_def upload_book_def remove_book_def Let_def
  by (intro leave_intro settings_calls)+

lemma settings_admin:
  "leaves site_settings (handleAdminCopyrightClaims e r)" "leaves site_settings (handleAdminCopyrightClaimResolve e r)"
  "leaves site_settings (handleAdminSystemAlerts e r)" "leaves site_settings (handleAdminSystemAlertsRead e r)"
  "leaves site_settings (handleAdminUsers e r)" "leaves site_settings (handleAdminUserUpdate e r)"
  "leaves site_settings (handleAdminUserResetPassword e r)" "leaves site_settings (handleImplementation e r)"
  unfolding handleAdminCopyrightClaims_def handleAdminCopyrightClaimResolve_def remove_claimed_def resolve_claimed_def
    handleAdminSystemAlerts_def handleAdminSystemAlertsRead_def handleAdminUsers_def handleAdminUserUpdate_def
    handleAdminUserResetPassword_def handleImplementation_def remove_book_def Let_def
  by (intro leave_intro settings_calls)+

section \<open>Who changes the settings\<close>

lemma route_same [simp]:
  "currentUser e (r\<lparr>rq_params := ps\<rparr>) = currentUser e r" "bearer_token (r\<lparr>rq_params := ps\<rparr>) = bearer_token r"
  by (simp_all add: currentUser_def bearer_token_def split: option.splits)

definition settings_safe :: "env \<Rightarrow> route \<Rightarrow> bool" where
  "settings_safe e t \<longleftrightarrow> (\<forall>r. leaves site_settings (run_route e t r))"

lemma settings_safe_Open: "(\<And>r. leaves site_settings (h r)) \<Longrightarrow> settings_safe e (Open h)"
  by (simp add: settings_safe_def run_route_def)

lemma settings_safe_Needs: "(\<And>r. leaves site_settings (h r)) \<Longrightarrow> settings_safe e (Needs role h)"
  by (auto simp: settings_safe_def run_route_def requireRole_def intro!: leave_intro)

lemma settings_safe_AnonymousBook: "(\<And>r. leaves site_settings (h r)) \<Longrightarrow> settings_safe e (AnonymousBook h)"
  by (auto simp: settings_safe_def run_route_def allowAnonymousBook_def intro!: leave_intro)

lemma settings_safe_Api: "(\<And>i r. leaves site_settings (h i r)) \<Longrightarrow> settings_safe e (Api role h)"
  by (auto simp: settings_safe_def run_route_def requireAPIRole_def intro!: leave_intro settings_calls)

lemmas settings_safe_rules = settings_safe_Open settings_safe_Needs settings_safe_AnonymousBook settings_safe_Api
  settings_open settings_api settings_api_library settings_catalogue settings_reader settings_manager settings_admin leaves_give

lemma settings_routes:
  "list_all (\<lambda>(m, p, t). settings_safe e t) (open_routes w e)"
  "list_all (\<lambda>(m, p, t). settings_safe e t \<or> t = Api RoleAdmin (\<lambda>_. handleAPISettingsUpdate)) (api_routes w e)"
  "list_all (\<lambda>(m, p, t). settings_safe e t) (reader_routes w e)"
  "list_all (\<lambda>(m, p, t). settings_safe e t) (manager_routes w e)"
  "list_all (\<lambda>(m, p, t). settings_safe e t \<or> t = Needs RoleAdmin (handleAdminSettings e)) (admin_routes w e)"
  by (simp_all add: open_routes_def api_routes_def reader_routes_def manager_routes_def admin_routes_def settings_safe_rules)

lemma settings_route:
  assumes "(m, p, t) \<in> set (routes w e)"
  shows "settings_safe e t \<or> t = Api RoleAdmin (\<lambda>_. handleAPISettingsUpdate) \<or> t = Needs RoleAdmin (handleAdminSettings e)"
  using assms settings_routes [of e w] unfolding routes_def set_append list_all_iff Un_iff by (elim disjE) (drule (1) bspec, simp only: prod.case, blast)+

lemma settings_form:
  assumes "run_state (requireRole e RoleAdmin (handleAdminSettings e) r) s = (p, s')" "site_settings s' \<noteq> site_settings s"
  obtains u where "fst (run_state (currentUser e r) s) = Some u" "role_allows (user_Role u) RoleAdmin" "verifyCSRF r"
proof -
  obtain x s1 where u: "run_state (currentUser e r) s = (x, s1)" by fastforce
  have s1: "site_settings s1 = site_settings s" by (rule leavesD [OF _ u]) (rule leave_intro)
  have page: "leaves site_settings (message_page e r a b c d)" for a b c d by (rule leave_intro)
  from assms u s1 obtain v where v: "x = Some v" "role_allows (user_Role v) RoleAdmin"
    and run: "run_state (handleAdminSettings e r) s1 = (p, s')"
    by (auto simp: requireRole_def leavesD [OF page] split: option.splits if_splits)
  have "\<not> verifyCSRF r \<Longrightarrow> leaves site_settings (handleAdminSettings e r)"
    unfolding handleAdminSettings_def renderAdminSettings_def by (auto intro!: leave_intro)
  then have "verifyCSRF r" using leavesD [OF _ run, of site_settings] assms(2) s1 by metis
  then show ?thesis using that u v by simp
qed

lemma settings_call:
  assumes "run_state (requireAPIRole e RoleAdmin (\<lambda>_. handleAPISettingsUpdate) r) s = (p, s')" "site_settings s' \<noteq> site_settings s"
  obtains raw u t where "bearer_token r = Some raw" "fst (run_state (store (UserForAPIToken e raw)) s) = Inr (Some (u, t))"
    "role_allows (user_Role u) RoleAdmin"
proof -
  from assms obtain raw where raw: "bearer_token r = Some raw" by (auto simp: requireAPIRole_def split: option.splits)
  obtain x s1 where u: "run_state (store (UserForAPIToken e raw)) s = (x, s1)" by fastforce
  have s1: "site_settings s1 = site_settings s" by (rule leavesD [OF leaves_store [OF keeps_settings_credentials(4)] u])
  from assms raw u s1 obtain v t where "x = Inr (Some (v, t))" "role_allows (user_Role v) RoleAdmin"
    by (auto simp: requireAPIRole_def split: sum.splits option.splits if_splits)
  then show ?thesis using that raw u by simp
qed

lemma role_allows_admin: "role_allows r RoleAdmin \<longleftrightarrow> r = RoleAdmin"
  by (simp add: role_allows_def roleRank_def)

text \<open>C29: The settings of the site change only for an administrator: a request that changes them carries the session cookie
  of an account with the role admin together with the form token of its cookie, or the API token of an account with
  the role admin, as the store knows them when the request arrives. This holds for every route, the open ones included.\<close>

theorem settings_need_an_administrator:
  assumes "run_state (serve_http w e path r) s = (p, s')" "settings_tab (tables (sv_db s')) \<noteq> settings_tab (tables (sv_db s))"
  shows "(\<exists>u. fst (run_state (currentUser e r) s) = Some u \<and> user_Role u = RoleAdmin \<and> verifyCSRF r) \<or>
    (\<exists>raw u t. bearer_token r = Some raw \<and> fst (run_state (store (UserForAPIToken e raw)) s) = Inr (Some (u, t)) \<and>
      user_Role u = RoleAdmin)"
  using assms(1)
proof (cases rule: serve_cases)
  case 1
  then show ?thesis using assms(2) by simp
next
  case (2 ps t pat)
  have "\<not> settings_safe e t" using leavesD [OF _ 2(3), of site_settings] assms(2) by (auto simp: settings_safe_def)
  then consider "t = Needs RoleAdmin (handleAdminSettings e)" | "t = Api RoleAdmin (\<lambda>_. handleAPISettingsUpdate)"
    using settings_route [OF 2(2)] by blast
  then show ?thesis
  proof cases
    case 1
    then have "run_state (requireRole e RoleAdmin (handleAdminSettings e) (r\<lparr>rq_params := ps\<rparr>)) s = (p, s')"
      using 2(3) by (simp only: run_route_def route.case)
    from settings_form [OF this assms(2)] show ?thesis unfolding role_allows_admin route_same verifyCSRF_params by blast
  next
    case 2
    then have "run_state (requireAPIRole e RoleAdmin (\<lambda>_. handleAPISettingsUpdate) (r\<lparr>rq_params := ps\<rparr>)) s = (p, s')"
      using \<open>run_state (run_route e t (r\<lparr>rq_params := ps\<rparr>)) s = (p, s')\<close> by (simp only: run_route_def route.case)
    from settings_call [OF this assms(2)] obtain raw u k where "bearer_token r = Some raw"
      "fst (run_state (store (UserForAPIToken e raw)) s) = Inr (Some (u, k))" "user_Role u = RoleAdmin"
      unfolding role_allows_admin route_same .
    then show ?thesis by (intro disjI2 exI conjI)
  qed
qed

definition ex_admin_db :: db where
  "ex_admin_db = ex_db\<lparr>sessions := [\<lparr>s_token_hash = tokenHash go_crypto ''t'', s_user_id = ''u1'', s_created_at = 0, s_expires_at = 9\<rparr>]\<rparr>"

definition ex_settings_request :: request where
  "ex_settings_request = (let r = ex_post ''/admin/settings'' [(''site_name'', ''Our books''), (''pwa_name'', ''Books'')]
    in r\<lparr>rq_cookies := rq_cookies r @ [(sessionCookieName, ''t'')]\<rparr>)"

lemma ex_settings_request_simps:
  "rq_method ex_settings_request = ''POST''" "verifyCSRF ex_settings_request"
  "cookie_value ex_settings_request sessionCookieName = Some ''t''"
  "form_settings ex_settings_request =
    \<lparr>set_SiteName = ''Our books'', set_PWAName = ''Books'', set_RegistrationOpen = False, set_AnonymousBookLinks = False\<rparr>"
  by (simp_all add: ex_settings_request_def ex_post_def verifyCSRF_def form_settings_def sessionCookieName_def csrfCookieName_def
    lookup_first_def constantStringEqual_def)

lemma ex_settings_user:
  "run_state (currentUser ex_env ex_settings_request) (ex_server ex_admin_db) = (Some (scanUser ex_user), ex_server ex_admin_db)"
  by (simp add: currentUser_def ex_settings_request_simps ex_server_def UserForSession_def session_user_def ex_admin_db_def
    run_defs no_rows_nil_def scan_user_row_def unix_of_def)

lemma ex_settings_route:
  "registered ''POST'' ''/admin/settings'' (routes w e) = Some (Needs RoleAdmin (handleAdminSettings e))"
  by (simp add: routes_def open_routes_def api_routes_def reader_routes_def manager_routes_def admin_routes_def)

lemma ex_settings_update:
  "UpdateSettings (form_settings ex_settings_request) (ex_conn ex_admin_db) =
    (Inr (), ex_conn (ex_admin_db\<lparr>settings_tab :=
      [\<lparr>g_site_name = ''Our books'', g_pwa_name = ''Books'', g_registration_open = False, g_anonymous_book_links = False\<rparr>]\<rparr>))"
  by (simp add: ex_settings_request_simps UpdateSettings_def ascii_eval run_defs ex_admin_db_def ex_conn_def
    update_tab_def write_rows_def settings_broken_def upd_where_def count_where_def)

lemma form_settings_params: "form_settings (r\<lparr>rq_params := ps\<rparr>) = form_settings r"
  by (simp add: form_settings_def)

lemma ex_settings_changed:
  "settings_tab (tables (sv_db (snd (run_state (serve_http ex_world ex_env ''/admin/settings'' ex_settings_request) (ex_server ex_admin_db)))))
    \<noteq> settings_tab (tables (sv_db (ex_server ex_admin_db)))"
proof -
  have g: "settings_tab ex_admin_db = settings_tab initial_db" by (simp add: ex_admin_db_def)
  have d: "sv_db (ex_server ex_admin_db) = ex_conn ex_admin_db" by (simp add: ex_server_def)
  have "run_state (serve_http ex_world ex_env ''/admin/settings'' ex_settings_request) (ex_server ex_admin_db) =
    run_state (requireRole ex_env RoleAdmin (handleAdminSettings ex_env) (ex_settings_request\<lparr>rq_params := []\<rparr>)) (ex_server ex_admin_db)"
    by (simp only: serve_http_def ex_settings_request_simps ex_world_def world.simps option.case prod.case ex_settings_route
      run_route_def route.case)
  then show ?thesis
    using ex_settings_update form_settings_params [where r = ex_settings_request and ps = "[]"]
    by (simp add: requireRole_def ex_settings_user handleAdminSettings_def ex_settings_request_simps role_allows_admin [simplified] d g
      scanUser_def)
qed

theorem settings_need_an_administrator_witness:
  "(\<exists>u. fst (run_state (currentUser ex_env ex_settings_request) (ex_server ex_admin_db)) = Some u \<and> user_Role u = RoleAdmin \<and>
      verifyCSRF ex_settings_request) \<or>
    (\<exists>raw u t. bearer_token ex_settings_request = Some raw \<and>
      fst (run_state (store (UserForAPIToken ex_env raw)) (ex_server ex_admin_db)) = Inr (Some (u, t)) \<and> user_Role u = RoleAdmin)"
  by (rule settings_need_an_administrator [OF surjective_pairing ex_settings_changed])


end
