(* ===== verification/LimiterFacts.thy ===== *)
theory LimiterFacts
  imports ApiAuth
begin

text \<open>
  How many passwords can be tried: the form (\<open>handleLogin\<close>) and the API (\<open>handleAPILogin\<close>) share one limiter of failed
  attempts (\<open>server/auth.go\<close>, lines 34 to 72), whose entry for a client and an email address is opened by the first failure,
  ends fifteen minutes later and is removed by a success. The bound is an amortised one: an entry has a potential, the
  failures it still allows, and every password that is refused takes one from it.
\<close>

section \<open>What a sign-in does to the limiter\<close>

lemmas attempts_pages = leaves_pages_other [where C = sv_attempts, simplified]

lemma attempts_kept:
  "run_state (renderPage e r st nm dat) s = (p, s') \<Longrightarrow> sv_attempts s' = sv_attempts s"
  "run_state (message_page e r st t h msg) s = (p, s') \<Longrightarrow> sv_attempts s' = sv_attempts s"
  "run_state (startSession e r u) s = (x, s') \<Longrightarrow> sv_attempts s' = sv_attempts s"
  "run_state (currentUser e r) s = (x', s') \<Longrightarrow> sv_attempts s' = sv_attempts s"
  "run_state (store m) s = (x'', s') \<Longrightarrow> sv_attempts s' = sv_attempts s"
  by (rule leavesD [OF attempts_pages(8)], assumption)
    (rule leavesD [OF attempts_pages(9)], assumption, rule leavesD [OF attempts_pages(11)], assumption,
     rule leavesD [OF attempts_pages(5)], assumption, rule leavesD [OF leaves_store_other], simp_all)

lemma page_attempts:
  "run_state (renderPage e r st nm dat) s = (p, s') \<Longrightarrow> sv_attempts s' = sv_attempts s \<and> rp_status p = st"
  "run_state (message_page e r st t h msg) s = (p, s') \<Longrightarrow> sv_attempts s' = sv_attempts s \<and> rp_status p = st"
  by (simp_all add: attempts_kept page_run message_run)

lemma error_status [simp]: "rp_status (writeAPIError st c m) = st" "rp_status (writeAPIJSON st v) = st"
  by (simp_all add: writeAPIError_def writeAPIJSON_def)

text \<open>The answers to a password that was checked are other than the one of the limiter.\<close>

lemma store_error_status: "rp_status (writeAPIStoreError x) \<noteq> 429"
  by (simp add: writeAPIStoreError_def)

text \<open>A sign-in comes by the form or by the API. The password it carries, if it gets as far as one, is judged by the store
  alone: its verdict is what \<open>AuthenticateEmail\<close> returns for it in the state of the store at that time.\<close>

datatype sign_in = Form request | Api request

fun answer :: "env \<Rightarrow> sign_in \<Rightarrow> response act" where
  "answer e (Form r) = handleLogin e r"
| "answer e (Api r) = handleAPILogin e r"

definition api_input :: "request \<Rightarrow> response + login_input" where
  "api_input r = decodeAPIJSON [''email'', ''password'', ''token_name''] login_target r"

fun guessed_for :: "env \<Rightarrow> sign_in \<Rightarrow> string option" where
  "guessed_for e (Form r) = Some (login_key e r (FormValue r ''email''))"
| "guessed_for e (Api r) = (case api_input r of Inl _ \<Rightarrow> None | Inr x \<Rightarrow> Some (login_key e r (li_Email x)))"

fun verdict :: "env \<Rightarrow> sign_in \<Rightarrow> server \<Rightarrow> (err + User) option" where
  "verdict e (Form r) s = (case run_state (currentUser e r) s of (u, s1) \<Rightarrow>
      if u \<noteq> None \<or> rq_method r = ''GET'' \<or> \<not> verifyCSRF r then None
      else Some (fst (AuthenticateEmail e (to_lower (low e) (trim_space (FormValue r ''email''))) (FormValue r ''password'') (sv_db s1))))"
| "verdict e (Api r) s = (case api_input r of
      Inl _ \<Rightarrow> None
    | Inr x \<Rightarrow> Some (fst (AuthenticateEmail e (li_Email x) (li_Password x) (sv_db s))))"

text \<open>What a sign-in leaves of the attempts: nothing changes, it is turned away, the password is refused, or accepted.\<close>

definition sign_in_cases :: "env \<Rightarrow> string \<Rightarrow> (err + User) option \<Rightarrow> server \<Rightarrow> nat \<Rightarrow> server \<Rightarrow> bool" where
  "sign_in_cases e key v s st s' \<longleftrightarrow>
    (let (ok, m) = attempt_allowed key (now e) (sv_attempts s)
     in (v = None \<and> sv_attempts s' = sv_attempts s)
      \<or> (v \<noteq> None \<and> \<not> ok \<and> st = 429 \<and> sv_attempts s' = m)
      \<or> (\<exists>x. v = Some (Inl x) \<and> ok \<and> st \<noteq> 429 \<and> sv_attempts s' = attempt_fail key (now e) m)
      \<or> (\<exists>u. v = Some (Inr u) \<and> ok \<and> st \<noteq> 429 \<and> sv_attempts s' = attempt_clear key m))"

lemma form_cases:
  assumes run: "run_state (handleLogin e r) s = (p, s')"
  shows "sign_in_cases e (login_key e r (FormValue r ''email'')) (verdict e (Form r) s) s (rp_status p) s'"
proof -
  define key where "key = login_key e r (FormValue r ''email'')"
  obtain u s1 where u: "run_state (currentUser e r) s = (u, s1)" by fastforce
  then have s1: "sv_attempts s1 = sv_attempts s" by (rule attempts_kept)
  obtain ok m where a: "attempt_allowed key (now e) (sv_attempts s) = (ok, m)" by fastforce
  define s2 where "s2 = s1\<lparr>sv_attempts := m\<rparr>"
  define pw where "pw = AuthenticateEmail e (to_lower (low e) (trim_space (FormValue r ''email''))) (FormValue r ''password'')"
  obtain x c where x: "pw (sv_db s1) = (x, c)" by fastforce
  consider "u \<noteq> None" | "u = None" "rq_method r = ''GET''" | "u = None" "rq_method r \<noteq> ''GET''" "\<not> verifyCSRF r"
    | "u = None" "rq_method r \<noteq> ''GET''" "verifyCSRF r" "\<not> ok"
    | y where "u = None" "rq_method r \<noteq> ''GET''" "verifyCSRF r" "ok" "x = Inl y"
    | w where "u = None" "rq_method r \<noteq> ''GET''" "verifyCSRF r" "ok" "x = Inr w"
    by (cases x) auto
  then show ?thesis unfolding key_def [symmetric]
  proof cases
    case 6
    obtain z s4 where z: "run_state (startSession e r w) (s2\<lparr>sv_db := c, sv_attempts := attempt_clear key m\<rparr>) = (z, s4)"
      by fastforce
    then have "sv_attempts s4 = attempt_clear key m" using attempts_kept(3) by fastforce
    then show "sign_in_cases e key (verdict e (Form r) s) s (rp_status p) s'" using 6 run u s1 a x z
      by (cases z) (auto simp: sign_in_cases_def handleLogin_def Let_def allowed_def clear_def redirect_def key_def [symmetric]
        s2_def pw_def [symmetric] dest!: page_attempts)
  qed (use run u s1 a x in \<open>auto simp: sign_in_cases_def handleLogin_def Let_def allowed_def fail_def redirect_def
    key_def [symmetric] s2_def pw_def [symmetric] dest!: page_attempts\<close>)
qed

lemma api_cases:
  assumes run: "run_state (handleAPILogin e r) s = (p, s')" and i: "api_input r = Inr i"
  shows "sign_in_cases e (login_key e r (li_Email i)) (verdict e (Api r) s) s (rp_status p) s'"
proof -
  define key where "key = login_key e r (li_Email i)"
  obtain ok m where a: "attempt_allowed key (now e) (sv_attempts s) = (ok, m)" by fastforce
  define pw where "pw = AuthenticateEmail e (li_Email i) (li_Password i)"
  obtain x c where x: "pw (sv_db s) = (x, c)" by fastforce
  note i1 = i [unfolded api_input_def]
  show ?thesis unfolding key_def [symmetric]
  proof (cases ok; cases x)
    fix u assume "ok" "x = Inr u"
    then show "sign_in_cases e key (verdict e (Api r) s) s (rp_status p) s'" using run i i1 a x
      by (auto simp: sign_in_cases_def handleAPILogin_def Let_def allowed_def clear_def key_def [symmetric] pw_def [symmetric]
        store_error_status split: sum.splits prod.splits)
  qed (use run i i1 a x in \<open>auto simp: sign_in_cases_def handleAPILogin_def Let_def allowed_def fail_def
    key_def [symmetric] pw_def [symmetric] store_error_status\<close>)
qed

lemma answer_cases:
  assumes "run_state (answer e k) s = (p, s')"
  shows "(guessed_for e k = None \<and> verdict e k s = None \<and> sv_attempts s' = sv_attempts s)
    \<or> (\<exists>key. guessed_for e k = Some key \<and> sign_in_cases e key (verdict e k s) s (rp_status p) s')"
proof (cases k)
  case (Form r)
  then show ?thesis using form_cases [of e r s p s'] assms by simp
next
  case (Api r)
  show ?thesis
  proof (cases "api_input r")
    case (Inl q)
    then show ?thesis using assms Api by (auto simp: handleAPILogin_def api_input_def)
  next
    case (Inr i)
    then show ?thesis using api_cases [OF _ Inr] assms Api by simp
  qed
qed

section \<open>Guessing passwords\<close>

text \<open>Sign-ins served one after the other, and the verdicts on the passwords that were checked for one client and address, in
  their order. A sign-in that is answered with 429 was turned away by the limiter.\<close>

fun checked :: "string \<Rightarrow> (env \<times> sign_in) list \<Rightarrow> server \<Rightarrow> (err + User) list" where
  "checked key [] s = []"
| "checked key ((e, k) # ks) s = (case run_state (answer e k) s of (p, s1) \<Rightarrow>
      (case verdict e k s of
        None \<Rightarrow> []
      | Some v \<Rightarrow> if guessed_for e k = Some key \<and> rp_status p \<noteq> 429 then [v] else []) @ checked key ks s1)"

abbreviation refused :: "(err + User) list \<Rightarrow> nat" where "refused vs \<equiv> length (filter isl vs)"
abbreviation accepted :: "(err + User) list \<Rightarrow> nat" where "accepted vs \<equiv> length (filter (\<lambda>v. \<not> isl v) vs)"

text \<open>The potential of the limiter: the passwords it may still let be refused until fifteen minutes after \<open>t\<close>. An entry that
  ends before then is followed by one more.\<close>

definition potential :: "gotime \<Rightarrow> string \<Rightarrow> (string \<Rightarrow> attempt_entry option) \<Rightarrow> nat" where
  "potential t key m = (case m key of
      None \<Rightarrow> 5
    | Some x \<Rightarrow> (5 - ae_Failures x) + (if t + minutes 15 \<le> ae_ResetAt x then 0 else 5))"

lemma allowed_potential:
  assumes "attempt_allowed key u m = (ok, m')" and "u \<le> t + minutes 15"
  shows "potential t key m' \<le> potential t key m"
    and "ok \<Longrightarrow> t \<le> u \<Longrightarrow> potential t key (attempt_fail key u m') + 1 \<le> potential t key m"
    and "potential t key (attempt_clear key m') \<le> potential t key m + 5"
proof -
  consider (none) "m key = None" "ok" "m' = m(key := None)"
    | (old) x where "m key = Some x" "ae_ResetAt x < t + minutes 15" "ok" "m' = m(key := None)"
    | (live) x where "m key = Some x" "\<not> ae_ResetAt x < u" "m' = m" "ok = (ae_Failures x < 5)"
    using assms by (cases "m key") (auto simp: attempt_allowed_def split: if_splits)
  then have "potential t key m' \<le> potential t key m
    \<and> (ok \<longrightarrow> t \<le> u \<longrightarrow> potential t key (attempt_fail key u m') + 1 \<le> potential t key m)
    \<and> potential t key (attempt_clear key m') \<le> potential t key m + 5"
    by cases (auto simp: potential_def attempt_fail_def attempt_clear_def Let_def)
  then show "potential t key m' \<le> potential t key m"
    "ok \<Longrightarrow> t \<le> u \<Longrightarrow> potential t key (attempt_fail key u m') + 1 \<le> potential t key m"
    "potential t key (attempt_clear key m') \<le> potential t key m + 5" by simp_all
qed

lemma potential_same: "m' key = m key \<Longrightarrow> potential t key m' = potential t key m"
  by (simp add: potential_def)

lemma other_key:
  assumes "key' \<noteq> key"
  shows "potential t key (snd (attempt_allowed key' u m)) = potential t key m"
    and "potential t key (attempt_fail key' u m) = potential t key m"
    and "potential t key (attempt_clear key' m) = potential t key m"
proof -
  have "snd (attempt_allowed key' u m) key = m key" "attempt_fail key' u m key = m key" "attempt_clear key' m key = m key"
    using assms by (cases "m key'"; simp add: attempt_allowed_def attempt_fail_def attempt_clear_def Let_def)+
  then show "potential t key (snd (attempt_allowed key' u m)) = potential t key m"
    "potential t key (attempt_fail key' u m) = potential t key m" "potential t key (attempt_clear key' m) = potential t key m"
    by (blast intro: potential_same)+
qed

text \<open>One step: the passwords refused and what is left of the potential are paid by the potential and by what was accepted.\<close>

lemma step_potential:
  assumes run: "run_state (answer e k) s = (p, s')"
    and t: "guessed_for e k = Some key \<Longrightarrow> t \<le> now e \<and> now e \<le> t + minutes 15"
  defines "vs \<equiv> (case verdict e k s of None \<Rightarrow> [] | Some v \<Rightarrow> if guessed_for e k = Some key \<and> rp_status p \<noteq> 429 then [v] else [])"
  shows "refused vs + potential t key (sv_attempts s') \<le> potential t key (sv_attempts s) + 5 * accepted vs"
proof -
  from answer_cases [OF run] consider (none) "guessed_for e k = None" "sv_attempts s' = sv_attempts s"
    | (key) key' where "guessed_for e k = Some key'" "sign_in_cases e key' (verdict e k s) s (rp_status p) s'"
    by (elim disjE exE conjE) metis+
  then show ?thesis
  proof cases
    case none
    then show ?thesis by (simp add: vs_def split: option.splits)
  next
    case (key key')
    obtain ok m where a: "attempt_allowed key' (now e) (sv_attempts s) = (ok, m)" by fastforce
    note cs = key(2) [unfolded sign_in_cases_def a prod.case Let_def]
    show ?thesis
    proof (cases "key' = key")
      case True
      note g = key(1) [unfolded True]
      note a' = a [unfolded True] and tt = t [OF g]
      note pot = allowed_potential [OF a' conjunct2 [OF tt]]
      from cs show ?thesis unfolding True
      proof (elim disjE exE conjE)
        fix x assume "verdict e k s = Some (Inl x)" "ok" "rp_status p \<noteq> 429" "sv_attempts s' = attempt_fail key (now e) m"
        then show ?thesis using pot(2) tt g by (simp add: vs_def)
      next
        fix u assume "verdict e k s = Some (Inr u)" "rp_status p \<noteq> 429" "sv_attempts s' = attempt_clear key m"
        then show ?thesis using pot(3) g by (simp add: vs_def)
      qed (use pot(1) in \<open>auto simp: vs_def\<close>)
    next
      case False
      note o = other_key [OF False, of t]
      from o(1) [of "now e" "sv_attempts s"] have m: "potential t key m = potential t key (sv_attempts s)" by (simp add: a)
      have "vs = []" using key(1) False by (simp add: vs_def split: option.splits)
      then show ?thesis using cs m o(2,3) by (elim disjE exE conjE) simp_all
    qed
  qed
qed

lemma checked_potential:
  assumes "\<forall>(e, k) \<in> set ks. guessed_for e k = Some key \<longrightarrow> t \<le> now e \<and> now e \<le> t + minutes 15"
  shows "refused (checked key ks s) \<le> potential t key (sv_attempts s) + 5 * accepted (checked key ks s)"
  using assms
proof (induction ks arbitrary: s)
  case (Cons x ks)
  obtain e k where x: "x = (e, k)" by fastforce
  obtain p s1 where p: "run_state (answer e k) s = (p, s1)" by fastforce
  define vs where "vs = (case verdict e k s of None \<Rightarrow> []
    | Some v \<Rightarrow> if guessed_for e k = Some key \<and> rp_status p \<noteq> 429 then [v] else [])"
  have vs: "checked key (x # ks) s = vs @ checked key ks s1" by (simp add: x p vs_def)
  have "refused vs + potential t key (sv_attempts s1) \<le> potential t key (sv_attempts s) + 5 * accepted vs"
    unfolding vs_def by (rule step_potential [OF p]) (use Cons.prems x in simp)
  with Cons.IH [of s1] Cons.prems show ?case by (simp add: vs)
qed simp

text \<open>C23: Sign-ins by the form and by the API are served one after the other, with any others between them. Of the passwords
  one client tries for one email address within fifteen minutes, the store refuses no more than five, and five more for
  every one it accepts in between; every further attempt is answered with 429 and not checked. That holds when no failure is
  counted at the start; an entry left from before may end within the fifteen minutes, and then it is ten instead of five.\<close>

theorem guessing_is_bounded:
  assumes "\<forall>(e, k) \<in> set ks. guessed_for e k = Some key \<longrightarrow> t \<le> now e \<and> now e \<le> t + minutes 15"
  shows "refused (checked key ks s) \<le> (if sv_attempts s key = None then 5 else 10) + 5 * accepted (checked key ks s)"
proof -
  have "potential t key (sv_attempts s) \<le> (if sv_attempts s key = None then 5 else 10)"
  proof (cases "sv_attempts s key")
    case (Some x)
    then show ?thesis using diff_le_self [of 5 "ae_Failures x"] by (auto simp: potential_def)
  qed (simp add: potential_def)
  with checked_potential [OF assms, of s] show ?thesis by linarith
qed

text \<open>Six attempts by the form and one by the API.\<close>

definition ex_form :: request where
  "ex_form = ex_post ''/login'' [(''email'', ''A@b.c ''), (''password'', ''guess'')]"

definition ex_api :: request where
  "ex_api = (ex_post ''/api/v1/auth/login'' [])\<lparr>rq_body := map (\<lambda>c. if c = CHR ''#'' then CHR 0x22 else c) ''{#email#:#a@b.c#,#password#:#guess#}''\<rparr>"

definition ex_guesses :: "(env \<times> sign_in) list" where
  "ex_guesses = replicate 6 (ex_env, Form ex_form) @ [(ex_env, Api ex_api)]"

lemma ex_api_input: "api_input ex_api = Inr \<lparr>li_Email = ''a@b.c'', li_Password = ''guess'', li_TokenName = ''''\<rparr>"
proof -
  have "json_first (rq_body ex_api) = Some (JObj [(''email'', JStr ''a@b.c''), (''password'', JStr ''guess'')], '''')"
    by (simp add: ex_api_def json_eval numeral_eq_Suc del: json_chars.simps(3))
  moreover have "length (rq_body ex_api) \<le> maxAPIJSONBytes" by (simp add: ex_api_def maxAPIJSONBytes_def)
  ultimately show ?thesis
    by (simp add: api_input_def decodeAPIJSON_def members_def key_is_def runes_def segs_ascii comp_def fold_rune_def login_target_def
      skip_space_def)
qed

lemma clientIP_cong:
  assumes "rq_remote r = rq_remote r'" "rq_headers r = rq_headers r'"
  shows "clientIP r = clientIP r'"
  unfolding clientIP_def assms ..

lemma ex_keys: "guessed_for ex_env (Form ex_form) = guessed_for ex_env (Api ex_api)"
proof -
  have "clientIP ex_form = clientIP ex_api" by (rule clientIP_cong) (simp_all add: ex_form_def ex_api_def ex_post_def)
  then show ?thesis by (simp add: ex_api_input login_key_def ex_form_def ex_post_def lookup_first_def ascii_eval)
qed

theorem guessing_is_bounded_witness:
  "\<exists>key. guessed_for ex_env (Form ex_form) = Some key \<and> guessed_for ex_env (Api ex_api) = Some key \<and>
    refused (checked key ex_guesses (ex_server initial_db)) \<le> 5 + 5 * accepted (checked key ex_guesses (ex_server initial_db))"
proof -
  obtain key where k: "guessed_for ex_env (Form ex_form) = Some key" by simp
  have "\<forall>(e, g) \<in> set ex_guesses. guessed_for e g = Some key \<longrightarrow> 0 \<le> now e \<and> now e \<le> 0 + minutes 15"
    by (simp add: ex_guesses_def minutes_def seconds_def)
  note guessing_is_bounded [OF this, of "ex_server initial_db"]
  moreover have "sv_attempts (ex_server initial_db) key = None" by (simp add: ex_server_def)
  ultimately show ?thesis using k ex_keys by (intro exI [of _ key]) simp
qed

end
