(* ===== verification/GoTime.thy ===== *)
theory GoTime
  imports GoNet
begin

text \<open>
Dates and times of the package time: the calendar, the reading of a text by a layout, and the text of a time in JSON,
which is read back as it was written.
\<close>

section \<open>Days\<close>

definition leap :: "nat \<Rightarrow> bool" where
  "leap y \<longleftrightarrow> y mod 4 = 0 \<and> (y mod 100 \<noteq> 0 \<or> y mod 400 = 0)"

definition days_in :: "nat \<Rightarrow> nat \<Rightarrow> nat" where
  "days_in y m = (if m = 2 then (if leap y then 29 else 28) else if m \<in> {4, 6, 9, 11} then 30 else 31)"

text \<open>The days before the first of January of a year, and of the first of a month in its year, from the first of
  January of the year 0 on.\<close>

definition year_start :: "nat \<Rightarrow> nat" where
  "year_start y = 365 * y + (y + 3) div 4 + (y + 399) div 400 - (y + 99) div 100"

fun month_start :: "nat \<Rightarrow> nat \<Rightarrow> nat" where
  "month_start y 0 = 0"
| "month_start y (Suc m) = month_start y m + (if m = 0 then 0 else days_in y m)"

definition days_of :: "nat \<Rightarrow> nat \<Rightarrow> nat \<Rightarrow> nat" where
  "days_of y m d = year_start y + month_start y m + (d - 1)"

definition year_of :: "nat \<Rightarrow> nat" where
  "year_of n = (let y = n * 400 div 146097 in
    if year_start (y + 1) \<le> n then y + 1 else if year_start y \<le> n then y else y - 1)"

fun month_of :: "nat \<Rightarrow> nat \<Rightarrow> nat \<Rightarrow> nat" where
  "month_of y k 0 = 0"
| "month_of y k (Suc m) = (if month_start y (Suc m) \<le> k then Suc m else month_of y k m)"

definition date_of :: "nat \<Rightarrow> nat \<times> nat \<times> nat" where
  "date_of n = (let y = year_of n; k = n - year_start y; m = month_of y k 12 in (y, m, k - month_start y m + 1))"

lemma ceil_bounds: "0 < c \<Longrightarrow> c * ((x + (c - 1)) div c) \<le> x + (c - 1) \<and> x \<le> c * ((x + (c - 1)) div (c::nat))"
  using mult_div_mod_eq [of c "x + (c - 1)"] mod_less_divisor [of c "x + (c - 1)"] by linarith

lemma ceil_Suc: "0 < c \<Longrightarrow> (Suc x + (c - 1)) div c = (x + (c - 1)) div c + (if x mod c = 0 then 1 else (0::nat))"
proof -
  assume c: "0 < c"
  then have e: "Suc x + (c - 1) = x + c" "(x + c) div c = Suc (x div c)" by (simp_all add: div_add_self2)
  have "x + (c - 1) = c * (x div c) + (x mod c + (c - 1))" by simp
  then have "(x + (c - 1)) div c = x div c + (x mod c + (c - 1)) div c" using c by (metis div_mult_self2 add.commute not_less_zero)
  moreover have "(x mod c + (c - 1)) div c = (if x mod c = 0 then 0 else 1)"
    using c mod_less_divisor [OF c, of x] by (auto intro!: div_nat_eqI)
  ultimately show ?thesis using e by simp
qed

lemma year_step:
  assumes "q \<le> (p::nat)" "g \<Longrightarrow> h" "h \<Longrightarrow> f"
  shows "365 * Suc y + (p + (if f then 1 else 0)) + (r + (if g then 1 else 0)) - (q + (if h then 1 else 0)) =
    365 * y + p + r - q + (if f \<and> (\<not> h \<or> g) then 366 else 365)"
  using assms by (cases f; cases h; cases g) simp_all

lemma year_start_Suc: "year_start (Suc y) = year_start y + (if leap y then 366 else 365)"
proof -
  have a: "(Suc y + 3) div 4 = (y + 3) div 4 + (if y mod 4 = 0 then 1 else 0)"
    "(Suc y + 99) div 100 = (y + 99) div 100 + (if y mod 100 = 0 then 1 else 0)"
    "(Suc y + 399) div 400 = (y + 399) div 400 + (if y mod 400 = 0 then 1 else 0)"
    using ceil_Suc [of 4 y] ceil_Suc [of 100 y] ceil_Suc [of 400 y] by simp_all
  have "y mod 400 mod 100 = y mod 100" "y mod 100 mod 4 = y mod 4" by (rule mod_mod_cancel, simp)+
  then have b: "y mod 400 = 0 \<Longrightarrow> y mod 100 = 0" "y mod 100 = 0 \<Longrightarrow> y mod 4 = 0" by auto
  have c: "(y + 99) div 100 \<le> (y + 3) div 4" using ceil_bounds [of 4 y] ceil_bounds [of 100 y] by simp
  show ?thesis unfolding year_start_def leap_def a by (rule year_step [OF c b])
qed

lemma year_start_mono: "y \<le> z \<Longrightarrow> year_start y \<le> year_start z"
  by (induction z rule: dec_induct) (auto simp: year_start_Suc)

lemma year_start_less: "y < z \<Longrightarrow> year_start y < year_start z"
proof -
  assume "y < z"
  then have "year_start (Suc y) \<le> year_start z" by (intro year_start_mono) simp
  moreover have "year_start y < year_start (Suc y)" by (simp add: year_start_Suc)
  ultimately show ?thesis by linarith
qed

lemma year_of_bounds: "year_start (year_of n) \<le> n \<and> n < year_start (Suc (year_of n))"
proof -
  define y where "y = n * 400 div 146097"
  have y: "146097 * y \<le> n * 400" "n * 400 < 146097 * y + 146097"
    unfolding y_def using div_mult_mod_eq [of "n * 400" 146097] mod_less_divisor [of 146097 "n * 400"] by linarith+
  have f: "400 * year_start x \<le> 146097 * x + 700" "146097 * x \<le> 400 * year_start x + 399" for x
  proof -
    have "4 * ((x + 3) div 4) \<le> x + 3" "x \<le> 4 * ((x + 3) div 4)" "100 * ((x + 99) div 100) \<le> x + 99" "x \<le> 100 * ((x + 99) div 100)"
      "400 * ((x + 399) div 400) \<le> x + 399" "x \<le> 400 * ((x + 399) div 400)"
      "(x + 99) div 100 \<le> (x + 3) div 4"
      using ceil_bounds [of 4 x] ceil_bounds [of 100 x] ceil_bounds [of 400 x] by simp_all
    then show "400 * year_start x \<le> 146097 * x + 700" "146097 * x \<le> 400 * year_start x + 399"
      unfolding year_start_def by linarith+
  qed
  have "n < year_start (y + 2)" by (rule ccontr) (use f(2) [of "y + 2"] y in simp)
  moreover have "y = 0 \<or> year_start (y - 1) \<le> n" using f(1) [of "y - 1"] y by (cases y) auto
  moreover have "year_start 0 = 0" by (simp add: year_start_def)
  ultimately show ?thesis unfolding year_of_def y_def [symmetric] Let_def by (cases y) auto
qed

lemma year_of_eq: "year_start y \<le> n \<Longrightarrow> n < year_start (Suc y) \<Longrightarrow> year_of n = y"
  using year_of_bounds [of n] year_start_mono [of "Suc y" "year_of n"] year_start_mono [of "Suc (year_of n)" y]
  by (meson leD le_trans not_less_eq_eq nat_le_linear order.antisym)

lemma month_start_eval: "month_start y 12 = (if leap y then 335 else 334)" "month_start y 13 = (if leap y then 366 else 365)"
  by (simp_all add: numeral_nat days_in_def)

lemma month_of_bounds: "1 \<le> m \<Longrightarrow> 1 \<le> month_of y k m \<and> month_of y k m \<le> m \<and> month_start y (month_of y k m) \<le> k \<and>
    (month_of y k m < m \<longrightarrow> k < month_start y (Suc (month_of y k m)))"
proof (induction m)
  case (Suc m)
  show ?case
  proof (cases "month_start y (Suc m) \<le> k")
    case False
    then have "m \<noteq> 0" by (cases m) auto
    then have *: "1 \<le> month_of y k m" "month_of y k m \<le> m" "month_start y (month_of y k m) \<le> k"
      "month_of y k m < m \<longrightarrow> k < month_start y (Suc (month_of y k m))" using Suc by auto
    show ?thesis
    proof (cases "month_of y k m = m")
      case True
      then show ?thesis using * False by (simp del: month_start.simps)
    next
      case False
      then show ?thesis using * \<open>\<not> month_start y (Suc m) \<le> k\<close> by (simp del: month_start.simps)
    qed
  qed simp
qed simp

lemma month_start_mono: "m \<le> n \<Longrightarrow> month_start y m \<le> month_start y n"
  by (induction n rule: dec_induct) auto

lemma month_of_eq: "1 \<le> m \<Longrightarrow> m \<le> j \<Longrightarrow> month_start y m \<le> k \<Longrightarrow> k < month_start y (Suc m) \<Longrightarrow> month_of y k j = m"
proof (induction j)
  case (Suc j)
  show ?case
  proof (cases "m = Suc j")
    case True
    then show ?thesis using Suc by simp
  next
    case False
    then have "Suc m \<le> Suc j" using Suc by simp
    then have "k < month_start y (Suc j)" using Suc month_start_mono [of "Suc m" "Suc j" y] by simp
    then show ?thesis using Suc False by simp
  qed
qed simp

definition valid_date :: "nat \<Rightarrow> nat \<Rightarrow> nat \<Rightarrow> bool" where
  "valid_date y m d \<longleftrightarrow> 1 \<le> m \<and> m \<le> 12 \<and> 1 \<le> d \<and> d \<le> days_in y m"

lemma year_length: "year_start (Suc y) = year_start y + month_start y 13"
  by (simp add: year_start_Suc month_start_eval)

theorem date_of_days_of:
  assumes "valid_date y m d"
  shows "date_of (days_of y m d) = (y, m, d)"
proof -
  have d: "1 \<le> m" "m \<le> 12" "1 \<le> d" "d \<le> days_in y m" using assms by (auto simp: valid_date_def)
  have k: "month_start y m + (d - 1) < month_start y (Suc m)" using d by simp
  also have "\<dots> \<le> month_start y 13" using d by (intro month_start_mono) simp
  finally have "year_of (days_of y m d) = y" unfolding days_of_def by (intro year_of_eq) (simp_all add: year_length)
  moreover have "month_of y (month_start y m + (d - 1)) 12 = m" using d k by (intro month_of_eq) simp_all
  ultimately show ?thesis using d by (simp add: date_of_def Let_def days_of_def)
qed

lemma days_of_date_of:
  assumes "date_of n = (y, m, d)"
  shows "days_of y m d = n \<and> valid_date y m d"
proof -
  have y: "y = year_of n" "m = month_of y (n - year_start y) 12" "d = n - year_start y - month_start y m + 1"
    using assms by (auto simp: date_of_def Let_def)
  let ?k = "n - year_start y"
  have b: "year_start y \<le> n" "?k < month_start y 13" using year_of_bounds [of n] y(1) by (auto simp: year_length)
  have "1 \<le> m" "m \<le> 12" "month_start y m \<le> ?k" "m < 12 \<longrightarrow> ?k < month_start y (Suc m)"
    using month_of_bounds [of 12 y ?k] y(2) by auto
  moreover have "Suc 12 = (13::nat)" by simp
  ultimately have "?k < month_start y (Suc m)" using b(2) by (cases "m = 12") auto
  then show ?thesis
    using b(1) \<open>1 \<le> m\<close> \<open>m \<le> 12\<close> \<open>month_start y m \<le> ?k\<close> y(3) unfolding days_of_def valid_date_def by auto
qed

section \<open>Times\<close>

text \<open>A time in UTC; the days before the epoch are those up to the first of January 1970.\<close>

definition epoch_days :: int where "epoch_days = 719528"

definition go_date :: "nat \<Rightarrow> nat \<Rightarrow> nat \<Rightarrow> nat \<Rightarrow> nat \<Rightarrow> nat \<Rightarrow> nat \<Rightarrow> gotime" where
  "go_date y mo d h mi s ns =
    seconds ((int (days_of y mo d) - epoch_days) * 86400 + int (h * 3600 + mi * 60 + s)) + int ns"

text \<open>The last \<open>w\<close> decimal digits of a number.\<close>

fun pad :: "nat \<Rightarrow> nat \<Rightarrow> string" where
  "pad 0 n = ''''"
| "pad (Suc w) n = pad w (n div 10) @ [char_of (48 + n mod 10)]"

lemma length_pad [simp]: "length (pad w n) = w"
  by (induction w arbitrary: n) auto

lemma digits_val_pad: "digits_val a (pad w n) = Some (a * 10 ^ w + n mod 10 ^ w)"
proof (induction w arbitrary: n)
  case (Suc w)
  have "n mod 10 ^ Suc w = 10 * (n div 10 mod 10 ^ w) + n mod 10"
    by (simp add: mod_mult2_eq)
  then show ?case using Suc by (simp add: digits_val_append digit_val_char algebra_simps)
qed simp

section \<open>Layouts\<close>

text \<open>The elements of a layout that the layouts of the program can contain (\<open>nextStdChunk\<close>): the layouts of
  \<open>parsePublishDate\<close> take one character from the text they are to read, which can be a digit.\<close>

datatype chunk = LongYear | ZeroMonth | NumMonth | ZeroDay | Day | Hour | Hour12 | ZeroMinute | Minute | ZeroSecond | Second
  | Frac nat | ColonZone

definition chunk_at :: "string \<Rightarrow> (chunk \<times> nat) option" where
  "chunk_at s =
    (if has_prefix s ''2006'' then Some (LongYear, 4)
     else if has_prefix s ''01'' then Some (ZeroMonth, 2)
     else if has_prefix s ''02'' then Some (ZeroDay, 2)
     else if has_prefix s ''04'' then Some (ZeroMinute, 2)
     else if has_prefix s ''05'' then Some (ZeroSecond, 2)
     else if has_prefix s ''15'' then Some (Hour, 2)
     else if has_prefix s ''1'' then Some (NumMonth, 1)
     else if has_prefix s ''2'' then Some (Day, 1)
     else if has_prefix s ''3'' then Some (Hour12, 1)
     else if has_prefix s ''4'' then Some (Minute, 1)
     else if has_prefix s ''5'' then Some (Second, 1)
     else if has_prefix s ''-07:00'' then Some (ColonZone, 6)
     else if has_prefix s ''.000000-'' then Some (Frac 6, 7)
     else None)"

text \<open>The text before the next element, the element, and the rest of the layout.\<close>

fun next_chunk :: "string \<Rightarrow> string \<times> (chunk \<times> string) option" where
  "next_chunk [] = ([], None)"
| "next_chunk (c # cs) = (case chunk_at (c # cs) of
      Some (k, n) \<Rightarrow> ([], Some (k, drop n (c # cs)))
    | None \<Rightarrow> (case next_chunk cs of (p, r) \<Rightarrow> (c # p, r)))"

lemma next_chunk_shorter: "next_chunk s = (p, Some (k, r)) \<Longrightarrow> length r < length s"
proof (induction s arbitrary: p)
  case (Cons c cs)
  have "chunk_at (c # cs) = Some (k, n) \<Longrightarrow> 0 < n" for k n by (auto simp: chunk_at_def split: if_splits)
  then show ?case using Cons by (auto split: option.splits prod.splits)
qed simp

section \<open>Reading\<close>

text \<open>\<open>skip\<close>: the literal text of the layout, in which a space stands for any number of spaces.\<close>

fun skip_text :: "string \<Rightarrow> string \<Rightarrow> string option" where
  "skip_text [] v = Some v"
| "skip_text (c # cs) v =
    (if c = CHR '' '' then
       (if v \<noteq> [] \<and> hd v \<noteq> CHR '' '' then None
        else if cs \<noteq> [] \<and> hd cs = CHR '' '' then skip_text cs v else skip_text cs (dropWhile (\<lambda>x. x = CHR '' '') v))
     else case v of [] \<Rightarrow> None | x # xs \<Rightarrow> if x = c then skip_text cs xs else None)"

text \<open>\<open>getnum\<close>: one or two digits, two when \<open>fixed\<close>.\<close>

definition getnum :: "bool \<Rightarrow> string \<Rightarrow> (nat \<times> string) option" where
  "getnum fixed s = (case s of
      [] \<Rightarrow> None
    | c # cs \<Rightarrow> (case digit_val c of
        None \<Rightarrow> None
      | Some a \<Rightarrow> (case cs of
          [] \<Rightarrow> if fixed then None else Some (a, cs)
        | x # xs \<Rightarrow> (case digit_val x of
            None \<Rightarrow> if fixed then None else Some (a, cs)
          | Some b \<Rightarrow> Some (10 * a + b, xs)))))"

text \<open>\<open>parseNanoseconds\<close> of the first \<open>n\<close> bytes: a period or a comma, and at most nine digits count.\<close>

definition parse_nanos :: "string \<Rightarrow> nat \<Rightarrow> nat option" where
  "parse_nanos v n = (let ds = take (min n 10 - 1) (tl v) in
    if v = [] \<or> hd v \<notin> set ''.,'' then None
    else case atoi ds of None \<Rightarrow> None | Some i \<Rightarrow> if i < 0 then None else Some (nat i * 10 ^ (9 - length ds)))"

record stamp =
  st_year :: nat
  st_month :: "nat option"
  st_day :: "nat option"
  st_hour :: nat
  st_min :: nat
  st_sec :: nat
  st_nsec :: nat
  st_zone :: "int option"

definition new_stamp :: stamp where
  "new_stamp = \<lparr>st_year = 0, st_month = None, st_day = None, st_hour = 0, st_min = 0, st_sec = 0, st_nsec = 0, st_zone = None\<rparr>"

definition in_range :: "nat \<Rightarrow> nat \<Rightarrow> (nat \<times> string) option \<Rightarrow> (nat \<times> string) option" where
  "in_range lo hi r = (case r of None \<Rightarrow> None | Some (n, v) \<Rightarrow> if lo \<le> n \<and> n \<le> hi then Some (n, v) else None)"

text \<open>The seconds, with a fraction the layout does not have.\<close>

definition is_frac :: "(chunk \<times> string) option \<Rightarrow> bool" where
  "is_frac x = (case x of Some (Frac n, _) \<Rightarrow> True | _ \<Rightarrow> False)"

definition read_second :: "bool \<Rightarrow> string \<Rightarrow> string \<Rightarrow> stamp \<Rightarrow> (stamp \<times> string) option" where
  "read_second fixed layout v st = (case in_range 0 59 (getnum fixed v) of
      None \<Rightarrow> None
    | Some (n, v) \<Rightarrow>
        if 2 \<le> length v \<and> hd v \<in> set ''.,'' \<and> digit_val (v ! 1) \<noteq> None \<and> \<not> is_frac (snd (next_chunk layout)) then
          (let k = 1 + length (takeWhile (\<lambda>c. digit_val c \<noteq> None) (tl v)) in
           map_option (\<lambda>ns. (st\<lparr>st_sec := n, st_nsec := ns\<rparr>, drop k v)) (parse_nanos v k))
        else Some (st\<lparr>st_sec := n\<rparr>, v))"

definition read_zone :: "string \<Rightarrow> stamp \<Rightarrow> (stamp \<times> string) option" where
  "read_zone v st =
    (if length v < 6 \<or> v ! 3 \<noteq> CHR '':'' then None
     else case (in_range 0 24 (getnum True (take 2 (drop 1 v))), in_range 0 60 (getnum True (take 2 (drop 4 v)))) of
       (Some (h, _), Some (m, _)) \<Rightarrow>
         if hd v = CHR ''+'' then Some (st\<lparr>st_zone := Some (int ((h * 60 + m) * 60))\<rparr>, drop 6 v)
         else if hd v = CHR ''-'' then Some (st\<lparr>st_zone := Some (- int ((h * 60 + m) * 60))\<rparr>, drop 6 v)
         else None
     | _ \<Rightarrow> None)"

definition read_chunk :: "chunk \<Rightarrow> string \<Rightarrow> string \<Rightarrow> stamp \<Rightarrow> (stamp \<times> string) option" where
  "read_chunk k layout v st = (case k of
      LongYear \<Rightarrow> if length v < 4 then None
        else map_option (\<lambda>n. (st\<lparr>st_year := n\<rparr>, drop 4 v)) (digits_val 0 (take 4 v))
    | ZeroMonth \<Rightarrow> map_option (\<lambda>(n, v). (st\<lparr>st_month := Some n\<rparr>, v)) (in_range 1 12 (getnum True v))
    | NumMonth \<Rightarrow> map_option (\<lambda>(n, v). (st\<lparr>st_month := Some n\<rparr>, v)) (in_range 1 12 (getnum False v))
    | ZeroDay \<Rightarrow> map_option (\<lambda>(n, v). (st\<lparr>st_day := Some n\<rparr>, v)) (getnum True v)
    | Day \<Rightarrow> map_option (\<lambda>(n, v). (st\<lparr>st_day := Some n\<rparr>, v)) (getnum False v)
    | Hour \<Rightarrow> map_option (\<lambda>(n, v). (st\<lparr>st_hour := n\<rparr>, v)) (in_range 0 23 (getnum False v))
    | Hour12 \<Rightarrow> map_option (\<lambda>(n, v). (st\<lparr>st_hour := n\<rparr>, v)) (in_range 0 12 (getnum False v))
    | ZeroMinute \<Rightarrow> map_option (\<lambda>(n, v). (st\<lparr>st_min := n\<rparr>, v)) (in_range 0 59 (getnum True v))
    | Minute \<Rightarrow> map_option (\<lambda>(n, v). (st\<lparr>st_min := n\<rparr>, v)) (in_range 0 59 (getnum False v))
    | ZeroSecond \<Rightarrow> read_second True layout v st
    | Second \<Rightarrow> read_second False layout v st
    | Frac n \<Rightarrow> if length v < n + 1 then None
        else map_option (\<lambda>ns. (st\<lparr>st_nsec := ns\<rparr>, drop (n + 1) v)) (parse_nanos v (n + 1))
    | ColonZone \<Rightarrow> read_zone v st)"

function read_layout :: "string \<Rightarrow> string \<Rightarrow> stamp \<Rightarrow> stamp option" where
  "read_layout layout v st = (case next_chunk layout of
      (p, None) \<Rightarrow> if skip_text p v = Some '''' then Some st else None
    | (p, Some (k, rest)) \<Rightarrow> (case skip_text p v of
        None \<Rightarrow> None
      | Some v1 \<Rightarrow> (case read_chunk k rest v1 st of None \<Rightarrow> None | Some (st', v2) \<Rightarrow> read_layout rest v2 st')))"
  by pat_completeness auto
termination by (relation "measure (\<lambda>(l, _, _). length l)") (auto dest: next_chunk_shorter [OF sym])

declare read_layout.simps [simp del]

text \<open>\<open>time.Parse\<close>; \<open>None\<close> is its error. A date without a day has the first.\<close>

definition time_parse :: "string \<Rightarrow> string \<Rightarrow> gotime option" where
  "time_parse layout v = (case read_layout layout v new_stamp of
      None \<Rightarrow> None
    | Some st \<Rightarrow>
        let mo = (case st_month st of None \<Rightarrow> 1 | Some m \<Rightarrow> m); d = (case st_day st of None \<Rightarrow> 1 | Some d \<Rightarrow> d) in
        if d < 1 \<or> days_in (st_year st) mo < d then None
        else Some (go_date (st_year st) mo d (st_hour st) (st_min st) (st_sec st) (st_nsec st) -
          seconds (case st_zone st of None \<Rightarrow> 0 | Some z \<Rightarrow> z)))"

section \<open>Times in JSON\<close>

text \<open>\<open>Time.MarshalJSON\<close> of a time in UTC, without the quotes: RFC 3339 with the nanoseconds that are not zero;
  an error (\<open>None\<close>) outside the years 0 to 9999.\<close>

definition frac_text :: "nat \<Rightarrow> string" where
  "frac_text ns = (if ns = 0 then '''' else ''.'' @ rev (dropWhile (\<lambda>c. c = CHR ''0'') (rev (pad 9 ns))))"

definition stamp_text :: "nat \<Rightarrow> nat \<Rightarrow> nat \<Rightarrow> nat \<Rightarrow> nat \<Rightarrow> nat \<Rightarrow> string" where
  "stamp_text y mo d h mi s = pad 4 y @ ''-'' @ pad 2 mo @ ''-'' @ pad 2 d @ ''T'' @ pad 2 h @ '':'' @ pad 2 mi @ '':'' @ pad 2 s"

definition marshal_time :: "gotime \<Rightarrow> string option" where
  "marshal_time t =
    (let sec = t div ns_per_s; day = sec div 86400 + epoch_days; k = nat (sec mod 86400) in
     if day < 0 then None
     else case date_of (nat day) of (y, mo, d) \<Rightarrow>
       if 9999 < y then None
       else Some (stamp_text y mo d (k div 3600) (k mod 3600 div 60) (k mod 60) @ frac_text (nat (t mod ns_per_s)) @ ''Z''))"

text \<open>\<open>Time.UnmarshalJSON\<close> of the text between the quotes, as \<open>parseRFC3339\<close> reads it.\<close>

definition field_at :: "nat \<Rightarrow> nat \<Rightarrow> nat \<Rightarrow> nat \<Rightarrow> string \<Rightarrow> nat option" where
  "field_at i n lo hi s = (case digits_val 0 (take n (drop i s)) of
      None \<Rightarrow> None | Some v \<Rightarrow> if lo \<le> v \<and> v \<le> hi then Some v else None)"

definition zone_offset :: "string \<Rightarrow> int option" where
  "zone_offset s =
    (if s = ''Z'' then Some 0
     else if length s \<noteq> 6 \<or> s ! 3 \<noteq> CHR '':'' then None
     else case (field_at 1 2 0 23 s, field_at 4 2 0 59 s) of
       (Some h, Some m) \<Rightarrow> if hd s = CHR ''+'' then Some (int ((h * 60 + m) * 60))
         else if hd s = CHR ''-'' then Some (- int ((h * 60 + m) * 60)) else None
     | _ \<Rightarrow> None)"

text \<open>The fraction of a second and what follows it.\<close>

definition cut_frac :: "string \<Rightarrow> nat \<times> string" where
  "cut_frac s =
    (if 2 \<le> length s \<and> hd s = CHR ''.'' \<and> digit_val (s ! 1) \<noteq> None then
       (let ds = takeWhile (\<lambda>c. digit_val c \<noteq> None) (tl s) in
        ((case digits_val 0 (take 9 ds) of None \<Rightarrow> 0 | Some v \<Rightarrow> v * 10 ^ (9 - length (take 9 ds))), drop (1 + length ds) s))
     else (0, s))"

definition unmarshal_time :: "string \<Rightarrow> gotime option" where
  "unmarshal_time s =
    (if length s < 19 \<or> s ! 4 \<noteq> CHR ''-'' \<or> s ! 7 \<noteq> CHR ''-'' \<or> s ! 10 \<noteq> CHR ''T'' \<or> s ! 13 \<noteq> CHR '':'' \<or> s ! 16 \<noteq> CHR '':'' then None
     else case (field_at 0 4 0 9999 s, field_at 5 2 1 12 s) of
       (Some y, Some mo) \<Rightarrow>
         (case (field_at 8 2 1 (days_in y mo) s, field_at 11 2 0 23 s, field_at 14 2 0 59 s, field_at 17 2 0 59 s) of
            (Some d, Some h, Some mi, Some sec) \<Rightarrow>
              (case cut_frac (drop 19 s) of (ns, rest) \<Rightarrow>
                map_option (\<lambda>z. go_date y mo d h mi sec ns - seconds z) (zone_offset rest))
          | _ \<Rightarrow> None)
     | _ \<Rightarrow> None)"

text \<open>What was written is read back.\<close>

lemma field_at_pad: "length a = i \<Longrightarrow> n < 10 ^ w \<Longrightarrow> lo \<le> n \<Longrightarrow> n \<le> hi \<Longrightarrow> field_at i w lo hi (a @ pad w n @ b) = Some n"
  by (simp add: field_at_def digits_val_pad)

lemma digit_pad: "c \<in> set (pad w n) \<Longrightarrow> digit_val c \<noteq> None"
  by (induction w arbitrary: n) (auto simp: digit_val_char)

lemma digits_val_zeros: "digits_val a (replicate k CHR ''0'') = Some (a * 10 ^ k)"
proof (induction k arbitrary: a)
  case (Suc k)
  have "digit_val CHR ''0'' = Some 0" by (simp add: digit_val_def)
  with Suc show ?case by (simp add: algebra_simps)
qed simp

lemma rstrip_zeros: "s = rev (dropWhile (\<lambda>c. c = z) (rev s)) @ replicate (length s - length (dropWhile (\<lambda>c. c = z) (rev s))) z"
proof -
  let ?k = "length (takeWhile (\<lambda>c. c = z) (rev s))"
  have "rev s = replicate ?k z @ dropWhile (\<lambda>c. c = z) (rev s)"
    using takeWhile_dropWhile_id [of "\<lambda>c. c = z" "rev s"] replicate_eqI [of "takeWhile (\<lambda>c. c = z) (rev s)" ?k z]
    by (metis set_takeWhileD)
  moreover from arg_cong [OF this, of length] have "?k = length s - length (dropWhile (\<lambda>c. c = z) (rev s))" by simp
  ultimately show ?thesis by (metis rev_append rev_replicate rev_rev_ident)
qed

lemma cut_frac_text:
  assumes "ns < 10 ^ 9"
  shows "cut_frac (frac_text ns @ ''Z'') = (ns, ''Z'')"
proof (cases "ns = 0")
  case True
  then show ?thesis by (simp add: cut_frac_def frac_text_def)
next
  case False
  define ds where "ds = rev (dropWhile (\<lambda>c. c = CHR ''0'') (rev (pad 9 ns)))"
  have p: "pad 9 ns = ds @ replicate (9 - length ds) CHR ''0''" using rstrip_zeros [of "pad 9 ns" "CHR ''0''"] by (simp add: ds_def)
  then have len: "length ds \<le> 9" using length_pad [of 9 ns] by (metis length_append le_add1)
  have dig: "\<forall>c \<in> set ds. digit_val c \<noteq> None" using p digit_pad [of _ 9 ns] by (metis Un_iff set_append)
  have v: "digits_val 0 (pad 9 ns) = Some ns" using assms by (simp add: digits_val_pad)
  obtain x where x: "digits_val 0 ds = Some x" using v p by (auto simp: digits_val_append split: option.splits)
  then have xs: "x * 10 ^ (9 - length ds) = ns" using v p by (simp add: digits_val_append digits_val_zeros)
  have "ds \<noteq> []" using x xs False by auto
  then obtain c cs where c: "ds = c # cs" by (cases ds) auto
  have z: "digit_val CHR ''Z'' = None" by (simp add: digit_val_def)
  have t: "takeWhile (\<lambda>c. digit_val c \<noteq> None) (ds @ ''Z'') = ds"
    using dig z by (subst takeWhile_append2) auto
  show ?thesis using False c dig t x xs len
    by (simp add: cut_frac_def frac_text_def ds_def [symmetric] Let_def)
qed

theorem unmarshal_marshal_time: "marshal_time t = Some s \<Longrightarrow> unmarshal_time s = Some t"
proof -
  assume m: "marshal_time t = Some s"
  define sec where "sec = t div ns_per_s"
  define k where "k = nat (sec mod 86400)"
  define day where "day = sec div 86400 + epoch_days"
  obtain y mo d where dt: "date_of (nat day) = (y, mo, d)" by (cases "date_of (nat day)") auto
  define ns where "ns = nat (t mod ns_per_s)"
  from m dt have day: "0 \<le> day" and y: "y \<le> 9999"
    and s: "s = stamp_text y mo d (k div 3600) (k mod 3600 div 60) (k mod 60) @ frac_text ns @ ''Z''"
    by (auto simp: marshal_time_def Let_def sec_def k_def day_def ns_def split: if_splits)
  have dd: "days_of y mo d = nat day" "valid_date y mo d" using days_of_date_of [OF dt] by auto
  then have mo: "1 \<le> mo" "mo \<le> 12" "1 \<le> d" "d \<le> days_in y mo" by (auto simp: valid_date_def)
  have d31: "d \<le> 31" using mo by (auto simp: days_in_def split: if_splits)
  have k: "k < 86400" by (simp add: k_def nat_less_iff)
  have h: "k div 3600 \<le> 23" "k mod 3600 div 60 \<le> 59" "k mod 60 \<le> 59" using k by auto
  have ns: "ns < 10 ^ 9" by (simp add: ns_def nat_less_iff)
  let ?h = "k div 3600" and ?mi = "k mod 3600 div 60" and ?s = "k mod 60" and ?r = "frac_text ns @ ''Z''"
  have f1: "field_at 0 4 0 9999 s = Some y" using field_at_pad [of "[]" 0 y 4 0 9999] y by (simp add: s stamp_text_def)
  have f2: "field_at 5 2 1 12 s = Some mo" using field_at_pad [of "pad 4 y @ ''-''" 5 mo 2 1 12] mo by (simp add: s stamp_text_def)
  have f3: "field_at 8 2 1 (days_in y mo) s = Some d"
    using field_at_pad [of "pad 4 y @ ''-'' @ pad 2 mo @ ''-''" 8 d 2 1 "days_in y mo"] mo d31 by (simp add: s stamp_text_def)
  have f4: "field_at 11 2 0 23 s = Some ?h"
    using field_at_pad [of "pad 4 y @ ''-'' @ pad 2 mo @ ''-'' @ pad 2 d @ ''T''" 11 ?h 2 0 23] h by (simp add: s stamp_text_def)
  have f5: "field_at 14 2 0 59 s = Some ?mi"
    using field_at_pad [of "pad 4 y @ ''-'' @ pad 2 mo @ ''-'' @ pad 2 d @ ''T'' @ pad 2 ?h @ '':''" 14 ?mi 2 0 59] h
    by (simp add: s stamp_text_def)
  have f6: "field_at 17 2 0 59 s = Some ?s"
    using field_at_pad [of "pad 4 y @ ''-'' @ pad 2 mo @ ''-'' @ pad 2 d @ ''T'' @ pad 2 ?h @ '':'' @ pad 2 ?mi @ '':''" 17 ?s 2 0 59] h
    by (simp add: s stamp_text_def)
  have seps: "s ! 4 = CHR ''-''" "s ! 7 = CHR ''-''" "s ! 10 = CHR ''T''" "s ! 13 = CHR '':''" "s ! 16 = CHR '':''" "19 \<le> length s"
    by (simp_all add: s stamp_text_def nth_append)
  have r: "drop 19 s = ?r" by (simp add: s stamp_text_def)
  have "?h * 3600 + ?mi * 60 + ?s = k"
  proof -
    have "k mod 3600 mod 60 = k mod 60" by (rule mod_mod_cancel) simp
    then show ?thesis using div_mult_mod_eq [of k 3600] div_mult_mod_eq [of "k mod 3600" 60] by linarith
  qed
  then have "go_date y mo d ?h ?mi ?s ns = seconds ((day - epoch_days) * 86400 + int k) + int ns"
    unfolding go_date_def dd using day by simp
  also have "(day - epoch_days) * 86400 + int k = sec" by (simp add: day_def k_def)
  also have "seconds sec + int ns = t" by (simp add: seconds_def sec_def ns_def)
  finally show ?thesis
    using f1 f2 f3 f4 f5 f6 seps r cut_frac_text [OF ns]
    by (simp add: unmarshal_time_def zone_offset_def seconds_def)
qed


end
