(* ===== verification/GoUrl.thy ===== *)
theory GoUrl
  imports GoNet
begin

text \<open>
The parts of net/url the command-line client uses: parsing a URL, its host name, and the text of an origin.
\<close>

section \<open>Bytes of a URL\<close>

text \<open>The modes of \<open>unescape\<close> and \<open>escape\<close> the program reaches by parsing and printing URLs.\<close>

datatype url_mode = EncodeHost | EncodeZone | EncodePath | EncodeUserPassword | EncodeFragment

definition host_char :: "char \<Rightarrow> bool" where
  "host_char c \<longleftrightarrow> c \<in> set ''!$&()*+,;=:[]<>'' \<or> c = CHR 0x27 \<or> c = CHR 0x22"

definition should_escape :: "url_mode \<Rightarrow> char \<Rightarrow> bool" where
  "should_escape m c =
    (if unreserved c then False
     else if m \<in> {EncodeHost, EncodeZone} \<and> host_char c then False
     else if c \<in> set ''$&+,/:;=?@'' then
       (case m of EncodePath \<Rightarrow> c = CHR ''?''
        | EncodeUserPassword \<Rightarrow> c \<in> set ''@/?:''
        | EncodeFragment \<Rightarrow> False
        | _ \<Rightarrow> True)
     else \<not> (m = EncodeFragment \<and> c \<in> set ''!()*''))"

text \<open>\<open>None\<close> is an escape error or a byte a host cannot have.\<close>

fun url_unescape :: "url_mode \<Rightarrow> string \<Rightarrow> string option" where
  "url_unescape m [] = Some []"
| "url_unescape m (c # cs) =
    (if c = CHR ''%'' then
       (case cs of a # b # ds \<Rightarrow>
          (case (hex_val a, hex_val b) of
             (Some x, Some y) \<Rightarrow>
               if m = EncodeHost \<and> x < 8 \<and> \<not> (a = CHR ''2'' \<and> b = CHR ''5'') then None
               else if m = EncodeZone \<and> \<not> (a = CHR ''2'' \<and> b = CHR ''5'') \<and> char_of (16 * x + y) \<noteq> CHR '' '' \<and>
                 should_escape EncodeHost (char_of (16 * x + y)) then None
               else map_option ((#) (char_of (16 * x + y))) (url_unescape m ds)
           | _ \<Rightarrow> None)
        | _ \<Rightarrow> None)
     else if m \<in> {EncodeHost, EncodeZone} \<and> (of_char c :: nat) < 0x80 \<and> should_escape m c then None
     else map_option ((#) c) (url_unescape m cs))"

definition url_escape :: "url_mode \<Rightarrow> string \<Rightarrow> string" where
  "url_escape m s = concat (map (\<lambda>c. if should_escape m c then percent c else [c]) s)"

section \<open>Parsing\<close>

text \<open>\<open>url.URL\<close> with the fields the program reads; \<open>u_user\<close> says whether there is user information.\<close>

record url =
  url_Scheme :: string
  url_Opaque :: string
  url_User :: bool
  url_Host :: string
  url_Path :: string
  url_ForceQuery :: bool
  url_RawQuery :: string
  url_Fragment :: string

definition empty_url :: url where
  "empty_url = \<lparr>url_Scheme = '''', url_Opaque = '''', url_User = False, url_Host = '''', url_Path = '''',
    url_ForceQuery = False, url_RawQuery = '''', url_Fragment = ''''\<rparr>"

definition letter :: "char \<Rightarrow> bool" where
  "letter c \<longleftrightarrow> (let b = of_char c :: nat in 65 \<le> b \<and> b \<le> 90 \<or> 97 \<le> b \<and> b \<le> 122)"

definition decimal :: "char \<Rightarrow> bool" where
  "decimal c \<longleftrightarrow> digit_val c \<noteq> None"

text \<open>\<open>getScheme\<close> from position \<open>i\<close> of a URL: the scheme so far (in reverse) and what is left.\<close>

fun get_scheme :: "string \<Rightarrow> string \<Rightarrow> string \<Rightarrow> (string \<times> string) option" where
  "get_scheme whole seen [] = Some ('''', whole)"
| "get_scheme whole seen (c # cs) =
    (if letter c then get_scheme whole (c # seen) cs
     else if decimal c \<or> c \<in> set ''+-.'' then (if seen = [] then Some ('''', whole) else get_scheme whole (c # seen) cs)
     else if c = CHR '':'' then (if seen = [] then None else Some (rev seen, cs))
     else Some ('''', whole))"

definition valid_port :: "string \<Rightarrow> bool" where
  "valid_port port \<longleftrightarrow> port = '''' \<or> (hd port = CHR '':'' \<and> list_all decimal (tl port))"

text \<open>The position of \<open>%25\<close>, the start of a zone.\<close>

fun zone_start :: "string \<Rightarrow> nat option" where
  "zone_start [] = None"
| "zone_start (c # cs) = (if has_prefix (c # cs) ''%25'' then Some 0 else map_option Suc (zone_start cs))"

definition from_last :: "char \<Rightarrow> string \<Rightarrow> string option" where
  "from_last c s = map_option (\<lambda>i. drop i s) (last_index_char c s)"

definition parse_host :: "string \<Rightarrow> string option" where
  "parse_host host =
    (if has_prefix host ''['' then
       (case last_index_char CHR '']'' host of
          None \<Rightarrow> None
        | Some i \<Rightarrow>
            if \<not> valid_port (drop (i + 1) host) then None
            else case zone_start (take i host) of
              Some z \<Rightarrow>
                (case (url_unescape EncodeHost (take z host), url_unescape EncodeZone (drop z (take i host)),
                    url_unescape EncodeHost (drop i host)) of
                  (Some a, Some b, Some c) \<Rightarrow> Some (a @ b @ c) | _ \<Rightarrow> None)
            | None \<Rightarrow> url_unescape EncodeHost host)
     else if (case from_last CHR '':'' host of None \<Rightarrow> False | Some p \<Rightarrow> \<not> valid_port p) then None
     else url_unescape EncodeHost host)"

definition valid_userinfo :: "string \<Rightarrow> bool" where
  "valid_userinfo = list_all (\<lambda>c. letter c \<or> decimal c \<or> c \<in> set ''-._:~!$&()*+,;=%@'' \<or> c = CHR 0x27)"

text \<open>User information is unescaped, before the first colon and after it.\<close>

definition userinfo_ok :: "string \<Rightarrow> bool" where
  "userinfo_ok s \<longleftrightarrow> valid_userinfo s \<and> (case cut_char CHR '':'' s of (a, b) \<Rightarrow>
    url_unescape EncodeUserPassword a \<noteq> None \<and>
    (case b of None \<Rightarrow> True | Some p \<Rightarrow> url_unescape EncodeUserPassword p \<noteq> None))"

definition parse_authority :: "string \<Rightarrow> (bool \<times> string) option" where
  "parse_authority s = (case last_index_char CHR ''@'' s of
      None \<Rightarrow> map_option (Pair False) (parse_host s)
    | Some i \<Rightarrow> (case parse_host (drop (i + 1) s) of
        None \<Rightarrow> None
      | Some h \<Rightarrow> if userinfo_ok (take i s) then Some (True, h) else None))"

definition cut_query :: "string \<Rightarrow> bool \<times> string \<times> string" where
  "cut_query rest =
    (if has_suffix rest ''?'' \<and> length (filter (\<lambda>c. c = CHR ''?'') rest) = 1 then (True, butlast rest, '''')
     else case cut_char CHR ''?'' rest of (a, b) \<Rightarrow> (False, a, (case b of None \<Rightarrow> '''' | Some q \<Rightarrow> q)))"

definition control_byte :: "char \<Rightarrow> bool" where
  "control_byte c \<longleftrightarrow> (of_char c :: nat) < 0x20 \<or> (of_char c :: nat) = 0x7F"

text \<open>The part of a URL before its fragment; \<open>rest\<close> is what follows the scheme.\<close>

definition parse_hierarchy :: "string \<Rightarrow> string \<Rightarrow> url \<Rightarrow> url option" where
  "parse_hierarchy scheme rest u =
    (if has_prefix rest ''//'' \<and> (scheme \<noteq> '''' \<or> \<not> has_prefix rest ''///'') then
       (let authority = takeWhile (\<lambda>c. c \<noteq> CHR ''/'') (drop 2 rest); path = dropWhile (\<lambda>c. c \<noteq> CHR ''/'') (drop 2 rest) in
        case (parse_authority authority, url_unescape EncodePath path) of
          (Some (user, host), Some p) \<Rightarrow> Some (u\<lparr>url_User := user, url_Host := host, url_Path := p\<rparr>)
        | _ \<Rightarrow> None)
     else map_option (\<lambda>p. u\<lparr>url_Path := p\<rparr>) (url_unescape EncodePath rest))"

definition parse_url :: "string \<Rightarrow> url option" where
  "parse_url raw =
    (case cut_char CHR ''#'' raw of (s, f) \<Rightarrow>
     if list_ex control_byte s then None
     else if s = ''*'' then
       (case f of None \<Rightarrow> Some (empty_url\<lparr>url_Path := ''*''\<rparr>)
        | Some x \<Rightarrow> map_option (\<lambda>y. empty_url\<lparr>url_Path := ''*'', url_Fragment := y\<rparr>) (url_unescape EncodeFragment x))
     else case get_scheme s [] s of
       None \<Rightarrow> None
     | Some (scheme0, rest0) \<Rightarrow>
         let scheme = map nocase_byte scheme0 in
         (case cut_query rest0 of (force, rest, q) \<Rightarrow>
          let u = empty_url\<lparr>url_Scheme := scheme, url_ForceQuery := force, url_RawQuery := q\<rparr> in
          case (if \<not> has_prefix rest ''/'' \<and> scheme \<noteq> '''' then Some (u\<lparr>url_Opaque := rest\<rparr>)
                else if \<not> has_prefix rest ''/'' \<and> CHR '':'' \<in> set (takeWhile (\<lambda>c. c \<noteq> CHR ''/'') rest) then None
                else parse_hierarchy scheme rest u) of
            None \<Rightarrow> None
          | Some v \<Rightarrow> (case f of None \<Rightarrow> Some v
              | Some x \<Rightarrow> map_option (\<lambda>y. v\<lparr>url_Fragment := y\<rparr>) (url_unescape EncodeFragment x))))"

section \<open>Host name and text\<close>

text \<open>\<open>URL.Hostname\<close>: without the port and the brackets.\<close>

definition strip_port :: "string \<Rightarrow> string" where
  "strip_port s = (case last_index_char CHR '':'' s of
      None \<Rightarrow> s | Some i \<Rightarrow> if valid_port (drop i s) then take i s else s)"

definition hostname :: "url \<Rightarrow> string" where
  "hostname u = (let h = strip_port (url_Host u) in
    if has_prefix h ''['' \<and> has_suffix h '']'' then butlast (tl h) else h)"

text \<open>\<open>URL.String\<close> of a URL without path, user and fragment whose scheme and host are not empty.\<close>

definition origin_text :: "url \<Rightarrow> string" where
  "origin_text u = url_Scheme u @ ''://'' @ url_escape EncodeHost (url_Host u) @ (if url_ForceQuery u then ''?'' else '''')"

end
