(* ===== verification/CliProfiles.thy ===== *)
theory CliProfiles
  imports LibraryOps JsonText GoTime GoUrl "HOL-Library.AList"
begin

text \<open>
The files of the command-line client (src/cli/profile.go, src/cli/replace_unix.go): named profiles, the name of the current
one, and the atomic replacement of a file.
\<close>

section \<open>The machine of the client\<close>

text \<open>The files of the user by path, with their mode and content; any operation on them may fail. The errors of the
  operating system are \<open>not_exist\<close> and faults, so that none of them is \<open>os.ErrPermission\<close>.\<close>

type_synonym cli_files = "(string \<times> nat \<times> string) list"
type_synonym 'a cli_io = "(cli_files, 'a) io"

definition not_exist :: err where "not_exist = ErrText ''no such file or directory''"

definition os_read :: "string \<Rightarrow> string cli_io" where
  "os_read p = query (\<lambda>fs. case map_of fs p of None \<Rightarrow> Inl not_exist | Some (_, s) \<Rightarrow> Inr s)"

definition os_exists :: "string \<Rightarrow> bool cli_io" where
  "os_exists p = query (\<lambda>fs. Inr (map_of fs p \<noteq> None))"

text \<open>Changing a file that is there.\<close>

definition os_change :: "string \<Rightarrow> (nat \<times> string \<Rightarrow> nat \<times> string) \<Rightarrow> unit cli_io" where
  "os_change p f = bnd (exec (\<lambda>fs. case map_of fs p of
      None \<Rightarrow> Inl not_exist | Some x \<Rightarrow> Inr (AList.update p (f x) fs, 1))) (\<lambda>_. ret ())"

definition os_remove :: "string \<Rightarrow> unit cli_io" where
  "os_remove p = bnd (exec (\<lambda>fs. case map_of fs p of
      None \<Rightarrow> Inl not_exist | Some _ \<Rightarrow> Inr (AList.delete p fs, 1))) (\<lambda>_. ret ())"

text \<open>\<open>replaceFile\<close>: the destination is replaced when it exists.\<close>

definition replaceFile :: "string \<Rightarrow> string \<Rightarrow> unit cli_io" where
  "replaceFile a b = bnd (exec (\<lambda>fs. case map_of fs a of
      None \<Rightarrow> Inl not_exist | Some x \<Rightarrow> Inr (AList.update b x (AList.delete a fs), 1))) (\<lambda>_. ret ())"

text \<open>\<open>os.CreateTemp\<close>, as in the server: a random number after the prefix, ten thousand tries, mode 0600.\<close>

definition owner_only :: nat where "owner_only = 6 * 64"

fun cli_temp :: "nat \<Rightarrow> string \<Rightarrow> string \<Rightarrow> string cli_io" where
  "cli_temp 0 dir prefix = throw (ErrText ''file exists'')"
| "cli_temp (Suc n) dir prefix =
    bnd (read_full 4) (\<lambda>bs.
    let path = path_join [dir, prefix @ show_nat (foldl (\<lambda>a b. a * 256 + unat b) 0 bs)] in
    bnd (os_exists path) (\<lambda>found.
    if found then cli_temp n dir prefix
    else bnd (exec (\<lambda>fs. Inr (AList.update path (owner_only, '''') fs, 1))) (\<lambda>_. ret path)))"

text \<open>A deferred removal when the body fails; the error of the removal is dropped.\<close>

definition remove_on_error :: "string \<Rightarrow> 'a cli_io \<Rightarrow> 'a cli_io" where
  "remove_on_error p m = (\<lambda>c. case m c of
      (Inl x, c') \<Rightarrow> (Inl x, snd (os_remove p c'))
    | (Inr y, c') \<Rightarrow> (Inr y, c'))"

definition path_dir :: "string \<Rightarrow> string" where
  "path_dir p = path_show (path_elems (case last_index_char CHR ''/'' p of None \<Rightarrow> '''' | Some i \<Rightarrow> take (i + 1) p))"

text \<open>\<open>atomicWrite\<close>: directory, temporary file, mode, bytes, \<open>Sync\<close>, \<open>Close\<close>, and the rename into place.\<close>

definition atomicWrite :: "string \<Rightarrow> string \<Rightarrow> nat \<Rightarrow> unit cli_io" where
  "atomicWrite path contents mode =
    bnd tick (\<lambda>_.
    bnd (cli_temp 10000 (path_dir path) ''.tmp-'') (\<lambda>name.
    remove_on_error name
      (bnd (os_change name (\<lambda>(_, s). (mode, s))) (\<lambda>_.
       bnd (os_change name (\<lambda>(m, _). (m, contents))) (\<lambda>_.
       bnd tick (\<lambda>_.
       bnd tick (\<lambda>_. replaceFile name path)))))))"

section \<open>Profiles\<close>

record Profile =
  pf_BaseURL :: string
  pf_Token :: string
  pf_Email :: string
  pf_UserID :: string
  pf_Role :: string
  pf_TokenName :: string
  pf_SavedAt :: gotime

definition profile_name_char :: "char \<Rightarrow> bool" where
  "profile_name_char c \<longleftrightarrow> letter c \<or> decimal c \<or> c \<in> set ''._-''"

definition profile_name_ok :: "string \<Rightarrow> bool" where
  "profile_name_ok s \<longleftrightarrow> 1 \<le> length s \<and> length s \<le> 64 \<and> list_all profile_name_char s"

text \<open>The first parameter of what follows is \<open>strconv.Quote\<close>, the verb \<open>%q\<close>, which depends on the tables of Unicode.\<close>

definition validateProfileName :: "(string \<Rightarrow> string) \<Rightarrow> string \<Rightarrow> unit cli_io" where
  "validateProfileName q name = fail_if (\<not> profile_name_ok name)
    (ErrText (''invalid profile name '' @ q name @ '': use letters, digits, dot, underscore, or hyphen (maximum 64)''))"

definition deriveProfileName :: "string \<Rightarrow> string" where
  "deriveProfileName baseURL = (case parse_url baseURL of
      None \<Rightarrow> ''default''
    | Some u \<Rightarrow> (let name = hd (split_char CHR ''.'' (hostname u)) in if profile_name_ok name then name else ''default''))"

definition profilesDir :: "string \<Rightarrow> string" where "profilesDir home = path_join [home, ''profiles'']"
definition currentPath :: "string \<Rightarrow> string" where "currentPath home = path_join [home, ''current'']"

definition profile_file :: "string \<Rightarrow> string \<Rightarrow> string" where
  "profile_file home name = path_join [profilesDir home, name @ ''.json'']"

definition profilePath :: "(string \<Rightarrow> string) \<Rightarrow> string \<Rightarrow> string \<Rightarrow> string cli_io" where
  "profilePath q home name = bnd (validateProfileName q name) (\<lambda>_. ret (profile_file home name))"

definition EnsureWritable :: "string \<Rightarrow> unit cli_io" where
  "EnsureWritable home =
    bnd (wrap_err ''create CLI profile directory'' tick) (\<lambda>_.
    bnd (wrap_err ''secure CLI directory'' tick) (\<lambda>_.
    bnd (wrap_err ''secure CLI profile directory'' tick) (\<lambda>_.
    bnd (wrap_err ''CLI profile directory is not writable'' (cli_temp 10000 (profilesDir home) ''.write-test-'')) (\<lambda>name.
    handle (os_remove name) (\<lambda>_. ret ())))))"

text \<open>\<open>json.MarshalIndent\<close> of a profile and the final newline; the error is that of the time.\<close>

definition json_error :: err where "json_error = ErrText ''invalid JSON''"

definition profile_members :: "Profile \<Rightarrow> string \<Rightarrow> (string \<times> string) list" where
  "profile_members p t = [(''base_url'', pf_BaseURL p), (''token'', pf_Token p), (''email'', pf_Email p), (''user_id'', pf_UserID p),
    (''role'', pf_Role p), (''token_name'', pf_TokenName p), (''saved_at'', t)]"

definition indented :: "(string \<times> string) list \<Rightarrow> string" where
  "indented kvs = ''{'' @ [CHR 0x0A] @
    join ('','' @ [CHR 0x0A]) (map (\<lambda>(k, v). ''  '' @ json_string k @ '': '' @ json_string v) kvs) @ [CHR 0x0A] @ ''}''"

definition profile_text :: "Profile \<Rightarrow> err + string" where
  "profile_text p = (case marshal_time (pf_SavedAt p) of
      None \<Rightarrow> Inl json_error | Some t \<Rightarrow> Inr (indented (profile_members p t) @ [CHR 0x0A]))"

definition Write :: "(string \<Rightarrow> string) \<Rightarrow> string \<Rightarrow> string \<Rightarrow> Profile \<Rightarrow> bool \<Rightarrow> unit cli_io" where
  "Write q home name profile overwrite =
    bnd (profilePath q home name) (\<lambda>path.
    bnd (if overwrite then ret () else bnd (os_exists path) (\<lambda>found.
      fail_if found (ErrText (''profile '' @ q name @ '' already exists; use --force to replace it'')))) (\<lambda>_.
    bnd (of_result (profile_text profile)) (\<lambda>text.
    wrap_err (''write profile '' @ q name) (atomicWrite path text owner_only))))"

fun set_time :: "json \<Rightarrow> gotime \<Rightarrow> gotime option" where
  "set_time (JStr s) x = unmarshal_time s" | "set_time JNull x = Some x" | "set_time v x = None"

definition zero_profile :: Profile where
  "zero_profile = \<lparr>pf_BaseURL = '''', pf_Token = '''', pf_Email = '''', pf_UserID = '''', pf_Role = '''', pf_TokenName = '''',
    pf_SavedAt = seconds (- 62135596800)\<rparr>"

definition parse_profile :: "string \<Rightarrow> Profile option" where
  "parse_profile s = (case json_read s of
      None \<Rightarrow> None
    | Some v \<Rightarrow> (case members False [] v of
        None \<Rightarrow> None
      | Some kvs \<Rightarrow> (case (string_field ''base_url'' kvs, string_field ''token'' kvs, string_field ''email'' kvs,
            string_field ''user_id'' kvs, string_field ''role'' kvs, string_field ''token_name'' kvs,
            fill set_time ''saved_at'' kvs (pf_SavedAt zero_profile)) of
          (Some b, Some t, Some m, Some i, Some r, Some n, Some w) \<Rightarrow>
            Some \<lparr>pf_BaseURL = b, pf_Token = t, pf_Email = m, pf_UserID = i, pf_Role = r, pf_TokenName = n, pf_SavedAt = w\<rparr>
        | _ \<Rightarrow> None)))"

definition Read :: "(string \<Rightarrow> string) \<Rightarrow> string \<Rightarrow> string \<Rightarrow> Profile option cli_io" where
  "Read q home name =
    bnd (profilePath q home name) (\<lambda>path.
    bnd (handle (bnd (os_read path) (\<lambda>s. ret (Some s))) (\<lambda>x. if x = not_exist then ret None else throw x)) (\<lambda>found.
    case found of
      None \<Rightarrow> ret None
    | Some s \<Rightarrow> (case parse_profile s of
        None \<Rightarrow> throw (ErrWrap (''read profile '' @ q name) json_error) | Some p \<Rightarrow> ret (Some p))))"

text \<open>The names of the files of a directory.\<close>

definition dir_entries :: "string \<Rightarrow> cli_files \<Rightarrow> string list" where
  "dir_entries dir fs = filter (\<lambda>n. CHR ''/'' \<notin> set n) (List.map_filter (\<lambda>(p, _).
    if has_prefix p (dir @ ''/'') then Some (drop (length dir + 1) p) else None) fs)"

definition profile_names :: "string \<Rightarrow> cli_files \<Rightarrow> string list" where
  "profile_names home fs = sort_key str_key (filter profile_name_ok
    (map (\<lambda>n. trim_suffix n ''.json'') (filter (\<lambda>n. path_ext n = ''.json'') (dir_entries (profilesDir home) fs))))"

definition ListProfiles :: "string \<Rightarrow> string list cli_io" where
  "ListProfiles home = query (\<lambda>fs. Inr (profile_names home fs))"

definition Current :: "(string \<Rightarrow> string) \<Rightarrow> string \<Rightarrow> string cli_io" where
  "Current q home =
    bnd (handle (os_read (currentPath home)) (\<lambda>x. if x = not_exist then ret '''' else throw x)) (\<lambda>s.
    let name = trim_space s in
    if name = '''' then ret '''' else bnd (validateProfileName q name) (\<lambda>_. ret name))"

definition no_profile :: "(string \<Rightarrow> string) \<Rightarrow> string \<Rightarrow> err" where
  "no_profile q name = ErrText (''profile '' @ q name @ '' does not exist'')"

definition SetCurrent :: "(string \<Rightarrow> string) \<Rightarrow> string \<Rightarrow> string \<Rightarrow> unit cli_io" where
  "SetCurrent q home name =
    bnd (validateProfileName q name) (\<lambda>_.
    bnd (Read q home name) (\<lambda>profile.
    bnd (fail_if (profile = None) (no_profile q name)) (\<lambda>_.
    atomicWrite (currentPath home) (name @ [CHR 0x0A]) owner_only)))"

definition clearCurrent :: "string \<Rightarrow> unit cli_io" where
  "clearCurrent home = handle (os_remove (currentPath home)) (\<lambda>x. if x = not_exist then ret () else throw x)"

text \<open>The error of \<open>Current\<close> is dropped.\<close>

definition current_or_none :: "(string \<Rightarrow> string) \<Rightarrow> string \<Rightarrow> string cli_io" where
  "current_or_none q home = handle (Current q home) (\<lambda>_. ret '''')"

definition Remove :: "(string \<Rightarrow> string) \<Rightarrow> string \<Rightarrow> string \<Rightarrow> unit cli_io" where
  "Remove q home name =
    bnd (profilePath q home name) (\<lambda>path.
    bnd (handle (os_remove path) (\<lambda>x. throw (if x = not_exist then no_profile q name else x))) (\<lambda>_.
    bnd (current_or_none q home) (\<lambda>current.
    if current = name then
      bnd (ListProfiles home) (\<lambda>names. case names of [] \<Rightarrow> clearCurrent home | n # _ \<Rightarrow> SetCurrent q home n)
    else ret ())))"

definition Rename :: "(string \<Rightarrow> string) \<Rightarrow> string \<Rightarrow> string \<Rightarrow> string \<Rightarrow> unit cli_io" where
  "Rename q home old new =
    bnd (validateProfileName q old) (\<lambda>_.
    bnd (validateProfileName q new) (\<lambda>_.
    bnd (handle (os_exists (profile_file home new)) (\<lambda>_. ret False)) (\<lambda>found.
    bnd (fail_if found (ErrText (''profile '' @ q new @ '' already exists''))) (\<lambda>_.
    bnd (handle (replaceFile (profile_file home old) (profile_file home new))
      (\<lambda>x. throw (if x = not_exist then no_profile q old else x))) (\<lambda>_.
    bnd (current_or_none q home) (\<lambda>current.
    if current = old then atomicWrite (currentPath home) (new @ [CHR 0x0A]) owner_only else ret ()))))))"

end
