(* ===== verification/CliConfig.thy ===== *)
theory CliConfig
  imports CliProfiles
begin

text \<open>
The options of the command-line client and the server they select (src/cli/config.go): flags, the environment file, the
origin of the server, and the order in which flags, environment, file and profile decide.
\<close>

section \<open>Options\<close>

text \<open>Flags are read by pflag, a parameter of the model: given the declared flags with their kinds, whether flags may follow
  positional arguments, and the arguments, it gives an error or the values of the flags that were set and the rest.\<close>

datatype flag_kind = StringFlag | BoolFlag | IntFlag | DurationFlag
datatype flag_value = FString string | FBool bool | FInt int

type_synonym parsed_flags = "(string \<times> flag_value) list \<times> string list"
type_synonym flag_parser = "(string \<times> flag_kind) list \<Rightarrow> bool \<Rightarrow> string list \<Rightarrow> string + parsed_flags"

definition string_flag :: "string \<Rightarrow> (string \<times> flag_value) list \<Rightarrow> string \<Rightarrow> string" where
  "string_flag n fs d = (case map_of fs n of Some (FString s) \<Rightarrow> s | _ \<Rightarrow> d)"

definition bool_flag :: "string \<Rightarrow> (string \<times> flag_value) list \<Rightarrow> bool \<Rightarrow> bool" where
  "bool_flag n fs d = (case map_of fs n of Some (FBool b) \<Rightarrow> b | _ \<Rightarrow> d)"

definition int_flag :: "string \<Rightarrow> (string \<times> flag_value) list \<Rightarrow> int \<Rightarrow> int" where
  "int_flag n fs d = (case map_of fs n of Some (FInt i) \<Rightarrow> i | _ \<Rightarrow> d)"

definition flag_changed :: "string \<Rightarrow> (string \<times> flag_value) list \<Rightarrow> bool" where
  "flag_changed n fs \<longleftrightarrow> map_of fs n \<noteq> None"

record globalOptions =
  op_URL :: string
  op_Token :: string
  op_Profile :: string
  op_EnvFile :: string
  op_JSON :: bool
  op_ShowToken :: bool
  op_AllowHTTP :: bool
  op_Timeout :: int
  op_urlSet :: bool
  op_tokenSet :: bool
  op_profileSet :: bool

definition no_options :: globalOptions where
  "no_options = \<lparr>op_URL = '''', op_Token = '''', op_Profile = '''', op_EnvFile = '''', op_JSON = False, op_ShowToken = False,
    op_AllowHTTP = False, op_Timeout = 0, op_urlSet = False, op_tokenSet = False, op_profileSet = False\<rparr>"

definition defaultDuration :: "int \<Rightarrow> int \<Rightarrow> int" where
  "defaultDuration v fallback = (if v = 0 then fallback else v)"

definition global_flags :: "(string \<times> flag_kind) list" where
  "global_flags = [(''url'', StringFlag), (''token'', StringFlag), (''profile'', StringFlag), (''env-file'', StringFlag),
    (''json'', BoolFlag), (''show-token'', BoolFlag), (''allow-http'', BoolFlag), (''timeout'', DurationFlag)]"

text \<open>The options after a flag set was parsed: \<open>bindGlobalFlags\<close> gives every flag the present value as default.\<close>

definition bindGlobalFlags :: "(string \<times> flag_value) list \<Rightarrow> globalOptions \<Rightarrow> globalOptions" where
  "bindGlobalFlags fs o1 = o1\<lparr>op_URL := string_flag ''url'' fs (op_URL o1), op_Token := string_flag ''token'' fs (op_Token o1),
    op_Profile := string_flag ''profile'' fs (op_Profile o1), op_EnvFile := string_flag ''env-file'' fs (op_EnvFile o1),
    op_JSON := bool_flag ''json'' fs (op_JSON o1), op_ShowToken := bool_flag ''show-token'' fs (op_ShowToken o1),
    op_AllowHTTP := bool_flag ''allow-http'' fs (op_AllowHTTP o1),
    op_Timeout := int_flag ''timeout'' fs (defaultDuration (op_Timeout o1) (30 * 10 ^ 9))\<rparr>"

definition captureGlobalChanges :: "(string \<times> flag_value) list \<Rightarrow> globalOptions \<Rightarrow> globalOptions" where
  "captureGlobalChanges fs o1 = o1\<lparr>op_urlSet := op_urlSet o1 \<or> flag_changed ''url'' fs,
    op_tokenSet := op_tokenSet o1 \<or> flag_changed ''token'' fs,
    op_profileSet := op_profileSet o1 \<or> flag_changed ''profile'' fs\<rparr>"

section \<open>The environment file\<close>

definition unquote_env :: "string \<Rightarrow> string" where
  "unquote_env v =
    (if 2 \<le> length v \<and> (hd v = CHR 0x27 \<and> last v = CHR 0x27 \<or> hd v = CHR 0x22 \<and> last v = CHR 0x22) then butlast (tl v)
     else case str_index v '' #'' of Some i \<Rightarrow> trim_space (take i v) | None \<Rightarrow> v)"

definition env_entry :: "string \<Rightarrow> (string \<times> string) option" where
  "env_entry raw =
    (let line = trim_space raw in
     if line = '''' \<or> has_prefix line ''#'' then None
     else case cut_char CHR ''='' line of
       (_, None) \<Rightarrow> None
     | (k, Some v) \<Rightarrow> Some (trim_space k, unquote_env (trim_space v)))"

text \<open>\<open>bufio.Scanner\<close> over lines: the longest line it takes has 65535 bytes; a carriage return before the end of a line is
  dropped, and no line follows a final newline.\<close>

definition scan_lines :: "string \<Rightarrow> string list option" where
  "scan_lines s =
    (let ls = split_char (CHR 0x0A) s; ls = (if last ls = '''' then butlast ls else ls) in
     if list_ex (\<lambda>l. 65536 \<le> length l) ls then None else Some (map (\<lambda>l. trim_suffix l [CHR 0x0D]) ls))"

definition env_values :: "string list \<Rightarrow> string \<Rightarrow> string option" where
  "env_values ls = map_of (rev (List.map_filter env_entry ls))"

definition parseEnvFile :: "string \<Rightarrow> (string \<Rightarrow> string option) cli_io" where
  "parseEnvFile path =
    (if trim_space path = '''' then ret (\<lambda>_. None)
     else bnd (wrap_err ''open environment file'' (os_read path)) (\<lambda>s.
       bnd tick (\<lambda>_.
       case scan_lines s of None \<Rightarrow> throw (ErrText ''bufio.Scanner: token too long'') | Some ls \<Rightarrow> ret (env_values ls))))"

section \<open>The server's address\<close>

definition isLoopbackHost :: "string \<Rightarrow> bool" where
  "isLoopbackHost host \<longleftrightarrow> key_is ''localhost'' host \<or> (case parse_ip host of None \<Rightarrow> False | Some ip \<Rightarrow> is_loopback ip)"

definition errorsNewURL :: "string \<Rightarrow> err" where
  "errorsNewURL message = ErrText (''invalid server URL: '' @ message)"

definition normalizeBaseURL :: "(string \<Rightarrow> string) \<Rightarrow> string \<Rightarrow> bool \<Rightarrow> err + string" where
  "normalizeBaseURL q raw allowHTTP =
    (let v = trim_space raw in
     case parse_url v of
       None \<Rightarrow> Inl (ErrText (''invalid server URL '' @ q v))
     | Some u \<Rightarrow>
         if url_Scheme u = '''' \<or> url_Host u = '''' then Inl (ErrText (''invalid server URL '' @ q v))
         else if url_User u \<or> url_RawQuery u \<noteq> '''' \<or> url_Fragment u \<noteq> '''' \<or> url_Path u \<noteq> '''' \<and> url_Path u \<noteq> ''/'' then
           Inl (errorsNewURL ''server URL must be an origin without credentials, query, fragment, or path'')
         else if url_Scheme u \<noteq> ''https'' \<and> url_Scheme u \<noteq> ''http'' then Inl (errorsNewURL ''server URL scheme must be https or http'')
         else if url_Scheme u = ''http'' \<and> \<not> allowHTTP \<and> \<not> isLoopbackHost (hostname u) then
           Inl (errorsNewURL ''plain HTTP is allowed only for loopback servers; use --allow-http to override'')
         else Inr (trim_suffix (origin_text u) ''/''))"

section \<open>Which server, which token\<close>

record remoteConfig =
  rc_BaseURL :: string
  rc_Token :: string
  rc_Profile :: string
  rc_ProfileData :: "Profile option"

text \<open>The first of some texts that is not empty, or the last one.\<close>

definition env_or_file :: "(string \<Rightarrow> string) \<Rightarrow> (string \<Rightarrow> string option) \<Rightarrow> string \<Rightarrow> string \<Rightarrow> string" where
  "env_or_file getenv file k fallback =
    (let a = trim_space (getenv k); b = trim_space (case file k of None \<Rightarrow> '''' | Some v \<Rightarrow> v) in
     if a \<noteq> '''' then a else if b \<noteq> '''' then b else fallback)"

definition pick_profile :: "(string \<Rightarrow> string) \<Rightarrow> (string \<Rightarrow> string) \<Rightarrow> string \<Rightarrow> globalOptions \<Rightarrow> string cli_io" where
  "pick_profile q getenv home options =
    (if op_profileSet options then ret (op_Profile options)
     else if trim_space (getenv ''BOOKBROWSER_PROFILE'') \<noteq> '''' then ret (trim_space (getenv ''BOOKBROWSER_PROFILE''))
     else Current q home)"

definition need_profile :: "(string \<Rightarrow> string) \<Rightarrow> string \<Rightarrow> string \<Rightarrow> Profile option cli_io" where
  "need_profile q home name =
    (if name = '''' then ret None
     else bnd (Read q home name) (\<lambda>p. bnd (fail_if (p = None) (no_profile q name)) (\<lambda>_. ret p)))"

definition resolveRemote :: "(string \<Rightarrow> string) \<Rightarrow> (string \<Rightarrow> string) \<Rightarrow> string \<Rightarrow> globalOptions \<Rightarrow> bool \<Rightarrow> remoteConfig cli_io" where
  "resolveRemote q getenv home options needToken =
    bnd (parseEnvFile (op_EnvFile options)) (\<lambda>fileEnv.
    bnd (pick_profile q getenv home options) (\<lambda>profileName.
    bnd (need_profile q home profileName) (\<lambda>profile.
    let url0 = (if op_urlSet options then op_URL options
      else env_or_file getenv fileEnv ''BOOKBROWSER_URL'' (case profile of None \<Rightarrow> '''' | Some p \<Rightarrow> pf_BaseURL p)) in
    bnd (fail_if (url0 = '''') (ErrText ''no server URL configured; run login or pass --url / BOOKBROWSER_URL'')) (\<lambda>_.
    bnd (of_result (normalizeBaseURL q url0 (op_AllowHTTP options))) (\<lambda>baseURL.
    let token = (if op_tokenSet options then op_Token options
      else env_or_file getenv fileEnv ''BOOKBROWSER_TOKEN'' (case profile of None \<Rightarrow> '''' | Some p \<Rightarrow> pf_Token p)) in
    bnd (fail_if (needToken \<and> token = '''') (ErrText ''no API token configured; run login or pass --token / BOOKBROWSER_TOKEN'')) (\<lambda>_.
    ret \<lparr>rc_BaseURL = baseURL, rc_Token = token, rc_Profile = profileName, rc_ProfileData = profile\<rparr>))))))"

end
