(* ===== verification/CliClient.thy ===== *)
theory CliClient
  imports CliConfig
begin

text \<open>
The HTTP client of the command line (src/cli/client.go) and the machine its commands run on: files, network, terminal and
the log of the calls that were made.
\<close>

section \<open>Errors\<close>

text \<open>The errors of a command: \<open>usageError\<close>, \<open>APIError\<close>, \<open>reportedError\<close>, an error of the files, a text, and an error
  wrapped by \<open>%w\<close> between two texts.\<close>

datatype cli_err = Usage string | APIError nat string string | Reported cli_err | Os err | Plain string | Wrapped string cli_err string

fun cli_text :: "cli_err \<Rightarrow> string" where
  "cli_text (Usage m) = m"
| "cli_text (APIError status code m) = (if m \<noteq> '''' then m else ''server returned HTTP '' @ show_nat status)"
| "cli_text (Reported e) = cli_text e"
| "cli_text (Os e) = error_text e"
| "cli_text (Plain s) = s"
| "cli_text (Wrapped a e b) = a @ cli_text e @ b"

section \<open>The machine\<close>

datatype payload = NoPayload | JsonPayload json | BookPayload string string

record api_call =
  cl_verb :: string
  cl_base :: string
  cl_path :: string
  cl_headers :: "(string \<times> string) list"
  cl_payload :: payload
  cl_timeout :: int

text \<open>What comes of a call: a failure of the transport, or a status, headers, the bytes of the body with the error that
  ends them, if any, and the error the writer of an uploaded file met, if any.\<close>

datatype reply = Refused string | Answer nat "(string \<times> string) list" string "string option" "string option"

datatype redirect_verdict = Follow | Refuse string | Crash

type_synonym redirect_policy = "url list \<Rightarrow> url \<Rightarrow> redirect_verdict"

text \<open>What was printed: a text, an indented JSON value, or the rows of a table.\<close>

datatype printed = Print string | PrintJSON json | PrintTable "string list list"

text \<open>The network is a state of any type; the clock is read off it.\<close>

record 'n machine =
  mc_disk :: "cli_files conn"
  mc_net :: 'n
  mc_calls :: "api_call list"
  mc_out :: "printed list"
  mc_err :: "string list"
  mc_in :: "string list"
  mc_json :: bool

text \<open>What surrounds the client: the transport with the redirect policy it is given, the clock, waiting (\<open>False\<close> when the
  context ends first), the environment and the process, the terminal, the browser, and tables and texts of the libraries.
  \<open>w_patience\<close> bounds the rounds of the two loops that only a server ends: after so many rounds the context is done.\<close>

record 'n world =
  w_send :: "redirect_policy \<Rightarrow> api_call \<Rightarrow> 'n \<Rightarrow> reply \<times> 'n"
  w_now :: "'n \<Rightarrow> gotime"
  w_wait :: "int \<Rightarrow> 'n \<Rightarrow> 'n"
  w_patience :: nat
  w_env :: "string \<Rightarrow> string"
  w_home :: string
  w_hostname :: string
  w_pid :: nat
  w_version :: string
  w_terminal :: "string option option"
  w_browser :: "string \<Rightarrow> string option"
  w_flags :: flag_parser
  w_quote :: "string \<Rightarrow> string"
  w_fold :: "nat \<Rightarrow> nat"
  w_word :: "nat \<Rightarrow> bool"
  w_media :: "string \<Rightarrow> (string \<times> (string \<times> string) list) option"
  w_redacted :: "url \<Rightarrow> string"
  w_stamp :: "string \<Rightarrow> gotime \<Rightarrow> string"
  w_show :: "json option \<Rightarrow> string"
  w_float :: "string \<Rightarrow> f64 option"
  w_low :: "nat \<Rightarrow> nat"
  w_is_dir :: "string \<Rightarrow> bool"
  w_walk :: "string \<Rightarrow> cli_files \<Rightarrow> string list \<times> string option"

type_synonym ('n, 'a) cmd = "'n machine \<Rightarrow> (cli_err + 'a) \<times> 'n machine"

definition done_with :: "'a \<Rightarrow> ('n, 'a) cmd" where "done_with x = (\<lambda>m. (Inr x, m))"
definition give_up :: "cli_err \<Rightarrow> ('n, 'a) cmd" where "give_up e = (\<lambda>m. (Inl e, m))"

definition andThen :: "('n, 'a) cmd \<Rightarrow> ('a \<Rightarrow> ('n, 'b) cmd) \<Rightarrow> ('n, 'b) cmd" where
  "andThen c f = (\<lambda>m. case c m of (Inl e, m') \<Rightarrow> (Inl e, m') | (Inr x, m') \<Rightarrow> f x m')"

text \<open>The result of a step as a value, for code that looks at the error.\<close>

definition attempt :: "('n, 'a) cmd \<Rightarrow> ('n, cli_err + 'a) cmd" where
  "attempt c = (\<lambda>m. case c m of (r, m') \<Rightarrow> (Inr r, m'))"

definition disk :: "'a cli_io \<Rightarrow> ('n, 'a) cmd" where
  "disk io = (\<lambda>m. case io (mc_disk m) of (r, d) \<Rightarrow>
    ((case r of Inl e \<Rightarrow> Inl (Os e) | Inr x \<Rightarrow> Inr x), m\<lparr>mc_disk := d\<rparr>))"

definition asks :: "('n machine \<Rightarrow> 'a) \<Rightarrow> ('n, 'a) cmd" where "asks f = (\<lambda>m. (Inr (f m), m))"
definition print_out :: "printed \<Rightarrow> ('n, unit) cmd" where "print_out x = (\<lambda>m. (Inr (), m\<lparr>mc_out := mc_out m @ [x]\<rparr>))"
definition print_err :: "string \<Rightarrow> ('n, unit) cmd" where "print_err s = (\<lambda>m. (Inr (), m\<lparr>mc_err := mc_err m @ [s]\<rparr>))"

definition fail_when :: "bool \<Rightarrow> cli_err \<Rightarrow> ('n, unit) cmd" where
  "fail_when b e = (if b then give_up e else done_with ())"

section \<open>The client\<close>

definition maxClientResponseBytes :: nat where "maxClientResponseBytes = 2 * 2 ^ 20"

record Client =
  ct_BaseURL :: string
  ct_Token :: string
  ct_UserAgent :: string
  ct_Timeout :: int
  ct_Origin :: "url option"

definition same_fold :: "(nat \<Rightarrow> nat) \<Rightarrow> string \<Rightarrow> string \<Rightarrow> bool" where
  "same_fold tbl a b \<longleftrightarrow> map (lower_rune tbl) (runes a) = map (lower_rune tbl) (runes b)"

text \<open>\<open>CheckRedirect\<close>: at most ten requests in a row, and only to the origin of the server. The origin of a base that is not
  a URL is a nil pointer.\<close>

definition check_redirect :: "'n world \<Rightarrow> url option \<Rightarrow> redirect_policy" where
  "check_redirect w origin via target =
    (if 10 \<le> length via then Refuse ''too many redirects''
     else case origin of None \<Rightarrow> Crash
     | Some u \<Rightarrow>
         if \<not> same_fold (w_fold w) (url_Scheme target) (url_Scheme u) \<or> \<not> same_fold (w_fold w) (url_Host target) (url_Host u)
         then Refuse (''refusing cross-origin redirect to '' @ w_redacted w target) else Follow)"

definition NewClient :: "'n world \<Rightarrow> string \<Rightarrow> string \<Rightarrow> int \<Rightarrow> Client" where
  "NewClient w baseURL token timeout = \<lparr>ct_BaseURL = trim_suffix baseURL ''/'', ct_Token = token,
    ct_UserAgent = ''bookbrowser-cli/'' @ w_version w, ct_Timeout = timeout, ct_Origin = parse_url baseURL\<rparr>"

text \<open>Headers of a request; \<open>None\<close> when its URL does not parse.\<close>

definition newRequest :: "Client \<Rightarrow> string \<Rightarrow> string \<Rightarrow> payload \<Rightarrow> api_call option" where
  "newRequest c verb path p =
    (if parse_url (ct_BaseURL c @ path) = None then None
     else Some \<lparr>cl_verb = verb, cl_base = ct_BaseURL c, cl_path = path,
       cl_headers = [(''Accept'', ''application/json''), (''User-Agent'', ct_UserAgent c)] @
         (if ct_Token c \<noteq> '''' then [(''Authorization'', ''Bearer '' @ ct_Token c)] else []),
       cl_payload = p, cl_timeout = ct_Timeout c\<rparr>)"

definition bad_url :: cli_err where "bad_url = Plain ''invalid URL''"

definition set_header :: "string \<Rightarrow> string \<Rightarrow> api_call \<Rightarrow> api_call" where
  "set_header k v cl = cl\<lparr>cl_headers := AList.update k v (cl_headers cl)\<rparr>"

text \<open>\<open>HTTP.Do\<close>: the call is logged and sent.\<close>

definition Do :: "'n world \<Rightarrow> Client \<Rightarrow> api_call \<Rightarrow> 'n machine \<Rightarrow> reply \<times> 'n machine" where
  "Do w c cl m = (case w_send w (check_redirect w (ct_Origin c)) cl (mc_net m) of (r, n) \<Rightarrow>
    (r, m\<lparr>mc_net := n, mc_calls := mc_calls m @ [cl]\<rparr>))"

text \<open>The envelope of an error: fields of the wrong type are left alone and the error of the decoder is dropped.\<close>

definition lenient :: "string \<Rightarrow> (string \<times> json) list \<Rightarrow> string \<Rightarrow> string" where
  "lenient name kvs x0 = foldl (\<lambda>x (k, v). if key_is name k then (case v of JStr s \<Rightarrow> s | _ \<Rightarrow> x) else x) x0 kvs"

definition envelope :: "string \<Rightarrow> string \<times> string" where
  "envelope data = (case json_read data of
      Some (JObj kvs) \<Rightarrow> foldl (\<lambda>(c, m) (k, v). if key_is ''error'' k
        then (case v of JObj es \<Rightarrow> (lenient ''code'' es c, lenient ''message'' es m) | _ \<Rightarrow> (c, m)) else (c, m)) ('''', '''') kvs
    | _ \<Rightarrow> ('''', ''''))"

definition parseAPIError :: "nat \<Rightarrow> string \<Rightarrow> cli_err" where
  "parseAPIError status data = (case envelope data of (code, m) \<Rightarrow>
    APIError status code (if trim_space m = '''' then trim_space data else trim_space m))"

definition success :: "nat \<Rightarrow> bool" where "success status \<longleftrightarrow> 200 \<le> status \<and> status < 300"

text \<open>What \<open>io.ReadAll\<close> of the limited body gives: one byte more than the limit shows an answer that is too long.\<close>

definition limited :: "string \<Rightarrow> string option \<Rightarrow> cli_err + string" where
  "limited data e =
    (if maxClientResponseBytes < length data then
       Inl (Plain (''server response exceeds '' @ show_nat maxClientResponseBytes @ '' bytes''))
     else case e of Some s \<Rightarrow> Inl (Plain s) | None \<Rightarrow> Inr data)"

text \<open>\<open>target\<close> is what the answer is decoded to, with the value it has before, or nothing.\<close>

definition decode_reply :: "(json \<Rightarrow> 'a option) option \<Rightarrow> 'a \<Rightarrow> string \<Rightarrow> cli_err + 'a" where
  "decode_reply target zero data = (case target of
      None \<Rightarrow> Inr zero
    | Some f \<Rightarrow> if data = '''' then Inr zero
        else (case json_read data of
          None \<Rightarrow> Inl (Wrapped ''decode server response: '' (Os json_error) '''')
        | Some v \<Rightarrow> (case f v of None \<Rightarrow> Inl (Wrapped ''decode server response: '' (Os json_error) '''') | Some x \<Rightarrow> Inr x)))"

definition JSON_reply :: "(json \<Rightarrow> 'a option) option \<Rightarrow> 'a \<Rightarrow> reply \<Rightarrow> nat \<times> (string \<times> string) list \<times> (cli_err + 'a)" where
  "JSON_reply target zero r = (case r of
      Refused s \<Rightarrow> (0, [], Inl (Plain s))
    | Answer status headers data e _ \<Rightarrow> (status, headers,
        (case limited data e of
          Inl x \<Rightarrow> Inl x
        | Inr d \<Rightarrow> if \<not> success status then Inl (parseAPIError status d) else decode_reply target zero d)))"

definition JSON :: "'n world \<Rightarrow> Client \<Rightarrow> string \<Rightarrow> string \<Rightarrow> json option \<Rightarrow> (json \<Rightarrow> 'a option) option \<Rightarrow> 'a \<Rightarrow>
    'n machine \<Rightarrow> (nat \<times> (string \<times> string) list \<times> (cli_err + 'a)) \<times> 'n machine" where
  "JSON w c verb path input target zero m =
    (case newRequest c verb path (case input of None \<Rightarrow> NoPayload | Some v \<Rightarrow> JsonPayload v) of
      None \<Rightarrow> ((0, [], Inl bad_url), m)
    | Some cl \<Rightarrow> (case Do w c (if input = None then cl else set_header ''Content-Type'' ''application/json'' cl) m of
        (r, m') \<Rightarrow> (JSON_reply target zero r, m')))"

definition call_json :: "'n world \<Rightarrow> Client \<Rightarrow> string \<Rightarrow> string \<Rightarrow> json option \<Rightarrow> (json \<Rightarrow> 'a option) option \<Rightarrow> 'a \<Rightarrow> ('n, 'a) cmd" where
  "call_json w c verb path input target zero = (\<lambda>m. case JSON w c verb path input target zero m of ((_, _, r), m') \<Rightarrow> (r, m'))"

text \<open>A JSON object for a map, and any value for one that is printed as it came.\<close>

definition to_map :: "json \<Rightarrow> (string \<times> json) list option" where
  "to_map v = (case v of JObj kvs \<Rightarrow> Some kvs | JNull \<Rightarrow> Some [] | _ \<Rightarrow> None)"

definition upload_reply :: "reply \<Rightarrow> cli_err + (string \<times> json) list" where
  "upload_reply r = (case r of
      Refused s \<Rightarrow> Inl (Plain s)
    | Answer status _ data e written \<Rightarrow>
        let d = take (maxClientResponseBytes + 1) data in
        (case written of Some s \<Rightarrow> Inl (Plain s)
         | None \<Rightarrow>
             if length data \<le> maxClientResponseBytes \<and> e \<noteq> None then Inl (Plain (the e))
             else if \<not> success status then Inl (parseAPIError status d)
             else (case json_read d of None \<Rightarrow> Inl (Os json_error)
               | Some v \<Rightarrow> (case to_map v of None \<Rightarrow> Inl (Os json_error) | Some kvs \<Rightarrow> Inr kvs))))"

text \<open>\<open>Upload\<close> streams the file as a multipart form; the error of the writer comes before the server's answer.\<close>

definition Upload :: "'n world \<Rightarrow> Client \<Rightarrow> string \<Rightarrow> ('n, (string \<times> json) list) cmd" where
  "Upload w c path =
    andThen (disk (os_read path)) (\<lambda>s.
    case newRequest c ''POST'' ''/api/v1/library/books'' (BookPayload (path_base path) s) of
      None \<Rightarrow> give_up bad_url
    | Some cl \<Rightarrow> (\<lambda>m. case Do w c (set_header ''Content-Type'' ''multipart/form-data'' cl) m of (r, m') \<Rightarrow> (upload_reply r, m')))"

text \<open>The body of a download with the error that ends it, and the name the server suggests.\<close>

definition Download :: "'n world \<Rightarrow> Client \<Rightarrow> string \<Rightarrow> ('n, (string \<times> string option) \<times> string) cmd" where
  "Download w c bookID =
    (case newRequest c ''GET'' (''/api/v1/books/'' @ path_escape bookID @ ''/download'') NoPayload of
      None \<Rightarrow> give_up bad_url
    | Some cl \<Rightarrow> (\<lambda>m. case Do w c (set_header ''Accept'' ''application/octet-stream'' cl) m of
        (Refused s, m') \<Rightarrow> (Inl (Plain s), m')
      | (Answer status headers data e _, m') \<Rightarrow>
          if \<not> success status then (Inl (parseAPIError status (take maxClientResponseBytes data)), m')
          else (Inr ((data, e), (case w_media w (lookup_first headers ''Content-Disposition'') of
            None \<Rightarrow> '''' | Some (_, ps) \<Rightarrow> path_base (lookup_first ps ''filename''))), m')))"

end
