(* ===== verification/CliLogin.thy ===== *)
theory CliLogin
  imports CliClient
begin

text \<open>
Signing in from the command line (src/cli/run.go, the login command): prompts, the names of tokens, password and Google
sign-in, and the profile that is written.
\<close>

section \<open>Flags, names, prompts\<close>

text \<open>\<open>NewProfileStore\<close>: the directory of the client.\<close>

definition NewProfileStore :: "(string \<Rightarrow> string) \<Rightarrow> err + string \<Rightarrow> err + string" where
  "NewProfileStore getenv configDir =
    (if trim_space (getenv ''BOOKBROWSER_CLI_HOME'') \<noteq> '''' then Inr (trim_space (getenv ''BOOKBROWSER_CLI_HOME''))
     else case configDir of
       Inl e \<Rightarrow> Inl (ErrWrap ''find user configuration directory'' e)
     | Inr dir \<Rightarrow> Inr (path_join [dir, ''bookbrowser'', ''cli'']))"

text \<open>\<open>commandFlags\<close>: the flags of a command beside the global ones; the result is its flags, its positional arguments and
  the options, and the choice of JSON is remembered.\<close>

definition commandFlags :: "'n world \<Rightarrow> (string \<times> flag_kind) list \<Rightarrow> string list \<Rightarrow> globalOptions \<Rightarrow>
    ('n, (string \<times> flag_value) list \<times> string list \<times> globalOptions) cmd" where
  "commandFlags w own args options =
    (case w_flags w (global_flags @ own) True args of
      Inl e \<Rightarrow> give_up (Usage e)
    | Inr (fs, pos) \<Rightarrow>
        (let o1 = captureGlobalChanges fs (bindGlobalFlags fs options) in
         (\<lambda>m. (Inr (fs, pos, o1), m\<lparr>mc_json := op_JSON o1\<rparr>))))"

definition prompt :: "string \<Rightarrow> ('n, string) cmd" where
  "prompt label = andThen (print_err label) (\<lambda>_ m. (case mc_in m of
      [] \<Rightarrow> (Inr '''', m) | l # ls \<Rightarrow> (Inr (trim_space l), m\<lparr>mc_in := ls\<rparr>)))"

definition promptPassword :: "'n world \<Rightarrow> string \<Rightarrow> ('n, string) cmd" where
  "promptPassword w label =
    andThen (print_err label) (\<lambda>_.
    case w_terminal w of
      None \<Rightarrow> prompt ''''
    | Some pw \<Rightarrow> andThen (print_err [CHR 0x0A]) (\<lambda>_. case pw of None \<Rightarrow> give_up (Plain ''input error'') | Some s \<Rightarrow> done_with s))"

definition sanitizeTokenPart :: "(nat \<Rightarrow> bool) \<Rightarrow> string \<Rightarrow> string" where
  "sanitizeTokenPart is_word v = trim_chars (concat (map (\<lambda>r. if is_word r \<or> r \<in> of_char ` set ''._-'' then encode_rune r else ''-'') (runes v))) ''-.''"

text \<open>The clock in UTC as \<open>20060102-150405\<close>.\<close>

definition token_stamp :: "gotime \<Rightarrow> string" where
  "token_stamp t =
    (let sec = t div ns_per_s; k = nat (sec mod 86400) in
     case date_of (nat (sec div 86400 + epoch_days)) of (y, mo, d) \<Rightarrow>
       (if y \<le> 9999 then pad 4 y else show_nat y) @ pad 2 mo @ pad 2 d @ ''-'' @ pad 2 (k div 3600) @ pad 2 (k mod 3600 div 60) @ pad 2 (k mod 60))"

definition defaultTokenName :: "'n world \<Rightarrow> gotime \<Rightarrow> string" where
  "defaultTokenName w t =
    (let host = sanitizeTokenPart (w_word w) (w_hostname w); host = (if host = '''' then ''client'' else host);
         name = ''bookbrowser-cli.'' @ host @ ''.'' @ token_stamp t @ ''.'' @ show_nat (w_pid w);
         name = (if 80 < length name then take 80 name else name)
     in rev (dropWhile (\<lambda>c. c \<in> set ''.-'') (rev name)))"

section \<open>Answers of the server\<close>

record cliUser =
  us_ID :: string
  us_Email :: string
  us_Name :: string
  us_Role :: string
  us_Active :: bool
  us_AllowShare :: bool

record loginResponse =
  lr_Status :: string
  lr_Token :: string
  lr_TokenName :: string
  lr_User :: cliUser

definition no_user :: cliUser where
  "no_user = \<lparr>us_ID = '''', us_Email = '''', us_Name = '''', us_Role = '''', us_Active = False, us_AllowShare = False\<rparr>"

definition no_login :: loginResponse where
  "no_login = \<lparr>lr_Status = '''', lr_Token = '''', lr_TokenName = '''', lr_User = no_user\<rparr>"

definition set_user :: "json \<Rightarrow> cliUser \<Rightarrow> cliUser option" where
  "set_user v u = (case members False [] v of
      None \<Rightarrow> None
    | Some kvs \<Rightarrow> (case (fill set_string ''id'' kvs (us_ID u), fill set_string ''email'' kvs (us_Email u),
          fill set_string ''name'' kvs (us_Name u), fill set_string ''role'' kvs (us_Role u),
          fill set_bool ''active'' kvs (us_Active u), fill set_bool ''allow_share_links'' kvs (us_AllowShare u)) of
        (Some i, Some e, Some n, Some r, Some a, Some s) \<Rightarrow>
          Some \<lparr>us_ID = i, us_Email = e, us_Name = n, us_Role = r, us_Active = a, us_AllowShare = s\<rparr>
      | _ \<Rightarrow> None))"

text \<open>A nested structure with one text in it.\<close>

definition set_member :: "string \<Rightarrow> json \<Rightarrow> string \<Rightarrow> string option" where
  "set_member name v x = (case members False [] v of None \<Rightarrow> None | Some kvs \<Rightarrow> fill set_string name kvs x)"

definition decode_login :: "json \<Rightarrow> loginResponse option" where
  "decode_login v = (case members False [] v of
      None \<Rightarrow> None
    | Some kvs \<Rightarrow> (case (string_field ''status'' kvs, string_field ''token'' kvs, fill (set_member ''name'') ''api_token'' kvs '''',
          fill set_user ''user'' kvs no_user) of
        (Some s, Some t, Some n, Some u) \<Rightarrow> Some \<lparr>lr_Status = s, lr_Token = t, lr_TokenName = n, lr_User = u\<rparr>
      | _ \<Rightarrow> None))"

definition json_user :: "cliUser \<Rightarrow> json" where
  "json_user u = JObj [(''id'', JStr (us_ID u)), (''email'', JStr (us_Email u)), (''name'', JStr (us_Name u)), (''role'', JStr (us_Role u)),
    (''active'', JBool (us_Active u)), (''allow_share_links'', JBool (us_AllowShare u))]"

record started =
  st_ChallengeID :: string
  st_PollSecret :: string
  st_VerificationURL :: string
  st_ExpiresAt :: gotime
  st_Interval :: int

definition not_started :: started where
  "not_started = \<lparr>st_ChallengeID = '''', st_PollSecret = '''', st_VerificationURL = '''', st_ExpiresAt = seconds (- 62135596800), st_Interval = 0\<rparr>"

definition decode_started :: "json \<Rightarrow> started option" where
  "decode_started v = (case members False [] v of
      None \<Rightarrow> None
    | Some kvs \<Rightarrow> (case (string_field ''challenge_id'' kvs, string_field ''poll_secret'' kvs, string_field ''verification_url'' kvs,
          fill set_time ''expires_at'' kvs (st_ExpiresAt not_started), int_field ''interval_seconds'' kvs) of
        (Some c, Some p, Some u, Some e, Some i) \<Rightarrow>
          Some \<lparr>st_ChallengeID = c, st_PollSecret = p, st_VerificationURL = u, st_ExpiresAt = e, st_Interval = i\<rparr>
      | _ \<Rightarrow> None))"

definition string_map :: "(string \<times> string) list \<Rightarrow> json" where
  "string_map kvs = JObj (map (\<lambda>(k, v). (k, JStr v)) kvs)"

section \<open>Signing in\<close>

definition login_address :: "'n world \<Rightarrow> globalOptions \<Rightarrow> string cli_io" where
  "login_address w options =
    bnd (parseEnvFile (op_EnvFile options)) (\<lambda>fileEnv.
    if op_urlSet options then ret (op_URL options)
    else
      let v = env_or_file (w_env w) fileEnv ''BOOKBROWSER_URL'' '''' in
      if v \<noteq> '''' then ret v
      else bnd (if op_profileSet options then ret (op_Profile options) else current_or_none (w_quote w) (w_home w)) (\<lambda>name.
        if name = '''' then ret ''''
        else bnd (Read (w_quote w) (w_home w) name) (\<lambda>p. ret (case p of None \<Rightarrow> '''' | Some x \<Rightarrow> pf_BaseURL x))))"

definition loginURL :: "'n world \<Rightarrow> globalOptions \<Rightarrow> string cli_io" where
  "loginURL w options =
    bnd (login_address w options) (\<lambda>v.
    bnd (fail_if (v = '''') (ErrText ''login requires --url or BOOKBROWSER_URL'')) (\<lambda>_.
    of_result (normalizeBaseURL (w_quote w) v (op_AllowHTTP options))))"

text \<open>A duration of whole seconds in 64 bits.\<close>

definition seconds64 :: "int \<Rightarrow> int" where
  "seconds64 n = sint (word_of_int (n * 10 ^ 9) :: 64 word)"

definition challenge_map :: "started \<Rightarrow> json" where
  "challenge_map s = string_map [(''challenge_id'', st_ChallengeID s), (''poll_secret'', st_PollSecret s)]"

text \<open>\<open>errors.As\<close> with an API error.\<close>

fun as_api :: "cli_err \<Rightarrow> (nat \<times> string \<times> string) option" where
  "as_api (APIError status code m) = Some (status, code, m)"
| "as_api (Reported e) = as_api e"
| "as_api (Wrapped a e b) = as_api e"
| "as_api _ = None"

definition api_status :: "cli_err \<Rightarrow> nat option" where
  "api_status e = map_option fst (as_api e)"

text \<open>The rounds of polling: the response and whether the sign-in was completed; an answer such as 204 ends the loop with
  an empty response and no error.\<close>

fun poll :: "'n world \<Rightarrow> Client \<Rightarrow> started \<Rightarrow> nat \<Rightarrow> int \<Rightarrow> ('n, loginResponse \<times> bool) cmd" where
  "poll w c s 0 interval = give_up (Plain ''context canceled'')"
| "poll w c s (Suc k) interval = (\<lambda>m.
    case JSON w c ''POST'' ''/api/v1/auth/google/poll'' (Some (challenge_map s)) (Some decode_login) no_login
        (m\<lparr>mc_net := w_wait w interval (mc_net m)\<rparr>) of
      ((status, headers, Inr r), m') \<Rightarrow>
        if status = 200 then (Inr (r, True), m')
        else if status = 202 then poll w c s k interval m'
        else (Inr (no_login, False), m')
    | ((status, headers, Inl e), m') \<Rightarrow>
        if api_status e = Some 429 then
          poll w c s k (case atoi (lookup_first headers ''Retry-After'') of
            Some n \<Rightarrow> if 0 < n then seconds64 n else interval | None \<Rightarrow> interval) m'
        else (Inl e, m'))"

text \<open>The challenge is cancelled unless it was completed; the outcome of that is dropped.\<close>

definition cancel_challenge :: "'n world \<Rightarrow> Client \<Rightarrow> started \<Rightarrow> ('n, unit) cmd" where
  "cancel_challenge w c s = (\<lambda>m.
    (Inr (), snd (JSON w c ''POST'' ''/api/v1/auth/google/cancel'' (Some (challenge_map s)) None () m)))"

definition with_cancel :: "'n world \<Rightarrow> Client \<Rightarrow> started \<Rightarrow> ('n, loginResponse \<times> bool) cmd \<Rightarrow> ('n, loginResponse) cmd" where
  "with_cancel w c s body = (\<lambda>m. case body m of
      (Inr (r, True), m') \<Rightarrow> (Inr r, m')
    | (Inr (r, False), m') \<Rightarrow> (Inr r, snd (cancel_challenge w c s m'))
    | (Inl e, m') \<Rightarrow> (Inl e, snd (cancel_challenge w c s m')))"

definition googleLogin :: "'n world \<Rightarrow> Client \<Rightarrow> string \<Rightarrow> string \<Rightarrow> string \<Rightarrow> ('n, loginResponse) cmd" where
  "googleLogin w c via tokenName profileName =
    andThen (call_json w c ''POST'' ''/api/v1/auth/google/start''
      (Some (string_map [(''client_name'', w_hostname w), (''token_name'', tokenName)])) (Some decode_started) not_started) (\<lambda>s.
    with_cancel w c s (
      andThen (print_err (''Open this short-lived URL to sign in:'' @ [CHR 0x0A, CHR 0x0A] @ st_VerificationURL s @ [CHR 0x0A, CHR 0x0A] @
        ''Target profile: '' @ profileName @ [CHR 0x0A] @ ''Expires: '' @ w_stamp w ''Mon, 02 Jan 2006 15:04:05 MST'' (st_ExpiresAt s) @
        [CHR 0x0A] @ ''Waiting for approval; press Ctrl+C to cancel.'' @ [CHR 0x0A])) (\<lambda>_.
      andThen (case (if via = ''google-browser'' then w_browser w (st_VerificationURL s) else None) of
          None \<Rightarrow> done_with ()
        | Some e \<Rightarrow> print_err (''Warning: '' @ e @ ''; open the URL manually.'' @ [CHR 0x0A])) (\<lambda>_.
      poll w c s (w_patience w) (if seconds64 (st_Interval s) < 10 ^ 9 then 3 * 10 ^ 9 else seconds64 (st_Interval s))))))"

definition password_login :: "'n world \<Rightarrow> Client \<Rightarrow> string \<Rightarrow> string \<Rightarrow> string \<Rightarrow> ('n, loginResponse) cmd" where
  "password_login w c email password tokenName =
    andThen (if email = '''' then prompt ''Email: '' else done_with email) (\<lambda>email.
    andThen (if password = '''' then promptPassword w ''Password: '' else done_with password) (\<lambda>password.
    call_json w c ''POST'' ''/api/v1/auth/login''
      (Some (string_map [(''email'', email), (''password'', password), (''token_name'', tokenName)])) (Some decode_login) no_login))"

definition revoke_token :: "'n world \<Rightarrow> Client \<Rightarrow> ('n, unit) cmd" where
  "revoke_token w c = call_json w c ''DELETE'' ''/api/v1/token'' None None ()"

text \<open>Writing the profile; when that fails the new token is revoked.\<close>

definition save_profile :: "'n world \<Rightarrow> Client \<Rightarrow> string \<Rightarrow> Profile \<Rightarrow> bool \<Rightarrow> ('n, unit) cmd" where
  "save_profile w c name p force =
    andThen (attempt (disk (Write (w_quote w) (w_home w) name p force))) (\<lambda>r.
    case r of
      Inr _ \<Rightarrow> done_with ()
    | Inl e \<Rightarrow> andThen (attempt (revoke_token w (c\<lparr>ct_Token := pf_Token p\<rparr>))) (\<lambda>r2.
        case r2 of
          Inl x \<Rightarrow> give_up (Wrapped '''' e (''; additionally failed to revoke the new token: '' @ cli_text x))
        | Inr _ \<Rightarrow> give_up e))"

definition old_token_warning :: "string \<Rightarrow> ('n, unit) cmd" where
  "old_token_warning s = print_err (''Warning: the replaced profile'' @ [CHR 0x27] @ ''s previous token could not be revoked: '' @ s @ [CHR 0x0A])"

text \<open>The token of the profile that was replaced is revoked on its own server.\<close>

definition revoke_replaced :: "'n world \<Rightarrow> globalOptions \<Rightarrow> Profile option \<Rightarrow> string \<Rightarrow> ('n, unit) cmd" where
  "revoke_replaced w options old token =
    (case old of
      None \<Rightarrow> done_with ()
    | Some p \<Rightarrow>
        if pf_Token p = '''' \<or> pf_Token p = token then done_with ()
        else case normalizeBaseURL (w_quote w) (pf_BaseURL p) (op_AllowHTTP options) of
          Inl e \<Rightarrow> old_token_warning (error_text e)
        | Inr base \<Rightarrow> andThen (attempt (revoke_token w (NewClient w base (pf_Token p) (5 * 10 ^ 9)))) (\<lambda>r.
            case r of Inl e \<Rightarrow> old_token_warning (cli_text e) | Inr _ \<Rightarrow> done_with ()))"

definition login_flags :: "(string \<times> flag_kind) list" where
  "login_flags = [(''method'', StringFlag), (''email'', StringFlag), (''password'', StringFlag), (''token-name'', StringFlag),
    (''no-switch'', BoolFlag), (''force'', BoolFlag)]"

definition login_result :: "globalOptions \<Rightarrow> string \<Rightarrow> string \<Rightarrow> loginResponse \<Rightarrow> json" where
  "login_result options name base r = JObj ([(''base_url'', JStr base), (''profile'', JStr name)] @
    (if op_ShowToken options then [(''token'', JStr (lr_Token r))] else []) @
    [(''token_name'', JStr (lr_TokenName r)), (''user'', json_user (lr_User r))])"

definition cmdLogin :: "'n world \<Rightarrow> string list \<Rightarrow> globalOptions \<Rightarrow> ('n, unit) cmd" where
  "cmdLogin w args options0 =
    andThen (commandFlags w login_flags args options0) (\<lambda>(fs, pos, options).
    let via = string_flag ''method'' fs ''password''; force = bool_flag ''force'' fs False in
    andThen (fail_when (pos \<noteq> []) (Usage ''login accepts no positional arguments'')) (\<lambda>_.
    andThen (fail_when (via \<notin> set [''password'', ''google-link'', ''google-browser''])
      (Usage ''--method must be password, google-link, or google-browser'')) (\<lambda>_.
    andThen (disk (loginURL w options)) (\<lambda>base.
    let name = (if op_profileSet options then op_Profile options else deriveProfileName base) in
    andThen (disk (validateProfileName (w_quote w) name)) (\<lambda>_.
    andThen (disk (EnsureWritable (w_home w))) (\<lambda>_.
    andThen (disk (Read (w_quote w) (w_home w) name)) (\<lambda>old.
    andThen (fail_when (old \<noteq> None \<and> \<not> force) (Plain (''profile '' @ w_quote w name @ '' already exists; use --force to replace it''))) (\<lambda>_.
    andThen (asks (\<lambda>m. w_now w (mc_net m))) (\<lambda>now.
    let tokenName = (if string_flag ''token-name'' fs '''' = '''' then defaultTokenName w now else string_flag ''token-name'' fs '''');
        c = NewClient w base '''' (op_Timeout options) in
    andThen (if via = ''password'' then password_login w c (string_flag ''email'' fs '''') (string_flag ''password'' fs '''') tokenName
      else googleLogin w c via tokenName name) (\<lambda>r.
    andThen (asks (\<lambda>m. w_now w (mc_net m))) (\<lambda>saved.
    let p = \<lparr>pf_BaseURL = base, pf_Token = lr_Token r, pf_Email = us_Email (lr_User r), pf_UserID = us_ID (lr_User r),
      pf_Role = us_Role (lr_User r), pf_TokenName = lr_TokenName r, pf_SavedAt = saved\<rparr> in
    andThen (save_profile w c name p force) (\<lambda>_.
    andThen (if bool_flag ''no-switch'' fs False then done_with () else disk (SetCurrent (w_quote w) (w_home w) name)) (\<lambda>_.
    andThen (revoke_replaced w options old (lr_Token r)) (\<lambda>_.
    print_out (if op_JSON options then PrintJSON (login_result options name base r)
      else Print (''Logged in as '' @ us_Email (lr_User r) @ '' ('' @ us_Role (lr_User r) @ ''); saved profile '' @ w_quote w name @ ''.'' @ [CHR 0x0A]))))))))))))))))"

end
