(* ===== verification/CliSession.thy ===== *)
theory CliSession
  imports CliLogin
begin

text \<open>
Commands on profiles and tokens (src/cli/run.go): logout, whoami, profiles, use and tokens.
\<close>

section \<open>Profiles and tokens\<close>

text \<open>Lookup in a decoded map: the last of equal keys.\<close>

definition json_get :: "(string \<times> json) list \<Rightarrow> string \<Rightarrow> json option" where
  "json_get kvs k = map_of (rev kvs) k"

definition no_arguments :: "string \<Rightarrow> string list \<Rightarrow> ('n, unit) cmd" where
  "no_arguments name pos = fail_when (pos \<noteq> []) (Usage (name @ '' accepts no positional arguments''))"

definition revoke_profile :: "'n world \<Rightarrow> globalOptions \<Rightarrow> Profile \<Rightarrow> ('n, unit) cmd" where
  "revoke_profile w options p =
    andThen (disk (of_result (normalizeBaseURL (w_quote w) (pf_BaseURL p) (op_AllowHTTP options)))) (\<lambda>base.
    andThen (attempt (revoke_token w (NewClient w base (pf_Token p) (op_Timeout options)))) (\<lambda>r.
    case r of
      Inl e \<Rightarrow> give_up (Wrapped ''server token was not revoked; profile kept (use --local-only to override): '' e '''')
    | Inr _ \<Rightarrow> done_with ()))"

definition remove_profile :: "'n world \<Rightarrow> globalOptions \<Rightarrow> bool \<Rightarrow> string \<Rightarrow> ('n, unit) cmd" where
  "remove_profile w options localOnly name =
    andThen (disk (Remove (w_quote w) (w_home w) name)) (\<lambda>_.
    print_out (if op_JSON options
      then PrintJSON (JObj [(''profile'', JStr name), (''removed'', JBool True), (''server_revoked'', JBool (\<not> localOnly))])
      else Print (''Logged out profile '' @ w_quote w name @ ''.'' @ [CHR 0x0A])))"

definition cmdLogout :: "'n world \<Rightarrow> string list \<Rightarrow> globalOptions \<Rightarrow> ('n, unit) cmd" where
  "cmdLogout w args options0 =
    andThen (commandFlags w [(''local-only'', BoolFlag)] args options0) (\<lambda>(fs, pos, options).
    let localOnly = bool_flag ''local-only'' fs False in
    andThen (no_arguments ''logout'' pos) (\<lambda>_.
    andThen (if op_profileSet options then done_with (op_Profile options) else disk (Current (w_quote w) (w_home w))) (\<lambda>name.
    andThen (fail_when (name = '''') (Plain ''no active profile'')) (\<lambda>_.
    andThen (disk (Read (w_quote w) (w_home w) name)) (\<lambda>found.
    case found of
      None \<Rightarrow> give_up (Os (no_profile (w_quote w) name))
    | Some p \<Rightarrow> andThen (if localOnly then done_with () else revoke_profile w options p) (\<lambda>_.
        remove_profile w options localOnly name))))))"

definition authenticatedClient :: "'n world \<Rightarrow> globalOptions \<Rightarrow> ('n, Client \<times> remoteConfig) cmd" where
  "authenticatedClient w options =
    andThen (disk (resolveRemote (w_quote w) (w_env w) (w_home w) options True)) (\<lambda>config.
    done_with (NewClient w (rc_BaseURL config) (rc_Token config) (op_Timeout options), config))"

definition emptyDash :: "string \<Rightarrow> string" where
  "emptyDash v = (if v = '''' then ''-'' else v)"

record whoami =
  wh_User :: cliUser
  wh_Token :: "(string \<times> json) list"
  wh_Server :: "(string \<times> json) list"

definition set_map :: "json \<Rightarrow> (string \<times> json) list \<Rightarrow> (string \<times> json) list option" where
  "set_map v x = (case v of JObj kvs \<Rightarrow> Some (x @ kvs) | JNull \<Rightarrow> Some [] | _ \<Rightarrow> None)"

definition decode_whoami :: "json \<Rightarrow> whoami option" where
  "decode_whoami v = (case members False [] v of
      None \<Rightarrow> None
    | Some kvs \<Rightarrow> (case (fill set_user ''user'' kvs no_user, fill set_map ''token'' kvs [], fill set_map ''server'' kvs []) of
        (Some u, Some t, Some s) \<Rightarrow> Some \<lparr>wh_User = u, wh_Token = t, wh_Server = s\<rparr> | _ \<Rightarrow> None))"

definition no_whoami :: whoami where "no_whoami = \<lparr>wh_User = no_user, wh_Token = [], wh_Server = []\<rparr>"

definition cmdWhoami :: "'n world \<Rightarrow> string list \<Rightarrow> globalOptions \<Rightarrow> ('n, unit) cmd" where
  "cmdWhoami w args options0 =
    andThen (commandFlags w [] args options0) (\<lambda>(fs, pos, options).
    andThen (no_arguments ''whoami'' pos) (\<lambda>_.
    andThen (authenticatedClient w options) (\<lambda>(c, config).
    andThen (call_json w c ''GET'' ''/api/v1/me'' None (Some decode_whoami) no_whoami) (\<lambda>r.
    print_out (if op_JSON options
      then PrintJSON (JObj [(''base_url'', JStr (rc_BaseURL config)), (''profile'', JStr (rc_Profile config)), (''server'', JObj (wh_Server r)),
        (''token'', JObj (wh_Token r)), (''user'', json_user (wh_User r))])
      else Print (''Profile: '' @ emptyDash (rc_Profile config) @ [CHR 0x0A] @ ''Server:  '' @ rc_BaseURL config @ [CHR 0x0A] @
        ''User:    '' @ us_Name (wh_User r) @ '' <'' @ us_Email (wh_User r) @ ''>'' @ [CHR 0x0A] @ ''Role:    '' @ us_Role (wh_User r) @ [CHR 0x0A]))))))"

text \<open>The profiles one after the other; a file that is gone by then is a nil pointer.\<close>

definition nil_profile :: cli_err where "nil_profile = Plain ''runtime error: invalid memory address or nil pointer dereference''"

fun read_profiles :: "'n world \<Rightarrow> string list \<Rightarrow> ('n, (string \<times> Profile) list) cmd" where
  "read_profiles w [] = done_with []"
| "read_profiles w (n # ns) =
    andThen (disk (Read (w_quote w) (w_home w) n)) (\<lambda>p.
    case p of None \<Rightarrow> give_up nil_profile
    | Some x \<Rightarrow> andThen (read_profiles w ns) (\<lambda>ps. done_with ((n, x) # ps)))"

definition profile_item :: "globalOptions \<Rightarrow> string \<Rightarrow> string \<times> Profile \<Rightarrow> json" where
  "profile_item options current x = (case x of (n, p) \<Rightarrow>
    JObj ([(''active'', JBool (n = current)), (''base_url'', JStr (pf_BaseURL p)), (''email'', JStr (pf_Email p)), (''name'', JStr n),
      (''role'', JStr (pf_Role p)), (''saved_at'', JTime (pf_SavedAt p))] @
      (if op_ShowToken options then [(''token'', JStr (pf_Token p))] else []) @ [(''token_name'', JStr (pf_TokenName p))]))"

definition list_profiles :: "'n world \<Rightarrow> globalOptions \<Rightarrow> ('n, unit) cmd" where
  "list_profiles w options =
    andThen (disk (ListProfiles (w_home w))) (\<lambda>names.
    andThen (disk (current_or_none (w_quote w) (w_home w))) (\<lambda>current.
    andThen (read_profiles w names) (\<lambda>ps.
    print_out (if op_JSON options then PrintJSON (JObj [(''profiles'', JArr (map (profile_item options current) ps))])
      else PrintTable ([''ACTIVE'', ''NAME'', ''EMAIL'', ''ROLE'', ''SERVER''] #
        map (\<lambda>(n, p). [if n = current then ''*'' else '''', n, pf_Email p, pf_Role p, pf_BaseURL p]) ps)))))"

definition profile_updated :: "globalOptions \<Rightarrow> ('n, unit) cmd" where
  "profile_updated options = print_out (if op_JSON options then PrintJSON (JObj [(''updated'', JBool True)])
    else Print (''Profile updated.'' @ [CHR 0x0A]))"

definition cmdProfiles :: "'n world \<Rightarrow> string list \<Rightarrow> globalOptions \<Rightarrow> ('n, unit) cmd" where
  "cmdProfiles w args options0 =
    andThen (commandFlags w [] args options0) (\<lambda>(fs, pos, options).
    let sub = (case pos of [] \<Rightarrow> ''list'' | s # _ \<Rightarrow> s); rest = tl pos in
    if sub = ''list'' then
      andThen (fail_when (rest \<noteq> []) (Usage ''profiles list accepts no arguments'')) (\<lambda>_. list_profiles w options)
    else if sub \<in> set [''remove'', ''rm''] then
      (case rest of [n] \<Rightarrow> andThen (disk (Remove (w_quote w) (w_home w) n)) (\<lambda>_. profile_updated options)
       | _ \<Rightarrow> give_up (Usage ''profiles remove requires NAME''))
    else if sub = ''rename'' then
      (case rest of [a, b] \<Rightarrow> andThen (disk (Rename (w_quote w) (w_home w) a b)) (\<lambda>_. profile_updated options)
       | _ \<Rightarrow> give_up (Usage ''profiles rename requires OLD NEW''))
    else give_up (Usage ''profiles subcommand must be list, remove, or rename''))"

definition cmdUse :: "'n world \<Rightarrow> string list \<Rightarrow> globalOptions \<Rightarrow> ('n, unit) cmd" where
  "cmdUse w args options0 =
    andThen (commandFlags w [] args options0) (\<lambda>(fs, pos, options).
    case pos of
      [n] \<Rightarrow> andThen (disk (SetCurrent (w_quote w) (w_home w) n)) (\<lambda>_.
        print_out (if op_JSON options then PrintJSON (JObj [(''active_profile'', JStr n)]) else Print (''Active profile: '' @ n @ [CHR 0x0A])))
    | _ \<Rightarrow> give_up (Usage ''use requires PROFILE''))"

record token_cells =
  tk_Name :: string
  tk_CreatedAt :: gotime
  tk_LastUsedAt :: "gotime option"
  tk_ExpiresAt :: "gotime option"

definition set_time_ptr :: "json \<Rightarrow> gotime option \<Rightarrow> gotime option option" where
  "set_time_ptr v x = (case v of JNull \<Rightarrow> Some None | JStr s \<Rightarrow> map_option Some (unmarshal_time s) | _ \<Rightarrow> None)"

definition no_time :: gotime where "no_time = seconds (- 62135596800)"

definition new_token :: token_cells where
  "new_token = \<lparr>tk_Name = '''', tk_CreatedAt = no_time, tk_LastUsedAt = None, tk_ExpiresAt = None\<rparr>"

definition set_token :: "json \<Rightarrow> token_cells \<Rightarrow> token_cells option" where
  "set_token v t = (case members False [] v of
      None \<Rightarrow> None
    | Some kvs \<Rightarrow> (case (fill set_string ''name'' kvs (tk_Name t), fill set_time ''created_at'' kvs (tk_CreatedAt t),
          fill set_time_ptr ''last_used_at'' kvs (tk_LastUsedAt t), fill set_time_ptr ''expires_at'' kvs (tk_ExpiresAt t)) of
        (Some n, Some c, Some l, Some x) \<Rightarrow> Some \<lparr>tk_Name = n, tk_CreatedAt = c, tk_LastUsedAt = l, tk_ExpiresAt = x\<rparr> | _ \<Rightarrow> None))"

text \<open>A slice of values; the elements of a second array fill those of the first.\<close>

fun set_elements :: "(json \<Rightarrow> 'a \<Rightarrow> 'a option) \<Rightarrow> 'a \<Rightarrow> json list \<Rightarrow> 'a list \<Rightarrow> 'a list option" where
  "set_elements put zero [] old = Some []"
| "set_elements put zero (v # vs) old =
    (case (put v (case old of [] \<Rightarrow> zero | x # _ \<Rightarrow> x), set_elements put zero vs (tl old)) of
      (Some y, Some ys) \<Rightarrow> Some (y # ys) | _ \<Rightarrow> None)"

definition set_slice :: "(json \<Rightarrow> 'a \<Rightarrow> 'a option) \<Rightarrow> 'a \<Rightarrow> json \<Rightarrow> 'a list \<Rightarrow> 'a list option" where
  "set_slice put zero v old = (case v of JNull \<Rightarrow> Some [] | JArr vs \<Rightarrow> set_elements put zero vs old | _ \<Rightarrow> None)"

definition decode_tokens :: "json \<Rightarrow> token_cells list option" where
  "decode_tokens v = (case members False [] v of None \<Rightarrow> None | Some kvs \<Rightarrow> fill (set_slice set_token new_token) ''tokens'' kvs [])"

definition formatTime :: "'n world \<Rightarrow> gotime option \<Rightarrow> string" where
  "formatTime w t = (case t of None \<Rightarrow> ''-'' | Some x \<Rightarrow> if x = no_time then ''-'' else w_stamp w ''2006-01-02 15:04'' x)"

definition json_time_ptr :: "gotime option \<Rightarrow> json" where
  "json_time_ptr t = (case t of None \<Rightarrow> JNull | Some x \<Rightarrow> JTime x)"

definition json_token_row :: "token_cells \<Rightarrow> json" where
  "json_token_row t = JObj [(''name'', JStr (tk_Name t)), (''created_at'', JTime (tk_CreatedAt t)),
    (''last_used_at'', json_time_ptr (tk_LastUsedAt t)), (''expires_at'', json_time_ptr (tk_ExpiresAt t))]"

text \<open>\<open>outputResult\<close>: the answer as it came, or a line of text.\<close>

definition outputResult :: "globalOptions \<Rightarrow> (string \<times> json) list \<Rightarrow> string \<Rightarrow> ('n, unit) cmd" where
  "outputResult options result human = print_out (if op_JSON options then PrintJSON (JObj result)
    else Print (trim_suffix human [CHR 0x0A] @ [CHR 0x0A]))"

definition call_map :: "'n world \<Rightarrow> Client \<Rightarrow> string \<Rightarrow> string \<Rightarrow> json option \<Rightarrow> ('n, (string \<times> json) list) cmd" where
  "call_map w c verb path input = call_json w c verb path input (Some to_map) []"

definition cmdTokens :: "'n world \<Rightarrow> string list \<Rightarrow> globalOptions \<Rightarrow> ('n, unit) cmd" where
  "cmdTokens w args options0 =
    andThen (commandFlags w [] args options0) (\<lambda>(fs, pos, options).
    let sub = (case pos of [] \<Rightarrow> ''list'' | s # _ \<Rightarrow> s); rest = tl pos in
    andThen (authenticatedClient w options) (\<lambda>(c, _).
    if sub = ''revoke'' then
      (case rest of [n] \<Rightarrow> andThen (call_map w c ''DELETE'' (''/api/v1/tokens/'' @ path_escape n) None) (\<lambda>r.
          outputResult options r ''Token revoked.'')
       | _ \<Rightarrow> give_up (Usage ''tokens revoke requires NAME''))
    else if sub \<noteq> ''list'' \<or> rest \<noteq> [] then give_up (Usage ''tokens subcommand must be list or revoke NAME'')
    else andThen (call_json w c ''GET'' ''/api/v1/tokens'' None (Some decode_tokens) []) (\<lambda>ts.
      print_out (if op_JSON options then PrintJSON (JObj [(''tokens'', JArr (map json_token_row ts))])
        else PrintTable ([''NAME'', ''CREATED'', ''LAST USED'', ''EXPIRES''] #
          map (\<lambda>t. [tk_Name t, formatTime w (Some (tk_CreatedAt t)), formatTime w (tk_LastUsedAt t), formatTime w (tk_ExpiresAt t)]) ts)))))"

end
