(* ===== verification/CliBooks.thy ===== *)
theory CliBooks
  imports CliSession
begin

text \<open>
Listing, showing and downloading books from the command line (src/cli/run.go).
\<close>

section \<open>Books\<close>

record cliBook =
  cb_ID :: string
  cb_Title :: string
  cb_Author :: string
  cb_Description :: string
  cb_Series :: string
  cb_SeriesIndex :: f64
  cb_Publisher :: string
  cb_ISBN :: string
  cb_PublishDate :: "gotime option"
  cb_Format :: string
  cb_FileSize :: int
  cb_ModifiedAt :: gotime
  cb_HasCover :: bool

definition no_book :: cliBook where
  "no_book = \<lparr>cb_ID = '''', cb_Title = '''', cb_Author = '''', cb_Description = '''', cb_Series = '''', cb_SeriesIndex = 0,
    cb_Publisher = '''', cb_ISBN = '''', cb_PublishDate = None, cb_Format = '''', cb_FileSize = 0, cb_ModifiedAt = no_time, cb_HasCover = False\<rparr>"

definition set_float64 :: "(string \<Rightarrow> f64 option) \<Rightarrow> json \<Rightarrow> f64 \<Rightarrow> f64 option" where
  "set_float64 parse v x = (case v of JNum l \<Rightarrow> parse l | JNull \<Rightarrow> Some x | _ \<Rightarrow> None)"

definition set_book :: "(string \<Rightarrow> f64 option) \<Rightarrow> json \<Rightarrow> cliBook \<Rightarrow> cliBook option" where
  "set_book parse v b = (case members False [] v of
      None \<Rightarrow> None
    | Some kvs \<Rightarrow> (case (fill set_string ''id'' kvs (cb_ID b), fill set_string ''title'' kvs (cb_Title b), fill set_string ''author'' kvs (cb_Author b),
          fill set_string ''description'' kvs (cb_Description b), fill set_string ''series'' kvs (cb_Series b),
          fill (set_float64 parse) ''series_index'' kvs (cb_SeriesIndex b), fill set_string ''publisher'' kvs (cb_Publisher b),
          fill set_string ''isbn'' kvs (cb_ISBN b), fill set_time_ptr ''publish_date'' kvs (cb_PublishDate b),
          fill set_string ''format'' kvs (cb_Format b), fill set_int ''file_size'' kvs (cb_FileSize b),
          fill set_time ''modified_at'' kvs (cb_ModifiedAt b), fill set_bool ''has_cover'' kvs (cb_HasCover b)) of
        (Some i, Some t, Some a, Some d, Some s, Some x, Some p, Some n, Some w, Some f, Some z, Some m, Some h) \<Rightarrow>
          Some \<lparr>cb_ID = i, cb_Title = t, cb_Author = a, cb_Description = d, cb_Series = s, cb_SeriesIndex = x, cb_Publisher = p,
            cb_ISBN = n, cb_PublishDate = w, cb_Format = f, cb_FileSize = z, cb_ModifiedAt = m, cb_HasCover = h\<rparr>
      | _ \<Rightarrow> None))"

definition json_cli_book :: "cliBook \<Rightarrow> json" where
  "json_cli_book b = JObj [(''id'', JStr (cb_ID b)), (''title'', JStr (cb_Title b)), (''author'', JStr (cb_Author b)),
    (''description'', JStr (cb_Description b)), (''series'', JStr (cb_Series b)), (''series_index'', JFloat (cb_SeriesIndex b)),
    (''publisher'', JStr (cb_Publisher b)), (''isbn'', JStr (cb_ISBN b)), (''publish_date'', json_time_ptr (cb_PublishDate b)),
    (''format'', JStr (cb_Format b)), (''file_size'', JInt (cb_FileSize b)), (''modified_at'', JTime (cb_ModifiedAt b)),
    (''has_cover'', JBool (cb_HasCover b))]"

section \<open>Pages of the catalogue\<close>

definition maxBookPage :: int where "maxBookPage = 200"

record book_page =
  pg_Items :: "cliBook list"
  pg_Limit :: int
  pg_Offset :: int
  pg_Total :: int

definition no_page :: book_page where "no_page = \<lparr>pg_Items = [], pg_Limit = 0, pg_Offset = 0, pg_Total = 0\<rparr>"

definition decode_page :: "(string \<Rightarrow> f64 option) \<Rightarrow> json \<Rightarrow> book_page option" where
  "decode_page parse v = (case members False [] v of
      None \<Rightarrow> None
    | Some kvs \<Rightarrow> (case (fill (set_slice (set_book parse) no_book) ''items'' kvs [], int_field ''limit'' kvs, int_field ''offset'' kvs,
          int_field ''total'' kvs) of
        (Some bs, Some l, Some f, Some t) \<Rightarrow> Some \<lparr>pg_Items = bs, pg_Limit = l, pg_Offset = f, pg_Total = t\<rparr> | _ \<Rightarrow> None))"

record book_query =
  bq_sort :: string
  bq_query :: string
  bq_author :: string
  bq_series :: string
  bq_format :: string

text \<open>\<open>url.Values.Encode\<close>: the keys in order.\<close>

definition page_path :: "book_query \<Rightarrow> int \<Rightarrow> int \<Rightarrow> string" where
  "page_path bq limit offset = ''/api/v1/books?'' @ join ''&'' (map (\<lambda>(k, v). k @ ''='' @ query_escape v)
    ((if bq_author bq = '''' then [] else [(''author'', bq_author bq)]) @ (if bq_format bq = '''' then [] else [(''format'', bq_format bq)]) @
     [(''limit'', show_int limit), (''offset'', show_int offset)] @
     (if bq_query bq = '''' then [] else [(''q'', bq_query bq)]) @ (if bq_series bq = '''' then [] else [(''series'', bq_series bq)]) @
     [(''sort'', bq_sort bq)]))"

definition fetchBookPage :: "'n world \<Rightarrow> Client \<Rightarrow> book_query \<Rightarrow> int \<Rightarrow> int \<Rightarrow> ('n, book_page) cmd" where
  "fetchBookPage w c bq limit offset = call_json w c ''GET'' (page_path bq limit offset) None (Some (decode_page (w_float w))) no_page"

text \<open>The pages after a page, up to the total the server last reported; the sums are in 64 bits.\<close>

definition next_page :: "book_page \<Rightarrow> int" where
  "next_page p = sint (word_of_int (pg_Offset p + int (length (pg_Items p))) :: 64 word)"

fun more_pages :: "'n world \<Rightarrow> Client \<Rightarrow> book_query \<Rightarrow> nat \<Rightarrow> book_page \<Rightarrow> cliBook list \<Rightarrow> ('n, cliBook list \<times> int) cmd" where
  "more_pages w c bq k p acc =
    (if pg_Items p = [] \<or> pg_Total p \<le> next_page p then done_with (acc, pg_Total p)
     else case k of 0 \<Rightarrow> give_up (Plain ''context canceled'')
     | Suc j \<Rightarrow> andThen (fetchBookPage w c bq maxBookPage (next_page p)) (\<lambda>q. more_pages w c bq j q (acc @ pg_Items q)))"

declare more_pages.simps [simp del]

definition outputBooks :: "'n world \<Rightarrow> globalOptions \<Rightarrow> cliBook list \<Rightarrow> int \<Rightarrow> int \<Rightarrow> int \<Rightarrow> ('n, unit) cmd" where
  "outputBooks w options bs matching limit offset =
    (if op_JSON options then print_out (PrintJSON (JObj [(''items'', JArr (map json_cli_book bs)), (''limit'', JInt limit),
        (''offset'', JInt offset), (''total'', JInt matching)]))
     else andThen (print_out (PrintTable ([''ID'', ''TITLE'', ''AUTHOR'', ''SERIES'', ''FORMAT'', ''SIZE'', ''MODIFIED''] #
         map (\<lambda>b. [cb_ID b, cb_Title b, cb_Author b, cb_Series b, cb_Format b, show_int (cb_FileSize b),
           w_stamp w ''2006-01-02'' (cb_ModifiedAt b)]) bs))) (\<lambda>_.
       print_out (Print (show_int matching @ '' matching book(s).'' @ [CHR 0x0A]))))"

definition list_books :: "'n world \<Rightarrow> Client \<Rightarrow> globalOptions \<Rightarrow> book_query \<Rightarrow> bool \<Rightarrow> int \<Rightarrow> int \<Rightarrow> ('n, unit) cmd" where
  "list_books w c options bq limitSet limit offset =
    andThen (fetchBookPage w c bq (if limitSet then limit else maxBookPage) offset) (\<lambda>p.
    if limitSet then outputBooks w options (pg_Items p) (pg_Total p) (pg_Limit p) (pg_Offset p)
    else andThen (more_pages w c bq (w_patience w) p (pg_Items p)) (\<lambda>(bs, matching).
      outputBooks w options bs matching (int (length bs)) offset))"

section \<open>Downloads\<close>

definition unsafe_rune :: "nat \<Rightarrow> bool" where
  "unsafe_rune r \<longleftrightarrow> r < 32 \<or> r \<in> {0x3C, 0x3E, 0x3A, 0x22, 0x2F, 0x5C, 0x7C, 0x3F, 0x2A}"

definition sanitizeDownloadName :: "string \<Rightarrow> string" where
  "sanitizeDownloadName raw =
    (let v = path_base (trim_space raw); v = concat (map (\<lambda>r. if unsafe_rune r then ''_'' else encode_rune r) (runes v));
         v = trim_chars v ''. '' in
     if v = '''' then ''book-download'' else v)"

definition path_clean :: "string \<Rightarrow> string" where
  "path_clean p = (if p = '''' then ''.'' else path_show (path_elems p))"

text \<open>Where the download goes; \<open>force\<close> lets it replace a file.\<close>

definition pick_target :: "'n world \<Rightarrow> string \<Rightarrow> string \<Rightarrow> string cli_io" where
  "pick_target w target suggested =
    (if target = '''' then ret suggested
     else bnd (handle (bnd tick (\<lambda>_. ret (w_is_dir w target))) (\<lambda>_. ret False)) (\<lambda>dir.
       ret (if dir then path_join [target, suggested] else target)))"

definition download_target :: "'n world \<Rightarrow> string \<Rightarrow> string \<Rightarrow> bool \<Rightarrow> string cli_io" where
  "download_target w target suggested force =
    bnd (pick_target w target suggested) (\<lambda>t0.
    let t = path_clean t0 in
    bnd (os_exists t) (\<lambda>found.
    bnd (fail_if (found \<and> \<not> w_is_dir w t \<and> \<not> force) (ErrText (''output '' @ t @ '' already exists; use --force to replace it''))) (\<lambda>_.
    ret t)))"

definition stream_to :: "string \<Rightarrow> string \<Rightarrow> string option \<Rightarrow> unit cli_io" where
  "stream_to name data e = bnd (os_change name (\<lambda>(m, _). (m, data))) (\<lambda>_.
    case e of None \<Rightarrow> ret () | Some s \<Rightarrow> throw (ErrText s))"

definition save_book :: "'n world \<Rightarrow> string \<Rightarrow> string \<Rightarrow> string option \<Rightarrow> unit cli_io" where
  "save_book w target data e =
    bnd (cli_temp 10000 (path_dir target) (''.'' @ path_base target @ ''.part-'')) (\<lambda>name.
    remove_on_error name
      (bnd (stream_to name data e) (\<lambda>_.
       bnd tick (\<lambda>_.
       bnd tick (\<lambda>_.
       bnd (fail_if (w_is_dir w target) (ErrText ''file exists'')) (\<lambda>_.
       replaceFile name target))))))"

definition downloadBook :: "'n world \<Rightarrow> Client \<Rightarrow> string \<Rightarrow> string \<Rightarrow> bool \<Rightarrow> globalOptions \<Rightarrow> ('n, unit) cmd" where
  "downloadBook w c0 bookID target force options =
    (let c = c0\<lparr>ct_Timeout := 600 * 10 ^ 9\<rparr> in
     andThen (Download w c bookID) (\<lambda>((data, e), suggested).
     andThen (disk (download_target w target (sanitizeDownloadName suggested) force)) (\<lambda>t.
     andThen (disk (save_book w t data e)) (\<lambda>_.
     print_out (if op_JSON options then PrintJSON (JObj [(''book_id'', JStr bookID), (''downloaded'', JBool True), (''output'', JStr t)])
       else Print (''Downloaded '' @ bookID @ '' -> '' @ t @ [CHR 0x0A]))))))"

definition book_details :: "'n world \<Rightarrow> cliBook \<Rightarrow> string" where
  "book_details w b = ''ID: '' @ cb_ID b @ [CHR 0x0A] @ ''Title: '' @ cb_Title b @ [CHR 0x0A] @ ''Author: '' @ cb_Author b @ [CHR 0x0A] @
    ''Series: '' @ cb_Series b @ [CHR 0x0A] @ ''Format: '' @ cb_Format b @ [CHR 0x0A] @ ''Size: '' @ show_int (cb_FileSize b) @ [CHR 0x0A] @
    ''Publisher: '' @ cb_Publisher b @ [CHR 0x0A] @ ''ISBN: '' @ cb_ISBN b @ [CHR 0x0A] @
    ''Modified: '' @ w_stamp w ''2006-01-02T15:04:05Z07:00'' (cb_ModifiedAt b) @ [CHR 0x0A, CHR 0x0A] @ cb_Description b @ [CHR 0x0A]"

definition show_book :: "'n world \<Rightarrow> Client \<Rightarrow> globalOptions \<Rightarrow> string \<Rightarrow> ('n, unit) cmd" where
  "show_book w c options bookID =
    andThen (call_json w c ''GET'' (''/api/v1/books/'' @ path_escape bookID) None
      (Some (\<lambda>v. case members False [] v of None \<Rightarrow> None | Some kvs \<Rightarrow> fill (set_book (w_float w)) ''book'' kvs no_book)) no_book) (\<lambda>b.
    print_out (if op_JSON options then PrintJSON (JObj [(''book'', json_cli_book b)]) else Print (book_details w b)))"

definition book_flags :: "(string \<times> flag_kind) list" where
  "book_flags = [(''sort'', StringFlag), (''author'', StringFlag), (''series'', StringFlag), (''format'', StringFlag), (''limit'', IntFlag),
    (''offset'', IntFlag), (''output'', StringFlag), (''force'', BoolFlag)]"

definition query_of :: "(string \<times> flag_value) list \<Rightarrow> string \<Rightarrow> book_query" where
  "query_of fs words = \<lparr>bq_sort = string_flag ''sort'' fs ''modified-desc'', bq_query = words, bq_author = string_flag ''author'' fs '''',
    bq_series = string_flag ''series'' fs '''', bq_format = string_flag ''format'' fs ''''\<rparr>"

definition cmdBooks :: "'n world \<Rightarrow> string list \<Rightarrow> globalOptions \<Rightarrow> ('n, unit) cmd" where
  "cmdBooks w args options0 =
    andThen (commandFlags w book_flags args options0) (\<lambda>(fs, pos, options).
    case pos of
      [] \<Rightarrow> give_up (Usage ''books requires list, search, show, or download'')
    | sub # rest \<Rightarrow>
      andThen (authenticatedClient w options) (\<lambda>(c, _).
      if sub = ''list'' \<or> sub = ''search'' then
        andThen (fail_when (sub = ''list'' \<and> rest \<noteq> []) (Usage ''books list accepts no positional arguments'')) (\<lambda>_.
        list_books w c options (query_of fs (if sub = ''search'' then join '' '' rest else '''')) (flag_changed ''limit'' fs)
          (int_flag ''limit'' fs 50) (int_flag ''offset'' fs 0))
      else if sub = ''show'' then
        (case rest of [i] \<Rightarrow> show_book w c options i | _ \<Rightarrow> give_up (Usage ''books show requires BOOK_ID''))
      else if sub = ''download'' then
        (case rest of [i] \<Rightarrow> downloadBook w c i (string_flag ''output'' fs '''') (bool_flag ''force'' fs False) options
         | _ \<Rightarrow> give_up (Usage ''books download requires BOOK_ID''))
      else give_up (Usage ''books subcommand must be list, search, show, or download'')))"

end
