(* ===== verification/CliAdmin.thy ===== *)
theory CliAdmin
  imports CliBooks
begin

text \<open>
Administration from the command line and the program itself (src/cli/run.go): the library, users, settings, exit codes and
the dispatch of commands.
\<close>

section \<open>The library\<close>

definition supportedLocalBook :: "(nat \<Rightarrow> nat) \<Rightarrow> string \<Rightarrow> bool" where
  "supportedLocalBook tbl p \<longleftrightarrow> to_lower tbl (path_ext p) \<in> set [''.epub'', ''.pdf'', ''.mobi'']"

text \<open>\<open>filepath.Walk\<close> is a parameter: the files below a directory and the error that ended the walk.\<close>

definition collectLocalBooks :: "'n world \<Rightarrow> string \<Rightarrow> string list cli_io" where
  "collectLocalBooks w target =
    bnd (query (\<lambda>fs. if w_is_dir w target then Inr (Some (w_walk w target fs))
      else if map_of fs target = None then Inl not_exist else Inr None)) (\<lambda>found.
    case found of
      None \<Rightarrow> bnd (fail_if (\<not> supportedLocalBook (w_low w) target) (ErrText (''unsupported book file: '' @ target))) (\<lambda>_. ret [target])
    | Some (files, e) \<Rightarrow>
        (case e of Some s \<Rightarrow> throw (ErrText s)
         | None \<Rightarrow> ret (sort_key str_key (filter (supportedLocalBook (w_low w)) files))))"

definition upload_item :: "string \<Rightarrow> cli_err + (string \<times> json) list \<Rightarrow> json" where
  "upload_item file r = (case r of Inl e \<Rightarrow> JObj [(''error'', JStr (cli_text e)), (''file'', JStr file)]
    | Inr kvs \<Rightarrow> JObj [(''file'', JStr file), (''result'', JObj kvs)])"

text \<open>The uploads in order: an item for each file and the number that failed.\<close>

fun upload_files :: "'n world \<Rightarrow> Client \<Rightarrow> bool \<Rightarrow> string list \<Rightarrow> ('n, json list \<times> nat) cmd" where
  "upload_files w c quiet [] = done_with ([], 0)"
| "upload_files w c quiet (f # fs) =
    andThen (attempt (Upload w c f)) (\<lambda>r.
    andThen (if quiet then done_with () else case r of
        Inl e \<Rightarrow> print_err (''Failed '' @ f @ '': '' @ cli_text e @ [CHR 0x0A])
      | Inr _ \<Rightarrow> print_out (Print (''Uploaded '' @ f @ [CHR 0x0A]))) (\<lambda>_.
    andThen (upload_files w c quiet fs) (\<lambda>(items, failed).
    done_with (upload_item f r # items, (case r of Inl _ \<Rightarrow> failed + 1 | Inr _ \<Rightarrow> failed)))))"

definition uploadBooks :: "'n world \<Rightarrow> Client \<Rightarrow> string \<Rightarrow> globalOptions \<Rightarrow> ('n, unit) cmd" where
  "uploadBooks w c0 target options =
    andThen (disk (collectLocalBooks w target)) (\<lambda>files.
    andThen (fail_when (files = []) (Plain (''no supported ebook files found in '' @ target))) (\<lambda>_.
    let c = c0\<lparr>ct_Timeout := 600 * 10 ^ 9\<rparr> in
    andThen (upload_files w c (op_JSON options) files) (\<lambda>(items, failed).
    andThen (if op_JSON options
      then print_out (PrintJSON (JObj [(''failed'', JInt (int failed)), (''files'', JArr items), (''uploaded'', JInt (int (length files - failed)))]))
      else done_with ()) (\<lambda>_.
    let e = Plain (show_nat failed @ '' of '' @ show_nat (length files) @ '' uploads failed'') in
    fail_when (failed \<noteq> 0) (if op_JSON options then Reported e else e)))))"

definition library_status :: "'n world \<Rightarrow> (string \<times> json) list \<Rightarrow> string" where
  "library_status w r = ''Indexing: '' @ w_show w (json_get r ''indexing'') @ [CHR 0x0A] @ ''Progress: '' @ w_show w (json_get r ''progress'') @ [CHR 0x0A] @
    ''Books: '' @ w_show w (json_get r ''book_count'') @ [CHR 0x0A] @ ''Last completed: '' @ w_show w (json_get r ''last_completed_at'') @ [CHR 0x0A] @
    ''Last error: '' @ w_show w (json_get r ''last_error'') @ [CHR 0x0A]"

definition confirm_removal :: "'n world \<Rightarrow> string \<Rightarrow> ('n, unit) cmd" where
  "confirm_removal w bookID =
    andThen (fail_when (w_terminal w = None) (Usage ''library remove requires --yes when stdin is not a terminal'')) (\<lambda>_.
    andThen (prompt (''Move book '' @ bookID @ '' to recoverable trash? [y/N] '')) (\<lambda>answer.
    fail_when (\<not> same_fold (w_fold w) answer ''y'' \<and> \<not> same_fold (w_fold w) answer ''yes'') (Plain ''removal cancelled'')))"

definition cmdLibrary :: "'n world \<Rightarrow> string list \<Rightarrow> globalOptions \<Rightarrow> ('n, unit) cmd" where
  "cmdLibrary w args options0 =
    andThen (commandFlags w [(''yes'', BoolFlag)] args options0) (\<lambda>(fs, pos, options).
    case pos of
      [] \<Rightarrow> give_up (Usage ''library requires status, upload, rescan, or remove'')
    | sub # rest \<Rightarrow>
      andThen (authenticatedClient w options) (\<lambda>(c, _).
      if sub = ''status'' then
        andThen (fail_when (rest \<noteq> []) (Usage ''library status accepts no arguments'')) (\<lambda>_.
        andThen (call_map w c ''GET'' ''/api/v1/library/status'' None) (\<lambda>r.
        print_out (if op_JSON options then PrintJSON (JObj r) else Print (library_status w r))))
      else if sub = ''rescan'' then
        andThen (fail_when (rest \<noteq> []) (Usage ''library rescan accepts no arguments'')) (\<lambda>_.
        andThen (call_map w c ''POST'' ''/api/v1/library/rescan'' (Some (JObj []))) (\<lambda>r.
        outputResult options r ''Library rescan started.''))
      else if sub = ''remove'' then
        (case rest of
          [i] \<Rightarrow> andThen (if bool_flag ''yes'' fs False then done_with () else confirm_removal w i) (\<lambda>_.
            andThen (call_map w c ''DELETE'' (''/api/v1/library/books/'' @ path_escape i) None) (\<lambda>r.
            outputResult options r ''Book moved to recoverable trash.''))
        | _ \<Rightarrow> give_up (Usage ''library remove requires BOOK_ID''))
      else if sub = ''upload'' then
        (case rest of [t] \<Rightarrow> uploadBooks w c t options | _ \<Rightarrow> give_up (Usage ''library upload requires FILE_OR_DIRECTORY''))
      else give_up (Usage ''library subcommand must be status, upload, rescan, or remove'')))"

section \<open>Users and settings\<close>

definition user_changes :: "(string \<times> flag_value) list \<Rightarrow> (string \<times> json) list" where
  "user_changes fs = (if bool_flag ''inactive'' fs False then [(''active'', JBool False)]
      else if bool_flag ''active'' fs False then [(''active'', JBool True)] else []) @
    (if string_flag ''role'' fs '''' \<noteq> '''' then [(''role'', JStr (string_flag ''role'' fs ''''))] else [])"

definition user_cells :: "'n world \<Rightarrow> (string \<times> json) list \<Rightarrow> string list" where
  "user_cells w u = map (\<lambda>k. w_show w (json_get u k)) [''id'', ''email'', ''name'', ''role'', ''active'']"

definition users_path :: "string \<Rightarrow> string" where
  "users_path i = ''/api/v1/users/'' @ path_escape i"

definition list_users :: "'n world \<Rightarrow> Client \<Rightarrow> globalOptions \<Rightarrow> ('n, unit) cmd" where
  "list_users w c options =
    andThen (call_json w c ''GET'' ''/api/v1/users'' None
      (Some (\<lambda>v. case members False [] v of None \<Rightarrow> None | Some kvs \<Rightarrow> fill (set_slice set_map []) ''users'' kvs [])) []) (\<lambda>us.
    print_out (if op_JSON options then PrintJSON (JObj [(''users'', JArr (map JObj us))])
      else PrintTable ([''ID'', ''EMAIL'', ''NAME'', ''ROLE'', ''ACTIVE''] # map (user_cells w) us)))"

definition update_user :: "'n world \<Rightarrow> Client \<Rightarrow> globalOptions \<Rightarrow> (string \<times> flag_value) list \<Rightarrow> string \<Rightarrow> ('n, unit) cmd" where
  "update_user w c options fs i =
    andThen (fail_when (bool_flag ''active'' fs False \<and> bool_flag ''inactive'' fs False)
      (Usage ''--active and --inactive cannot be combined'')) (\<lambda>_.
    andThen (fail_when (user_changes fs = []) (Usage ''users update requires --role, --active, or --inactive'')) (\<lambda>_.
    andThen (call_map w c ''PATCH'' (users_path i) (Some (JObj (user_changes fs)))) (\<lambda>r.
    outputResult options r ''User updated.'')))"

definition cmdUsers :: "'n world \<Rightarrow> string list \<Rightarrow> globalOptions \<Rightarrow> ('n, unit) cmd" where
  "cmdUsers w args options0 =
    andThen (commandFlags w [(''role'', StringFlag), (''active'', BoolFlag), (''inactive'', BoolFlag), (''password'', StringFlag)] args options0)
      (\<lambda>(fs, pos, options).
    case pos of
      [] \<Rightarrow> give_up (Usage ''users requires list, show, update, or password'')
    | sub # rest \<Rightarrow>
      andThen (authenticatedClient w options) (\<lambda>(c, _).
      if sub = ''list'' then
        andThen (fail_when (rest \<noteq> []) (Usage ''users list accepts no arguments'')) (\<lambda>_. list_users w c options)
      else if sub = ''show'' then
        (case rest of [i] \<Rightarrow> andThen (call_map w c ''GET'' (users_path i) None) (\<lambda>r.
            outputResult options r (w_show w (json_get r ''user'') @ [CHR 0x0A]))
         | _ \<Rightarrow> give_up (Usage ''users show requires USER_ID''))
      else if sub = ''update'' then
        (case rest of [i] \<Rightarrow> update_user w c options fs i | _ \<Rightarrow> give_up (Usage ''users update requires USER_ID''))
      else if sub = ''password'' then
        (case rest of
          [i] \<Rightarrow> andThen (if string_flag ''password'' fs '''' = '''' then promptPassword w ''New password: ''
              else done_with (string_flag ''password'' fs '''')) (\<lambda>pw.
            andThen (call_map w c ''POST'' (users_path i @ ''/password'') (Some (string_map [(''password'', pw)]))) (\<lambda>r.
            outputResult options r ''Password updated; sessions and API tokens revoked.''))
        | _ \<Rightarrow> give_up (Usage ''users password requires USER_ID''))
      else give_up (Usage ''users subcommand must be list, show, update, or password'')))"

definition settings_changes :: "(string \<times> flag_value) list \<Rightarrow> (string \<times> json) list" where
  "settings_changes fs =
    (if flag_changed ''anonymous-book-links'' fs then [(''anonymous_book_links'', JBool (bool_flag ''anonymous-book-links'' fs False))] else []) @
    (if flag_changed ''pwa-name'' fs then [(''pwa_name'', JStr (string_flag ''pwa-name'' fs ''''))] else []) @
    (if flag_changed ''registration-open'' fs then [(''registration_open'', JBool (bool_flag ''registration-open'' fs False))] else []) @
    (if flag_changed ''site-name'' fs then [(''site_name'', JStr (string_flag ''site-name'' fs ''''))] else [])"

definition settings_lines :: "'n world \<Rightarrow> (string \<times> json) list \<Rightarrow> string" where
  "settings_lines w r =
    (let settings = (case json_get r ''settings'' of Some (JObj kvs) \<Rightarrow> kvs | _ \<Rightarrow> []) in
     concat (map (\<lambda>k. k @ '': '' @ w_show w (json_get settings k) @ [CHR 0x0A])
       [''site_name'', ''pwa_name'', ''registration_open'', ''anonymous_book_links'']))"

definition settings_flags :: "(string \<times> flag_kind) list" where
  "settings_flags = [(''site-name'', StringFlag), (''pwa-name'', StringFlag), (''registration-open'', BoolFlag),
    (''anonymous-book-links'', BoolFlag)]"

definition cmdSettings :: "'n world \<Rightarrow> string list \<Rightarrow> globalOptions \<Rightarrow> ('n, unit) cmd" where
  "cmdSettings w args options0 =
    andThen (commandFlags w settings_flags args options0) (\<lambda>(fs, pos, options).
    case pos of
      [] \<Rightarrow> give_up (Usage ''settings requires show or set'')
    | sub # rest \<Rightarrow>
      andThen (authenticatedClient w options) (\<lambda>(c, _).
      andThen (fail_when (rest \<noteq> []) (Usage ''settings command accepts no positional arguments'')) (\<lambda>_.
      if sub = ''show'' then
        andThen (call_map w c ''GET'' ''/api/v1/settings'' None) (\<lambda>r.
        print_out (if op_JSON options then PrintJSON (JObj r) else Print (settings_lines w r)))
      else if sub \<noteq> ''set'' then give_up (Usage ''settings subcommand must be show or set'')
      else
        andThen (fail_when (settings_changes fs = []) (Usage ''settings set requires at least one setting flag'')) (\<lambda>_.
        andThen (call_map w c ''PATCH'' ''/api/v1/settings'' (Some (JObj (settings_changes fs)))) (\<lambda>r.
        outputResult options r ''Settings updated.'')))))"

section \<open>Running a command\<close>

text \<open>Exit codes.\<close>

definition ExitOK :: nat where "ExitOK = 0"
definition ExitFailure :: nat where "ExitFailure = 1"
definition ExitUsage :: nat where "ExitUsage = 2"
definition ExitAuth :: nat where "ExitAuth = 3"
definition ExitNotFound :: nat where "ExitNotFound = 4"

fun as_usage :: "cli_err \<Rightarrow> bool" where
  "as_usage (Usage m) = True"
| "as_usage (Reported e) = as_usage e"
| "as_usage (Wrapped a e b) = as_usage e"
| "as_usage _ = False"

fun as_reported :: "cli_err \<Rightarrow> bool" where
  "as_reported (Reported e) = True"
| "as_reported (Wrapped a e b) = as_reported e"
| "as_reported _ = False"

definition exitCode :: "cli_err \<Rightarrow> nat" where
  "exitCode e =
    (if as_usage e then ExitUsage
     else case api_status e of
       Some s \<Rightarrow> if s \<in> {401, 403} then ExitAuth else if s \<in> {404, 409} then ExitNotFound else ExitFailure
     | None \<Rightarrow> ExitFailure)"

definition printError :: "cli_err \<Rightarrow> ('n, unit) cmd" where
  "printError e = (\<lambda>m.
    if as_reported e then (Inr (), m)
    else if mc_json m then
      print_out (PrintJSON (JObj [(''error'', JObj (case as_api e of
          Some (s, c, t) \<Rightarrow> [(''code'', JStr c), (''message'', JStr t), (''status'', JInt (int s))]
        | None \<Rightarrow> [(''code'', JStr ''cli_error''), (''message'', JStr (cli_text e))]))])) m
    else print_err (''Error: '' @ cli_text e @ [CHR 0x0A]) m)"

definition usage_text :: string where
  "usage_text = join [CHR 0x0A] [
    ''Usage: bookbrowser-cli [global options] command [args]'',
    '''',
    ''Authentication:'',
    ''  login                         Sign in and save a profile'',
    ''    --method password           Email/password login (default)'',
    ''    --method google-link        Print a short-lived Google URL and wait'',
    ''    --method google-browser     Print the URL, open a browser, and wait'',
    ''  logout                        Revoke the profile token and remove the profile'',
    ''  whoami                        Show current server and user identity'',
    ''  profiles [list|remove|rename] Manage saved profiles'',
    ''  use <profile>                 Select the active profile'',
    ''  tokens [list|revoke]          Manage server API tokens'',
    '''',
    ''Catalog:'',
    ''  books list                    List books'',
    ''  books search [query]          Search books and metadata'',
    ''  books show <id>               Show one book'',
    ''  books download <id>           Download one book'',
    '''',
    ''Administration:'',
    ''  library status|upload|rescan|remove'',
    ''  users list|show|update|password'',
    ''  settings show|set'',
    '''',
    ''Other:'',
    ''  version                       Print CLI version'',
    ''  help                          Show this help'',
    '''',
    ''Global options:'',
    ''  --url URL                     Override BOOKBROWSER_URL'',
    ''  --token TOKEN                 Override BOOKBROWSER_TOKEN'',
    ''  --profile NAME                Use a named profile'',
    ''  --env-file PATH               Load an explicit environment file'',
    ''  --json                        Machine-readable output'',
    ''  --timeout DURATION            HTTP timeout (default 30s)'',
    ''  --allow-http                  Permit non-loopback plain HTTP'']"

definition print_usage :: "('n, unit) cmd" where
  "print_usage = print_out (Print (usage_text @ [CHR 0x0A]))"

text \<open>\<open>execute\<close>: the exit code that is not that of the error, and the error. The flags of the root stop at the command.\<close>

definition run_command :: "'n world \<Rightarrow> string \<Rightarrow> string list \<Rightarrow> globalOptions \<Rightarrow> ('n, unit) cmd" where
  "run_command w command args options =
    (if command \<in> set [''help'', ''-h'', ''--help''] then print_usage
     else if command = ''version'' then print_out (Print (w_version w @ [CHR 0x0A]))
     else if command = ''login'' then cmdLogin w args options
     else if command = ''logout'' then cmdLogout w args options
     else if command = ''whoami'' then cmdWhoami w args options
     else if command \<in> set [''profiles'', ''profile''] then cmdProfiles w args options
     else if command = ''use'' then cmdUse w args options
     else if command \<in> set [''tokens'', ''token''] then cmdTokens w args options
     else if command \<in> set [''books'', ''book''] then cmdBooks w args options
     else if command = ''library'' then cmdLibrary w args options
     else if command \<in> set [''users'', ''user''] then cmdUsers w args options
     else if command \<in> set [''settings'', ''setting''] then cmdSettings w args options
     else give_up (Usage (''unknown command '' @ w_quote w command @ ''; run bookbrowser-cli help'')))"

definition execute :: "'n world \<Rightarrow> string list \<Rightarrow> ('n, unit) cmd" where
  "execute w args =
    (case w_flags w (global_flags @ [(''version'', BoolFlag), (''help'', BoolFlag)]) False args of
      Inl e \<Rightarrow> give_up (Usage e)
    | Inr (fs, remaining) \<Rightarrow>
        let options = captureGlobalChanges fs (bindGlobalFlags fs no_options) in
        if bool_flag ''version'' fs False then print_out (Print (w_version w @ [CHR 0x0A]))
        else if bool_flag ''help'' fs False then print_usage
        else (case remaining of
          [] \<Rightarrow> print_usage
        | command # rest \<Rightarrow> (\<lambda>m. run_command w command rest options (m\<lparr>mc_json := op_JSON options\<rparr>))))"

definition Run :: "'n world \<Rightarrow> string list \<Rightarrow> 'n machine \<Rightarrow> nat \<times> 'n machine" where
  "Run w args m = (case execute w args m of
      (Inr _, m') \<Rightarrow> (ExitOK, m')
    | (Inl e, m') \<Rightarrow> (exitCode e, snd (printError e m')))"

end
