(* ===== verification/CliProfileFacts.thy ===== *)
theory CliProfileFacts
  imports CliProfiles Paths
begin

text \<open>
The files of the command-line client: where they are, that a profile that was written is read back, that a write is atomic
under any fault, and that the pointer to the current profile names a profile that is there.
\<close>

section \<open>The directory of a file\<close>

lemma path_dir_child:
  assumes "clean_home h" "plain_name f"
  shows "path_dir (h @ ''/'' @ f) = h"
proof -
  have i: "last_index_char CHR ''/'' (h @ ''/'' @ f) = Some (length h)"
    using last_index_char_append [of "CHR ''/''" f h] assms(2) by (simp add: plain_name_def)
  obtain t where t: "h = CHR ''/'' # t" "t \<noteq> []" using clean_home_Cons [OF assms(1)] by blast
  have "path_elems (h @ ''/'') = path_elems h"
    using split_char_joined [of "CHR ''/''" h "''''"] t
    by (simp add: path_elems_def clean_elems_append del: split_char.simps) simp
  then show ?thesis using i assms(1) by (simp add: path_dir_def clean_home_def)
qed

section \<open>The files of the store\<close>

lemma profile_name_plain: "profile_name_ok n \<Longrightarrow> plain_name (n @ ''.json'')"
  by (auto simp: profile_name_ok_def plain_name_def list_all_iff profile_name_char_def letter_def decimal_def digit_val_def
    append_eq_Cons_conv)

lemma store_paths:
  assumes "clean_home h"
  shows "profilesDir h = h @ ''/profiles''" "currentPath h = h @ ''/current''" "clean_home (profilesDir h)"
    "profile_name_ok n \<Longrightarrow> profile_file h n = h @ ''/profiles/'' @ n @ ''.json''"
    "profile_name_ok n \<Longrightarrow> path_dir (profile_file h n) = profilesDir h" "path_dir (currentPath h) = h"
proof -
  have p: "plain_name ''profiles''" "plain_name ''current''" by (simp_all add: plain_name_def)
  show a: "profilesDir h = h @ ''/profiles''" "currentPath h = h @ ''/current''"
    using path_join_child(1) [OF assms] p by (simp_all add: profilesDir_def currentPath_def)
  show c: "clean_home (profilesDir h)" using path_join_child(2) [OF assms p(1)] a by simp
  {
    assume n: "profile_name_ok n"
    have "profile_file h n = profilesDir h @ ''/'' @ n @ ''.json''"
      unfolding profile_file_def by (rule path_join_child(1) [OF c profile_name_plain [OF n]])
    then show "profile_file h n = h @ ''/profiles/'' @ n @ ''.json''" "path_dir (profile_file h n) = profilesDir h"
      using path_dir_child [OF c profile_name_plain [OF n]] a by simp_all
  }
  show "path_dir (currentPath h) = h" using path_dir_child [OF assms p(2)] a by simp
qed



section \<open>The text of a profile\<close>

lemma runes_ascii: "ascii s \<Longrightarrow> runes s = map of_char s"
  by (simp add: runes_def segs_ascii comp_def)

lemma valid_utf8_ascii: "ascii s \<Longrightarrow> valid_utf8 s"
proof -
  assume a: "ascii s"
  have "concat (map (\<lambda>c. encode_rune (of_char c)) s) = s"
    using a by (induction s) (auto simp: encode_rune_def)
  then show ?thesis using runes_ascii [OF a] by (simp add: valid_utf8_def comp_def)
qed

lemma ascii_append [simp]: "ascii (a @ b) \<longleftrightarrow> ascii a \<and> ascii b"
  by (simp add: ascii_def)

lemma ascii_sub: "set a \<subseteq> set b \<Longrightarrow> ascii b \<Longrightarrow> ascii a"
  by (auto simp: ascii_def list_all_iff)

lemma ascii_pad [simp]: "ascii (pad w n)"
proof (induction w arbitrary: n)
  case (Suc w)
  have "48 + n mod 10 < 128" by linarith
  then show ?case using Suc by simp
qed simp

lemma ascii_marshal_time: "marshal_time t = Some s \<Longrightarrow> ascii s"
proof -
  have "ascii (frac_text n)" for n
  proof -
    have "set (rev (dropWhile (\<lambda>c. c = CHR ''0'') (rev (pad 9 n)))) \<subseteq> set (pad 9 n)" by (auto dest: set_dropWhileD)
    then have "ascii (rev (dropWhile (\<lambda>c. c = CHR ''0'') (rev (pad 9 n))))" by (rule ascii_sub) simp
    then show ?thesis by (simp add: frac_text_def del: pad.simps)
  qed
  moreover assume "marshal_time t = Some s"
  ultimately show ?thesis by (auto simp: marshal_time_def stamp_text_def Let_def split: if_splits prod.splits)
qed

text \<open>The members one after the other, as the decoder meets them after the opening brace.\<close>

fun member_lines :: "(string \<times> string) list \<Rightarrow> string" where
  "member_lines [] = ''''"
| "member_lines [(k, v)] = [CHR 0x0A] @ ''  '' @ json_string k @ '': '' @ json_string v @ [CHR 0x0A] @ ''}''"
| "member_lines ((k, v) # x # xs) = [CHR 0x0A] @ ''  '' @ json_string k @ '': '' @ json_string v @ '','' @ member_lines (x # xs)"

lemma indented_lines: "kvs \<noteq> [] \<Longrightarrow> indented kvs = CHR ''{'' # member_lines kvs"
proof -
  have "kvs \<noteq> [] \<Longrightarrow> [CHR 0x0A] @ join ('','' @ [CHR 0x0A]) (map (\<lambda>(k, v). ''  '' @ json_string k @ '': '' @ json_string v) kvs) @
    [CHR 0x0A] @ ''}'' = member_lines kvs"
    by (induction kvs rule: member_lines.induct) auto
  moreover assume "kvs \<noteq> []"
  ultimately show ?thesis by (simp add: indented_def)
qed

lemma skip_space_chars [simp]: "json_space c \<Longrightarrow> skip_space (c # s) = skip_space s" "\<not> json_space c \<Longrightarrow> skip_space (c # s) = c # s"
  by (simp_all add: skip_space_def)

lemma json_space_eval [simp]: "json_space CHR '' ''" "json_space CHR 0x0A" "\<not> json_space CHR 0x22" "\<not> json_space CHR ''}''"
  "\<not> json_space CHR '',''" "\<not> json_space CHR '':''" "\<not> json_space CHR ''{''"
  by (simp_all add: json_space_def)

lemma json_value_string:
  "json_value (Suc n) d (CHR '' '' # json_string v @ q) = Some (JStr (concat (map encode_rune (runes v))), q)"
  by (simp add: json_string_def json_string_read)

lemma json_members_lines:
  "kvs \<noteq> [] \<Longrightarrow> length kvs < n \<Longrightarrow> list_all (\<lambda>(k, v). valid_utf8 k \<and> valid_utf8 v) kvs \<Longrightarrow>
    json_members n d (member_lines kvs @ q) = Some (map (\<lambda>(k, v). (k, JStr v)) kvs, q)"
proof (induction kvs arbitrary: n rule: member_lines.induct)
  case (2 k v)
  then obtain m where n: "n = Suc (Suc m)" by (cases n; cases "n - 1") auto
  show ?case using "2.prems" unfolding n
    by (simp add: json_string_def [of k] json_string_read json_value_string valid_utf8_def del: json_value.simps)
next
  case (3 k v x xs)
  then obtain m where n: "n = Suc (Suc m)" by (cases n; cases "n - 1") auto
  have "json_members (Suc m) d (member_lines (x # xs) @ q) = Some (map (\<lambda>(k, v). (k, JStr v)) (x # xs), q)"
    by (rule "3.IH") (use "3.prems" n in auto)
  then show ?case using "3.prems" unfolding n
    by (simp add: json_string_def [of k] json_string_read json_value_string valid_utf8_def
      del: json_value.simps json_members.simps(2) member_lines.simps add: json_members.simps(2) [where n = "Suc m"] member_lines.simps(3))
qed simp


definition profile_readable :: "Profile \<Rightarrow> bool" where
  "profile_readable p \<longleftrightarrow> list_all valid_utf8 [pf_BaseURL p, pf_Token p, pf_Email p, pf_UserID p, pf_Role p, pf_TokenName p]"

lemma parse_profile_text:
  assumes "profile_text p = Inr s" "profile_readable p"
  shows "parse_profile s = Some p"
proof -
  from assms(1) obtain t where t: "marshal_time (pf_SavedAt p) = Some t" and s: "s = indented (profile_members p t) @ [CHR 0x0A]"
    by (auto simp: profile_text_def split: option.splits)
  let ?kvs = "profile_members p t"
  have ok: "list_all (\<lambda>(k, v). valid_utf8 k \<and> valid_utf8 v) ?kvs"
    using assms(2) ascii_marshal_time [OF t] by (simp add: profile_members_def profile_readable_def valid_utf8_ascii)
  have ne: "?kvs \<noteq> []" "length ?kvs = 7" by (simp_all add: profile_members_def)
  have len: "length ?kvs \<le> length (member_lines ?kvs)" by (simp add: profile_members_def json_string_def)
  have "json_first s = Some (JObj (map (\<lambda>(k, v). (k, JStr v)) ?kvs), [CHR 0x0A])"
  proof -
    have j: "json_members n d (member_lines ?kvs @ q) = Some (map (\<lambda>(k, v). (k, JStr v)) ?kvs, q)" if "7 < n" for n d q
      by (rule json_members_lines) (use ok ne that in auto)
    obtain x xs where x: "skip_space (member_lines ?kvs @ [CHR 0x0A]) = CHR 0x22 # xs"
      by (simp add: profile_members_def json_string_def)
    have "s = CHR ''{'' # member_lines ?kvs @ [CHR 0x0A]" using s ne(1) by (simp add: indented_lines)
    then show ?thesis using j [of "2 * length s" "Suc 0" "[CHR 0x0A]"] len ne x
      by (simp add: json_first_def json_depth_def del: json_members.simps member_lines.simps)
  qed
  then have "json_read s = Some (JObj (map (\<lambda>(k, v). (k, JStr v)) ?kvs))" by (simp add: json_read_def skip_space_def)
  then show ?thesis using unmarshal_marshal_time [OF t]
    by (simp add: parse_profile_def members_def profile_members_def key_is_def runes_ascii fold_rune_def)
qed

section \<open>Atomic writes\<close>

text \<open>What the steps of \<open>atomicWrite\<close> do to the files, whatever fails.\<close>

lemma tick_files: "tick c = (r, c') \<Longrightarrow> tables c' = tables c"
  by (auto simp: tick_def split: list.splits if_splits)

lemma read_full_tables: "read_full n c = (r, c') \<Longrightarrow> tables c' = tables c"
  by (auto simp: read_full_def split: if_splits)

lemma cli_io_cases:
  "bnd m f c = (r, c') \<Longrightarrow> (\<And>e. m c = (Inl e, c') \<Longrightarrow> r = Inl e \<Longrightarrow> P) \<Longrightarrow>
    (\<And>x d. m c = (Inr x, d) \<Longrightarrow> f x d = (r, c') \<Longrightarrow> P) \<Longrightarrow> P"
  by (auto simp: bnd_def split: prod.splits sum.splits)

lemma os_exists_run: "os_exists p c = (r, c') \<Longrightarrow> tables c' = tables c \<and> (\<forall>b. r = Inr b \<longrightarrow> b = (map_of (tables c) p \<noteq> None))"
  by (auto simp: os_exists_def query_def dest: tick_files elim!: cli_io_cases)

lemma exec_run:
  "exec st c = (r, c') \<Longrightarrow> (case r of Inl _ \<Rightarrow> tables c' = tables c | Inr n \<Rightarrow> st (tables c) = Inr (tables c', n))"
  by (auto simp: exec_def dest!: tick_files elim!: cli_io_cases split: sum.splits prod.splits)

lemma os_change_run:
  "os_change p f c = (r, c') \<Longrightarrow> (case r of Inl _ \<Rightarrow> map_of (tables c') = map_of (tables c)
    | Inr _ \<Rightarrow> \<exists>x. map_of (tables c) p = Some x \<and> map_of (tables c') = (map_of (tables c))(p \<mapsto> f x))"
  unfolding os_change_def
  by (auto simp: ret_def dest!: exec_run elim!: cli_io_cases split: option.splits simp flip: update_conv' delete_conv')

lemma replaceFile_run:
  "replaceFile a b c = (r, c') \<Longrightarrow> (case r of Inl _ \<Rightarrow> map_of (tables c') = map_of (tables c)
    | Inr _ \<Rightarrow> \<exists>x. map_of (tables c) a = Some x \<and> map_of (tables c') = (map_of (tables c))(a := None, b \<mapsto> x))"
  unfolding replaceFile_def
  by (auto simp: ret_def dest!: exec_run elim!: cli_io_cases split: option.splits simp flip: update_conv' delete_conv')

lemma os_remove_run:
  "os_remove p c = (r, c') \<Longrightarrow> map_of (tables c') = map_of (tables c) \<and> r \<noteq> Inr () \<or>
    r = Inr () \<and> map_of (tables c) p \<noteq> None \<and> map_of (tables c') = (map_of (tables c))(p := None)"
  unfolding os_remove_def
  by (auto simp: ret_def dest!: exec_run elim!: cli_io_cases split: option.splits simp flip: update_conv' delete_conv')

definition changed_at :: "('a \<Rightarrow> 'b option) \<Rightarrow> 'a \<Rightarrow> ('a \<Rightarrow> 'b option) \<Rightarrow> bool" where
  "changed_at m p m' \<longleftrightarrow> (\<exists>x. m' = m(p \<mapsto> x))"

lemma changed_at_upd [simp]: "changed_at m p (m(p \<mapsto> x))"
  by (auto simp: changed_at_def)

definition temp_of :: "string \<Rightarrow> string \<Rightarrow> string \<Rightarrow> bool" where
  "temp_of dir prefix p \<longleftrightarrow> (\<exists>k. p = path_join [dir, prefix @ show_nat k])"

lemma cli_temp_run:
  "cli_temp n dir prefix c = (r, c') \<Longrightarrow> (case r of Inl _ \<Rightarrow> map_of (tables c') = map_of (tables c)
    | Inr p \<Rightarrow> temp_of dir prefix p \<and> map_of (tables c) p = None \<and> map_of (tables c') = (map_of (tables c))(p \<mapsto> (owner_only, '''')))"
proof (induction n arbitrary: c)
  case 0
  then show ?case by (auto simp: throw_def)
next
  case (Suc n)
  from Suc.prems show ?case unfolding cli_temp.simps Let_def
  proof (elim cli_io_cases)
    fix bs :: "byte list" and d d1 :: "cli_files conn" and b :: bool
    let ?p = "path_join [dir, prefix @ show_nat (foldl (\<lambda>a b. a * 256 + unat b) 0 bs)]"
    assume a: "read_full 4 c = (Inr bs, d)" "os_exists ?p d = (Inr b, d1)"
      and s: "(if b then cli_temp n dir prefix else bnd (exec (\<lambda>fs. Inr (AList.update ?p (owner_only, '''') fs, 1))) (\<lambda>_. ret ?p)) d1 = (r, c')"
    have t: "tables d1 = tables c" "b = (map_of (tables c) ?p \<noteq> None)"
      using read_full_tables [OF a(1)] os_exists_run [OF a(2)] by auto
    show ?thesis
    proof (cases b)
      case True
      then show ?thesis using Suc.IH [of d1] s t(1) by (auto split: sum.splits)
    next
      case False
      have p: "temp_of dir prefix ?p" by (auto simp: temp_of_def)
      have "bnd (exec (\<lambda>fs. Inr (AList.update ?p (owner_only, '''') fs, 1))) (\<lambda>_. ret ?p) d1 = (r, c')" using s False by simp
      then show ?thesis
      proof (elim cli_io_cases)
        fix k d2
        assume "exec (\<lambda>fs. Inr (AList.update ?p (owner_only, '''') fs, 1)) d1 = (Inr k, d2)" "ret ?p d2 = (r, c')"
        then have "r = Inr ?p" "tables c' = AList.update ?p (owner_only, '''') (tables c)" using t(1) by (auto simp: ret_def dest!: exec_run)
        moreover have "map_of (tables c) ?p = None" using t(2) False by blast
        ultimately show ?thesis using p by (simp add: update_conv')
      qed (use t(1) in \<open>auto dest!: exec_run\<close>)
    qed
  qed (auto dest!: read_full_tables os_exists_run)
qed

text \<open>After a failure there is at most one temporary file more than before.\<close>

definition only_temp :: "string \<Rightarrow> string \<Rightarrow> cli_files \<Rightarrow> cli_files \<Rightarrow> bool" where
  "only_temp dir prefix fs fs' \<longleftrightarrow> map_of fs' = map_of fs \<or>
    (\<exists>p x. temp_of dir prefix p \<and> map_of fs p = None \<and> map_of fs' = (map_of fs)(p \<mapsto> x))"

lemma atomicWrite_run:
  assumes "atomicWrite path text mode c = (r, c')"
  shows "case r of Inr _ \<Rightarrow> map_of (tables c') = (map_of (tables c))(path \<mapsto> (mode, text))
    | Inl _ \<Rightarrow> only_temp (path_dir path) ''.tmp-'' (tables c) (tables c')"
proof -
  let ?dir = "path_dir path"
  from assms show ?thesis unfolding atomicWrite_def
  proof (elim cli_io_cases)
    fix d d1 :: "cli_files conn" and name :: string and u :: unit
    assume a: "tick c = (Inr u, d)" "cli_temp 10000 ?dir ''.tmp-'' d = (Inr name, d1)"
    let ?m = "bnd (os_change name (\<lambda>(_, s). (mode, s))) (\<lambda>_. bnd (os_change name (\<lambda>(m, _). (m, text))) (\<lambda>_.
       bnd tick (\<lambda>_. bnd tick (\<lambda>_. replaceFile name path))))"
    assume e: "remove_on_error name ?m d1 = (r, c')"
    let ?fs = "map_of (tables c)"
    have f: "temp_of ?dir ''.tmp-'' name" "?fs name = None" "map_of (tables d1) = ?fs(name \<mapsto> (owner_only, ''''))"
      using tick_files [OF a(1)] cli_temp_run [OF a(2)] by simp_all
    obtain r1 d2 where m: "?m d1 = (r1, d2)" by fastforce
    have body: "case r1 of Inr _ \<Rightarrow> map_of (tables d2) = ?fs(path \<mapsto> (mode, text))
      | Inl _ \<Rightarrow> changed_at ?fs name (map_of (tables d2))"
      using m
    proof (elim cli_io_cases)
      fix u1 u2 u3 u4 :: unit and e1 e2 e3 e4 :: "cli_files conn"
      assume s: "os_change name (\<lambda>(_, s). (mode, s)) d1 = (Inr u1, e1)" "os_change name (\<lambda>(m, _). (m, text)) e1 = (Inr u2, e2)"
        "tick e2 = (Inr u3, e3)" "tick e3 = (Inr u4, e4)" "replaceFile name path e4 = (r1, d2)"
      have e4: "map_of (tables e4) = ?fs(name \<mapsto> (mode, text))"
        using os_change_run [OF s(1)] os_change_run [OF s(2)] tick_files [OF s(3)] tick_files [OF s(4)] f by auto
      show ?thesis
      proof (cases r1)
        case (Inl x)
        then show ?thesis using replaceFile_run [OF s(5)] e4 by simp
      next
        case (Inr x)
        then show ?thesis using replaceFile_run [OF s(5)] e4 f(2) by (auto simp: fun_eq_iff)
      qed
    qed (use f in \<open>auto dest!: os_change_run tick_files\<close>)
    show ?thesis
    proof (cases r1)
      case (Inr x)
      then show ?thesis using e m body by (auto simp: remove_on_error_def)
    next
      case (Inl x)
      then obtain y where y: "map_of (tables d2) = ?fs(name \<mapsto> y)" using body by (auto simp: changed_at_def)
      obtain r2 d3 where "os_remove name d2 = (r2, d3)" by fastforce
      note d3 = this
      have "remove_on_error name ?m d1 = (Inl x, d3)" unfolding remove_on_error_def m using Inl d3 by simp
      then have r: "r = Inl x" "c' = d3" using e by simp_all
      have "map_of (tables d3) = ?fs(name \<mapsto> y) \<or> map_of (tables d3) = ?fs"
        using os_remove_run [OF d3] unfolding y using f(2) by (auto simp: fun_upd_idem)
      then have "only_temp ?dir ''.tmp-'' (tables c) (tables c')" using f(1,2) unfolding only_temp_def r by blast
      then show ?thesis unfolding r by simp
    qed
  qed (auto simp: only_temp_def dest!: tick_files cli_temp_run)
qed


lemma wrap_err_run: "wrap_err s m c = (r, c') \<Longrightarrow> (\<exists>r0. m c = (r0, c') \<and> (case r0 of Inl e \<Rightarrow> r = Inl (ErrWrap s e) | Inr x \<Rightarrow> r = Inr x))"
  by (auto simp: wrap_err_def handle_def throw_def split: prod.splits sum.splits)

lemma profilePath_run: "profilePath q home name c = (r, c') \<Longrightarrow> c' = c \<and> (\<forall>p. r = Inr p \<longrightarrow> p = profile_file home name \<and> profile_name_ok name)"
  by (auto simp: profilePath_def validateProfileName_def fail_if_def ret_def throw_def bnd_def split: if_splits)

lemma overwrite_run:
  assumes "(if ow then ret () else bnd (os_exists path) (\<lambda>found. fail_if found x)) c = (r, c')"
  shows "tables c' = tables c \<and> (r = Inr () \<longrightarrow> ow \<or> map_of (tables c) path = None)"
proof (cases ow)
  case True
  then show ?thesis using assms by (auto simp: ret_def)
next
  case False
  then have "bnd (os_exists path) (\<lambda>found. fail_if found x) c = (r, c')" using assms by simp
  then show ?thesis
  proof (elim cli_io_cases)
    fix b d
    assume "os_exists path c = (Inr b, d)" "fail_if b x d = (r, c')"
    then show ?thesis using os_exists_run [of path c "Inr b" d] by (cases b) (auto simp: fail_if_def ret_def throw_def)
  qed (auto dest!: os_exists_run)
qed

lemma Write_run:
  assumes "Write q home name p ow c = (r, c')"
  shows "case r of Inr _ \<Rightarrow> profile_name_ok name \<and> (\<not> ow \<longrightarrow> map_of (tables c) (profile_file home name) = None) \<and>
      (\<exists>bytes. profile_text p = Inr bytes \<and> map_of (tables c') = (map_of (tables c))(profile_file home name \<mapsto> (owner_only, bytes)))
    | Inl _ \<Rightarrow> only_temp (path_dir (profile_file home name)) ''.tmp-'' (tables c) (tables c')"
  using assms unfolding Write_def
proof (elim cli_io_cases)
  fix path bytes u and d d1 d2 :: "cli_files conn"
  assume a: "profilePath q home name c = (Inr path, d)"
    "(if ow then ret () else bnd (os_exists path) (\<lambda>found. fail_if found (ErrText (''profile '' @ q name @ '' already exists; use --force to replace it'')))) d = (Inr u, d1)"
    "of_result (profile_text p) d1 = (Inr bytes, d2)"
    "wrap_err (''write profile '' @ q name) (atomicWrite path bytes owner_only) d2 = (r, c')"
  have path: "path = profile_file home name" "profile_name_ok name" "d = c" using profilePath_run [OF a(1)] by auto
  have free: "tables d1 = tables c \<and> (\<not> ow \<longrightarrow> map_of (tables c) path = None)"
    using overwrite_run [OF a(2)] path(3) by auto
  have bytes: "profile_text p = Inr bytes" "d2 = d1" using a(3) by (auto simp: of_result_def)
  from wrap_err_run [OF a(4)] obtain r0 where r0: "atomicWrite path bytes owner_only d2 = (r0, c')"
    "case r0 of Inl e \<Rightarrow> r = Inl (ErrWrap (''write profile '' @ q name) e) | Inr x \<Rightarrow> r = Inr x" by blast
  show ?thesis using atomicWrite_run [OF r0(1)] r0(2) free bytes path by (cases r0) auto
qed (auto simp: only_temp_def of_result_def dest!: overwrite_run profilePath_run)

text \<open>C34: Writing a profile is atomic whatever step fails: on success the profile's file is there with mode 0600 and the
  whole new text and every other file is as it was, and without the overwrite flag no file was there before; on failure
  every file is as it was, but for at most one temporary file.\<close>

theorem profile_write_is_atomic:
  "case Write q home name p ow c of
      (Inr _, c') \<Rightarrow> (\<exists>bytes. profile_text p = Inr bytes \<and>
          map_of (tables c') = (map_of (tables c))(profile_file home name \<mapsto> (owner_only, bytes))) \<and>
        (ow \<or> map_of (tables c) (profile_file home name) = None)
    | (Inl _, c') \<Rightarrow> only_temp (path_dir (profile_file home name)) ''.tmp-'' (tables c) (tables c')"
proof -
  obtain r c' where w: "Write q home name p ow c = (r, c')" by fastforce
  show ?thesis using Write_run [OF w] unfolding w by (cases r) auto
qed

section \<open>Reading back\<close>

lemma Read_found:
  assumes "map_of (tables c) (profile_file home name) = Some (m, s)" "profile_name_ok name" "faults c = []"
  shows "fst (Read q home name c) = (case parse_profile s of None \<Rightarrow> Inl (ErrWrap (''read profile '' @ q name) json_error) | Some p \<Rightarrow> Inr (Some p))"
  using assms
  by (simp add: Read_def profilePath_def validateProfileName_def fail_if_def os_read_def query_def tick_def handle_def bnd_def ret_def throw_def
    split: option.splits)

text \<open>C36: A profile that was written is read back as it was, at any later time the files are the same, when its texts are
  valid UTF-8.\<close>

theorem profile_round_trip:
  assumes "Write q home name p ow c = (Inr u, c')" "profile_readable p" "tables d = tables c'" "faults d = []"
  shows "fst (Read q home name d) = Inr (Some p)"
proof -
  from Write_run [OF assms(1)] obtain bytes where t: "profile_name_ok name" "profile_text p = Inr bytes"
    "map_of (tables c') (profile_file home name) = Some (owner_only, bytes)" by auto
  then show ?thesis using Read_found [of d home name owner_only bytes q] parse_profile_text [OF t(2) assms(2)] assms(3,4) by simp
qed


definition sample_profile :: Profile where
  "sample_profile = \<lparr>pf_BaseURL = ''https://books.example'', pf_Token = ''bb_1'', pf_Email = ''ann@example.org'', pf_UserID = ''u1'',
    pf_Role = ''admin'', pf_TokenName = ''laptop'', pf_SavedAt = 0\<rparr>"

definition fresh_machine :: "cli_files conn" where
  "fresh_machine = \<lparr>tables = [], entropy = [1, 2, 3, 4], faults = []\<rparr>"

lemma sample_profile_text: "\<exists>s. profile_text sample_profile = Inr s"
proof -
  have "date_of (nat epoch_days) = (1970, 1, 1)"
    using date_of_days_of [of 1970 1 1] by (simp add: epoch_days_def days_of_def year_start_def valid_date_def days_in_def)
  moreover have "\<not> epoch_days < 0" by (simp add: epoch_days_def)
  ultimately show ?thesis
    by (simp add: profile_text_def sample_profile_def marshal_time_def)
qed

lemma sample_write: "fst (Write q home ''books'' sample_profile ow fresh_machine) = Inr ()"
proof -
  obtain s where s: "profile_text sample_profile = Inr s" using sample_profile_text by blast
  have n: "profile_name_ok ''books''" by (simp add: profile_name_ok_def profile_name_char_def letter_def)
  have t: "cli_temp 10000 dir ''.tmp-'' = cli_temp (Suc 9999) dir ''.tmp-''" for dir by simp
  show ?thesis unfolding Write_def atomicWrite_def t cli_temp.simps(2)
    by (simp add: s n fresh_machine_def profilePath_def validateProfileName_def fail_if_def os_exists_def query_def tick_def bnd_def ret_def
      of_result_def wrap_err_def handle_def exec_def read_full_def os_change_def replaceFile_def remove_on_error_def update_conv' delete_conv' Let_def del: cli_temp.simps)
qed

theorem profile_round_trip_witness:
  "fst (Read id ''/h'' ''books'' ((snd (Write id ''/h'' ''books'' sample_profile False fresh_machine))\<lparr>faults := []\<rparr>)) = Inr (Some sample_profile)"
proof -
  obtain c' where w: "Write id ''/h'' ''books'' sample_profile False fresh_machine = (Inr (), c')"
    using sample_write [of id "''/h''" False] by (metis prod.collapse)
  have "profile_readable sample_profile" by (simp add: profile_readable_def sample_profile_def valid_utf8_ascii)
  then show ?thesis using profile_round_trip [OF w, of "c'\<lparr>faults := []\<rparr>"] w by simp
qed


section \<open>The pointer to the current profile\<close>

definition current_target :: "string \<Rightarrow> cli_files \<Rightarrow> string" where
  "current_target home fs = (case map_of fs (currentPath home) of None \<Rightarrow> '''' | Some (_, s) \<Rightarrow> trim_space s)"

text \<open>There is no current profile, or it has a valid name and its file is there.\<close>

definition pointer_ok :: "string \<Rightarrow> cli_files \<Rightarrow> bool" where
  "pointer_ok home fs \<longleftrightarrow> current_target home fs = '''' \<or>
    (profile_name_ok (current_target home fs) \<and> map_of fs (profile_file home (current_target home fs)) \<noteq> None)"

lemma current_target_cong: "map_of fs' (currentPath home) = map_of fs (currentPath home) \<Longrightarrow> current_target home fs' = current_target home fs"
  by (simp add: current_target_def)

lemma pointer_ok_grow:
  assumes "pointer_ok home fs" "map_of fs' (currentPath home) = map_of fs (currentPath home)"
    "\<And>p. map_of fs p \<noteq> None \<Longrightarrow> map_of fs' p \<noteq> None"
  shows "pointer_ok home fs'"
  using assms(1) assms(3) [of "profile_file home (current_target home fs)"] current_target_cong [OF assms(2)]
  unfolding pointer_ok_def by metis

lemma name_trimmed:
  assumes "profile_name_ok n"
  shows "trim_space (n @ [CHR 0x0A]) = n" "n \<noteq> ''''" "trim_space n = n"
proof -
  have c: "of_char c < (128::nat) \<and> \<not> is_space (of_char c)" if "c \<in> set n" for c
    using assms that by (auto simp: profile_name_ok_def list_all_iff profile_name_char_def letter_def decimal_def digit_val_def Let_def is_space_def split: if_splits)
  show ne: "n \<noteq> ''''" using assms by (auto simp: profile_name_ok_def)
  have a: "ascii n" using c by (auto simp: ascii_def list_all_iff)
  have d: "dropWhile (\<lambda>c. is_space (of_char c)) (n @ x) = n @ x" for x using c ne by (cases n) auto
  have r: "dropWhile (\<lambda>c. is_space (of_char c)) (rev n) = rev n" using c ne by (cases n rule: rev_cases) auto
  have s: "is_space 10" by (simp add: is_space_def)
  show "trim_space (n @ [CHR 0x0A]) = n" using d [of "[CHR 0x0A]"] r s a by (simp add: trim_space_ascii trim_ascii_def)
  show "trim_space n = n" using d [of "[]"] r a by (simp add: trim_space_ascii trim_ascii_def)
qed

lemma profile_file_inj: "clean_home home \<Longrightarrow> profile_name_ok a \<Longrightarrow> profile_name_ok b \<Longrightarrow> profile_file home a = profile_file home b \<Longrightarrow> a = b"
  by (simp add: store_paths(4))

lemma current_not_profile: "clean_home home \<Longrightarrow> profile_name_ok a \<Longrightarrow> currentPath home \<noteq> profile_file home a"
  by (simp add: store_paths(2,4))

lemma show_nat_plain: "plain_name (CHR ''.'' # CHR ''t'' # s @ show_nat k) \<longleftrightarrow> CHR ''/'' \<notin> set s"
proof -
  have "CHR ''/'' \<notin> set (show_nat k)" using show_nat_chars by fastforce
  then show ?thesis by (auto simp: plain_name_def)
qed

lemma temp_not_current:
  assumes "clean_home home" "clean_home dir" "temp_of dir ''.tmp-'' p" "dir = home \<or> dir = profilesDir home"
  shows "p \<noteq> currentPath home"
proof -
  obtain k where "p = path_join [dir, ''.tmp-'' @ show_nat k]" using assms(3) by (auto simp: temp_of_def)
  moreover have "plain_name (''.tmp-'' @ show_nat k)" using show_nat_plain [of "''mp-''" k] by simp
  ultimately have "p = dir @ ''/.tmp-'' @ show_nat k" using path_join_child(1) [OF assms(2)] by simp
  then show ?thesis using assms(4) by (auto simp: store_paths(1,2) [OF assms(1)])
qed

lemma only_temp_pointer:
  assumes "clean_home home" "clean_home dir" "dir = home \<or> dir = profilesDir home" "only_temp dir ''.tmp-'' fs fs'" "pointer_ok home fs"
  shows "pointer_ok home fs'"
  using assms(4) unfolding only_temp_def
proof (elim disjE exE conjE)
  fix p x
  assume p: "temp_of dir ''.tmp-'' p" "map_of fs p = None" "map_of fs' = (map_of fs)(p \<mapsto> x)"
  have "p \<noteq> currentPath home" by (rule temp_not_current [OF assms(1,2) p(1) assms(3)])
  then show ?thesis by (intro pointer_ok_grow [OF assms(5)]) (simp_all add: p(3))
qed (auto intro: pointer_ok_grow [OF assms(5)])

lemma set_pointer:
  assumes "clean_home home" "profile_name_ok n" "map_of fs (profile_file home n) \<noteq> None"
    "map_of fs' = (map_of fs)(currentPath home \<mapsto> (owner_only, n @ [CHR 0x0A]))"
  shows "pointer_ok home fs'" "current_target home fs' = n"
proof -
  show t: "current_target home fs' = n" using name_trimmed [OF assms(2)] assms(4) by (simp add: current_target_def)
  show "pointer_ok home fs'" unfolding pointer_ok_def t using assms current_not_profile [OF assms(1,2)] by auto
qed


lemma os_read_run: "os_read p c = (r, c') \<Longrightarrow> tables c' = tables c \<and> (\<forall>s. r = Inr s \<longrightarrow> map_of (tables c) p \<noteq> None)"
  by (auto simp: os_read_def query_def dest!: tick_files elim!: cli_io_cases split: option.splits)

lemma Read_run:
  assumes "Read q home name c = (r, c')"
  shows "tables c' = tables c \<and> (\<forall>p. r = Inr (Some p) \<longrightarrow> profile_name_ok name \<and> map_of (tables c) (profile_file home name) \<noteq> None)"
proof -
  obtain r1 c1 where o: "os_read (profile_file home name) c = (r1, c1)" by fastforce
  note os_read_run [OF o]
  then show ?thesis using assms o
    by (auto simp: Read_def profilePath_def validateProfileName_def fail_if_def handle_def bnd_def ret_def throw_def
      split: if_splits sum.splits option.splits prod.splits)
qed

lemma SetCurrent_run:
  assumes "SetCurrent q home n c = (r, c')"
  shows "case r of Inr _ \<Rightarrow> profile_name_ok n \<and> map_of (tables c) (profile_file home n) \<noteq> None \<and>
      map_of (tables c') = (map_of (tables c))(currentPath home \<mapsto> (owner_only, n @ [CHR 0x0A]))
    | Inl _ \<Rightarrow> only_temp (path_dir (currentPath home)) ''.tmp-'' (tables c) (tables c')"
  using assms unfolding SetCurrent_def
proof (elim cli_io_cases)
  fix u1 u2 :: unit and p and d d1 d2 :: "cli_files conn"
  assume a: "validateProfileName q n c = (Inr u1, d)" "Read q home n d = (Inr p, d1)"
    "fail_if (p = None) (no_profile q n) d1 = (Inr u2, d2)" "atomicWrite (currentPath home) (n @ [CHR 0x0A]) owner_only d2 = (r, c')"
  have v: "d = c" "profile_name_ok n" using a(1) by (auto simp: validateProfileName_def fail_if_def ret_def throw_def split: if_splits)
  have p: "d2 = d1" "p \<noteq> None" using a(3) by (auto simp: fail_if_def ret_def throw_def split: if_splits)
  then obtain x where x: "p = Some x" by auto
  show ?thesis using atomicWrite_run [OF a(4)] Read_run [OF a(2)] v p x by (cases r) auto
qed (auto simp: only_temp_def validateProfileName_def fail_if_def ret_def throw_def dest!: Read_run split: if_splits)

lemma Write_pointer:
  assumes "clean_home home" "pointer_ok home (tables c)"
  shows "pointer_ok home (tables (snd (Write q home name p ow c)))"
proof -
  obtain r c' where w: "Write q home name p ow c = (r, c')" by fastforce
  have "pointer_ok home (tables c')"
  proof (cases r)
    case (Inl e)
    show ?thesis
    proof (cases "profile_name_ok name")
      case True
      then have "path_dir (profile_file home name) = profilesDir home" by (rule store_paths(5) [OF assms(1)])
      then show ?thesis using Write_run [OF w] Inl only_temp_pointer [OF assms(1) store_paths(3) [OF assms(1)] disjI2 [OF refl] _ assms(2)] by simp
    next
      case False
      then have "c' = c" using w by (auto simp: Write_def profilePath_def validateProfileName_def fail_if_def throw_def bnd_def)
      then show ?thesis using assms(2) by simp
    qed
  next
    case (Inr u)
    then obtain s where s: "profile_name_ok name" "map_of (tables c') = (map_of (tables c))(profile_file home name \<mapsto> (owner_only, s))"
      using Write_run [OF w] by auto
    show ?thesis by (rule pointer_ok_grow [OF assms(2)]) (use s current_not_profile [OF assms(1) s(1)] in auto)
  qed
  then show ?thesis unfolding w by simp
qed

lemma SetCurrent_pointer:
  assumes "clean_home home" "pointer_ok home (tables c)"
  shows "pointer_ok home (tables (snd (SetCurrent q home name c)))"
proof -
  obtain r c' where w: "SetCurrent q home name c = (r, c')" by fastforce
  have "pointer_ok home (tables c')"
  proof (cases r)
    case (Inl e)
    then show ?thesis using SetCurrent_run [OF w] only_temp_pointer [OF assms(1) assms(1) disjI1 [OF refl] _ assms(2)]
      by (simp add: store_paths(6) [OF assms(1)])
  next
    case (Inr u)
    then have "profile_name_ok name" "map_of (tables c) (profile_file home name) \<noteq> None"
      "map_of (tables c') = (map_of (tables c))(currentPath home \<mapsto> (owner_only, name @ [CHR 0x0A]))" using SetCurrent_run [OF w] by simp_all
    then show ?thesis by (rule set_pointer(1) [OF assms(1)])
  qed
  then show ?thesis unfolding w by simp
qed


text \<open>Removing and renaming without faults.\<close>

lemma no_fault_run:
  assumes "faults c = []"
  shows "query g c = (g (tables c), c)"
    "exec st c = (case st (tables c) of Inl x \<Rightarrow> (Inl x, c) | Inr (d, n) \<Rightarrow> (Inr n, c\<lparr>tables := d\<rparr>))"
  using assms by (simp_all add: query_def exec_def tick_def bnd_def)

lemma os_remove_ok:
  assumes "faults c = []"
  shows "os_remove p c = (case map_of (tables c) p of None \<Rightarrow> (Inl not_exist, c) | Some _ \<Rightarrow> (Inr (), c\<lparr>tables := AList.delete p (tables c)\<rparr>))"
  by (simp add: os_remove_def no_fault_run [OF assms] bnd_def ret_def split: option.splits)

lemma replaceFile_ok:
  assumes "faults c = []"
  shows "replaceFile a b c = (case map_of (tables c) a of None \<Rightarrow> (Inl not_exist, c)
    | Some x \<Rightarrow> (Inr (), c\<lparr>tables := AList.update b x (AList.delete a (tables c))\<rparr>))"
  by (simp add: replaceFile_def no_fault_run [OF assms] bnd_def ret_def split: option.splits)

lemma current_or_none_ok:
  assumes "faults c = []"
  shows "current_or_none q home c = (Inr (if profile_name_ok (current_target home (tables c)) then current_target home (tables c) else ''''), c)"
proof -
  have n: "\<not> profile_name_ok ''''" by (simp add: profile_name_ok_def)
  have "Current q home c = (if current_target home (tables c) = '''' then ret ''''
      else bnd (validateProfileName q (current_target home (tables c))) (\<lambda>_. ret (current_target home (tables c)))) c"
    by (auto simp: Current_def current_target_def os_read_def no_fault_run [OF assms] handle_def bnd_def ret_def trim_space_ascii trim_ascii_def Let_def
      split: option.splits)
  then show ?thesis using n by (auto simp: current_or_none_def handle_def validateProfileName_def fail_if_def ret_def throw_def bnd_def)
qed

lemma Remove_pointer:
  assumes "clean_home home" "pointer_ok home (tables c)" "faults c = []" "Remove q home name c = (Inr u, c')"
  shows "pointer_ok home (tables c')"
proof -
  let ?file = "profile_file home name" and ?t = "current_target home (tables c)"
  let ?c = "c\<lparr>tables := AList.delete ?file (tables c)\<rparr>"
  have n: "profile_name_ok name" "map_of (tables c) ?file \<noteq> None"
    using assms(4) by (auto simp: Remove_def profilePath_def validateProfileName_def fail_if_def handle_def os_remove_ok [OF assms(3)] bnd_def throw_def ret_def
      split: if_splits option.splits)
  have f: "faults ?c = []" using assms(3) by simp
  have cur: "map_of (tables ?c) (currentPath home) = map_of (tables c) (currentPath home)"
    using current_not_profile [OF assms(1) n(1)] by (simp add: delete_conv')
  have t: "current_target home (tables ?c) = ?t" by (rule current_target_cong [OF cur])
  have rest: "(if (if profile_name_ok ?t then ?t else '''') = name then
      bnd (ListProfiles home) (\<lambda>names. case names of [] \<Rightarrow> clearCurrent home | n # _ \<Rightarrow> SetCurrent q home n)
    else ret ()) ?c = (Inr u, c')"
    using assms(4) n t current_or_none_ok [OF f, of q home]
    by (auto simp: Remove_def profilePath_def validateProfileName_def fail_if_def handle_def os_remove_ok [OF assms(3)] bnd_def throw_def ret_def)
  show ?thesis
  proof (cases "?t = name")
    case True
    then have r: "bnd (ListProfiles home) (\<lambda>names. case names of [] \<Rightarrow> clearCurrent home | n # _ \<Rightarrow> SetCurrent q home n) ?c = (Inr u, c')"
      using rest n(1) by simp
    show ?thesis
    proof (cases "profile_names home (tables ?c)")
      case Nil
      then have "clearCurrent home ?c = (Inr u, c')" using r by (simp add: ListProfiles_def no_fault_run [OF f] bnd_def)
      then have "map_of (tables c') (currentPath home) = None"
        by (auto simp: clearCurrent_def handle_def os_remove_ok [OF f] delete_conv' ret_def throw_def split: option.splits if_splits)
      then show ?thesis by (simp add: pointer_ok_def current_target_def)
    next
      case (Cons m ms)
      then have "SetCurrent q home m ?c = (Inr u, c')" using r by (simp add: ListProfiles_def no_fault_run [OF f] bnd_def)
      then show ?thesis using SetCurrent_run [of q home m ?c "Inr u" c'] set_pointer(1) [OF assms(1), of m "tables ?c" "tables c'"] by simp
    qed
  next
    case False
    then have "(if profile_name_ok ?t then ?t else '''') \<noteq> name" using name_trimmed(2) [OF n(1)] by auto
    then have c': "c' = ?c" using rest by (auto simp: ret_def)
    have "profile_file home ?t \<noteq> ?file" if "profile_name_ok ?t" using profile_file_inj [OF assms(1) that n(1)] False by auto
    then show ?thesis using assms(2) t unfolding c' pointer_ok_def by (auto simp: delete_conv')
  qed
qed

lemma Rename_pointer:
  assumes "clean_home home" "pointer_ok home (tables c)" "faults c = []" "Rename q home old new c = (Inr u, c')"
  shows "pointer_ok home (tables c')"
proof -
  let ?old = "profile_file home old" and ?new = "profile_file home new" and ?t = "current_target home (tables c)"
  have n: "profile_name_ok old" "profile_name_ok new" "map_of (tables c) ?old \<noteq> None" "\<not> (\<exists>y. map_of (tables c) ?new = Some y)"
    using assms(4) by (auto simp: Rename_def validateProfileName_def fail_if_def handle_def replaceFile_ok [OF assms(3)] os_exists_def
      no_fault_run [OF assms(3)] bnd_def throw_def ret_def split: if_splits option.splits)
  then obtain x where x: "map_of (tables c) ?old = Some x" by blast
  have free: "map_of (tables c) ?new = None" using n(4) by (cases "map_of (tables c) ?new") auto
  let ?c = "c\<lparr>tables := AList.update ?new x (AList.delete ?old (tables c))\<rparr>"
  have f: "faults ?c = []" using assms(3) by simp
  have m: "map_of (tables ?c) = (map_of (tables c))(?old := None, ?new \<mapsto> x)" by (simp add: update_conv' delete_conv')
  have "map_of (tables ?c) (currentPath home) = map_of (tables c) (currentPath home)"
    using current_not_profile [OF assms(1)] n(1,2) unfolding m by auto
  then have t: "current_target home (tables ?c) = ?t" by (rule current_target_cong)
  have rest: "(if (if profile_name_ok ?t then ?t else '''') = old then atomicWrite (currentPath home) (new @ [CHR 0x0A]) owner_only else ret ()) ?c = (Inr u, c')"
    using assms(4) n(1-3) free x current_or_none_ok [OF f, of q home] unfolding t
    by (simp add: Rename_def validateProfileName_def fail_if_def handle_def replaceFile_ok [OF assms(3)] os_exists_def
      no_fault_run [OF assms(3)] bnd_def throw_def ret_def)
  show ?thesis
  proof (cases "?t = old")
    case True
    then have "atomicWrite (currentPath home) (new @ [CHR 0x0A]) owner_only ?c = (Inr u, c')" using rest n(1) by simp
    then have "map_of (tables c') = (map_of (tables ?c))(currentPath home \<mapsto> (owner_only, new @ [CHR 0x0A]))"
      using atomicWrite_run [of "currentPath home" "new @ [CHR 0x0A]" owner_only ?c "Inr u" c'] by simp
    moreover have "map_of (tables ?c) ?new \<noteq> None" unfolding m by simp
    ultimately show ?thesis using set_pointer(1) [OF assms(1) n(2)] by blast
  next
    case False
    then have "(if profile_name_ok ?t then ?t else '''') \<noteq> old" using name_trimmed(2) [OF n(1)] by auto
    then have c': "c' = ?c" using rest by (auto simp: ret_def)
    have "profile_file home ?t \<noteq> ?old" if "profile_name_ok ?t" using profile_file_inj [OF assms(1) that n(1)] False by auto
    then show ?thesis using assms(2) t unfolding c' pointer_ok_def m by auto
  qed
qed

text \<open>C35: The pointer to the current profile never dangles: writing a profile and selecting one keep it valid whatever
  step fails, and so do removing a profile (which selects another one or clears the pointer) and renaming one (which
  follows the name) when no file operation fails and they report success.\<close>

theorem current_profile_exists:
  assumes "clean_home home" "pointer_ok home (tables c)"
  shows "pointer_ok home (tables (snd (Write q home name p ow c))) \<and> pointer_ok home (tables (snd (SetCurrent q home name c))) \<and>
    (faults c = [] \<and> fst (Remove q home name c) = Inr () \<longrightarrow> pointer_ok home (tables (snd (Remove q home name c)))) \<and>
    (faults c = [] \<and> fst (Rename q home name new c) = Inr () \<longrightarrow> pointer_ok home (tables (snd (Rename q home name new c))))"
  using Write_pointer [OF assms] SetCurrent_pointer [OF assms]
    Remove_pointer [OF assms, of q name "()" "snd (Remove q home name c)"]
    Rename_pointer [OF assms, of q name new "()" "snd (Rename q home name new c)"] by (metis prod.collapse)

theorem current_profile_exists_witness:
  "pointer_ok ''/h'' (tables (snd (Write id ''/h'' ''books'' sample_profile False fresh_machine)))"
proof -
  have "clean_home ''/h''" by (simp add: clean_home_def path_elems_def path_show_def has_prefix_def)
  moreover have "pointer_ok ''/h'' (tables fresh_machine)" by (simp add: pointer_ok_def current_target_def fresh_machine_def)
  ultimately show ?thesis using current_profile_exists by blast
qed

end
