(* ===== verification/CliFacts.thy ===== *)
theory CliFacts
  imports CliAdmin CliProfileFacts UploadFacts
begin

text \<open>
What holds of the command-line client: the calls a command makes, and the fate of tokens and sign-in challenges.
\<close>

section \<open>Reasoning about commands\<close>

text \<open>What a command logs and what it returns: every call it adds satisfies \<open>P\<close>, and a result satisfies \<open>Q\<close>.\<close>

definition logs :: "(api_call \<Rightarrow> bool) \<Rightarrow> ('a \<Rightarrow> bool) \<Rightarrow> ('n, 'a) cmd \<Rightarrow> bool" where
  "logs P Q c \<longleftrightarrow> (\<forall>m r m'. c m = (r, m') \<longrightarrow>
    (\<exists>more. mc_calls m' = mc_calls m @ more \<and> list_all P more) \<and> (\<forall>x. r = Inr x \<longrightarrow> Q x))"

named_theorems logging

lemma logsI:
  "(\<And>m r m'. c m = (r, m') \<Longrightarrow> (\<exists>more. mc_calls m' = mc_calls m @ more \<and> list_all P more) \<and> (\<forall>x. r = Inr x \<longrightarrow> Q x)) \<Longrightarrow> logs P Q c"
  unfolding logs_def by blast

lemma logs_run: "logs P Q c \<Longrightarrow> c m = (r, m') \<Longrightarrow> \<exists>more. mc_calls m' = mc_calls m @ more \<and> list_all P more"
  unfolding logs_def by blast

lemma logs_result: "logs P Q c \<Longrightarrow> c m = (Inr x, m') \<Longrightarrow> Q x"
  unfolding logs_def by blast

lemma logs_andThen:
  assumes "logs P Q c" "\<And>x. Q x \<Longrightarrow> logs P R (f x)"
  shows "logs P R (andThen c f)"
proof (rule logsI)
  fix m r m'
  assume a: "andThen c f m = (r, m')"
  obtain r1 m1 where c: "c m = (r1, m1)" by fastforce
  obtain more where more: "mc_calls m1 = mc_calls m @ more" "list_all P more" using logs_run [OF assms(1) c] by blast
  show "(\<exists>more. mc_calls m' = mc_calls m @ more \<and> list_all P more) \<and> (\<forall>x. r = Inr x \<longrightarrow> R x)"
  proof (cases r1)
    case (Inl e)
    then show ?thesis using a c more by (auto simp: andThen_def)
  next
    case (Inr x)
    then have f: "f x m1 = (r, m')" using a c by (simp add: andThen_def)
    have q: "logs P R (f x)" using assms(2) logs_result [OF assms(1)] c Inr by blast
    obtain rest where "mc_calls m' = mc_calls m1 @ rest" "list_all P rest" using logs_run [OF q f] by blast
    then show ?thesis using more logs_result [OF q] f by auto
  qed
qed

lemma logs_quiet: "(\<And>m. mc_calls (snd (c m)) = mc_calls m) \<Longrightarrow> (\<And>m x. fst (c m) = Inr x \<Longrightarrow> Q x) \<Longrightarrow> logs P Q c"
proof (rule logsI)
  fix m r m'
  assume a: "\<And>m. mc_calls (snd (c m)) = mc_calls m" "\<And>m x. fst (c m) = Inr x \<Longrightarrow> Q x" "c m = (r, m')"
  show "(\<exists>more. mc_calls m' = mc_calls m @ more \<and> list_all P more) \<and> (\<forall>x. r = Inr x \<longrightarrow> Q x)"
    using a(1) [of m] a(2) [of m] a(3) by simp
qed

lemma logs_done: "Q x \<Longrightarrow> logs P Q (done_with x)"
  by (rule logs_quiet) (simp_all add: done_with_def)

lemma logs_fail: "logs P Q (give_up e)"
  by (rule logs_quiet) (simp_all add: give_up_def)

lemma logs_asks: "(\<And>m. Q (f m)) \<Longrightarrow> logs P Q (asks f)"
  by (rule logs_quiet) (auto simp: asks_def)

lemma logs_disk: "(\<And>d x d'. io d = (Inr x, d') \<Longrightarrow> Q x) \<Longrightarrow> logs P Q (disk io)"
  by (rule logs_quiet) (auto simp: disk_def split: prod.splits sum.splits)

lemma logs_disk_any: "(\<And>x. Q x) \<Longrightarrow> logs P Q (disk io)"
  by (rule logs_disk)

lemma logs_weaken: "logs P Q c \<Longrightarrow> (\<And>x. Q x \<Longrightarrow> R x) \<Longrightarrow> logs P R c"
  by (rule logsI) (meson logs_run logs_result)

lemma logs_attempt: "logs P Q c \<Longrightarrow> (\<And>x. R (Inl x)) \<Longrightarrow> (\<And>x. Q x \<Longrightarrow> R (Inr x)) \<Longrightarrow> logs P R (attempt c)"
proof (rule logsI)
  fix m r m'
  assume a: "logs P Q c" "\<And>x. R (Inl x)" "\<And>x. Q x \<Longrightarrow> R (Inr x)" "attempt c m = (r, m')"
  then obtain r0 where r: "c m = (r0, m')" "r = Inr r0" by (auto simp: attempt_def split: prod.splits)
  show "(\<exists>more. mc_calls m' = mc_calls m @ more \<and> list_all P more) \<and> (\<forall>x. r = Inr x \<longrightarrow> R x)"
    using logs_run [OF a(1) r(1)] logs_result [OF a(1)] r a(2,3) by (cases r0) auto
qed

text \<open>A client whose calls satisfy \<open>P\<close> whatever they are.\<close>

definition trusted :: "(api_call \<Rightarrow> bool) \<Rightarrow> Client \<Rightarrow> bool" where
  "trusted P c \<longleftrightarrow> (\<forall>cl. cl_base cl = ct_BaseURL c \<longrightarrow> P cl)"

lemma newRequest_base: "newRequest c v p b = Some cl \<Longrightarrow> cl_base cl = ct_BaseURL c"
  by (auto simp: newRequest_def split: if_splits)

lemma Do_calls: "Do w c cl m = (r, m') \<Longrightarrow> mc_calls m' = mc_calls m @ [cl]"
  by (auto simp: Do_def split: prod.splits)

lemma set_header_base [simp]: "cl_base (set_header k v cl) = cl_base cl"
  by (simp add: set_header_def)

lemma JSON_calls:
  "JSON w c verb path input target zero m = (r, m') \<Longrightarrow> trusted P c \<Longrightarrow> \<exists>more. mc_calls m' = mc_calls m @ more \<and> list_all P more"
  by (auto simp: JSON_def trusted_def dest!: Do_calls newRequest_base split: option.splits prod.splits if_splits)

lemma logs_call_json: "trusted P c \<Longrightarrow> (\<And>x. Q x) \<Longrightarrow> logs P Q (call_json w c verb path input target zero)"
  by (rule logsI) (auto simp: call_json_def dest!: JSON_calls [where P = P] split: prod.splits)


lemma logs_if [logging]: "(b \<Longrightarrow> logs P Q c) \<Longrightarrow> (\<not> b \<Longrightarrow> logs P Q d) \<Longrightarrow> logs P Q (if b then c else d)"
  by simp

lemma logs_list [logging]: "(x = [] \<Longrightarrow> logs P Q c) \<Longrightarrow> (\<And>y ys. x = y # ys \<Longrightarrow> logs P Q (f y ys)) \<Longrightarrow> logs P Q (case x of [] \<Rightarrow> c | y # ys \<Rightarrow> f y ys)"
  by (cases x) simp_all

lemma logs_option [logging]: "(x = None \<Longrightarrow> logs P Q c) \<Longrightarrow> (\<And>y. x = Some y \<Longrightarrow> logs P Q (f y)) \<Longrightarrow> logs P Q (case x of None \<Rightarrow> c | Some y \<Rightarrow> f y)"
  by (cases x) simp_all

lemma logs_sum [logging]: "(\<And>y. x = Inl y \<Longrightarrow> logs P Q (f y)) \<Longrightarrow> (\<And>y. x = Inr y \<Longrightarrow> logs P Q (g y)) \<Longrightarrow> logs P Q (case x of Inl y \<Rightarrow> f y | Inr y \<Rightarrow> g y)"
  by (cases x) simp_all

lemma logs_prod [logging]: "(\<And>a b. x = (a, b) \<Longrightarrow> logs P Q (f a b)) \<Longrightarrow> logs P Q (case x of (a, b) \<Rightarrow> f a b)"
  by (cases x) simp

lemma logs_Let [logging]: "(\<And>y. y = x \<Longrightarrow> logs P Q (f y)) \<Longrightarrow> logs P Q (let y = x in f y)"
  by (simp add: Let_def)

abbreviation anything :: "'a \<Rightarrow> bool" where "anything \<equiv> \<lambda>_. True"

lemma logs_plain [logging]: "logs P anything (done_with x)" "logs P anything (give_up e)" "logs P anything (print_out o1)"
  "logs P anything (print_err s)" "logs P anything (fail_when b e)" "logs P anything (disk io)" "logs P anything (asks g)"
  by (simp_all add: logs_done logs_fail logs_disk_any logs_asks fail_when_def)
    (rule logs_quiet; simp add: print_out_def print_err_def)+

lemma logs_attempt_any [logging]: "logs P anything c \<Longrightarrow> logs P anything (attempt c)"
  by (rule logs_attempt) auto

lemma logs_call [logging]: "trusted P c \<Longrightarrow> logs P anything (call_json w c verb path input target zero)"
  "trusted P c \<Longrightarrow> logs P anything (call_map w c verb path input)"
  by (simp_all add: call_map_def logs_call_json)

section \<open>No call over plain HTTP\<close>

text \<open>An origin over TLS, or of the machine itself.\<close>

definition secure_base :: "string \<Rightarrow> bool" where
  "secure_base b \<longleftrightarrow> (\<exists>u. b = origin_text u \<and>
    (url_Scheme u = ''https'' \<or> url_Scheme u = ''http'' \<and> isLoopbackHost (hostname u)))"

lemma url_escape_host_slash: "CHR ''/'' \<notin> set (url_escape EncodeHost h)"
proof -
  have "CHR ''/'' \<notin> set (percent c)" for c
  proof -
    have "upper_hex n \<noteq> CHR ''/''" if "n < 16" for n
      using that by (auto simp: upper_hex_def char_of_def numeral_nat less_Suc_eq)
    then have h: "\<And>n. n < 16 \<Longrightarrow> CHR ''/'' \<noteq> upper_hex n" by metis
    have "(of_char c :: nat) div 16 < 16" using of_char_less [of c] by linarith
    then show ?thesis using h [of "of_char c div 16"] h [of "of_char c mod 16"] by (simp add: percent_def Let_def)
  qed
  moreover have "should_escape EncodeHost CHR ''/''" by (simp add: should_escape_def unreserved_def host_char_def)
  ultimately show ?thesis by (auto simp: url_escape_def split: if_splits)
qed


lemma origin_no_slash: "url_Host u \<noteq> '''' \<Longrightarrow> trim_suffix (origin_text u) ''/'' = origin_text u"
proof -
  assume h: "url_Host u \<noteq> ''''"
  have ne: "url_escape EncodeHost (url_Host u) \<noteq> ''''"
    using h by (cases "url_Host u") (auto simp: url_escape_def percent_def Let_def)
  define x where "x = url_escape EncodeHost (url_Host u)"
  have l: "last x \<noteq> CHR ''/''" using url_escape_host_slash [of "url_Host u"] ne last_in_set [of x] unfolding x_def by metis
  have "last (origin_text u) \<noteq> CHR ''/''" using l ne unfolding origin_text_def x_def [symmetric] by simp
  have "\<not> has_suffix (origin_text u) ''/''"
  proof
    assume a: "has_suffix (origin_text u) ''/''"
    then have "origin_text u = take (length (origin_text u) - 1) (origin_text u) @ ''/''"
      unfolding has_suffix_def by (metis One_nat_def append_take_drop_id list.size(3,4) add.commute plus_1_eq_Suc)
    then show False using \<open>last (origin_text u) \<noteq> CHR ''/''\<close> by (metis last_snoc)
  qed
  then show ?thesis by (simp add: trim_suffix_def)
qed

lemma normalize_secure:
  assumes "normalizeBaseURL q v False = Inr b"
  shows "secure_base b" "trim_suffix b ''/'' = b"
proof -
  from assms obtain u where u: "url_Host u \<noteq> ''''" "b = trim_suffix (origin_text u) ''/''"
    "url_Scheme u = ''https'' \<or> url_Scheme u = ''http'' \<and> isLoopbackHost (hostname u)"
    by (auto simp: normalizeBaseURL_def Let_def split: option.splits if_splits)
  then show "secure_base b" "trim_suffix b ''/'' = b"
    using origin_no_slash [OF u(1)] unfolding secure_base_def by auto
qed

definition secure_call :: "api_call \<Rightarrow> bool" where
  "secure_call cl \<longleftrightarrow> secure_base (cl_base cl)"

abbreviation secure_client :: "Client \<Rightarrow> bool" where "secure_client \<equiv> trusted secure_call"

lemma secure_NewClient: "normalizeBaseURL q v False = Inr b \<Longrightarrow> secure_client (NewClient w b t d)"
  using normalize_secure [of q v b] by (simp add: trusted_def secure_call_def NewClient_def)

text \<open>Nobody asks for plain HTTP.\<close>

definition no_allow_http :: "'n world \<Rightarrow> bool" where
  "no_allow_http w \<longleftrightarrow> (\<forall>decl b as fs pos. w_flags w decl b as = Inr (fs, pos) \<longrightarrow> \<not> bool_flag ''allow-http'' fs False)"

abbreviation strict_options :: "globalOptions \<Rightarrow> bool" where "strict_options o1 \<equiv> \<not> op_AllowHTTP o1"

lemma bind_strict: "strict_options o1 \<Longrightarrow> \<not> bool_flag ''allow-http'' fs False \<Longrightarrow> strict_options (captureGlobalChanges fs (bindGlobalFlags fs o1))"
  by (simp add: captureGlobalChanges_def bindGlobalFlags_def)

lemma logs_commandFlags:
  assumes "no_allow_http w" "strict_options o1"
  shows "logs P (\<lambda>(fs, pos, o2). strict_options o2) (commandFlags w decl args o1)"
proof (rule logs_quiet)
  fix m x
  assume "fst (commandFlags w decl args o1 m) = Inr x"
  then show "case x of (fs, pos, o2) \<Rightarrow> strict_options o2"
    using assms(1) bind_strict [OF assms(2)] unfolding no_allow_http_def commandFlags_def
    by (fastforce simp: give_up_def Let_def split: sum.splits prod.splits)
qed (auto simp: commandFlags_def give_up_def Let_def split: sum.splits prod.splits)

lemma bnd_result: "bnd m f c = (Inr x, c') \<Longrightarrow> \<exists>y d. m c = (Inr y, d) \<and> f y d = (Inr x, c')"
  by (auto simp: bnd_def split: prod.splits sum.splits)

lemma resolveRemote_secure:
  assumes "resolveRemote q getenv home o1 need d = (Inr config, d')" "strict_options o1"
  shows "\<exists>v. normalizeBaseURL q v False = Inr (rc_BaseURL config)"
  using assms unfolding resolveRemote_def Let_def
  by (auto simp: of_result_def ret_def dest!: bnd_result)

lemma logs_authenticated:
  assumes "strict_options o1"
  shows "logs P (\<lambda>(c, config). secure_client c) (authenticatedClient w o1)"
  unfolding authenticatedClient_def
proof (rule logs_andThen)
  show "logs P (\<lambda>config. \<exists>v. normalizeBaseURL (w_quote w) v False = Inr (rc_BaseURL config))
    (disk (resolveRemote (w_quote w) (w_env w) (w_home w) o1 True))"
    by (rule logs_disk) (rule resolveRemote_secure [OF _ assms])
next
  fix config
  assume "\<exists>v. normalizeBaseURL (w_quote w) v False = Inr (rc_BaseURL config)"
  then have "secure_client (NewClient w (rc_BaseURL config) (rc_Token config) (op_Timeout o1))" using secure_NewClient by blast
  then show "logs P (\<lambda>(c, config). secure_client c) (done_with (NewClient w (rc_BaseURL config) (rc_Token config) (op_Timeout o1), config))"
    by (intro logs_quiet) (auto simp: done_with_def)
qed

lemma loginURL_secure:
  assumes "loginURL w o1 d = (Inr b, d')" "strict_options o1"
  shows "\<exists>v. normalizeBaseURL (w_quote w) v False = Inr b"
  using assms unfolding loginURL_def by (auto simp: of_result_def dest!: bnd_result)

lemma logs_loginURL:
  "strict_options o1 \<Longrightarrow> logs P (\<lambda>b. \<exists>v. normalizeBaseURL (w_quote w) v False = Inr b) (disk (loginURL w o1))"
  by (rule logs_disk) (rule loginURL_secure)


lemma logs_anything: "logs P Q c \<Longrightarrow> logs P anything c"
  by (rule logs_weaken) auto

lemma logs_then [logging]: "logs P anything c \<Longrightarrow> (\<And>x. logs P R (f x)) \<Longrightarrow> logs P R (andThen c f)"
  by (rule logs_andThen)

lemma logs_with_flags [logging]:
  "no_allow_http w \<Longrightarrow> strict_options o1 \<Longrightarrow> (\<And>fs pos o2. strict_options o2 \<Longrightarrow> logs P R (f (fs, pos, o2))) \<Longrightarrow>
    logs P R (andThen (commandFlags w decl args o1) f)"
  by (rule logs_andThen [OF logs_commandFlags]) auto

lemma logs_with_client [logging]:
  "strict_options o1 \<Longrightarrow> (\<And>c config. secure_client c \<Longrightarrow> logs P R (f (c, config))) \<Longrightarrow> logs P R (andThen (authenticatedClient w o1) f)"
  by (rule logs_andThen [OF logs_authenticated]) auto

lemma logs_with_login [logging]:
  "strict_options o1 \<Longrightarrow> (\<And>b. secure_base b \<and> trim_suffix b ''/'' = b \<Longrightarrow> logs P R (f b)) \<Longrightarrow> logs P R (andThen (disk (loginURL w o1)) f)"
  by (rule logs_andThen [OF logs_loginURL]) (auto dest: normalize_secure)

lemma logs_with_base [logging]:
  "strict_options o1 \<Longrightarrow> (\<And>b. secure_base b \<and> trim_suffix b ''/'' = b \<Longrightarrow> logs P R (f b)) \<Longrightarrow>
    logs P R (andThen (disk (of_result (normalizeBaseURL q v (op_AllowHTTP o1)))) f)"
  by (rule logs_andThen [OF logs_disk [where Q = "\<lambda>b. secure_base b \<and> trim_suffix b ''/'' = b"]]) (auto simp: of_result_def dest: normalize_secure)

lemma secure_NewClient_base: "secure_base b \<and> trim_suffix b ''/'' = b \<Longrightarrow> secure_client (NewClient w b t d)"
  by (simp add: trusted_def secure_call_def NewClient_def)

lemma secure_timeout [simp]: "trusted P (c\<lparr>ct_Timeout := t\<rparr>) = trusted P c" "trusted P (c\<lparr>ct_Token := s\<rparr>) = trusted P c"
  by (simp_all add: trusted_def)

lemma logs_prompt [logging]: "logs P anything (prompt s)" "logs P anything (promptPassword w s)"
proof -
  show p: "logs P anything (prompt s)" for s
    by (rule logs_quiet) (auto simp: prompt_def andThen_def print_err_def split: list.splits)
  show "logs P anything (promptPassword w s)"
    unfolding promptPassword_def by (intro logging p)
qed

lemma logs_revoke [logging]: "trusted P c \<Longrightarrow> logs P anything (revoke_token w c)"
  unfolding revoke_token_def by (intro logging)

lemma logs_save [logging]: "trusted P c \<Longrightarrow> logs P anything (save_profile w c name p force)"
  unfolding save_profile_def by (intro logging) simp_all

lemma logs_password [logging]: "trusted P c \<Longrightarrow> logs P anything (password_login w c e p t)"
  unfolding password_login_def by (intro logging) simp_all

lemma logs_poll: "trusted P c \<Longrightarrow> logs P anything (poll w c s k i)"
proof (induction k arbitrary: i)
  case 0
  show ?case unfolding poll.simps by (rule logging)
next
  case (Suc k)
  show ?case
  proof (rule logsI)
    fix m r m'
    assume p: "poll w c s (Suc k) i m = (r, m')"
    let ?m = "m\<lparr>mc_net := w_wait w i (mc_net m)\<rparr>"
    obtain status headers x m1 where j: "JSON w c ''POST'' ''/api/v1/auth/google/poll'' (Some (challenge_map s)) (Some decode_login) no_login ?m
        = ((status, headers, x), m1)" by (metis prod.exhaust)
    obtain more where more: "mc_calls m1 = mc_calls m @ more" "list_all P more" using JSON_calls [OF j Suc.prems] by auto
    have "m' = m1 \<or> (\<exists>i2. poll w c s k i2 m1 = (r, m'))"
      using p j by (auto split: sum.splits if_splits)
    then show "(\<exists>more. mc_calls m' = mc_calls m @ more \<and> list_all P more) \<and> (\<forall>x. r = Inr x \<longrightarrow> True)"
    proof (elim disjE exE)
      fix i2
      assume "poll w c s k i2 m1 = (r, m')"
      then obtain rest where "mc_calls m' = mc_calls m1 @ rest" "list_all P rest" using logs_run [OF Suc.IH [OF Suc.prems]] by blast
      then show ?thesis using more by auto
    qed (use more in auto)
  qed
qed

lemma logs_cancel: "trusted P c \<Longrightarrow> logs P anything (cancel_challenge w c s)"
proof (rule logsI)
  fix m r m'
  assume a: "trusted P c" "cancel_challenge w c s m = (r, m')"
  obtain y where "JSON w c ''POST'' ''/api/v1/auth/google/cancel'' (Some (challenge_map s)) None () m = (y, m')"
    using a(2) by (metis Pair_inject cancel_challenge_def prod.collapse)
  from JSON_calls [OF this a(1)] show "(\<exists>more. mc_calls m' = mc_calls m @ more \<and> list_all P more) \<and> (\<forall>x. r = Inr x \<longrightarrow> True)" by simp
qed

lemma logs_with_cancel:
  assumes "trusted P c" "logs P anything body"
  shows "logs P anything (with_cancel w c s body)"
proof (rule logsI)
  fix m r m'
  assume a: "with_cancel w c s body m = (r, m')"
  obtain r0 m0 where b: "body m = (r0, m0)" by fastforce
  obtain more where more: "mc_calls m0 = mc_calls m @ more" "list_all P more" using logs_run [OF assms(2) b] by blast
  have "m' = m0 \<or> m' = snd (cancel_challenge w c s m0)"
    using a b by (auto simp: with_cancel_def split: sum.splits bool.splits prod.splits)
  then show "(\<exists>more. mc_calls m' = mc_calls m @ more \<and> list_all P more) \<and> (\<forall>x. r = Inr x \<longrightarrow> True)"
    using more logs_run [OF logs_cancel [OF assms(1)], of w s m0 "fst (cancel_challenge w c s m0)" "snd (cancel_challenge w c s m0)"] by auto
qed

lemma logs_google [logging]: "trusted P c \<Longrightarrow> logs P anything (googleLogin w c via t n)"
  unfolding googleLogin_def by (intro logging logs_with_cancel logs_poll) simp_all

lemma logs_replaced [logging]: "strict_options o1 \<Longrightarrow> logs secure_call anything (revoke_replaced w o1 old t)"
  unfolding revoke_replaced_def old_token_warning_def
  by (intro logging) (auto intro: secure_NewClient)

lemma logs_login [logging]: "no_allow_http w \<Longrightarrow> strict_options o1 \<Longrightarrow> logs secure_call anything (cmdLogin w args o1)"
  unfolding cmdLogin_def
  by (intro logging) (auto intro: secure_NewClient_base)


lemma logs_logout [logging]: "no_allow_http w \<Longrightarrow> strict_options o1 \<Longrightarrow> logs secure_call anything (cmdLogout w args o1)"
  unfolding cmdLogout_def no_arguments_def revoke_profile_def remove_profile_def by (intro logging) (auto intro: secure_NewClient_base)

lemma logs_whoami [logging]: "no_allow_http w \<Longrightarrow> strict_options o1 \<Longrightarrow> logs secure_call anything (cmdWhoami w args o1)"
  unfolding cmdWhoami_def no_arguments_def by (intro logging) simp_all

lemma logs_read_profiles [logging]: "logs P anything (read_profiles w ns)"
  by (induction ns) (auto intro!: logging)

lemma logs_profiles [logging]: "no_allow_http w \<Longrightarrow> strict_options o1 \<Longrightarrow> logs secure_call anything (cmdProfiles w args o1)"
  unfolding cmdProfiles_def list_profiles_def profile_updated_def by (intro logging) simp_all

lemma logs_use [logging]: "no_allow_http w \<Longrightarrow> strict_options o1 \<Longrightarrow> logs secure_call anything (cmdUse w args o1)"
  unfolding cmdUse_def by (intro logging) simp_all

lemma logs_output [logging]: "logs P anything (outputResult o1 r h)" "logs P anything (outputBooks w o1 bs n l k)"
  unfolding outputResult_def outputBooks_def by (intro logging)+

lemma logs_tokens [logging]: "no_allow_http w \<Longrightarrow> strict_options o1 \<Longrightarrow> logs secure_call anything (cmdTokens w args o1)"
  unfolding cmdTokens_def by (intro logging) simp_all

lemma logs_more_pages [logging]: "trusted P c \<Longrightarrow> logs P anything (more_pages w c bq k p acc)"
proof (induction k arbitrary: p acc)
  case 0
  show ?case by (subst more_pages.simps) (auto intro!: logging)
next
  case (Suc k)
  show ?case by (subst more_pages.simps) (auto intro!: logging Suc simp: fetchBookPage_def)
qed

lemma logs_list_books [logging]: "trusted P c \<Longrightarrow> logs P anything (list_books w c o1 bq ls l k)"
  unfolding list_books_def fetchBookPage_def by (intro logging)

lemma logs_do_call:
  assumes "trusted P c" "\<And>m. \<exists>cl. cl_base cl = ct_BaseURL c \<and> mc_calls (snd (f m)) = mc_calls m @ [cl]"
  shows "logs P anything f"
proof (rule logsI)
  fix m r m'
  assume f: "f m = (r, m')"
  obtain cl where "cl_base cl = ct_BaseURL c" "mc_calls (snd (f m)) = mc_calls m @ [cl]" using assms(2) by blast
  then show "(\<exists>more. mc_calls m' = mc_calls m @ more \<and> list_all P more) \<and> (\<forall>x. r = Inr x \<longrightarrow> True)"
    using assms(1) f by (auto simp: trusted_def)
qed

lemma logs_download [logging]: "trusted P c \<Longrightarrow> logs P anything (Download w c i)"
proof -
  assume t: "trusted P c"
  show ?thesis
  proof (cases "newRequest c ''GET'' (''/api/v1/books/'' @ path_escape i @ ''/download'') NoPayload")
    case None
    then show ?thesis by (simp add: Download_def logs_fail)
  next
    case (Some cl)
    let ?cl = "set_header ''Accept'' ''application/octet-stream'' cl"
    show ?thesis
    proof (rule logs_do_call [OF t])
      fix m
      obtain r m1 where d: "Do w c ?cl m = (r, m1)" by fastforce
      then have "snd (Download w c i m) = m1" unfolding Download_def Some option.case by (cases r) simp_all
      then show "\<exists>cl. cl_base cl = ct_BaseURL c \<and> mc_calls (snd (Download w c i m)) = mc_calls m @ [cl]"
        using Do_calls [OF d] newRequest_base [OF Some] by (intro exI [of _ ?cl]) simp
    qed
  qed
qed

lemma logs_upload [logging]: "trusted P c \<Longrightarrow> logs P anything (Upload w c f)"
proof -
  assume t: "trusted P c"
  have "logs P anything (case newRequest c ''POST'' ''/api/v1/library/books'' (BookPayload (path_base f) s) of
      None \<Rightarrow> give_up bad_url
    | Some cl \<Rightarrow> (\<lambda>m. case Do w c (set_header ''Content-Type'' ''multipart/form-data'' cl) m of (r, m') \<Rightarrow> (upload_reply r, m')))" for s
  proof (cases "newRequest c ''POST'' ''/api/v1/library/books'' (BookPayload (path_base f) s)")
    case (Some cl)
    let ?cl = "set_header ''Content-Type'' ''multipart/form-data'' cl"
    show ?thesis unfolding Some option.case
    proof (rule logs_do_call [OF t])
      fix m
      obtain r m1 where d: "Do w c ?cl m = (r, m1)" by fastforce
      show "\<exists>cl. cl_base cl = ct_BaseURL c \<and> mc_calls (snd (case Do w c ?cl m of (r, m') \<Rightarrow> (upload_reply r, m'))) = mc_calls m @ [cl]"
        using Do_calls [OF d] newRequest_base [OF Some] d by (intro exI [of _ ?cl]) simp
    qed
  qed (simp add: logs_fail)
  then show ?thesis unfolding Upload_def by (intro logs_then [OF logs_plain(6)])
qed

lemma logs_prod2 [logging]: "(\<And>a b. x = (a, b) \<Longrightarrow> logs P Q (f a b z)) \<Longrightarrow> logs P Q ((case x of (a, b) \<Rightarrow> f a b) z)"
  by (cases x) simp

lemma logs_download_book [logging]: "trusted P c \<Longrightarrow> logs P anything (downloadBook w c i t f o1)"
  unfolding downloadBook_def by (intro logging) simp_all

lemma logs_books [logging]: "no_allow_http w \<Longrightarrow> strict_options o1 \<Longrightarrow> logs secure_call anything (cmdBooks w args o1)"
  unfolding cmdBooks_def show_book_def by (intro logging) simp_all

lemma logs_upload_files [logging]: "trusted P c \<Longrightarrow> logs P anything (upload_files w c b fs)"
  by (induction fs) (auto intro!: logging)

lemma logs_library [logging]: "no_allow_http w \<Longrightarrow> strict_options o1 \<Longrightarrow> logs secure_call anything (cmdLibrary w args o1)"
  unfolding cmdLibrary_def confirm_removal_def uploadBooks_def by (intro logging) simp_all

lemma logs_users [logging]: "no_allow_http w \<Longrightarrow> strict_options o1 \<Longrightarrow> logs secure_call anything (cmdUsers w args o1)"
  unfolding cmdUsers_def list_users_def update_user_def by (intro logging) simp_all

lemma logs_settings [logging]: "no_allow_http w \<Longrightarrow> strict_options o1 \<Longrightarrow> logs secure_call anything (cmdSettings w args o1)"
  unfolding cmdSettings_def by (intro logging) simp_all

lemma logs_command: "no_allow_http w \<Longrightarrow> strict_options o1 \<Longrightarrow> logs secure_call anything (run_command w command args o1)"
  unfolding run_command_def print_usage_def by (intro logging)

lemma printError_calls: "mc_calls (snd (printError e m)) = mc_calls m"
  by (simp add: printError_def print_out_def print_err_def)

text \<open>C30: Unless a flag allows plain HTTP, no command of the client, whatever its arguments, the environment, the files and the
  answers of the network are, makes a call to anything but an HTTPS origin or plain HTTP on a loopback host.\<close>

theorem no_call_over_plain_http:
  assumes "no_allow_http w"
  shows "\<exists>more. mc_calls (snd (Run w args m)) = mc_calls m @ more \<and> list_all secure_call more"
proof -
  have strict: "strict_options no_options" by (simp add: no_options_def)
  have "logs secure_call anything (execute w args)"
  proof (cases "w_flags w (global_flags @ [(''version'', BoolFlag), (''help'', BoolFlag)]) False args")
    case (Inl e)
    then show ?thesis by (simp add: execute_def logs_fail)
  next
    case (Inr x)
    obtain fs rest where x: "x = (fs, rest)" by fastforce
    let ?o = "captureGlobalChanges fs (bindGlobalFlags fs no_options)"
    have "strict_options ?o" using bind_strict [OF strict] assms Inr x unfolding no_allow_http_def by blast
    then have r: "logs secure_call anything (run_command w c r ?o)" for c r by (rule logs_command [OF assms])
    have "logs secure_call anything (\<lambda>m. run_command w c r ?o (m\<lparr>mc_json := op_JSON ?o\<rparr>))" for c r
      by (rule logsI) (use logs_run [OF r] in fastforce)
    then show ?thesis unfolding execute_def Inr x sum.case prod.case Let_def print_usage_def by (intro logging)
  qed
  from logs_run [OF this] obtain more where "mc_calls (snd (execute w args m)) = mc_calls m @ more" "list_all secure_call more"
    by (metis prod.collapse)
  then show ?thesis by (auto simp: Run_def printError_calls split: prod.splits sum.splits)
qed

text \<open>A client whose arguments are taken as they are, without flags, and whose network is silent.\<close>

definition silent_world :: "unit world" where
  "silent_world = \<lparr>w_send = (\<lambda>_ _ n. (Refused ''no network'', n)), w_now = (\<lambda>_. 0), w_wait = (\<lambda>_ n. n), w_patience = 3,
    w_env = (\<lambda>k. if k = ''BOOKBROWSER_URL'' then ''https://books.example'' else if k = ''BOOKBROWSER_TOKEN'' then ''bb_1'' else ''''),
    w_home = ''/h'', w_hostname = ''box'', w_pid = 7, w_version = ''1'', w_terminal = None, w_browser = (\<lambda>_. None),
    w_flags = (\<lambda>_ _ args. Inr ([], args)), w_quote = id, w_fold = id, w_word = (\<lambda>_. True), w_media = (\<lambda>_. None),
    w_redacted = url_Host, w_stamp = (\<lambda>_ _. ''''), w_show = (\<lambda>_. ''''), w_float = (\<lambda>_. None), w_low = id,
    w_is_dir = (\<lambda>_. False), w_walk = (\<lambda>_ _. ([], None))\<rparr>"

definition new_machine :: "unit machine" where
  "new_machine = \<lparr>mc_disk = fresh_machine, mc_net = (), mc_calls = [], mc_out = [], mc_err = [], mc_in = [], mc_json = False\<rparr>"

theorem no_call_over_plain_http_witness:
  "\<exists>more. mc_calls (snd (Run silent_world [''whoami''] new_machine)) = mc_calls new_machine @ more \<and> list_all secure_call more"
  by (rule no_call_over_plain_http) (simp add: no_allow_http_def silent_world_def bool_flag_def)

section \<open>Tokens\<close>

definition token_call :: "Client \<Rightarrow> api_call \<Rightarrow> bool" where
  "token_call c cl \<longleftrightarrow> cl_verb cl = ''DELETE'' \<and> cl_base cl = ct_BaseURL c \<and> cl_path cl = ''/api/v1/token'' \<and>
    map_of (cl_headers cl) ''Authorization'' = Some (''Bearer '' @ ct_Token c)"

lemma revoke_call:
  assumes "parse_url (ct_BaseURL c @ ''/api/v1/token'') \<noteq> None" "ct_Token c \<noteq> ''''"
  obtains cl where "token_call c cl" "mc_calls (snd (revoke_token w c m)) = mc_calls m @ [cl]" "mc_disk (snd (revoke_token w c m)) = mc_disk m"
    "fst (revoke_token w c m) = snd (snd (JSON_reply None () (fst (w_send w (check_redirect w (ct_Origin c)) cl (mc_net m)))))"
proof -
  obtain cl where n: "newRequest c ''DELETE'' ''/api/v1/token'' NoPayload = Some cl" using assms(1) by (auto simp: newRequest_def)
  have t: "token_call c cl" using n assms(2) by (auto simp: newRequest_def token_call_def split: if_splits)
  obtain r net where s: "w_send w (check_redirect w (ct_Origin c)) cl (mc_net m) = (r, net)" by fastforce
  have "JSON w c ''DELETE'' ''/api/v1/token'' None None () m = (JSON_reply None () r, m\<lparr>mc_net := net, mc_calls := mc_calls m @ [cl]\<rparr>)"
    unfolding JSON_def option.case n by (simp add: Do_def s)
  then have "revoke_token w c m = (snd (snd (JSON_reply None () r)), m\<lparr>mc_net := net, mc_calls := mc_calls m @ [cl]\<rparr>)"
    unfolding revoke_token_def call_json_def by (cases "JSON_reply None () r") auto
  then show ?thesis using that [OF t] s by simp
qed

lemma disk_run: "disk io m = (r, m') \<Longrightarrow> mc_calls m' = mc_calls m \<and> mc_disk m' = snd (io (mc_disk m)) \<and> mc_net m' = mc_net m \<and>
    (case fst (io (mc_disk m)) of Inl e \<Rightarrow> r = Inl (Os e) | Inr x \<Rightarrow> r = Inr x)"
  by (auto simp: disk_def split: prod.splits sum.splits)

text \<open>C31: A new token is never orphaned: either its profile is on the disk, with the token in it, or the files are as before
  but for a temporary one and the last call of the client asks the server, with the new token as bearer, to revoke it.\<close>

theorem new_token_is_kept_or_revoked:
  assumes "parse_url (ct_BaseURL c @ ''/api/v1/token'') \<noteq> None" "pf_Token p \<noteq> ''''" "save_profile w c name p force m = (r, m')"
  shows "(r = Inr () \<and> (\<exists>bytes. profile_text p = Inr bytes \<and>
        map_of (tables (mc_disk m')) (profile_file (w_home w) name) = Some (owner_only, bytes))) \<or>
    (r \<noteq> Inr () \<and> only_temp (path_dir (profile_file (w_home w) name)) ''.tmp-'' (tables (mc_disk m)) (tables (mc_disk m')) \<and>
      (\<exists>cl. mc_calls m' = mc_calls m @ [cl] \<and> token_call (c\<lparr>ct_Token := pf_Token p\<rparr>) cl))"
proof -
  obtain r1 d1 where wr: "Write (w_quote w) (w_home w) name p force (mc_disk m) = (r1, d1)" by fastforce
  let ?m1 = "m\<lparr>mc_disk := d1\<rparr>" and ?c = "c\<lparr>ct_Token := pf_Token p\<rparr>"
  show ?thesis
  proof (cases r1)
    case (Inr u)
    then have "r = Inr ()" "m' = ?m1" using assms(3) wr by (auto simp: save_profile_def andThen_def attempt_def disk_def done_with_def)
    then show ?thesis using Write_run [OF wr] Inr by auto
  next
    case (Inl e)
    have pre: "parse_url (ct_BaseURL ?c @ ''/api/v1/token'') \<noteq> None" "ct_Token ?c \<noteq> ''''" using assms(1,2) by auto
    obtain cl where cl: "token_call ?c cl" "mc_calls (snd (revoke_token w ?c ?m1)) = mc_calls ?m1 @ [cl]"
      "mc_disk (snd (revoke_token w ?c ?m1)) = mc_disk ?m1" by (rule revoke_call [OF pre, of w ?m1])
    obtain r2 m2 where v: "revoke_token w ?c ?m1 = (r2, m2)" by fastforce
    have "m' = m2 \<and> r \<noteq> Inr ()"
      using assms(3) wr Inl v by (cases r2) (auto simp: save_profile_def andThen_def attempt_def disk_def give_up_def)
    then show ?thesis using cl v Write_run [OF wr] Inl by auto
  qed
qed

definition books_client :: Client where
  "books_client = NewClient silent_world ''https://books.example'' '''' 0"

lemma books_base: "ct_BaseURL books_client = ''https://books.example''"
  by (simp add: books_client_def NewClient_def trim_suffix_def has_suffix_def)

lemma books_urls:
  "parse_url (ct_BaseURL books_client @ ''/api/v1/token'') \<noteq> None"
  "parse_url (ct_BaseURL books_client @ ''/api/v1/auth/google/cancel'') \<noteq> None"
proof -
  have "parse_url ''https://books.example/api/v1/token'' \<noteq> None" "parse_url ''https://books.example/api/v1/auth/google/cancel'' \<noteq> None"
    by code_simp+
  then show "parse_url (ct_BaseURL books_client @ ''/api/v1/token'') \<noteq> None"
    "parse_url (ct_BaseURL books_client @ ''/api/v1/auth/google/cancel'') \<noteq> None" by (simp_all add: books_base)
qed

theorem new_token_is_kept_or_revoked_witness:
  "fst (save_profile silent_world books_client ''books'' sample_profile False new_machine) = Inr () \<and>
    (\<exists>bytes. profile_text sample_profile = Inr bytes \<and>
      map_of (tables (mc_disk (snd (save_profile silent_world books_client ''books'' sample_profile False new_machine))))
        (profile_file ''/h'' ''books'') = Some (owner_only, bytes))"
proof -
  obtain r m' where s: "save_profile silent_world books_client ''books'' sample_profile False new_machine = (r, m')" by fastforce
  have "fst (Write id ''/h'' ''books'' sample_profile False fresh_machine) = Inr ()" by (rule sample_write)
  then have "r = Inr ()" using s by (auto simp: save_profile_def andThen_def attempt_def disk_def done_with_def silent_world_def new_machine_def
    split: prod.splits sum.splits)
  moreover have "pf_Token sample_profile \<noteq> ''''" by (simp add: sample_profile_def)
  ultimately show ?thesis using new_token_is_kept_or_revoked [OF books_urls(1) _ s] s by (simp add: silent_world_def)
qed

section \<open>Sign-in with Google\<close>

lemma poll_completed:
  "poll w c s k i m = (Inr (lr, True), m') \<Longrightarrow>
    \<exists>m0 h. JSON w c ''POST'' ''/api/v1/auth/google/poll'' (Some (challenge_map s)) (Some decode_login) no_login m0 = ((200, h, Inr lr), m')"
proof (induction k arbitrary: i m)
  case 0
  then show ?case by (simp add: give_up_def)
next
  case (Suc k)
  let ?m = "m\<lparr>mc_net := w_wait w i (mc_net m)\<rparr>"
  obtain status h x m1 where j: "JSON w c ''POST'' ''/api/v1/auth/google/poll'' (Some (challenge_map s)) (Some decode_login) no_login ?m
    = ((status, h, x), m1)" by (metis prod.exhaust)
  show ?case
  proof (cases "\<exists>i2. poll w c s k i2 m1 = (Inr (lr, True), m')")
    case True
    then show ?thesis using Suc.IH by blast
  next
    case False
    then have "status = 200 \<and> x = Inr lr \<and> m1 = m'" using Suc.prems j by (auto split: sum.splits if_splits)
    then show ?thesis using j by blast
  qed
qed

definition cancel_call :: "Client \<Rightarrow> started \<Rightarrow> api_call \<Rightarrow> bool" where
  "cancel_call c s cl \<longleftrightarrow> cl_verb cl = ''POST'' \<and> cl_base cl = ct_BaseURL c \<and> cl_path cl = ''/api/v1/auth/google/cancel'' \<and>
    cl_payload cl = JsonPayload (challenge_map s)"

lemma cancel_challenge_call:
  assumes "parse_url (ct_BaseURL c @ ''/api/v1/auth/google/cancel'') \<noteq> None"
  shows "\<exists>cl. cancel_call c s cl \<and> mc_calls (snd (cancel_challenge w c s m)) = mc_calls m @ [cl]"
proof -
  obtain cl where n: "newRequest c ''POST'' ''/api/v1/auth/google/cancel'' (JsonPayload (challenge_map s)) = Some cl"
    using assms by (auto simp: newRequest_def)
  let ?cl = "set_header ''Content-Type'' ''application/json'' cl"
  obtain r m1 where d: "Do w c ?cl m = (r, m1)" by fastforce
  have "snd (cancel_challenge w c s m) = m1"
    unfolding cancel_challenge_def snd_conv JSON_def option.case n using d by simp
  moreover have "cancel_call c s ?cl" using n by (auto simp: newRequest_def cancel_call_def set_header_def split: if_splits)
  ultimately show ?thesis using Do_calls [OF d] by blast
qed

text \<open>C33: A Google sign-in that was started is always closed: either a poll was answered with status 200 and its response is the
  result, or the last call of the client cancels the challenge with its id and secret, whatever the server answered and
  however long it took.\<close>

theorem google_challenge_is_closed:
  assumes "parse_url (ct_BaseURL c @ ''/api/v1/auth/google/cancel'') \<noteq> None"
    "call_json w c ''POST'' ''/api/v1/auth/google/start'' (Some (string_map [(''client_name'', w_hostname w), (''token_name'', t)]))
      (Some decode_started) not_started m = (Inr s, m1)"
    "googleLogin w c via t name m = (r, m')"
  shows "(\<exists>lr m0 h. r = Inr lr \<and> JSON w c ''POST'' ''/api/v1/auth/google/poll'' (Some (challenge_map s)) (Some decode_login) no_login m0 =
      ((200, h, Inr lr), m')) \<or>
    (\<exists>before cl. mc_calls m' = before @ [cl] \<and> cancel_call c s cl)"
proof -
  obtain body where b: "with_cancel w c s body m1 = (r, m')"
    and p: "\<And>lr m2. body m1 = (Inr (lr, True), m2) \<Longrightarrow> \<exists>k i m0. poll w c s k i m0 = (Inr (lr, True), m2)"
  proof (rule that)
    show "with_cancel w c s (andThen (print_err (''Open this short-lived URL to sign in:'' @ [CHR 0x0A, CHR 0x0A] @ st_VerificationURL s @ [CHR 0x0A, CHR 0x0A] @
        ''Target profile: '' @ name @ [CHR 0x0A] @ ''Expires: '' @ w_stamp w ''Mon, 02 Jan 2006 15:04:05 MST'' (st_ExpiresAt s) @
        [CHR 0x0A] @ ''Waiting for approval; press Ctrl+C to cancel.'' @ [CHR 0x0A])) (\<lambda>_.
      andThen (case (if via = ''google-browser'' then w_browser w (st_VerificationURL s) else None) of
          None \<Rightarrow> done_with ()
        | Some e \<Rightarrow> print_err (''Warning: '' @ e @ ''; open the URL manually.'' @ [CHR 0x0A])) (\<lambda>_.
      poll w c s (w_patience w) (if seconds64 (st_Interval s) < 10 ^ 9 then 3 * 10 ^ 9 else seconds64 (st_Interval s))))) m1 = (r, m')"
      using assms(2,3) unfolding googleLogin_def andThen_def [of "call_json _ _ _ _ _ _ _"] by simp
  qed (auto simp: andThen_def done_with_def print_err_def split: prod.splits sum.splits option.splits if_splits)
  obtain r0 m0 where r0: "body m1 = (r0, m0)" by fastforce
  show ?thesis
  proof (cases "\<exists>lr. r0 = Inr (lr, True)")
    case True
    then obtain lr where lr: "r0 = Inr (lr, True)" by blast
    then have "r = Inr lr" "m' = m0" using b r0 by (simp_all add: with_cancel_def)
    then show ?thesis using p r0 lr poll_completed by blast
  next
    case False
    then have "m' = snd (cancel_challenge w c s m0)" using b r0 by (auto simp: with_cancel_def split: sum.splits bool.splits)
    then show ?thesis using cancel_challenge_call [OF assms(1), of s w m0] by (intro disjI2) blast
  qed
qed


text \<open>A server that starts a sign-in and then does not answer.\<close>

definition starting_world :: "unit world" where
  "starting_world = silent_world\<lparr>w_send := (\<lambda>_ cl n.
    (if cl_path cl = ''/api/v1/auth/google/start''
     then Answer 201 [] (indented [(''challenge_id'', ''c1''), (''poll_secret'', ''s1'')]) None None else Refused ''no network'', n))\<rparr>"

lemma indented_read:
  assumes "kvs \<noteq> []" "list_all (\<lambda>(k, v). valid_utf8 k \<and> valid_utf8 v) kvs"
  shows "json_read (indented kvs) = Some (JObj (map (\<lambda>(k, v). (k, JStr v)) kvs))"
proof -
  have l: "length kvs \<le> length (member_lines kvs)"
    using assms(1) by (induction kvs rule: member_lines.induct) auto
  obtain x xs where x: "skip_space (member_lines kvs) = CHR 0x22 # xs"
    using assms(1) by (cases kvs rule: member_lines.cases) (auto simp: json_string_def)
  have "json_members (2 * length (indented kvs)) (Suc 0) (member_lines kvs @ []) = Some (map (\<lambda>(k, v). (k, JStr v)) kvs, [])"
    by (rule json_members_lines) (use assms l in \<open>auto simp: indented_lines\<close>)
  then have "json_first (indented kvs) = Some (JObj (map (\<lambda>(k, v). (k, JStr v)) kvs), [])"
    using x assms(1) by (simp add: json_first_def json_depth_def indented_lines del: json_members.simps member_lines.simps)
  then show ?thesis by (simp add: json_read_def skip_space_def)
qed

theorem google_challenge_is_closed_witness:
  "\<exists>before cl. mc_calls (snd (googleLogin starting_world books_client ''google-link'' ''t'' ''books'' new_machine)) = before @ [cl] \<and>
    cl_path cl = ''/api/v1/auth/google/cancel''"
proof -
  let ?s = "not_started\<lparr>st_ChallengeID := ''c1'', st_PollSecret := ''s1''\<rparr>"
  let ?in = "Some (string_map [(''client_name'', w_hostname starting_world), (''token_name'', ''t'')])"
  obtain x m1 where c: "call_json starting_world books_client ''POST'' ''/api/v1/auth/google/start'' ?in (Some decode_started) not_started new_machine = (x, m1)"
    by fastforce
  have u: "parse_url (ct_BaseURL books_client @ ''/api/v1/auth/google/start'') \<noteq> None"
  proof -
    have "parse_url ''https://books.example/api/v1/auth/google/start'' \<noteq> None" by code_simp
    then show ?thesis by (simp add: books_base)
  qed
  have j: "json_read (indented [(''challenge_id'', ''c1''), (''poll_secret'', ''s1'')]) = Some (JObj [(''challenge_id'', JStr ''c1''), (''poll_secret'', JStr ''s1'')])"
    using indented_read [of "[(''challenge_id'', ''c1''), (''poll_secret'', ''s1'')]"] by (simp add: valid_utf8_ascii)
  have d: "decode_started (JObj [(''challenge_id'', JStr ''c1''), (''poll_secret'', JStr ''s1'')]) = Some ?s"
    by (simp add: decode_started_def members_def key_is_def runes_ascii fold_rune_def not_started_def)
  have l: "length (indented [(''challenge_id'', ''c1''), (''poll_secret'', ''s1'')]) \<le> maxClientResponseBytes" "indented [(''challenge_id'', ''c1''), (''poll_secret'', ''s1'')] \<noteq> ''''"
    by (simp_all add: indented_def json_string_def segs_ascii json_seg_def json_rune_def encode_rune_def maxClientResponseBytes_def)
  have "x = Inr ?s"
    using c u l unfolding call_json_def JSON_def newRequest_def Do_def
    by (simp add: starting_world_def silent_world_def new_machine_def JSON_reply_def limited_def success_def decode_reply_def j d set_header_def)
  moreover obtain r m' where g: "googleLogin starting_world books_client ''google-link'' ''t'' ''books'' new_machine = (r, m')" by fastforce
  moreover have "snd (snd (fst (JSON starting_world books_client ''POST'' ''/api/v1/auth/google/poll'' (Some (challenge_map ?s)) (Some decode_login) no_login m0))) \<noteq> Inr lr" for m0 lr
    by (auto simp: JSON_def Do_def starting_world_def JSON_reply_def bad_url_def newRequest_def set_header_def split: option.splits)
  ultimately show ?thesis using google_challenge_is_closed [OF books_urls(2) c [unfolded \<open>x = Inr ?s\<close>] g]
    unfolding cancel_call_def by (metis fst_conv snd_conv)
qed

section \<open>Where a download goes\<close>

lemma encode_rune_safe:
  assumes "c \<in> set (encode_rune r)" "(of_char c :: nat) < 0x80"
  shows "r < 0x80 \<and> c = char_of r"
proof (cases "r < 0x80")
  case True
  then show ?thesis using assms by (simp add: encode_rune_def)
next
  case False
  have "0x80 \<le> (of_char c :: nat)"
  proof -
    obtain k :: nat where k: "c = char_of k" "0x80 \<le> k" "k < 256"
    proof -
      have b: "0x80 + a mod 64 < 256" "0x80 \<le> 0x80 + a mod 64" for a :: nat
        using mod_less_divisor [of 64 a] by linarith+
      consider (a) "r < 0x800" | (b) "\<not> r < 0x800" "r > 0x10FFFF \<or> 0xD800 \<le> r \<and> r \<le> 0xDFFF"
        | (d) "\<not> r < 0x800" "\<not> (r > 0x10FFFF \<or> 0xD800 \<le> r \<and> r \<le> 0xDFFF)" "r < 0x10000"
        | (e) "\<not> r < 0x800" "\<not> (r > 0x10FFFF \<or> 0xD800 \<le> r \<and> r \<le> 0xDFFF)" "\<not> r < 0x10000" by blast
      then show ?thesis
      proof cases
        case a
        then have "r div 64 < 32" by (simp add: less_mult_imp_div_less)
        then show ?thesis using assms(1) False a that [of "0xC0 + r div 64"] that [OF _ b(2) b(1)] by (auto simp: encode_rune_def)
      next
        case b
        then show ?thesis using assms(1) False that [of "0xEF"] that [of "0xBF"] that [of "0xBD"] by (auto simp: encode_rune_def)
      next
        case d
        then have "r div 4096 < 16" by (simp add: less_mult_imp_div_less)
        then show ?thesis using assms(1) False d that [of "0xE0 + r div 4096"] that [OF _ b(2) b(1)] unfolding encode_rune_def by auto
      next
        case e
        then have "r div 262144 < 5" by (simp add: less_mult_imp_div_less)
        then show ?thesis using assms(1) False e that [of "0xF0 + r div 262144"] that [OF _ b(2) b(1)] unfolding encode_rune_def by auto
      qed
    qed
    then show ?thesis by simp
  qed
  then show ?thesis using assms(2) by simp
qed

lemma unsafe_char_gone:
  assumes "(of_char c :: nat) < 0x80" "unsafe_rune (of_char c)"
  shows "c \<notin> set (concat (map (\<lambda>r. if unsafe_rune r then ''_'' else encode_rune r) rs))"
proof
  assume "c \<in> set (concat (map (\<lambda>r. if unsafe_rune r then ''_'' else encode_rune r) rs))"
  then obtain r where r: "c \<in> set (if unsafe_rune r then ''_'' else encode_rune r)" unfolding set_concat set_map by blast
  show False
  proof (cases "unsafe_rune r")
    case True
    then have "c = CHR ''_''" using r by simp
    then show False using assms(2) by (simp add: unsafe_rune_def)
  next
    case False
    then have "r < 0x80" "c = char_of r" using encode_rune_safe [OF _ assms(1), of r] r by auto
    then show False using assms(2) False by simp
  qed
qed

lemma sanitized_name:
  shows "plain_name (sanitizeDownloadName raw)" "hd (sanitizeDownloadName raw) \<noteq> CHR ''.''"
    "(of_char c :: nat) < 0x80 \<Longrightarrow> unsafe_rune (of_char c) \<Longrightarrow> c \<notin> set (sanitizeDownloadName raw)"
proof -
  define v where "v = concat (map (\<lambda>r. if unsafe_rune r then ''_'' else encode_rune r) (runes (path_base (trim_space raw))))"
  have s: "sanitizeDownloadName raw = (if trim_chars v ''. '' = '''' then ''book-download'' else trim_chars v ''. '')"
    by (simp add: sanitizeDownloadName_def Let_def v_def)
  have g: "c \<notin> set (sanitizeDownloadName raw)" if "(of_char c :: nat) < 0x80" "unsafe_rune (of_char c)" for c
  proof -
    have "c \<notin> set (trim_chars v ''. '')" using unsafe_char_gone [OF that] set_trim_chars [of v "''. ''"] unfolding v_def by blast
    moreover have "c \<notin> set ''book-download''" using that by (auto simp: unsafe_rune_def)
    ultimately show ?thesis unfolding s by (simp del: set_simps(2))
  qed
  show "(of_char c :: nat) < 0x80 \<Longrightarrow> unsafe_rune (of_char c) \<Longrightarrow> c \<notin> set (sanitizeDownloadName raw)" by (rule g)
  have h: "hd (sanitizeDownloadName raw) \<noteq> CHR ''.''" "sanitizeDownloadName raw \<noteq> ''''"
    unfolding s using trim_chars_hd [of v "''. ''"] by auto
  then show "hd (sanitizeDownloadName raw) \<noteq> CHR ''.''" by simp
  have "CHR ''/'' \<notin> set (sanitizeDownloadName raw)" by (rule g) (simp_all add: unsafe_rune_def)
  then show "plain_name (sanitizeDownloadName raw)" using h by (auto simp: plain_name_def)
qed

lemma clean_plain: "plain_name f \<Longrightarrow> path_clean f = f"
proof -
  assume f: "plain_name f"
  then have "\<not> has_prefix f ''/''" by (cases f) (auto simp: plain_name_def has_prefix_def)
  then show ?thesis using f by (simp add: path_clean_def path_elems_def path_show_def split_char_none plain_name_def)
qed

lemma clean_clean: "clean_home h \<Longrightarrow> path_clean h = h"
  by (auto simp: path_clean_def clean_home_def)

text \<open>C37: Whatever name the server suggests, a download goes to a plain file name of the current directory that does not start
  with a dot, or to the path that was asked for, or, when that is a directory, to a plain name in it; and a file that is
  there is replaced only by force.\<close>

theorem download_stays_in_place:
  assumes "download_target w target (sanitizeDownloadName raw) force c = (Inr t, c')" "target = '''' \<or> clean_home target"
  shows "(if target = '''' then plain_name t \<and> hd t \<noteq> CHR ''.''
      else t = target \<or> (\<exists>n. plain_name n \<and> hd n \<noteq> CHR ''.'' \<and> t = target @ ''/'' @ n)) \<and>
    (force \<or> w_is_dir w t \<or> map_of (tables c) t = None)"
proof -
  let ?n = "sanitizeDownloadName raw"
  have n: "plain_name ?n" "hd ?n \<noteq> CHR ''.''" by (rule sanitized_name)+
  from bnd_result [OF assms(1) [unfolded download_target_def]] obtain t0 c0 where t0: "pick_target w target ?n c = (Inr t0, c0)"
    and r1: "(let t = path_clean t0 in bnd (os_exists t) (\<lambda>found.
      bnd (fail_if (found \<and> \<not> w_is_dir w t \<and> \<not> force) (ErrText (''output '' @ t @ '' already exists; use --force to replace it''))) (\<lambda>_. ret t))) c0 = (Inr t, c')"
    by blast
  from bnd_result [OF r1 [unfolded Let_def]] obtain found c1 where f: "os_exists (path_clean t0) c0 = (Inr found, c1)"
    and r2: "bnd (fail_if (found \<and> \<not> w_is_dir w (path_clean t0) \<and> \<not> force)
      (ErrText (''output '' @ path_clean t0 @ '' already exists; use --force to replace it''))) (\<lambda>_. ret (path_clean t0)) c1 = (Inr t, c')" by blast
  have t: "t = path_clean t0" "\<not> (found \<and> \<not> w_is_dir w t \<and> \<not> force)"
    using r2 by (auto simp: fail_if_def ret_def throw_def bnd_def split: if_splits)
  have tabs: "tables c0 = tables c" and shape: "target = '''' \<Longrightarrow> t0 = ?n" "target \<noteq> '''' \<Longrightarrow> t0 = target \<or> t0 = path_join [target, ?n]"
    using t0 by (auto simp: pick_target_def ret_def handle_def bnd_def tick_def split: if_splits list.splits)
  have "found = (map_of (tables c) t \<noteq> None)" using os_exists_run [OF f] tabs t(1) by simp
  then have r: "force \<or> w_is_dir w t \<or> map_of (tables c) t = None" using t(2) by blast
  show ?thesis
  proof (cases "target = ''''")
    case True
    then show ?thesis using r t(1) shape(1) clean_plain [OF n(1)] n by simp
  next
    case False
    then have h: "clean_home target" using assms(2) by simp
    have "t = target \<or> t = target @ ''/'' @ ?n"
      using shape(2) [OF False] t(1) clean_clean [OF h] path_join_child [OF h n(1)] clean_clean [OF path_join_child(2) [OF h n(1)]] by auto
    then show ?thesis using False r n by auto
  qed
qed

theorem download_stays_in_place_witness:
  "plain_name ''etc_passwd'' \<and> hd ''etc_passwd'' \<noteq> CHR ''.''"
proof -
  have "sanitizeDownloadName ''../..etc:passwd.'' = ''etc_passwd''"
    by (simp add: sanitizeDownloadName_def path_base_def trim_space_ascii trim_ascii_def is_space_def runes_ascii unsafe_rune_def encode_rune_def trim_chars_def char_of_def bit_0)
  then have "download_target silent_world '''' (sanitizeDownloadName ''../..etc:passwd.'') False fresh_machine = (Inr ''etc_passwd'', fresh_machine)"
    using clean_plain [of "''etc_passwd''"]
    by (simp add: download_target_def pick_target_def os_exists_def query_def tick_def fresh_machine_def fail_if_def ret_def plain_name_def bnd_def Let_def)
  from download_stays_in_place [OF this] show ?thesis by simp
qed

end
