(* ===== verification/CliListFacts.thy ===== *)
theory CliListFacts
  imports CliFacts ApiCatalogue
begin

text \<open>
The command-line client against the server: listing the whole catalogue page by page, and signing out.
\<close>

section \<open>Listing the whole catalogue\<close>

text \<open>The server gives pages of the same list.\<close>

definition serves :: "'n world \<Rightarrow> Client \<Rightarrow> book_query \<Rightarrow> cliBook list \<Rightarrow> bool" where
  "serves w c bq bs \<longleftrightarrow> (\<forall>m offset. 0 \<le> offset \<and> (offset = 0 \<or> offset < int (length bs)) \<longrightarrow>
    (\<exists>m'. fetchBookPage w c bq maxBookPage offset m =
      (Inr \<lparr>pg_Items = page_of offset maxBookPage bs, pg_Limit = maxBookPage, pg_Offset = offset, pg_Total = int (length bs)\<rparr>, m')))"

definition served_page :: "cliBook list \<Rightarrow> nat \<Rightarrow> book_page" where
  "served_page bs n = \<lparr>pg_Items = page_of (int n) maxBookPage bs, pg_Limit = maxBookPage, pg_Offset = int n, pg_Total = int (length bs)\<rparr>"

lemma sint_small: "0 \<le> x \<Longrightarrow> x < 2 ^ 63 \<Longrightarrow> sint (word_of_int x :: 64 word) = x"
proof -
  assume a: "0 \<le> x" "x < 2 ^ 63"
  have "signed_take_bit 63 x = x" by (rule signed_take_bit_int_eq_self) (use a in simp_all)
  then show ?thesis by (simp add: signed_of_int)
qed

lemma next_served: "n \<le> length bs \<Longrightarrow> length bs < 2 ^ 63 \<Longrightarrow> next_page (served_page bs n) = int (min (n + 200) (length bs))"
proof -
  assume a: "n \<le> length bs" "length bs < 2 ^ 63"
  have l: "int n + int (length (page_of (int n) maxBookPage bs)) = int (min (n + 200) (length bs))"
  proof -
    have "length (page_of (int n) maxBookPage bs) = min 200 (length bs - n)" by (simp add: page_of_eq maxBookPage_def min.commute)
    then show ?thesis using a(1) by linarith
  qed
  show ?thesis unfolding next_page_def served_page_def book_page.simps l by (rule sint_small) (use a in auto)
qed

lemma more_pages_served:
  assumes "serves w c bq bs" "length bs < 2 ^ 63"
  shows "n \<le> length bs \<Longrightarrow> length bs \<le> n + 200 * (k + 1) \<Longrightarrow>
    \<exists>m'. more_pages w c bq k (served_page bs n) (take (n + 200) bs) m = (Inr (bs, int (length bs)), m')"
proof (induction k arbitrary: n m)
  case 0
  then have "next_page (served_page bs n) = int (length bs)" using next_served [OF 0(1) assms(2)] by (simp add: min_def)
  then show ?case using 0 by (subst more_pages.simps) (simp add: served_page_def done_with_def)
next
  case (Suc k)
  show ?case
  proof (cases "length bs \<le> n + 200")
    case True
    then have "next_page (served_page bs n) = int (length bs)" using next_served [OF Suc.prems(1) assms(2)] by (simp add: min_def)
    then show ?thesis using True by (subst more_pages.simps) (simp add: served_page_def done_with_def)
  next
    case False
    then have np: "next_page (served_page bs n) = int (n + 200)" using next_served [OF Suc.prems(1) assms(2)] by (simp add: min_def)
    obtain m1 where f: "fetchBookPage w c bq maxBookPage (int (n + 200)) m = (Inr (served_page bs (n + 200)), m1)"
      using assms(1) False unfolding serves_def served_page_def by (metis not_le of_nat_0_le_iff of_nat_less_iff)
    have "page_of (int n) maxBookPage bs \<noteq> []" using False by (simp add: page_of_eq maxBookPage_def)
    then have s: "more_pages w c bq (Suc k) (served_page bs n) (take (n + 200) bs) m =
      more_pages w c bq k (served_page bs (n + 200)) (take (n + 200) bs @ pg_Items (served_page bs (n + 200))) m1"
      using np f False by (subst more_pages.simps) (simp add: served_page_def andThen_def)
    have "take (n + 200) bs @ pg_Items (served_page bs (n + 200)) = take (n + 200 + 200) bs"
      using take_add [of "n + 200" 200 bs] by (simp add: served_page_def page_of_eq maxBookPage_def nat_int_add del: of_nat_add)
    then show ?thesis unfolding s using Suc.IH [of "n + 200" m1] Suc.prems False by simp
  qed
qed

text \<open>C38: Without a limit, \<open>books list\<close> shows every matching book exactly once and in the server's order, when the server gives
  pages of one list and has no more pages than the client's patience allows; the pages are those of the API's own paging.\<close>

theorem books_list_is_complete:
  assumes "serves w c bq bs" "length bs < 2 ^ 63" "length bs \<le> 200 * (w_patience w + 1)"
  shows "\<exists>m'. list_books w c options bq False limit 0 m = outputBooks w options bs (int (length bs)) (int (length bs)) 0 m'"
proof -
  obtain m1 where f: "fetchBookPage w c bq maxBookPage 0 m = (Inr (served_page bs 0), m1)"
    using assms(1) unfolding serves_def served_page_def by fastforce
  obtain m2 where "more_pages w c bq (w_patience w) (served_page bs 0) (take 200 bs) m1 = (Inr (bs, int (length bs)), m2)"
    using more_pages_served [OF assms(1,2), of 0 "w_patience w" m1] assms(3) by auto
  moreover have "pg_Items (served_page bs 0) = take 200 bs" by (simp add: served_page_def page_of_eq [of 0, simplified] maxBookPage_def)
  ultimately show ?thesis using f by (auto simp: list_books_def andThen_def)
qed

text \<open>A server with one book; the text of its page has double quotes for the marks \<open>#\<close>.\<close>

definition one_page :: string where
  "one_page = map (\<lambda>c. if c = CHR ''#'' then CHR 0x22 else c) ''{#items#:[{#id#:#b1#}],#limit#:200,#offset#:0,#total#:1}''"

definition one_book_world :: "unit world" where
  "one_book_world = silent_world\<lparr>w_send := (\<lambda>_ _ n. (Answer 200 [] one_page None None, n))\<rparr>"

definition any_books :: book_query where
  "any_books = \<lparr>bq_sort = ''modified-desc'', bq_query = '''', bq_author = '''', bq_series = '''', bq_format = ''''\<rparr>"

lemma one_page_read: "json_read one_page = Some (JObj [(''items'', JArr [JObj [(''id'', JStr ''b1'')]]), (''limit'', JNum ''200''),
    (''offset'', JNum ''0''), (''total'', JNum ''1'')])"
  by (simp add: one_page_def json_eval numeral_eq_Suc del: json_chars.simps(3))

lemma one_page_decoded: "decode_page f (JObj [(''items'', JArr [JObj [(''id'', JStr ''b1'')]]), (''limit'', JNum ''200''),
    (''offset'', JNum ''0''), (''total'', JNum ''1'')]) = Some \<lparr>pg_Items = [no_book\<lparr>cb_ID := ''b1''\<rparr>], pg_Limit = 200, pg_Offset = 0, pg_Total = 1\<rparr>"
  by (simp add: decode_page_def members_def key_is_def runes_ascii fold_rune_def set_slice_def set_book_def atoi_def has_prefix_def digit_val_def no_book_def)

lemma one_book_served: "serves one_book_world books_client any_books [no_book\<lparr>cb_ID := ''b1''\<rparr>]"
  unfolding serves_def
proof (intro allI impI)
  fix m :: "unit machine" and offset :: int
  assume "0 \<le> offset \<and> (offset = 0 \<or> offset < int (length [no_book\<lparr>cb_ID := ''b1''\<rparr>]))"
  then have o: "offset = 0" by auto
  have u: "parse_url (ct_BaseURL books_client @ page_path any_books 200 0) \<noteq> None"
    unfolding books_base by code_simp
  have l: "length one_page < 100" by (simp add: one_page_def)
  have d: "limited one_page None = Inr one_page" "one_page \<noteq> ''''" using l by (simp add: limited_def maxClientResponseBytes_def, simp add: one_page_def)
  obtain cl where cl: "newRequest books_client ''GET'' (page_path any_books 200 0) NoPayload = Some cl" using u by (auto simp: newRequest_def)
  show "\<exists>m'. fetchBookPage one_book_world books_client any_books maxBookPage offset m =
      (Inr \<lparr>pg_Items = page_of offset maxBookPage [no_book\<lparr>cb_ID := ''b1''\<rparr>], pg_Limit = maxBookPage, pg_Offset = offset,
        pg_Total = int (length [no_book\<lparr>cb_ID := ''b1''\<rparr>])\<rparr>, m')"
    unfolding fetchBookPage_def call_json_def JSON_def option.case maxBookPage_def o cl Do_def
    by (simp add: one_book_world_def JSON_reply_def d success_def decode_reply_def one_page_read one_page_decoded page_of_def)
qed

theorem books_list_is_complete_witness:
  "\<exists>m'. list_books one_book_world books_client no_options any_books False 50 0 new_machine =
    outputBooks one_book_world no_options [no_book\<lparr>cb_ID := ''b1''\<rparr>] 1 1 0 m'"
  using books_list_is_complete [OF one_book_served, of no_options 50 new_machine] by simp

section \<open>Signing out\<close>

lemma andThen_cases:
  "andThen c f m = (r, m') \<Longrightarrow> (\<And>e. c m = (Inl e, m') \<Longrightarrow> r = Inl e \<Longrightarrow> P) \<Longrightarrow>
    (\<And>x m1. c m = (Inr x, m1) \<Longrightarrow> f x m1 = (r, m') \<Longrightarrow> P) \<Longrightarrow> P"
  by (auto simp: andThen_def split: prod.splits sum.splits)

definition same_files :: "'n machine \<Rightarrow> 'n machine \<Rightarrow> bool" where
  "same_files m m' \<longleftrightarrow> map_of (tables (mc_disk m')) = map_of (tables (mc_disk m))"

lemma same_files_refl [simp]: "same_files m m"
  by (simp add: same_files_def)

lemma same_files_trans: "same_files a b \<Longrightarrow> same_files b c \<Longrightarrow> same_files a c"
  by (simp add: same_files_def)

definition reads :: "('n, 'a) cmd \<Rightarrow> bool" where
  "reads c \<longleftrightarrow> (\<forall>m. same_files m (snd (c m)))"

lemma reads_run: "reads c \<Longrightarrow> c m = (r, m') \<Longrightarrow> same_files m m'"
  unfolding reads_def by (metis snd_conv)

lemma reads_basic: "reads (done_with x)" "reads (give_up e)" "reads (fail_when b e)" "reads (commandFlags w d args o1)" "reads (print_out o2)"
  by (auto simp: reads_def done_with_def give_up_def fail_when_def commandFlags_def print_out_def same_files_def Let_def split: sum.splits prod.splits)

lemma reads_disk: "(\<And>d. map_of (tables (snd (io d))) = map_of (tables d)) \<Longrightarrow> reads (disk io)"
  by (auto simp: reads_def same_files_def disk_def split: prod.splits) (metis snd_conv)

lemma Current_tables: "tables (snd (Current q home d)) = tables d"
proof -
  obtain r d' where o1: "os_read (currentPath home) d = (r, d')" by fastforce
  then show ?thesis using os_read_run [OF o1]
    by (auto simp: Current_def handle_def bnd_def ret_def throw_def validateProfileName_def fail_if_def Let_def split: sum.splits)
qed

lemma Read_tables: "tables (snd (Read q home n d)) = tables d"
  using Read_run by (metis prod.collapse)

lemma JSON_disk: "mc_disk (snd (JSON w c verb path input target zero m)) = mc_disk m"
  by (auto simp: JSON_def Do_def split: option.splits prod.splits)

lemma reads_call: "reads (call_json w c verb path input target zero)"
proof -
  have "snd (call_json w c verb path input target zero m) = snd (JSON w c verb path input target zero m)" for m
    by (simp add: call_json_def split: prod.splits)
  then show ?thesis unfolding reads_def same_files_def JSON_disk by (simp add: JSON_disk)
qed


lemma revoke_reads: "reads (attempt (revoke_token w c))"
proof -
  have "snd (attempt (revoke_token w c) m) = snd (revoke_token w c m)" for m by (simp add: attempt_def split: prod.splits)
  then show ?thesis using reads_call [of w c "''DELETE''" "''/api/v1/token''" None None "()"] by (simp add: reads_def revoke_token_def)
qed

lemma revoke_profile_reads: "reads (revoke_profile w o2 p)"
  unfolding reads_def
proof
  fix m :: "'a machine"
  obtain r1 m1 where "disk (of_result (normalizeBaseURL (w_quote w) (pf_BaseURL p) (op_AllowHTTP o2))) m = (r1, m1)" by fastforce
  note d = this
  then have m1: "same_files m m1" by (auto simp: disk_def of_result_def same_files_def split: prod.splits)
  show "same_files m (snd (revoke_profile w o2 p m))"
  proof (cases r1)
    case (Inl x)
    then show ?thesis using d m1 by (simp add: revoke_profile_def andThen_def)
  next
    case (Inr base)
    obtain r2 m2 where t: "attempt (revoke_token w (NewClient w base (pf_Token p) (op_Timeout o2))) m1 = (r2, m2)" by fastforce
    have "same_files m m2" using reads_run [OF revoke_reads t] m1 same_files_trans by blast
    then show ?thesis using d Inr t by (auto simp: revoke_profile_def andThen_def give_up_def done_with_def attempt_def split: sum.splits prod.splits)
  qed
qed

text \<open>A step that only reads is passed with the files as they were.\<close>

lemma goes_on:
  assumes "andThen c f m = (r, m')" "\<not> same_files m m'" "reads c"
  obtains x m1 where "c m = (Inr x, m1)" "same_files m m1" "f x m1 = (r, m')" "\<not> same_files m1 m'"
  using assms reads_run [OF assms(3)] same_files_trans by (elim andThen_cases) blast+

lemma disk_InrE:
  assumes "disk io m = (Inr x, m1)"
  obtains d where "io (mc_disk m) = (Inr x, d)" "m1 = m\<lparr>mc_disk := d\<rparr>"
  using assms by (auto simp: disk_def split: prod.splits sum.splits)

lemma Current_Inr: "Current q home c = (Inr n, c') \<Longrightarrow> n = current_target home (tables c)"
  by (auto simp: Current_def current_target_def os_read_def query_def tick_def handle_def bnd_def ret_def throw_def validateProfileName_def
      fail_if_def Let_def trim_space_ascii trim_ascii_def is_space_def not_exist_def split: list.splits sum.splits option.splits if_splits prod.splits)

lemma Read_Inr:
  "Read q home n c = (Inr (Some p), c') \<Longrightarrow>
    profile_name_ok n \<and> (\<exists>mode s. map_of (tables c) (profile_file home n) = Some (mode, s) \<and> parse_profile s = Some p)"
  by (auto simp: Read_def profilePath_def validateProfileName_def fail_if_def os_read_def query_def tick_def handle_def bnd_def ret_def throw_def
      split: list.splits sum.splits option.splits if_splits prod.splits)

text \<open>A revocation that succeeds is one call, answered with a success.\<close>

lemma revoke_token_Inr:
  assumes "revoke_token w c m = (Inr (), m')"
  shows "\<exists>call st hs body x y n'. newRequest c ''DELETE'' ''/api/v1/token'' NoPayload = Some call \<and>
    w_send w (check_redirect w (ct_Origin c)) call (mc_net m) = (Answer st hs body x y, n') \<and> success st \<and>
    m' = m\<lparr>mc_net := n', mc_calls := mc_calls m @ [call]\<rparr>"
proof -
  obtain call where call: "newRequest c ''DELETE'' ''/api/v1/token'' NoPayload = Some call"
    using assms by (auto simp: revoke_token_def call_json_def JSON_def split: option.splits)
  obtain r n' where s: "w_send w (check_redirect w (ct_Origin c)) call (mc_net m) = (r, n')" by fastforce
  then have m': "m' = m\<lparr>mc_net := n', mc_calls := mc_calls m @ [call]\<rparr>" and r: "snd (snd (JSON_reply None () r)) = Inr ()"
    using assms call by (auto simp: revoke_token_def call_json_def JSON_def Do_def split: prod.splits)
  then obtain st hs body x y where "r = Answer st hs body x y" "success st"
    by (cases r) (auto simp: JSON_reply_def split: sum.splits if_splits)
  then show ?thesis using call s m' by blast
qed

lemma revoke_profile_Inr:
  assumes "revoke_profile w o2 p m = (Inr u, m')"
  shows "\<exists>base. normalizeBaseURL (w_quote w) (pf_BaseURL p) (op_AllowHTTP o2) = Inr base \<and>
    revoke_token w (NewClient w base (pf_Token p) (op_Timeout o2)) m = (Inr (), m')"
  using assms by (auto simp: revoke_profile_def andThen_def disk_def of_result_def attempt_def give_up_def done_with_def
    split: sum.splits prod.splits)

text \<open>Removing a profile touches its file and the pointer, and no other file that was there.\<close>

lemma only_temp_kept: "only_temp dir prefix fs fs' \<Longrightarrow> map_of fs q \<noteq> None \<Longrightarrow> map_of fs' q = map_of fs q"
  by (auto simp: only_temp_def)

lemma SetCurrent_kept:
  assumes "SetCurrent q home n c = (r, c')" "map_of (tables c) f \<noteq> None" "f \<noteq> currentPath home"
  shows "map_of (tables c') f = map_of (tables c) f"
  using SetCurrent_run [OF assms(1)] only_temp_kept [OF _ assms(2)] assms(3) by (cases r) auto

lemma current_or_none_tables: "current_or_none q home c = (r, c') \<Longrightarrow> tables c' = tables c"
  using Current_tables [of q home c] by (auto simp: current_or_none_def handle_def ret_def split: prod.splits sum.splits)

lemma select_next_kept:
  assumes "bnd (ListProfiles home) (\<lambda>names. case names of [] \<Rightarrow> clearCurrent home | n # _ \<Rightarrow> SetCurrent q home n) c = (r, c')"
    and "f \<noteq> currentPath home"
  shows "map_of (tables c) f \<noteq> None \<Longrightarrow> map_of (tables c') f = map_of (tables c) f"
    and "map_of (tables c) f = None \<Longrightarrow> r = Inr u \<Longrightarrow> map_of (tables c') f = None"
proof -
  from assms(1) consider "tables c' = tables c" "r \<noteq> Inr u"
    | d where "tables d = tables c" "clearCurrent home d = (r, c')"
    | d n where "tables d = tables c" "SetCurrent q home n d = (r, c')"
  proof -
    obtain r0 d where l: "ListProfiles home c = (r0, d)" by fastforce
    then have d: "tables d = tables c" by (auto simp: ListProfiles_def query_def dest!: tick_files elim!: cli_io_cases)
    show thesis
    proof (cases r0)
      case (Inl x)
      then show thesis using l d assms(1) that(1) by (auto simp: bnd_def)
    next
      case (Inr ns)
      then show thesis using l d assms(1) that(2,3) by (cases ns) (auto simp: bnd_def)
    qed
  qed
  then have "(map_of (tables c) f \<noteq> None \<longrightarrow> map_of (tables c') f = map_of (tables c) f) \<and>
      (map_of (tables c) f = None \<longrightarrow> r = Inr u \<longrightarrow> map_of (tables c') f = None)"
  proof cases
    case 1
    then show ?thesis by simp
  next
    case (2 d)
    obtain r1 c1 where o: "os_remove (currentPath home) d = (r1, c1)" by fastforce
    then have "c' = c1" using 2(2) by (auto simp: clearCurrent_def handle_def ret_def throw_def split: sum.splits if_splits)
    then show ?thesis using os_remove_run [OF o] 2(1) assms(2) by auto
  next
    case (3 d n)
    then show ?thesis using SetCurrent_kept [OF 3(2), of f] SetCurrent_run [OF 3(2)] assms(2) by auto
  qed
  then show "map_of (tables c) f \<noteq> None \<Longrightarrow> map_of (tables c') f = map_of (tables c) f"
    "map_of (tables c) f = None \<Longrightarrow> r = Inr u \<Longrightarrow> map_of (tables c') f = None" by blast+
qed

lemma Remove_kept:
  assumes h: "clean_home home" and run: "Remove q home n c = (r, c')"
  shows "f \<noteq> profile_file home n \<Longrightarrow> f \<noteq> currentPath home \<Longrightarrow> map_of (tables c) f \<noteq> None \<Longrightarrow>
      map_of (tables c') f = map_of (tables c) f"
    and "r = Inr u \<Longrightarrow> map_of (tables c') (profile_file home n) = None"
proof -
  let ?file = "profile_file home n"
  have "(\<forall>f. f \<noteq> ?file \<and> f \<noteq> currentPath home \<and> map_of (tables c) f \<noteq> None \<longrightarrow> map_of (tables c') f = map_of (tables c) f)
    \<and> (r = Inr u \<longrightarrow> map_of (tables c') ?file = None)"
  proof (cases "profile_name_ok n")
    case False
    then show ?thesis using run by (auto simp: Remove_def profilePath_def validateProfileName_def fail_if_def bnd_def throw_def)
  next
    case True
    obtain r1 c1 where rm: "os_remove ?file c = (r1, c1)" by fastforce
    show ?thesis
    proof (cases r1)
      case (Inl x)
      then have "r \<noteq> Inr u" "c' = c1" using run rm True
        by (auto simp: Remove_def profilePath_def validateProfileName_def fail_if_def bnd_def handle_def throw_def ret_def)
      then show ?thesis using os_remove_run [OF rm] Inl by simp
    next
      case (Inr u1)
      then have c1: "map_of (tables c1) = (map_of (tables c))(?file := None)" using os_remove_run [OF rm] by auto
      obtain r2 c2 where cu: "current_or_none q home c1 = (r2, c2)" by fastforce
      then have c2: "tables c2 = tables c1" by (rule current_or_none_tables)
      have p: "?file \<noteq> currentPath home" by (rule current_not_profile [OF h True, THEN not_sym])
      from run rm Inr True cu consider "c' = c2"
        | "bnd (ListProfiles home) (\<lambda>names. case names of [] \<Rightarrow> clearCurrent home | n # _ \<Rightarrow> SetCurrent q home n) c2 = (r, c')"
        by (auto simp: Remove_def profilePath_def validateProfileName_def fail_if_def bnd_def handle_def ret_def split: sum.splits if_splits)
      then show ?thesis
      proof cases
        case 1
        then show ?thesis by (simp add: c2 c1)
      next
        case 2
        have "map_of (tables c') f = map_of (tables c) f" if "f \<noteq> ?file" "f \<noteq> currentPath home" "map_of (tables c) f \<noteq> None" for f
          using select_next_kept(1) [OF 2 that(2)] that by (simp add: c2 c1)
        moreover have "r = Inr u \<longrightarrow> map_of (tables c') ?file = None" using select_next_kept(2) [OF 2 p] by (simp add: c2 c1)
        ultimately show ?thesis by blast
      qed
    qed
  qed
  then show "f \<noteq> ?file \<Longrightarrow> f \<noteq> currentPath home \<Longrightarrow> map_of (tables c) f \<noteq> None \<Longrightarrow> map_of (tables c') f = map_of (tables c) f"
    "r = Inr u \<Longrightarrow> map_of (tables c') ?file = None" by blast+
qed

lemma remove_profile_run:
  "remove_profile w o2 b n m = (r, m') \<Longrightarrow> \<exists>r1. Remove (w_quote w) (w_home w) n (mc_disk m) = (r1, mc_disk m') \<and>
    mc_calls m' = mc_calls m \<and> (r = Inr () \<longrightarrow> r1 = Inr ())"
  by (auto simp: remove_profile_def andThen_def disk_def print_out_def split: prod.splits sum.splits)

text \<open>The steps of a sign-out that changed a file.\<close>

lemma logout_steps:
  fixes w :: "'n world" and m m' :: "'n machine"
  assumes run: "cmdLogout w args o1 m = (r, m')" and changed: "\<not> same_files m m'"
    and flags: "w_flags w (global_flags @ [(''local-only'', BoolFlag)]) True args = Inr (fs, pos)" "\<not> bool_flag ''local-only'' fs False"
  defines "o2 \<equiv> captureGlobalChanges fs (bindGlobalFlags fs o1)"
  obtains m0 d1 d2 p m3 name where "m0 = m\<lparr>mc_json := op_JSON o2\<rparr>"
    "if op_profileSet o2 then name = op_Profile o2 \<and> d1 = mc_disk m else Current (w_quote w) (w_home w) (mc_disk m) = (Inr name, d1)"
    "Read (w_quote w) (w_home w) name d1 = (Inr (Some p), d2)"
    "revoke_profile w o2 p (m0\<lparr>mc_disk := d2\<rparr>) = (Inr (), m3)" "remove_profile w o2 False name m3 = (r, m')"
proof -
  define m0 where "m0 = m\<lparr>mc_json := op_JSON o2\<rparr>"
  define named :: "('n, string) cmd" where "named = (if op_profileSet o2 then done_with (op_Profile o2) else disk (Current (w_quote w) (w_home w)))"
  have d: "reads (disk (Read (w_quote w) (w_home w) n))" "reads named" for n
    unfolding named_def by (auto intro!: reads_disk reads_basic simp: Read_tables Current_tables)
  have r0: "andThen (no_arguments ''logout'' pos) (\<lambda>_. andThen named (\<lambda>name. andThen (fail_when (name = '''') (Plain ''no active profile'')) (\<lambda>_.
      andThen (disk (Read (w_quote w) (w_home w) name)) (\<lambda>found. case found of None \<Rightarrow> give_up (Os (no_profile (w_quote w) name))
      | Some p \<Rightarrow> andThen (revoke_profile w o2 p) (\<lambda>_. remove_profile w o2 False name))))) m0 = (r, m')"
    using run flags by (simp add: cmdLogout_def commandFlags_def andThen_def [of "\<lambda>m. (Inr x, h m)" for x h] Let_def o2_def [symmetric]
      m0_def named_def cong: option.case_cong)
  have s0: "\<not> same_files m0 m'" using changed by (simp add: m0_def same_files_def)
  from r0 s0 obtain u1 m1 where 1: "no_arguments ''logout'' pos m0 = (Inr u1, m1)" "andThen named (\<lambda>name. andThen (fail_when (name = '''') (Plain ''no active profile'')) (\<lambda>_.
      andThen (disk (Read (w_quote w) (w_home w) name)) (\<lambda>found. case found of None \<Rightarrow> give_up (Os (no_profile (w_quote w) name))
      | Some p \<Rightarrow> andThen (revoke_profile w o2 p) (\<lambda>_. remove_profile w o2 False name)))) m1 = (r, m')" "\<not> same_files m1 m'"
    by (rule goes_on) (simp add: no_arguments_def reads_basic)
  have m1: "m1 = m0" using 1(1) by (auto simp: no_arguments_def fail_when_def give_up_def done_with_def split: if_splits)
  from 1(2,3) d(2) obtain name m2 where 2: "named m0 = (Inr name, m2)" "andThen (fail_when (name = '''') (Plain ''no active profile'')) (\<lambda>_.
      andThen (disk (Read (w_quote w) (w_home w) name)) (\<lambda>found. case found of None \<Rightarrow> give_up (Os (no_profile (w_quote w) name))
      | Some p \<Rightarrow> andThen (revoke_profile w o2 p) (\<lambda>_. remove_profile w o2 False name))) m2 = (r, m')" "\<not> same_files m2 m'"
    unfolding m1 by (rule goes_on)
  from 2(2,3) reads_basic(3) obtain u2 m2' where 3: "fail_when (name = '''') (Plain ''no active profile'') m2 = (Inr u2, m2')"
      "andThen (disk (Read (w_quote w) (w_home w) name)) (\<lambda>found. case found of None \<Rightarrow> give_up (Os (no_profile (w_quote w) name))
      | Some p \<Rightarrow> andThen (revoke_profile w o2 p) (\<lambda>_. remove_profile w o2 False name)) m2' = (r, m')" "\<not> same_files m2' m'"
    by (rule goes_on)
  have m2': "m2' = m2" using 3(1) by (auto simp: fail_when_def give_up_def done_with_def split: if_splits)
  obtain d1 where d1: "m2 = m0\<lparr>mc_disk := d1\<rparr>"
    "if op_profileSet o2 then name = op_Profile o2 \<and> d1 = mc_disk m else Current (w_quote w) (w_home w) (mc_disk m) = (Inr name, d1)"
    using 2(1) by (auto simp: named_def done_with_def m0_def elim!: disk_InrE split: if_splits)
  from 3(2,3) d(1) obtain found m4 where 4: "disk (Read (w_quote w) (w_home w) name) m2 = (Inr found, m4)"
      "(case found of None \<Rightarrow> give_up (Os (no_profile (w_quote w) name))
      | Some p \<Rightarrow> andThen (revoke_profile w o2 p) (\<lambda>_. remove_profile w o2 False name)) m4 = (r, m')" "\<not> same_files m4 m'"
    unfolding m2' by (rule goes_on)
  obtain p where p: "found = Some p" using 4(2,3) by (cases found) (auto simp: give_up_def)
  obtain d2 where d2: "Read (w_quote w) (w_home w) name d1 = (Inr (Some p), d2)" "m4 = m0\<lparr>mc_disk := d2\<rparr>"
    using 4(1) p d1(1) by (auto elim!: disk_InrE)
  from 4(2,3) revoke_profile_reads obtain u3 m3 where 5: "revoke_profile w o2 p m4 = (Inr u3, m3)" "remove_profile w o2 False name m3 = (r, m')"
    unfolding p option.case by (rule goes_on)
  show thesis by (rule that [OF m0_def d1(2) d2(1)]) (use 5 d2(2) in simp_all)
qed

text \<open>C32: Signing out keeps the profile until its token is revoked. When a command that was not given \<open>--local-only\<close> changed a
  file, then the profile is the one that \<open>--profile\<close> names, and otherwise the current one; the command made one call, which asked
  the server of that profile, with the token in its file as bearer, to revoke it, and the server answered with a success. Of the
  files that were there only that profile's and the pointer to the current one can have changed, so every other profile is as it
  was; and when the command succeeds that profile's file is gone.\<close>

theorem logout_revokes_first:
  assumes "cmdLogout w args o1 m = (r, m')" "\<not> same_files m m'" "clean_home (w_home w)"
    and "w_flags w (global_flags @ [(''local-only'', BoolFlag)]) True args = Inr (fs, pos)" "\<not> bool_flag ''local-only'' fs False"
  defines "o2 \<equiv> captureGlobalChanges fs (bindGlobalFlags fs o1)"
  defines "name \<equiv> (if op_profileSet o2 then op_Profile o2 else current_target (w_home w) (tables (mc_disk m)))"
  defines "file \<equiv> profile_file (w_home w) name"
  shows "\<exists>mode s p base call status headers body x y net.
    map_of (tables (mc_disk m)) file = Some (mode, s) \<and> parse_profile s = Some p \<and>
    normalizeBaseURL (w_quote w) (pf_BaseURL p) (op_AllowHTTP o2) = Inr base \<and>
    mc_calls m' = mc_calls m @ [call] \<and>
    cl_verb call = ''DELETE'' \<and> cl_base call = trim_suffix base ''/'' \<and> cl_path call = ''/api/v1/token'' \<and>
    map_of (cl_headers call) ''Authorization'' = (if pf_Token p = '''' then None else Some (''Bearer '' @ pf_Token p)) \<and>
    w_send w (check_redirect w (parse_url base)) call (mc_net m) = (Answer status headers body x y, net) \<and>
    200 \<le> status \<and> status < 300 \<and>
    (\<forall>q. q \<noteq> file \<and> q \<noteq> currentPath (w_home w) \<and> map_of (tables (mc_disk m)) q \<noteq> None \<longrightarrow>
      map_of (tables (mc_disk m')) q = map_of (tables (mc_disk m)) q) \<and>
    (r = Inr () \<longrightarrow> map_of (tables (mc_disk m')) file = None)"
proof -
  obtain m0 d1 d2 p m3 n where st: "m0 = m\<lparr>mc_json := op_JSON o2\<rparr>"
    "if op_profileSet o2 then n = op_Profile o2 \<and> d1 = mc_disk m else Current (w_quote w) (w_home w) (mc_disk m) = (Inr n, d1)"
    "Read (w_quote w) (w_home w) n d1 = (Inr (Some p), d2)"
    "revoke_profile w o2 p (m0\<lparr>mc_disk := d2\<rparr>) = (Inr (), m3)" "remove_profile w o2 False n m3 = (r, m')"
    using logout_steps [OF assms(1,2,4,5)] unfolding o2_def by metis
  have n: "n = name" "tables d1 = tables (mc_disk m)"
    using st(2) Current_Inr [of "w_quote w" "w_home w" "mc_disk m" n d1] Current_tables [of "w_quote w" "w_home w" "mc_disk m"]
    by (auto simp: name_def split: if_splits)
  obtain mode s where s: "map_of (tables (mc_disk m)) file = Some (mode, s)" "parse_profile s = Some p"
    using Read_Inr [OF st(3)] by (auto simp: n file_def)
  have d2: "tables d2 = tables (mc_disk m)" using Read_tables [of "w_quote w" "w_home w" n d1] st(3) n by simp
  obtain base where b: "normalizeBaseURL (w_quote w) (pf_BaseURL p) (op_AllowHTTP o2) = Inr base"
    "revoke_token w (NewClient w base (pf_Token p) (op_Timeout o2)) (m0\<lparr>mc_disk := d2\<rparr>) = (Inr (), m3)"
    using revoke_profile_Inr [OF st(4)] by blast
  let ?c = "NewClient w base (pf_Token p) (op_Timeout o2)"
  obtain call status headers body x y net where c: "newRequest ?c ''DELETE'' ''/api/v1/token'' NoPayload = Some call"
    "w_send w (check_redirect w (parse_url base)) call (mc_net m) = (Answer status headers body x y, net)" "success status"
    "m3 = m0\<lparr>mc_disk := d2, mc_net := net, mc_calls := mc_calls m @ [call]\<rparr>"
    using revoke_token_Inr [OF b(2)] by (auto simp: NewClient_def st(1))
  have call: "cl_verb call = ''DELETE''" "cl_base call = trim_suffix base ''/''" "cl_path call = ''/api/v1/token''"
    "map_of (cl_headers call) ''Authorization'' = (if pf_Token p = '''' then None else Some (''Bearer '' @ pf_Token p))"
    using c(1) by (auto simp: newRequest_def NewClient_def split: if_splits)
  obtain r1 where rm: "Remove (w_quote w) (w_home w) n (mc_disk m3) = (r1, mc_disk m')" "mc_calls m' = mc_calls m3" "r = Inr () \<longrightarrow> r1 = Inr ()"
    using remove_profile_run [OF st(5)] by blast
  have m3: "tables (mc_disk m3) = tables (mc_disk m)" "mc_calls m3 = mc_calls m @ [call]" by (simp_all add: c(4) d2)
  note kept = Remove_kept [OF assms(3) rm(1), unfolded n(1) m3(1), folded file_def]
  have k1: "\<forall>q. q \<noteq> file \<and> q \<noteq> currentPath (w_home w) \<and> map_of (tables (mc_disk m)) q \<noteq> None \<longrightarrow>
      map_of (tables (mc_disk m')) q = map_of (tables (mc_disk m)) q" using kept(1) by blast
  have k2: "r = Inr () \<longrightarrow> map_of (tables (mc_disk m')) file = None" using kept(2) rm(3) by blast
  have ok: "200 \<le> status" "status < 300" using c(3) by (simp_all add: success_def)
  note all = conjI [OF s(1) conjI [OF s(2) conjI [OF b(1) conjI [OF trans [OF rm(2) m3(2)] conjI [OF call(1) conjI [OF call(2)
    conjI [OF call(3) conjI [OF call(4) conjI [OF c(2) conjI [OF ok(1) conjI [OF ok(2) conjI [OF k1 k2]]]]]]]]]]]]
  show ?thesis by (intro exI) (rule all)
qed

text \<open>A server that accepts the revocation, and a machine with one profile.\<close>

definition revoking_world :: "unit world" where
  "revoking_world = silent_world\<lparr>w_send := (\<lambda>_ _ n. (Answer 204 [] '''' None None, n))\<rparr>"

definition books_machine :: "string \<Rightarrow> unit machine" where
  "books_machine s = new_machine\<lparr>mc_disk := fresh_machine\<lparr>tables := [(profile_file ''/h'' ''books'', owner_only, s)]\<rparr>\<rparr>"

definition books_options :: globalOptions where
  "books_options = no_options\<lparr>op_Profile := ''books'', op_profileSet := True\<rparr>"

lemma logout_run:
  assumes "profile_text sample_profile = Inr s"
  shows "\<exists>m'. cmdLogout revoking_world [] books_options (books_machine s) = (Inr (), m') \<and> tables (mc_disk m') = []"
proof -
  have n: "profile_name_ok ''books''" by (simp add: profile_name_ok_def profile_name_char_def letter_def)
  have p: "parse_profile s = Some sample_profile"
    by (rule parse_profile_text [OF assms]) (simp add: profile_readable_def sample_profile_def valid_utf8_ascii)
  let ?d = "mc_disk (books_machine s)"
  have f: "faults ?d = []" by (simp add: books_machine_def fresh_machine_def)
  have m: "map_of (tables ?d) (profile_file ''/h'' ''books'') = Some (owner_only, s)" by (simp add: books_machine_def)
  have rd: "Read id ''/h'' ''books'' ?d = (Inr (Some sample_profile), ?d)"
    using n m p by (simp add: Read_def profilePath_def validateProfileName_def fail_if_def os_read_def no_fault_run [OF f] handle_def bnd_def ret_def)
  have "normalizeBaseURL id ''https://books.example'' False = Inr ''https://books.example''"
  proof -
    have "parse_url ''https://books.example'' = Some (empty_url\<lparr>url_Scheme := ''https'', url_Host := ''books.example''\<rparr>)" by code_simp
    moreover have "url_escape EncodeHost ''books.example'' = ''books.example''" by code_simp
    ultimately show ?thesis
      by (simp add: normalizeBaseURL_def trim_space_ascii trim_ascii_def is_space_def empty_url_def origin_text_def trim_suffix_def has_suffix_def)
  qed
  then have nb: "normalizeBaseURL id (pf_BaseURL sample_profile) False = Inr ''https://books.example''" by (simp add: sample_profile_def)
  let ?c = "NewClient revoking_world ''https://books.example'' (pf_Token sample_profile) (30 * 10 ^ 9)"
  have b: "ct_BaseURL ?c = ''https://books.example''" by (simp add: NewClient_def trim_suffix_def has_suffix_def)
  have t: "\<exists>m2. revoke_token revoking_world ?c m0 = (Inr (), m2) \<and> mc_disk m2 = mc_disk m0" for m0
  proof -
    have "parse_url (ct_BaseURL ?c @ ''/api/v1/token'') \<noteq> None" using books_urls(1) unfolding b books_base .
    then obtain cl where c: "newRequest ?c ''DELETE'' ''/api/v1/token'' NoPayload = Some cl" by (auto simp: newRequest_def)
    show ?thesis unfolding revoke_token_def call_json_def JSON_def option.case c
      by (simp add: Do_def revoking_world_def JSON_reply_def limited_def success_def decode_reply_def maxClientResponseBytes_def)
  qed
  have rm: "Remove id ''/h'' ''books'' ?d = (Inr (), ?d\<lparr>tables := []\<rparr>)"
  proof -
    have f2: "faults (?d\<lparr>tables := []\<rparr>) = []" using f by simp
    have "current_or_none id ''/h'' (?d\<lparr>tables := []\<rparr>) = (Inr '''', ?d\<lparr>tables := []\<rparr>)"
      using current_or_none_ok [OF f2, of id "''/h''"] by (simp add: current_target_def profile_name_ok_def)
    moreover have "AList.delete (profile_file ''/h'' ''books'') (tables ?d) = []" by (simp add: books_machine_def)
    ultimately show ?thesis using n m
      by (simp add: Remove_def profilePath_def validateProfileName_def fail_if_def handle_def os_remove_ok [OF f] bnd_def ret_def)
  qed
  obtain m2 where m2: "revoke_token revoking_world ?c ((books_machine s)\<lparr>mc_json := False\<rparr>) = (Inr (), m2)"
    "mc_disk m2 = mc_disk (books_machine s)" using t [of "(books_machine s)\<lparr>mc_json := False\<rparr>"] by auto
  have o1: "op_AllowHTTP books_options = False" "op_JSON books_options = False" "op_Profile books_options = ''books''" "op_profileSet books_options"
    by (simp_all add: books_options_def no_options_def)
  have w: "w_quote revoking_world = id" "w_home revoking_world = ''/h''" "w_flags revoking_world = (\<lambda>_ _ args. Inr ([], args))"
    by (simp_all add: revoking_world_def silent_world_def)
  let ?o = "captureGlobalChanges [] (bindGlobalFlags [] books_options)"
  have o2: "op_AllowHTTP ?o = False" "op_JSON ?o = False" "op_Profile ?o = ''books''" "op_profileSet ?o" "op_Timeout ?o = 30 * 10 ^ 9"
    by (simp_all add: books_options_def no_options_def captureGlobalChanges_def bindGlobalFlags_def bool_flag_def string_flag_def int_flag_def
      defaultDuration_def)
  have r: "revoke_profile revoking_world ?o sample_profile ((books_machine s)\<lparr>mc_json := False\<rparr>) = (Inr (), m2)"
    using m2(1) nb by (simp add: revoke_profile_def andThen_def disk_def of_result_def w o2 attempt_def done_with_def)
  show ?thesis
    using r rd rm m2(2)
    by (simp add: cmdLogout_def commandFlags_def andThen_def w o2 bool_flag_def no_arguments_def fail_when_def done_with_def disk_def
      remove_profile_def print_out_def Let_def)
qed

theorem logout_revokes_first_witness:
  "\<exists>s m' call. cmdLogout revoking_world [] books_options (books_machine s) = (Inr (), m') \<and> tables (mc_disk m') = [] \<and>
    mc_calls m' = [call] \<and> cl_verb call = ''DELETE'' \<and> map_of (cl_headers call) ''Authorization'' = Some ''Bearer bb_1''"
proof -
  obtain s where s: "profile_text sample_profile = Inr s" using sample_profile_text by blast
  obtain m' where m': "cmdLogout revoking_world [] books_options (books_machine s) = (Inr (), m')" "tables (mc_disk m') = []"
    using logout_run [OF s] by blast
  have changed: "\<not> same_files (books_machine s) m'" using m'(2) by (simp add: same_files_def books_machine_def fun_eq_iff)
  have home: "clean_home (w_home revoking_world)"
    by (simp add: revoking_world_def silent_world_def clean_home_def path_elems_def path_show_def has_prefix_def)
  have flags: "w_flags revoking_world (global_flags @ [(''local-only'', BoolFlag)]) True [] = Inr ([], [])" "\<not> bool_flag ''local-only'' [] False"
    by (simp_all add: revoking_world_def silent_world_def bool_flag_def)
  have o2: "op_profileSet (captureGlobalChanges [] (bindGlobalFlags [] books_options))"
    "op_Profile (captureGlobalChanges [] (bindGlobalFlags [] books_options)) = ''books''"
    by (simp_all add: books_options_def no_options_def captureGlobalChanges_def bindGlobalFlags_def bool_flag_def string_flag_def int_flag_def)
  have p: "parse_profile s = Some sample_profile"
    by (rule parse_profile_text [OF s]) (simp add: profile_readable_def sample_profile_def valid_utf8_ascii)
  have start: "w_home revoking_world = ''/h''" "mc_calls (books_machine s) = []"
    "map_of (tables (mc_disk (books_machine s))) (profile_file ''/h'' ''books'') = Some (owner_only, s)"
    by (simp_all add: revoking_world_def silent_world_def books_machine_def new_machine_def)
  have "pf_Token sample_profile = ''bb_1''" by (simp add: sample_profile_def)
  with logout_revokes_first [OF m'(1) changed home flags] p show ?thesis
    using m' unfolding o2 start if_P [OF TrueI] by (auto simp: o2 start)
qed

end
