(* ===== verification/Loaders.thy ===== *)
theory Loaders
  imports Books GoTime LibraryOps
begin

text \<open>
The books themselves: the loaders of EPUB, MOBI and PDF files (src/formats/), and what the indexer makes of a loaded book
and its cover (src/indexer/indexer.go). Archives, XML, images and the MOBI reader are parameters.
\<close>

section \<open>What a loader gives\<close>

text \<open>An error, a panic, or a value; a loader whose value is \<open>None\<close> returned a nil book without an error.\<close>

datatype 'a loading = Broken string | Panics string | Loads 'a

definition then_load :: "'a loading \<Rightarrow> ('a \<Rightarrow> 'b loading) \<Rightarrow> 'b loading" where
  "then_load x f = (case x of Broken e \<Rightarrow> Broken e | Panics p \<Rightarrow> Panics p | Loads y \<Rightarrow> f y)"

text \<open>The deferred \<open>recover\<close> of a loader.\<close>

definition recovered :: "'a option loading \<Rightarrow> 'a option loading" where
  "recovered x = (case x of Panics p \<Rightarrow> Broken (''unknown error: '' @ p) | _ \<Rightarrow> x)"

text \<open>\<open>errors.Wrap\<close>.\<close>

definition of_step :: "string \<Rightarrow> string + 'a \<Rightarrow> 'a loading" where
  "of_step message r = (case r of Inl e \<Rightarrow> Broken (message @ '': '' @ e) | Inr x \<Rightarrow> Loads x)"

definition of_plain :: "string + 'a \<Rightarrow> 'a loading" where
  "of_plain r = (case r of Inl e \<Rightarrow> Broken e | Inr x \<Rightarrow> Loads x)"

section \<open>The file of a book\<close>

text \<open>What the operating system says of a file: opening it, its size and time, its bytes with the error that ends them, and
  reading it again.\<close>

record book_file =
  bf_open :: "string option"
  bf_stat :: "string + int \<times> gotime"
  bf_read :: "string \<times> string option"
  bf_again :: "string + string"

definition blank_book :: Book where
  "blank_book = \<lparr>bk_Hash = '''', bk_FilePath = '''', bk_FileSize = 0, bk_ModTime = seconds (- 62135596800), bk_HasCover = False, bk_Title = '''',
    bk_Author = '''', bk_Description = '''', bk_Series = '''', bk_SeriesIndex = 0, bk_Publisher = '''', bk_ISBN = '''',
    bk_PublishDate = seconds (- 62135596800)\<rparr>"

text \<open>The steps all three loaders begin with: size, time, and the SHA-1 of a file that is read whole.\<close>

definition hash_file :: "string \<Rightarrow> book_file \<Rightarrow> Book loading" where
  "hash_file filename f =
    (case bf_open f of Some e \<Rightarrow> Broken e
     | None \<Rightarrow>
       then_load (of_step ''could not stat book'' (bf_stat f)) (\<lambda>(n, t).
       case bf_read f of (data, e) \<Rightarrow>
         (case (case e of Some x \<Rightarrow> Some x | None \<Rightarrow> if int (length data) \<noteq> n then Some ''could not read whole file'' else None) of
            Some x \<Rightarrow> Broken (''could not hash book: '' @ x)
          | None \<Rightarrow> Loads (blank_book\<lparr>bk_FilePath := filename, bk_FileSize := n, bk_ModTime := t,
              bk_Hash := hex_bytes (sha1 (bytes_of data))\<rparr>))))"

text \<open>The layout a date is read with depends on its length only; its separator is taken over from the date, as a rune.\<close>

definition date_layout :: "string \<Rightarrow> string option" where
  "date_layout s =
    (if length s = 32 then Some ''2006-01-02T15:04:05.000000-07:00''
     else if length s = 25 then Some (''2006-01-02'' @ encode_rune (byte_at s 10) @ ''15:04:05-07:00'')
     else if length s = 20 then Some ''2006-01-02T15:04:05Z''
     else if length s = 19 then Some (''2006-01-02'' @ encode_rune (byte_at s 10) @ ''15:04:05'')
     else if length s = 10 then Some ''2006-01-02''
     else None)"

definition parsePublishDate :: "string \<Rightarrow> gotime" where
  "parsePublishDate s = (case date_layout s of
      None \<Rightarrow> seconds (- 62135596800)
    | Some layout \<Rightarrow> (case time_parse layout s of None \<Rightarrow> seconds (- 62135596800) | Some t \<Rightarrow> t))"

section \<open>XML\<close>

text \<open>The package etree is a parameter: a document answers a path with its elements, and panics (\<open>None\<close>) on a path that
  does not compile. \<open>isbn.Validate\<close> and \<open>strconv.ParseFloat\<close> (its value, with an error or not) are parameters, too.\<close>

record element =
  el_text :: string
  el_attrs :: "(string \<times> string) list"

type_synonym xml = "string \<Rightarrow> element list option"

definition FindElements :: "xml \<Rightarrow> string \<Rightarrow> element list loading" where
  "FindElements doc path = (case doc path of None \<Rightarrow> Panics ''etree: invalid path'' | Some es \<Rightarrow> Loads es)"

definition SelectAttrValue :: "element \<Rightarrow> string \<Rightarrow> string \<Rightarrow> string" where
  "SelectAttrValue e k d = (case map_of (el_attrs e) k of None \<Rightarrow> d | Some v \<Rightarrow> v)"

definition first_text :: "string \<Rightarrow> element list \<Rightarrow> string" where
  "first_text d es = (case es of [] \<Rightarrow> d | e # _ \<Rightarrow> el_text e)"

section \<open>EPUB\<close>

definition find_isbn :: "(string \<Rightarrow> bool) \<Rightarrow> element list \<Rightarrow> string option" where
  "find_isbn valid es = List.find valid (map (\<lambda>v. if has_prefix v ''urn:isbn:'' then drop 9 v else v)
    (filter (\<lambda>v. 10 \<le> length v) (map el_text es)))"

fun pick_date :: "element list \<Rightarrow> string \<Rightarrow> string" where
  "pick_date [] d = d"
| "pick_date (e # es) d =
    (let event = SelectAttrValue e ''opf:event'' '''' in
     if event \<in> set [''original-publication'', ''published'', ''publication''] then el_text e
     else if event = '''' then pick_date es (el_text e)
     else pick_date es d)"

text \<open>The cover: the first \<open>meta\<close> with a content names an id; of the elements with that id the last one with a reference counts.\<close>

definition quote_char :: char where "quote_char = CHR 0x27"

definition by_attribute :: "string \<Rightarrow> string \<Rightarrow> string \<Rightarrow> string" where
  "by_attribute tag attribute v = ''//'' @ tag @ ''[@'' @ attribute @ ''='' @ [quote_char] @ v @ [quote_char] @ '']''"

definition cover_path :: "xml \<Rightarrow> string \<Rightarrow> string option loading" where
  "cover_path opf opfdir =
    then_load (FindElements opf (by_attribute ''meta'' ''name'' ''cover'')) (\<lambda>ms.
    case List.find (\<lambda>m. SelectAttrValue m ''content'' '''' \<noteq> '''') ms of
      None \<Rightarrow> Loads None
    | Some m \<Rightarrow>
        then_load (FindElements opf (by_attribute '''' ''id'' (SelectAttrValue m ''content'' ''''))) (\<lambda>es.
        let refs = filter (\<lambda>h. h \<noteq> '''') (map (\<lambda>e. SelectAttrValue e ''href'' '''') es) in
        Loads (if refs = [] then None else Some (''/'' @ opfdir @ ''/'' @ last refs))))"

definition first_element :: "xml \<Rightarrow> string \<Rightarrow> element option loading" where
  "first_element doc path = then_load (FindElements doc path) (\<lambda>es. Loads (case es of [] \<Rightarrow> None | e # _ \<Rightarrow> Some e))"

definition calibre_series :: "(string \<Rightarrow> f64) \<Rightarrow> xml \<Rightarrow> (string \<times> f64) loading" where
  "calibre_series parse opf =
    then_load (first_element opf (by_attribute ''meta'' ''name'' ''calibre:series'')) (\<lambda>s.
    case s of
      None \<Rightarrow> Loads ('''', 0)
    | Some e \<Rightarrow>
        then_load (first_element opf (by_attribute ''meta'' ''name'' ''calibre:series_index'')) (\<lambda>i.
        Loads (SelectAttrValue e ''content'' '''', (case i of None \<Rightarrow> 0 | Some x \<Rightarrow> parse (SelectAttrValue x ''content'' ''0'')))))"

text \<open>What the elements that refine a collection say of it: its type and the position in it.\<close>

fun refine :: "(string \<Rightarrow> f64) \<Rightarrow> element list \<Rightarrow> string \<times> f64 \<Rightarrow> string \<times> f64" where
  "refine parse [] x = x"
| "refine parse (e # es) (ctype, i) =
    (let v = trim_space (el_text e); p = SelectAttrValue e ''property'' '''' in
     refine parse es (if p = ''collection-type'' then v else ctype, if p = ''group-position'' then parse v else i))"

definition epub3_series :: "(string \<Rightarrow> f64) \<Rightarrow> xml \<Rightarrow> f64 \<Rightarrow> (string \<times> f64) loading" where
  "epub3_series parse opf i0 =
    then_load (first_element opf (by_attribute ''meta'' ''property'' ''belongs-to-collection'')) (\<lambda>s.
    case s of
      None \<Rightarrow> Loads ('''', i0)
    | Some e \<Rightarrow>
        then_load (if SelectAttrValue e ''id'' '''' = '''' then Loads []
          else FindElements opf (by_attribute ''meta'' ''refines'' (''#'' @ SelectAttrValue e ''id'' ''''))) (\<lambda>rs.
        case refine parse rs ('''', i0) of (ctype, i) \<Rightarrow>
          Loads (if ctype \<noteq> '''' \<and> ctype \<noteq> ''series'' then ('''', 0) else (trim_space (el_text e), i))))"

definition epub_series :: "(string \<Rightarrow> f64) \<Rightarrow> xml \<Rightarrow> (string \<times> f64) loading" where
  "epub_series parse opf =
    then_load (calibre_series parse opf) (\<lambda>(s, i). if s = '''' then epub3_series parse opf i else Loads (s, i))"

definition epub_isbn :: "(string \<Rightarrow> bool) \<Rightarrow> xml \<Rightarrow> string loading" where
  "epub_isbn valid opf =
    then_load (FindElements opf ''//source'') (\<lambda>es.
    case find_isbn valid es of
      Some v \<Rightarrow> Loads v
    | None \<Rightarrow> then_load (FindElements opf ''//identifier'') (\<lambda>ids.
        Loads (case find_isbn valid ids of Some v \<Rightarrow> v | None \<Rightarrow> '''')))"

text \<open>The archive, a parameter: opening it, and for an entry opening it and reading it as XML.\<close>

record epub_tools =
  et_valid :: "string \<Rightarrow> bool"
  et_float :: "string \<Rightarrow> f64"
  et_zip :: "string \<Rightarrow> string + (string \<Rightarrow> string + (string + xml))"

definition read_opf :: "epub_tools \<Rightarrow> xml \<Rightarrow> string \<Rightarrow> Book \<Rightarrow> (Book \<times> string option) loading" where
  "read_opf t opf opfdir b =
    then_load (FindElements opf ''//title'') (\<lambda>titles.
    then_load (FindElements opf ''//creator'') (\<lambda>creators.
    then_load (FindElements opf ''//publisher'') (\<lambda>publishers.
    then_load (FindElements opf ''//description'') (\<lambda>descriptions.
    then_load (epub_isbn (et_valid t) opf) (\<lambda>isbn.
    then_load (FindElements opf ''//date'') (\<lambda>dates.
    then_load (cover_path opf opfdir) (\<lambda>cover.
    then_load (epub_series (et_float t) opf) (\<lambda>(series, index).
    Loads (b\<lparr>bk_Title := first_text (path_base (bk_FilePath b)) titles, bk_Author := first_text '''' creators,
      bk_Publisher := first_text '''' publishers, bk_Description := first_text '''' descriptions, bk_ISBN := isbn,
      bk_PublishDate := parsePublishDate (pick_date dates ''''), bk_Series := series, bk_SeriesIndex := index\<rparr>, cover)))))))))"

definition go_dir :: "string \<Rightarrow> string" where
  "go_dir p = path_show (path_elems (case last_index_char CHR ''/'' p of None \<Rightarrow> '''' | Some i \<Rightarrow> take (i + 1) p))"

text \<open>A container without a root file: \<open>errors.Wrap\<close> of the error of the step before, which is nil, is nil.\<close>

definition load_epub :: "epub_tools \<Rightarrow> string \<Rightarrow> book_file \<Rightarrow> (Book \<times> string option) option loading" where
  "load_epub t filename f =
    then_load (hash_file filename f) (\<lambda>b.
    then_load (of_step ''error opening epub as zip'' (et_zip t filename)) (\<lambda>entries.
    then_load (of_step ''error reading container.xml'' (entries ''/META-INF/container.xml'')) (\<lambda>c.
    then_load (of_step ''error parsing container.xml'' c) (\<lambda>container.
    then_load (FindElements container ''//rootfiles/rootfile[@full-path]'') (\<lambda>roots.
    let rootfile = (case roots of [] \<Rightarrow> '''' | _ \<Rightarrow> SelectAttrValue (last roots) ''full-path'' '''') in
    if rootfile = '''' then Loads None
    else
      then_load (of_step ''error reading rootfile'' (entries (''/'' @ rootfile))) (\<lambda>r.
      then_load (of_step ''error parsing rootfile'' r) (\<lambda>opf.
      then_load (read_opf t opf (go_dir rootfile) b) (\<lambda>x. Loads (Some x)))))))))"

definition maxCoverBytes :: nat where "maxCoverBytes = 20 * 2 ^ 20"
definition maxCoverPixels :: int where "maxCoverPixels = 3000 * 3000"

text \<open>\<open>GetCover\<close> of an EPUB; the entry gives its bytes with the error that ends them, and the packages of images are
  parameters: the size an image says it has, if it can be read, and the image.\<close>

definition epub_cover :: "(string + (string \<Rightarrow> string + (string \<times> string option))) \<Rightarrow> (string \<Rightarrow> (int \<times> int) option) \<Rightarrow>
    (string \<Rightarrow> 'i loading) \<Rightarrow> string \<Rightarrow> 'i loading" where
  "epub_cover archive config decode coverpath =
    then_load (of_step ''error opening epub as zip'' archive) (\<lambda>entries.
    then_load (of_step (''could not open cover '' @ [quote_char] @ coverpath @ [quote_char]) (entries coverpath)) (\<lambda>(data, e).
    if maxCoverBytes < length data then Broken ''cover image is too large to decode''
    else case e of Some x \<Rightarrow> Broken (''error reading cover: '' @ x)
    | None \<Rightarrow>
        if (case config data of None \<Rightarrow> False | Some (w, h) \<Rightarrow> maxCoverPixels < w * h) then Broken ''cover image is too large to decode''
        else (case decode data of Broken x \<Rightarrow> Broken (''error decoding image: '' @ x) | y \<Rightarrow> y)))"

definition GetCover :: "'i loading \<Rightarrow> string + 'i" where
  "GetCover r = (case r of Loads i \<Rightarrow> Inr i | Broken e \<Rightarrow> Inl e | Panics _ \<Rightarrow> Inl ''panic while decoding cover image'')"

section \<open>MOBI and PDF\<close>

text \<open>What the MOBI reader, a parameter, finds: it may fail or panic.\<close>

record mobi_data =
  md_cover :: "int \<times> int"
  md_title :: string
  md_authors :: "string list"
  md_description :: string
  md_publisher :: string
  md_isbn :: string
  md_date :: string

definition load_mobi :: "(string \<Rightarrow> bool) \<Rightarrow> mobi_data loading \<Rightarrow> string \<Rightarrow> book_file \<Rightarrow> (Book \<times> int \<times> int) option loading" where
  "load_mobi valid reader filename f = recovered (
    then_load (hash_file filename f) (\<lambda>b.
    then_load reader (\<lambda>r.
    Loads (Some (b\<lparr>bk_Title := (if md_title r = '''' then path_base filename else md_title r),
      bk_Author := (case md_authors r of [] \<Rightarrow> '''' | a # _ \<Rightarrow> a), bk_Description := md_description r, bk_Publisher := md_publisher r,
      bk_ISBN := (if md_isbn r \<noteq> '''' \<and> valid (md_isbn r) then md_isbn r else ''''),
      bk_PublishDate := parsePublishDate (md_date r)\<rparr>, md_cover r)))))"

definition mobi_has_cover :: "int \<times> int \<Rightarrow> bool" where
  "mobi_has_cover c \<longleftrightarrow> 0 < fst c"

text \<open>\<open>GetCover\<close> of a MOBI file: opening it (its bytes), seeking, and decoding the part that is the cover.\<close>

definition mobi_cover :: "string + string \<Rightarrow> string option \<Rightarrow> (string \<Rightarrow> 'i loading) \<Rightarrow> int \<times> int \<Rightarrow> 'i loading" where
  "mobi_cover opened seek decode c =
    (if \<not> mobi_has_cover c then Broken ''no cover''
     else then_load (of_step ''unable to open book file'' opened) (\<lambda>data.
       case seek of Some e \<Rightarrow> Broken (''unable to see to cover offset: '' @ e)
       | None \<Rightarrow> (case decode (take (nat (snd c)) (drop (nat (fst c)) data)) of
           Broken e \<Rightarrow> Broken (''unable to decode book cover: '' @ e) | x \<Rightarrow> x)))"

definition xmp_text :: "string \<Rightarrow> string loading" where
  "xmp_text s = (case StringBetween s ''<?xpacket begin'' ''</x:xmpmeta>'' of
      None \<Rightarrow> Panics ''runtime error: slice bounds out of range'' | Some t \<Rightarrow> Loads (StringAfter t ''>''))"

definition load_pdf :: "(string \<Rightarrow> string + xml) \<Rightarrow> string \<Rightarrow> book_file \<Rightarrow> Book option loading" where
  "load_pdf parse filename f = recovered (
    then_load (hash_file filename f) (\<lambda>b0.
    then_load (of_plain (bf_again f)) (\<lambda>s.
    then_load (xmp_text s) (\<lambda>x.
    then_load (of_plain (parse x)) (\<lambda>xmp.
    let b = b0\<lparr>bk_Title := path_base filename\<rparr> in
    then_load (FindElements xmp ''//format'') (\<lambda>formats.
    if first_text ''application/pdf'' formats \<noteq> ''application/pdf'' then Loads (Some b)
    else
      then_load (FindElements xmp ''//title/Alt/li'') (\<lambda>titles.
      then_load (FindElements xmp ''//creator/Seq/li'') (\<lambda>creators.
      Loads (Some (b\<lparr>bk_Title := first_text (bk_Title b) titles, bk_Author := first_text (bk_Author b) creators\<rparr>))))))))))"


section \<open>The indexer\<close>

text \<open>\<open>New\<close>: the directories and the cover directory are made absolute; \<open>filepath.Abs\<close> is a parameter.\<close>

fun resolve_paths :: "(string \<Rightarrow> string + string) \<Rightarrow> string list \<Rightarrow> string + string list" where
  "resolve_paths absolute [] = Inr []"
| "resolve_paths absolute (p # ps) = (case absolute p of
      Inl e \<Rightarrow> Inl (''error resolving path: '' @ e)
    | Inr q \<Rightarrow> (case resolve_paths absolute ps of Inl e \<Rightarrow> Inl e | Inr qs \<Rightarrow> Inr (q # qs)))"

definition NewIndexer :: "(string \<Rightarrow> string + string) \<Rightarrow> string list \<Rightarrow> string option \<Rightarrow> string list \<Rightarrow> string + indexer \<times> string option" where
  "NewIndexer absolute paths coverpath exts =
    (case resolve_paths absolute paths of
      Inl e \<Rightarrow> Inl e
    | Inr ps \<Rightarrow>
        let ix = \<lparr>ix_paths = ps, ix_exts = exts, ix_booklist = [], ix_progress = None\<rparr> in
        (case coverpath of
          None \<Rightarrow> Inr (ix, None)
        | Some c \<Rightarrow> (case absolute c of Inl e \<Rightarrow> Inl (''error resolving cover path: '' @ e) | Inr d \<Rightarrow> Inr (ix, Some d))))"

text \<open>The files of the cover directory; \<open>os.Create\<close> makes a file or empties it, \<open>jpeg.Encode\<close> fills it or fails.\<close>

type_synonym 'a cover_io = "(string set, 'a) io"

definition cover_file :: "string \<Rightarrow> Book \<Rightarrow> string" where
  "cover_file dir b = path_join [dir, book_ID b @ ''.jpg'']"

definition thumb_file :: "string \<Rightarrow> Book \<Rightarrow> string" where
  "thumb_file dir b = path_join [dir, book_ID b @ ''_thumb.jpg'']"

definition cover_present :: "string \<Rightarrow> bool cover_io" where
  "cover_present p = handle (query (\<lambda>fs. Inr (p \<in> fs))) (\<lambda>_. ret False)"

definition create_cover :: "string \<Rightarrow> string \<Rightarrow> unit cover_io" where
  "create_cover message p = wrap_err message (bnd (exec (\<lambda>fs. Inr (insert p fs, 1))) (\<lambda>_. ret ()))"

definition drop_cover :: "string \<Rightarrow> unit cover_io" where
  "drop_cover p = handle (bnd (exec (\<lambda>fs. Inr (fs - {p}, 1))) (\<lambda>_. ret ())) (\<lambda>_. ret ())"

text \<open>When encoding fails the cover file, not the thumbnail, is removed.\<close>

definition encode_cover :: "string \<Rightarrow> string \<Rightarrow> unit cover_io" where
  "encode_cover message cover = handle tick (\<lambda>e. bnd (drop_cover cover) (\<lambda>_. throw (ErrWrap message e)))"

text \<open>\<open>getBook\<close> of a loaded book whose cover is \<open>picture\<close>: an error when it cannot be decoded.\<close>

definition book_cover :: "string \<Rightarrow> Book \<Rightarrow> string + unit \<Rightarrow> Book cover_io" where
  "book_cover dir b picture =
    bnd (cover_present (cover_file dir b)) (\<lambda>c.
    bnd (cover_present (thumb_file dir b)) (\<lambda>t.
    if c \<and> t then ret (b\<lparr>bk_HasCover := True\<rparr>)
    else (case picture of
      Inl _ \<Rightarrow> ret b
    | Inr _ \<Rightarrow>
        bnd (create_cover ''could not create cover file'' (cover_file dir b)) (\<lambda>_.
        bnd (encode_cover ''could not write cover file'' (cover_file dir b)) (\<lambda>_.
        bnd (create_cover ''could not create cover thumbnail file'' (thumb_file dir b)) (\<lambda>_.
        bnd (encode_cover ''could not write cover thumbnail file'' (cover_file dir b)) (\<lambda>_.
        ret (b\<lparr>bk_HasCover := True\<rparr>))))))))"

text \<open>\<open>getBook\<close>: \<open>loaded\<close> is what \<open>formats.Load\<close> gives, with the cover if the book has one; a nil book is a nil pointer.\<close>

definition getBook :: "string option \<Rightarrow> (Book \<times> (string + unit) option) option loading \<Rightarrow> Book loading cover_io" where
  "getBook coverpath loaded = (case loaded of
      Broken e \<Rightarrow> ret (Broken (''error loading book: '' @ e))
    | Panics p \<Rightarrow> ret (Panics p)
    | Loads None \<Rightarrow> ret (Panics ''runtime error: invalid memory address or nil pointer dereference'')
    | Loads (Some (b0, cover)) \<Rightarrow>
        let b = b0\<lparr>bk_HasCover := False\<rparr> in
        (case (coverpath, cover) of
          (Some dir, Some picture) \<Rightarrow>
            handle (bnd (book_cover dir b picture) (\<lambda>x. ret (Loads x))) (\<lambda>e. ret (Broken (error_text e)))
        | _ \<Rightarrow> ret (Loads b)))"

end
