(* ===== verification/LoaderFacts.thy ===== *)
theory LoaderFacts
  imports Loaders
begin

text \<open>
What holds of the loaders and the indexer: dates, covers, and an EPUB that stops the indexer.
\<close>

section \<open>Dates\<close>

lemma date_chunks:
  "next_chunk ''2006-01-02'' = ('''', Some (LongYear, ''-01-02''))" "next_chunk ''-01-02'' = (''-'', Some (ZeroMonth, ''-02''))"
  "next_chunk ''-02'' = (''-'', Some (ZeroDay, ''''))" "next_chunk '''' = ('''', None)"
  by code_simp+

lemma getnum_pad: "n < 100 \<Longrightarrow> getnum True (pad 2 n @ q) = Some (n, q)"
proof -
  assume "n < 100"
  then have "n div 10 < 10" by (simp add: less_mult_imp_div_less)
  moreover have "pad 2 n = [char_of (48 + n div 10 mod 10), char_of (48 + n mod 10)]" by (simp add: numeral_2_eq_2)
  ultimately show ?thesis by (simp add: getnum_def digit_val_char)
qed

text \<open>The date a book gives as ten characters is read as midnight of that day, whatever day it is.\<close>

theorem publish_date_of_day:
  assumes "valid_date y m d" "y \<le> 9999"
  shows "parsePublishDate (pad 4 y @ ''-'' @ pad 2 m @ ''-'' @ pad 2 d) = go_date y m d 0 0 0 0"
proof -
  let ?s = "pad 4 y @ ''-'' @ pad 2 m @ ''-'' @ pad 2 d"
  have v: "1 \<le> m" "m \<le> 12" "1 \<le> d" "d \<le> days_in y m" using assms(1) by (auto simp: valid_date_def)
  have d31: "d < 100" using v by (auto simp: days_in_def split: if_splits)
  have "date_layout ?s = Some ''2006-01-02''" by (simp add: date_layout_def)
  moreover have "read_layout ''2006-01-02'' ?s new_stamp = Some (new_stamp\<lparr>st_year := y, st_month := Some m, st_day := Some d\<rparr>)"
  proof -
    have y: "digits_val 0 (pad 4 y) = Some y" using digits_val_pad [of 0 4 y] assms(2) by simp
    have a: "read_layout ''-01-02'' (''-'' @ pad 2 m @ ''-'' @ pad 2 d) (new_stamp\<lparr>st_year := y\<rparr>) =
      read_layout ''-02'' (''-'' @ pad 2 d) (new_stamp\<lparr>st_year := y, st_month := Some m\<rparr>)"
      using v getnum_pad [of m "''-'' @ pad 2 d"] by (subst read_layout.simps) (simp add: date_chunks read_chunk_def in_range_def del: next_chunk.simps)
    have b: "read_layout ''-02'' (''-'' @ pad 2 d) (new_stamp\<lparr>st_year := y, st_month := Some m\<rparr>) =
      read_layout '''' '''' (new_stamp\<lparr>st_year := y, st_month := Some m, st_day := Some d\<rparr>)"
      using d31 getnum_pad [of d "''''"] by (subst read_layout.simps) (simp add: date_chunks read_chunk_def del: next_chunk.simps)
    have c: "read_layout '''' '''' st = Some st" for st by (subst read_layout.simps) simp
    show ?thesis using y a b c by (subst read_layout.simps) (simp add: date_chunks read_chunk_def del: next_chunk.simps)
  qed
  ultimately show ?thesis using v
    by (simp add: parsePublishDate_def time_parse_def new_stamp_def seconds_def)
qed


theorem publish_date_of_day_witness:
  "parsePublishDate (pad 4 1998 @ ''-'' @ pad 2 7 @ ''-'' @ pad 2 1) = go_date 1998 7 1 0 0 0 0"
  by (rule publish_date_of_day) (simp_all add: valid_date_def days_in_def)

section \<open>Covers\<close>

lemma cover_cases:
  "bnd m f c = (Inr x, c') \<Longrightarrow> (\<And>y d. m c = (Inr y, d) \<Longrightarrow> f y d = (Inr x, c') \<Longrightarrow> P) \<Longrightarrow> P"
  by (auto simp: bnd_def split: prod.splits sum.splits)

lemma tick_keeps: "tick c = (r, c') \<Longrightarrow> tables c' = tables c"
  by (auto simp: tick_def split: list.splits if_splits)

lemma cover_present_run: "cover_present p c = (Inr b, c') \<Longrightarrow> tables c' = tables c \<and> (b \<longrightarrow> p \<in> tables c)"
  by (auto simp: cover_present_def handle_def query_def bnd_def ret_def dest!: tick_keeps split: prod.splits sum.splits)

lemma create_cover_run: "create_cover s p c = (Inr u, c') \<Longrightarrow> tables c' = insert p (tables c)"
  by (auto simp: create_cover_def wrap_err_def handle_def throw_def exec_def bnd_def ret_def dest!: tick_keeps split: prod.splits sum.splits)

lemma encode_cover_run: "encode_cover s p c = (Inr u, c') \<Longrightarrow> tables c' = tables c"
  by (auto simp: encode_cover_def handle_def throw_def bnd_def dest!: tick_keeps split: prod.splits sum.splits)

lemma covers_present:
  assumes "getBook (Some dir) loaded c = (Inr (Loads b), c')" "bk_HasCover b"
  shows "cover_file dir b \<in> tables c' \<and> thumb_file dir b \<in> tables c'"
proof -
  have same: "cover_file dir (x\<lparr>bk_HasCover := h\<rparr>) = cover_file dir x" "thumb_file dir (x\<lparr>bk_HasCover := h\<rparr>) = thumb_file dir x" for x h
    by (simp_all add: cover_file_def thumb_file_def book_ID_def)
  from assms obtain b0 picture where b: "book_cover dir (b0\<lparr>bk_HasCover := False\<rparr>) picture c = (Inr b, c')"
    by (auto simp: getBook_def ret_def handle_def bnd_def Let_def split: loading.splits option.splits prod.splits sum.splits)
  let ?b = "b0\<lparr>bk_HasCover := False\<rparr>"
  from b show ?thesis unfolding book_cover_def
  proof (elim cover_cases)
    fix x y d1 d2
    assume x: "cover_present (cover_file dir ?b) c = (Inr x, d1)" and y: "cover_present (thumb_file dir ?b) d1 = (Inr y, d2)"
      and r: "(if x \<and> y then ret (?b\<lparr>bk_HasCover := True\<rparr>)
        else (case picture of
          Inl _ \<Rightarrow> ret ?b
        | Inr _ \<Rightarrow>
            bnd (create_cover ''could not create cover file'' (cover_file dir ?b)) (\<lambda>_.
            bnd (encode_cover ''could not write cover file'' (cover_file dir ?b)) (\<lambda>_.
            bnd (create_cover ''could not create cover thumbnail file'' (thumb_file dir ?b)) (\<lambda>_.
            bnd (encode_cover ''could not write cover thumbnail file'' (cover_file dir ?b)) (\<lambda>_.
            ret (?b\<lparr>bk_HasCover := True\<rparr>))))))) d2 = (Inr b, c')"
    show ?thesis
    proof (cases "x \<and> y")
      case True
      then show ?thesis using cover_present_run [OF x] cover_present_run [OF y] r by (auto simp: ret_def same)
    next
      case False
      show ?thesis
      proof (cases picture)
        case (Inl e)
        then show ?thesis using r False assms(2) by (auto simp: ret_def)
      next
        case (Inr u)
        have "bnd (create_cover ''could not create cover file'' (cover_file dir ?b)) (\<lambda>_.
            bnd (encode_cover ''could not write cover file'' (cover_file dir ?b)) (\<lambda>_.
            bnd (create_cover ''could not create cover thumbnail file'' (thumb_file dir ?b)) (\<lambda>_.
            bnd (encode_cover ''could not write cover thumbnail file'' (cover_file dir ?b)) (\<lambda>_.
            ret (?b\<lparr>bk_HasCover := True\<rparr>))))) d2 = (Inr b, c')"
          using r False Inr by (simp only: if_False sum.case)
        then show ?thesis
          by (elim cover_cases) (auto simp: ret_def same dest!: create_cover_run encode_cover_run)
      qed
    qed
  qed
qed

text \<open>An operation touches the files \<open>T\<close> and no others, whether it fails or not.\<close>

definition touches :: "string set \<Rightarrow> 'a cover_io \<Rightarrow> bool" where
  "touches T m \<longleftrightarrow> (\<forall>c. tables (snd (m c)) - T = tables c - T)"

lemma touchesD: "touches T m \<Longrightarrow> m c = (r, c') \<Longrightarrow> q \<notin> T \<Longrightarrow> q \<in> tables c' \<longleftrightarrow> q \<in> tables c"
  unfolding touches_def by (metis DiffI DiffD1 snd_conv)

lemma touches_steps:
  "touches T (ret x)" "touches T (throw e)" "touches T tick" "touches T (query g)" "p \<in> T \<Longrightarrow> touches T (exec (\<lambda>fs. Inr (insert p fs, n)))"
  "p \<in> T \<Longrightarrow> touches T (exec (\<lambda>fs. Inr (fs - {p}, n)))"
  by (auto simp: touches_def ret_def throw_def tick_def query_def exec_def bnd_def split: list.splits sum.splits)

lemma touches_bnd: "touches T m \<Longrightarrow> (\<And>x. touches T (f x)) \<Longrightarrow> touches T (bnd m f)"
  unfolding touches_def bnd_def by (auto split: prod.splits sum.splits) (metis Diff_iff snd_conv)+

lemma touches_handle: "touches T m \<Longrightarrow> (\<And>e. touches T (h e)) \<Longrightarrow> touches T (handle m h)"
  unfolding touches_def handle_def by (auto split: prod.splits sum.splits) (metis Diff_iff snd_conv)+

lemma touches_cover: "touches {cover_file dir b, thumb_file dir b} (book_cover dir b picture)"
proof -
  let ?T = "{cover_file dir b, thumb_file dir b}"
  have if_T: "touches ?T (if x then m else m')" if "touches ?T m" "touches ?T m'" for x and m m' :: "'x cover_io" using that by simp
  have sum_T: "touches ?T (case picture of Inl e \<Rightarrow> m e | Inr u \<Rightarrow> n u)" if "\<And>e. touches ?T (m e)" "\<And>u. touches ?T (n u)"
    for m and n :: "unit \<Rightarrow> Book cover_io" using that by (cases picture) simp_all
  show ?thesis
    unfolding book_cover_def cover_present_def create_cover_def encode_cover_def drop_cover_def wrap_err_def
    by (intro touches_bnd touches_handle if_T sum_T touches_steps insertI1 insertI2)
qed

lemma touches_getBook:
  "touches {q. \<exists>b picture. loaded = Loads (Some (b, picture)) \<and> (q = cover_file dir b \<or> q = thumb_file dir b)} (getBook (Some dir) loaded)"
  (is "touches ?T _")
proof -
  have same: "cover_file dir (b\<lparr>bk_HasCover := h\<rparr>) = cover_file dir b" "thumb_file dir (b\<lparr>bk_HasCover := h\<rparr>) = thumb_file dir b" for b h
    by (simp_all add: cover_file_def thumb_file_def book_ID_def)
  show ?thesis
  proof (cases "\<exists>b picture. loaded = Loads (Some (b, Some picture))")
    case True
    then obtain b picture where l: "loaded = Loads (Some (b, Some picture))" by blast
    then have T: "?T = {cover_file dir (b\<lparr>bk_HasCover := False\<rparr>), thumb_file dir (b\<lparr>bk_HasCover := False\<rparr>)}" by (auto simp: same)
    show ?thesis unfolding T unfolding l getBook_def loading.case option.case prod.case Let_def
      by (intro touches_handle touches_bnd touches_cover touches_steps)
  qed (auto simp: getBook_def touches_steps split: loading.splits option.splits)
qed

text \<open>C39: A book that was indexed with a cover has its cover and its thumbnail in the cover directory, whatever failed on the way
  and however often it was indexed. No other file of the directory appears or goes, whatever loading the book gave and whatever
  failed: only the cover and the thumbnail of the loaded book can.\<close>

theorem indexed_covers_exist:
  assumes "getBook (Some dir) loaded c = (r, c')"
  shows "(\<forall>b. r = Inr (Loads b) \<and> bk_HasCover b \<longrightarrow> cover_file dir b \<in> tables c' \<and> thumb_file dir b \<in> tables c') \<and>
    (\<forall>q. (\<forall>b picture. loaded = Loads (Some (b, picture)) \<longrightarrow> q \<noteq> cover_file dir b \<and> q \<noteq> thumb_file dir b) \<longrightarrow>
      (q \<in> tables c' \<longleftrightarrow> q \<in> tables c))"
proof (rule conjI)
  show "\<forall>b. r = Inr (Loads b) \<and> bk_HasCover b \<longrightarrow> cover_file dir b \<in> tables c' \<and> thumb_file dir b \<in> tables c'"
    using covers_present assms by blast
  show "\<forall>q. (\<forall>b picture. loaded = Loads (Some (b, picture)) \<longrightarrow> q \<noteq> cover_file dir b \<and> q \<noteq> thumb_file dir b) \<longrightarrow>
      (q \<in> tables c' \<longleftrightarrow> q \<in> tables c)"
    using touchesD [OF touches_getBook assms] by blast
qed

definition covered_book :: Book where
  "covered_book = blank_book\<lparr>bk_Hash := ''0123456789abcdef''\<rparr>"

theorem indexed_covers_exist_witness:
  "\<exists>c'. getBook (Some ''/c'') (Loads (Some (covered_book, Some (Inr ())))) \<lparr>tables = {''/c/other.jpg''}, entropy = [], faults = []\<rparr> =
      (Inr (Loads (covered_book\<lparr>bk_HasCover := True\<rparr>)), c') \<and> cover_file ''/c'' covered_book \<in> tables c' \<and> ''/c/other.jpg'' \<in> tables c'"
proof -
  have "\<exists>c'. getBook (Some ''/c'') (Loads (Some (covered_book, Some (Inr ())))) \<lparr>tables = {''/c/other.jpg''}, entropy = [], faults = []\<rparr> =
      (Inr (Loads (covered_book\<lparr>bk_HasCover := True\<rparr>)), c')"
    by (simp add: getBook_def book_cover_def cover_present_def create_cover_def encode_cover_def wrap_err_def handle_def query_def exec_def
      tick_def bnd_def ret_def covered_book_def blank_book_def cover_file_def thumb_file_def book_ID_def path_join_def path_elems_def
      path_show_def has_prefix_def Let_def)
  then obtain c' where c: "getBook (Some ''/c'') (Loads (Some (covered_book, Some (Inr ())))) \<lparr>tables = {''/c/other.jpg''}, entropy = [], faults = []\<rparr> =
      (Inr (Loads (covered_book\<lparr>bk_HasCover := True\<rparr>)), c')" by blast
  have "cover_file ''/c'' (covered_book\<lparr>bk_HasCover := True\<rparr>) = cover_file ''/c'' covered_book"
    by (simp add: cover_file_def book_ID_def)
  moreover have "''/c/other.jpg'' \<noteq> cover_file ''/c'' covered_book" "''/c/other.jpg'' \<noteq> thumb_file ''/c'' covered_book"
    by (simp_all add: cover_file_def thumb_file_def covered_book_def book_ID_def blank_book_def path_join_def path_elems_def path_show_def has_prefix_def)
  ultimately show ?thesis using indexed_covers_exist [OF c] c by auto
qed

section \<open>An EPUB without a root file\<close>

text \<open>An EPUB whose container names no root file is not reported as an error: the loader returns no book and no error, and
  the indexer stops with a nil pointer.\<close>

theorem epub_without_rootfile_panics:
  assumes "hash_file filename f = Loads b" "et_zip t filename = Inr entries" "entries ''/META-INF/container.xml'' = Inr (Inr container)"
    "container ''//rootfiles/rootfile[@full-path]'' = Some roots" "roots = [] \<or> SelectAttrValue (last roots) ''full-path'' '''' = ''''"
  shows "load_epub t filename f = Loads None \<and> (\<exists>p. fst (getBook coverpath (Loads None) c) = Inr (Panics p))"
  using assms
  by (auto simp: load_epub_def then_load_def of_step_def FindElements_def getBook_def ret_def split: list.splits)

definition bare_epub :: epub_tools where
  "bare_epub = \<lparr>et_valid = (\<lambda>_. False), et_float = (\<lambda>_. 0), et_zip = (\<lambda>_. Inr (\<lambda>_. Inr (Inr (\<lambda>_. Some []))))\<rparr>"

theorem epub_without_rootfile_panics_witness:
  "load_epub bare_epub ''x.epub'' \<lparr>bf_open = None, bf_stat = Inr (0, 0), bf_read = ('''', None), bf_again = Inr ''''\<rparr> = Loads None"
proof -
  let ?f = "\<lparr>bf_open = None, bf_stat = Inr (0, 0), bf_read = ('''', None), bf_again = Inr ''''\<rparr>"
  obtain b where h: "hash_file ''x.epub'' ?f = Loads b" by (simp add: hash_file_def then_load_def of_step_def)
  show ?thesis
    by (rule epub_without_rootfile_panics [OF h, where t = bare_epub and coverpath = None, THEN conjunct1, of "\<lambda>_. Inr (Inr (\<lambda>_. Some []))" "\<lambda>_. Some []" "[]"])
      (simp_all add: bare_epub_def)
qed

end
