(* ===== verification/LibgenPages.thy ===== *)
theory LibgenPages
  imports Libgen GoUrl
begin

text \<open>
The pages of the LibGen mirrors (src/server/libgen.go): the request of a search, the rows of the table of results, their
links, and the link on a page of advertisements.
\<close>

section \<open>Pages\<close>

text \<open>What goquery, a parameter, finds on a page: of a cell its text, and its text without the elements \<open>font\<close>, \<open>span\<close> and
  \<open>nobr\<close>; of an anchor its reference, empty when it has none. A row of the table of results has cells and anchors.\<close>

record page_cell =
  ce_text :: string
  ce_bare :: string

record page_row =
  rw_cells :: "page_cell list"
  rw_links :: "string list"

text \<open>The answer of a mirror: a failure of the transport, or a status, the type of the content and the page.\<close>

datatype 'p page_reply = NoAnswer string | PageAnswer nat string "string + 'p"

section \<open>A row of the results\<close>

text \<open>\<open>libgenCWord\<close>, \<open>\s*c\s*\<close>, replaced by a space: the leftmost match takes all the space before the letter.\<close>

function drop_c :: "string \<Rightarrow> string" where
  "drop_c [] = []"
| "drop_c (x # xs) =
    (let t = dropWhile regexp_space (x # xs) in
     if t \<noteq> [] \<and> hd t = CHR ''c'' then CHR '' '' # drop_c (dropWhile regexp_space (tl t)) else x # drop_c xs)"
  by pat_completeness auto
termination
proof (relation "measure length")
  fix x xs and t :: string
  assume t: "t = dropWhile regexp_space (x # xs)" "t \<noteq> [] \<and> hd t = CHR ''c''"
  have "length (dropWhile regexp_space (tl t)) \<le> length (tl t)" by (rule length_dropWhile_le)
  also have "\<dots> < length t" using t(2) by simp
  also have "\<dots> \<le> length (x # xs)" unfolding t(1) by (rule length_dropWhile_le)
  finally show "(dropWhile regexp_space (tl t), x # xs) \<in> measure length" by simp
qed simp_all

definition cleanLibGenTitle :: "page_cell \<Rightarrow> string" where
  "cleanLibGenTitle c = trim_space (drop_c (join '' '' (str_fields (ce_bare c))))"

text \<open>A regular expression without regard to case: the runes of the text are folded.\<close>

definition matches_fold :: "string \<Rightarrow> string \<Rightarrow> bool" where
  "matches_fold p s \<longleftrightarrow> contains (concat (map (encode_rune \<circ> fold_rune) (runes s))) p"

definition link_kind :: "string \<Rightarrow> string" where
  "link_kind href = (if matches_fold ''get.php?md5='' href then ''get'' else if matches_fold ''ads.php?md5='' href then ''ads'' else '''')"

definition absolute_link :: "string \<Rightarrow> string \<Rightarrow> string" where
  "absolute_link base href = (if has_prefix href ''http'' then href else trim_suffix base ''/'' @ ''/'' @ trim_prefix href ''/'')"

fun row_candidates :: "string \<Rightarrow> string set \<Rightarrow> string list \<Rightarrow> (string \<times> string) list" where
  "row_candidates base seen [] = []"
| "row_candidates base seen (h # hs) =
    (let href = trim_space h; kind = link_kind href; key = kind @ ''|'' @ href in
     if href = '''' \<or> kind = '''' \<or> key \<in> seen then row_candidates base seen hs
     else (kind, absolute_link base href) # row_candidates base (insert key seen) hs)"

definition libGenRowCandidates :: "page_row \<Rightarrow> string \<Rightarrow> (string \<times> string) list" where
  "libGenRowCandidates r base = row_candidates base {} (rw_links r)"

text \<open>\<open>libgenMD5Pattern\<close> and the digits in lower case.\<close>

definition md5_digit :: "char \<Rightarrow> bool" where
  "md5_digit c \<longleftrightarrow> is_digit c \<or> c \<in> set ''abcdef''"

fun find_md5 :: "string \<Rightarrow> string option" where
  "find_md5 [] = None"
| "find_md5 (c # cs) =
    (if nocase (take 4 (c # cs)) \<noteq> ''md5='' then find_md5 cs
     else let m = nocase (take 32 (drop 3 cs)) in if length m = 32 \<and> list_all md5_digit m then Some m else find_md5 cs)"

definition row_md5 :: "(string \<times> string) list \<Rightarrow> string" where
  "row_md5 cs = (case List.map_filter (find_md5 \<circ> snd) cs of [] \<Rightarrow> '''' | m # _ \<Rightarrow> m)"

fun without :: "string \<Rightarrow> nat \<Rightarrow> string \<Rightarrow> string" where
  "without p k [] = []"
| "without p (Suc k) (c # cs) = without p k cs"
| "without p 0 (c # cs) = (if has_prefix (c # cs) p then without p (length p - 1) cs else c # without p 0 cs)"

definition cell_text :: "page_cell list \<Rightarrow> nat \<Rightarrow> string" where
  "cell_text cs i = (if i < length cs then trim_space (ce_text (cs ! i)) else '''')"

definition row_title :: "page_cell list \<Rightarrow> string" where
  "row_title cs = (let t = cleanLibGenTitle (hd cs) in if t = '''' then cell_text cs 0 else t)"

definition row_book :: "(nat \<Rightarrow> nat) \<Rightarrow> string \<Rightarrow> page_row \<Rightarrow> libgenBook" where
  "row_book lw base r =
    (let cs = rw_cells r; cands = libGenRowCandidates r base;
         (size, extension) = (if length cs = 5 then (cell_text cs 2, cell_text cs 3) else (cell_text cs 6, cell_text cs 7)) in
     \<lparr>lg_MD5 = row_md5 cands, lg_Title = row_title cs,
      lg_Authors = trim_chars (without ''(Author)'' 0 (cell_text cs 1)) ('' ,;'' @ [CHR 0x0A, CHR 0x09]),
      lg_Publisher = cell_text cs 2, lg_Year = cell_text cs 3, lg_Language = cell_text cs 4, lg_Pages = cell_text cs 5,
      lg_Size = size, lg_Extension = to_lower lw (trim_space (trim_prefix extension ''.'')), lg_Candidates = cands\<rparr>)"

text \<open>Rows without cells are skipped, and so are books without an MD5 or with one that was seen.\<close>

fun new_books :: "string set \<Rightarrow> libgenBook list \<Rightarrow> libgenBook list" where
  "new_books seen [] = []"
| "new_books seen (b # bs) =
    (if lg_MD5 b = '''' \<or> lg_MD5 b \<in> seen then new_books seen bs else b # new_books (insert (lg_MD5 b) seen) bs)"

definition listed_rows :: "page_row list \<Rightarrow> page_row list" where
  "listed_rows = filter (\<lambda>r. rw_cells r \<noteq> [])"

definition parseLibGenResults :: "(nat \<Rightarrow> nat) \<Rightarrow> string + page_row list option \<Rightarrow> string \<Rightarrow> string + libgenBook list" where
  "parseLibGenResults lw page base = (case page of
      Inl e \<Rightarrow> Inl e
    | Inr None \<Rightarrow> Inl ''libgen results table not found''
    | Inr (Some rows) \<Rightarrow> Inr (new_books {} (map (row_book lw base) (listed_rows rows))))"

section \<open>Requests\<close>

definition libgenResultCount :: int where "libgenResultCount = 25"

text \<open>The address of a search, with the keys of its query in order.\<close>

definition search_address :: "string \<Rightarrow> string \<Rightarrow> int \<Rightarrow> string" where
  "search_address base words res = trim_suffix base ''/'' @ ''/index.php?column=def&req='' @ query_escape words @
    ''&res='' @ show_int (if res \<le> 0 then libgenResultCount else res) @ ''&topics%5B%5D=l''"

definition searchLibGenMirrorCtx :: "(nat \<Rightarrow> nat) \<Rightarrow> (string \<Rightarrow> page_row list option page_reply) \<Rightarrow> string \<Rightarrow> string \<Rightarrow> int \<Rightarrow>
    string + libgenBook list" where
  "searchLibGenMirrorCtx lw get base words res =
    (if parse_url (trim_suffix base ''/'' @ ''/index.php'') = None then Inl ''invalid URL''
     else case get (search_address base words res) of
       NoAnswer e \<Rightarrow> Inl e
     | PageAnswer status ctype page \<Rightarrow>
         if status \<noteq> 200 then Inl (''mirror '' @ base @ '' returned HTTP '' @ show_nat status)
         else if \<not> contains ctype ''text/html'' then Inl (''mirror '' @ base @ '' returned '' @ ctype)
         else parseLibGenResults lw page base)"

text \<open>\<open>url.URL.ResolveReference\<close> of the link on the page, which it reads as addresses or fails, is a parameter.\<close>

definition keyed_link :: "(nat \<Rightarrow> nat) \<Rightarrow> string list \<Rightarrow> string option" where
  "keyed_link lw hrefs = List.find (\<lambda>h. contains (to_lower lw h) ''get.php?md5='' \<and> contains h ''key='') (map trim_space hrefs)"

definition resolveLibGenAdsURL :: "(nat \<Rightarrow> nat) \<Rightarrow> (string \<Rightarrow> string \<Rightarrow> string + string) \<Rightarrow> (string \<Rightarrow> string list page_reply) \<Rightarrow> string \<Rightarrow>
    string + string" where
  "resolveLibGenAdsURL lw resolve get adsURL =
    (if parse_url adsURL = None then Inl ''invalid URL''
     else case get adsURL of
       NoAnswer e \<Rightarrow> Inl e
     | PageAnswer status ctype page \<Rightarrow>
         if status \<noteq> 200 then Inl (''ads page returned HTTP '' @ show_nat status)
         else (case page of
           Inl e \<Rightarrow> Inl e
         | Inr hrefs \<Rightarrow> (case keyed_link lw hrefs of
             None \<Rightarrow> Inl ''no keyed download link on ads page''
           | Some h \<Rightarrow> if has_prefix h ''http'' then Inr h else resolve adsURL h)))"

end
