(* ===== verification/LibgenPageFacts.thy ===== *)
theory LibgenPageFacts
  imports LibgenPages
begin

text \<open>
Facts about the pages of the LibGen mirrors (src/server/libgen.go): titles, the books a page of results gives, and their links.
\<close>

section \<open>Titles\<close>

lemma drop_c_free: "CHR ''c'' \<notin> set (drop_c s)"
proof (induction s rule: drop_c.induct)
  case (2 x xs)
  define t where "t = dropWhile regexp_space (x # xs)"
  have step: "drop_c (x # xs) = (if t \<noteq> [] \<and> hd t = CHR ''c'' then CHR '' '' # drop_c (dropWhile regexp_space (tl t)) else x # drop_c xs)"
    unfolding t_def drop_c.simps(2) Let_def by (rule refl)
  show ?case
  proof (cases "t \<noteq> [] \<and> hd t = CHR ''c''")
    case True
    then show ?thesis unfolding step using 2(1) [OF t_def True] by simp
  next
    case False
    then have "x \<noteq> CHR ''c''" by (auto simp: t_def regexp_space_def)
    then show ?thesis unfolding step if_not_P [OF False] using 2(2) [OF t_def False] by simp
  qed
qed simp

lemma set_seg_bytes_part: "xs = as @ ys @ bs \<Longrightarrow> set (seg_bytes ys) \<subseteq> set (seg_bytes xs)"
  by auto

lemma set_trim_space: "set (trim_space s) \<subseteq> set s"
proof -
  obtain as bs where "segs s = as @ trim_segs is_space (segs s) @ bs" using trim_segs_split by metis
  from set_seg_bytes_part [OF this] show ?thesis by (simp add: trim_space_def)
qed

text \<open>The pattern lacks the boundaries of a word: the clean title has lost every small letter c.\<close>

lemma clean_title_without_c: "CHR ''c'' \<notin> set (cleanLibGenTitle cell)"
  using drop_c_free set_trim_space unfolding cleanLibGenTitle_def by blast

section \<open>Results\<close>

lemma find_md5_some: "find_md5 s = Some m \<Longrightarrow> length m = 32 \<and> list_all md5_digit m"
  by (induction s rule: find_md5.induct) (auto simp: Let_def split: if_splits)

lemma row_candidates_kind: "c \<in> set (row_candidates base seen hs) \<Longrightarrow> fst c \<in> {''get'', ''ads''}"
  by (induction base seen hs rule: row_candidates.induct) (auto simp: Let_def link_kind_def split: if_splits)

lemma http_trim:
  assumes "has_prefix base ''http''"
  obtains r where "trim_suffix base ''/'' = ''http'' @ r"
proof -
  obtain r where r: "base = ''http'' @ r" using assms by (metis append_take_drop_id has_prefix_def)
  show thesis
  proof (cases r)
    case Nil
    then have "trim_suffix base ''/'' = ''http'' @ []" using r by (simp add: trim_suffix_def has_suffix_def)
    then show thesis by (rule that)
  next
    case (Cons c cs)
    then have "trim_suffix base ''/'' = ''http'' @ (if has_suffix base ''/'' then take (length cs) r else r)"
      using r by (simp add: trim_suffix_def)
    then show thesis by (rule that)
  qed
qed

lemma absolute_link_http:
  assumes "has_prefix base ''http''"
  shows "has_prefix (absolute_link base href) ''http''"
proof -
  obtain r where "trim_suffix base ''/'' = ''http'' @ r" using http_trim [OF assms] .
  then show ?thesis by (simp add: absolute_link_def has_prefix_def)
qed

lemma row_candidates_http:
  "has_prefix base ''http'' \<Longrightarrow> c \<in> set (row_candidates base seen hs) \<Longrightarrow> has_prefix (snd c) ''http''"
  by (induction base seen hs rule: row_candidates.induct) (auto simp: Let_def absolute_link_http split: if_splits)

lemma new_books_new:
  "distinct (map lg_MD5 (new_books seen bs)) \<and> set (map lg_MD5 (new_books seen bs)) = set (map lg_MD5 bs) - {''''} - seen \<and>
    set (new_books seen bs) \<subseteq> set bs"
  by (induction seen bs rule: new_books.induct) auto

lemma primary_link:
  assumes "lg_Candidates b \<noteq> []" "\<And>c. c \<in> set (lg_Candidates b) \<Longrightarrow> fst c \<in> {''get'', ''ads''}"
  shows "PrimaryDownloadURL b \<in> set (lg_Candidates b)"
proof (cases "List.find (\<lambda>c. fst c = ''get'') (lg_Candidates b)")
  case (Some c)
  then have "c \<in> set (lg_Candidates b)" "fst c = ''get''" by (auto simp: find_Some_iff)
  moreover from this have "PrimaryDownloadURL b = c" using Some by (simp add: PrimaryDownloadURL_def prod_eq_iff)
  ultimately show ?thesis by simp
next
  case None
  have no_get: "\<And>c. c \<in> set (lg_Candidates b) \<Longrightarrow> fst c \<noteq> ''get''" using None by (auto simp: find_None_iff)
  obtain c cs where c: "lg_Candidates b = c # cs" using assms(1) by (cases "lg_Candidates b") auto
  then have "c \<in> set (lg_Candidates b)" "fst c = ''ads''" using assms(2) [of c] no_get [of c] by simp_all
  then obtain d where d: "List.find (\<lambda>c. fst c = ''ads'') (lg_Candidates b) = Some d"
    using find_None_iff [of "\<lambda>c. fst c = ''ads''" "lg_Candidates b"] by (metis option.exhaust)
  then have "d \<in> set (lg_Candidates b)" "fst d = ''ads''" by (auto simp: find_Some_iff)
  moreover from this have "PrimaryDownloadURL b = d" using None d by (simp add: PrimaryDownloadURL_def prod_eq_iff)
  ultimately show ?thesis by simp
qed

lemma row_md5_from: "row_md5 cs \<noteq> '''' \<Longrightarrow> cs \<noteq> [] \<and> length (row_md5 cs) = 32 \<and> list_all md5_digit (row_md5 cs)"
proof -
  assume a: "row_md5 cs \<noteq> ''''"
  then obtain m ms where m: "List.map_filter (find_md5 \<circ> snd) cs = m # ms" "row_md5 cs = m"
    by (auto simp: row_md5_def split: list.splits)
  then have "m \<in> set (List.map_filter (find_md5 \<circ> snd) cs)" by simp
  then obtain c where "c \<in> set cs" "find_md5 (snd c) = Some m" by (auto simp: List.map_filter_def)
  then show ?thesis using find_md5_some m(2) by fastforce
qed

text \<open>What a link says, read off the link alone: it leads to a download when it contains one of the two paths, and it names an MD5
  when it does and has one.\<close>

definition gets :: "string \<Rightarrow> bool" where
  "gets h \<longleftrightarrow> matches_fold ''get.php?md5='' (trim_space h) \<and> trim_space h \<noteq> ''''"

definition advertises :: "string \<Rightarrow> bool" where
  "advertises h \<longleftrightarrow> matches_fold ''ads.php?md5='' (trim_space h) \<and> trim_space h \<noteq> ''''"

definition named_md5 :: "string \<Rightarrow> string \<Rightarrow> string option" where
  "named_md5 base h = (if gets h \<or> advertises h then find_md5 (absolute_link base (trim_space h)) else None)"

text \<open>The first link of a row that names an MD5.\<close>

definition first_md5 :: "string \<Rightarrow> string list \<Rightarrow> string \<Rightarrow> bool" where
  "first_md5 base hs m \<longleftrightarrow> (\<exists>pre h post. hs = pre @ h # post \<and> named_md5 base h = Some m \<and> (\<forall>g\<in>set pre. named_md5 base g = None))"

lemma first_md5_Cons:
  "\<not> first_md5 base [] m"
  "first_md5 base (h # hs) m \<longleftrightarrow> (case named_md5 base h of Some x \<Rightarrow> m = x | None \<Rightarrow> first_md5 base hs m)"
proof -
  show "\<not> first_md5 base [] m" by (simp add: first_md5_def)
  show "first_md5 base (h # hs) m \<longleftrightarrow> (case named_md5 base h of Some x \<Rightarrow> m = x | None \<Rightarrow> first_md5 base hs m)"
    (is "?a \<longleftrightarrow> ?b")
  proof
    assume ?a
    then obtain pre g post where g: "h # hs = pre @ g # post" "named_md5 base g = Some m" "\<forall>x\<in>set pre. named_md5 base x = None"
      unfolding first_md5_def by blast
    show ?b
    proof (cases pre)
      case (Cons x xs)
      then have "first_md5 base hs m" using g unfolding first_md5_def by auto
      then show ?b using Cons g by simp
    qed (use g in simp)
  next
    assume b: ?b
    show ?a
    proof (cases "named_md5 base h")
      case None
      then obtain pre g post where "hs = pre @ g # post" "named_md5 base g = Some m" "\<forall>x\<in>set pre. named_md5 base x = None"
        using b unfolding first_md5_def by auto
      then show ?a using None unfolding first_md5_def by (intro exI [of _ "h # pre"] exI [of _ g] exI [of _ post]) simp
    next
      case (Some x)
      then show ?a using b unfolding first_md5_def by (intro exI [of _ "[]"] exI [of _ h] exI [of _ hs]) simp
    qed
  qed
qed

lemma link_kind_cases:
  "trim_space h \<noteq> '''' \<Longrightarrow> link_kind (trim_space h) = (if gets h then ''get'' else if advertises h then ''ads'' else '''')"
  by (simp add: link_kind_def gets_def advertises_def)

text \<open>The key of a link determines it.\<close>

definition link_key :: "string \<Rightarrow> string" where
  "link_key h = link_kind (trim_space h) @ ''|'' @ trim_space h"

lemma link_key_inj:
  assumes "link_key g = link_key h" "link_kind (trim_space g) \<noteq> ''''" "link_kind (trim_space h) \<noteq> ''''"
  shows "trim_space g = trim_space h"
proof -
  have "length (link_kind x) = 3" if "link_kind x \<noteq> ''''" for x using that unfolding link_kind_def by (simp split: if_splits)
  then show ?thesis using assms by (simp add: link_key_def)
qed

lemma named_cong: "trim_space g = trim_space h \<Longrightarrow> named_md5 base g = named_md5 base h"
  by (simp add: named_md5_def gets_def advertises_def)

lemma named_kind: "named_md5 base h \<noteq> None \<Longrightarrow> trim_space h \<noteq> '''' \<and> link_kind (trim_space h) \<noteq> ''''"
  by (auto simp: named_md5_def gets_def advertises_def link_kind_def split: if_splits)

lemma row_candidates_step:
  "row_candidates base seen (h # hs) =
    (if trim_space h = '''' \<or> link_kind (trim_space h) = '''' \<or> link_key h \<in> seen then row_candidates base seen hs
     else (link_kind (trim_space h), absolute_link base (trim_space h)) # row_candidates base (insert (link_key h) seen) hs)"
  by (simp add: Let_def link_key_def)

lemma row_md5_Cons: "row_md5 (c # cs) = (case find_md5 (snd c) of None \<Rightarrow> row_md5 cs | Some m \<Rightarrow> m)"
  by (simp add: row_md5_def List.map_filter_def split: option.splits)

lemma row_md5_first:
  assumes "\<forall>h. link_key h \<in> seen \<longrightarrow> named_md5 base h = None"
  shows "m \<noteq> '''' \<Longrightarrow> row_md5 (row_candidates base seen hs) = m \<longleftrightarrow> first_md5 base hs m"
  using assms
proof (induction hs arbitrary: seen)
  case Nil
  then show ?case by (simp add: first_md5_Cons row_md5_def List.map_filter_def)
next
  case (Cons h hs)
  show ?case
  proof (cases "trim_space h = '''' \<or> link_kind (trim_space h) = '''' \<or> link_key h \<in> seen")
    case True
    then have "named_md5 base h = None" using Cons.prems(2) named_kind by blast
    then show ?thesis using Cons.IH [OF Cons.prems] True unfolding row_candidates_step by (simp add: first_md5_Cons)
  next
    case False
    then have f: "find_md5 (absolute_link base (trim_space h)) = named_md5 base h"
      by (auto simp: named_md5_def link_kind_cases split: if_splits)
    have step: "row_candidates base seen (h # hs) =
        (link_kind (trim_space h), absolute_link base (trim_space h)) # row_candidates base (insert (link_key h) seen) hs"
      using False unfolding row_candidates_step by simp
    show ?thesis
    proof (cases "named_md5 base h")
      case (Some x)
      then show ?thesis unfolding step by (auto simp: row_md5_Cons f first_md5_Cons)
    next
      case None
      have "\<forall>g. link_key g \<in> insert (link_key h) seen \<longrightarrow> named_md5 base g = None"
      proof (intro allI impI)
        fix g assume g: "link_key g \<in> insert (link_key h) seen"
        show "named_md5 base g = None"
        proof (cases "link_key g = link_key h \<and> link_kind (trim_space g) \<noteq> ''''")
          case True
          then have "trim_space g = trim_space h" using link_key_inj False by blast
          then show ?thesis using None named_cong by metis
        next
          case False
          then show ?thesis using g Cons.prems(2) named_kind by blast
        qed
      qed
      from Cons.IH [OF Cons.prems(1) this] show ?thesis unfolding step by (simp add: row_md5_Cons f None first_md5_Cons)
    qed
  qed
qed

text \<open>The candidates of a row are its links, each with its kind.\<close>

lemma row_candidates_links:
  "c \<in> set (row_candidates base seen hs) \<Longrightarrow> \<exists>h\<in>set hs. trim_space h \<noteq> '''' \<and> link_kind (trim_space h) \<noteq> '''' \<and>
    c = (link_kind (trim_space h), absolute_link base (trim_space h))"
proof (induction hs arbitrary: seen)
  case (Cons h hs)
  then show ?case unfolding row_candidates_step by (auto split: if_splits)
qed simp

lemma row_candidates_all:
  "h \<in> set hs \<Longrightarrow> trim_space h \<noteq> '''' \<Longrightarrow> link_kind (trim_space h) \<noteq> '''' \<Longrightarrow> link_key h \<notin> seen \<Longrightarrow>
    (link_kind (trim_space h), absolute_link base (trim_space h)) \<in> set (row_candidates base seen hs)"
proof (induction hs arbitrary: seen)
  case (Cons g hs)
  show ?case
  proof (cases "link_key g = link_key h \<and> link_kind (trim_space g) \<noteq> ''''")
    case True
    then have "trim_space g = trim_space h" using link_key_inj Cons.prems(3) by blast
    then show ?thesis using Cons.prems True unfolding row_candidates_step by simp
  next
    case False
    then have "h \<in> set hs \<or> link_kind (trim_space g) = ''''" "h \<in> set hs" using Cons.prems by auto
    then show ?thesis using Cons.IH [of seen] Cons.IH [of "insert (link_key g) seen"] Cons.prems False
      unfolding row_candidates_step by auto
  qed
qed simp

text \<open>The primary link of a book is a link of its row, to get.php whenever there is one.\<close>

lemma primary_of_row:
  assumes links: "lg_Candidates b = row_candidates base {} hs" and ne: "lg_Candidates b \<noteq> []"
  shows "PrimaryDownloadURL b \<in> set (row_candidates base {} hs)"
    and "\<exists>h\<in>set hs. snd (PrimaryDownloadURL b) = absolute_link base (trim_space h) \<and>
      (if \<exists>g\<in>set hs. gets g then fst (PrimaryDownloadURL b) = ''get'' \<and> gets h
       else fst (PrimaryDownloadURL b) = ''ads'' \<and> advertises h)"
proof -
  have kinds: "d \<in> set (lg_Candidates b) \<Longrightarrow> fst d \<in> {''get'', ''ads''}" for d
    unfolding links by (rule row_candidates_kind)
  show p: "PrimaryDownloadURL b \<in> set (row_candidates base {} hs)" using primary_link [OF ne kinds] unfolding links .
  from row_candidates_links [OF p] obtain h where h: "h \<in> set hs" "trim_space h \<noteq> ''''"
    "PrimaryDownloadURL b = (link_kind (trim_space h), absolute_link base (trim_space h))" "link_kind (trim_space h) \<noteq> ''''" by blast
  have get: "fst (PrimaryDownloadURL b) = ''get''" if g: "g \<in> set hs" "gets g" for g
  proof -
    have g2: "trim_space g \<noteq> ''''" "link_kind (trim_space g) = ''get''" using g(2) by (simp_all add: gets_def link_kind_def)
    have "(''get'', absolute_link base (trim_space g)) \<in> set (lg_Candidates b)"
      unfolding links using row_candidates_all [OF g(1) g2(1), of "{}" base] g2(2) by simp
    then obtain c where "List.find (\<lambda>c. fst c = ''get'') (lg_Candidates b) = Some c"
      using find_None_iff [of "\<lambda>c. fst c = ''get''" "lg_Candidates b"] by (metis fst_conv option.exhaust)
    then show ?thesis by (simp add: PrimaryDownloadURL_def)
  qed
  have "if \<exists>g\<in>set hs. gets g then fst (PrimaryDownloadURL b) = ''get'' \<and> gets h
      else fst (PrimaryDownloadURL b) = ''ads'' \<and> advertises h"
    using get h link_kind_cases [OF h(2)] by (auto split: if_splits)
  then show "\<exists>h\<in>set hs. snd (PrimaryDownloadURL b) = absolute_link base (trim_space h) \<and>
      (if \<exists>g\<in>set hs. gets g then fst (PrimaryDownloadURL b) = ''get'' \<and> gets h
       else fst (PrimaryDownloadURL b) = ''ads'' \<and> advertises h)"
    using h(1,3) by (intro bexI [of _ h] conjI) simp_all
qed

text \<open>C40: Every book found on a page of results can be named and fetched. The MD5s of the books are, each once, those that the
  rows with cells are known by: of the links of a row that lead to get.php or ads.php, the first with an MD5 gives it, 32 lower-case
  hexadecimal digits. The download link of a book is one of the links of such a row, made absolute against the mirror: one to
  get.php whenever the row has one, else one to ads.php.\<close>

theorem results_are_identified:
  assumes "parseLibGenResults lw (Inr (Some rows)) base = Inr bs" "has_prefix base ''http''"
  shows "distinct (map lg_MD5 bs) \<and>
    set (map lg_MD5 bs) = {m. \<exists>r\<in>set rows. rw_cells r \<noteq> [] \<and> first_md5 base (rw_links r) m} \<and>
    (\<forall>b\<in>set bs. length (lg_MD5 b) = 32 \<and> list_all md5_digit (lg_MD5 b) \<and>
      (\<exists>r\<in>set rows. rw_cells r \<noteq> [] \<and> first_md5 base (rw_links r) (lg_MD5 b) \<and>
        (\<exists>h\<in>set (rw_links r). snd (PrimaryDownloadURL b) = absolute_link base (trim_space h) \<and>
          (if \<exists>g\<in>set (rw_links r). gets g then fst (PrimaryDownloadURL b) = ''get'' \<and> gets h
           else fst (PrimaryDownloadURL b) = ''ads'' \<and> advertises h))) \<and>
      has_prefix (snd (PrimaryDownloadURL b)) ''http'')"
proof (intro conjI ballI)
  have bs: "bs = new_books {} (map (row_book lw base) (listed_rows rows))" using assms(1) by (simp add: parseLibGenResults_def)
  have md5: "lg_MD5 (row_book lw base r) = row_md5 (row_candidates base {} (rw_links r))"
    and links: "lg_Candidates (row_book lw base r) = row_candidates base {} (rw_links r)" for r
    by (simp_all add: row_book_def Let_def libGenRowCandidates_def split: prod.splits)
  have first: "m \<noteq> '''' \<Longrightarrow> lg_MD5 (row_book lw base r) = m \<longleftrightarrow> first_md5 base (rw_links r) m" for r m
    unfolding md5 by (rule row_md5_first) simp_all
  note new = new_books_new [of "{}" "map (row_book lw base) (listed_rows rows)", folded bs]
  show "distinct (map lg_MD5 bs)" using new by simp
  have "set (map lg_MD5 bs) = (lg_MD5 \<circ> row_book lw base) ` set (listed_rows rows) - {''''}" using new by simp
  also have "\<dots> = {m. \<exists>r\<in>set rows. rw_cells r \<noteq> [] \<and> first_md5 base (rw_links r) m}" (is "?l = ?r")
  proof (rule set_eqI)
    fix m
    have ne: "m \<noteq> ''''" if "first_md5 base hs m" for hs
    proof
      assume "m = ''''"
      with that obtain h where "named_md5 base h = Some ''''" unfolding first_md5_def by blast
      then show False using find_md5_some [of "absolute_link base (trim_space h)" "''''"] by (simp add: named_md5_def split: if_splits)
    qed
    have "m \<in> ?l \<longleftrightarrow> m \<noteq> '''' \<and> (\<exists>r\<in>set rows. rw_cells r \<noteq> [] \<and> lg_MD5 (row_book lw base r) = m)"
      unfolding listed_rows_def by auto
    also have "\<dots> \<longleftrightarrow> m \<in> ?r" using first ne by blast
    finally show "m \<in> ?l \<longleftrightarrow> m \<in> ?r" .
  qed
  finally show all: "set (map lg_MD5 bs) = {m. \<exists>r\<in>set rows. rw_cells r \<noteq> [] \<and> first_md5 base (rw_links r) m}" .
  fix b
  assume b: "b \<in> set bs"
  then have "b \<in> row_book lw base ` set (listed_rows rows)" using new by auto
  then obtain r where r: "b = row_book lw base r" "r \<in> set rows" "rw_cells r \<noteq> []" unfolding listed_rows_def by auto
  have "lg_MD5 b \<noteq> ''''" using b new by fastforce
  then have f: "first_md5 base (rw_links r) (lg_MD5 b)" using first [OF \<open>lg_MD5 b \<noteq> []\<close>, of r] r(1) by blast
  from row_md5_from [of "row_candidates base {} (rw_links r)"] \<open>lg_MD5 b \<noteq> ''''\<close>
  have c: "lg_Candidates b \<noteq> []" "length (lg_MD5 b) = 32" "list_all md5_digit (lg_MD5 b)" unfolding r(1) md5 links by simp_all
  show "length (lg_MD5 b) = 32" "list_all md5_digit (lg_MD5 b)" by (fact c)+
  note primary = primary_of_row [of b base "rw_links r", OF _ c(1), unfolded r(1), OF links, folded r(1)]
  show "has_prefix (snd (PrimaryDownloadURL b)) ''http''" by (rule row_candidates_http [OF assms(2) primary(1)])
  show "\<exists>r\<in>set rows. rw_cells r \<noteq> [] \<and> first_md5 base (rw_links r) (lg_MD5 b) \<and>
      (\<exists>h\<in>set (rw_links r). snd (PrimaryDownloadURL b) = absolute_link base (trim_space h) \<and>
        (if \<exists>g\<in>set (rw_links r). gets g then fst (PrimaryDownloadURL b) = ''get'' \<and> gets h
         else fst (PrimaryDownloadURL b) = ''ads'' \<and> advertises h))"
    using r(2,3) f primary(2) by (intro bexI [of _ r] conjI) simp_all
qed

definition sample_row :: page_row where
  "sample_row = \<lparr>rw_cells = [\<lparr>ce_text = ''The Hidden Sea'', ce_bare = ''The Hidden Sea''\<rparr>],
    rw_links = ['' /get.php?md5=0123456789ABCDEF0123456789ABCDEF'']\<rparr>"

lemma matches_fold_ascii: "ascii s \<Longrightarrow> matches_fold p s = contains (nocase s) p"
proof -
  assume a: "ascii s"
  have "concat (map (encode_rune \<circ> fold_rune) (map of_char s)) = nocase s"
    using a by (induction s) (auto simp: nocase_def nocase_byte_def ascii_lower_def fold_rune_def encode_rune_def)
  then show ?thesis using a by (simp add: matches_fold_def runes_def segs_ascii comp_def)
qed

lemma sample_candidates:
  "libGenRowCandidates sample_row ''https://m.example'' = [(''get'', ''https://m.example/get.php?md5=0123456789ABCDEF0123456789ABCDEF'')]"
proof -
  let ?h = "''/get.php?md5=0123456789ABCDEF0123456789ABCDEF''"
  have t: "trim_space (CHR '' '' # ?h) = ?h" by (simp add: trim_space_ascii trim_ascii_def is_space_def)
  have "contains (nocase ?h) ''get.php?md5=''" by code_simp
  then have k: "link_kind ?h = ''get''" by (simp add: link_kind_def matches_fold_ascii del: contains.simps)
  have l: "absolute_link ''https://m.example'' ?h = ''https://m.example'' @ ?h"
    by (simp add: has_prefix_def absolute_link_def trim_suffix_def has_suffix_def trim_prefix_def)
  show ?thesis unfolding libGenRowCandidates_def sample_row_def page_row.simps row_candidates.simps Let_def t k l by simp
qed

lemma sample_md5: "row_md5 (libGenRowCandidates sample_row ''https://m.example'') = ''0123456789abcdef0123456789abcdef''"
  unfolding sample_candidates
  by code_simp

theorem results_are_identified_witness:
  "\<exists>b. parseLibGenResults id (Inr (Some [sample_row])) ''https://m.example'' = Inr [b] \<and> lg_MD5 b = ''0123456789abcdef0123456789abcdef'' \<and>
    snd (PrimaryDownloadURL b) = ''https://m.example/get.php?md5=0123456789ABCDEF0123456789ABCDEF''"
proof -
  let ?b = "row_book id ''https://m.example'' sample_row" and ?h = "''/get.php?md5=0123456789ABCDEF0123456789ABCDEF''"
  have m: "lg_MD5 ?b = ''0123456789abcdef0123456789abcdef''" using sample_md5 by (simp add: row_book_def Let_def split: prod.splits)
  have p: "parseLibGenResults id (Inr (Some [sample_row])) ''https://m.example'' = Inr [?b]"
    by (simp add: parseLibGenResults_def listed_rows_def m) (simp add: sample_row_def)
  have base: "has_prefix ''https://m.example'' ''http''" by (simp add: has_prefix_def)
  have "trim_space (CHR '' '' # ?h) = ?h" by (simp add: trim_space_ascii trim_ascii_def is_space_def)
  moreover have "absolute_link ''https://m.example'' ?h = ''https://m.example'' @ ?h"
    by (simp add: has_prefix_def absolute_link_def trim_suffix_def has_suffix_def trim_prefix_def)
  moreover have "rw_links sample_row = [CHR '' '' # ?h]" by (simp add: sample_row_def)
  moreover from results_are_identified [OF p base] have "\<exists>h\<in>set (rw_links sample_row). snd (PrimaryDownloadURL ?b) = absolute_link ''https://m.example'' (trim_space h)"
    by auto
  ultimately have "snd (PrimaryDownloadURL ?b) = ''https://m.example'' @ ?h" by simp
  then show ?thesis using p m by simp
qed

end
