(* ===== verification/Startup.thy ===== *)
theory Startup
  imports LibraryOps Json
begin

text \<open>
The start of the server (src/bookbrowser.go): directories and flags, what is refused, what is removed when the server is
stopped, the first indexing and the check for a newer version.
\<close>

section \<open>Flags and the host\<close>

record start_flags =
  fl_bookdir :: string
  fl_tempdir :: string
  fl_addr :: string
  fl_nocovers :: bool
  fl_health :: string
  fl_help :: bool
  fl_version :: bool
  fl_rest :: "string list"

text \<open>What the operating system answers: the working directory, the temporary directory it made, whether a path exists
  (\<open>None\<close> for another error), absolute paths and the address of the host. The parser of flags, given the two default
  directories, is a parameter.\<close>

record host =
  ho_getwd :: "string + string"
  ho_temp :: "string option"
  ho_flags :: "string \<Rightarrow> string \<Rightarrow> string + start_flags"
  ho_exists :: "string \<Rightarrow> bool option"
  ho_abs :: "string \<Rightarrow> string + string"
  ho_ip :: "string option"

text \<open>The process exits with a code and what it printed last, or serves.\<close>

record serving =
  sp_addr :: string
  sp_bookdir :: string
  sp_tempdir :: string
  sp_nocovers :: bool
  sp_health :: string
  sp_keep :: bool
  sp_made :: "string option"
  sp_notice :: "string option"

datatype start = Exits nat string | Serves serving

definition fatal :: "string \<Rightarrow> start" where
  "fatal message = Exits 1 (message @ [CHR 0x0A])"

section \<open>Starting\<close>

definition default_temp :: "host \<Rightarrow> string \<Rightarrow> string" where
  "default_temp h workdir = (case ho_temp h of Some d \<Rightarrow> d | None \<Rightarrow> path_join [workdir, ''_temp''])"

text \<open>The temporary directory is kept when it is there at the start and is not the default one.\<close>

definition keep_temp :: "host \<Rightarrow> string \<Rightarrow> string \<Rightarrow> bool" where
  "keep_temp h deftemp tempdir \<longleftrightarrow> ho_exists h tempdir = Some True \<and> tempdir \<noteq> deftemp"

definition notice :: "host \<Rightarrow> string \<Rightarrow> string option" where
  "notice h addr = (case cut_char CHR '':'' addr of
      (a, Some port) \<Rightarrow> if a = '''' then map_option (\<lambda>ip. ''This server can be accessed at http://'' @ ip @ '':'' @ port) (ho_ip h) else None
    | _ \<Rightarrow> None)"

definition start_serving :: "host \<Rightarrow> string \<Rightarrow> start_flags \<Rightarrow> start" where
  "start_serving h deftemp f =
    (if ho_exists h (fl_bookdir f) = Some False then fatal (''Error: book directory '' @ fl_bookdir f @ '' does not exist'')
     else case ho_abs h (fl_bookdir f) of
       Inl e \<Rightarrow> fatal (''Error: could not resolve book directory : '' @ e)
     | Inr bookdir \<Rightarrow> (case ho_abs h (fl_tempdir f) of
         Inl e \<Rightarrow> fatal (''Error: could not resolve temp directory : '' @ e)
       | Inr tempdir \<Rightarrow>
           if CHR '':'' \<notin> set (fl_addr f) then fatal ''Error: invalid listening address''
           else Serves \<lparr>sp_addr = fl_addr f, sp_bookdir = bookdir, sp_tempdir = tempdir, sp_nocovers = fl_nocovers f, sp_health = fl_health f,
             sp_keep = keep_temp h deftemp (fl_tempdir f),
             sp_made = (if ho_exists h (fl_tempdir f) = Some False then Some (fl_tempdir f) else None),
             sp_notice = notice h (fl_addr f)\<rparr>))"

text \<open>\<open>usage\<close> is what pflag prints of the flags.\<close>

definition start_main :: "string \<Rightarrow> string \<Rightarrow> host \<Rightarrow> start" where
  "start_main version usage h = (case ho_getwd h of
      Inl e \<Rightarrow> fatal (''Fatal error: '' @ e)
    | Inr workdir \<Rightarrow>
        let deftemp = default_temp h workdir in
        (case ho_flags h workdir deftemp of
          Inl e \<Rightarrow> Exits 2 e
        | Inr f \<Rightarrow>
            if fl_version f then Exits 0 (''BookBrowser '' @ version @ [CHR 0x0A])
            else if fl_help f \<or> fl_rest f \<noteq> [] then Exits 1 usage
            else start_serving h deftemp f))"

text \<open>The handler of signals closes the store and removes the temporary directory unless it is kept.\<close>

definition removed_on_exit :: "serving \<Rightarrow> string option" where
  "removed_on_exit p = (if sp_keep p then None else Some (sp_tempdir p))"

text \<open>After the first indexing an empty library ends the process.\<close>

definition after_first_index :: "Book list \<Rightarrow> serving \<Rightarrow> start" where
  "after_first_index bs p = (if bs = [] then fatal ''Fatal error: no books found'' else Serves p)"

section \<open>A newer version\<close>

text \<open>The reply of the server of releases: a failure, or the status and the body with the error that ends it. What is logged.\<close>

definition checkUpdate :: "string \<Rightarrow> (string + nat \<times> string \<times> string option) \<Rightarrow> string option" where
  "checkUpdate version r = (case r of
      Inr (status, body, None) \<Rightarrow>
        if status \<noteq> 200 then None
        else (case json_read body of
          None \<Rightarrow> None
        | Some v \<Rightarrow> (case members False [] v of
            None \<Rightarrow> None
          | Some kvs \<Rightarrow> (case (string_field ''html_url'' kvs, string_field ''tag_name'' kvs) of
              (Some url, Some tag) \<Rightarrow>
                if version \<noteq> ''dev'' \<and> \<not> has_prefix version tag
                then Some (''Running version '' @ version @ ''. Latest version is '' @ tag @ '': '' @ url @ [CHR 0x0A]) else None
            | _ \<Rightarrow> None)))
    | _ \<Rightarrow> None)"

section \<open>What is removed\<close>

lemma serving_cases:
  assumes "start_main version usage h = Serves p"
  obtains workdir f where "ho_getwd h = Inr workdir" "ho_flags h workdir (default_temp h workdir) = Inr f"
    "\<not> fl_version f" "\<not> fl_help f" "fl_rest f = []" "ho_exists h (fl_bookdir f) \<noteq> Some False"
    "ho_abs h (fl_bookdir f) = Inr (sp_bookdir p)" "ho_abs h (fl_tempdir f) = Inr (sp_tempdir p)"
    "sp_addr p = fl_addr f" "CHR '':'' \<in> set (sp_addr p)" "sp_keep p = keep_temp h (default_temp h workdir) (fl_tempdir f)"
  using assms by (auto simp: start_main_def start_serving_def fatal_def Let_def split: sum.splits if_splits)

text \<open>A directory that is removed when the server stops was the default one or was not seen at the start.\<close>

lemma removed_directory:
  assumes "start_main version usage h = Serves p" "removed_on_exit p = Some d"
  shows "\<exists>workdir t. ho_getwd h = Inr workdir \<and> ho_abs h t = Inr d \<and> (t = default_temp h workdir \<or> ho_exists h t \<noteq> Some True)"
proof (rule serving_cases [OF assms(1)])
  fix workdir f
  assume "ho_getwd h = Inr workdir" "ho_abs h (fl_tempdir f) = Inr (sp_tempdir p)"
    "sp_keep p = keep_temp h (default_temp h workdir) (fl_tempdir f)"
  then show ?thesis using assms(2) by (auto simp: removed_on_exit_def keep_temp_def split: if_splits)
qed

end
