(* ===== verification/Spec2Isabelle.thy ===== *)
theory Spec2Isabelle
  imports LibraryFacts ReadingFacts RequestFacts AlertFacts SchemaFacts StoreMachine Books SettingsFacts LimiterFacts CliListFacts LoaderFacts LibgenPageFacts Startup
begin

text \<open>
  BookBrowser is a library on the web, written in Go. An indexer reads the books of a directory
  (src/indexer, src/formats, src/booklist, src/util); a SQLite store keeps accounts, sessions, API tokens, reading lists,
  notes, requests, claims and system messages (src/auth); an HTTP layer answers pages and a JSON API and checks every
  request against the store (src/server); src/bookbrowser.go starts it. A command-line client (src/cli) uses the API.
  This library models these parts as functions on explicit states and proves what makes them correct.

  \<^bold>\<open>Conventions.\<close> Definitions have the names of the source, in the order of the source, with a suffix or another name
  where two clash. A Go string is a \<open>string\<close> of bytes; runes are decoded from it. Every \<open>int\<close> that can overflow is wrapped
  at 64 bits; a \<open>float64\<close> is its bits; a time is a number of nanoseconds. An error is a value: \<open>err\<close> in the store, the
  texts of the source elsewhere. A panic is a value, too. An operation takes its state and gives it back: \<open>io\<close> (Io)
  for the store and the files, \<open>act\<close> (Http) for handlers, \<open>cmd\<close> (CliClient) for commands.

  \<^bold>\<open>Ground.\<close>
  Prelude: named collections of rules, types, select, update and delete on tables.
  GoStrings, GoNet, GoUrl, GoTime, GoSort, Json, JsonText, Encoding: what the program uses of Go's library: strings,
  unicode/utf8, strconv, net, net/url, path/filepath, time, sort, encoding/json and base64, SHA-1, SHA-256 and HMAC, with
  the round trips the properties need.
  Io: statements that may fail. A state carries the tables or files, the bytes the random source will give, and a schedule
  of faults; each statement consumes one entry of the schedule, so that a property that holds for every schedule holds
  whatever fails. Its elimination rules carry the proofs.

  \<^bold>\<open>The store (src/auth).\<close>
  Tables: the rows of the tables at schema version 11 and their constraints (the locale \<open>table\<close>, interpreted for each).
  AuthCore: roles, names, password hashes (the locale \<open>digest\<close>). Accounts, Sessions, PersonalLibrary, Reading, Requests, Alerts:
  the operations of auth/sqlite.go, auth/library.go and auth/reading.go, one definition each. Schema, SchemaShape: the
  eleven migrations as transactions on a catalogue with rows.
  AccountFacts, SessionFacts (locale \<open>credentials\<close>, for sessions and tokens), LibraryFacts and ReadingFacts (locale
  \<open>private_action\<close>, for every operation on what a reader owns), RequestFacts, AlertFacts, SchemaFacts: who can sign in, what a
  credential resolves to and when it stops, privacy, the abstract sets lists implement, round trips of what is stored,
  all-or-nothing updates, upgrades under faults.
  StoreMachine: every writing call as a step; in each reachable database the constraints hold, there is one row of settings,
  content is well formed, an administrator is active once there are accounts, and a settled claim stays as it is.

  \<^bold>\<open>Books (src/booklist, src/indexer, src/formats, src/util).\<close>
  Books: the nine orders, authors and series, Refresh, the registry of formats. The orders are the stable sort of GoSort.
  Loaders, LoaderFacts: the loaders of EPUB, MOBI and PDF files, the covers and \<open>getBook\<close>.

  \<^bold>\<open>The server (src/server).\<close>
  Http: requests, replies, cookies, client addresses, access to pages. Google: verification of ID tokens. WebAuth: the forms
  and the limiter of failed attempts. ApiAuth: bearer tokens and the challenges of the browser sign-in, whose interleavings
  are the steps of \<open>cli_step\<close>. LimiterFacts: how many passwords the form and the API let a client try, by the potential of its
  entry in the limiter, for sign-ins served one after the other. WebLibrary, WebReading, WebCatalogue, WebAdmin, WebRequests, WebAlerts, ApiCatalogue: the handlers,
  file by file. LibraryOps, Paths, UploadFacts: uploads and removals on the files of the library, and
  clean absolute paths. Libgen, LibgenPages, LibgenFacts,
  LibgenPageFacts: books from mirrors. Router, RouterFacts, SettingsFacts: the table of routes, one request as a step, and what
  holds on every route: forged forms change nothing that lasts, settings need an administrator.

  \<^bold>\<open>The client (src/cli).\<close>
  CliProfiles, CliProfileFacts: the files of profiles and the pointer to the current one. CliConfig: flags, environment and
  file, and the origin they select. CliClient: HTTP. CliLogin, CliSession, CliBooks, CliAdmin: every command, exit codes, \<open>Run\<close>.
  CliFacts, CliListFacts: a triple \<open>logs\<close> on the calls a command makes (rules in \<open>logging\<close>), from which follow that no
  command calls a server over plain HTTP, that a new token is stored or revoked, that challenges are closed and that signing out
  revokes first; and the listing of books page by page.

  \<^bold>\<open>The start (src/bookbrowser.go).\<close> Startup: directories, flags, what is removed at the end, the check for a newer version.

  \<^bold>\<open>Bounds.\<close> The decoder of JSON stops at the depth of 10000 of encoding/json; its fuel is twice the length of the text plus one, and more
  fuel gives the same value (Json). \<open>os.CreateTemp\<close> tries 10000 names and then fails, as in Go. Two loops of the client are ended by the
  server or the context only: polling and paging; \<open>w_patience\<close> is the number of rounds after which the context is done, the
  claims hold for every value of it, and the one on listing assumes as many rounds as there are pages. The search for a free file
  name may run for ever and is an option; it is proved when it ends.

  \<^bold>\<open>Choices.\<close> Rows with equal keys of an \<open>ORDER BY\<close> come in the order of the table, and \<open>sort.Slice\<close> is taken as stable. The store
  has one connection, so that its calls do not interleave. The clock is read once per request or statement, as a
  parameter. A redirect is the URL before http.Redirect cleans it. A failed \<open>FormValue\<close> is not reported by a later \<open>ParseForm\<close>.
  Printed JSON does not tell a nil slice or map from an empty one.

  \<^bold>\<open>Parameters.\<close> Code outside src/ is a parameter: httprouter's matching, pflag, etree, zip, the reader of MOBI, image codecs, isbn,
  goquery, zglob, ebook-convert, RSA keys over the network, HTTP transports, and of the standard library the tables of Unicode,
  strconv.ParseFloat, strconv.Quote, time zones and time stamps that are printed, mime.ParseMediaType and ResolveReference.

  \<^bold>\<open>Not modelled.\<close> Templates, style sheets, scripts and the packed copy of them (src/public); range requests of
  http.ServeContent; the ticker of the monitor, listeners, signals and goroutines beyond the orders of events given above;
  initAuth and NewServer, which open files and build records; replaceFile on Windows and openBrowser, calls of the
  system; logging.
\<close>

end
